(* ===== verification/Prelude.thy ===== *)
theory Prelude
  imports Main "HOL-Library.Char_ord" "HOL-Library.List_Lexorder" "HOL-Library.Product_Lexorder"
    "HOL-Library.AList"
begin

text \<open>
  Shared vocabulary of the development: fallible stateful operations, JSON documents as the
  wire handlers receive them, insertion-ordered dictionaries, and the generic lemmas on lists
  and dictionaries that the component theories use.

  A Python method that may raise and may mutate its object is an operation
  \<open>'s \<Rightarrow> ('e + 'a) \<times> 's\<close>: the first component is the exception or the returned value, the
  second the state it leaves behind. An exception does not undo what was mutated before it.
\<close>

section \<open>Fallible stateful operations\<close>

type_synonym timestamp = string
type_synonym ('s, 'e, 'a) op = "'s \<Rightarrow> ('e + 'a) \<times> 's"

definition ret :: "'a \<Rightarrow> ('s, 'e, 'a) op" where
  "ret v s = (Inr v, s)"

definition raise :: "'e \<Rightarrow> ('s, 'e, 'a) op" where
  "raise e s = (Inl e, s)"

definition bindS :: "('s, 'e, 'a) op \<Rightarrow> ('a \<Rightarrow> ('s, 'e, 'b) op) \<Rightarrow> ('s, 'e, 'b) op" where
  "bindS m f s = (case m s of (Inl e, s') \<Rightarrow> (Inl e, s') | (Inr v, s') \<Rightarrow> f v s')"

definition catchS :: "('s, 'e, 'a) op \<Rightarrow> ('e \<Rightarrow> ('s, 'f, 'a) op) \<Rightarrow> ('s, 'f, 'a) op" where
  "catchS m h s = (case m s of (Inl e, s') \<Rightarrow> h e s' | (Inr v, s') \<Rightarrow> (Inr v, s'))"

definition mapE :: "('e \<Rightarrow> 'f) \<Rightarrow> ('s, 'e, 'a) op \<Rightarrow> ('s, 'f, 'a) op" where
  "mapE g m = catchS m (\<lambda>e. raise (g e))"

definition guardS :: "bool \<Rightarrow> 'e \<Rightarrow> ('s, 'e, unit) op" where
  "guardS b e = (if b then ret () else raise e)"

text \<open>
  \<open>transact\<close> is Python's \<open>with connection:\<close> block over a database: an exception rolls back
  the block's own statements.
\<close>

definition transact :: "('s, 'e, 'a) op \<Rightarrow> ('s, 'e, 'a) op" where
  "transact body s = (case body s of (Inl e, s') \<Rightarrow> (Inl e, s) | (Inr v, s') \<Rightarrow> (Inr v, s'))"

named_theorems op_simps

lemma ret_run [op_simps]: "ret v s = (Inr v, s)"
  by (simp add: ret_def)

lemma raise_run [op_simps]: "raise e s = (Inl e, s)"
  by (simp add: raise_def)

lemma bindS_ret [op_simps]: "bindS (ret v) f = f v"
  by (simp add: bindS_def ret_def fun_eq_iff)

lemma bindS_raise [op_simps]: "bindS (raise e) f = raise e"
  by (simp add: bindS_def raise_def fun_eq_iff)

lemma bindS_ok: "m s = (Inr v, s') \<Longrightarrow> bindS m f s = f v s'"
  by (simp add: bindS_def)

lemma bindS_err: "m s = (Inl e, s') \<Longrightarrow> bindS m f s = (Inl e, s')"
  by (simp add: bindS_def)

lemma bindS_InrE [elim!]:
  assumes "bindS m f s = (Inr w, t)"
  obtains v s' where "m s = (Inr v, s')" and "f v s' = (Inr w, t)"
  using assms by (auto simp: bindS_def split: prod.splits sum.splits)

lemma bindS_InlE:
  assumes "bindS m f s = (Inl e, t)"
  obtains "m s = (Inl e, t)" | v s' where "m s = (Inr v, s')" and "f v s' = (Inl e, t)"
  using assms by (auto simp: bindS_def split: prod.splits sum.splits)

lemma guardS_True [op_simps]: "guardS True e = ret ()"
  by (simp add: guardS_def)

lemma guardS_False [op_simps]: "guardS False e = raise e"
  by (simp add: guardS_def)

lemma guardS_InrD [dest!]: "guardS b e s = (Inr u, t) \<Longrightarrow> b \<and> t = s"
  by (auto simp: guardS_def ret_def raise_def split: if_splits)

lemma transact_ok: "body s = (Inr v, s') \<Longrightarrow> transact body s = (Inr v, s')"
  by (simp add: transact_def)

lemma transact_err: "body s = (Inl e, s') \<Longrightarrow> transact body s = (Inl e, s)"
  by (simp add: transact_def)

lemma transact_Inr_iff: "transact body s = (Inr v, t) \<longleftrightarrow> body s = (Inr v, t)"
  by (auto simp: transact_def split: prod.splits sum.splits)

section \<open>What an operation may change\<close>

text \<open>
  \<open>framed R m\<close>: whatever \<open>m\<close> answers, the state it leaves is related by \<open>R\<close> to the state
  it found. For a preorder \<open>R\<close> the rules below reduce it to the leaves of the operation.
\<close>

definition framed :: "('s \<Rightarrow> 's \<Rightarrow> bool) \<Rightarrow> ('s, 'e, 'a) op \<Rightarrow> bool" where
  "framed R m \<longleftrightarrow> (\<forall>s. R s (snd (m s)))"

lemma framedI: "(\<And>s. R s (snd (m s))) \<Longrightarrow> framed R m"
  by (simp add: framed_def)

lemma framedD: "framed R m \<Longrightarrow> m s = (r, s') \<Longrightarrow> R s s'"
  unfolding framed_def by (metis snd_conv)

lemma framed_bind:
  assumes "transp R" and "framed R m" and "\<And>v. framed R (f v)"
  shows "framed R (bindS m f)"
proof (rule framedI)
  fix s
  obtain r t where m: "m s = (r, t)" by (cases "m s")
  then have "R s t" by (rule framedD [OF assms(2)])
  moreover have "R t (snd (f v t))" for v using assms(3) by (simp add: framed_def)
  ultimately show "R s (snd (bindS m f s))"
    using m transpD [OF assms(1)] by (cases r) (auto simp: bindS_def)
qed

lemma framed_transact: "reflp R \<Longrightarrow> framed R m \<Longrightarrow> framed R (transact m)"
  by (auto simp: framed_def transact_def reflp_def split: prod.split sum.split) (metis snd_conv)

lemma framed_ret: "reflp R \<Longrightarrow> framed R (ret v)"
  by (simp add: framed_def ret_def reflp_def)

lemma framed_raise: "reflp R \<Longrightarrow> framed R (raise e)"
  by (simp add: framed_def raise_def reflp_def)

lemma framed_if:
  "(b \<Longrightarrow> framed R x) \<Longrightarrow> (\<not> b \<Longrightarrow> framed R y) \<Longrightarrow> framed R (if b then x else y)"
  by simp

lemma framed_option:
  "(v = None \<Longrightarrow> framed R x) \<Longrightarrow> (\<And>y. v = Some y \<Longrightarrow> framed R (f y)) \<Longrightarrow>
     framed R (case v of None \<Rightarrow> x | Some y \<Rightarrow> f y)"
  by (simp split: option.split)

lemmas framed_rules = framed_if framed_option framed_bind framed_transact framed_ret framed_raise

section \<open>JSON documents\<close>

text \<open>
  What \<open>json.loads\<close> hands to the handlers. A Python \<open>dict\<close> is its list of members in
  insertion order; \<open>request.get(key)\<close> is \<open>jget\<close>, which answers \<open>JNull\<close> (Python's
  \<open>None\<close>) for an absent member and for an explicit \<open>null\<close> alike.
\<close>

datatype json =
    JNull
  | JBool bool
  | JInt int
  | JStr string
  | JList "json list"
  | JObj "(string \<times> json) list"

type_synonym jobject = "(string \<times> json) list"

definition jget :: "string \<Rightarrow> jobject \<Rightarrow> json" where
  "jget k obj = (case map_of obj k of None \<Rightarrow> JNull | Some v \<Rightarrow> v)"

definition jget_default :: "string \<Rightarrow> json \<Rightarrow> jobject \<Rightarrow> json" where
  "jget_default k d obj = (case map_of obj k of None \<Rightarrow> d | Some v \<Rightarrow> v)"

fun is_jstr :: "json \<Rightarrow> bool" where
  "is_jstr (JStr _) = True"
| "is_jstr _ = False"

fun as_str :: "json \<Rightarrow> string option" where
  "as_str (JStr s) = Some s"
| "as_str _ = None"

lemma as_str_Some [simp]: "as_str j = Some s \<longleftrightarrow> j = JStr s"
  by (cases j) auto

section \<open>Dictionaries and lists\<close>

text \<open>
  A Python \<open>dict\<close> keeps insertion order and an assignment to a present key keeps its place:
  \<open>AList.update\<close> is exactly that.
\<close>

abbreviation dict_set :: "'k \<Rightarrow> 'v \<Rightarrow> ('k \<times> 'v) list \<Rightarrow> ('k \<times> 'v) list" where
  "dict_set \<equiv> AList.update"

lemma map_of_dict_set [simp]: "map_of (dict_set k v d) = (map_of d)(k \<mapsto> v)"
  by (simp add: update_conv')

lemma dict_set_map_keys:
  assumes "\<And>x. x \<in> set xs \<Longrightarrow> key x = k \<Longrightarrow> False"
  shows "dict_set k v (map (\<lambda>x. (key x, f x)) xs) = map (\<lambda>x. (key x, f x)) xs @ [(k, v)]"
  using assms by (induction xs) auto

lemma dict_set_map_upd:
  assumes "distinct (map key xs)" and "x0 \<in> set xs" and "key x0 = k"
  shows "dict_set k v (map (\<lambda>x. (key x, f x)) xs)
    = map (\<lambda>x. (key x, if key x = k then v else f x)) xs"
  using assms
proof (induction xs)
  case (Cons a xs)
  show ?case
  proof (cases "key a = k")
    case True
    with Cons.prems(1) have "\<And>x. x \<in> set xs \<Longrightarrow> key x \<noteq> k" by (auto simp: rev_image_eqI)
    with True show ?thesis by simp
  next
    case False
    with Cons.prems have "x0 \<in> set xs" by auto
    with Cons False show ?thesis by simp
  qed
qed simp

lemma find_map: "find P (map f xs) = map_option f (find (P \<circ> f) xs)"
  by (induction xs) auto

lemma find_SomeD: "find P xs = Some x \<Longrightarrow> x \<in> set xs \<and> P x"
  by (induction xs) (auto split: if_splits)

lemma find_None: "find P xs = None \<longleftrightarrow> (\<forall>x \<in> set xs. \<not> P x)"
  by (induction xs) auto

lemma find_append:
  "find P (xs @ ys) = (case find P xs of None \<Rightarrow> find P ys | Some x \<Rightarrow> Some x)"
  by (induction xs) auto

lemma find_set_unique:
  assumes "set xs = set ys" and "\<And>x y. x \<in> set xs \<Longrightarrow> y \<in> set xs \<Longrightarrow> P x \<Longrightarrow> P y \<Longrightarrow> x = y"
  shows "find P xs = find P ys"
proof (cases "find P xs")
  case None
  then have "find P ys = None" using assms(1) by (simp add: find_None)
  with None show ?thesis by simp
next
  case (Some x)
  then have x: "x \<in> set xs" "P x" by (auto dest: find_SomeD)
  then have "find P ys \<noteq> None" using assms(1) by (auto simp: find_None)
  then obtain y where y: "find P ys = Some y" by auto
  then have "y \<in> set xs" "P y" using assms(1) by (auto dest: find_SomeD)
  with x assms(2) have "y = x" by blast
  with Some y show ?thesis by simp
qed

lemma find_key_unique:
  assumes "distinct (map key xs)" and "x \<in> set xs"
  shows "find (\<lambda>y. key y = key x) xs = Some x"
  using assms by (induction xs) (auto simp: rev_image_eqI)

lemma map_of_map_key:
  "map_of (map (\<lambda>x. (key x, f x)) xs) k = map_option f (find (\<lambda>x. key x = k) xs)"
  by (induction xs) auto

lemma map_keys_id: "(\<And>x. key (g x) = key x) \<Longrightarrow> map key (map g xs) = map key xs"
  by simp

lemma distinct_map_key_eq:
  assumes "distinct (map key xs)" and "x \<in> set xs" and "y \<in> set xs" and "key x = key y"
  shows "x = y"
  using assms by (simp add: distinct_map inj_on_def)

end
