(* ===== verification/Domain.thy ===== *)
theory Domain
  imports Prelude
begin

text \<open>
  The Bootstrap domain, \<open>bootstrap/domain/model.py\<close>: the enumerations with their wire values,
  the immutable records, the predicate that says whether a setup window is open, and the Setup
  code rules. Field names carry the initials of their class because several classes share a
  field name.
\<close>

section \<open>Enumerations and their wire values\<close>

datatype ClaimState = UNCLAIMED | CLAIMED

datatype NetworkState = UNCONFIGURED | STAGING | CONNECTED | DEGRADED | ROLLING_BACK

datatype ControllerRole = HOST_ADMIN

datatype BootstrapOperationType = CHANGE_NETWORK

datatype BootstrapOperationState =
    PENDING | RUNNING | WAITING_CONFIRMATION | SUCCEEDED | FAILED | COMPENSATING

fun ClaimState_value :: "ClaimState \<Rightarrow> string" where
  "ClaimState_value UNCLAIMED = ''unclaimed''"
| "ClaimState_value CLAIMED = ''claimed''"

fun NetworkState_value :: "NetworkState \<Rightarrow> string" where
  "NetworkState_value UNCONFIGURED = ''unconfigured''"
| "NetworkState_value STAGING = ''staging''"
| "NetworkState_value CONNECTED = ''connected''"
| "NetworkState_value DEGRADED = ''degraded''"
| "NetworkState_value ROLLING_BACK = ''rolling_back''"

fun ControllerRole_value :: "ControllerRole \<Rightarrow> string" where
  "ControllerRole_value HOST_ADMIN = ''host_admin''"

fun OperationType_value :: "BootstrapOperationType \<Rightarrow> string" where
  "OperationType_value CHANGE_NETWORK = ''change_network''"

fun OperationState_value :: "BootstrapOperationState \<Rightarrow> string" where
  "OperationState_value PENDING = ''pending''"
| "OperationState_value RUNNING = ''running''"
| "OperationState_value WAITING_CONFIRMATION = ''waiting_confirmation''"
| "OperationState_value SUCCEEDED = ''succeeded''"
| "OperationState_value FAILED = ''failed''"
| "OperationState_value COMPENSATING = ''compensating''"

text \<open>
  \<open>StrEnum\<close> lookup by value (\<open>NetworkState(text)\<close>): the member whose value is the text, and
  \<open>ValueError\<close> (\<open>None\<close> here) for any other text.
\<close>

definition enum_lookup :: "('a \<Rightarrow> string) \<Rightarrow> 'a list \<Rightarrow> string \<Rightarrow> 'a option" where
  "enum_lookup value members text = find (\<lambda>m. value m = text) members"

definition ClaimState_of :: "string \<Rightarrow> ClaimState option" where
  "ClaimState_of = enum_lookup ClaimState_value [UNCLAIMED, CLAIMED]"

definition NetworkState_of :: "string \<Rightarrow> NetworkState option" where
  "NetworkState_of = enum_lookup NetworkState_value
     [UNCONFIGURED, STAGING, CONNECTED, DEGRADED, ROLLING_BACK]"

definition ControllerRole_of :: "string \<Rightarrow> ControllerRole option" where
  "ControllerRole_of = enum_lookup ControllerRole_value [HOST_ADMIN]"

definition OperationType_of :: "string \<Rightarrow> BootstrapOperationType option" where
  "OperationType_of = enum_lookup OperationType_value [CHANGE_NETWORK]"

definition OperationState_of :: "string \<Rightarrow> BootstrapOperationState option" where
  "OperationState_of = enum_lookup OperationState_value
     [PENDING, RUNNING, WAITING_CONFIRMATION, SUCCEEDED, FAILED, COMPENSATING]"

lemma ClaimState_roundtrip [simp]: "ClaimState_of (ClaimState_value c) = Some c"
  by (cases c) (simp_all add: ClaimState_of_def enum_lookup_def)

lemma NetworkState_roundtrip [simp]: "NetworkState_of (NetworkState_value n) = Some n"
  by (cases n) (simp_all add: NetworkState_of_def enum_lookup_def)

lemma ControllerRole_roundtrip [simp]: "ControllerRole_of (ControllerRole_value r) = Some r"
  by (cases r) (simp_all add: ControllerRole_of_def enum_lookup_def)

lemma OperationType_roundtrip [simp]: "OperationType_of (OperationType_value t) = Some t"
  by (cases t) (simp_all add: OperationType_of_def enum_lookup_def)

lemma OperationState_roundtrip [simp]: "OperationState_of (OperationState_value s) = Some s"
  by (cases s) (simp_all add: OperationState_of_def enum_lookup_def)

lemma OperationState_value_inj [simp]:
  "OperationState_value a = OperationState_value b \<longleftrightarrow> a = b"
  by (metis OperationState_roundtrip option.inject)

lemma ControllerRole_singleton [simp]: "(r :: ControllerRole) = r'"
  by (cases r; cases r') simp

lemma OperationType_singleton [simp]: "(t :: BootstrapOperationType) = t'"
  by (cases t; cases t') simp

section \<open>Records\<close>

record HostIdentity =
  hi_host_id :: string
  hi_public_key :: string
  hi_public_key_fingerprint :: string

record BootstrapState =
  bs_reset_epoch :: int
  bs_claim_state :: ClaimState
  bs_network_state :: NetworkState
  bs_updated_at :: timestamp

record CommissioningSessionMetadata =
  cs_session_id :: string
  cs_created_at :: timestamp
  cs_expires_at :: "timestamp option"
  cs_consumed_at :: "timestamp option"
  cs_revoked_at :: "timestamp option"
  cs_failed_attempts :: int

record CommissioningSessionSeed =
  seed_session_id :: string
  seed_secret_hash :: string
  seed_expires_at :: "timestamp option"

record ControllerGrant =
  cg_controller_id :: string
  cg_public_key :: string
  cg_public_key_fingerprint :: string
  cg_role :: ControllerRole
  cg_display_name :: string
  cg_platform :: string
  cg_reset_epoch :: int
  cg_created_at :: timestamp
  cg_revoked_at :: "timestamp option"

record BootstrapOperation =
  op_operation_id :: string
  op_operation_type :: BootstrapOperationType
  op_state :: BootstrapOperationState
  op_target :: string
  op_reset_epoch :: int
  op_created_at :: timestamp
  op_updated_at :: timestamp
  op_error_code :: "string option"

text \<open>The dictionaries the control socket and the commissioning protocol publish.\<close>

definition jopt :: "string option \<Rightarrow> json" where
  "jopt v = (case v of None \<Rightarrow> JNull | Some s \<Rightarrow> JStr s)"

definition BootstrapState_to_dict :: "BootstrapState \<Rightarrow> jobject" where
  "BootstrapState_to_dict s =
     [(''reset_epoch'', JInt (bs_reset_epoch s)),
      (''claim_state'', JStr (ClaimState_value (bs_claim_state s))),
      (''network_state'', JStr (NetworkState_value (bs_network_state s))),
      (''updated_at'', JStr (bs_updated_at s))]"

definition CommissioningSession_to_dict :: "CommissioningSessionMetadata \<Rightarrow> jobject" where
  "CommissioningSession_to_dict m =
     [(''session_id'', JStr (cs_session_id m)),
      (''created_at'', JStr (cs_created_at m)),
      (''expires_at'', jopt (cs_expires_at m)),
      (''consumed_at'', jopt (cs_consumed_at m)),
      (''revoked_at'', jopt (cs_revoked_at m)),
      (''failed_attempts'', JInt (cs_failed_attempts m))]"

definition ControllerGrant_to_dict :: "ControllerGrant \<Rightarrow> jobject" where
  "ControllerGrant_to_dict g =
     [(''controller_id'', JStr (cg_controller_id g)),
      (''public_key'', JStr (cg_public_key g)),
      (''public_key_fingerprint'', JStr (cg_public_key_fingerprint g)),
      (''role'', JStr (ControllerRole_value (cg_role g))),
      (''display_name'', JStr (cg_display_name g)),
      (''platform'', JStr (cg_platform g)),
      (''reset_epoch'', JInt (cg_reset_epoch g)),
      (''created_at'', JStr (cg_created_at g)),
      (''revoked_at'', jopt (cg_revoked_at g))]"

definition BootstrapOperation_to_dict :: "BootstrapOperation \<Rightarrow> jobject" where
  "BootstrapOperation_to_dict p =
     [(''operation_id'', JStr (op_operation_id p)),
      (''operation_type'', JStr (OperationType_value (op_operation_type p))),
      (''state'', JStr (OperationState_value (op_state p))),
      (''target'', JStr (op_target p)),
      (''reset_epoch'', JInt (op_reset_epoch p)),
      (''created_at'', JStr (op_created_at p)),
      (''updated_at'', JStr (op_updated_at p)),
      (''error_code'', jopt (op_error_code p))]"

section \<open>Setup windows\<close>

definition is_open :: "CommissioningSessionMetadata \<Rightarrow> timestamp \<Rightarrow> bool" where
  "is_open m now =
     (if cs_consumed_at m \<noteq> None \<or> cs_revoked_at m \<noteq> None then False
      else (case cs_expires_at m of None \<Rightarrow> True | Some e \<Rightarrow> now < e))"

lemma is_open_iff:
  "is_open m now \<longleftrightarrow> cs_consumed_at m = None \<and> cs_revoked_at m = None
     \<and> (\<forall>e. cs_expires_at m = Some e \<longrightarrow> now < e)"
  by (auto simp: is_open_def split: option.splits)

section \<open>Setup codes\<close>

definition SETUP_CODE_DIGITS :: nat where
  "SETUP_CODE_DIGITS = 8"

definition is_ascii_digit :: "char \<Rightarrow> bool" where
  "is_ascii_digit c \<longleftrightarrow> c \<in> set ''0123456789''"

definition digit_char :: "nat \<Rightarrow> char" where
  "digit_char d = ''0123456789'' ! (d mod 10)"

definition ascending_run :: string where
  "ascending_run = map (\<lambda>digit. digit_char (digit mod 10)) [0..<SETUP_CODE_DIGITS]"

definition is_usable_setup_code :: "string \<Rightarrow> bool" where
  "is_usable_setup_code value =
     (if \<not> (length value = 8 \<and> list_all is_ascii_digit value) then False
      else if card (set value) = 1 then False
      else value \<notin> {ascending_run, rev ascending_run})"

text \<open>
  \<open>f"{n:08d}"\<close> for a draw below \<open>10 ** 8\<close>: eight decimal digits, zero padded.
\<close>

definition format_setup_code :: "nat \<Rightarrow> string" where
  "format_setup_code n =
     map (\<lambda>i. digit_char (n div 10 ^ (SETUP_CODE_DIGITS - 1 - i))) [0..<SETUP_CODE_DIGITS]"

text \<open>
  The rejection loop draws from a random source: \<open>rng k\<close> is the \<open>k\<close>-th value
  \<open>secrets.randbelow(10**8)\<close> returns. \<open>fuel\<close> bounds the number of draws.
\<close>

fun generate_setup_code :: "nat \<Rightarrow> (nat \<Rightarrow> nat) \<Rightarrow> nat \<Rightarrow> string option" where
  "generate_setup_code 0 rng k = None"
| "generate_setup_code (Suc fuel) rng k =
     (let candidate = format_setup_code (rng k mod 10 ^ SETUP_CODE_DIGITS)
      in if is_usable_setup_code candidate then Some candidate
         else generate_setup_code fuel rng (Suc k))"

lemma ascending_run_eq: "ascending_run = ''01234567''"
  by (simp add: ascending_run_def SETUP_CODE_DIGITS_def digit_char_def upt_rec)

lemma is_usable_setup_code_length: "is_usable_setup_code c \<Longrightarrow> length c = 8"
  by (simp add: is_usable_setup_code_def split: if_splits)

lemma digit_char_is_digit: "is_ascii_digit (digit_char d)"
proof -
  have "''0123456789'' ! (d mod 10) \<in> set ''0123456789''"
    by (rule nth_mem) simp
  then show ?thesis by (simp add: is_ascii_digit_def digit_char_def)
qed

lemma format_setup_code_shape:
  "length (format_setup_code n) = 8 \<and> list_all is_ascii_digit (format_setup_code n)"
  by (simp add: format_setup_code_def SETUP_CODE_DIGITS_def list_all_iff digit_char_is_digit)

lemma generate_setup_code_usable:
  "generate_setup_code fuel rng k = Some c \<Longrightarrow> is_usable_setup_code c"
  by (induction fuel rng k rule: generate_setup_code.induct) (auto simp: Let_def split: if_splits)

lemma generate_setup_code_enough:
  assumes "k \<le> j" and "j < k + fuel"
    and "is_usable_setup_code (format_setup_code (rng j mod 10 ^ SETUP_CODE_DIGITS))"
  shows "\<exists>c. generate_setup_code fuel rng k = Some c"
  using assms
proof (induction fuel arbitrary: k)
  case (Suc fuel)
  show ?case
  proof (cases "j = k")
    case True
    with Suc.prems show ?thesis by (simp add: Let_def)
  next
    case False
    with Suc.prems have "Suc k \<le> j" and "j < Suc k + fuel" by simp_all
    from Suc.IH [OF this Suc.prems(3)] show ?thesis by (auto simp: Let_def)
  qed
qed simp

end
