(* ===== verification/Store_Port.thy ===== *)
theory Store_Port
  imports Domain
begin

text \<open>
  The persistence port, \<open>bootstrap/ports/state_store.py\<close>. A Python \<open>Protocol\<close> is a record of
  operations over the adapter's own state type, so the application services are written once
  over \<open>'s store_port\<close> and run on either adapter.
\<close>

section \<open>What an adapter may raise\<close>

text \<open>
  \<open>Conflict\<close> is \<open>BootstrapStateConflict\<close>, the refusal the services translate. The others are
  not caught by them: a store that is not open or not initialized (\<open>RuntimeError\<close>), a failed
  \<open>assert\<close>, \<open>SQLiteBootstrapStoreError\<close>, and \<open>sqlite3.IntegrityError\<close>.
\<close>

datatype store_error =
    Conflict string
  | RuntimeErr string
  | AssertionErr
  | SQLiteStoreErr string
  | IntegrityErr

abbreviation session_unavailable :: store_error where
  "session_unavailable \<equiv> Conflict ''commissioning session is unavailable''"

definition active_states :: "BootstrapOperationState list" where
  "active_states = [PENDING, RUNNING, WAITING_CONFIRMATION, COMPENSATING]"

section \<open>The port\<close>

record 's store_port =
  sp_get_state :: "('s, store_error, BootstrapState) op"
  sp_issue_commissioning_session ::
    "string \<Rightarrow> string \<Rightarrow> timestamp \<Rightarrow> timestamp option \<Rightarrow> ('s, store_error, unit) op"
  sp_latest_commissioning_session ::
    "('s, store_error, CommissioningSessionMetadata option) op"
  sp_authorize_commissioning_session ::
    "string \<Rightarrow> string \<Rightarrow> timestamp \<Rightarrow> ('s, store_error, CommissioningSessionMetadata) op"
  sp_claim_controller ::
    "string \<Rightarrow> string \<Rightarrow> ControllerGrant \<Rightarrow> timestamp \<Rightarrow> ('s, store_error, ControllerGrant) op"
  sp_get_controller :: "string \<Rightarrow> ('s, store_error, ControllerGrant option) op"
  sp_list_controllers :: "('s, store_error, ControllerGrant list) op"
  sp_revoke_controller :: "string \<Rightarrow> timestamp \<Rightarrow> ('s, store_error, ControllerGrant) op"
  sp_create_operation :: "BootstrapOperation \<Rightarrow> ('s, store_error, BootstrapOperation) op"
  sp_get_operation :: "string \<Rightarrow> ('s, store_error, BootstrapOperation option) op"
  sp_update_operation ::
    "string \<Rightarrow> BootstrapOperationState \<Rightarrow> NetworkState \<Rightarrow> timestamp \<Rightarrow> string option
      \<Rightarrow> ('s, store_error, BootstrapOperation) op"
  sp_fail_interrupted_operations :: "timestamp \<Rightarrow> ('s, store_error, int) op"
  sp_reconcile_network_state :: "NetworkState \<Rightarrow> timestamp \<Rightarrow> ('s, store_error, unit) op"
  sp_reset_authority ::
    "NetworkState \<Rightarrow> timestamp \<Rightarrow> CommissioningSessionSeed option
      \<Rightarrow> ('s, store_error, BootstrapState) op"

section \<open>Updates both adapters make\<close>

text \<open>
  \<open>replace(metadata, revoked_at=now)\<close> when the window is neither consumed nor revoked: what
  minting a new window and resetting the authority do to every window.
\<close>

definition supersede :: "timestamp \<Rightarrow> CommissioningSessionMetadata \<Rightarrow> CommissioningSessionMetadata"
  where
  "supersede now m =
     (if cs_consumed_at m = None \<and> cs_revoked_at m = None then m\<lparr>cs_revoked_at := Some now\<rparr> else m)"

definition new_session :: "string \<Rightarrow> timestamp \<Rightarrow> timestamp option \<Rightarrow> CommissioningSessionMetadata"
  where
  "new_session sid created expires =
     \<lparr>cs_session_id = sid, cs_created_at = created, cs_expires_at = expires,
      cs_consumed_at = None, cs_revoked_at = None, cs_failed_attempts = 0\<rparr>"

definition revoke_grant :: "timestamp \<Rightarrow> ControllerGrant \<Rightarrow> ControllerGrant" where
  "revoke_grant now g = (if cg_revoked_at g = None then g\<lparr>cg_revoked_at := Some now\<rparr> else g)"

definition fail_operation :: "timestamp \<Rightarrow> string \<Rightarrow> BootstrapOperation \<Rightarrow> BootstrapOperation" where
  "fail_operation now code p =
     (if op_state p \<in> set active_states
      then p\<lparr>op_state := FAILED, op_updated_at := now, op_error_code := Some code\<rparr> else p)"

text \<open>A Grant that existed when the window was consumed, so that the window may have granted it.\<close>

definition granted_before :: "timestamp \<Rightarrow> timestamp option \<Rightarrow> bool" where
  "granted_before created consumed = (case consumed of None \<Rightarrow> False | Some c \<Rightarrow> created \<le> c)"

lemma granted_before_iff [simp]:
  "granted_before created consumed \<longleftrightarrow> (\<exists>c. consumed = Some c \<and> created \<le> c)"
  by (simp add: granted_before_def split: option.split)

lemma active_states_iff [simp]:
  "s \<in> set active_states \<longleftrightarrow> s \<noteq> SUCCEEDED \<and> s \<noteq> FAILED"
  by (cases s) (simp_all add: active_states_def)

lemma supersede_fields [simp]:
  "cs_session_id (supersede now m) = cs_session_id m"
  "cs_created_at (supersede now m) = cs_created_at m"
  "cs_expires_at (supersede now m) = cs_expires_at m"
  "cs_consumed_at (supersede now m) = cs_consumed_at m"
  "cs_failed_attempts (supersede now m) = cs_failed_attempts m"
  by (simp_all add: supersede_def)

lemma supersede_closed [simp]: "\<not> is_open (supersede now m) t"
  by (auto simp: supersede_def is_open_def)

lemma revoke_grant_fields [simp]:
  "cg_controller_id (revoke_grant now g) = cg_controller_id g"
  "cg_public_key (revoke_grant now g) = cg_public_key g"
  "cg_public_key_fingerprint (revoke_grant now g) = cg_public_key_fingerprint g"
  "cg_reset_epoch (revoke_grant now g) = cg_reset_epoch g"
  "cg_created_at (revoke_grant now g) = cg_created_at g"
  by (simp_all add: revoke_grant_def)

lemma revoke_grant_revoked [simp]: "cg_revoked_at (revoke_grant now g) \<noteq> None"
  by (simp add: revoke_grant_def)

lemma fail_operation_fields [simp]:
  "op_operation_id (fail_operation now c p) = op_operation_id p"
  "op_target (fail_operation now c p) = op_target p"
  "op_reset_epoch (fail_operation now c p) = op_reset_epoch p"
  by (simp_all add: fail_operation_def)

lemma fail_operation_inactive [simp]: "op_state (fail_operation now c p) \<notin> set active_states"
  by (simp add: fail_operation_def)

end
