(* ===== verification/Store_Memory.thy ===== *)
theory Store_Memory
  imports Store_Port
begin

text \<open>
  The in-memory adapter, \<open>bootstrap/adapters/persistence/memory.py\<close>: one field per attribute of
  \<open>InMemoryBootstrapStateStore\<close>, one operation per method. Dictionaries are association lists in
  insertion order.
\<close>

record mem_store =
  ms_opened :: bool
  ms_state :: "BootstrapState option"
  ms_sessions :: "(CommissioningSessionMetadata \<times> string) list"
  ms_session_controller_ids :: "(string \<times> string) list"
  ms_controllers :: "((int \<times> string) \<times> ControllerGrant) list"
  ms_operations :: "(string \<times> BootstrapOperation) list"

definition mem_new :: mem_store where
  "mem_new = \<lparr>ms_opened = False, ms_state = None, ms_sessions = [],
     ms_session_controller_ids = [], ms_controllers = [], ms_operations = []\<rparr>"

definition mem_require_open :: "(mem_store, store_error, unit) op" where
  "mem_require_open m =
     (if \<not> ms_opened m then (Inl (RuntimeErr ''in-memory bootstrap state store is not open''), m)
      else (Inr (), m))"

definition mem_open :: "(mem_store, store_error, unit) op" where
  "mem_open m = (Inr (), m\<lparr>ms_opened := True\<rparr>)"

definition mem_initialize :: "timestamp \<Rightarrow> (mem_store, store_error, unit) op" where
  "mem_initialize now = bindS mem_require_open (\<lambda>_ m.
     (if ms_state m = None
      then (Inr (), m\<lparr>ms_state := Some \<lparr>bs_reset_epoch = 0, bs_claim_state = UNCLAIMED,
              bs_network_state = UNCONFIGURED, bs_updated_at = now\<rparr>\<rparr>)
      else (Inr (), m)))"

definition mem_get_state :: "(mem_store, store_error, BootstrapState) op" where
  "mem_get_state = bindS mem_require_open (\<lambda>_ m.
     (case ms_state m of
        None \<Rightarrow> (Inl (RuntimeErr ''in-memory bootstrap state store is not initialized''), m)
      | Some s \<Rightarrow> (Inr s, m)))"

definition mem_issue_commissioning_session ::
  "string \<Rightarrow> string \<Rightarrow> timestamp \<Rightarrow> timestamp option \<Rightarrow> (mem_store, store_error, unit) op" where
  "mem_issue_commissioning_session session_id secret_hash created_at expires_at =
     bindS mem_require_open (\<lambda>_ m.
       (Inr (), m\<lparr>ms_sessions :=
          map (\<lambda>(metadata, stored_hash). (supersede created_at metadata, stored_hash)) (ms_sessions m)
          @ [(new_session session_id created_at expires_at, secret_hash)]\<rparr>))"

definition mem_latest_commissioning_session ::
  "(mem_store, store_error, CommissioningSessionMetadata option) op" where
  "mem_latest_commissioning_session = bindS mem_require_open (\<lambda>_ m.
     (if ms_sessions m = [] then (Inr None, m) else (Inr (Some (fst (last (ms_sessions m)))), m)))"

text \<open>
  The loop of \<open>authorize_commissioning_session\<close>: the first window with the id decides. The
  result is the accepted metadata, if any, and the list with a wrong code counted.
\<close>

fun mem_authorize_scan ::
  "string \<Rightarrow> string \<Rightarrow> timestamp \<Rightarrow> (CommissioningSessionMetadata \<times> string) list
    \<Rightarrow> CommissioningSessionMetadata option \<times> (CommissioningSessionMetadata \<times> string) list" where
  "mem_authorize_scan session_id secret_hash now [] = (None, [])"
| "mem_authorize_scan session_id secret_hash now ((metadata, stored_hash) # rest) =
     (if cs_session_id metadata \<noteq> session_id
      then (case mem_authorize_scan session_id secret_hash now rest of
              (found, rest') \<Rightarrow> (found, (metadata, stored_hash) # rest'))
      else if \<not> is_open metadata now then (None, (metadata, stored_hash) # rest)
      else if stored_hash = secret_hash then (Some metadata, (metadata, stored_hash) # rest)
      else (None,
        (metadata\<lparr>cs_failed_attempts := cs_failed_attempts metadata + 1\<rparr>, stored_hash) # rest))"

definition mem_authorize_commissioning_session ::
  "string \<Rightarrow> string \<Rightarrow> timestamp \<Rightarrow> (mem_store, store_error, CommissioningSessionMetadata) op" where
  "mem_authorize_commissioning_session session_id secret_hash now =
     bindS mem_require_open (\<lambda>_ m.
       (case mem_authorize_scan session_id secret_hash now (ms_sessions m) of
          (Some metadata, sessions) \<Rightarrow> (Inr metadata, m\<lparr>ms_sessions := sessions\<rparr>)
        | (None, sessions) \<Rightarrow> (Inl session_unavailable, m\<lparr>ms_sessions := sessions\<rparr>)))"

definition mem_get_controller :: "string \<Rightarrow> (mem_store, store_error, ControllerGrant option) op" where
  "mem_get_controller controller_id = bindS mem_get_state (\<lambda>state m.
     (Inr (map_of (ms_controllers m) (bs_reset_epoch state, controller_id)), m))"

definition mem_consume_session :: "string \<Rightarrow> string \<Rightarrow> timestamp \<Rightarrow> mem_store \<Rightarrow> mem_store" where
  "mem_consume_session session_id controller_id now m =
     m\<lparr>ms_session_controller_ids := dict_set session_id controller_id (ms_session_controller_ids m),
       ms_sessions := map (\<lambda>(metadata, stored_hash).
         (if cs_session_id metadata = session_id then metadata\<lparr>cs_consumed_at := Some now\<rparr>
          else metadata, stored_hash)) (ms_sessions m)\<rparr>"

definition mem_grant_in_epoch ::
  "ControllerGrant \<Rightarrow> int \<Rightarrow> (mem_store, store_error, ControllerGrant option) op" where
  "mem_grant_in_epoch grant reset_epoch m =
     (let held = (case map_of (ms_controllers m) (reset_epoch, cg_controller_id grant) of
                    Some g \<Rightarrow> Some g
                  | None \<Rightarrow> map_option snd (find (\<lambda>((epoch, _), candidate).
                      epoch = reset_epoch
                      \<and> cg_public_key_fingerprint candidate = cg_public_key_fingerprint grant)
                      (ms_controllers m)))
      in case held of
           None \<Rightarrow> (Inr None, m)
         | Some g \<Rightarrow>
             (if cg_public_key g \<noteq> cg_public_key grant
              then (Inl (Conflict ''another Controller already holds this identity on this Host''), m)
              else (Inr (if cg_revoked_at g = None then Some g else None), m)))"

text \<open>The replay check of a session a claim already consumed.\<close>

definition mem_replayed_claim ::
  "string \<Rightarrow> string \<Rightarrow> ControllerGrant \<Rightarrow> string \<Rightarrow> (mem_store, store_error, ControllerGrant) op" where
  "mem_replayed_claim session_id secret_hash grant claimed_controller_id =
     bindS (mem_get_controller claimed_controller_id) (\<lambda>existing m.
       (case existing of
          Some e \<Rightarrow>
            (if claimed_controller_id = cg_controller_id grant
                \<and> cg_public_key e = cg_public_key grant
                \<and> cg_revoked_at e = None
                \<and> (\<exists>(metadata, stored_hash) \<in> set (ms_sessions m).
                      cs_session_id metadata = session_id
                      \<and> stored_hash = secret_hash
                      \<and> granted_before (cg_created_at e) (cs_consumed_at metadata))
             then (Inr e, m) else (Inl session_unavailable, m))
        | None \<Rightarrow> (Inl session_unavailable, m)))"

text \<open>What \<open>claim_controller\<close> does once the window is authorized.\<close>

definition mem_claim_body ::
  "string \<Rightarrow> ControllerGrant \<Rightarrow> timestamp \<Rightarrow> (mem_store, store_error, ControllerGrant) op" where
  "mem_claim_body session_id grant now =
     bindS mem_get_state (\<lambda>state.
       if cg_reset_epoch grant \<noteq> bs_reset_epoch state
       then raise (Conflict ''controller reset epoch does not match host'')
       else bindS (mem_grant_in_epoch grant (bs_reset_epoch state)) (\<lambda>held m1.
         (case held of
            Some g \<Rightarrow> (Inr g, mem_consume_session session_id (cg_controller_id g) now m1)
          | None \<Rightarrow>
              (let m2 = m1\<lparr>ms_controllers :=
                          dict_set (bs_reset_epoch state, cg_controller_id grant) grant
                            (ms_controllers m1)\<rparr>;
                   m3 = mem_consume_session session_id (cg_controller_id grant) now m2
               in (Inr grant, m3\<lparr>ms_state := map_option
                     (\<lambda>s. s\<lparr>bs_claim_state := CLAIMED, bs_updated_at := now\<rparr>)
                     (ms_state m3)\<rparr>)))))"

definition mem_claim_controller ::
  "string \<Rightarrow> string \<Rightarrow> ControllerGrant \<Rightarrow> timestamp \<Rightarrow> (mem_store, store_error, ControllerGrant) op"
  where
  "mem_claim_controller session_id secret_hash grant now =
     bindS mem_require_open (\<lambda>_ m.
       (case map_of (ms_session_controller_ids m) session_id of
          Some claimed_controller_id \<Rightarrow>
            mem_replayed_claim session_id secret_hash grant claimed_controller_id m
        | None \<Rightarrow>
            bindS (mem_authorize_commissioning_session session_id secret_hash now) (\<lambda>_.
              mem_claim_body session_id grant now) m))"

definition mem_list_controllers :: "(mem_store, store_error, ControllerGrant list) op" where
  "mem_list_controllers = bindS mem_require_open (\<lambda>_ m.
     (Inr (sort_key (\<lambda>grant. (cg_created_at grant, cg_reset_epoch grant, cg_controller_id grant))
             (map snd (ms_controllers m))), m))"

definition mem_revoke_controller ::
  "string \<Rightarrow> timestamp \<Rightarrow> (mem_store, store_error, ControllerGrant) op" where
  "mem_revoke_controller controller_id now =
     bindS mem_get_state (\<lambda>state.
     bindS mem_list_controllers (\<lambda>grants m.
       (let active = filter (\<lambda>grant. cg_revoked_at grant = None
                                \<and> cg_reset_epoch grant = bs_reset_epoch state) grants
        in case find (\<lambda>grant. cg_controller_id grant = controller_id) active of
             None \<Rightarrow> (Inl (Conflict ''controller is not authorized for this Host''), m)
           | Some target \<Rightarrow>
               (if length active = 1
                then (Inl (Conflict
                  ''the last Controller cannot be revoked; use controller-reset''), m)
                else (let revoked = target\<lparr>cg_revoked_at := Some now\<rparr>
                      in (Inr revoked, m\<lparr>ms_controllers :=
                            dict_set (bs_reset_epoch state, controller_id) revoked
                              (ms_controllers m)\<rparr>))))))"

definition mem_get_operation :: "string \<Rightarrow> (mem_store, store_error, BootstrapOperation option) op" where
  "mem_get_operation operation_id = bindS mem_require_open (\<lambda>_ m.
     (Inr (map_of (ms_operations m) operation_id), m))"

definition mem_create_operation ::
  "BootstrapOperation \<Rightarrow> (mem_store, store_error, BootstrapOperation) op" where
  "mem_create_operation operation = bindS mem_require_open (\<lambda>_ m.
     (case map_of (ms_operations m) (op_operation_id operation) of
        Some current \<Rightarrow>
          (if op_operation_type current = op_operation_type operation
              \<and> op_target current = op_target operation
              \<and> op_reset_epoch current = op_reset_epoch operation
           then (Inr current, m)
           else (Inl (Conflict ''operation_id is already in use''), m))
      | None \<Rightarrow>
          bindS mem_get_state (\<lambda>state m1.
            (if op_reset_epoch operation \<noteq> bs_reset_epoch state
             then (Inl (Conflict ''operation reset epoch does not match host''), m1)
             else if list_ex (\<lambda>item. op_state item \<in> set active_states)
                       (map snd (ms_operations m1))
             then (Inl (Conflict ''another bootstrap operation is active''), m1)
             else (Inr operation, m1\<lparr>ms_operations :=
                     dict_set (op_operation_id operation) operation (ms_operations m1)\<rparr>))) m))"

definition mem_update_operation ::
  "string \<Rightarrow> BootstrapOperationState \<Rightarrow> NetworkState \<Rightarrow> timestamp \<Rightarrow> string option
    \<Rightarrow> (mem_store, store_error, BootstrapOperation) op" where
  "mem_update_operation operation_id state network_state updated_at error_code =
     bindS mem_require_open (\<lambda>_ m.
       (case map_of (ms_operations m) operation_id of
          None \<Rightarrow> (Inl (Conflict ''bootstrap operation does not exist''), m)
        | Some current \<Rightarrow>
            (let updated = current\<lparr>op_state := state, op_updated_at := updated_at,
                                   op_error_code := error_code\<rparr>;
                 m1 = m\<lparr>ms_operations := dict_set operation_id updated (ms_operations m)\<rparr>
             in case ms_state m1 of
                  None \<Rightarrow> (Inl AssertionErr, m1)
                | Some s \<Rightarrow> (Inr updated, m1\<lparr>ms_state := Some
                    (s\<lparr>bs_network_state := network_state, bs_updated_at := updated_at\<rparr>)\<rparr>))))"

definition mem_fail_interrupted_operations :: "timestamp \<Rightarrow> (mem_store, store_error, int) op" where
  "mem_fail_interrupted_operations now = bindS mem_require_open (\<lambda>_ m.
     (let interrupted = filter (\<lambda>(_, operation). op_state operation \<in> set active_states)
                          (ms_operations m);
          m1 = m\<lparr>ms_operations := map (\<lambda>(i, p). (i, fail_operation now ''daemon_restarted'' p))
                 (ms_operations m)\<rparr>
      in if interrupted = [] then (Inr 0, m1)
         else (case ms_state m1 of
                 None \<Rightarrow> (Inl AssertionErr, m1)
               | Some s \<Rightarrow> (Inr (int (length interrupted)), m1\<lparr>ms_state := Some
                   (s\<lparr>bs_network_state := DEGRADED, bs_updated_at := now\<rparr>)\<rparr>))))"

definition mem_reconcile_network_state ::
  "NetworkState \<Rightarrow> timestamp \<Rightarrow> (mem_store, store_error, unit) op" where
  "mem_reconcile_network_state network_state now = bindS mem_require_open (\<lambda>_ m.
     (if network_state \<in> {STAGING, ROLLING_BACK}
      then (Inl (Conflict ''cannot reconcile an active network transition at startup''), m)
      else (case ms_state m of
              None \<Rightarrow> (Inl AssertionErr, m)
            | Some s \<Rightarrow> (Inr (), m\<lparr>ms_state := Some
                (s\<lparr>bs_network_state := network_state, bs_updated_at := now\<rparr>)\<rparr>))))"

definition mem_reset_authority ::
  "NetworkState \<Rightarrow> timestamp \<Rightarrow> CommissioningSessionSeed option
    \<Rightarrow> (mem_store, store_error, BootstrapState) op" where
  "mem_reset_authority network_state now recovery_session =
     bindS mem_require_open (\<lambda>_ m.
       (let m1 = m\<lparr>ms_sessions := map (\<lambda>(metadata, stored_hash).
                     (supersede now metadata, stored_hash)) (ms_sessions m),
                   ms_controllers := map (\<lambda>(key, grant). (key, revoke_grant now grant))
                     (ms_controllers m),
                   ms_operations := map (\<lambda>(i, p). (i, fail_operation now ''authority_reset'' p))
                     (ms_operations m)\<rparr>
        in bindS mem_get_state (\<lambda>state m2.
             (let state' = state\<lparr>bs_reset_epoch := bs_reset_epoch state + 1,
                                 bs_claim_state := UNCLAIMED,
                                 bs_network_state := network_state, bs_updated_at := now\<rparr>;
                  m3 = m2\<lparr>ms_state := Some state'\<rparr>
              in case recovery_session of
                   None \<Rightarrow> (Inr state', m3)
                 | Some seed \<Rightarrow> (Inr state', m3\<lparr>ms_sessions := ms_sessions m3
                     @ [(new_session (seed_session_id seed) now (seed_expires_at seed),
                         seed_secret_hash seed)]\<rparr>))) m1))"

definition mem_close :: "(mem_store, store_error, unit) op" where
  "mem_close m = (Inr (), m\<lparr>ms_opened := False\<rparr>)"

definition memory_store :: "mem_store store_port" where
  "memory_store = \<lparr>
     sp_get_state = mem_get_state,
     sp_issue_commissioning_session = mem_issue_commissioning_session,
     sp_latest_commissioning_session = mem_latest_commissioning_session,
     sp_authorize_commissioning_session = mem_authorize_commissioning_session,
     sp_claim_controller = mem_claim_controller,
     sp_get_controller = mem_get_controller,
     sp_list_controllers = mem_list_controllers,
     sp_revoke_controller = mem_revoke_controller,
     sp_create_operation = mem_create_operation,
     sp_get_operation = mem_get_operation,
     sp_update_operation = mem_update_operation,
     sp_fail_interrupted_operations = mem_fail_interrupted_operations,
     sp_reconcile_network_state = mem_reconcile_network_state,
     sp_reset_authority = mem_reset_authority\<rparr>"

lemma memory_store_sel [simp]:
  "sp_get_state memory_store = mem_get_state"
  "sp_issue_commissioning_session memory_store = mem_issue_commissioning_session"
  "sp_latest_commissioning_session memory_store = mem_latest_commissioning_session"
  "sp_authorize_commissioning_session memory_store = mem_authorize_commissioning_session"
  "sp_claim_controller memory_store = mem_claim_controller"
  "sp_get_controller memory_store = mem_get_controller"
  "sp_list_controllers memory_store = mem_list_controllers"
  "sp_revoke_controller memory_store = mem_revoke_controller"
  "sp_create_operation memory_store = mem_create_operation"
  "sp_get_operation memory_store = mem_get_operation"
  "sp_update_operation memory_store = mem_update_operation"
  "sp_fail_interrupted_operations memory_store = mem_fail_interrupted_operations"
  "sp_reconcile_network_state memory_store = mem_reconcile_network_state"
  "sp_reset_authority memory_store = mem_reset_authority"
  by (simp_all add: memory_store_def)

section \<open>Running an operation on an open, initialized store\<close>

definition mem_ready :: "mem_store \<Rightarrow> bool" where
  "mem_ready m \<longleftrightarrow> ms_opened m \<and> ms_state m \<noteq> None"

lemma mem_require_open_run [simp]:
  "ms_opened m \<Longrightarrow> bindS mem_require_open f m = f () m"
  by (simp add: bindS_def mem_require_open_def)

lemma mem_get_state_run [simp]:
  "ms_opened m \<Longrightarrow> ms_state m = Some s \<Longrightarrow> mem_get_state m = (Inr s, m)"
  by (simp add: mem_get_state_def)

lemma mem_authorize_scan_ids [simp]:
  "map (cs_session_id \<circ> fst) (snd (mem_authorize_scan sid h now xs)) = map (cs_session_id \<circ> fst) xs"
  by (induction sid h now xs rule: mem_authorize_scan.induct) (auto split: prod.splits)

lemma mem_authorize_scan_Some:
  "mem_authorize_scan sid h now xs = (Some md, ys) \<Longrightarrow>
     ys = xs \<and> (md, h) \<in> set xs \<and> cs_session_id md = sid \<and> is_open md now"
  by (induction sid h now xs arbitrary: ys rule: mem_authorize_scan.induct)
     (auto split: prod.splits if_splits)

end
