(* ===== verification/Store_SQLite.thy ===== *)
theory Store_SQLite
  imports Store_Port
begin

text \<open>
  The durable adapter, \<open>bootstrap/adapters/persistence/sqlite.py\<close>. A table is the list of its
  rows in insertion order; a row is a record of its columns, with enumerations as the text the
  column holds. The schema's constraints are part of the statements: an \<open>INSERT\<close> that breaks a
  primary key, a \<open>UNIQUE\<close> or a \<open>CHECK\<close> raises \<open>IntegrityErr\<close>. A \<open>with self.connection:\<close>
  block is \<open>transact\<close>: it rolls back its own statements when it raises.
\<close>

section \<open>Rows\<close>

record session_row =
  sr_session_id :: string
  sr_secret_hash :: string
  sr_created_at :: timestamp
  sr_expires_at :: "timestamp option"
  sr_consumed_at :: "timestamp option"
  sr_revoked_at :: "timestamp option"
  sr_claimed_controller_id :: "string option"
  sr_failed_attempts :: int

record grant_row =
  gr_controller_id :: string
  gr_public_key :: string
  gr_public_key_fingerprint :: string
  gr_role :: string
  gr_display_name :: string
  gr_platform :: string
  gr_reset_epoch :: int
  gr_created_at :: timestamp
  gr_revoked_at :: "timestamp option"

record operation_row =
  or_operation_id :: string
  or_operation_type :: string
  or_state :: string
  or_target :: string
  or_reset_epoch :: int
  or_created_at :: timestamp
  or_updated_at :: timestamp
  or_error_code :: "string option"

record state_row =
  st_reset_epoch :: int
  st_claim_state :: string
  st_network_state :: string
  st_updated_at :: timestamp

record sql_db =
  db_open :: bool
  db_state :: "state_row option"
  db_sessions :: "session_row list"
  db_grants :: "grant_row list"
  db_operations :: "operation_row list"

definition sq_create_at_current_schema :: "timestamp \<Rightarrow> sql_db" where
  "sq_create_at_current_schema now =
     \<lparr>db_open = True,
      db_state = Some \<lparr>st_reset_epoch = 0, st_claim_state = ClaimState_value UNCLAIMED,
        st_network_state = NetworkState_value UNCONFIGURED, st_updated_at = now\<rparr>,
      db_sessions = [], db_grants = [], db_operations = []\<rparr>"

definition session_of :: "session_row \<Rightarrow> CommissioningSessionMetadata" where
  "session_of row =
     \<lparr>cs_session_id = sr_session_id row, cs_created_at = sr_created_at row,
      cs_expires_at = sr_expires_at row, cs_consumed_at = sr_consumed_at row,
      cs_revoked_at = sr_revoked_at row, cs_failed_attempts = sr_failed_attempts row\<rparr>"

definition controller_from_row :: "grant_row \<Rightarrow> store_error + ControllerGrant" where
  "controller_from_row row =
     (case ControllerRole_of (gr_role row) of
        None \<Rightarrow> Inl (SQLiteStoreErr ''controller grant contains an unknown enum'')
      | Some role \<Rightarrow> Inr
          \<lparr>cg_controller_id = gr_controller_id row, cg_public_key = gr_public_key row,
           cg_public_key_fingerprint = gr_public_key_fingerprint row, cg_role = role,
           cg_display_name = gr_display_name row, cg_platform = gr_platform row,
           cg_reset_epoch = gr_reset_epoch row, cg_created_at = gr_created_at row,
           cg_revoked_at = gr_revoked_at row\<rparr>)"

definition operation_from_row :: "operation_row \<Rightarrow> store_error + BootstrapOperation" where
  "operation_from_row row =
     (case (OperationType_of (or_operation_type row), OperationState_of (or_state row)) of
        (Some ty, Some st) \<Rightarrow> Inr
          \<lparr>op_operation_id = or_operation_id row, op_operation_type = ty, op_state = st,
           op_target = or_target row, op_reset_epoch = or_reset_epoch row,
           op_created_at = or_created_at row, op_updated_at = or_updated_at row,
           op_error_code = or_error_code row\<rparr>
      | _ \<Rightarrow> Inl (SQLiteStoreErr ''bootstrap operation contains an unknown enum''))"

text \<open>The column values the \<open>INSERT\<close> statements bind.\<close>

definition grant_to_row :: "ControllerGrant \<Rightarrow> grant_row" where
  "grant_to_row grant =
     \<lparr>gr_controller_id = cg_controller_id grant, gr_public_key = cg_public_key grant,
      gr_public_key_fingerprint = cg_public_key_fingerprint grant,
      gr_role = ControllerRole_value (cg_role grant), gr_display_name = cg_display_name grant,
      gr_platform = cg_platform grant, gr_reset_epoch = cg_reset_epoch grant,
      gr_created_at = cg_created_at grant, gr_revoked_at = cg_revoked_at grant\<rparr>"

definition operation_to_row :: "BootstrapOperation \<Rightarrow> operation_row" where
  "operation_to_row p =
     \<lparr>or_operation_id = op_operation_id p,
      or_operation_type = OperationType_value (op_operation_type p),
      or_state = OperationState_value (op_state p), or_target = op_target p,
      or_reset_epoch = op_reset_epoch p, or_created_at = op_created_at p,
      or_updated_at = op_updated_at p, or_error_code = op_error_code p\<rparr>"

definition new_session_row ::
  "string \<Rightarrow> string \<Rightarrow> timestamp \<Rightarrow> timestamp option \<Rightarrow> session_row" where
  "new_session_row session_id secret_hash created_at expires_at =
     \<lparr>sr_session_id = session_id, sr_secret_hash = secret_hash, sr_created_at = created_at,
      sr_expires_at = expires_at, sr_consumed_at = None, sr_revoked_at = None,
      sr_claimed_controller_id = None, sr_failed_attempts = 0\<rparr>"

section \<open>Statements\<close>

definition sq_connection :: "(sql_db, store_error, unit) op" where
  "sq_connection db =
     (if db_open db then (Inr (), db)
      else (Inl (SQLiteStoreErr ''bootstrap store is not open''), db))"

definition stmt_supersede_sessions :: "timestamp \<Rightarrow> sql_db \<Rightarrow> sql_db" where
  "stmt_supersede_sessions now db = db\<lparr>db_sessions := map (\<lambda>r.
     if sr_consumed_at r = None \<and> sr_revoked_at r = None then r\<lparr>sr_revoked_at := Some now\<rparr> else r)
     (db_sessions db)\<rparr>"

definition stmt_insert_session :: "session_row \<Rightarrow> (sql_db, store_error, unit) op" where
  "stmt_insert_session row db =
     (if sr_session_id row \<in> sr_session_id ` set (db_sessions db) then (Inl IntegrityErr, db)
      else (Inr (), db\<lparr>db_sessions := db_sessions db @ [row]\<rparr>))"

definition stmt_count_failed_attempt :: "string \<Rightarrow> sql_db \<Rightarrow> sql_db" where
  "stmt_count_failed_attempt session_id db = db\<lparr>db_sessions := map (\<lambda>r.
     if sr_session_id r = session_id then r\<lparr>sr_failed_attempts := sr_failed_attempts r + 1\<rparr> else r)
     (db_sessions db)\<rparr>"

definition stmt_consume_session :: "string \<Rightarrow> string \<Rightarrow> timestamp \<Rightarrow> sql_db \<Rightarrow> sql_db" where
  "stmt_consume_session session_id controller_id now db = db\<lparr>db_sessions := map (\<lambda>r.
     if sr_session_id r = session_id
     then r\<lparr>sr_consumed_at := Some now, sr_claimed_controller_id := Some controller_id\<rparr> else r)
     (db_sessions db)\<rparr>"

text \<open>
  \<open>INSERT \<dots> ON CONFLICT(controller_id, reset_epoch) DO UPDATE\<close>: the upsert target is tried
  first; any other uniqueness violation aborts the statement.
\<close>

definition stmt_upsert_grant :: "grant_row \<Rightarrow> (sql_db, store_error, unit) op" where
  "stmt_upsert_grant row db =
     (if gr_reset_epoch row < 0 then (Inl IntegrityErr, db)
      else if list_ex (\<lambda>r. gr_controller_id r = gr_controller_id row
                        \<and> gr_reset_epoch r = gr_reset_epoch row) (db_grants db)
      then (Inr (), db\<lparr>db_grants := map (\<lambda>r.
             if gr_controller_id r = gr_controller_id row \<and> gr_reset_epoch r = gr_reset_epoch row
             then r\<lparr>gr_display_name := gr_display_name row, gr_platform := gr_platform row,
                    gr_created_at := gr_created_at row, gr_revoked_at := None\<rparr>
             else r) (db_grants db)\<rparr>)
      else if list_ex (\<lambda>r. gr_public_key_fingerprint r = gr_public_key_fingerprint row
                        \<and> gr_reset_epoch r = gr_reset_epoch row) (db_grants db)
      then (Inl IntegrityErr, db)
      else (Inr (), db\<lparr>db_grants := db_grants db @ [row]\<rparr>))"

definition stmt_set_network_state :: "NetworkState \<Rightarrow> timestamp \<Rightarrow> sql_db \<Rightarrow> sql_db" where
  "stmt_set_network_state network_state now db = db\<lparr>db_state := map_option
     (\<lambda>r. r\<lparr>st_network_state := NetworkState_value network_state, st_updated_at := now\<rparr>)
     (db_state db)\<rparr>"

definition active_state_texts :: "string list" where
  "active_state_texts = map OperationState_value active_states"

definition stmt_fail_operations :: "timestamp \<Rightarrow> string \<Rightarrow> sql_db \<Rightarrow> sql_db" where
  "stmt_fail_operations now code db = db\<lparr>db_operations := map (\<lambda>r.
     if or_state r \<in> set active_state_texts
     then r\<lparr>or_state := OperationState_value FAILED, or_updated_at := now,
            or_error_code := Some code\<rparr> else r) (db_operations db)\<rparr>"

section \<open>Operations\<close>

definition sq_get_state :: "(sql_db, store_error, BootstrapState) op" where
  "sq_get_state = bindS sq_connection (\<lambda>_ db.
     (case db_state db of
        None \<Rightarrow> (Inl (SQLiteStoreErr ''bootstrap state singleton is missing''), db)
      | Some row \<Rightarrow>
          (case (ClaimState_of (st_claim_state row), NetworkState_of (st_network_state row)) of
             (Some c, Some n) \<Rightarrow>
               (Inr \<lparr>bs_reset_epoch = st_reset_epoch row, bs_claim_state = c,
                     bs_network_state = n, bs_updated_at = st_updated_at row\<rparr>, db)
           | _ \<Rightarrow> (Inl (SQLiteStoreErr ''bootstrap state contains an unknown enum''), db))))"

definition sq_issue_commissioning_session ::
  "string \<Rightarrow> string \<Rightarrow> timestamp \<Rightarrow> timestamp option \<Rightarrow> (sql_db, store_error, unit) op" where
  "sq_issue_commissioning_session session_id secret_hash created_at expires_at =
     bindS sq_connection (\<lambda>_. transact (\<lambda>db.
       stmt_insert_session (new_session_row session_id secret_hash created_at expires_at)
         (stmt_supersede_sessions created_at db)))"

text \<open>\<open>ORDER BY created_at DESC, session_id DESC LIMIT 1\<close>: the last row in ascending order.\<close>

definition sq_latest_commissioning_session ::
  "(sql_db, store_error, CommissioningSessionMetadata option) op" where
  "sq_latest_commissioning_session = bindS sq_connection (\<lambda>_ db.
     (if db_sessions db = [] then (Inr None, db)
      else (Inr (Some (session_of (last (sort_key (\<lambda>r. (sr_created_at r, sr_session_id r))
                                            (db_sessions db))))), db)))"

definition sq_authorize_commissioning_session ::
  "string \<Rightarrow> string \<Rightarrow> timestamp \<Rightarrow> (sql_db, store_error, CommissioningSessionMetadata) op" where
  "sq_authorize_commissioning_session session_id secret_hash now = bindS sq_connection (\<lambda>_ db.
     (case find (\<lambda>r. sr_session_id r = session_id) (db_sessions db) of
        None \<Rightarrow> (Inl session_unavailable, db)
      | Some row \<Rightarrow>
          (if \<not> is_open (session_of row) now then (Inl session_unavailable, db)
           else if sr_secret_hash row \<noteq> secret_hash
           then (Inl session_unavailable, stmt_count_failed_attempt session_id db)
           else (Inr (session_of row), db))))"

definition sq_get_controller :: "string \<Rightarrow> (sql_db, store_error, ControllerGrant option) op" where
  "sq_get_controller controller_id = bindS sq_get_state (\<lambda>state db.
     (case find (\<lambda>r. gr_controller_id r = controller_id
                   \<and> gr_reset_epoch r = bs_reset_epoch state) (db_grants db) of
        None \<Rightarrow> (Inr None, db)
      | Some row \<Rightarrow> (map_sum id Some (controller_from_row row), db)))"

text \<open>
  The lookup by either name. The statement has no \<open>ORDER BY\<close>, so which of several matching rows
  comes first is SQLite's choice; the model takes table order, and \<open>grant_lookup_choice\<close> in
  \<open>Store_Refinement\<close> shows the answer does not depend on it.
\<close>

definition sq_grant_in_epoch ::
  "ControllerGrant \<Rightarrow> int \<Rightarrow> (sql_db, store_error, ControllerGrant option) op" where
  "sq_grant_in_epoch grant reset_epoch db =
     (case find (\<lambda>r. gr_reset_epoch r = reset_epoch
                   \<and> (gr_controller_id r = cg_controller_id grant
                      \<or> gr_public_key_fingerprint r = cg_public_key_fingerprint grant))
             (db_grants db) of
        None \<Rightarrow> (Inr None, db)
      | Some row \<Rightarrow>
          (case controller_from_row row of
             Inl e \<Rightarrow> (Inl e, db)
           | Inr held \<Rightarrow>
               (if cg_public_key held \<noteq> cg_public_key grant
                then (Inl (Conflict
                  ''another Controller already holds this identity on this Host''), db)
                else (Inr (if cg_revoked_at held = None then Some held else None), db))))"

text \<open>
  \<open>claim_controller\<close>. The nested \<open>with\<close> block of the authorization commits a counted wrong
  code before it raises, so that count survives; nothing else is pending at that point. What
  follows the authorization is one transaction.
\<close>

definition sq_claim_body ::
  "string \<Rightarrow> ControllerGrant \<Rightarrow> timestamp \<Rightarrow> (sql_db, store_error, ControllerGrant) op" where
  "sq_claim_body session_id grant now =
     bindS sq_get_state (\<lambda>state.
       if cg_reset_epoch grant \<noteq> bs_reset_epoch state
       then raise (Conflict ''controller reset epoch does not match host'')
       else bindS (sq_grant_in_epoch grant (bs_reset_epoch state)) (\<lambda>held.
         case held of
           Some g \<Rightarrow> (\<lambda>db. (Inr g, stmt_consume_session session_id (cg_controller_id g) now db))
         | None \<Rightarrow> bindS (stmt_upsert_grant (grant_to_row grant)) (\<lambda>_ db.
             let db1 = stmt_consume_session session_id (cg_controller_id grant) now db
             in (Inr grant, db1\<lparr>db_state := map_option (\<lambda>r.
                   r\<lparr>st_claim_state := ClaimState_value CLAIMED, st_updated_at := now\<rparr>)
                   (db_state db1)\<rparr>))))"

definition sq_claim_fresh ::
  "string \<Rightarrow> string \<Rightarrow> ControllerGrant \<Rightarrow> timestamp \<Rightarrow> (sql_db, store_error, ControllerGrant) op"
  where
  "sq_claim_fresh session_id secret_hash grant now =
     bindS (sq_authorize_commissioning_session session_id secret_hash now) (\<lambda>_.
       transact (sq_claim_body session_id grant now))"

definition sq_replayed_claim ::
  "session_row \<Rightarrow> string \<Rightarrow> ControllerGrant \<Rightarrow> (sql_db, store_error, ControllerGrant) op" where
  "sq_replayed_claim session secret_hash grant =
     (if sr_claimed_controller_id session = Some (cg_controller_id grant)
      then bindS (sq_get_controller (cg_controller_id grant)) (\<lambda>existing db.
        (case existing of
           Some e \<Rightarrow>
             (if cg_public_key e = cg_public_key grant
                 \<and> cg_revoked_at e = None
                 \<and> sr_secret_hash session = secret_hash
                 \<and> granted_before (cg_created_at e) (sr_consumed_at session)
              then (Inr e, db) else (Inl session_unavailable, db))
         | None \<Rightarrow> (Inl session_unavailable, db)))
      else raise session_unavailable)"

definition sq_claim_controller ::
  "string \<Rightarrow> string \<Rightarrow> ControllerGrant \<Rightarrow> timestamp \<Rightarrow> (sql_db, store_error, ControllerGrant) op"
  where
  "sq_claim_controller session_id secret_hash grant now =
     bindS sq_connection (\<lambda>_ db.
       (case find (\<lambda>r. sr_session_id r = session_id) (db_sessions db) of
          Some session \<Rightarrow>
            (if sr_consumed_at session \<noteq> None
             then sq_replayed_claim session secret_hash grant db
             else sq_claim_fresh session_id secret_hash grant now db)
        | None \<Rightarrow> sq_claim_fresh session_id secret_hash grant now db))"

fun decode_controllers :: "grant_row list \<Rightarrow> store_error + ControllerGrant list" where
  "decode_controllers [] = Inr []"
| "decode_controllers (row # rows) =
     (case controller_from_row row of
        Inl e \<Rightarrow> Inl e
      | Inr g \<Rightarrow> map_sum id (\<lambda>gs. g # gs) (decode_controllers rows))"

text \<open>\<open>ORDER BY created_at, controller_id\<close>; ties keep table order.\<close>

definition sq_list_controllers :: "(sql_db, store_error, ControllerGrant list) op" where
  "sq_list_controllers = bindS sq_connection (\<lambda>_ db.
     (decode_controllers (sort_key (\<lambda>r. (gr_created_at r, gr_controller_id r)) (db_grants db)), db))"

text \<open>The transaction of \<open>revoke_controller\<close>, and the method around it.\<close>

definition sq_revoke_body :: "string \<Rightarrow> timestamp \<Rightarrow> (sql_db, store_error, unit) op" where
  "sq_revoke_body controller_id now =
     bindS sq_get_state (\<lambda>state.
     bindS sq_list_controllers (\<lambda>grants db.
       (let active = filter (\<lambda>grant. cg_revoked_at grant = None
                                \<and> cg_reset_epoch grant = bs_reset_epoch state) grants
        in case find (\<lambda>grant. cg_controller_id grant = controller_id) active of
             None \<Rightarrow> (Inl (Conflict ''controller is not authorized for this Host''), db)
           | Some target \<Rightarrow>
               (if length active = 1
                then (Inl (Conflict
                  ''the last Controller cannot be revoked; use controller-reset''), db)
                else (Inr (), db\<lparr>db_grants := map (\<lambda>r.
                       if gr_controller_id r = controller_id
                          \<and> gr_reset_epoch r = bs_reset_epoch state
                       then r\<lparr>gr_revoked_at := Some now\<rparr> else r) (db_grants db)\<rparr>)))))"

definition sq_revoke_controller ::
  "string \<Rightarrow> timestamp \<Rightarrow> (sql_db, store_error, ControllerGrant) op" where
  "sq_revoke_controller controller_id now =
     bindS (transact (sq_revoke_body controller_id now))
     (\<lambda>_. bindS (sq_get_controller controller_id) (\<lambda>result.
       case result of
         None \<Rightarrow> raise (SQLiteStoreErr ''revoked controller grant disappeared'')
       | Some g \<Rightarrow> ret g))"

definition sq_get_operation :: "string \<Rightarrow> (sql_db, store_error, BootstrapOperation option) op" where
  "sq_get_operation operation_id = bindS sq_connection (\<lambda>_ db.
     (case find (\<lambda>r. or_operation_id r = operation_id) (db_operations db) of
        None \<Rightarrow> (Inr None, db)
      | Some row \<Rightarrow> (map_sum id Some (operation_from_row row), db)))"

definition sq_create_operation ::
  "BootstrapOperation \<Rightarrow> (sql_db, store_error, BootstrapOperation) op" where
  "sq_create_operation operation =
     bindS (sq_get_operation (op_operation_id operation)) (\<lambda>found.
       case found of
         Some current \<Rightarrow>
           (if op_operation_type current = op_operation_type operation
               \<and> op_target current = op_target operation
               \<and> op_reset_epoch current = op_reset_epoch operation
            then ret current
            else raise (Conflict ''operation_id is already in use''))
       | None \<Rightarrow>
           bindS sq_get_state (\<lambda>state.
             if op_reset_epoch operation \<noteq> bs_reset_epoch state
             then raise (Conflict ''operation reset epoch does not match host'')
             else transact (\<lambda>db.
               (if list_ex (\<lambda>r. or_state r \<in> set active_state_texts) (db_operations db)
                then (Inl (Conflict ''another bootstrap operation is active''), db)
                else if op_reset_epoch operation < 0 then (Inl IntegrityErr, db)
                else (Inr operation,
                  db\<lparr>db_operations := db_operations db @ [operation_to_row operation]\<rparr>)))))"

definition sq_update_operation ::
  "string \<Rightarrow> BootstrapOperationState \<Rightarrow> NetworkState \<Rightarrow> timestamp \<Rightarrow> string option
    \<Rightarrow> (sql_db, store_error, BootstrapOperation) op" where
  "sq_update_operation operation_id state network_state updated_at error_code =
     bindS (transact (
       bindS (sq_get_operation operation_id) (\<lambda>current.
         case current of
           None \<Rightarrow> raise (Conflict ''bootstrap operation does not exist'')
         | Some _ \<Rightarrow> (\<lambda>db. (Inr (), stmt_set_network_state network_state updated_at
             (db\<lparr>db_operations := map (\<lambda>r.
                if or_operation_id r = operation_id
                then r\<lparr>or_state := OperationState_value state, or_updated_at := updated_at,
                       or_error_code := error_code\<rparr> else r) (db_operations db)\<rparr>))))))
     (\<lambda>_. bindS (sq_get_operation operation_id) (\<lambda>result.
       case result of None \<Rightarrow> raise AssertionErr | Some p \<Rightarrow> ret p))"

definition sq_fail_interrupted_operations :: "timestamp \<Rightarrow> (sql_db, store_error, int) op" where
  "sq_fail_interrupted_operations now = bindS sq_connection (\<lambda>_. transact (\<lambda>db.
     (let interrupted = length (filter (\<lambda>r. or_state r \<in> set active_state_texts) (db_operations db));
          db1 = stmt_fail_operations now ''daemon_restarted'' db
      in (Inr (int interrupted),
          if interrupted \<noteq> 0 then stmt_set_network_state DEGRADED now db1 else db1))))"

definition sq_reconcile_network_state ::
  "NetworkState \<Rightarrow> timestamp \<Rightarrow> (sql_db, store_error, unit) op" where
  "sq_reconcile_network_state network_state now =
     (if network_state \<in> {STAGING, ROLLING_BACK}
      then raise (Conflict ''cannot reconcile an active network transition at startup'')
      else bindS sq_connection (\<lambda>_. transact (\<lambda>db.
        (Inr (), stmt_set_network_state network_state now db))))"

definition sq_reset_authority ::
  "NetworkState \<Rightarrow> timestamp \<Rightarrow> CommissioningSessionSeed option
    \<Rightarrow> (sql_db, store_error, BootstrapState) op" where
  "sq_reset_authority network_state now recovery_session =
     bindS sq_get_state (\<lambda>state.
     bindS (transact (\<lambda>db.
       (let db1 = stmt_supersede_sessions now db;
            db2 = db1\<lparr>db_grants := map (\<lambda>r. if gr_revoked_at r = None
                    then r\<lparr>gr_revoked_at := Some now\<rparr> else r) (db_grants db1)\<rparr>;
            db3 = stmt_fail_operations now ''authority_reset'' db2;
            db4 = db3\<lparr>db_state := map_option (\<lambda>r.
                    r\<lparr>st_reset_epoch := bs_reset_epoch state + 1,
                      st_claim_state := ClaimState_value UNCLAIMED,
                      st_network_state := NetworkState_value network_state,
                      st_updated_at := now\<rparr>) (db_state db3)\<rparr>
        in case recovery_session of
             None \<Rightarrow> (Inr (), db4)
           | Some seed \<Rightarrow> stmt_insert_session
               (new_session_row (seed_session_id seed) (seed_secret_hash seed) now
                  (seed_expires_at seed)) db4)))
     (\<lambda>_. sq_get_state))"

definition sq_close :: "(sql_db, store_error, unit) op" where
  "sq_close db = (Inr (), db\<lparr>db_open := False\<rparr>)"

definition sqlite_store :: "sql_db store_port" where
  "sqlite_store = \<lparr>
     sp_get_state = sq_get_state,
     sp_issue_commissioning_session = sq_issue_commissioning_session,
     sp_latest_commissioning_session = sq_latest_commissioning_session,
     sp_authorize_commissioning_session = sq_authorize_commissioning_session,
     sp_claim_controller = sq_claim_controller,
     sp_get_controller = sq_get_controller,
     sp_list_controllers = sq_list_controllers,
     sp_revoke_controller = sq_revoke_controller,
     sp_create_operation = sq_create_operation,
     sp_get_operation = sq_get_operation,
     sp_update_operation = sq_update_operation,
     sp_fail_interrupted_operations = sq_fail_interrupted_operations,
     sp_reconcile_network_state = sq_reconcile_network_state,
     sp_reset_authority = sq_reset_authority\<rparr>"

lemma sqlite_store_sel [simp]:
  "sp_get_state sqlite_store = sq_get_state"
  "sp_issue_commissioning_session sqlite_store = sq_issue_commissioning_session"
  "sp_latest_commissioning_session sqlite_store = sq_latest_commissioning_session"
  "sp_authorize_commissioning_session sqlite_store = sq_authorize_commissioning_session"
  "sp_claim_controller sqlite_store = sq_claim_controller"
  "sp_get_controller sqlite_store = sq_get_controller"
  "sp_list_controllers sqlite_store = sq_list_controllers"
  "sp_revoke_controller sqlite_store = sq_revoke_controller"
  "sp_create_operation sqlite_store = sq_create_operation"
  "sp_get_operation sqlite_store = sq_get_operation"
  "sp_update_operation sqlite_store = sq_update_operation"
  "sp_fail_interrupted_operations sqlite_store = sq_fail_interrupted_operations"
  "sp_reconcile_network_state sqlite_store = sq_reconcile_network_state"
  "sp_reset_authority sqlite_store = sq_reset_authority"
  by (simp_all add: sqlite_store_def)

section \<open>Row codecs\<close>

lemma controller_row_roundtrip [simp]: "controller_from_row (grant_to_row g) = Inr g"
  by (cases g) (simp add: controller_from_row_def grant_to_row_def)

lemma operation_row_roundtrip [simp]: "operation_from_row (operation_to_row p) = Inr p"
  by (cases p) (simp add: operation_from_row_def operation_to_row_def)

lemma session_of_new [simp]:
  "session_of (new_session_row sid h created expires) = new_session sid created expires"
  by (simp add: session_of_def new_session_row_def new_session_def)

lemma session_of_fields [simp]:
  "cs_session_id (session_of r) = sr_session_id r"
  "cs_created_at (session_of r) = sr_created_at r"
  "cs_expires_at (session_of r) = sr_expires_at r"
  "cs_consumed_at (session_of r) = sr_consumed_at r"
  "cs_revoked_at (session_of r) = sr_revoked_at r"
  "cs_failed_attempts (session_of r) = sr_failed_attempts r"
  by (simp_all add: session_of_def)

end
