(* ===== verification/Store_Refinement.thy ===== *)
theory Store_Refinement
  imports Store_Memory Store_SQLite "HOL-Library.Multiset"
begin

text \<open>
  The two adapters agree. \<open>db_ok\<close> is the well-formedness every SQLite operation keeps: the
  schema's keys are respected, every enumeration column decodes, a consumed window names its
  Controller, and every Grant row carries the two names derived from its public key. \<open>store_sim\<close>
  relates such a database to the in-memory store that holds the same facts; every operation
  answers the same and keeps the relation.
\<close>

section \<open>Well-formed databases\<close>

definition grant_of_row :: "grant_row \<Rightarrow> ControllerGrant" where
  "grant_of_row row =
     \<lparr>cg_controller_id = gr_controller_id row, cg_public_key = gr_public_key row,
      cg_public_key_fingerprint = gr_public_key_fingerprint row, cg_role = HOST_ADMIN,
      cg_display_name = gr_display_name row, cg_platform = gr_platform row,
      cg_reset_epoch = gr_reset_epoch row, cg_created_at = gr_created_at row,
      cg_revoked_at = gr_revoked_at row\<rparr>"

definition operation_of_row :: "operation_row \<Rightarrow> BootstrapOperation" where
  "operation_of_row row =
     \<lparr>op_operation_id = or_operation_id row, op_operation_type = CHANGE_NETWORK,
      op_state = the (OperationState_of (or_state row)),
      op_target = or_target row, op_reset_epoch = or_reset_epoch row,
      op_created_at = or_created_at row, op_updated_at = or_updated_at row,
      op_error_code = or_error_code row\<rparr>"

definition state_of_row :: "state_row \<Rightarrow> BootstrapState" where
  "state_of_row row =
     \<lparr>bs_reset_epoch = st_reset_epoch row,
      bs_claim_state = the (ClaimState_of (st_claim_state row)),
      bs_network_state = the (NetworkState_of (st_network_state row)),
      bs_updated_at = st_updated_at row\<rparr>"

text \<open>
  \<open>names\<close> gives the Controller id and the fingerprint a public key has; \<open>_controller_grant\<close>
  derives both from the key alone.
\<close>

type_synonym key_names = "string \<Rightarrow> string \<times> string"

definition grant_named :: "key_names \<Rightarrow> ControllerGrant \<Rightarrow> bool" where
  "grant_named names g \<longleftrightarrow>
     (cg_controller_id g, cg_public_key_fingerprint g) = names (cg_public_key g)"

abbreviation grant_key :: "grant_row \<Rightarrow> int \<times> string" where
  "grant_key r \<equiv> (gr_reset_epoch r, gr_controller_id r)"

abbreviation grant_fp_key :: "grant_row \<Rightarrow> int \<times> string" where
  "grant_fp_key r \<equiv> (gr_reset_epoch r, gr_public_key_fingerprint r)"

definition grants_ok :: "key_names \<Rightarrow> grant_row list \<Rightarrow> bool" where
  "grants_ok names rows \<longleftrightarrow>
     distinct (map grant_key rows) \<and> distinct (map grant_fp_key rows)
     \<and> (\<forall>r \<in> set rows. gr_role r = ''host_admin'' \<and> grant_named names (grant_of_row r))"

definition sessions_ok :: "session_row list \<Rightarrow> bool" where
  "sessions_ok rows \<longleftrightarrow>
     distinct (map sr_session_id rows)
     \<and> (\<forall>r \<in> set rows. sr_consumed_at r = None \<longleftrightarrow> sr_claimed_controller_id r = None)"

definition operation_row_ok :: "operation_row \<Rightarrow> bool" where
  "operation_row_ok r \<longleftrightarrow> or_operation_type r = ''change_network''
     \<and> (\<exists>s. or_state r = OperationState_value s)"

definition operations_ok :: "operation_row list \<Rightarrow> bool" where
  "operations_ok rows \<longleftrightarrow>
     distinct (map or_operation_id rows) \<and> (\<forall>r \<in> set rows. operation_row_ok r)"

definition state_row_ok :: "state_row \<Rightarrow> bool" where
  "state_row_ok r \<longleftrightarrow> 0 \<le> st_reset_epoch r
     \<and> (\<exists>c. st_claim_state r = ClaimState_value c)
     \<and> (\<exists>n. st_network_state r = NetworkState_value n)"

definition db_ok :: "key_names \<Rightarrow> sql_db \<Rightarrow> bool" where
  "db_ok names db \<longleftrightarrow> db_open db
     \<and> (\<exists>r. db_state db = Some r \<and> state_row_ok r)
     \<and> sessions_ok (db_sessions db) \<and> grants_ok names (db_grants db)
     \<and> operations_ok (db_operations db)"

definition db_bootstrap_state :: "sql_db \<Rightarrow> BootstrapState" where
  "db_bootstrap_state db = state_of_row (the (db_state db))"

abbreviation db_epoch :: "sql_db \<Rightarrow> int" where
  "db_epoch db \<equiv> bs_reset_epoch (db_bootstrap_state db)"

lemma db_okD:
  assumes "db_ok names db"
  shows "db_open db" and "sessions_ok (db_sessions db)" and "grants_ok names (db_grants db)"
    and "operations_ok (db_operations db)"
  using assms by (auto simp: db_ok_def)

lemma grant_of_row_fields [simp]:
  "cg_controller_id (grant_of_row r) = gr_controller_id r"
  "cg_public_key (grant_of_row r) = gr_public_key r"
  "cg_public_key_fingerprint (grant_of_row r) = gr_public_key_fingerprint r"
  "cg_reset_epoch (grant_of_row r) = gr_reset_epoch r"
  "cg_created_at (grant_of_row r) = gr_created_at r"
  "cg_revoked_at (grant_of_row r) = gr_revoked_at r"
  by (simp_all add: grant_of_row_def)

lemma operation_of_row_fields [simp]:
  "op_operation_id (operation_of_row r) = or_operation_id r"
  "op_target (operation_of_row r) = or_target r"
  "op_reset_epoch (operation_of_row r) = or_reset_epoch r"
  by (simp_all add: operation_of_row_def)

lemma grant_of_to_row [simp]: "grant_of_row (grant_to_row g) = g"
  by (cases g) (simp add: grant_of_row_def grant_to_row_def)

lemma operation_of_to_row [simp]: "operation_of_row (operation_to_row p) = p"
  by (cases p) (simp add: operation_of_row_def operation_to_row_def)

lemma controller_from_row_ok:
  "gr_role r = ''host_admin'' \<Longrightarrow> controller_from_row r = Inr (grant_of_row r)"
  by (simp add: controller_from_row_def grant_of_row_def ControllerRole_of_def enum_lookup_def)

lemma operation_from_row_ok:
  "operation_row_ok r \<Longrightarrow> operation_from_row r = Inr (operation_of_row r)"
  by (auto simp: operation_from_row_def operation_of_row_def operation_row_ok_def
      OperationType_of_def enum_lookup_def)

lemma active_state_text_iff:
  "operation_row_ok r \<Longrightarrow>
     or_state r \<in> set active_state_texts \<longleftrightarrow> op_state (operation_of_row r) \<in> set active_states"
  by (auto simp: operation_row_ok_def active_state_texts_def operation_of_row_def
      simp del: active_states_iff)

lemma decode_controllers_ok:
  "\<forall>r \<in> set rows. gr_role r = ''host_admin'' \<Longrightarrow>
     decode_controllers rows = Inr (map grant_of_row rows)"
  by (induction rows) (simp_all add: controller_from_row_ok)

lemma sq_connection_run [simp]: "db_open db \<Longrightarrow> bindS sq_connection f db = f () db"
  by (simp add: bindS_def sq_connection_def)

lemma sq_get_state_run:
  assumes "db_ok names db"
  shows "sq_get_state db = (Inr (db_bootstrap_state db), db)"
  using assms
  by (auto simp: sq_get_state_def db_ok_def state_row_ok_def db_bootstrap_state_def state_of_row_def)

lemma bind_sq_get_state:
  "db_ok names db \<Longrightarrow> bindS sq_get_state f db = f (db_bootstrap_state db) db"
  by (simp add: bindS_def sq_get_state_run)

lemma db_epoch_nonneg: "db_ok names db \<Longrightarrow> 0 \<le> db_epoch db"
  by (auto simp: db_ok_def state_row_ok_def db_bootstrap_state_def state_of_row_def)

section \<open>The simulation relation\<close>

definition store_sim :: "sql_db \<Rightarrow> mem_store \<Rightarrow> bool" where
  "store_sim db m \<longleftrightarrow>
     ms_opened m = db_open db
     \<and> ms_state m = map_option state_of_row (db_state db)
     \<and> ms_sessions m = map (\<lambda>r. (session_of r, sr_secret_hash r)) (db_sessions db)
     \<and> (\<forall>sid. map_of (ms_session_controller_ids m) sid
          = Option.bind (find (\<lambda>r. sr_session_id r = sid) (db_sessions db)) sr_claimed_controller_id)
     \<and> ms_controllers m = map (\<lambda>r. (grant_key r, grant_of_row r)) (db_grants db)
     \<and> ms_operations m = map (\<lambda>r. (or_operation_id r, operation_of_row r)) (db_operations db)"

text \<open>Both sides answer alike and stay related, and the database stays well formed.\<close>

definition agree :: "key_names \<Rightarrow> ('e + 'a) \<times> sql_db \<Rightarrow> ('e + 'a) \<times> mem_store \<Rightarrow> bool" where
  "agree names x y \<longleftrightarrow> fst x = fst y \<and> store_sim (snd x) (snd y) \<and> db_ok names (snd x)"

lemma agreeI [intro?]:
  "r = r' \<Longrightarrow> store_sim db m \<Longrightarrow> db_ok names db \<Longrightarrow> agree names (r, db) (r', m)"
  by (simp add: agree_def)

lemma transact_agree:
  assumes "agree names (body db) (Inr v, m)"
  shows "agree names (transact body db) (Inr v, m)"
proof -
  obtain r db' where "body db = (r, db')" by (cases "body db")
  with assms have "body db = (Inr v, db')" by (simp add: agree_def)
  with assms show ?thesis by (simp add: transact_ok)
qed

lemma sim_state:
  assumes "db_ok names db" and "store_sim db m"
  shows "ms_opened m" and "ms_state m = Some (db_bootstrap_state db)"
  using assms by (auto simp: db_ok_def store_sim_def db_bootstrap_state_def)

lemma get_state_agree:
  assumes "db_ok names db" and "store_sim db m"
  shows "agree names (sq_get_state db) (mem_get_state m)"
  using assms sim_state [OF assms] by (simp add: sq_get_state_run agree_def)

text \<open>Row updates that keep the keys keep the table well formed.\<close>

lemma sessions_ok_map:
  assumes "sessions_ok rows"
    and "\<And>r. sr_session_id (f r) = sr_session_id r"
    and "\<And>r. (sr_consumed_at r = None \<longleftrightarrow> sr_claimed_controller_id r = None) \<Longrightarrow>
           (sr_consumed_at (f r) = None \<longleftrightarrow> sr_claimed_controller_id (f r) = None)"
  shows "sessions_ok (map f rows)"
  using assms by (simp add: sessions_ok_def comp_def)

lemma grants_ok_map:
  assumes "grants_ok names rows"
    and "\<And>r. gr_reset_epoch (f r) = gr_reset_epoch r \<and> gr_controller_id (f r) = gr_controller_id r
           \<and> gr_public_key_fingerprint (f r) = gr_public_key_fingerprint r
           \<and> gr_public_key (f r) = gr_public_key r \<and> gr_role (f r) = gr_role r"
  shows "grants_ok names (map f rows)"
  using assms by (simp add: grants_ok_def grant_named_def comp_def)

lemma operations_ok_map:
  assumes "operations_ok rows"
    and "\<And>r. or_operation_id (f r) = or_operation_id r"
    and "\<And>r. operation_row_ok r \<Longrightarrow> operation_row_ok (f r)"
  shows "operations_ok (map f rows)"
  using assms by (simp add: operations_ok_def comp_def)

lemma find_session_map:
  assumes "\<And>r. sr_session_id (f r) = sr_session_id r"
  shows "find (\<lambda>r. sr_session_id r = sid) (map f rows)
    = map_option f (find (\<lambda>r. sr_session_id r = sid) rows)"
  using assms by (simp add: find_map comp_def)

section \<open>Setup windows\<close>

definition row_supersede :: "timestamp \<Rightarrow> session_row \<Rightarrow> session_row" where
  "row_supersede now r = (if sr_consumed_at r = None \<and> sr_revoked_at r = None
     then r\<lparr>sr_revoked_at := Some now\<rparr> else r)"

lemma row_supersede_fields [simp]:
  "sr_session_id (row_supersede now r) = sr_session_id r"
  "sr_secret_hash (row_supersede now r) = sr_secret_hash r"
  "sr_consumed_at (row_supersede now r) = sr_consumed_at r"
  "sr_claimed_controller_id (row_supersede now r) = sr_claimed_controller_id r"
  "session_of (row_supersede now r) = supersede now (session_of r)"
  by (simp_all add: row_supersede_def session_of_def supersede_def)

lemma stmt_supersede_sessions_alt:
  "stmt_supersede_sessions now db = db\<lparr>db_sessions := map (row_supersede now) (db_sessions db)\<rparr>"
  by (simp add: stmt_supersede_sessions_def row_supersede_def)

lemma supersede_agree:
  assumes "db_ok names db" and "store_sim db m"
  shows "store_sim (stmt_supersede_sessions now db)
      (m\<lparr>ms_sessions := map (\<lambda>(md, h). (supersede now md, h)) (ms_sessions m)\<rparr>)"
    and "db_ok names (stmt_supersede_sessions now db)"
proof -
  have "Option.bind (map_option (row_supersede now) x) sr_claimed_controller_id
      = Option.bind x sr_claimed_controller_id" for x :: "session_row option"
    by (cases x) simp_all
  then show "store_sim (stmt_supersede_sessions now db)
      (m\<lparr>ms_sessions := map (\<lambda>(md, h). (supersede now md, h)) (ms_sessions m)\<rparr>)"
    using assms(2)
    by (simp add: store_sim_def stmt_supersede_sessions_alt find_session_map)
  show "db_ok names (stmt_supersede_sessions now db)"
    using assms(1) by (auto simp: db_ok_def stmt_supersede_sessions_alt intro!: sessions_ok_map)
qed

lemma insert_session_agree:
  assumes "db_ok names db" and "store_sim db m"
    and "sid \<notin> sr_session_id ` set (db_sessions db)"
  shows "agree names (stmt_insert_session (new_session_row sid h created expires) db)
    (Inr (), m\<lparr>ms_sessions := ms_sessions m @ [(new_session sid created expires, h)]\<rparr>)"
proof -
  let ?r = "new_session_row sid h created expires"
  have id: "sr_session_id ?r = sid" "sr_secret_hash ?r = h" "sr_claimed_controller_id ?r = None"
      "sr_consumed_at ?r = None"
    by (simp_all add: new_session_row_def)
  have claimed: "Option.bind (find (\<lambda>r. sr_session_id r = x) (db_sessions db @ [?r])) sr_claimed_controller_id
      = Option.bind (find (\<lambda>r. sr_session_id r = x) (db_sessions db)) sr_claimed_controller_id" for x
    using id by (auto simp: find_append split: option.split)
  show ?thesis
    using assms id claimed
    by (auto simp: agree_def stmt_insert_session_def store_sim_def db_ok_def sessions_ok_def)
qed

lemma issue_agree:
  assumes "db_ok names db" and "store_sim db m"
    and "sid \<notin> sr_session_id ` set (db_sessions db)"
  shows "agree names (sq_issue_commissioning_session sid h created expires db)
    (mem_issue_commissioning_session sid h created expires m)"
proof -
  note sup = supersede_agree [OF assms(1,2), of created]
  have "sid \<notin> sr_session_id ` set (db_sessions (stmt_supersede_sessions created db))"
    using assms(3) by (auto simp: stmt_supersede_sessions_alt)
  from insert_session_agree [OF sup(2) sup(1) this, of h created expires]
  show ?thesis
    using assms sim_state [OF assms(1,2)] db_okD(1) [OF assms(1)]
    by (simp add: sq_issue_commissioning_session_def mem_issue_commissioning_session_def
        transact_agree)
qed

definition row_count_failure :: "string \<Rightarrow> session_row \<Rightarrow> session_row" where
  "row_count_failure sid r =
     (if sr_session_id r = sid then r\<lparr>sr_failed_attempts := sr_failed_attempts r + 1\<rparr> else r)"

lemma row_count_failure_fields [simp]:
  "sr_session_id (row_count_failure sid r) = sr_session_id r"
  "sr_secret_hash (row_count_failure sid r) = sr_secret_hash r"
  "sr_consumed_at (row_count_failure sid r) = sr_consumed_at r"
  "sr_claimed_controller_id (row_count_failure sid r) = sr_claimed_controller_id r"
  by (simp_all add: row_count_failure_def)

lemma stmt_count_failed_attempt_alt:
  "stmt_count_failed_attempt sid db
   = db\<lparr>db_sessions := map (row_count_failure sid) (db_sessions db)\<rparr>"
  by (simp add: stmt_count_failed_attempt_def row_count_failure_def)

abbreviation session_pairs :: "session_row list \<Rightarrow> (CommissioningSessionMetadata \<times> string) list" where
  "session_pairs rows \<equiv> map (\<lambda>r. (session_of r, sr_secret_hash r)) rows"

lemma row_count_failure_other:
  "sid \<notin> sr_session_id ` set rows \<Longrightarrow> map (row_count_failure sid) rows = rows"
  by (rule map_idI) (auto simp: row_count_failure_def)

lemma mem_authorize_scan_rows:
  assumes "distinct (map sr_session_id rows)"
  shows "mem_authorize_scan sid h now (session_pairs rows) =
     (case find (\<lambda>r. sr_session_id r = sid) rows of
        None \<Rightarrow> (None, session_pairs rows)
      | Some r \<Rightarrow>
          if \<not> is_open (session_of r) now then (None, session_pairs rows)
          else if sr_secret_hash r = h then (Some (session_of r), session_pairs rows)
          else (None, session_pairs (map (row_count_failure sid) rows)))"
  using assms
proof (induction rows)
  case (Cons a rows)
  show ?case
  proof (cases "sr_session_id a = sid")
    case True
    with Cons.prems have "map (row_count_failure sid) rows = rows"
      by (intro row_count_failure_other) auto
    with True show ?thesis
      by (simp add: row_count_failure_def session_of_def)
  next
    case False
    with Cons show ?thesis
      by (auto simp: row_count_failure_def split: option.splits if_splits)
  qed
qed simp

lemma count_failure_agree:
  assumes "db_ok names db" and "store_sim db m"
  shows "store_sim (stmt_count_failed_attempt sid db)
      (m\<lparr>ms_sessions := session_pairs (map (row_count_failure sid) (db_sessions db))\<rparr>)"
    and "db_ok names (stmt_count_failed_attempt sid db)"
proof -
  have "Option.bind (map_option (row_count_failure sid) x) sr_claimed_controller_id
      = Option.bind x sr_claimed_controller_id" for x :: "session_row option"
    by (cases x) simp_all
  then show "store_sim (stmt_count_failed_attempt sid db)
      (m\<lparr>ms_sessions := session_pairs (map (row_count_failure sid) (db_sessions db))\<rparr>)"
    using assms(2) by (simp add: store_sim_def stmt_count_failed_attempt_alt find_session_map)
  show "db_ok names (stmt_count_failed_attempt sid db)"
    using assms(1) by (auto simp: db_ok_def stmt_count_failed_attempt_alt intro!: sessions_ok_map)
qed

lemma authorize_agree:
  assumes "db_ok names db" and "store_sim db m"
  shows "agree names (sq_authorize_commissioning_session sid h now db)
    (mem_authorize_commissioning_session sid h now m)"
proof -
  have pairs: "ms_sessions m = session_pairs (db_sessions db)"
    using assms(2) by (simp add: store_sim_def)
  have same: "store_sim db (m\<lparr>ms_sessions := session_pairs (db_sessions db)\<rparr>)"
    using assms(2) by (simp add: store_sim_def)
  have "distinct (map sr_session_id (db_sessions db))"
    using assms(1) by (simp add: db_ok_def sessions_ok_def)
  note scan = mem_authorize_scan_rows [OF this, of sid h now]
  note failed = count_failure_agree [OF assms, of sid]
  show ?thesis
    using sim_state(1) [OF assms] db_okD(1) [OF assms(1)] assms failed same
    by (auto simp: sq_authorize_commissioning_session_def mem_authorize_commissioning_session_def
        pairs scan agree_def split: option.splits)
qed

section \<open>Grants\<close>

lemma grants_okD:
  assumes "grants_ok names rows"
  shows "distinct (map grant_key rows)" and "distinct (map grant_fp_key rows)"
    and "r \<in> set rows \<Longrightarrow> gr_role r = ''host_admin''"
    and "r \<in> set rows \<Longrightarrow> grant_named names (grant_of_row r)"
  using assms by (auto simp: grants_ok_def)

lemma grant_named_same_key:
  assumes "grant_named names g" and "grant_named names h" and "cg_public_key g = cg_public_key h"
  shows "cg_controller_id g = cg_controller_id h"
    and "cg_public_key_fingerprint g = cg_public_key_fingerprint h"
  using assms unfolding grant_named_def by (metis prod.inject)+

lemma sim_controllers:
  "store_sim db m \<Longrightarrow> map_of (ms_controllers m) (epoch, cid)
     = map_option grant_of_row (find (\<lambda>r. grant_key r = (epoch, cid)) (db_grants db))"
  by (simp add: store_sim_def map_of_map_key [where key = grant_key])

lemma sq_get_controller_run:
  assumes "db_ok names db"
  shows "sq_get_controller cid db =
    (Inr (map_option grant_of_row (find (\<lambda>r. grant_key r = (db_epoch db, cid)) (db_grants db))), db)"
proof -
  have eq: "(\<lambda>r. gr_controller_id r = cid \<and> gr_reset_epoch r = db_epoch db)
      = (\<lambda>r. grant_key r = (db_epoch db, cid))"
    by auto
  have "gr_role r = ''host_admin''"
    if "find (\<lambda>r. grant_key r = (db_epoch db, cid)) (db_grants db) = Some r" for r
    using find_SomeD [OF that] grants_okD(3) [OF db_okD(3) [OF assms]] by blast
  then show ?thesis
    unfolding sq_get_controller_def bind_sq_get_state [OF assms] eq
    by (simp add: controller_from_row_ok split: option.split)
qed

lemma mem_get_controller_run:
  assumes "ms_opened m" and "ms_state m = Some s"
  shows "mem_get_controller cid m = (Inr (map_of (ms_controllers m) (bs_reset_epoch s, cid)), m)"
  using assms by (simp add: mem_get_controller_def bindS_ok)

lemma get_controller_agree:
  assumes "db_ok names db" and "store_sim db m"
  shows "agree names (sq_get_controller cid db) (mem_get_controller cid m)"
  using assms sim_state [OF assms]
  by (simp add: sq_get_controller_run mem_get_controller_run sim_controllers agree_def)

text \<open>
  Which Grant the epoch already holds for a key. The id and the fingerprint are looked up
  together by SQLite and one after the other in memory; since both names come from the key, a
  row that matches by only one of them holds another key, and both adapters refuse.
\<close>

lemma grant_lookup_choice:
  assumes "grants_ok names rows" and "grant_named names g"
    and "r \<in> set rows" and "r' \<in> set rows" and "r \<noteq> r'"
    and "gr_reset_epoch r = epoch" and "gr_reset_epoch r' = epoch"
    and "gr_controller_id r = cg_controller_id g
      \<or> gr_public_key_fingerprint r = cg_public_key_fingerprint g"
    and "gr_controller_id r' = cg_controller_id g
      \<or> gr_public_key_fingerprint r' = cg_public_key_fingerprint g"
  shows "gr_public_key r \<noteq> cg_public_key g"
proof
  assume key: "gr_public_key r = cg_public_key g"
  have "grant_named names (grant_of_row r)" by (rule grants_okD(4) [OF assms(1,3)])
  from grant_named_same_key [OF this assms(2)] key
  have same: "gr_controller_id r = cg_controller_id g"
      "gr_public_key_fingerprint r = cg_public_key_fingerprint g"
    by simp_all
  have "grant_key r = grant_key r' \<or> grant_fp_key r = grant_fp_key r'"
    using same assms(6-9) by auto
  then show False
    using distinct_map_key_eq [OF grants_okD(1) [OF assms(1)] assms(3,4)]
      distinct_map_key_eq [OF grants_okD(2) [OF assms(1)] assms(3,4)] assms(5) by auto
qed

definition held_verdict ::
  "ControllerGrant \<Rightarrow> ControllerGrant option \<Rightarrow> store_error + ControllerGrant option" where
  "held_verdict grant held =
     (case held of
        None \<Rightarrow> Inr None
      | Some g \<Rightarrow>
          (if cg_public_key g \<noteq> cg_public_key grant
           then Inl (Conflict ''another Controller already holds this identity on this Host'')
           else Inr (if cg_revoked_at g = None then Some g else None)))"

abbreviation matches_grant :: "ControllerGrant \<Rightarrow> int \<Rightarrow> grant_row \<Rightarrow> bool" where
  "matches_grant g epoch r \<equiv> gr_reset_epoch r = epoch
     \<and> (gr_controller_id r = cg_controller_id g
        \<or> gr_public_key_fingerprint r = cg_public_key_fingerprint g)"

lemma sq_grant_in_epoch_run:
  assumes "db_ok names db"
  shows "sq_grant_in_epoch g epoch db =
    (held_verdict g (map_option grant_of_row (find (matches_grant g epoch) (db_grants db))), db)"
proof -
  have "gr_role r = ''host_admin''" if "find (matches_grant g epoch) (db_grants db) = Some r" for r
    using find_SomeD [OF that] grants_okD(3) [OF db_okD(3) [OF assms]] by blast
  then show ?thesis
    by (auto simp: sq_grant_in_epoch_def held_verdict_def controller_from_row_ok split: option.splits)
qed

lemma mem_grant_in_epoch_run:
  assumes "store_sim db m"
  shows "mem_grant_in_epoch g epoch m =
    (held_verdict g (map_option grant_of_row
       (case find (\<lambda>r. grant_key r = (epoch, cg_controller_id g)) (db_grants db) of
          Some r \<Rightarrow> Some r
        | None \<Rightarrow> find (\<lambda>r. gr_reset_epoch r = epoch
            \<and> gr_public_key_fingerprint r = cg_public_key_fingerprint g) (db_grants db))), m)"
proof -
  have fp: "map_option snd (find (\<lambda>((e, _), c). e = epoch
        \<and> cg_public_key_fingerprint c = cg_public_key_fingerprint g) (ms_controllers m))
      = map_option grant_of_row (find (\<lambda>r. gr_reset_epoch r = epoch
        \<and> gr_public_key_fingerprint r = cg_public_key_fingerprint g) (db_grants db))"
    using assms by (simp add: store_sim_def find_map comp_def option.map_comp)
  show ?thesis
    unfolding mem_grant_in_epoch_def Let_def fp sim_controllers [OF assms]
    by (auto simp: held_verdict_def split: option.splits)
qed

lemma grant_in_epoch_verdict:
  assumes ok: "grants_ok names rows" and g: "grant_named names g"
  shows "held_verdict g (map_option grant_of_row (find (matches_grant g epoch) rows))
    = held_verdict g (map_option grant_of_row
       (case find (\<lambda>r. grant_key r = (epoch, cg_controller_id g)) rows of
          Some r \<Rightarrow> Some r
        | None \<Rightarrow> find (\<lambda>r. gr_reset_epoch r = epoch
            \<and> gr_public_key_fingerprint r = cg_public_key_fingerprint g) rows))"
proof (cases "find (\<lambda>r. grant_key r = (epoch, cg_controller_id g)) rows")
  case None
  then have "find (matches_grant g epoch) rows = find (\<lambda>r. gr_reset_epoch r = epoch
      \<and> gr_public_key_fingerprint r = cg_public_key_fingerprint g) rows"
    by (intro find_cong) (auto simp: find_None)
  with None show ?thesis by simp
next
  case (Some r)
  then have r: "r \<in> set rows" "matches_grant g epoch r" by (auto dest: find_SomeD)
  then obtain r' where r': "find (matches_grant g epoch) rows = Some r'"
    by (cases "find (matches_grant g epoch) rows") (auto simp: find_None)
  then have m': "r' \<in> set rows" "matches_grant g epoch r'" by (auto dest: find_SomeD)
  show ?thesis
  proof (cases "r = r'")
    case True
    with Some r' show ?thesis by simp
  next
    case False
    have "gr_public_key r \<noteq> cg_public_key g" and "gr_public_key r' \<noteq> cg_public_key g"
      using grant_lookup_choice [OF ok g r(1) m'(1) False] grant_lookup_choice [OF ok g m'(1) r(1)]
        r(2) m'(2) False by auto
    with Some r' show ?thesis by (simp add: held_verdict_def)
  qed
qed

lemma grant_in_epoch_agree:
  assumes "db_ok names db" and "store_sim db m" and "grant_named names g"
  shows "agree names (sq_grant_in_epoch g epoch db) (mem_grant_in_epoch g epoch m)"
  using assms grant_in_epoch_verdict [OF db_okD(3) [OF assms(1)] assms(3)]
  by (simp add: sq_grant_in_epoch_run mem_grant_in_epoch_run agree_def)

section \<open>Claims\<close>

definition row_consume :: "string \<Rightarrow> string \<Rightarrow> timestamp \<Rightarrow> session_row \<Rightarrow> session_row" where
  "row_consume sid cid now r = (if sr_session_id r = sid
     then r\<lparr>sr_consumed_at := Some now, sr_claimed_controller_id := Some cid\<rparr> else r)"

lemma row_consume_fields [simp]:
  "sr_session_id (row_consume sid cid now r) = sr_session_id r"
  "sr_secret_hash (row_consume sid cid now r) = sr_secret_hash r"
  "session_of (row_consume sid cid now r)
   = (if sr_session_id r = sid then (session_of r)\<lparr>cs_consumed_at := Some now\<rparr> else session_of r)"
  by (simp_all add: row_consume_def session_of_def)

lemma stmt_consume_session_alt:
  "stmt_consume_session sid cid now db
   = db\<lparr>db_sessions := map (row_consume sid cid now) (db_sessions db)\<rparr>"
  by (simp add: stmt_consume_session_def row_consume_def)

lemma consume_agree:
  assumes "db_ok names db" and "store_sim db m" and "sid \<in> sr_session_id ` set (db_sessions db)"
  shows "store_sim (stmt_consume_session sid cid now db) (mem_consume_session sid cid now m)"
    and "db_ok names (stmt_consume_session sid cid now db)"
proof -
  have claimed: "Option.bind (map_option (row_consume sid cid now)
        (find (\<lambda>r. sr_session_id r = x) (db_sessions db))) sr_claimed_controller_id
      = (if x = sid then Some cid
         else Option.bind (find (\<lambda>r. sr_session_id r = x) (db_sessions db)) sr_claimed_controller_id)" for x
  proof (cases "find (\<lambda>r. sr_session_id r = x) (db_sessions db)")
    case None
    with assms(3) have "x \<noteq> sid" by (auto simp: find_None)
    with None show ?thesis by simp
  next
    case (Some r)
    then have "sr_session_id r = x" by (auto dest: find_SomeD)
    with Some show ?thesis by (simp add: row_consume_def)
  qed
  have sessions: "map (\<lambda>(md, h). (if cs_session_id md = sid then md\<lparr>cs_consumed_at := Some now\<rparr> else md, h))
      (session_pairs rows) = session_pairs (map (row_consume sid cid now) rows)" for rows
    by simp
  have sim: "ms_sessions m = session_pairs (db_sessions db)"
      "\<And>x. map_of (ms_session_controller_ids m) x
        = Option.bind (find (\<lambda>r. sr_session_id r = x) (db_sessions db)) sr_claimed_controller_id"
    using assms(2) by (simp_all add: store_sim_def)
  show "store_sim (stmt_consume_session sid cid now db) (mem_consume_session sid cid now m)"
    unfolding store_sim_def stmt_consume_session_alt mem_consume_session_def sim(1) sessions
    using assms(2) by (simp add: store_sim_def find_session_map claimed)
  show "db_ok names (stmt_consume_session sid cid now db)"
    using assms(1)
    by (auto simp: db_ok_def stmt_consume_session_alt row_consume_def split: if_splits intro!: sessions_ok_map)
qed

definition row_regrant :: "grant_row \<Rightarrow> grant_row \<Rightarrow> grant_row" where
  "row_regrant row r = (if grant_key r = grant_key row
     then r\<lparr>gr_display_name := gr_display_name row, gr_platform := gr_platform row,
            gr_created_at := gr_created_at row, gr_revoked_at := None\<rparr> else r)"

lemma row_regrant_fields [simp]:
  "gr_reset_epoch (row_regrant row r) = gr_reset_epoch r"
  "gr_controller_id (row_regrant row r) = gr_controller_id r"
  "gr_public_key_fingerprint (row_regrant row r) = gr_public_key_fingerprint r"
  "gr_public_key (row_regrant row r) = gr_public_key r"
  "gr_role (row_regrant row r) = gr_role r"
  by (simp_all add: row_regrant_def)

lemma ControllerRole_value_eq: "ControllerRole_value r = ''host_admin''"
  by (cases r) (simp del: ControllerRole_singleton)

lemma grant_to_row_fields [simp]:
  "gr_controller_id (grant_to_row g) = cg_controller_id g"
  "gr_public_key_fingerprint (grant_to_row g) = cg_public_key_fingerprint g"
  "gr_public_key (grant_to_row g) = cg_public_key g"
  "gr_reset_epoch (grant_to_row g) = cg_reset_epoch g"
  "gr_role (grant_to_row g) = ''host_admin''"
  by (simp_all add: grant_to_row_def ControllerRole_value_eq)

lemma grant_of_regranted:
  assumes "gr_public_key r = cg_public_key g" and "grant_named names (grant_of_row r)"
    and "grant_named names g" and "gr_reset_epoch r = cg_reset_epoch g" and "cg_revoked_at g = None"
  shows "grant_of_row (row_regrant (grant_to_row g) r) = g"
  using grant_named_same_key [OF assms(2,3)] assms(1,4,5)
  by (cases g) (simp add: row_regrant_def grant_of_row_def grant_to_row_def)

text \<open>
  The upsert of a claim, once the epoch holds no active Grant for the key: either the key's own
  revoked row is granted again in place, or the row is new.
\<close>

lemma upsert_agree:
  assumes db: "db_ok names db" and sim: "store_sim db m" and g: "grant_named names g"
    and epoch: "0 \<le> cg_reset_epoch g" and active: "cg_revoked_at g = None"
    and free: "sq_grant_in_epoch g (cg_reset_epoch g) db = (Inr None, db)"
  shows "agree names (stmt_upsert_grant (grant_to_row g) db)
    (Inr (), m\<lparr>ms_controllers := dict_set (cg_reset_epoch g, cg_controller_id g) g (ms_controllers m)\<rparr>)"
proof -
  let ?rows = "db_grants db" and ?key = "(cg_reset_epoch g, cg_controller_id g)"
  have ok: "grants_ok names ?rows" by (rule db_okD(3) [OF db])
  have ms: "ms_controllers m = map (\<lambda>r. (grant_key r, grant_of_row r)) ?rows"
    using sim by (simp add: store_sim_def)
  have verdict: "held_verdict g (map_option grant_of_row
      (find (matches_grant g (cg_reset_epoch g)) ?rows)) = Inr None"
    using free by (simp add: sq_grant_in_epoch_run [OF db])
  show ?thesis
  proof (cases "find (matches_grant g (cg_reset_epoch g)) ?rows")
    case None
    then have new: "\<And>r. r \<in> set ?rows \<Longrightarrow> \<not> matches_grant g (cg_reset_epoch g) r"
      by (simp add: find_None)
    have step: "stmt_upsert_grant (grant_to_row g) db
        = (Inr (), db\<lparr>db_grants := ?rows @ [grant_to_row g]\<rparr>)"
      using new epoch by (auto simp: stmt_upsert_grant_def list_ex_iff)
    have "dict_set ?key g (ms_controllers m)
        = map (\<lambda>r. (grant_key r, grant_of_row r)) (?rows @ [grant_to_row g])"
      unfolding ms using new by (subst dict_set_map_keys) auto
    moreover have "grant_key (grant_to_row g) \<notin> grant_key ` set ?rows"
        and "grant_fp_key (grant_to_row g) \<notin> grant_fp_key ` set ?rows"
      using new by fastforce+
    then have "grants_ok names (?rows @ [grant_to_row g])"
      using ok g by (auto simp: grants_ok_def simp del: grant_to_row_fields(1,2,4))
    ultimately show ?thesis
      using db sim by (simp add: step agree_def store_sim_def db_ok_def)
  next
    case (Some r)
    then have r: "r \<in> set ?rows" "gr_reset_epoch r = cg_reset_epoch g" by (auto dest: find_SomeD)
    have key: "gr_public_key r = cg_public_key g"
      using verdict Some by (simp add: held_verdict_def split: if_splits)
    have named: "grant_named names (grant_of_row r)" by (rule grants_okD(4) [OF ok r(1)])
    have id: "grant_key r = ?key" using grant_named_same_key(1) [OF named g] key r(2) by simp
    have only: "q = r" if "q \<in> set ?rows" "grant_key q = ?key" for q
      using distinct_map_key_eq [OF grants_okD(1) [OF ok] that(1) r(1)] that(2) id by simp
    have step: "stmt_upsert_grant (grant_to_row g) db
        = (Inr (), db\<lparr>db_grants := map (row_regrant (grant_to_row g)) ?rows\<rparr>)"
      using epoch r(1) id
      by (auto simp: stmt_upsert_grant_def list_ex_iff row_regrant_def intro!: arg_cong [where f = "\<lambda>x. db\<lparr>db_grants := x\<rparr>"])
    have "(if grant_key q = ?key then g else grant_of_row q)
        = grant_of_row (row_regrant (grant_to_row g) q)" if "q \<in> set ?rows" for q
      using only [OF that] grant_of_regranted [OF key named g r(2) active]
      by (auto simp: row_regrant_def)
    then have "dict_set ?key g (ms_controllers m)
        = map (\<lambda>r. (grant_key r, grant_of_row r)) (map (row_regrant (grant_to_row g)) ?rows)"
      unfolding ms dict_set_map_upd [OF grants_okD(1) [OF ok] r(1) id] by simp
    moreover have "grants_ok names (map (row_regrant (grant_to_row g)) ?rows)"
      by (rule grants_ok_map [OF ok]) simp
    ultimately show ?thesis
      using db sim by (simp add: step agree_def store_sim_def db_ok_def)
  qed
qed

lemma agree_bind:
  assumes "agree names (a db) (b m)"
    and "\<And>v db' m'. a db = (Inr v, db') \<Longrightarrow> store_sim db' m' \<Longrightarrow> db_ok names db' \<Longrightarrow>
           agree names (f v db') (g v m')"
  shows "agree names (bindS a f db) (bindS b g m)"
proof -
  obtain x db' where a: "a db = (x, db')" by (cases "a db")
  obtain y m' where b: "b m = (y, m')" by (cases "b m")
  have "x = y" "store_sim db' m'" "db_ok names db'" using assms(1) a b by (auto simp: agree_def)
  with a b assms(2) show ?thesis by (cases y) (auto simp: bindS_def agree_def)
qed

lemma transact_agree_err:
  assumes "fst (body db) = Inl e" and "store_sim db m" and "db_ok names db"
  shows "agree names (transact body db) (Inl e, m)"
  using assms by (cases "body db") (simp add: transact_err agree_def)

lemma sq_authorize_Inr:
  assumes "sq_authorize_commissioning_session sid h now db = (Inr md, db')"
  obtains r where "db' = db" and "r \<in> set (db_sessions db)" and "sr_session_id r = sid"
    and "sr_secret_hash r = h" and "is_open (session_of r) now" and "md = session_of r"
proof -
  obtain r where r: "find (\<lambda>r. sr_session_id r = sid) (db_sessions db) = Some r"
      and "db' = db" "sr_secret_hash r = h" "is_open (session_of r) now" "md = session_of r"
    using assms
    by (auto simp: sq_authorize_commissioning_session_def sq_connection_def bindS_def
        split: if_splits option.splits)
  with find_SomeD [OF r] that show thesis by blast
qed

lemma claimed_state_agree:
  assumes "db_ok names db" and "store_sim db m"
  shows "store_sim (db\<lparr>db_state := map_option (\<lambda>r. r\<lparr>st_claim_state := ClaimState_value CLAIMED,
            st_updated_at := now\<rparr>) (db_state db)\<rparr>)
      (m\<lparr>ms_state := map_option (\<lambda>s. s\<lparr>bs_claim_state := CLAIMED, bs_updated_at := now\<rparr>) (ms_state m)\<rparr>)"
    and "db_ok names (db\<lparr>db_state := map_option (\<lambda>r. r\<lparr>st_claim_state := ClaimState_value CLAIMED,
            st_updated_at := now\<rparr>) (db_state db)\<rparr>)"
proof -
  obtain r where r: "db_state db = Some r" "state_row_ok r"
    using assms(1) by (auto simp: db_ok_def)
  have "the (ClaimState_of ''claimed'') = CLAIMED"
    using ClaimState_roundtrip [of CLAIMED] by simp
  then show "store_sim (db\<lparr>db_state := map_option (\<lambda>r. r\<lparr>st_claim_state := ClaimState_value CLAIMED,
            st_updated_at := now\<rparr>) (db_state db)\<rparr>)
      (m\<lparr>ms_state := map_option (\<lambda>s. s\<lparr>bs_claim_state := CLAIMED, bs_updated_at := now\<rparr>) (ms_state m)\<rparr>)"
    using assms(2) r by (simp add: store_sim_def state_of_row_def)
  have "state_row_ok (r\<lparr>st_claim_state := ClaimState_value CLAIMED, st_updated_at := now\<rparr>)"
    using r(2) unfolding state_row_ok_def by (simp del: ClaimState_value.simps) blast
  then show "db_ok names (db\<lparr>db_state := map_option (\<lambda>r. r\<lparr>st_claim_state := ClaimState_value CLAIMED,
            st_updated_at := now\<rparr>) (db_state db)\<rparr>)"
    using assms(1) r(1) by (simp add: db_ok_def)
qed

lemma fresh_grant_agree:
  assumes "db_ok names db" and "store_sim db m" and "sid \<in> sr_session_id ` set (db_sessions db)"
    and g: "grant_named names g" "0 \<le> cg_reset_epoch g" "cg_revoked_at g = None"
    and free: "sq_grant_in_epoch g (cg_reset_epoch g) db = (Inr None, db)"
  shows "agree names
     (bindS (stmt_upsert_grant (grant_to_row g)) (\<lambda>_ db.
        let db1 = stmt_consume_session sid (cg_controller_id g) now db
        in (Inr g, db1\<lparr>db_state := map_option (\<lambda>r.
              r\<lparr>st_claim_state := ClaimState_value CLAIMED, st_updated_at := now\<rparr>) (db_state db1)\<rparr>)) db)
     (let m2 = m\<lparr>ms_controllers := dict_set (cg_reset_epoch g, cg_controller_id g) g (ms_controllers m)\<rparr>;
          m3 = mem_consume_session sid (cg_controller_id g) now m2
      in (Inr g, m3\<lparr>ms_state := map_option
            (\<lambda>s. s\<lparr>bs_claim_state := CLAIMED, bs_updated_at := now\<rparr>) (ms_state m3)\<rparr>))"
proof -
  let ?m2 = "m\<lparr>ms_controllers := dict_set (cg_reset_epoch g, cg_controller_id g) g (ms_controllers m)\<rparr>"
  have up: "agree names (stmt_upsert_grant (grant_to_row g) db) (Inr (), ?m2)"
    by (rule upsert_agree [OF assms(1,2) g free])
  obtain r db1 where upsert: "stmt_upsert_grant (grant_to_row g) db = (r, db1)"
    by (cases "stmt_upsert_grant (grant_to_row g) db")
  have step: "stmt_upsert_grant (grant_to_row g) db = (Inr (), db1)"
    using up upsert by (simp add: agree_def)
  have ok1: "db_ok names db1" "store_sim db1 ?m2"
    using up upsert by (simp_all add: agree_def)
  have "db_sessions db1 = db_sessions db"
    using step by (auto simp: stmt_upsert_grant_def split: if_splits)
  then have "sid \<in> sr_session_id ` set (db_sessions db1)" using assms(3) by simp
  note used = consume_agree [OF ok1 this, of "cg_controller_id g" now]
  show ?thesis
    using claimed_state_agree [OF used(2,1), of now]
    by (simp add: bindS_ok [where m = "stmt_upsert_grant (grant_to_row g)", OF step] Let_def agree_def
        del: ClaimState_value.simps)
qed

lemma claim_body_agree:
  assumes db: "db_ok names db" and sim: "store_sim db m"
    and sid: "sid \<in> sr_session_id ` set (db_sessions db)"
    and g: "grant_named names g" "cg_revoked_at g = None"
  shows "agree names (transact (sq_claim_body sid g now) db) (mem_claim_body sid g now m)"
proof (cases "cg_reset_epoch g = db_epoch db")
  case False
  with sim_state [OF db sim] show ?thesis
    using db sim
    by (auto intro!: transact_agree_err
        simp: mem_claim_body_def sq_claim_body_def bind_sq_get_state [OF db] bindS_ok op_simps)
next
  case True
  let ?v = "fst (sq_grant_in_epoch g (db_epoch db) db)"
  have sq: "sq_grant_in_epoch g (db_epoch db) db = (?v, db)"
    by (simp add: sq_grant_in_epoch_run [OF db])
  have "agree names (sq_grant_in_epoch g (db_epoch db) db) (mem_grant_in_epoch g (db_epoch db) m)"
    by (rule grant_in_epoch_agree [OF db sim g(1)])
  then have mem: "mem_grant_in_epoch g (db_epoch db) m = (?v, m)"
    by (simp add: mem_grant_in_epoch_run [OF sim] agree_def)
  have sqb: "sq_claim_body sid g now db = bindS (sq_grant_in_epoch g (db_epoch db)) (\<lambda>held.
         case held of
           Some g' \<Rightarrow> (\<lambda>db. (Inr g', stmt_consume_session sid (cg_controller_id g') now db))
         | None \<Rightarrow> bindS (stmt_upsert_grant (grant_to_row g)) (\<lambda>_ db.
             let db1 = stmt_consume_session sid (cg_controller_id g) now db
             in (Inr g, db1\<lparr>db_state := map_option (\<lambda>r.
                   r\<lparr>st_claim_state := ClaimState_value CLAIMED, st_updated_at := now\<rparr>)
                   (db_state db1)\<rparr>))) db"
    by (simp only: sq_claim_body_def bind_sq_get_state [OF db] True simp_thms if_False)
  show ?thesis
  proof (cases ?v)
    case (Inl e)
    with sq mem True sim_state [OF db sim] show ?thesis
      using db sim
      by (auto intro!: transact_agree_err simp: mem_claim_body_def sqb bindS_ok bindS_err)
  next
    case (Inr held)
    show ?thesis
    proof (cases held)
      case None
      with Inr sq True have "sq_grant_in_epoch g (cg_reset_epoch g) db = (Inr None, db)" by simp
      from fresh_grant_agree [OF db sim sid g(1) _ g(2) this, of now] db_epoch_nonneg [OF db]
      show ?thesis
        using Inr None sq mem True sim_state [OF db sim]
        by (auto simp: mem_claim_body_def sqb bindS_ok Let_def intro!: transact_agree
            simp del: ClaimState_value.simps)
    next
      case (Some g')
      with Inr sq have "sq_claim_body sid g now db
          = (Inr g', stmt_consume_session sid (cg_controller_id g') now db)"
        by (simp add: sqb bindS_ok)
      with Inr Some mem True sim_state [OF db sim] consume_agree [OF db sim sid]
      show ?thesis
        by (simp add: mem_claim_body_def bindS_ok agree_def transact_ok)
    qed
  qed
qed

lemma replayed_claim_agree:
  assumes db: "db_ok names db" and sim: "store_sim db m"
    and session: "find (\<lambda>r. sr_session_id r = sid) (db_sessions db) = Some r"
    and claimed: "sr_claimed_controller_id r = Some cid"
  shows "agree names (sq_replayed_claim r h g db) (mem_replayed_claim sid h g cid m)"
proof -
  have r: "r \<in> set (db_sessions db)" "sr_session_id r = sid"
    using find_SomeD [OF session] by auto
  have only: "q = r" if "q \<in> set (db_sessions db)" "sr_session_id q = sid" for q
    using db r that distinct_map_key_eq [of sr_session_id "db_sessions db" q r]
    by (simp add: db_ok_def sessions_ok_def)
  have witness: "(\<exists>(md, h') \<in> set (ms_sessions m). cs_session_id md = sid \<and> h' = h
        \<and> granted_before t (cs_consumed_at md))
      \<longleftrightarrow> sr_secret_hash r = h \<and> granted_before t (sr_consumed_at r)" for t
  proof -
    have "ms_sessions m = session_pairs (db_sessions db)" using sim by (simp add: store_sim_def)
    then show ?thesis using r by (auto dest: only)
  qed
  let ?e = "map_option grant_of_row (find (\<lambda>q. grant_key q = (db_epoch db, cid)) (db_grants db))"
  have found: "sq_get_controller cid db = (Inr ?e, db)"
    by (rule sq_get_controller_run [OF db])
  have "mem_get_controller cid m = (Inr ?e, m)"
    using mem_get_controller_run [OF sim_state [OF db sim], of cid] sim_controllers [OF sim] by simp
  note runs = bindS_ok [where m = "sq_get_controller cid", OF found]
    bindS_ok [where m = "mem_get_controller cid", OF this]
  show ?thesis
  proof (cases "cid = cg_controller_id g")
    case False
    then have "fst (mem_replayed_claim sid h g cid m) = Inl session_unavailable"
        and "snd (mem_replayed_claim sid h g cid m) = m"
      by (simp_all add: mem_replayed_claim_def runs split: option.split)
    with False claimed db sim show ?thesis
      by (simp add: sq_replayed_claim_def raise_def agree_def)
  next
    case True
    have "agree names
        (bindS (sq_get_controller cid) (\<lambda>existing db. (case existing of
           Some e \<Rightarrow>
             (if cg_public_key e = cg_public_key g \<and> cg_revoked_at e = None
                 \<and> sr_secret_hash r = h \<and> granted_before (cg_created_at e) (sr_consumed_at r)
              then (Inr e, db) else (Inl session_unavailable, db))
         | None \<Rightarrow> (Inl session_unavailable, db))) db)
        (mem_replayed_claim sid h g cid m)"
      unfolding mem_replayed_claim_def runs witness
      using True db sim by (auto simp: agree_def split: option.split)
    with True claimed show ?thesis by (simp add: sq_replayed_claim_def)
  qed
qed

lemma claim_agree:
  assumes db: "db_ok names db" and sim: "store_sim db m"
    and g: "grant_named names g" "cg_revoked_at g = None"
  shows "agree names (sq_claim_controller sid h g now db) (mem_claim_controller sid h g now m)"
proof -
  let ?s = "find (\<lambda>r. sr_session_id r = sid) (db_sessions db)"
  have fresh: "agree names (sq_claim_fresh sid h g now db)
      (bindS (mem_authorize_commissioning_session sid h now) (\<lambda>_. mem_claim_body sid g now) m)"
    unfolding sq_claim_fresh_def
    by (rule agree_bind, rule authorize_agree [OF db sim], erule sq_authorize_Inr)
       (auto intro!: claim_body_agree g)
  have ids: "map_of (ms_session_controller_ids m) sid = Option.bind ?s sr_claimed_controller_id"
    using sim by (simp add: store_sim_def)
  show ?thesis
  proof (cases ?s)
    case None
    with fresh ids db_okD(1) [OF db] sim_state [OF db sim] show ?thesis
      by (simp add: sq_claim_controller_def mem_claim_controller_def)
  next
    case (Some r)
    have "sr_consumed_at r = None \<longleftrightarrow> sr_claimed_controller_id r = None"
      using find_SomeD [OF Some] db by (simp add: db_ok_def sessions_ok_def)
    with Some fresh ids db_okD(1) [OF db] sim_state [OF db sim]
      replayed_claim_agree [OF db sim Some]
    show ?thesis
      by (cases "sr_claimed_controller_id r")
         (simp_all add: sq_claim_controller_def mem_claim_controller_def)
  qed
qed

section \<open>Operations and the host state\<close>

lemma sim_operations:
  "store_sim db m \<Longrightarrow> map_of (ms_operations m) i
     = map_option operation_of_row (find (\<lambda>r. or_operation_id r = i) (db_operations db))"
  by (simp add: store_sim_def map_of_map_key [where key = or_operation_id])

lemma sq_get_operation_run:
  assumes "db_ok names db"
  shows "sq_get_operation i db =
    (Inr (map_option operation_of_row (find (\<lambda>r. or_operation_id r = i) (db_operations db))), db)"
proof -
  have "operation_row_ok r" if "find (\<lambda>r. or_operation_id r = i) (db_operations db) = Some r" for r
    using find_SomeD [OF that] assms by (simp add: db_ok_def operations_ok_def)
  then show ?thesis
    using db_okD(1) [OF assms]
    by (simp add: sq_get_operation_def operation_from_row_ok split: option.split)
qed

lemma mem_get_operation_run:
  "ms_opened m \<Longrightarrow> mem_get_operation i m = (Inr (map_of (ms_operations m) i), m)"
  by (simp add: mem_get_operation_def)

lemma get_operation_agree:
  assumes "db_ok names db" and "store_sim db m"
  shows "agree names (sq_get_operation i db) (mem_get_operation i m)"
  using assms sim_state(1) [OF assms]
  by (simp add: sq_get_operation_run mem_get_operation_run sim_operations agree_def)

lemma operations_active_iff:
  assumes "db_ok names db" and "store_sim db m"
  shows "list_ex (\<lambda>r. or_state r \<in> set active_state_texts) (db_operations db)
    \<longleftrightarrow> list_ex (\<lambda>p. op_state p \<in> set active_states) (map snd (ms_operations m))"
  using assms active_state_text_iff
  by (auto simp: store_sim_def list_ex_iff db_ok_def operations_ok_def simp del: active_states_iff)

lemma operation_to_row_ok [simp]:
  "operation_row_ok (operation_to_row p)" "or_operation_id (operation_to_row p) = op_operation_id p"
  by (cases "op_operation_type p";
      auto simp: operation_row_ok_def operation_to_row_def simp del: OperationType_singleton)+

lemma insert_operation_agree:
  assumes "db_ok names db" and "store_sim db m" and "map_of (ms_operations m) (op_operation_id p) = None"
  shows "agree names (Inr p, db\<lparr>db_operations := db_operations db @ [operation_to_row p]\<rparr>)
    (Inr p, m\<lparr>ms_operations := dict_set (op_operation_id p) p (ms_operations m)\<rparr>)"
proof -
  have new: "or_operation_id r \<noteq> op_operation_id p" if "r \<in> set (db_operations db)" for r
    using assms(3) that by (auto simp: sim_operations [OF assms(2)] find_None)
  have "dict_set (op_operation_id p) p (ms_operations m)
      = map (\<lambda>r. (or_operation_id r, operation_of_row r)) (db_operations db @ [operation_to_row p])"
  proof -
    have ms: "ms_operations m = map (\<lambda>r. (or_operation_id r, operation_of_row r)) (db_operations db)"
      using assms(2) by (simp add: store_sim_def)
    show ?thesis unfolding ms using new by (subst dict_set_map_keys) auto
  qed
  moreover have "op_operation_id p \<notin> or_operation_id ` set (db_operations db)"
    using new by fastforce
  then have "operations_ok (db_operations db @ [operation_to_row p])"
    using db_okD(4) [OF assms(1)] by (auto simp: operations_ok_def)
  ultimately show ?thesis
    using assms by (simp add: agree_def store_sim_def db_ok_def)
qed

lemma create_operation_agree:
  assumes db: "db_ok names db" and sim: "store_sim db m"
  shows "agree names (sq_create_operation p db) (mem_create_operation p m)"
proof -
  let ?found = "map_of (ms_operations m) (op_operation_id p)"
  have got: "sq_get_operation (op_operation_id p) db = (Inr ?found, db)"
    by (simp add: sq_get_operation_run [OF db] sim_operations [OF sim])
  note run = sq_create_operation_def mem_create_operation_def
    bindS_ok [where m = "sq_get_operation (op_operation_id p)", OF got]
  show ?thesis
  proof (cases ?found)
    case (Some q)
    then show ?thesis
      using sim_state(1) [OF db sim] db sim by (simp add: run ret_def raise_def agree_def)
  next
    case None
    show ?thesis
      using None sim_state [OF db sim] db sim operations_active_iff [OF db sim]
        insert_operation_agree [OF db sim None] db_epoch_nonneg [OF db]
      by (simp add: run bind_sq_get_state [OF db] bindS_ok raise_def transact_def agree_def)
  qed
qed

lemma set_network_state_agree:
  assumes "db_ok names db" and "store_sim db m" and "ms_state m = Some s"
  shows "store_sim (stmt_set_network_state n now db)
      (m\<lparr>ms_state := Some (s\<lparr>bs_network_state := n, bs_updated_at := now\<rparr>)\<rparr>)"
    and "db_ok names (stmt_set_network_state n now db)"
proof -
  obtain r where r: "db_state db = Some r" "state_row_ok r"
    using assms(1) by (auto simp: db_ok_def)
  then have s: "s = state_of_row r" using assms(2,3) by (simp add: store_sim_def)
  show "store_sim (stmt_set_network_state n now db)
      (m\<lparr>ms_state := Some (s\<lparr>bs_network_state := n, bs_updated_at := now\<rparr>)\<rparr>)"
    using assms(2) r(1) s
    by (simp add: store_sim_def stmt_set_network_state_def state_of_row_def)
  show "db_ok names (stmt_set_network_state n now db)"
    using assms(1) r by (auto simp: db_ok_def stmt_set_network_state_def state_row_ok_def)
qed

definition row_set_operation ::
  "string \<Rightarrow> BootstrapOperationState \<Rightarrow> timestamp \<Rightarrow> string option \<Rightarrow> operation_row \<Rightarrow> operation_row" where
  "row_set_operation i st now code r = (if or_operation_id r = i
     then r\<lparr>or_state := OperationState_value st, or_updated_at := now, or_error_code := code\<rparr> else r)"

lemma row_set_operation_fields [simp]:
  "or_operation_id (row_set_operation i st now code r) = or_operation_id r"
  "operation_row_ok r \<Longrightarrow> operation_row_ok (row_set_operation i st now code r)"
  "operation_of_row (row_set_operation i st now code r) = (if or_operation_id r = i
     then (operation_of_row r)\<lparr>op_state := st, op_updated_at := now, op_error_code := code\<rparr>
     else operation_of_row r)"
  by (auto simp: row_set_operation_def operation_row_ok_def operation_of_row_def)

lemma row_set_operation_alt:
  "(\<lambda>r. if or_operation_id r = i then r\<lparr>or_state := OperationState_value st, or_updated_at := now,
      or_error_code := code\<rparr> else r) = row_set_operation i st now code"
  by (rule ext) (simp add: row_set_operation_def)

lemma set_operation_agree:
  fixes st :: BootstrapOperationState and now :: timestamp and code :: "string option"
  assumes db: "db_ok names db" and sim: "store_sim db m" and p: "map_of (ms_operations m) i = Some p"
  defines "db1 \<equiv> db\<lparr>db_operations := map (row_set_operation i st now code) (db_operations db)\<rparr>"
    and "p1 \<equiv> p\<lparr>op_state := st, op_updated_at := now, op_error_code := code\<rparr>"
  shows "store_sim db1 (m\<lparr>ms_operations := dict_set i p1 (ms_operations m)\<rparr>)" and "db_ok names db1"
proof -
  have ms: "ms_operations m = map (\<lambda>r. (or_operation_id r, operation_of_row r)) (db_operations db)"
    using sim by (simp add: store_sim_def)
  have dist: "distinct (map or_operation_id (db_operations db))"
    using db by (simp add: db_ok_def operations_ok_def)
  obtain r where "find (\<lambda>r. or_operation_id r = i) (db_operations db) = Some r" "p = operation_of_row r"
    using p by (auto simp: sim_operations [OF sim])
  then have r: "r \<in> set (db_operations db)" "or_operation_id r = i" "p = operation_of_row r"
    by (auto dest: find_SomeD)
  have "(if or_operation_id q = i then p1 else operation_of_row q)
      = operation_of_row (row_set_operation i st now code q)" if "q \<in> set (db_operations db)" for q
    using distinct_map_key_eq [OF dist that r(1)] r(2,3) by (auto simp: p1_def)
  then have "dict_set i p1 (ms_operations m) = map (\<lambda>r. (or_operation_id r, operation_of_row r))
      (map (row_set_operation i st now code) (db_operations db))"
    unfolding ms dict_set_map_upd [OF dist r(1,2)] by simp
  then show "store_sim db1 (m\<lparr>ms_operations := dict_set i p1 (ms_operations m)\<rparr>)"
    using sim by (simp add: store_sim_def db1_def)
  show "db_ok names db1"
    using db operations_ok_map [of "db_operations db" "row_set_operation i st now code"]
    by (simp add: db1_def db_ok_def)
qed

lemma update_operation_agree:
  assumes db: "db_ok names db" and sim: "store_sim db m"
  shows "agree names (sq_update_operation i st n now code db) (mem_update_operation i st n now code m)"
proof (cases "map_of (ms_operations m) i")
  case None
  with sim_operations [OF sim, of i]
  have "sq_get_operation i db = (Inr None, db)" by (simp add: sq_get_operation_run [OF db])
  then have "sq_update_operation i st n now code db
      = (Inl (Conflict ''bootstrap operation does not exist''), db)"
    by (simp add: sq_update_operation_def bindS_def transact_def raise_def)
  with None sim_state(1) [OF db sim] db sim show ?thesis
    by (simp add: mem_update_operation_def agree_def)
next
  case (Some p)
  let ?p1 = "p\<lparr>op_state := st, op_updated_at := now, op_error_code := code\<rparr>"
  let ?db1 = "db\<lparr>db_operations := map (row_set_operation i st now code) (db_operations db)\<rparr>"
  let ?m1 = "m\<lparr>ms_operations := dict_set i ?p1 (ms_operations m)\<rparr>"
  let ?db2 = "stmt_set_network_state n now ?db1"
  let ?m2 = "?m1\<lparr>ms_state := Some (db_bootstrap_state db\<lparr>bs_network_state := n, bs_updated_at := now\<rparr>)\<rparr>"
  note s1 = set_operation_agree [OF db sim Some, of st now code]
  have "ms_state ?m1 = Some (db_bootstrap_state db)" using sim_state(2) [OF db sim] by simp
  note s2 = set_network_state_agree [OF s1(2,1) this, of n now]
  have before: "sq_get_operation i db = (Inr (Some p), db)"
    using Some sim_operations [OF sim, of i] by (simp add: sq_get_operation_run [OF db])
  have after: "sq_get_operation i ?db2 = (Inr (Some ?p1), ?db2)"
    using sim_operations [OF s2(1), of i] by (simp add: sq_get_operation_run [OF s2(2)])
  have "sq_update_operation i st n now code db = (Inr ?p1, ?db2)"
    using before after
    by (simp add: sq_update_operation_def bindS_def transact_def row_set_operation_alt ret_def)
  moreover have "mem_update_operation i st n now code m = (Inr ?p1, ?m2)"
    using Some sim_state [OF db sim] by (simp add: mem_update_operation_def Let_def)
  ultimately show ?thesis using s2 by (simp add: agree_def)
qed

definition row_fail :: "timestamp \<Rightarrow> string \<Rightarrow> operation_row \<Rightarrow> operation_row" where
  "row_fail now code r = (if or_state r \<in> set active_state_texts
     then r\<lparr>or_state := OperationState_value FAILED, or_updated_at := now,
            or_error_code := Some code\<rparr> else r)"

lemma row_fail_fields [simp]:
  "or_operation_id (row_fail now code r) = or_operation_id r"
  "operation_row_ok r \<Longrightarrow> operation_row_ok (row_fail now code r)"
  by (auto simp: row_fail_def operation_row_ok_def simp del: OperationState_value.simps)

lemma operation_of_row_fail:
  "operation_row_ok r \<Longrightarrow> operation_of_row (row_fail now code r) = fail_operation now code (operation_of_row r)"
  using active_state_text_iff [of r] OperationState_roundtrip [of FAILED]
  by (simp add: row_fail_def fail_operation_def operation_of_row_def del: active_states_iff)

lemma stmt_fail_operations_alt:
  "stmt_fail_operations now code db = db\<lparr>db_operations := map (row_fail now code) (db_operations db)\<rparr>"
  by (simp add: stmt_fail_operations_def row_fail_def)

lemma fail_operations_agree:
  assumes "db_ok names db" and "store_sim db m"
  shows "store_sim (stmt_fail_operations now code db)
      (m\<lparr>ms_operations := map (\<lambda>(i, p). (i, fail_operation now code p)) (ms_operations m)\<rparr>)"
    and "db_ok names (stmt_fail_operations now code db)"
proof -
  have "\<forall>r \<in> set (db_operations db). operation_row_ok r"
    using assms(1) by (simp add: db_ok_def operations_ok_def)
  then have "map (\<lambda>(i, p). (i, fail_operation now code p))
        (map (\<lambda>r. (or_operation_id r, operation_of_row r)) (db_operations db))
      = map (\<lambda>r. (or_operation_id r, operation_of_row r)) (map (row_fail now code) (db_operations db))"
    by (simp add: operation_of_row_fail)
  then show "store_sim (stmt_fail_operations now code db)
      (m\<lparr>ms_operations := map (\<lambda>(i, p). (i, fail_operation now code p)) (ms_operations m)\<rparr>)"
    using assms(2) by (simp add: store_sim_def stmt_fail_operations_alt)
  show "db_ok names (stmt_fail_operations now code db)"
    using assms(1) operations_ok_map [of "db_operations db" "row_fail now code"]
    by (simp add: db_ok_def stmt_fail_operations_alt)
qed

lemma active_count_agree:
  assumes "db_ok names db" and "store_sim db m"
  shows "length (filter (\<lambda>r. or_state r \<in> set active_state_texts) (db_operations db))
    = length (filter (\<lambda>(_, p). op_state p \<in> set active_states) (ms_operations m))"
proof -
  have "filter (\<lambda>r. or_state r \<in> set active_state_texts) (db_operations db)
      = filter (\<lambda>r. op_state (operation_of_row r) \<in> set active_states) (db_operations db)"
    using assms(1) active_state_text_iff
    by (intro filter_cong) (simp_all add: db_ok_def operations_ok_def del: active_states_iff)
  with assms(2) show ?thesis
    by (simp add: store_sim_def filter_map comp_def del: active_states_iff)
qed

lemma fail_interrupted_agree:
  assumes db: "db_ok names db" and sim: "store_sim db m"
  shows "agree names (sq_fail_interrupted_operations now db) (mem_fail_interrupted_operations now m)"
proof -
  let ?code = "''daemon_restarted''"
  let ?m1 = "m\<lparr>ms_operations := map (\<lambda>(i, p). (i, fail_operation now ?code p)) (ms_operations m)\<rparr>"
  note failed = fail_operations_agree [OF db sim, of now ?code]
  have "ms_state ?m1 = Some (db_bootstrap_state db)" using sim_state(2) [OF db sim] by simp
  note degraded = set_network_state_agree [OF failed(2,1) this, of DEGRADED now]
  have len: "length (filter (\<lambda>r. or_state r \<in> set active_state_texts) (db_operations db)) = 0
      \<longleftrightarrow> filter (\<lambda>(_, p). op_state p \<in> set active_states) (ms_operations m) = []"
    unfolding active_count_agree [OF db sim] by simp
  show ?thesis
  proof (cases "filter (\<lambda>(_, p). op_state p \<in> set active_states) (ms_operations m) = []")
    case True
    with len failed show ?thesis
      using db_okD(1) [OF db] sim_state(1) [OF db sim]
      by (simp add: sq_fail_interrupted_operations_def mem_fail_interrupted_operations_def
          transact_def Let_def agree_def del: active_states_iff)
  next
    case False
    then have "filter (\<lambda>r. or_state r \<in> set active_state_texts) (db_operations db) \<noteq> []"
      using len by simp
    with False degraded show ?thesis
      using db_okD(1) [OF db] sim_state [OF db sim] active_count_agree [OF db sim]
      by (simp add: sq_fail_interrupted_operations_def mem_fail_interrupted_operations_def
          transact_def Let_def agree_def del: active_states_iff)
  qed
qed

lemma reconcile_agree:
  assumes "db_ok names db" and "store_sim db m"
  shows "agree names (sq_reconcile_network_state n now db) (mem_reconcile_network_state n now m)"
  using set_network_state_agree [OF assms sim_state(2) [OF assms], of n now]
    sim_state [OF assms] db_okD(1) [OF assms(1)] assms
  by (simp add: sq_reconcile_network_state_def mem_reconcile_network_state_def transact_def raise_def
      agree_def)

section \<open>Listing, revoking, resetting\<close>

lemma sq_list_controllers_run:
  assumes "db_ok names db"
  shows "sq_list_controllers db = (Inr (map grant_of_row
    (sort_key (\<lambda>r. (gr_created_at r, gr_controller_id r)) (db_grants db))), db)"
  using db_okD(1) [OF assms] grants_okD(3) [OF db_okD(3) [OF assms]]
  by (simp add: sq_list_controllers_def decode_controllers_ok)

lemma mem_list_controllers_run:
  "ms_opened m \<Longrightarrow> mem_list_controllers m =
     (Inr (sort_key (\<lambda>g. (cg_created_at g, cg_reset_epoch g, cg_controller_id g))
        (map snd (ms_controllers m))), m)"
  by (simp add: mem_list_controllers_def)

text \<open>
  The two listings hold the same Grants. Their order may differ between Grants of different
  epochs created in the same instant: memory breaks that tie by epoch, SQLite by Controller id.
\<close>

lemma list_controllers_agree:
  assumes "db_ok names db" and "store_sim db m"
  obtains xs ys where "sq_list_controllers db = (Inr xs, db)" and "mem_list_controllers m = (Inr ys, m)"
    and "mset xs = mset ys" and "set xs = grant_of_row ` set (db_grants db)"
proof -
  have "map snd (ms_controllers m) = map grant_of_row (db_grants db)"
    using assms(2) by (simp add: store_sim_def)
  then show thesis
    using that [OF sq_list_controllers_run [OF assms(1)] mem_list_controllers_run [OF sim_state(1) [OF assms]]]
    by simp
qed

definition row_revoke :: "int \<Rightarrow> string \<Rightarrow> timestamp \<Rightarrow> grant_row \<Rightarrow> grant_row" where
  "row_revoke epoch cid now r = (if gr_controller_id r = cid \<and> gr_reset_epoch r = epoch
     then r\<lparr>gr_revoked_at := Some now\<rparr> else r)"

lemma row_revoke_fields [simp]:
  "gr_reset_epoch (row_revoke e c now r) = gr_reset_epoch r"
  "gr_controller_id (row_revoke e c now r) = gr_controller_id r"
  "gr_public_key_fingerprint (row_revoke e c now r) = gr_public_key_fingerprint r"
  "gr_public_key (row_revoke e c now r) = gr_public_key r"
  "gr_role (row_revoke e c now r) = gr_role r"
  "grant_of_row (row_revoke e c now r) = (if gr_controller_id r = c \<and> gr_reset_epoch r = e
     then (grant_of_row r)\<lparr>cg_revoked_at := Some now\<rparr> else grant_of_row r)"
  by (simp_all add: row_revoke_def grant_of_row_def)

lemma row_revoke_alt:
  "(\<lambda>r. if gr_controller_id r = c \<and> gr_reset_epoch r = e then r\<lparr>gr_revoked_at := Some now\<rparr> else r)
   = row_revoke e c now"
  by (rule ext) (simp add: row_revoke_def)

lemma revoke_row_agree:
  assumes db: "db_ok names db" and sim: "store_sim db m"
    and r: "r \<in> set (db_grants db)" "grant_key r = (e, c)"
  shows "store_sim (db\<lparr>db_grants := map (row_revoke e c now) (db_grants db)\<rparr>)
      (m\<lparr>ms_controllers := dict_set (e, c) ((grant_of_row r)\<lparr>cg_revoked_at := Some now\<rparr>) (ms_controllers m)\<rparr>)"
    and "db_ok names (db\<lparr>db_grants := map (row_revoke e c now) (db_grants db)\<rparr>)"
proof -
  have ok: "grants_ok names (db_grants db)" by (rule db_okD(3) [OF db])
  have ms: "ms_controllers m = map (\<lambda>r. (grant_key r, grant_of_row r)) (db_grants db)"
    using sim by (simp add: store_sim_def)
  have "(if grant_key q = (e, c) then (grant_of_row r)\<lparr>cg_revoked_at := Some now\<rparr> else grant_of_row q)
      = grant_of_row (row_revoke e c now q)" if "q \<in> set (db_grants db)" for q
    using distinct_map_key_eq [OF grants_okD(1) [OF ok] that r(1)] r(2) by auto
  then have "dict_set (e, c) ((grant_of_row r)\<lparr>cg_revoked_at := Some now\<rparr>) (ms_controllers m)
      = map (\<lambda>r. (grant_key r, grant_of_row r)) (map (row_revoke e c now) (db_grants db))"
    unfolding ms dict_set_map_upd [OF grants_okD(1) [OF ok] r] by simp
  then show "store_sim (db\<lparr>db_grants := map (row_revoke e c now) (db_grants db)\<rparr>)
      (m\<lparr>ms_controllers := dict_set (e, c) ((grant_of_row r)\<lparr>cg_revoked_at := Some now\<rparr>) (ms_controllers m)\<rparr>)"
    using sim by (simp add: store_sim_def)
  show "db_ok names (db\<lparr>db_grants := map (row_revoke e c now) (db_grants db)\<rparr>)"
    using db grants_ok_map [OF ok, of "row_revoke e c now"] by (simp add: db_ok_def)
qed

text \<open>
  The Grants that count as active when a revocation looks: the unrevoked ones of the current
  epoch, in either adapter's listing order.
\<close>

abbreviation active_in :: "int \<Rightarrow> ControllerGrant list \<Rightarrow> ControllerGrant list" where
  "active_in epoch gs \<equiv> filter (\<lambda>g. cg_revoked_at g = None \<and> cg_reset_epoch g = epoch) gs"

lemma active_in_agree:
  assumes "db_ok names db" and "mset xs = mset ys" and "set xs = grant_of_row ` set (db_grants db)"
  shows "length (active_in e xs) = length (active_in e ys)"
    and "find (\<lambda>g. cg_controller_id g = c) (active_in e xs)
      = find (\<lambda>g. cg_controller_id g = c) (active_in e ys)"
proof -
  have m: "mset (active_in e xs) = mset (active_in e ys)" using assms(2) by (simp add: mset_filter)
  then show "length (active_in e xs) = length (active_in e ys)" by (rule mset_eq_length)
  have inj: "g = g'" if "g \<in> set (active_in e xs)" "g' \<in> set (active_in e xs)"
      "cg_controller_id g = c" "cg_controller_id g' = c" for g g'
  proof -
    have "g \<in> grant_of_row ` set (db_grants db)" "g' \<in> grant_of_row ` set (db_grants db)"
        and "cg_reset_epoch g = cg_reset_epoch g'"
      using that(1,2) unfolding set_filter assms(3) by simp_all
    then obtain r r' where r: "r \<in> set (db_grants db)" "r' \<in> set (db_grants db)"
        "g = grant_of_row r" "g' = grant_of_row r'" "gr_reset_epoch r = gr_reset_epoch r'" by auto
    have "grant_key r = grant_key r'" using that(3,4) r(3-5) by simp
    with r show ?thesis
      using distinct_map_key_eq [OF grants_okD(1) [OF db_okD(3) [OF assms(1)]] r(1,2)] by simp
  qed
  show "find (\<lambda>g. cg_controller_id g = c) (active_in e xs)
      = find (\<lambda>g. cg_controller_id g = c) (active_in e ys)"
    by (rule find_set_unique [OF mset_eq_setD [OF m]]) (rule inj)
qed

lemma revoke_agree:
  assumes db: "db_ok names db" and sim: "store_sim db m"
  shows "agree names (sq_revoke_controller c now db) (mem_revoke_controller c now m)"
proof -
  let ?e = "db_epoch db"
  obtain xs ys where xs: "sq_list_controllers db = (Inr xs, db)" and ys: "mem_list_controllers m = (Inr ys, m)"
      and same: "mset xs = mset ys" "set xs = grant_of_row ` set (db_grants db)"
    by (rule list_controllers_agree [OF db sim])
  note act = active_in_agree(1) [OF db same, of ?e] active_in_agree(2) [OF db same, of c ?e]
  have body: "sq_revoke_body c now db =
      (case find (\<lambda>g. cg_controller_id g = c) (active_in ?e xs) of
         None \<Rightarrow> (Inl (Conflict ''controller is not authorized for this Host''), db)
       | Some target \<Rightarrow>
           (if length (active_in ?e xs) = 1
            then (Inl (Conflict ''the last Controller cannot be revoked; use controller-reset''), db)
            else (Inr (), db\<lparr>db_grants := map (row_revoke ?e c now) (db_grants db)\<rparr>)))"
    unfolding sq_revoke_body_def bind_sq_get_state [OF db] bindS_ok [where m = sq_list_controllers, OF xs]
      Let_def row_revoke_alt by (rule refl)
  have mem: "mem_revoke_controller c now m =
      (case find (\<lambda>g. cg_controller_id g = c) (active_in ?e xs) of
         None \<Rightarrow> (Inl (Conflict ''controller is not authorized for this Host''), m)
       | Some target \<Rightarrow>
           (if length (active_in ?e xs) = 1
            then (Inl (Conflict ''the last Controller cannot be revoked; use controller-reset''), m)
            else (Inr (target\<lparr>cg_revoked_at := Some now\<rparr>),
              m\<lparr>ms_controllers := dict_set (?e, c) (target\<lparr>cg_revoked_at := Some now\<rparr>) (ms_controllers m)\<rparr>)))"
    unfolding act mem_revoke_controller_def
      bindS_ok [where m = mem_get_state, OF mem_get_state_run [OF sim_state [OF db sim]]]
      bindS_ok [where m = mem_list_controllers, OF ys] Let_def by (rule refl)
  show ?thesis
  proof (cases "find (\<lambda>g. cg_controller_id g = c) (active_in ?e xs)")
    case None
    then show ?thesis using db sim
      by (simp add: mem sq_revoke_controller_def bindS_def transact_def body agree_def)
  next
    case (Some g)
    have g: "g \<in> set xs" "cg_controller_id g = c" "cg_reset_epoch g = ?e"
      using find_SomeD [OF Some] by simp_all
    obtain r where r: "r \<in> set (db_grants db)" "g = grant_of_row r"
      using g(1) unfolding same(2) by (rule imageE)
    have key: "grant_key r = (?e, c)" using g(2,3) r(2) by simp
    let ?db1 = "db\<lparr>db_grants := map (row_revoke ?e c now) (db_grants db)\<rparr>"
    note step = revoke_row_agree [OF db sim r(1) key, of now]
    have epoch: "db_epoch ?db1 = ?e" by (simp add: db_bootstrap_state_def)
    have got: "sq_get_controller c ?db1 = (Inr (Some (g\<lparr>cg_revoked_at := Some now\<rparr>)), ?db1)"
      using sim_controllers [OF step(1), of ?e c] r(2)
      by (simp add: sq_get_controller_run [OF step(2)] epoch)
    show ?thesis
    proof (cases "length (active_in ?e xs) = 1")
      case True
      with Some show ?thesis using db sim
        by (simp add: mem sq_revoke_controller_def bindS_def transact_def body agree_def)
    next
      case False
      have "sq_revoke_controller c now db = (Inr (g\<lparr>cg_revoked_at := Some now\<rparr>), ?db1)"
        using Some False got
        by (simp add: sq_revoke_controller_def transact_def body bindS_def ret_def)
      with Some False step r(2) show ?thesis by (simp add: mem agree_def)
    qed
  qed
qed

definition row_revoke_any :: "timestamp \<Rightarrow> grant_row \<Rightarrow> grant_row" where
  "row_revoke_any now r = (if gr_revoked_at r = None then r\<lparr>gr_revoked_at := Some now\<rparr> else r)"

lemma row_revoke_any_fields [simp]:
  "gr_reset_epoch (row_revoke_any now r) = gr_reset_epoch r"
  "gr_controller_id (row_revoke_any now r) = gr_controller_id r"
  "gr_public_key_fingerprint (row_revoke_any now r) = gr_public_key_fingerprint r"
  "gr_public_key (row_revoke_any now r) = gr_public_key r"
  "gr_role (row_revoke_any now r) = gr_role r"
  "grant_of_row (row_revoke_any now r) = revoke_grant now (grant_of_row r)"
  by (simp_all add: row_revoke_any_def grant_of_row_def revoke_grant_def)

lemma row_revoke_any_alt:
  "(\<lambda>r. if gr_revoked_at r = None then r\<lparr>gr_revoked_at := Some now\<rparr> else r) = row_revoke_any now"
  by (rule ext) (simp add: row_revoke_any_def)

lemma revoke_all_agree:
  assumes "db_ok names db" and "store_sim db m"
  shows "store_sim (db\<lparr>db_grants := map (row_revoke_any now) (db_grants db)\<rparr>)
      (m\<lparr>ms_controllers := map (\<lambda>(k, g). (k, revoke_grant now g)) (ms_controllers m)\<rparr>)"
    and "db_ok names (db\<lparr>db_grants := map (row_revoke_any now) (db_grants db)\<rparr>)"
  using assms grants_ok_map [of names "db_grants db" "row_revoke_any now"]
  by (simp_all add: store_sim_def db_ok_def)

lemma reset_state_agree:
  fixes n :: NetworkState and now :: timestamp
  assumes "db_ok names db" and "store_sim db m"
  defines "db1 \<equiv> db\<lparr>db_state := map_option (\<lambda>r. r\<lparr>st_reset_epoch := db_epoch db + 1,
      st_claim_state := ClaimState_value UNCLAIMED, st_network_state := NetworkState_value n,
      st_updated_at := now\<rparr>) (db_state db)\<rparr>"
    and "s1 \<equiv> (db_bootstrap_state db)\<lparr>bs_reset_epoch := db_epoch db + 1,
      bs_claim_state := UNCLAIMED, bs_network_state := n, bs_updated_at := now\<rparr>"
  shows "store_sim db1 (m\<lparr>ms_state := Some s1\<rparr>)" and "db_ok names db1"
    and "db_bootstrap_state db1 = s1"
proof -
  obtain r where r: "db_state db = Some r" "state_row_ok r"
    using assms(1) by (auto simp: db_ok_def)
  have "the (ClaimState_of ''unclaimed'') = UNCLAIMED"
    using ClaimState_roundtrip [of UNCLAIMED] by simp
  then show eq: "db_bootstrap_state db1 = s1"
    using r(1) by (simp add: db1_def s1_def db_bootstrap_state_def state_of_row_def)
  have "state_row_ok (r\<lparr>st_reset_epoch := db_epoch db + 1, st_claim_state := ClaimState_value UNCLAIMED,
      st_network_state := NetworkState_value n, st_updated_at := now\<rparr>)"
    using db_epoch_nonneg [OF assms(1)] unfolding state_row_ok_def
    by (simp del: ClaimState_value.simps) blast
  then show "db_ok names db1" using assms(1) r(1) by (simp add: db_ok_def db1_def)
  show "store_sim db1 (m\<lparr>ms_state := Some s1\<rparr>)"
    using assms(2) r(1) eq by (simp add: store_sim_def db1_def db_bootstrap_state_def)
qed

lemma reset_seed_agree:
  assumes db: "db_ok names db" and sim: "store_sim db m" and s: "db_bootstrap_state db = s"
    and fresh: "\<And>seed. recovery = Some seed \<Longrightarrow> seed_session_id seed \<notin> sr_session_id ` set (db_sessions db)"
  shows "agree names
    (bindS (transact (\<lambda>_. case recovery of None \<Rightarrow> (Inr (), db)
        | Some seed \<Rightarrow> stmt_insert_session (new_session_row (seed_session_id seed)
            (seed_secret_hash seed) now (seed_expires_at seed)) db)) (\<lambda>_. sq_get_state) db0)
    (Inr s, case recovery of None \<Rightarrow> m
        | Some seed \<Rightarrow> m\<lparr>ms_sessions := ms_sessions m
            @ [(new_session (seed_session_id seed) now (seed_expires_at seed), seed_secret_hash seed)]\<rparr>)"
proof (cases recovery)
  case None
  with assms show ?thesis
    by (simp add: bindS_def transact_def sq_get_state_run [OF db] agree_def)
next
  case (Some seed)
  let ?r = "new_session_row (seed_session_id seed) (seed_secret_hash seed) now (seed_expires_at seed)"
  let ?db1 = "db\<lparr>db_sessions := db_sessions db @ [?r]\<rparr>"
  note ins = insert_session_agree [OF db sim fresh [OF Some], of "seed_secret_hash seed" now "seed_expires_at seed"]
  have step: "stmt_insert_session ?r db = (Inr (), ?db1)"
    using ins by (auto simp: stmt_insert_session_def agree_def split: if_splits)
  with ins have ok: "db_ok names ?db1" by (simp add: agree_def)
  have "db_bootstrap_state ?db1 = s" using s by (simp add: db_bootstrap_state_def)
  with Some ins step sq_get_state_run [OF ok] show ?thesis
    by (simp add: bindS_def transact_def agree_def)
qed

lemma reset_agree:
  assumes db: "db_ok names db" and sim: "store_sim db m"
    and fresh: "\<And>seed. recovery = Some seed \<Longrightarrow> seed_session_id seed \<notin> sr_session_id ` set (db_sessions db)"
  shows "agree names (sq_reset_authority n now recovery db) (mem_reset_authority n now recovery m)"
proof -
  note a1 = supersede_agree [OF db sim, of now]
  note a2 = revoke_all_agree [OF a1(2,1), of now]
  note a3 = fail_operations_agree [OF a2(2,1), of now "''authority_reset''"]
  note a4 = reset_state_agree [OF a3(2,1), where n = n and now = now]
  let ?db3 = "stmt_fail_operations now ''authority_reset'' ((stmt_supersede_sessions now db)
      \<lparr>db_grants := map (row_revoke_any now) (db_grants (stmt_supersede_sessions now db))\<rparr>)"
  let ?db4 = "?db3\<lparr>db_state := map_option (\<lambda>r. r\<lparr>st_reset_epoch := db_epoch ?db3 + 1,
      st_claim_state := ClaimState_value UNCLAIMED, st_network_state := NetworkState_value n,
      st_updated_at := now\<rparr>) (db_state ?db3)\<rparr>"
  let ?s = "(db_bootstrap_state db)\<lparr>bs_reset_epoch := db_epoch db + 1,
      bs_claim_state := UNCLAIMED, bs_network_state := n, bs_updated_at := now\<rparr>"
  let ?m4 = "m\<lparr>ms_sessions := map (\<lambda>(md, h). (supersede now md, h)) (ms_sessions m),
      ms_controllers := map (\<lambda>(k, g). (k, revoke_grant now g)) (ms_controllers m),
      ms_operations := map (\<lambda>(i, p). (i, fail_operation now ''authority_reset'' p)) (ms_operations m),
      ms_state := Some ?s\<rparr>"
  have st: "db_bootstrap_state ?db3 = db_bootstrap_state db"
    by (simp add: db_bootstrap_state_def stmt_fail_operations_alt stmt_supersede_sessions_alt)
  have ok: "store_sim ?db4 ?m4" "db_ok names ?db4" "db_bootstrap_state ?db4 = ?s"
    using a4 unfolding st by simp_all
  have sq: "sq_reset_authority n now recovery db =
      bindS (transact (\<lambda>_. case recovery of None \<Rightarrow> (Inr (), ?db4)
        | Some seed \<Rightarrow> stmt_insert_session (new_session_row (seed_session_id seed)
            (seed_secret_hash seed) now (seed_expires_at seed)) ?db4)) (\<lambda>_. sq_get_state) db"
    unfolding sq_reset_authority_def bind_sq_get_state [OF db] Let_def row_revoke_any_alt st
    by (simp add: bindS_def transact_def split: option.split)
  have mem: "mem_reset_authority n now recovery m = (Inr ?s, case recovery of None \<Rightarrow> ?m4
        | Some seed \<Rightarrow> ?m4\<lparr>ms_sessions := ms_sessions ?m4
            @ [(new_session (seed_session_id seed) now (seed_expires_at seed), seed_secret_hash seed)]\<rparr>)"
    using sim_state [OF db sim]
    by (simp add: mem_reset_authority_def bindS_ok Let_def split: option.split)
  have "seed_session_id seed \<notin> sr_session_id ` set (db_sessions ?db4)" if "recovery = Some seed" for seed
    using fresh [OF that] by (auto simp: stmt_fail_operations_alt stmt_supersede_sessions_alt)
  from reset_seed_agree [OF ok(2,1,3) this, where now = now] show ?thesis by (simp only: sq mem)
qed

end
