(* ===== verification/Store_Calls.thy ===== *)
theory Store_Calls
  imports Store_Refinement
begin

text \<open>
  Whole runs of the persistence port. A \<open>store_call\<close> is one call, with its arguments, of one of the
  twelve port methods that answer from one row or from none; \<open>run_calls\<close> makes a list of them one
  after another on any adapter and collects what each answered. The services are synchronous and
  share one store, so a list of calls is what an adapter sees. The two methods that choose among
  rows by their order, \<open>latest_commissioning_session\<close> and \<open>list_controllers\<close>, only read; a
  \<open>port_call\<close> is any call of the port, these two included.
\<close>

datatype store_call =
    CGetState
  | CIssue string string timestamp "timestamp option"
  | CAuthorize string string timestamp
  | CClaim string string ControllerGrant timestamp
  | CGetController string
  | CRevoke string timestamp
  | CCreateOperation BootstrapOperation
  | CGetOperation string
  | CUpdateOperation string BootstrapOperationState NetworkState timestamp "string option"
  | CFailInterrupted timestamp
  | CReconcile NetworkState timestamp
  | CReset NetworkState timestamp "CommissioningSessionSeed option"

datatype store_answer =
    AUnit unit
  | AState BootstrapState
  | ASession CommissioningSessionMetadata
  | AGrant ControllerGrant
  | AGrantOpt "ControllerGrant option"
  | AOperation BootstrapOperation
  | AOperationOpt "BootstrapOperation option"
  | ACount int

definition answer :: "('a \<Rightarrow> store_answer) \<Rightarrow> ('s, store_error, 'a) op \<Rightarrow> ('s, store_error, store_answer) op"
  where
  "answer f m = bindS m (\<lambda>v. ret (f v))"

fun run_call :: "'s store_port \<Rightarrow> store_call \<Rightarrow> ('s, store_error, store_answer) op" where
  "run_call P CGetState = answer AState (sp_get_state P)"
| "run_call P (CIssue sid h created expires) =
     answer AUnit (sp_issue_commissioning_session P sid h created expires)"
| "run_call P (CAuthorize sid h now) = answer ASession (sp_authorize_commissioning_session P sid h now)"
| "run_call P (CClaim sid h g now) = answer AGrant (sp_claim_controller P sid h g now)"
| "run_call P (CGetController cid) = answer AGrantOpt (sp_get_controller P cid)"
| "run_call P (CRevoke cid now) = answer AGrant (sp_revoke_controller P cid now)"
| "run_call P (CCreateOperation p) = answer AOperation (sp_create_operation P p)"
| "run_call P (CGetOperation i) = answer AOperationOpt (sp_get_operation P i)"
| "run_call P (CUpdateOperation i st n now code) =
     answer AOperation (sp_update_operation P i st n now code)"
| "run_call P (CFailInterrupted now) = answer ACount (sp_fail_interrupted_operations P now)"
| "run_call P (CReconcile n now) = answer AUnit (sp_reconcile_network_state P n now)"
| "run_call P (CReset n now recovery) = answer AState (sp_reset_authority P n now recovery)"

fun run_calls :: "'s store_port \<Rightarrow> store_call list \<Rightarrow> 's \<Rightarrow> (store_error + store_answer) list \<times> 's" where
  "run_calls P [] s = ([], s)"
| "run_calls P (c # cs) s =
     (case run_call P c s of (r, s1) \<Rightarrow> (case run_calls P cs s1 of (rs, s2) \<Rightarrow> (r # rs, s2)))"

text \<open>The window ids a call mints (\<open>uuid4\<close> in the services), and what the services pass to a claim.\<close>

fun minted_ids :: "store_call \<Rightarrow> string list" where
  "minted_ids (CIssue sid _ _ _) = [sid]"
| "minted_ids (CReset _ _ (Some seed)) = [seed_session_id seed]"
| "minted_ids _ = []"

fun call_ok :: "key_names \<Rightarrow> store_call \<Rightarrow> bool" where
  "call_ok names (CClaim _ _ g _) \<longleftrightarrow> grant_named names g \<and> cg_revoked_at g = None"
| "call_ok names _ \<longleftrightarrow> True"

abbreviation db_session_ids :: "sql_db \<Rightarrow> string set" where
  "db_session_ids db \<equiv> sr_session_id ` set (db_sessions db)"

section \<open>One call\<close>

lemma answer_agree:
  assumes "agree names (a db) (b m)"
  shows "agree names (answer f a db) (answer f b m)"
  unfolding answer_def using assms by (rule agree_bind) (simp add: ret_def agree_def)

lemma run_call_agree:
  assumes "db_ok names db" and "store_sim db m" and "call_ok names c"
    and "set (minted_ids c) \<inter> db_session_ids db = {}"
  shows "agree names (run_call sqlite_store c db) (run_call memory_store c m)"
  using assms
  by (cases c)
     (auto intro!: answer_agree get_state_agree issue_agree
        authorize_agree claim_agree get_controller_agree revoke_agree create_operation_agree
        get_operation_agree update_operation_agree fail_interrupted_agree reconcile_agree reset_agree)

section \<open>Which windows a run can know\<close>

text \<open>No call makes a window id appear that it did not mint.\<close>

definition ids_within :: "string set \<Rightarrow> sql_db \<Rightarrow> sql_db \<Rightarrow> bool" where
  "ids_within I db db' \<longleftrightarrow> db_session_ids db' \<subseteq> db_session_ids db \<union> I"

lemma ids_within_preorder: "reflp (ids_within I)" "transp (ids_within I)"
  unfolding ids_within_def reflp_def transp_def by blast+

text \<open>
  The operations that only touch rows in place, whatever the preorder: the reads, and the writes
  built from \<open>UPDATE\<close> and from inserts into the other tables.
\<close>

lemma framed_sq_reads:
  assumes "reflp R" and "transp R"
  shows "framed R sq_connection" and "framed R sq_get_state" and "framed R (sq_get_controller cid)"
    and "framed R sq_list_controllers" and "framed R (sq_get_operation i)"
    and "framed R (sq_grant_in_epoch g epoch)" and "framed R (sq_replayed_claim r h g)"
proof -
  have leaf: "framed R (\<lambda>db. (f db, db))" for f :: "sql_db \<Rightarrow> store_error + 'a"
    using assms(1) by (simp add: framed_def reflp_def)
  show conn: "framed R sq_connection"
    using assms(1) by (simp add: framed_def sq_connection_def reflp_def)
  show state: "framed R sq_get_state"
    unfolding sq_get_state_def
    by (rule framed_bind [OF assms(2) conn], rule framedI)
       (use assms(1) in \<open>auto simp: reflp_def split: option.split\<close>)
  show get: "framed R (sq_get_controller cid)" for cid
    unfolding sq_get_controller_def
    by (rule framed_bind [OF assms(2) state], rule framedI)
       (use assms(1) in \<open>auto simp: reflp_def split: option.split\<close>)
  show "framed R sq_list_controllers"
    unfolding sq_list_controllers_def
    by (rule framed_bind [OF assms(2) conn], rule framedI) (use assms(1) in \<open>simp add: reflp_def\<close>)
  show "framed R (sq_get_operation i)"
    unfolding sq_get_operation_def
    by (rule framed_bind [OF assms(2) conn], rule framedI)
       (use assms(1) in \<open>auto simp: reflp_def split: option.split\<close>)
  show "framed R (sq_grant_in_epoch g epoch)"
    by (rule framedI)
       (use assms(1) in \<open>auto simp: sq_grant_in_epoch_def reflp_def split: option.split sum.split\<close>)
  show "framed R (sq_replayed_claim r h g)"
    unfolding sq_replayed_claim_def
    by (intro framed_rules assms get, rule framedI)
       (use assms(1) in \<open>auto simp: reflp_def split: option.split\<close>)
qed

lemmas ids_rules = framed_rules ids_within_preorder framed_sq_reads

lemma row_ids [simp]:
  "db_session_ids (stmt_supersede_sessions now db) = db_session_ids db"
  "db_session_ids (stmt_count_failed_attempt sid db) = db_session_ids db"
  "db_session_ids (stmt_consume_session sid cid now db) = db_session_ids db"
  "db_session_ids (stmt_set_network_state n now db) = db_session_ids db"
  "db_session_ids (stmt_fail_operations now code db) = db_session_ids db"
  by (auto simp: stmt_supersede_sessions_alt stmt_count_failed_attempt_alt stmt_consume_session_alt
      stmt_set_network_state_def stmt_fail_operations_alt image_iff)

lemma ids_same:
  "(\<And>db. db_session_ids (snd (a db)) = db_session_ids db) \<Longrightarrow> framed (ids_within I) a"
  by (simp add: framed_def ids_within_def)

lemma ids_writes:
  "framed (ids_within I) (sq_authorize_commissioning_session sid h now)"
  "framed (ids_within I) (stmt_upsert_grant row)"
  "framed (ids_within I) (sq_revoke_controller cid now)"
  "framed (ids_within I) (sq_create_operation p)"
  "framed (ids_within I) (sq_update_operation i st n now code)"
  "framed (ids_within I) (sq_fail_interrupted_operations now)"
  "framed (ids_within I) (sq_reconcile_network_state n now)"
proof -
  show "framed (ids_within I) (sq_authorize_commissioning_session sid h now)"
    unfolding sq_authorize_commissioning_session_def
    by (intro ids_rules; rule ids_same, simp split: option.split)
  show "framed (ids_within I) (stmt_upsert_grant row)"
    by (rule ids_same) (simp add: stmt_upsert_grant_def)
  show "framed (ids_within I) (sq_revoke_controller cid now)"
    unfolding sq_revoke_controller_def sq_revoke_body_def
    by (intro ids_rules; rule ids_same, simp add: Let_def split: option.split)
  show "framed (ids_within I) (sq_create_operation p)"
    unfolding sq_create_operation_def by (intro ids_rules; rule ids_same, simp)
  show "framed (ids_within I) (sq_update_operation i st n now code)"
    unfolding sq_update_operation_def by (intro ids_rules; rule ids_same, simp)
  show "framed (ids_within I) (sq_fail_interrupted_operations now)"
    unfolding sq_fail_interrupted_operations_def
    by (intro ids_rules; rule ids_same, simp add: Let_def)
  show "framed (ids_within I) (sq_reconcile_network_state n now)"
    unfolding sq_reconcile_network_state_def by (intro ids_rules; rule ids_same, simp)
qed

lemma ids_claim: "framed (ids_within I) (sq_claim_controller sid h g now)"
proof -
  have "framed (ids_within I) (sq_claim_body sid g now)"
    unfolding sq_claim_body_def
    by (intro ids_rules ids_writes; rule ids_same, simp add: Let_def)
  then have "framed (ids_within I) (sq_claim_fresh sid h g now)"
    unfolding sq_claim_fresh_def by (intro ids_rules ids_writes)
  with framed_sq_reads(7) [OF ids_within_preorder, of I _ h g] show ?thesis
    unfolding sq_claim_controller_def
    by (intro framed_bind ids_within_preorder framed_sq_reads framedI)
       (simp add: framed_def split: option.split)
qed

lemma ids_mint:
  "sid \<in> I \<Longrightarrow> framed (ids_within I) (sq_issue_commissioning_session sid h created expires)"
  "(\<And>seed. recovery = Some seed \<Longrightarrow> seed_session_id seed \<in> I) \<Longrightarrow>
     framed (ids_within I) (sq_reset_authority n now recovery)"
proof -
  have ins: "db_session_ids (snd (stmt_insert_session row db)) \<subseteq> insert (sr_session_id row) (db_session_ids db)"
    for row db by (auto simp: stmt_insert_session_def)
  show "framed (ids_within I) (sq_issue_commissioning_session sid h created expires)" if "sid \<in> I"
    unfolding sq_issue_commissioning_session_def
    by (intro ids_rules framedI, unfold ids_within_def, rule order_trans [OF ins])
       (use that in \<open>simp add: new_session_row_def subset_insertI2\<close>)
  show "framed (ids_within I) (sq_reset_authority n now recovery)"
    if seed: "\<And>seed. recovery = Some seed \<Longrightarrow> seed_session_id seed \<in> I"
    unfolding sq_reset_authority_def
  proof (intro ids_rules framedI, unfold ids_within_def, goal_cases)
    case (1 state db)
    show ?case
    proof (cases recovery)
      case (Some sd)
      with seed [OF Some] show ?thesis
        unfolding Let_def
        by (simp, intro order_trans [OF ins]) (simp add: new_session_row_def subset_insertI2)
    qed (simp add: Let_def)
  qed
qed

lemma run_call_ids:
  "db_session_ids (snd (run_call sqlite_store c db)) \<subseteq> db_session_ids db \<union> set (minted_ids c)"
proof -
  have "framed (ids_within (set (minted_ids c))) (run_call sqlite_store c)"
    by (cases c)
       (auto simp: answer_def intro!: framed_bind ids_within_preorder framed_ret
          framed_sq_reads ids_writes ids_claim ids_mint)
  then show ?thesis by (simp add: framed_def ids_within_def)
qed

section \<open>Whole runs\<close>

definition calls_ok :: "key_names \<Rightarrow> store_call list \<Rightarrow> string set \<Rightarrow> bool" where
  "calls_ok names cs known \<longleftrightarrow> list_all (call_ok names) cs
     \<and> distinct (concat (map minted_ids cs)) \<and> set (concat (map minted_ids cs)) \<inter> known = {}"

lemma run_calls_agree:
  assumes "db_ok names db" and "store_sim db m" and "calls_ok names cs (db_session_ids db)"
  shows "fst (run_calls sqlite_store cs db) = fst (run_calls memory_store cs m)
    \<and> store_sim (snd (run_calls sqlite_store cs db)) (snd (run_calls memory_store cs m))
    \<and> db_ok names (snd (run_calls sqlite_store cs db))"
  using assms
proof (induction cs arbitrary: db m)
  case (Cons c cs)
  have c: "call_ok names c" "set (minted_ids c) \<inter> db_session_ids db = {}"
    using Cons.prems(3) by (auto simp: calls_ok_def)
  obtain r db1 where sq: "run_call sqlite_store c db = (r, db1)" by (cases "run_call sqlite_store c db")
  obtain r' m1 where me: "run_call memory_store c m = (r', m1)" by (cases "run_call memory_store c m")
  have one: "r = r'" "store_sim db1 m1" "db_ok names db1"
    using run_call_agree [OF Cons.prems(1,2) c] sq me by (simp_all add: agree_def)
  have "db_session_ids db1 \<subseteq> db_session_ids db \<union> set (minted_ids c)"
    using run_call_ids [of c db] sq by simp
  then have "calls_ok names cs (db_session_ids db1)"
    using Cons.prems(3) unfolding calls_ok_def by (simp add: disjoint_iff) blast
  from Cons.IH [OF one(3,2) this] one(1) show ?case
    by (simp add: sq me case_prod_beta)
qed simp

text \<open>The two adapters start related: a fresh database and a fresh in-memory store.\<close>

definition memory_ready :: "timestamp \<Rightarrow> mem_store" where
  "memory_ready now = snd (bindS mem_open (\<lambda>_. mem_initialize now) mem_new)"

lemma fresh_related:
  "db_ok names (sq_create_at_current_schema now)"
  "store_sim (sq_create_at_current_schema now) (memory_ready now)"
proof -
  have "state_row_ok (the (db_state (sq_create_at_current_schema now)))"
    unfolding state_row_ok_def sq_create_at_current_schema_def
    by (simp del: ClaimState_value.simps NetworkState_value.simps) blast
  then show "db_ok names (sq_create_at_current_schema now)"
    by (simp add: db_ok_def sq_create_at_current_schema_def sessions_ok_def grants_ok_def
        operations_ok_def)
  show "store_sim (sq_create_at_current_schema now) (memory_ready now)"
    using ClaimState_roundtrip [of UNCLAIMED] NetworkState_roundtrip [of UNCONFIGURED]
    by (simp add: store_sim_def sq_create_at_current_schema_def memory_ready_def bindS_def mem_open_def
        mem_initialize_def mem_require_open_def mem_new_def state_of_row_def)
qed

section \<open>Reading in order\<close>

text \<open>The order of a sorted list depends on how the keys compare, and on nothing else of them.\<close>

lemma sort_key_same_order:
  assumes "\<And>x y. x \<in> set xs \<Longrightarrow> y \<in> set xs \<Longrightarrow> f x \<le> f y \<longleftrightarrow> g x \<le> g y"
  shows "sort_key f xs = sort_key g xs"
  using assms
proof (induction xs)
  case (Cons x xs)
  have "insort_key f x ys = insort_key g x ys" if "set ys \<subseteq> set xs" for ys
    using that Cons.prems by (induction ys) auto
  with Cons show ?case by simp
qed simp

lemma sort_key_map: "sort_key f (map h xs) = map h (sort_key (\<lambda>x. f (h x)) xs)"
proof (induction xs)
  case (Cons x xs)
  have "insort_key f (h x) (map h ys) = map h (insort_key (\<lambda>x. f (h x)) x ys)" for ys by (induction ys) auto
  with Cons show ?case by simp
qed simp

lemma last_sort_greatest:
  assumes "x \<in> set xs"
  shows "f x \<le> f (last (sort_key f xs))"
proof -
  let ?ys = "sort_key f xs"
  have ys: "?ys \<noteq> []" using assms by (metis empty_iff empty_set set_sort)
  have "sorted (map f (butlast ?ys @ [last ?ys]))" using ys sorted_sort_key [of f xs] by simp
  moreover have "x \<in> set (butlast ?ys @ [last ?ys])" using assms ys by simp
  ultimately show ?thesis by (auto simp: sorted_append)
qed

text \<open>Two Grants of different epochs that were made in the same instant.\<close>

definition tied :: "ControllerGrant list \<Rightarrow> bool" where
  "tied gs \<longleftrightarrow> (\<exists>g\<in>set gs. \<exists>g'\<in>set gs. cg_created_at g = cg_created_at g' \<and> cg_reset_epoch g \<noteq> cg_reset_epoch g')"

lemma list_controllers_alike:
  assumes "db_ok names db" and "store_sim db m"
  shows "\<exists>xs ys. sq_list_controllers db = (Inr xs, db) \<and> mem_list_controllers m = (Inr ys, m)
    \<and> mset xs = mset ys \<and> (xs = ys \<or> tied xs)"
proof -
  let ?key = "\<lambda>g. (cg_created_at g, cg_controller_id g)" and ?key' = "\<lambda>g. (cg_created_at g, cg_reset_epoch g, cg_controller_id g)"
  let ?gs = "map grant_of_row (db_grants db)"
  have sq: "sq_list_controllers db = (Inr (sort_key ?key ?gs), db)"
    using sq_list_controllers_run [OF assms(1)] by (simp add: sort_key_map grant_of_row_def)
  have "map snd (ms_controllers m) = ?gs" using assms(2) by (simp add: store_sim_def)
  then have mem: "mem_list_controllers m = (Inr (sort_key ?key' ?gs), m)"
    using mem_list_controllers_run [OF sim_state(1) [OF assms]] by simp
  have "sort_key ?key ?gs = sort_key ?key' ?gs" if "\<not> tied (sort_key ?key ?gs)"
  proof (rule sort_key_same_order)
    fix x y assume "x \<in> set ?gs" "y \<in> set ?gs"
    with that have "cg_created_at x = cg_created_at y \<longrightarrow> cg_reset_epoch x = cg_reset_epoch y" unfolding tied_def set_sort by blast
    then show "?key x \<le> ?key y \<longleftrightarrow> ?key' x \<le> ?key' y" by (auto simp: less_eq_prod_def less_prod_def)
  qed
  with sq mem show ?thesis by auto
qed

lemma latest_alike:
  assumes "db_ok names db" and "store_sim db m"
  shows "sq_latest_commissioning_session db = (Inr None, db) \<and> mem_latest_commissioning_session m = (Inr None, m)
    \<or> (\<exists>s s'. sq_latest_commissioning_session db = (Inr (Some s), db) \<and> mem_latest_commissioning_session m = (Inr (Some s'), m)
        \<and> (s = s' \<or> (cs_created_at s', cs_session_id s') < (cs_created_at s, cs_session_id s)))"
proof (cases "db_sessions db = []")
  case True
  with db_okD(1) [OF assms(1)] sim_state(1) [OF assms] assms(2) show ?thesis
    by (simp add: sq_latest_commissioning_session_def mem_latest_commissioning_session_def store_sim_def)
next
  case False
  let ?key = "\<lambda>r. (sr_created_at r, sr_session_id r)"
  let ?first = "last (sort_key ?key (db_sessions db))" and ?last = "last (db_sessions db)"
  have sq: "sq_latest_commissioning_session db = (Inr (Some (session_of ?first)), db)"
    using False db_okD(1) [OF assms(1)] by (simp add: sq_latest_commissioning_session_def)
  have mem: "mem_latest_commissioning_session m = (Inr (Some (session_of ?last)), m)"
    using False sim_state(1) [OF assms] assms(2) by (simp add: mem_latest_commissioning_session_def store_sim_def last_map)
  have rows: "?last \<in> set (db_sessions db)" "?first \<in> set (db_sessions db)"
    using False last_in_set [of "sort_key ?key (db_sessions db)"] by (auto simp flip: set_empty)
  have "session_of ?first = session_of ?last" if "?key ?last = ?key ?first"
  proof -
    have "distinct (map sr_session_id (db_sessions db))" using assms(1) by (simp add: db_ok_def sessions_ok_def)
    from distinct_map_key_eq [OF this rows] that show ?thesis by simp
  qed
  moreover have "?key ?last \<le> ?key ?first" by (rule last_sort_greatest [OF rows(1)])
  ultimately have "session_of ?first = session_of ?last \<or> ?key ?last < ?key ?first" by (auto simp: order.order_iff_strict)
  with sq mem show ?thesis by (simp add: session_of_def)
qed

section \<open>The adapters are interchangeable\<close>

datatype port_call = Through store_call | CLatestSession | CListControllers

datatype port_answer = Answered store_answer | ALatest "CommissioningSessionMetadata option" | AListed "ControllerGrant list"

fun port_run :: "'s store_port \<Rightarrow> port_call \<Rightarrow> ('s, store_error, port_answer) op" where
  "port_run P (Through c) = bindS (run_call P c) (\<lambda>a. ret (Answered a))"
| "port_run P CLatestSession = bindS (sp_latest_commissioning_session P) (\<lambda>s. ret (ALatest s))"
| "port_run P CListControllers = bindS (sp_list_controllers P) (\<lambda>gs. ret (AListed gs))"

fun port_runs :: "'s store_port \<Rightarrow> port_call list \<Rightarrow> 's \<Rightarrow> (store_error + port_answer) list \<times> 's" where
  "port_runs P [] s = ([], s)"
| "port_runs P (c # cs) s = (case port_run P c s of (r, s1) \<Rightarrow> (case port_runs P cs s1 of (rs, s2) \<Rightarrow> (r # rs, s2)))"

fun through :: "port_call list \<Rightarrow> store_call list" where
  "through [] = []"
| "through (Through c # cs) = c # through cs"
| "through (_ # cs) = through cs"

text \<open>
  What the SQLite adapter answers, beside what the in-memory adapter answers. Only two answers may
  differ. SQLite gives the window with the greatest creation time and id, memory the one issued
  last: when they differ, SQLite's is the later one by (creation, id). Both list the same Grants,
  in order of creation: when the order differs, two Grants of different epochs share an instant.
\<close>

fun alike :: "store_error + port_answer \<Rightarrow> store_error + port_answer \<Rightarrow> bool" where
  "alike (Inr (ALatest (Some s))) (Inr (ALatest (Some s'))) =
     (s = s' \<or> (cs_created_at s', cs_session_id s') < (cs_created_at s, cs_session_id s))"
| "alike (Inr (AListed xs)) (Inr (AListed ys)) = (mset xs = mset ys \<and> (xs = ys \<or> tied xs))"
| "alike r r' = (r = r')"

lemma alike_refl [simp]: "alike r r"
  by (cases "(r, r)" rule: alike.cases) auto

lemma port_run_alike:
  assumes "db_ok names db" and "store_sim db m" and "calls_ok names (through [c]) (db_session_ids db)"
  shows "alike (fst (port_run sqlite_store c db)) (fst (port_run memory_store c m))
    \<and> store_sim (snd (port_run sqlite_store c db)) (snd (port_run memory_store c m))
    \<and> db_ok names (snd (port_run sqlite_store c db))"
proof (cases c)
  case (Through d)
  then have "call_ok names d" "set (minted_ids d) \<inter> db_session_ids db = {}" using assms(3) by (simp_all add: calls_ok_def)
  from run_call_agree [OF assms(1,2) this] Through show ?thesis
    by (auto simp: agree_def bindS_def ret_def split: prod.split sum.split)
next
  case CLatestSession
  from latest_alike [OF assms(1,2)] assms(1,2) CLatestSession show ?thesis by (auto simp: bindS_def ret_def)
next
  case CListControllers
  from list_controllers_alike [OF assms(1,2)] assms(1,2) CListControllers show ?thesis by (auto simp: bindS_def ret_def)
qed

lemma port_run_ids: "db_session_ids (snd (port_run sqlite_store c db)) \<subseteq> db_session_ids db \<union> set (concat (map minted_ids (through [c])))"
proof (cases c)
  case (Through d)
  then have "snd (port_run sqlite_store c db) = snd (run_call sqlite_store d db)"
    by (simp add: bindS_def ret_def split: prod.split sum.split)
  with run_call_ids [of d db] Through show ?thesis by simp
qed (auto simp: bindS_def ret_def sq_latest_commissioning_session_def sq_list_controllers_def sq_connection_def
    split: prod.splits sum.splits if_splits)

lemma through_cons: "through (c # cs) = through [c] @ through cs"
  by (cases c) simp_all

text \<open>
  C1. From related stores, every run of calls to all fourteen methods of the port whose window ids are
  fresh and whose claimed Grants carry the names of their keys is answered alike by the SQLite adapter
  and by the in-memory adapter, call by call and errors included; the stores stay related and the
  database stays well formed. Twelve methods get the very same answer. The other two agree up to the
  order of rows: on the latest window unless SQLite's is later by creation time and id than the one
  issued last, and on the list of Grants as a collection, in the same order unless two Grants of
  different epochs were made in the same instant.
\<close>

theorem adapters_agree:
  assumes "db_ok names db" and "store_sim db m" and "calls_ok names (through cs) (db_session_ids db)"
  shows "list_all2 alike (fst (port_runs sqlite_store cs db)) (fst (port_runs memory_store cs m))
    \<and> store_sim (snd (port_runs sqlite_store cs db)) (snd (port_runs memory_store cs m))
    \<and> db_ok names (snd (port_runs sqlite_store cs db))"
  using assms
proof (induction cs arbitrary: db m)
  case (Cons c cs)
  have first: "calls_ok names (through [c]) (db_session_ids db)"
    using Cons.prems(3) unfolding through_cons [of c cs] calls_ok_def by auto
  obtain r db1 where sq: "port_run sqlite_store c db = (r, db1)" by (cases "port_run sqlite_store c db")
  obtain r' m1 where me: "port_run memory_store c m = (r', m1)" by (cases "port_run memory_store c m")
  have one: "alike r r'" "store_sim db1 m1" "db_ok names db1"
    using port_run_alike [OF Cons.prems(1,2) first] sq me by simp_all
  have "db_session_ids db1 \<subseteq> db_session_ids db \<union> set (concat (map minted_ids (through [c])))"
    using port_run_ids [of c db] sq by simp
  then have "calls_ok names (through cs) (db_session_ids db1)"
    using Cons.prems(3) unfolding through_cons [of c cs] calls_ok_def by (simp add: disjoint_iff) blast
  from Cons.IH [OF one(3,2) this] one(1) show ?case by (simp add: sq me case_prod_beta)
qed simp

definition sample_names :: key_names where
  "sample_names key = (''id-'' @ key, ''fp-'' @ key)"

definition sample_grant :: "string \<Rightarrow> int \<Rightarrow> timestamp \<Rightarrow> ControllerGrant" where
  "sample_grant key epoch now =
     \<lparr>cg_controller_id = ''id-'' @ key, cg_public_key = key, cg_public_key_fingerprint = ''fp-'' @ key,
      cg_role = HOST_ADMIN, cg_display_name = ''phone'', cg_platform = ''ios'',
      cg_reset_epoch = epoch, cg_created_at = now, cg_revoked_at = None\<rparr>"

definition sample_calls :: "store_call list" where
  "sample_calls =
     [CIssue ''w1'' ''hash'' ''t1'' None,
      CClaim ''w1'' ''wrong'' (sample_grant ''k1'' 0 ''t2'') ''t2'',
      CClaim ''w1'' ''hash'' (sample_grant ''k1'' 0 ''t3'') ''t3'',
      CRevoke ''id-k1'' ''t4'',
      CReset CONNECTED ''t5'' (Some \<lparr>seed_session_id = ''w2'', seed_secret_hash = ''hash2'',
        seed_expires_at = Some ''t9''\<rparr>),
      CClaim ''w2'' ''hash2'' (sample_grant ''k1'' 1 ''t6'') ''t6'']"

lemma sample_calls_ok: "calls_ok sample_names sample_calls {}"
  by (simp add: calls_ok_def sample_calls_def grant_named_def sample_names_def sample_grant_def)

text \<open>The same calls, with both reads made at the end.\<close>

definition sample_port_calls :: "port_call list" where
  "sample_port_calls = map Through sample_calls @ [CLatestSession, CListControllers]"

lemma adapters_agree_witness:
  "list_all2 alike (fst (port_runs sqlite_store sample_port_calls (sq_create_at_current_schema ''t0'')))
     (fst (port_runs memory_store sample_port_calls (memory_ready ''t0'')))
   \<and> length (fst (port_runs sqlite_store sample_port_calls (sq_create_at_current_schema ''t0''))) = 8"
proof -
  have "through sample_port_calls = sample_calls" by (simp add: sample_port_calls_def sample_calls_def)
  with sample_calls_ok have "calls_ok sample_names (through sample_port_calls) (db_session_ids (sq_create_at_current_schema ''t0''))"
    by (simp add: sq_create_at_current_schema_def)
  from adapters_agree [OF fresh_related(1) fresh_related(2) this]
  have "list_all2 alike (fst (port_runs sqlite_store sample_port_calls (sq_create_at_current_schema ''t0'')))
     (fst (port_runs memory_store sample_port_calls (memory_ready ''t0'')))" by simp
  moreover have "length (fst (port_runs P cs s)) = length cs" for P :: "sql_db store_port" and cs s
    by (induction cs arbitrary: s) (simp_all add: case_prod_beta)
  moreover have "length sample_port_calls = 8" by (simp add: sample_port_calls_def sample_calls_def)
  ultimately show ?thesis by simp
qed

end
