(* ===== verification/Authority.thy ===== *)
theory Authority
  imports Store_Calls
begin

text \<open>
  Who may administer the Host. The contract the services rely on is the locale \<open>authority_store\<close>:
  which Controllers are authorized after each port operation, and that the claim state of the
  Host says exactly whether anybody is. The laws are proved for the in-memory adapter, and
  carried to the durable one by the simulation of \<open>Store_Refinement\<close>.
\<close>

section \<open>What the port says about authority\<close>

definition authorized :: "'s store_port \<Rightarrow> 's \<Rightarrow> string \<Rightarrow> ControllerGrant option" where
  "authorized P s cid = (case fst (sp_get_controller P cid s) of
     Inr (Some g) \<Rightarrow> (if cg_revoked_at g = None then Some g else None) | _ \<Rightarrow> None)"

definition port_epoch :: "'s store_port \<Rightarrow> 's \<Rightarrow> int" where
  "port_epoch P s = (case fst (sp_get_state P s) of Inr st \<Rightarrow> bs_reset_epoch st | Inl _ \<Rightarrow> 0)"

section \<open>The in-memory store as a map\<close>

abbreviation mem_grants :: "mem_store \<Rightarrow> int \<times> string \<Rightarrow> ControllerGrant option" where
  "mem_grants m \<equiv> map_of (ms_controllers m)"

definition unrevoked :: "ControllerGrant option \<Rightarrow> ControllerGrant option" where
  "unrevoked x = (case x of Some g \<Rightarrow> (if cg_revoked_at g = None then Some g else None) | None \<Rightarrow> None)"

lemma unrevoked_simps [simp]:
  "unrevoked None = None"
  "unrevoked (Some g) = (if cg_revoked_at g = None then Some g else None)"
  "unrevoked x = Some g \<longleftrightarrow> x = Some g \<and> cg_revoked_at g = None"
  by (auto simp: unrevoked_def split: option.splits)

definition related :: "key_names \<Rightarrow> mem_store \<Rightarrow> bool" where
  "related names m \<longleftrightarrow> (\<exists>db. db_ok names db \<and> store_sim db m)"

definition authority_ok :: "BootstrapState \<Rightarrow> (int \<times> string \<Rightarrow> ControllerGrant option) \<Rightarrow> bool" where
  "authority_ok s M \<longleftrightarrow>
     (\<forall>e c g. M (e, c) = Some g \<longrightarrow> e \<le> bs_reset_epoch s
        \<and> (cg_revoked_at g = None \<longrightarrow> e = bs_reset_epoch s))
     \<and> (bs_claim_state s = CLAIMED \<longleftrightarrow> (\<exists>c. unrevoked (M (bs_reset_epoch s, c)) \<noteq> None))"

definition mem_inv :: "key_names \<Rightarrow> mem_store \<Rightarrow> bool" where
  "mem_inv names m \<longleftrightarrow> related names m \<and> (\<exists>s. ms_state m = Some s \<and> authority_ok s (mem_grants m))"

lemma mem_invE:
  assumes "mem_inv names m"
  obtains s where "related names m" and "ms_opened m" and "ms_state m = Some s"
    and "authority_ok s (mem_grants m)"
  using assms sim_state by (auto simp: mem_inv_def related_def)

lemma related_opened:
  assumes "related names m"
  shows "ms_opened m" and "\<exists>s. ms_state m = Some s"
  using assms sim_state by (auto simp: related_def)

lemma related_grants:
  assumes "related names m"
  shows "distinct (map fst (ms_controllers m))"
    and "((e, c), g) \<in> set (ms_controllers m) \<Longrightarrow>
      cg_reset_epoch g = e \<and> cg_controller_id g = c \<and> grant_named names g"
    and "((e, c), g) \<in> set (ms_controllers m) \<longleftrightarrow> mem_grants m (e, c) = Some g"
proof -
  obtain db where db: "db_ok names db" "store_sim db m" using assms by (auto simp: related_def)
  have ms: "ms_controllers m = map (\<lambda>r. (grant_key r, grant_of_row r)) (db_grants db)"
    using db(2) by (simp add: store_sim_def)
  note ok = grants_okD [OF db_okD(3) [OF db(1)]]
  show dist: "distinct (map fst (ms_controllers m))" using ok(1) by (simp add: ms comp_def)
  show "cg_reset_epoch g = e \<and> cg_controller_id g = c \<and> grant_named names g"
    if "((e, c), g) \<in> set (ms_controllers m)"
    using that ok(4) by (auto simp: ms)
  show "((e, c), g) \<in> set (ms_controllers m) \<longleftrightarrow> mem_grants m (e, c) = Some g"
    using dist by simp
qed

lemma authorized_memory:
  assumes "ms_opened m" and "ms_state m = Some s"
  shows "authorized memory_store m cid = unrevoked (mem_grants m (bs_reset_epoch s, cid))"
    and "port_epoch memory_store m = bs_reset_epoch s"
  using assms
  by (auto simp: authorized_def port_epoch_def memory_store_def mem_get_controller_run
      split: option.split)

section \<open>Effect of the operations that move authority\<close>

lemma mem_held:
  assumes "related names m" and "grant_named names g"
    and "mem_grant_in_epoch g e m = (Inr (Some g'), m')"
  shows "m' = m" and "mem_grants m (e, cg_controller_id g) = Some g'"
    and "cg_revoked_at g' = None" and "cg_public_key g' = cg_public_key g"
proof -
  let ?P = "\<lambda>((e', _), c). e' = e \<and> cg_public_key_fingerprint c = cg_public_key_fingerprint g"
  let ?held = "case mem_grants m (e, cg_controller_id g) of Some x \<Rightarrow> Some x
      | None \<Rightarrow> map_option snd (find ?P (ms_controllers m))"
  have held: "m' = m" "?held = Some g'" "cg_revoked_at g' = None" "cg_public_key g' = cg_public_key g"
    using assms(3) by (auto simp: mem_grant_in_epoch_def Let_def split: option.splits if_splits)
  have "mem_grants m (e, cg_controller_id g) = Some g'"
  proof (cases "mem_grants m (e, cg_controller_id g)")
    case None
    with held(2) obtain k where "find ?P (ms_controllers m) = Some (k, g')" by auto
    with find_SomeD [OF this] obtain c where "((e, c), g') \<in> set (ms_controllers m)"
      by (cases k) auto
    moreover from related_grants(2) [OF assms(1) this]
    have "c = cg_controller_id g"
      using grant_named_same_key(1) [OF _ assms(2) held(4)] by simp
    ultimately show ?thesis using related_grants(3) [OF assms(1)] by simp
  qed (use held(2) in simp)
  with held show "m' = m" "mem_grants m (e, cg_controller_id g) = Some g'"
    "cg_revoked_at g' = None" "cg_public_key g' = cg_public_key g" by simp_all
qed

lemma consume_keeps [simp]:
  "ms_controllers (mem_consume_session sid cid now m) = ms_controllers m"
  "ms_state (mem_consume_session sid cid now m) = ms_state m"
  by (simp_all add: mem_consume_session_def)

lemma mem_authorize_keeps:
  assumes "mem_authorize_commissioning_session sid h now m = (r, m')" and "ms_opened m"
  shows "ms_controllers m' = ms_controllers m" and "ms_state m' = ms_state m" and "ms_opened m'"
  using assms by (auto simp: mem_authorize_commissioning_session_def split: prod.splits option.splits)

lemma mem_grant_in_epoch_keeps: "mem_grant_in_epoch g e m = (r, m') \<Longrightarrow> m' = m"
  by (auto simp: mem_grant_in_epoch_def Let_def split: option.splits if_splits)

lemma mem_claim_body_ok:
  assumes rel: "related names m" and st: "ms_opened m" "ms_state m = Some s"
    and g: "grant_named names g" "cg_revoked_at g = None"
    and run: "mem_claim_body sid g now m = (Inr g', m')"
  shows "cg_reset_epoch g = bs_reset_epoch s"
    and "mem_grants m' = (mem_grants m)((bs_reset_epoch s, cg_controller_id g) \<mapsto> g')"
    and "cg_public_key g' = cg_public_key g \<and> cg_revoked_at g' = None"
    and "ms_state m' = Some s \<and> mem_grants m' = mem_grants m
      \<or> ms_state m' = Some (s\<lparr>bs_claim_state := CLAIMED, bs_updated_at := now\<rparr>)"
proof -
  have got: "mem_get_state m = (Inr s, m)" using st by simp
  note run' = run [unfolded mem_claim_body_def bindS_ok [where m = mem_get_state, OF got]]
  show epoch: "cg_reset_epoch g = bs_reset_epoch s"
    using run' by (auto simp: raise_def split: if_splits)
  obtain held m1 where held: "mem_grant_in_epoch g (bs_reset_epoch s) m = (Inr held, m1)"
      and rest: "(case held of
            Some g \<Rightarrow> (Inr g, mem_consume_session sid (cg_controller_id g) now m1)
          | None \<Rightarrow>
              (let m2 = m1\<lparr>ms_controllers :=
                          dict_set (bs_reset_epoch s, cg_controller_id g) g (ms_controllers m1)\<rparr>;
                   m3 = mem_consume_session sid (cg_controller_id g) now m2
               in (Inr g, m3\<lparr>ms_state := map_option
                     (\<lambda>s. s\<lparr>bs_claim_state := CLAIMED, bs_updated_at := now\<rparr>)
                     (ms_state m3)\<rparr>))) = (Inr g' :: store_error + ControllerGrant, m')"
    using run' unfolding epoch simp_thms if_False by (rule bindS_InrE) blast
  have m1: "m1 = m" by (rule mem_grant_in_epoch_keeps [OF held])
  have "mem_grants m' = (mem_grants m)((bs_reset_epoch s, cg_controller_id g) \<mapsto> g')
      \<and> cg_public_key g' = cg_public_key g \<and> cg_revoked_at g' = None
      \<and> (ms_state m' = Some s \<and> mem_grants m' = mem_grants m
         \<or> ms_state m' = Some (s\<lparr>bs_claim_state := CLAIMED, bs_updated_at := now\<rparr>))"
  proof (cases held)
    case None
    with rest m1 st g(2) show ?thesis by (auto simp: Let_def)
  next
    case (Some x)
    with mem_held [OF rel g(1)] held have x: "mem_grants m (bs_reset_epoch s, cg_controller_id g) = Some x"
        "cg_revoked_at x = None" "cg_public_key x = cg_public_key g" by auto
    from Some rest m1 have "g' = x" "m' = mem_consume_session sid (cg_controller_id x) now m" by auto
    with x st show ?thesis by (auto simp: fun_upd_idem)
  qed
  then show "mem_grants m' = (mem_grants m)((bs_reset_epoch s, cg_controller_id g) \<mapsto> g')"
    "cg_public_key g' = cg_public_key g \<and> cg_revoked_at g' = None"
    "ms_state m' = Some s \<and> mem_grants m' = mem_grants m
      \<or> ms_state m' = Some (s\<lparr>bs_claim_state := CLAIMED, bs_updated_at := now\<rparr>)" by blast+
qed

lemma mem_replayed_ok:
  assumes rel: "related names m" and st: "ms_opened m" "ms_state m = Some s"
    and run: "mem_replayed_claim sid h g cid m = (Inr g', m')"
  shows "m' = m" and "mem_grants m (bs_reset_epoch s, cg_controller_id g) = Some g'"
    and "cg_public_key g' = cg_public_key g \<and> cg_revoked_at g' = None"
  using run unfolding mem_replayed_claim_def
    bindS_ok [where m = "mem_get_controller cid", OF mem_get_controller_run [OF st]]
  by (auto split: option.splits if_splits)

lemma related_same_sessions:
  assumes "related names m" and "mem_authorize_commissioning_session sid h now m = (r, m')"
  shows "related names m'"
proof -
  obtain db where db: "db_ok names db" "store_sim db m" using assms(1) by (auto simp: related_def)
  from authorize_agree [OF this, of sid h now] assms(2)
  show ?thesis by (auto simp: agree_def related_def)
qed

lemma mem_claim_ok:
  assumes rel: "related names m" and st: "ms_opened m" "ms_state m = Some s"
    and g: "grant_named names g" "cg_revoked_at g = None"
    and run: "mem_claim_controller sid h g now m = (Inr g', m')"
  shows "mem_grants m' = (mem_grants m)((bs_reset_epoch s, cg_controller_id g) \<mapsto> g')"
    and "cg_public_key g' = cg_public_key g \<and> cg_revoked_at g' = None"
    and "ms_state m' = Some s \<and> mem_grants m' = mem_grants m
      \<or> ms_state m' = Some (s\<lparr>bs_claim_state := CLAIMED, bs_updated_at := now\<rparr>)"
proof -
  have "mem_grants m' = (mem_grants m)((bs_reset_epoch s, cg_controller_id g) \<mapsto> g')
      \<and> (cg_public_key g' = cg_public_key g \<and> cg_revoked_at g' = None)
      \<and> (ms_state m' = Some s \<and> mem_grants m' = mem_grants m
         \<or> ms_state m' = Some (s\<lparr>bs_claim_state := CLAIMED, bs_updated_at := now\<rparr>))"
  proof (cases "map_of (ms_session_controller_ids m) sid")
    case (Some cid)
    with run st(1) have "mem_replayed_claim sid h g cid m = (Inr g', m')"
      by (simp add: mem_claim_controller_def)
    from mem_replayed_ok [OF rel st this] st(2) show ?thesis by (simp add: fun_upd_idem)
  next
    case None
    with run st(1) obtain md m1 where auth: "mem_authorize_commissioning_session sid h now m = (Inr md, m1)"
        and body: "mem_claim_body sid g now m1 = (Inr g', m')"
      by (auto simp: mem_claim_controller_def)
    note keep = mem_authorize_keeps [OF auth st(1)]
    from mem_claim_body_ok [OF related_same_sessions [OF rel auth] keep(3) _ g body, of s] keep st(2)
    show ?thesis by auto
  qed
  then show "mem_grants m' = (mem_grants m)((bs_reset_epoch s, cg_controller_id g) \<mapsto> g')"
    "cg_public_key g' = cg_public_key g \<and> cg_revoked_at g' = None"
    "ms_state m' = Some s \<and> mem_grants m' = mem_grants m
      \<or> ms_state m' = Some (s\<lparr>bs_claim_state := CLAIMED, bs_updated_at := now\<rparr>)" by blast+
qed

lemma mem_claim_err:
  assumes "ms_opened m" and "ms_state m = Some s"
    and "mem_claim_controller sid h g now m = (Inl e, m')"
  shows "ms_controllers m' = ms_controllers m" and "ms_state m' = ms_state m"
proof -
  have body: "ms_controllers m'' = ms_controllers m1 \<and> ms_state m'' = ms_state m1"
    if "mem_claim_body sid g now m1 = (Inl e, m'')" "ms_opened m1" "ms_state m1 = Some s" for m1 m''
    using that unfolding mem_claim_body_def
    by (auto simp: bindS_ok [where m = mem_get_state] raise_def Let_def split: if_splits option.splits
        elim!: bindS_InlE dest: mem_grant_in_epoch_keeps)
  have "ms_controllers m' = ms_controllers m \<and> ms_state m' = ms_state m"
  proof (cases "map_of (ms_session_controller_ids m) sid")
    case (Some cid)
    with assms show ?thesis
      by (auto simp: mem_claim_controller_def mem_replayed_claim_def
          bindS_ok [OF mem_get_controller_run] split: option.splits if_splits)
  next
    case None
    with assms show ?thesis
      by (auto simp: mem_claim_controller_def elim!: bindS_InlE dest: mem_authorize_keeps body)
        (metis body mem_authorize_keeps)+
  qed
  then show "ms_controllers m' = ms_controllers m" "ms_state m' = ms_state m" by blast+
qed

lemma distinct_two:
  assumes "distinct xs" and "x \<in> set xs" and "length xs \<noteq> 1"
  obtains y where "y \<in> set xs" and "y \<noteq> x"
proof -
  have "card (set xs) \<noteq> 1" using assms(1,3) by (simp add: distinct_card)
  then have "set xs \<noteq> {x}" by auto
  with assms(2) that show thesis by blast
qed

lemma related_key:
  "related names m \<Longrightarrow> x \<in> set (ms_controllers m) \<Longrightarrow>
     fst x = (cg_reset_epoch (snd x), cg_controller_id (snd x))"
  using related_grants(2) [of names m "fst (fst x)" "snd (fst x)" "snd x"] by (simp add: prod_eq_iff)

lemma related_distinct_grants:
  assumes "related names m"
  shows "distinct (map snd (ms_controllers m))"
proof -
  have "inj_on snd (set (ms_controllers m))"
    by (rule inj_onI) (metis related_key [OF assms] prod_eqI)
  moreover have "distinct (ms_controllers m)"
    using related_grants(1) [OF assms] by (simp add: distinct_map)
  ultimately show ?thesis by (simp add: distinct_map)
qed

lemma related_active:
  assumes "related names m"
  shows "g \<in> set (active_in e (sort_key f (map snd (ms_controllers m))))
    \<longleftrightarrow> unrevoked (mem_grants m (e, cg_controller_id g)) = Some g" (is "?L \<longleftrightarrow> ?R")
proof
  assume ?L
  then obtain k where k: "(k, g) \<in> set (ms_controllers m)" "cg_revoked_at g = None" "cg_reset_epoch g = e"
    by auto
  then have "k = (e, cg_controller_id g)" using related_key [OF assms k(1)] by simp
  with k related_grants(3) [OF assms] show ?R by simp
next
  assume ?R
  then have g: "mem_grants m (e, cg_controller_id g) = Some g" "cg_revoked_at g = None" by simp_all
  then have mem: "((e, cg_controller_id g), g) \<in> set (ms_controllers m)" by (auto dest: map_of_SomeD)
  then have "cg_reset_epoch g = e" using related_key [OF assms mem] by simp
  with g(2) mem show ?L by force
qed

lemma mem_revoke_run:
  assumes "ms_opened m" and "ms_state m = Some s"
  defines "active \<equiv> active_in (bs_reset_epoch s)
    (sort_key (\<lambda>g. (cg_created_at g, cg_reset_epoch g, cg_controller_id g)) (map snd (ms_controllers m)))"
  shows "mem_revoke_controller cid now m =
      (case find (\<lambda>g. cg_controller_id g = cid) active of
         None \<Rightarrow> (Inl (Conflict ''controller is not authorized for this Host''), m)
       | Some target \<Rightarrow>
           (if length active = 1
            then (Inl (Conflict ''the last Controller cannot be revoked; use controller-reset''), m)
            else (Inr (target\<lparr>cg_revoked_at := Some now\<rparr>),
              m\<lparr>ms_controllers := dict_set (bs_reset_epoch s, cid) (target\<lparr>cg_revoked_at := Some now\<rparr>)
                  (ms_controllers m)\<rparr>)))"
  unfolding mem_revoke_controller_def active_def
    bindS_ok [where m = mem_get_state, OF mem_get_state_run [OF assms(1,2)]]
    bindS_ok [where m = mem_list_controllers, OF mem_list_controllers_run [OF assms(1)]] Let_def
  by (rule refl)

lemma mem_revoke_ok:
  assumes rel: "related names m" and st: "ms_opened m" "ms_state m = Some s"
    and run: "mem_revoke_controller cid now m = (Inr g', m')"
  obtains g c where "unrevoked (mem_grants m (bs_reset_epoch s, cid)) = Some g"
    and "g' = g\<lparr>cg_revoked_at := Some now\<rparr>"
    and "c \<noteq> cid" and "unrevoked (mem_grants m (bs_reset_epoch s, c)) \<noteq> None"
    and "mem_grants m' = (mem_grants m)((bs_reset_epoch s, cid) \<mapsto> g')"
    and "ms_state m' = ms_state m"
proof -
  let ?f = "\<lambda>g. (cg_created_at g, cg_reset_epoch g, cg_controller_id g)"
  let ?active = "active_in (bs_reset_epoch s) (sort_key ?f (map snd (ms_controllers m)))"
  obtain g where g: "find (\<lambda>g. cg_controller_id g = cid) ?active = Some g" "length ?active \<noteq> 1"
      "g' = g\<lparr>cg_revoked_at := Some now\<rparr>"
      "m' = m\<lparr>ms_controllers := dict_set (bs_reset_epoch s, cid) g' (ms_controllers m)\<rparr>"
    using run unfolding mem_revoke_run [OF st] by (auto split: option.splits if_splits)
  have g_in: "g \<in> set ?active" "cg_controller_id g = cid"
    using find_SomeD [OF g(1)] by blast+
  have "distinct ?active" using related_distinct_grants [OF rel] by simp
  then obtain y where y: "y \<in> set ?active" "y \<noteq> g"
    using distinct_two [OF _ g_in(1) g(2)] by blast
  have lg: "unrevoked (mem_grants m (bs_reset_epoch s, cid)) = Some g"
    using g_in related_active [OF rel, of g _ ?f] by blast
  have ly: "unrevoked (mem_grants m (bs_reset_epoch s, cg_controller_id y)) = Some y"
    using y(1) related_active [OF rel, of y _ ?f] by blast
  have "cg_controller_id y \<noteq> cid"
  proof
    assume "cg_controller_id y = cid"
    with lg ly y(2) show False by (simp del: unrevoked_simps(3))
  qed
  with that [OF lg g(3)] ly g(4) show thesis by (simp del: unrevoked_simps(3))
qed

lemma mem_revoke_err:
  assumes "ms_opened m" and "ms_state m = Some s" and "mem_revoke_controller cid now m = (Inl e, m')"
  shows "m' = m"
  using assms(3) unfolding mem_revoke_run [OF assms(1,2)] by (auto split: option.splits if_splits)

lemma mem_reset_effect:
  assumes "ms_opened m" and "ms_state m = Some s"
  obtains m' where "mem_reset_authority n now recovery m = (Inr (s\<lparr>bs_reset_epoch := bs_reset_epoch s + 1,
        bs_claim_state := UNCLAIMED, bs_network_state := n, bs_updated_at := now\<rparr>), m')"
    and "ms_state m' = Some (s\<lparr>bs_reset_epoch := bs_reset_epoch s + 1,
        bs_claim_state := UNCLAIMED, bs_network_state := n, bs_updated_at := now\<rparr>)"
    and "\<And>k. mem_grants m' k = map_option (revoke_grant now) (mem_grants m k)"
proof -
  have map: "map_of (map (\<lambda>(k, g). (k, revoke_grant now g)) xs) k = map_option (revoke_grant now) (map_of xs k)"
    for xs :: "((int \<times> string) \<times> ControllerGrant) list" and k
    by (simp add: map_of_map)
  show thesis
    using assms map that
    by (cases recovery) (simp_all add: mem_reset_authority_def bindS_ok Let_def)
qed

section \<open>Operations that leave authority alone\<close>

definition auth_same :: "mem_store \<Rightarrow> mem_store \<Rightarrow> bool" where
  "auth_same m m' \<longleftrightarrow> ms_opened m' = ms_opened m \<and> ms_controllers m' = ms_controllers m
     \<and> map_option (\<lambda>s. (bs_reset_epoch s, bs_claim_state s)) (ms_state m')
       = map_option (\<lambda>s. (bs_reset_epoch s, bs_claim_state s)) (ms_state m)"

lemma auth_same_preorder: "reflp auth_same" "transp auth_same"
  by (simp_all add: auth_same_def reflp_def transp_def)

lemma auth_same_refl [simp]: "auth_same m m"
  by (simp add: auth_same_def)

lemma framed_mem_open: "framed auth_same mem_require_open"
  by (simp add: framed_def mem_require_open_def)

lemma framed_mem_state: "framed auth_same mem_get_state"
  unfolding mem_get_state_def
  by (intro framed_bind auth_same_preorder framed_mem_open framedI) (simp split: option.split)

fun quiet_call :: "store_call \<Rightarrow> bool" where
  "quiet_call (CClaim _ _ _ _) = False"
| "quiet_call (CRevoke _ _) = False"
| "quiet_call (CReset _ _ _) = False"
| "quiet_call _ = True"

lemma quiet_ops:
  "framed auth_same (mem_issue_commissioning_session sid h created expires)"
  "framed auth_same (mem_authorize_commissioning_session sid h now)"
  "framed auth_same (mem_get_controller cid)"
  "framed auth_same (mem_create_operation p)"
  "framed auth_same (mem_get_operation i)"
  "framed auth_same (mem_update_operation i st n now code)"
  "framed auth_same (mem_fail_interrupted_operations now)"
  "framed auth_same (mem_reconcile_network_state n now)"
proof -
  note rules = framed_bind auth_same_preorder framed_mem_open framed_mem_state framedI
  show "framed auth_same (mem_issue_commissioning_session sid h created expires)"
    unfolding mem_issue_commissioning_session_def by (intro rules) (simp add: auth_same_def)
  show "framed auth_same (mem_authorize_commissioning_session sid h now)"
    unfolding mem_authorize_commissioning_session_def
    by (intro rules) (simp add: auth_same_def split: prod.split option.split)
  show "framed auth_same (mem_get_controller cid)"
    unfolding mem_get_controller_def by (intro rules) simp
  show "framed auth_same (mem_get_operation i)"
    unfolding mem_get_operation_def by (intro rules) simp
  show "framed auth_same (mem_update_operation i st n now code)"
    unfolding mem_update_operation_def
    by (intro rules) (simp add: auth_same_def Let_def split: option.split)
  show "framed auth_same (mem_fail_interrupted_operations now)"
    unfolding mem_fail_interrupted_operations_def
    by (intro rules) (simp add: auth_same_def Let_def split: option.split)
  show "framed auth_same (mem_reconcile_network_state n now)"
    unfolding mem_reconcile_network_state_def
    by (intro rules) (simp add: auth_same_def split: option.split)
  have inner: "auth_same m (snd (bindS mem_get_state (\<lambda>state m1.
            (if op_reset_epoch p \<noteq> bs_reset_epoch state
             then (Inl (Conflict ''operation reset epoch does not match host''), m1)
             else if list_ex (\<lambda>item. op_state item \<in> set active_states) (map snd (ms_operations m1))
             then (Inl (Conflict ''another bootstrap operation is active''), m1)
             else (Inr p, m1\<lparr>ms_operations := dict_set (op_operation_id p) p (ms_operations m1)\<rparr>))) m))" for m
    by (auto simp: bindS_def mem_get_state_def mem_require_open_def auth_same_def
        split: option.split if_splits)
  show "framed auth_same (mem_create_operation p)"
    unfolding mem_create_operation_def
    by (intro rules) (auto simp: inner split: option.split simp del: active_states_iff)
qed

lemma quiet_call_same:
  assumes "quiet_call c"
  shows "framed auth_same (run_call memory_store c)"
  using assms
  by (cases c) (auto simp: answer_def
      intro!: framed_bind auth_same_preorder framed_ret quiet_ops framed_mem_state)

section \<open>The contract\<close>

text \<open>
  \<open>reaches P names ids s s'\<close>: port calls with fresh window ids and well-named Grants lead from
  \<open>s\<close> to \<open>s'\<close>, whatever they answered.
\<close>

inductive reaches :: "'s store_port \<Rightarrow> key_names \<Rightarrow> ('s \<Rightarrow> string set) \<Rightarrow> 's \<Rightarrow> 's \<Rightarrow> bool"
  for P names ids where
  reaches_refl: "reaches P names ids s s"
| reaches_step: "reaches P names ids s t \<Longrightarrow> call_ok names c \<Longrightarrow> set (minted_ids c) \<inter> ids t = {} \<Longrightarrow>
    run_call P c t = (a, u) \<Longrightarrow> reaches P names ids s u"

lemma reaches_trans:
  assumes "reaches P names ids t u" and "reaches P names ids s t"
  shows "reaches P names ids s u"
  using assms by (induction) (auto intro: reaches_step)

lemma reaches_call:
  "call_ok names c \<Longrightarrow> set (minted_ids c) \<inter> ids s = {} \<Longrightarrow> reaches P names ids s (snd (run_call P c s))"
  by (rule reaches_step [OF reaches_refl]) (auto intro: prod.collapse [symmetric])

text \<open>A call that takes nothing away from the Controller: no reset, no successful revocation of it.\<close>

fun spares :: "string \<Rightarrow> store_call \<Rightarrow> store_error + store_answer \<Rightarrow> bool" where
  "spares cid (CReset _ _ _) r = False"
| "spares cid (CRevoke cid' _) r = (cid' = cid \<longrightarrow> isl r)"
| "spares cid _ r = True"

definition undisturbed ::
  "string \<Rightarrow> store_call list \<Rightarrow> (store_error + store_answer) list \<Rightarrow> bool" where
  "undisturbed cid cs rs \<longleftrightarrow> list_all (\<lambda>(c, r). spares cid c r) (zip cs rs)"

text \<open>
  \<open>inv\<close> is the adapter's invariant, \<open>ids\<close> the window ids it knows, \<open>names\<close> the naming of
  keys. Each law says what one kind of call does to the map of authorized Controllers.
\<close>

locale authority_store =
  fixes P :: "'s store_port" and inv :: "'s \<Rightarrow> bool" and names :: key_names
    and ids :: "'s \<Rightarrow> string set"
  assumes state_law: "inv s \<Longrightarrow> \<exists>st. sp_get_state P s = (Inr st, s)
        \<and> (bs_claim_state st = CLAIMED \<longleftrightarrow> (\<exists>c. authorized P s c \<noteq> None))"
    and lookup_law: "inv s \<Longrightarrow> \<exists>x. sp_get_controller P cid s = (Inr x, s)
        \<and> (\<forall>g. x = Some g \<longrightarrow> cg_controller_id g = cid \<and> cg_reset_epoch g = port_epoch P s
              \<and> grant_named names g)"
    and quiet_law: "inv s \<Longrightarrow> quiet_call c \<Longrightarrow> set (minted_ids c) \<inter> ids s = {} \<Longrightarrow>
        run_call P c s = (a, s') \<Longrightarrow>
        inv s' \<and> authorized P s' = authorized P s \<and> port_epoch P s' = port_epoch P s"
    and claim_law: "inv s \<Longrightarrow> grant_named names g \<Longrightarrow> cg_revoked_at g = None \<Longrightarrow>
        sp_claim_controller P sid h g now s = (granted, s') \<Longrightarrow>
        inv s' \<and> port_epoch P s' = port_epoch P s
        \<and> (case granted of
             Inl e \<Rightarrow> authorized P s' = authorized P s
           | Inr g' \<Rightarrow> authorized P s' = (authorized P s)(cg_controller_id g \<mapsto> g')
               \<and> cg_public_key g' = cg_public_key g)"
    and revoke_law: "inv s \<Longrightarrow> sp_revoke_controller P cid now s = (granted, s') \<Longrightarrow>
        inv s' \<and> port_epoch P s' = port_epoch P s
        \<and> (case granted of
             Inl e \<Rightarrow> authorized P s' = authorized P s
           | Inr g' \<Rightarrow> authorized P s cid \<noteq> None \<and> authorized P s' = (authorized P s)(cid := None)
               \<and> (\<exists>c. authorized P s' c \<noteq> None))"
    and reset_law: "inv s \<Longrightarrow> set (minted_ids (CReset n now recovery)) \<inter> ids s = {} \<Longrightarrow>
        \<exists>st s'. sp_reset_authority P n now recovery s = (Inr st, s') \<and> inv s'
          \<and> bs_claim_state st = UNCLAIMED \<and> bs_reset_epoch st = port_epoch P s + 1
          \<and> port_epoch P s' = port_epoch P s + 1 \<and> authorized P s' = (\<lambda>_. None)"
    and reads_law: "snd (sp_latest_commissioning_session P s) = s" "snd (sp_list_controllers P s) = s"
    and ids_law: "inv s \<Longrightarrow> call_ok names c \<Longrightarrow> set (minted_ids c) \<inter> ids s = {} \<Longrightarrow> run_call P c s = (a, s') \<Longrightarrow> ids s' \<subseteq> ids s \<union> set (minted_ids c)"
begin

lemma answer_run: "answer f m s = (r, s') \<Longrightarrow> \<exists>r0. m s = (r0, s') \<and> r = map_sum id f r0"
  by (auto simp: answer_def bindS_def ret_def split: prod.splits sum.splits)

lemma call_keeps_inv:
  assumes "inv s" and "call_ok names c" and "set (minted_ids c) \<inter> ids s = {}"
    and "run_call P c s = (r, s')"
  shows "inv s'"
proof (cases c)
  case (CClaim sid h g now)
  with assms(4) answer_run obtain r0 where "sp_claim_controller P sid h g now s = (r0, s')" by fastforce
  from claim_law [OF assms(1) _ _ this] assms(2) CClaim show ?thesis by simp
next
  case (CRevoke cid now)
  with assms(4) answer_run obtain r0 where "sp_revoke_controller P cid now s = (r0, s')" by fastforce
  from revoke_law [OF assms(1) this] show ?thesis by simp
next
  case (CReset n now recovery)
  with assms(4) answer_run obtain r0 where "sp_reset_authority P n now recovery s = (r0, s')" by fastforce
  with reset_law [OF assms(1), of n now recovery] assms(3) CReset show ?thesis by auto
qed (use assms quiet_law [OF assms(1) _ assms(3,4)] in simp_all)

lemma calls_ok_Cons:
  assumes "inv s" and "calls_ok names (c # cs) (ids s)" and "run_call P c s = (r, s1)"
  shows "call_ok names c" and "set (minted_ids c) \<inter> ids s = {}" and "calls_ok names cs (ids s1)"
proof -
  show c: "call_ok names c" "set (minted_ids c) \<inter> ids s = {}"
    using assms(2) by (auto simp: calls_ok_def)
  have "ids s1 \<subseteq> ids s \<union> set (minted_ids c)" by (rule ids_law [OF assms(1) c assms(3)])
  then show "calls_ok names cs (ids s1)"
    using assms(2) unfolding calls_ok_def by (simp add: disjoint_iff) blast
qed

lemma run_keeps_inv:
  "inv s \<Longrightarrow> calls_ok names cs (ids s) \<Longrightarrow> inv (snd (run_calls P cs s))"
proof (induction cs arbitrary: s)
  case (Cons c cs)
  obtain r s1 where one: "run_call P c s = (r, s1)" by (cases "run_call P c s")
  note ok = calls_ok_Cons [OF Cons.prems one]
  have "inv s1" by (rule call_keeps_inv [OF Cons.prems(1) ok(1,2) one])
  from Cons.IH [OF this ok(3)] show ?case by (simp add: one case_prod_beta)
qed simp

lemma reaches_keeps_inv: "reaches P names ids s s' \<Longrightarrow> inv s \<Longrightarrow> inv s'"
  by (induction rule: reaches.induct) (auto intro: call_keeps_inv)

lemma claimed_iff:
  assumes "inv s" and "calls_ok names cs (ids s)" and "run_calls P cs s = (rs, s')"
  shows "\<exists>st. sp_get_state P s' = (Inr st, s')
    \<and> (bs_claim_state st = CLAIMED \<longleftrightarrow> (\<exists>c. authorized P s' c \<noteq> None))"
  using state_law run_keeps_inv [OF assms(1,2)] assms(3) by simp

lemma call_provenance:
  assumes "inv s" and "call_ok names c" and "set (minted_ids c) \<inter> ids s = {}"
    and run: "run_call P c s = (r, s')" and auth: "authorized P s' cid = Some g"
  shows "authorized P s cid = Some g \<and> spares cid c r
    \<or> (\<exists>sid h g0 now. c = CClaim sid h g0 now \<and> cg_controller_id g0 = cid \<and> r = Inr (AGrant g))"
proof (cases c)
  case (CClaim sid h g0 now)
  with run answer_run obtain r0 where r0: "sp_claim_controller P sid h g0 now s = (r0, s')"
      "r = map_sum id AGrant r0" by fastforce
  from claim_law [OF assms(1) _ _ r0(1)] assms(2) CClaim
  have "case r0 of Inl e \<Rightarrow> authorized P s' = authorized P s
      | Inr g' \<Rightarrow> authorized P s' = (authorized P s)(cg_controller_id g0 \<mapsto> g')
         \<and> cg_public_key g' = cg_public_key g0" by simp
  with auth r0(2) CClaim show ?thesis by (cases r0) (auto split: if_splits)
next
  case (CRevoke cid' now)
  with run answer_run obtain r0 where r0: "sp_revoke_controller P cid' now s = (r0, s')"
      "r = map_sum id AGrant r0" by fastforce
  from revoke_law [OF assms(1) r0(1)] auth r0(2) CRevoke show ?thesis
    by (cases r0) (auto split: if_splits)
next
  case (CReset n now recovery)
  with run answer_run obtain r0 where "sp_reset_authority P n now recovery s = (r0, s')" by fastforce
  with reset_law [OF assms(1), of n now recovery] assms(3) CReset auth show ?thesis by auto
qed (use quiet_law [OF assms(1) _ assms(3) run] auth in simp_all)

text \<open>
  Whoever is authorized after a run either was before it and nothing in the run took that away,
  or was granted by a claim in the run that answered and that nothing later took away.
\<close>

lemma run_provenance:
  assumes "inv s" and "calls_ok names cs (ids s)" and "run_calls P cs s = (rs, s')"
    and "authorized P s' cid = Some g"
  shows "authorized P s cid = Some g \<and> undisturbed cid cs rs
    \<or> (\<exists>i < length cs. \<exists>sid h g0 now. cs ! i = CClaim sid h g0 now \<and> cg_controller_id g0 = cid
         \<and> rs ! i = Inr (AGrant g) \<and> undisturbed cid (drop (Suc i) cs) (drop (Suc i) rs))"
  using assms
proof (induction cs arbitrary: s rs)
  case Nil
  then show ?case by (simp add: undisturbed_def)
next
  case (Cons c cs)
  obtain r s1 where one: "run_call P c s = (r, s1)" by (cases "run_call P c s")
  with Cons.prems(3) obtain rs1 where rs: "rs = r # rs1" and rest: "run_calls P cs s1 = (rs1, s')"
    by (auto split: prod.splits)
  note ok = calls_ok_Cons [OF Cons.prems(1,2) one]
  have inv1: "inv s1" by (rule call_keeps_inv [OF Cons.prems(1) ok(1,2) one])
  from Cons.IH [OF inv1 ok(3) rest Cons.prems(4)] show ?case
  proof (elim disjE exE conjE)
    assume s1: "authorized P s1 cid = Some g" and und: "undisturbed cid cs rs1"
    from call_provenance [OF Cons.prems(1) ok(1,2) one s1] show ?thesis
    proof (elim disjE exE conjE)
      assume "authorized P s cid = Some g" "spares cid c r"
      with und show ?thesis by (simp add: rs undisturbed_def)
    next
      fix sid h g0 now
      assume "c = CClaim sid h g0 now" "cg_controller_id g0 = cid" "r = Inr (AGrant g)"
      with und show ?thesis by (intro disjI2 exI [of _ 0]) (simp add: rs)
    qed
  next
    fix i sid h g0 now
    assume "i < length cs" "cs ! i = CClaim sid h g0 now" "cg_controller_id g0 = cid"
      "rs1 ! i = Inr (AGrant g)" "undisturbed cid (drop (Suc i) cs) (drop (Suc i) rs1)"
    then show ?thesis by (intro disjI2 exI [of _ "Suc i"]) (simp add: rs)
  qed
qed

end

section \<open>The in-memory adapter keeps the contract\<close>

definition mem_ids :: "mem_store \<Rightarrow> string set" where
  "mem_ids m = cs_session_id ` fst ` set (ms_sessions m)"

lemma sim_ids: "store_sim db m \<Longrightarrow> mem_ids m = db_session_ids db"
  by (simp add: store_sim_def mem_ids_def image_image)

lemma related_run:
  assumes "related names m" and "call_ok names c" and "set (minted_ids c) \<inter> mem_ids m = {}"
    and "run_call memory_store c m = (r, m')"
  shows "related names m'" and "mem_ids m' \<subseteq> mem_ids m \<union> set (minted_ids c)"
proof -
  obtain db where db: "db_ok names db" "store_sim db m" using assms(1) by (auto simp: related_def)
  let ?db' = "snd (run_call sqlite_store c db)"
  have "agree names (run_call sqlite_store c db) (run_call memory_store c m)"
    using run_call_agree [OF db assms(2)] assms(3) by (simp add: sim_ids [OF db(2)])
  then have "db_ok names ?db'" "store_sim ?db' m'" using assms(4) by (simp_all add: agree_def)
  then show "related names m'" by (auto simp: related_def)
  show "mem_ids m' \<subseteq> mem_ids m \<union> set (minted_ids c)"
    using run_call_ids [of c db] sim_ids [OF \<open>store_sim ?db' m'\<close>] sim_ids [OF db(2)] by simp
qed

lemma answer_of: "m s = (r0, s') \<Longrightarrow> answer f m s = (map_sum id f r0, s')"
  by (cases r0) (simp_all add: answer_def bindS_def ret_def)

lemma mem_inv_quiet:
  assumes inv: "mem_inv names m" and same: "auth_same m m'" and rel: "related names m'"
  shows "mem_inv names m' \<and> authorized memory_store m' = authorized memory_store m
    \<and> port_epoch memory_store m' = port_epoch memory_store m"
proof -
  obtain s where s: "ms_opened m" "ms_state m = Some s" "authority_ok s (mem_grants m)"
    using inv by (rule mem_invE)
  from same s obtain s' where s': "ms_opened m'" "ms_state m' = Some s'"
      "bs_reset_epoch s' = bs_reset_epoch s" "bs_claim_state s' = bs_claim_state s"
      "mem_grants m' = mem_grants m"
    by (auto simp: auth_same_def)
  then have "authority_ok s' (mem_grants m')" using s(3) by (simp add: authority_ok_def)
  with s s' rel show ?thesis
    by (auto simp: mem_inv_def authorized_memory fun_eq_iff)
qed

lemma mem_inv_claim:
  assumes inv: "mem_inv names m" and g: "grant_named names g" "cg_revoked_at g = None"
    and run: "mem_claim_controller sid h g now m = (r, m')"
  shows "mem_inv names m' \<and> port_epoch memory_store m' = port_epoch memory_store m
    \<and> (case r of
         Inl e \<Rightarrow> authorized memory_store m' = authorized memory_store m
       | Inr g' \<Rightarrow> authorized memory_store m' = (authorized memory_store m)(cg_controller_id g \<mapsto> g')
           \<and> cg_public_key g' = cg_public_key g)"
proof -
  obtain s where rel: "related names m" and s: "ms_opened m" "ms_state m = Some s"
      "authority_ok s (mem_grants m)"
    using inv by (rule mem_invE)
  have rel': "related names m'"
    using related_run(1) [OF rel, of "CClaim sid h g now"] g answer_of [of "mem_claim_controller sid h g now", OF run]
    by auto
  note open' = related_opened(1) [OF rel']
  show ?thesis
  proof (cases r)
    case (Inl e)
    from mem_claim_err [OF s(1,2) run [unfolded Inl]]
    have "auth_same m m'" using open' s(1) by (simp add: auth_same_def)
    from mem_inv_quiet [OF inv this rel'] Inl show ?thesis by simp
  next
    case (Inr g')
    note eff = mem_claim_ok [OF rel s(1,2) g run [unfolded Inr]]
    obtain s' where s': "ms_state m' = Some s'" "bs_reset_epoch s' = bs_reset_epoch s"
        "bs_claim_state s' = CLAIMED \<or> s' = s \<and> mem_grants m' = mem_grants m"
      using eff(3) by auto
    have "authority_ok s' (mem_grants m')"
    proof (cases "s' = s \<and> mem_grants m' = mem_grants m")
      case False
      with s' have claimed: "bs_claim_state s' = CLAIMED" by simp
      have "mem_grants m' (bs_reset_epoch s', cg_controller_id g) = Some g'" "cg_revoked_at g' = None"
        using eff(1,2) s'(2) by simp_all
      with s(3) claimed eff(1,2) s'(2) show ?thesis
        unfolding authority_ok_def by (auto split: if_splits intro!: exI [of _ "cg_controller_id g"])
    qed (use s(3) in simp)
    with rel' s' s eff(1,2) open' Inr show ?thesis
      by (auto simp: mem_inv_def authorized_memory fun_eq_iff)
  qed
qed

lemma mem_inv_revoke:
  assumes inv: "mem_inv names m" and run: "mem_revoke_controller cid now m = (r, m')"
  shows "mem_inv names m' \<and> port_epoch memory_store m' = port_epoch memory_store m
    \<and> (case r of
         Inl e \<Rightarrow> authorized memory_store m' = authorized memory_store m
       | Inr g' \<Rightarrow> authorized memory_store m cid \<noteq> None
           \<and> authorized memory_store m' = (authorized memory_store m)(cid := None)
           \<and> (\<exists>c. authorized memory_store m' c \<noteq> None))"
proof -
  obtain s where rel: "related names m" and s: "ms_opened m" "ms_state m = Some s"
      "authority_ok s (mem_grants m)"
    using inv by (rule mem_invE)
  have rel': "related names m'"
    using related_run(1) [OF rel, of "CRevoke cid now"] answer_of [of "mem_revoke_controller cid now", OF run]
    by auto
  show ?thesis
  proof (cases r)
    case (Inl e)
    from mem_revoke_err [OF s(1,2) run [unfolded Inl]] inv Inl show ?thesis by simp
  next
    case (Inr g')
    obtain g c where eff: "unrevoked (mem_grants m (bs_reset_epoch s, cid)) = Some g"
        "g' = g\<lparr>cg_revoked_at := Some now\<rparr>" "c \<noteq> cid"
        "unrevoked (mem_grants m (bs_reset_epoch s, c)) \<noteq> None"
        "mem_grants m' = (mem_grants m)((bs_reset_epoch s, cid) \<mapsto> g')" "ms_state m' = ms_state m"
      using mem_revoke_ok [OF rel s(1,2) run [unfolded Inr]] by metis
    have auth: "authorized memory_store m' x = (if x = cid then None else authorized memory_store m x)" for x
      using eff(2,5,6) s(1,2) related_opened(1) [OF rel'] by (simp add: authorized_memory)
    have claimed: "bs_claim_state s = CLAIMED" using s(3) eff(4) by (auto simp: authority_ok_def)
    have "\<exists>x. unrevoked (mem_grants m' (bs_reset_epoch s, x)) \<noteq> None"
      using eff(3,4,5) by (intro exI [of _ c]) (simp del: unrevoked_simps(3))
    then have "authority_ok s (mem_grants m')"
      using s(3) claimed eff(2,5) unfolding authority_ok_def by (auto split: if_splits)
    moreover have "authorized memory_store m' c \<noteq> None"
      using auth [of c] eff(3,4) s(1,2) by (simp add: authorized_memory del: unrevoked_simps(3))
    moreover have "authorized memory_store m cid \<noteq> None"
      using eff(1) s(1,2) by (simp add: authorized_memory)
    moreover have "authorized memory_store m' = (authorized memory_store m)(cid := None)"
      using auth by (simp add: fun_eq_iff)
    moreover have "mem_inv names m'" "port_epoch memory_store m' = port_epoch memory_store m"
      using calculation(1) rel' eff(6) s(1,2) related_opened(1) [OF rel']
      by (simp_all add: mem_inv_def authorized_memory(2))
    ultimately show ?thesis unfolding Inr sum.case by blast
  qed
qed

lemma mem_inv_reset:
  assumes inv: "mem_inv names m" and fresh: "set (minted_ids (CReset n now recovery)) \<inter> mem_ids m = {}"
  shows "\<exists>st m'. mem_reset_authority n now recovery m = (Inr st, m') \<and> mem_inv names m'
      \<and> bs_claim_state st = UNCLAIMED \<and> bs_reset_epoch st = port_epoch memory_store m + 1
      \<and> port_epoch memory_store m' = port_epoch memory_store m + 1
      \<and> authorized memory_store m' = (\<lambda>_. None)"
proof -
  obtain s where rel: "related names m" and s: "ms_opened m" "ms_state m = Some s"
      "authority_ok s (mem_grants m)"
    using inv by (rule mem_invE)
  let ?st = "s\<lparr>bs_reset_epoch := bs_reset_epoch s + 1,
        bs_claim_state := UNCLAIMED, bs_network_state := n, bs_updated_at := now\<rparr>"
  obtain m' where m': "mem_reset_authority n now recovery m = (Inr ?st, m')" "ms_state m' = Some ?st"
      "\<And>k. mem_grants m' k = map_option (revoke_grant now) (mem_grants m k)"
    using mem_reset_effect [OF s(1,2)] by blast
  have rel': "related names m'"
    using related_run(1) [OF rel _ fresh] answer_of [of "mem_reset_authority n now recovery", OF m'(1)]
    by auto
  have none: "unrevoked (mem_grants m' k) = None" for k
    by (cases "mem_grants m k") (simp_all add: m'(3))
  have "e \<le> bs_reset_epoch s + 1 \<and> (cg_revoked_at g = None \<longrightarrow> e = bs_reset_epoch s + 1)"
    if found: "mem_grants m' (e, c) = Some g" for e c g
  proof -
    obtain g0 where g0: "mem_grants m (e, c) = Some g0" "g = revoke_grant now g0"
      using found by (auto simp: m'(3))
    have "e \<le> bs_reset_epoch s" using s(3) g0(1) unfolding authority_ok_def by blast
    with g0(2) show ?thesis by simp
  qed
  then have "authority_ok ?st (mem_grants m')"
    using none by (simp add: authority_ok_def)
  with m' rel' none s(1,2) related_opened(1) [OF rel'] show ?thesis
    by (intro exI [of _ ?st] exI [of _ m']) (auto simp: mem_inv_def authorized_memory fun_eq_iff)
qed

interpretation mem: authority_store memory_store "mem_inv names" names mem_ids
proof unfold_locales
  fix m cid c a m' sid h g now and granted :: "store_error + ControllerGrant" and n recovery
  assume inv: "mem_inv names m"
  obtain s where rel: "related names m" and s: "ms_opened m" "ms_state m = Some s"
      "authority_ok s (mem_grants m)"
    using inv by (rule mem_invE)
  show "\<exists>st. sp_get_state memory_store m = (Inr st, m)
      \<and> (bs_claim_state st = CLAIMED \<longleftrightarrow> (\<exists>c. authorized memory_store m c \<noteq> None))"
    using s by (simp add: authority_ok_def authorized_memory)
  show "\<exists>x. sp_get_controller memory_store cid m = (Inr x, m)
      \<and> (\<forall>g. x = Some g \<longrightarrow> cg_controller_id g = cid \<and> cg_reset_epoch g = port_epoch memory_store m
            \<and> grant_named names g)"
    using s(1,2) related_grants(2,3) [OF rel] by (simp add: mem_get_controller_run authorized_memory(2))
  show "mem_inv names m' \<and> authorized memory_store m' = authorized memory_store m
      \<and> port_epoch memory_store m' = port_epoch memory_store m"
    if "quiet_call c" "set (minted_ids c) \<inter> mem_ids m = {}" "run_call memory_store c m = (a, m')"
  proof -
    have "call_ok names c" using that(1) by (cases c) simp_all
    from related_run(1) [OF rel this that(2,3)] framedD [OF quiet_call_same [OF that(1)] that(3)]
    show ?thesis using mem_inv_quiet [OF inv] by blast
  qed
  show "mem_inv names m' \<and> port_epoch memory_store m' = port_epoch memory_store m
      \<and> (case granted of Inl e \<Rightarrow> authorized memory_store m' = authorized memory_store m
        | Inr g' \<Rightarrow> authorized memory_store m' = (authorized memory_store m)(cg_controller_id g \<mapsto> g')
            \<and> cg_public_key g' = cg_public_key g)"
    if "grant_named names g" "cg_revoked_at g = None"
      "sp_claim_controller memory_store sid h g now m = (granted, m')"
    using mem_inv_claim [OF inv that(1,2)] that(3) by simp
  show "mem_inv names m' \<and> port_epoch memory_store m' = port_epoch memory_store m
      \<and> (case granted of Inl e \<Rightarrow> authorized memory_store m' = authorized memory_store m
        | Inr g' \<Rightarrow> authorized memory_store m cid \<noteq> None
            \<and> authorized memory_store m' = (authorized memory_store m)(cid := None)
            \<and> (\<exists>c. authorized memory_store m' c \<noteq> None))"
    if "sp_revoke_controller memory_store cid now m = (granted, m')"
    using mem_inv_revoke [OF inv] that by simp
  show "\<exists>st m'. sp_reset_authority memory_store n now recovery m = (Inr st, m') \<and> mem_inv names m'
      \<and> bs_claim_state st = UNCLAIMED \<and> bs_reset_epoch st = port_epoch memory_store m + 1
      \<and> port_epoch memory_store m' = port_epoch memory_store m + 1
      \<and> authorized memory_store m' = (\<lambda>_. None)"
    if "set (minted_ids (CReset n now recovery)) \<inter> mem_ids m = {}"
    using mem_inv_reset [OF inv that] by simp
  show "mem_ids m' \<subseteq> mem_ids m \<union> set (minted_ids c)"
    if "call_ok names c" "set (minted_ids c) \<inter> mem_ids m = {}" "run_call memory_store c m = (a, m')"
    by (rule related_run(2) [OF rel that])
qed (simp_all add: mem_latest_commissioning_session_def mem_list_controllers_def mem_require_open_def bindS_def)

section \<open>The durable adapter keeps the contract\<close>

definition sq_inv :: "key_names \<Rightarrow> sql_db \<Rightarrow> bool" where
  "sq_inv names db \<longleftrightarrow> db_ok names db \<and> (\<exists>m. store_sim db m \<and> mem_inv names m)"

lemma sim_authorized:
  assumes "db_ok names db" and "store_sim db m"
  shows "authorized sqlite_store db = authorized memory_store m"
    and "port_epoch sqlite_store db = port_epoch memory_store m"
  using get_controller_agree [OF assms] get_state_agree [OF assms]
  by (auto simp: authorized_def port_epoch_def sqlite_store_def memory_store_def agree_def fun_eq_iff)

lemma agreeE:
  assumes "agree names (x, db) (y, m)"
  obtains "x = y" and "store_sim db m" and "db_ok names db"
  using assms by (simp add: agree_def)

text \<open>A fact about the in-memory run carries over: same answer, same authority.\<close>

lemma carry:
  assumes db: "db_ok names db" and sim: "store_sim db m" and ag: "agree names (a db) (b m)"
    and run: "a db = (r, db')"
  obtains m' where "b m = (r, m')" and "db_ok names db'" and "store_sim db' m'"
    and "authorized sqlite_store db = authorized memory_store m"
    and "port_epoch sqlite_store db = port_epoch memory_store m"
    and "authorized sqlite_store db' = authorized memory_store m'"
    and "port_epoch sqlite_store db' = port_epoch memory_store m'"
proof -
  obtain y m' where b: "b m = (y, m')" by (cases "b m")
  have "y = r" "store_sim db' m'" "db_ok names db'" using ag run b by (simp_all add: agree_def)
  with b that sim_authorized [OF db sim] sim_authorized [of names db' m'] show thesis by simp
qed

interpretation sq: authority_store sqlite_store "sq_inv names" names db_session_ids
proof unfold_locales
  fix db cid c a db' sid h g now and granted :: "store_error + ControllerGrant" and n recovery
  assume "sq_inv names db"
  then obtain m where db: "db_ok names db" and sim: "store_sim db m" and inv: "mem_inv names m"
    by (auto simp: sq_inv_def)
  have ids: "db_session_ids db = mem_ids m" by (rule sim_ids [OF sim, symmetric])
  show "\<exists>st. sp_get_state sqlite_store db = (Inr st, db)
      \<and> (bs_claim_state st = CLAIMED \<longleftrightarrow> (\<exists>c. authorized sqlite_store db c \<noteq> None))"
  proof -
    obtain st where st: "mem_get_state m = (Inr st, m)"
        "bs_claim_state st = CLAIMED \<longleftrightarrow> (\<exists>c. authorized memory_store m c \<noteq> None)"
      using mem.state_law [OF inv] by auto
    with get_state_agree [OF db sim] have "sq_get_state db = (Inr st, db)"
      by (simp add: agree_def sq_get_state_run [OF db])
    with st(2) sim_authorized(1) [OF db sim] show ?thesis by simp
  qed
  show "\<exists>x. sp_get_controller sqlite_store cid db = (Inr x, db)
      \<and> (\<forall>g. x = Some g \<longrightarrow> cg_controller_id g = cid \<and> cg_reset_epoch g = port_epoch sqlite_store db
            \<and> grant_named names g)"
    using mem.lookup_law [OF inv, of cid] get_controller_agree [OF db sim, of cid]
      sim_authorized(2) [OF db sim]
    by (auto simp: agree_def sq_get_controller_run [OF db])
  show "sq_inv names db' \<and> authorized sqlite_store db' = authorized sqlite_store db
      \<and> port_epoch sqlite_store db' = port_epoch sqlite_store db"
    if "quiet_call c" "set (minted_ids c) \<inter> db_session_ids db = {}" "run_call sqlite_store c db = (a, db')"
  proof -
    have "call_ok names c" using that(1) by (cases c) simp_all
    then have "agree names (run_call sqlite_store c db) (run_call memory_store c m)"
      by (rule run_call_agree [OF db sim _ that(2)])
    from carry [where a = "run_call sqlite_store c" and b = "run_call memory_store c", OF db sim this that(3)]
    show ?thesis using mem.quiet_law [OF inv that(1) that(2) [unfolded ids]] unfolding sq_inv_def by metis
  qed
  show "sq_inv names db' \<and> port_epoch sqlite_store db' = port_epoch sqlite_store db
      \<and> (case granted of Inl e \<Rightarrow> authorized sqlite_store db' = authorized sqlite_store db
        | Inr g' \<Rightarrow> authorized sqlite_store db' = (authorized sqlite_store db)(cg_controller_id g \<mapsto> g')
            \<and> cg_public_key g' = cg_public_key g)"
    if g: "grant_named names g" "cg_revoked_at g = None"
      and run: "sp_claim_controller sqlite_store sid h g now db = (granted, db')"
  proof -
    have run': "sq_claim_controller sid h g now db = (granted, db')" using run by simp
    obtain m' where m': "mem_claim_controller sid h g now m = (granted, m')" "db_ok names db'" "store_sim db' m'"
        "authorized sqlite_store db = authorized memory_store m"
        "port_epoch sqlite_store db = port_epoch memory_store m"
        "authorized sqlite_store db' = authorized memory_store m'"
        "port_epoch sqlite_store db' = port_epoch memory_store m'"
      by (rule carry [where a = "sq_claim_controller sid h g now" and b = "mem_claim_controller sid h g now", OF db sim claim_agree [OF db sim g] run'])
    from mem_inv_claim [OF inv g m'(1)] m'(2,3) show ?thesis unfolding sq_inv_def m'(4-7) by blast
  qed
  show "sq_inv names db' \<and> port_epoch sqlite_store db' = port_epoch sqlite_store db
      \<and> (case granted of Inl e \<Rightarrow> authorized sqlite_store db' = authorized sqlite_store db
        | Inr g' \<Rightarrow> authorized sqlite_store db cid \<noteq> None
            \<and> authorized sqlite_store db' = (authorized sqlite_store db)(cid := None)
            \<and> (\<exists>c. authorized sqlite_store db' c \<noteq> None))"
    if run: "sp_revoke_controller sqlite_store cid now db = (granted, db')"
  proof -
    have run': "sq_revoke_controller cid now db = (granted, db')" using run by simp
    obtain m' where m': "mem_revoke_controller cid now m = (granted, m')" "db_ok names db'" "store_sim db' m'"
        "authorized sqlite_store db = authorized memory_store m"
        "port_epoch sqlite_store db = port_epoch memory_store m"
        "authorized sqlite_store db' = authorized memory_store m'"
        "port_epoch sqlite_store db' = port_epoch memory_store m'"
      by (rule carry [where a = "sq_revoke_controller cid now" and b = "mem_revoke_controller cid now", OF db sim revoke_agree [OF db sim] run'])
    from mem_inv_revoke [OF inv m'(1)] m'(2,3) show ?thesis unfolding sq_inv_def m'(4-7) by blast
  qed
  show "\<exists>st db'. sp_reset_authority sqlite_store n now recovery db = (Inr st, db') \<and> sq_inv names db'
      \<and> bs_claim_state st = UNCLAIMED \<and> bs_reset_epoch st = port_epoch sqlite_store db + 1
      \<and> port_epoch sqlite_store db' = port_epoch sqlite_store db + 1
      \<and> authorized sqlite_store db' = (\<lambda>_. None)"
    if fresh: "set (minted_ids (CReset n now recovery)) \<inter> db_session_ids db = {}"
  proof -
    have ag: "agree names (sq_reset_authority n now recovery db) (mem_reset_authority n now recovery m)"
      using fresh by (intro reset_agree [OF db sim]) auto
    obtain x y where run: "sq_reset_authority n now recovery db = (x, y)"
      by (cases "sq_reset_authority n now recovery db")
    obtain m' where m': "mem_reset_authority n now recovery m = (x, m')" "db_ok names y" "store_sim y m'"
        "port_epoch sqlite_store db = port_epoch memory_store m"
        "authorized sqlite_store y = authorized memory_store m'"
        "port_epoch sqlite_store y = port_epoch memory_store m'"
      by (rule carry [where a = "sq_reset_authority n now recovery" and b = "mem_reset_authority n now recovery", OF db sim ag run])
    from mem_inv_reset [OF inv fresh [unfolded ids]] m' run show ?thesis
      unfolding sq_inv_def by auto
  qed
  show "db_session_ids db' \<subseteq> db_session_ids db \<union> set (minted_ids c)"
    if "run_call sqlite_store c db = (a, db')"
    using run_call_ids [of c db] that by simp
qed (simp_all add: sq_latest_commissioning_session_def sq_list_controllers_def sq_connection_def bindS_def)

end
