(* ===== verification/Windows.thy ===== *)
theory Windows
  imports Authority
begin

text \<open>
  Setup windows as a resource: what code and which state of the window a claim needs, that a
  window serves one Controller only, and that the window a reset leaves behind can always be used.
\<close>

section \<open>A claim needs the window's own code\<close>

lemma sq_claim_body_consumes:
  assumes "sq_claim_body sid g now db = (Inr g', db')"
  shows "db_sessions db' = map (row_consume sid (cg_controller_id g') now) (db_sessions db)"
  using assms unfolding sq_claim_body_def
  by (auto simp: raise_def Let_def stmt_consume_session_alt stmt_upsert_grant_def sq_grant_in_epoch_def
      sq_get_state_def sq_connection_def
      split: if_splits option.splits sum.splits elim!: bindS_InrE)

lemma sq_claim_cases:
  assumes "sq_claim_controller sid h g now db = (Inr g', db')"
  obtains (fresh) r where "r \<in> set (db_sessions db)" and "sr_session_id r = sid" and "sr_secret_hash r = h"
      and "is_open (session_of r) now"
      and "db_sessions db' = map (row_consume sid (cg_controller_id g') now) (db_sessions db)"
  | (replay) r where "r \<in> set (db_sessions db)" and "sr_session_id r = sid" and "sr_secret_hash r = h"
      and "sr_consumed_at r \<noteq> None" and "sr_claimed_controller_id r = Some (cg_controller_id g)"
      and "cg_public_key g' = cg_public_key g" and "db' = db"
proof -
  have via_fresh: thesis if run: "sq_claim_fresh sid h g now db = (Inr g', db')"
  proof -
    obtain md db1 where auth: "sq_authorize_commissioning_session sid h now db = (Inr md, db1)"
        and body: "transact (sq_claim_body sid g now) db1 = (Inr g', db')"
      using run unfolding sq_claim_fresh_def by blast
    show thesis
      using auth fresh sq_claim_body_consumes body unfolding transact_Inr_iff
      by (elim sq_authorize_Inr) blast
  qed
  show thesis
  proof (cases "find (\<lambda>r. sr_session_id r = sid) (db_sessions db)")
    case None
    with assms via_fresh show thesis
      by (auto simp: sq_claim_controller_def sq_connection_def split: if_splits elim!: bindS_InrE)
  next
    case (Some r)
    have r: "r \<in> set (db_sessions db)" "sr_session_id r = sid" using find_SomeD [OF Some] by auto
    have open': "db_open db"
      using assms by (auto simp: sq_claim_controller_def sq_connection_def split: if_splits elim!: bindS_InrE)
    show thesis
    proof (cases "sr_consumed_at r")
      case None
      with Some assms open' via_fresh show thesis by (simp add: sq_claim_controller_def)
    next
      case (Some c)
      with \<open>find _ _ = Some r\<close> assms open' have "sq_replayed_claim r h g db = (Inr g', db')"
        by (simp add: sq_claim_controller_def)
      with r Some show thesis
        by (intro replay [of r])
           (auto simp: sq_replayed_claim_def raise_def sq_get_controller_def sq_get_state_def
             sq_connection_def split: if_splits option.splits elim!: bindS_InrE)
    qed
  qed
qed

section \<open>A window serves one Controller\<close>

definition consumed_by :: "sql_db \<Rightarrow> string \<Rightarrow> string \<Rightarrow> bool" where
  "consumed_by db sid cid \<longleftrightarrow> (case find (\<lambda>r. sr_session_id r = sid) (db_sessions db) of
     None \<Rightarrow> False | Some r \<Rightarrow> sr_consumed_at r \<noteq> None \<and> sr_claimed_controller_id r = Some cid)"

lemma sim_consumed_by:
  assumes "db_ok names db" and "store_sim db m"
  shows "consumed_by db sid cid \<longleftrightarrow> map_of (ms_session_controller_ids m) sid = Some cid"
proof (cases "find (\<lambda>r. sr_session_id r = sid) (db_sessions db)")
  case None
  with assms(2) show ?thesis by (simp add: consumed_by_def store_sim_def)
next
  case (Some r)
  have "sr_consumed_at r = None \<longleftrightarrow> sr_claimed_controller_id r = None"
    using find_SomeD [OF Some] assms(1) by (simp add: db_ok_def sessions_ok_def)
  with Some assms(2) show ?thesis by (auto simp: consumed_by_def store_sim_def)
qed

definition claims_kept :: "mem_store \<Rightarrow> mem_store \<Rightarrow> bool" where
  "claims_kept m m' \<longleftrightarrow> (\<forall>sid cid. map_of (ms_session_controller_ids m) sid = Some cid
     \<longrightarrow> map_of (ms_session_controller_ids m') sid = Some cid)"

lemma claims_kept_preorder: "reflp claims_kept" "transp claims_kept"
  by (auto simp: claims_kept_def reflp_def transp_def)

lemma claims_kept_same [simp]:
  "ms_session_controller_ids m' = ms_session_controller_ids m \<Longrightarrow> claims_kept m m'"
  by (simp add: claims_kept_def)

lemma kept_open: "framed claims_kept mem_require_open" "framed claims_kept mem_get_state"
  by (rule framedI; simp add: mem_get_state_def mem_require_open_def bindS_def split: option.split)+

lemma kept_ops:
  "framed claims_kept (mem_issue_commissioning_session sid h created expires)"
  "framed claims_kept (mem_authorize_commissioning_session sid h now)"
  "framed claims_kept (mem_get_controller cid)"
  "framed claims_kept mem_list_controllers"
  "framed claims_kept (mem_revoke_controller cid now)"
  "framed claims_kept (mem_get_operation i)"
  "framed claims_kept (mem_update_operation i st n now code)"
  "framed claims_kept (mem_fail_interrupted_operations now)"
  "framed claims_kept (mem_reconcile_network_state n now)"
  "framed claims_kept (mem_grant_in_epoch g e)"
proof -
  note rules = framed_bind claims_kept_preorder kept_open framedI
  show "framed claims_kept (mem_issue_commissioning_session sid h created expires)"
    unfolding mem_issue_commissioning_session_def by (intro rules) simp
  show "framed claims_kept (mem_authorize_commissioning_session sid h now)"
    unfolding mem_authorize_commissioning_session_def
    by (intro rules) (simp split: prod.split option.split)
  show "framed claims_kept (mem_get_controller cid)"
    unfolding mem_get_controller_def by (intro rules) simp
  show list: "framed claims_kept mem_list_controllers"
    unfolding mem_list_controllers_def by (intro rules) simp
  show "framed claims_kept (mem_revoke_controller cid now)"
    unfolding mem_revoke_controller_def
    by (intro framed_bind claims_kept_preorder kept_open list framedI)
       (simp add: Let_def split: option.split)
  show "framed claims_kept (mem_get_operation i)"
    unfolding mem_get_operation_def by (intro rules) simp
  show "framed claims_kept (mem_update_operation i st n now code)"
    unfolding mem_update_operation_def by (intro rules) (simp add: Let_def split: option.split)
  show "framed claims_kept (mem_fail_interrupted_operations now)"
    unfolding mem_fail_interrupted_operations_def by (intro rules) (simp add: Let_def split: option.split)
  show "framed claims_kept (mem_reconcile_network_state n now)"
    unfolding mem_reconcile_network_state_def by (intro rules) (simp split: option.split)
  show "framed claims_kept (mem_grant_in_epoch g e)"
    by (rule framedI) (simp add: mem_grant_in_epoch_def Let_def split: option.split)
qed

lemma kept_create: "framed claims_kept (mem_create_operation p)"
proof (rule framedI)
  fix m
  have "ms_session_controller_ids (snd (mem_create_operation p m)) = ms_session_controller_ids m"
    by (auto simp: mem_create_operation_def mem_get_state_def mem_require_open_def bindS_def
        split: option.split if_splits)
  then show "claims_kept m (snd (mem_create_operation p m))" by simp
qed

lemma kept_reset: "framed claims_kept (mem_reset_authority n now recovery)"
proof (rule framedI)
  fix m
  have "ms_session_controller_ids (snd (mem_reset_authority n now recovery m)) = ms_session_controller_ids m"
    by (auto simp: mem_reset_authority_def mem_get_state_def mem_require_open_def bindS_def Let_def
        split: option.split)
  then show "claims_kept m (snd (mem_reset_authority n now recovery m))" by simp
qed

lemma mem_claim_body_ids:
  "ms_session_controller_ids (snd (mem_claim_body sid g now m)) = ms_session_controller_ids m
   \<or> (\<exists>cid. ms_session_controller_ids (snd (mem_claim_body sid g now m))
        = dict_set sid cid (ms_session_controller_ids m))"
  by (auto simp: mem_claim_body_def bindS_def mem_get_state_def mem_require_open_def raise_def
      mem_grant_in_epoch_def mem_consume_session_def Let_def split: option.split)

lemma mem_authorize_ids:
  "ms_session_controller_ids (snd (mem_authorize_commissioning_session sid h now m))
   = ms_session_controller_ids m"
  by (auto simp: mem_authorize_commissioning_session_def bindS_def mem_require_open_def
      split: prod.split option.split)

lemma mem_replayed_same: "snd (mem_replayed_claim sid h g cid m) = m"
  by (auto simp: mem_replayed_claim_def mem_get_controller_def bindS_def mem_get_state_def
      mem_require_open_def split: option.split)

lemma kept_claim: "framed claims_kept (mem_claim_controller sid h g now)"
proof (rule framedI)
  fix m
  let ?ids = "ms_session_controller_ids"
  show "claims_kept m (snd (mem_claim_controller sid h g now m))"
  proof (cases "ms_opened m \<and> map_of (?ids m) sid = None")
    case False
    then have "snd (mem_claim_controller sid h g now m) = m"
      by (auto simp: mem_claim_controller_def bindS_def mem_require_open_def mem_replayed_same
          split: option.split)
    then show ?thesis by simp
  next
    case True
    let ?a = "mem_authorize_commissioning_session sid h now"
    obtain x m1 where a: "?a m = (x, m1)" by (cases "?a m")
    have ids: "?ids m1 = ?ids m" using mem_authorize_ids [of sid h now m] a by simp
    have run: "mem_claim_controller sid h g now m = bindS ?a (\<lambda>_. mem_claim_body sid g now) m"
      using True by (simp add: mem_claim_controller_def)
    show ?thesis
      using mem_claim_body_ids [of sid g now m1] True ids a
      by (cases x) (auto simp: run bindS_def claims_kept_def)
  qed
qed

lemma kept_call: "framed claims_kept (run_call memory_store c)"
  by (cases c) (auto simp: answer_def intro!: framed_bind claims_kept_preorder framed_ret kept_open(2)
      kept_ops kept_create kept_reset kept_claim)

lemma kept_run: "claims_kept m (snd (run_calls memory_store cs m))"
proof (induction cs arbitrary: m)
  case (Cons c cs)
  obtain r m1 where one: "run_call memory_store c m = (r, m1)" by (cases "run_call memory_store c m")
  have "claims_kept m m1" by (rule framedD [OF kept_call one])
  with Cons.IH [of m1] show ?case
    using transpD [OF claims_kept_preorder(2)] by (simp add: one case_prod_beta)
qed simp

lemma consumed_by_persists:
  assumes "db_ok names db" and "store_sim db m" and "calls_ok names cs (db_session_ids db)"
    and "consumed_by db sid cid"
  shows "consumed_by (snd (run_calls sqlite_store cs db)) sid cid"
proof -
  note ag = run_calls_agree [OF assms(1-3)]
  have "map_of (ms_session_controller_ids m) sid = Some cid"
    using assms(4) sim_consumed_by [OF assms(1,2)] by simp
  then have "map_of (ms_session_controller_ids (snd (run_calls memory_store cs m))) sid = Some cid"
    using kept_run [of m cs] by (simp add: claims_kept_def)
  with ag sim_consumed_by show ?thesis by blast
qed

lemma consumed_refuses:
  assumes "db_open db" and "consumed_by db sid cid" and "cg_controller_id g \<noteq> cid"
  shows "sq_claim_controller sid h g now db = (Inl session_unavailable, db)"
  using assms
  by (auto simp: consumed_by_def sq_claim_controller_def sq_replayed_claim_def raise_def split: option.splits)

section \<open>The window a reset leaves behind\<close>

lemma mem_authorize_scan_last:
  assumes "cs_session_id md \<notin> cs_session_id ` fst ` set xs" and "is_open md now"
  shows "mem_authorize_scan (cs_session_id md) h now (xs @ [(md, h)]) = (Some md, xs @ [(md, h)])"
  using assms by (induction xs) auto

lemma mem_reset_then_claim:
  assumes inv: "mem_inv names m" and fresh: "seed_session_id seed \<notin> mem_ids m"
    and reset: "mem_reset_authority n now (Some seed) m = (Inr st, m')"
    and g: "cg_reset_epoch g = bs_reset_epoch st"
    and before: "\<And>e. seed_expires_at seed = Some e \<Longrightarrow> now' < e"
  shows "\<exists>m''. mem_claim_controller (seed_session_id seed) (seed_secret_hash seed) g now' m' = (Inr g, m'')"
proof -
  obtain s where rel: "related names m" and s: "ms_opened m" "ms_state m = Some s"
      "authority_ok s (mem_grants m)"
    using inv by (rule mem_invE)
  let ?sid = "seed_session_id seed" and ?h = "seed_secret_hash seed"
  let ?md = "new_session ?sid now (seed_expires_at seed)"
  let ?old = "map (\<lambda>(md, h). (supersede now md, h)) (ms_sessions m)"
  have m': "ms_opened m'" "ms_state m' = Some st" "ms_sessions m' = ?old @ [(?md, ?h)]"
      "ms_session_controller_ids m' = ms_session_controller_ids m"
      "bs_reset_epoch st = bs_reset_epoch s + 1"
      "ms_controllers m' = map (\<lambda>(k, g). (k, revoke_grant now g)) (ms_controllers m)"
    using reset s(1,2) by (auto simp: mem_reset_authority_def bindS_ok Let_def)
  have older: "fst k < bs_reset_epoch st" if "(k, x) \<in> set (ms_controllers m')" for k x
  proof -
    from that obtain y where "(k, y) \<in> set (ms_controllers m)" by (auto simp: m'(6))
    then have "mem_grants m k = Some y" using related_grants(3) [OF rel, of "fst k" "snd k"] by simp
    with s(3) have "fst k \<le> bs_reset_epoch s" unfolding authority_ok_def by (metis prod.collapse)
    with m'(5) show ?thesis by simp
  qed
  have none: "mem_grants m' (bs_reset_epoch st, c) = None" for c
    using older by (force dest: map_of_SomeD simp: map_of_eq_None_iff)
  have nofp: "find (\<lambda>((e, _), x). e = bs_reset_epoch st \<and> Q x) (ms_controllers m') = None" for Q
    using older by (force simp: find_None)
  have unclaimed: "map_of (ms_session_controller_ids m') ?sid = None"
  proof -
    obtain db where db: "db_ok names db" "store_sim db m" using rel by (auto simp: related_def)
    have "find (\<lambda>r. sr_session_id r = ?sid) (db_sessions db) = None"
      using fresh unfolding sim_ids [OF db(2)] find_None by (metis imageI)
    with db(2) show ?thesis by (simp add: m'(4) store_sim_def)
  qed
  have "?sid \<notin> cs_session_id ` fst ` set ?old"
    using fresh by (force simp: mem_ids_def)
  moreover have "is_open ?md now'" using before by (simp add: is_open_iff new_session_def)
  ultimately have scan: "mem_authorize_scan ?sid ?h now' (ms_sessions m') = (Some ?md, ms_sessions m')"
    using mem_authorize_scan_last [of ?md ?old now' ?h] by (simp add: m'(3) new_session_def)
  then have auth: "mem_authorize_commissioning_session ?sid ?h now' m' = (Inr ?md, m')"
    using m'(1) by (simp add: mem_authorize_commissioning_session_def)
  have held: "mem_grant_in_epoch g (bs_reset_epoch st) m' = (Inr None, m')"
    by (simp add: mem_grant_in_epoch_def none nofp Let_def)
  have "\<exists>m''. mem_claim_body ?sid g now' m' = (Inr g, m'')"
    using m'(1,2) g held by (simp add: mem_claim_body_def bindS_ok Let_def)
  with unclaimed m'(1) auth show ?thesis
    by (simp add: mem_claim_controller_def bindS_ok)
qed

section \<open>Properties of the durable store\<close>

lemma fresh_inv: "sq_inv names (sq_create_at_current_schema now)"
proof -
  have rel: "related names (memory_ready now)"
    using fresh_related by (auto simp: related_def)
  have "mem_inv names (memory_ready now)"
    using rel by (simp add: mem_inv_def memory_ready_def bindS_def mem_open_def mem_initialize_def
        mem_require_open_def mem_new_def authority_ok_def)
  then show ?thesis using fresh_related by (auto simp: sq_inv_def)
qed

lemma fresh_ids [simp]: "db_session_ids (sq_create_at_current_schema now) = {}"
  by (simp add: sq_create_at_current_schema_def)

text \<open>
  C2. After any run of port calls the durable store reports the Host as claimed exactly when some
  Controller is authorized on it.
\<close>

theorem host_claimed_iff_authorized:
  assumes "sq_inv names db" and "calls_ok names cs (db_session_ids db)"
    and "run_calls sqlite_store cs db = (rs, db')"
  shows "\<exists>st. sq_get_state db' = (Inr st, db')
    \<and> (bs_claim_state st = CLAIMED \<longleftrightarrow> (\<exists>cid. authorized sqlite_store db' cid \<noteq> None))"
  using sq.claimed_iff [OF assms] by simp

definition sample_db :: sql_db where
  "sample_db = snd (run_calls sqlite_store sample_calls (sq_create_at_current_schema ''t0''))"

lemma sample_run:
  "run_calls sqlite_store sample_calls (sq_create_at_current_schema ''t0'')
   = (fst (run_calls sqlite_store sample_calls (sq_create_at_current_schema ''t0'')), sample_db)"
  by (simp add: sample_db_def prod_eq_iff)

lemma sample_db_inv: "sq_inv sample_names sample_db"
  using sq.run_keeps_inv [OF fresh_inv, of sample_names sample_calls "''t0''"] sample_calls_ok
  by (simp add: sample_db_def)

lemma sample_db_authorized: "authorized sqlite_store sample_db ''id-k1'' = Some (sample_grant ''k1'' 1 ''t6'')"
  unfolding sample_db_def by code_simp

lemma host_claimed_iff_authorized_witness:
  "\<exists>st. sq_get_state sample_db = (Inr st, sample_db)
    \<and> (bs_claim_state st = CLAIMED \<longleftrightarrow> (\<exists>cid. authorized sqlite_store sample_db cid \<noteq> None))"
  by (rule host_claimed_iff_authorized [OF fresh_inv [of sample_names] _ sample_run])
     (simp add: sample_calls_ok)

text \<open>
  C3. Whoever is authorized after a run of port calls either was authorized before it and nothing
  in the run took that away, or was granted by a claim in the run that answered with that Grant,
  with neither a reset nor a successful revocation of the Controller after it.
\<close>

theorem authority_provenance:
  assumes "sq_inv names db" and "calls_ok names cs (db_session_ids db)"
    and "run_calls sqlite_store cs db = (rs, db')" and "authorized sqlite_store db' cid = Some g"
  shows "authorized sqlite_store db cid = Some g \<and> undisturbed cid cs rs
    \<or> (\<exists>i < length cs. \<exists>sid h g0 now. cs ! i = CClaim sid h g0 now \<and> cg_controller_id g0 = cid
         \<and> rs ! i = Inr (AGrant g) \<and> undisturbed cid (drop (Suc i) cs) (drop (Suc i) rs))"
  by (rule sq.run_provenance [OF assms])

lemma authority_provenance_witness:
  "\<exists>i < length sample_calls. \<exists>sid h g0 now. sample_calls ! i = CClaim sid h g0 now
     \<and> cg_controller_id g0 = ''id-k1''
     \<and> fst (run_calls sqlite_store sample_calls (sq_create_at_current_schema ''t0'')) ! i
       = Inr (AGrant (sample_grant ''k1'' 1 ''t6''))"
proof -
  have none: "authorized sqlite_store (sq_create_at_current_schema ''t0'') ''id-k1'' = None"
    by code_simp
  have "calls_ok sample_names sample_calls (db_session_ids (sq_create_at_current_schema ''t0''))"
    by (simp add: sample_calls_ok)
  from authority_provenance [OF fresh_inv this sample_run sample_db_authorized] none
  show ?thesis by auto
qed

text \<open>
  C4. A reset always succeeds on a store in its invariant, whatever the network state and whether
  or not it seeds a recovery window: nobody is authorized afterwards, the Host reports itself
  unclaimed, and the epoch is the next one.
\<close>

theorem reset_leaves_nobody:
  assumes "sq_inv names db" and "\<And>seed. recovery = Some seed \<Longrightarrow> seed_session_id seed \<notin> db_session_ids db"
  shows "\<exists>st db'. sq_reset_authority n now recovery db = (Inr st, db') \<and> sq_inv names db'
    \<and> bs_claim_state st = UNCLAIMED \<and> bs_reset_epoch st = port_epoch sqlite_store db + 1
    \<and> port_epoch sqlite_store db' = port_epoch sqlite_store db + 1
    \<and> (\<forall>cid. authorized sqlite_store db' cid = None)"
proof -
  have "set (minted_ids (CReset n now recovery)) \<inter> db_session_ids db = {}"
    using assms(2) by (cases recovery) auto
  from sq.reset_law [OF assms(1) this] show ?thesis by auto
qed

lemma reset_leaves_nobody_witness:
  "\<exists>st db'. sq_reset_authority CONNECTED ''t7'' None sample_db = (Inr st, db')
    \<and> (\<forall>cid. authorized sqlite_store db' cid = None)"
  using reset_leaves_nobody [OF sample_db_inv, of None CONNECTED "''t7''"] by auto

text \<open>
  C5. Revoking a Controller takes away exactly that Controller's authority, only ever from a
  Controller that has it, and never the last one: somebody stays authorized. A refused revocation
  changes nothing.
\<close>

theorem revocation_exact:
  assumes "sq_inv names db" and "sq_revoke_controller cid now db = (r, db')"
  shows "case r of
      Inl e \<Rightarrow> authorized sqlite_store db' = authorized sqlite_store db
    | Inr g \<Rightarrow> authorized sqlite_store db cid \<noteq> None
        \<and> authorized sqlite_store db' = (authorized sqlite_store db)(cid := None)
        \<and> (\<exists>c. authorized sqlite_store db' c \<noteq> None)"
  using sq.revoke_law [OF assms(1), of cid now r db'] assms(2) by simp

lemma revocation_exact_witness:
  "authorized sqlite_store (snd (sq_revoke_controller ''id-k1'' ''t8'' sample_db)) ''id-k1''
   = Some (sample_grant ''k1'' 1 ''t6'')"
proof -
  have last: "fst (sq_revoke_controller ''id-k1'' ''t8'' sample_db)
      = Inl (Conflict ''the last Controller cannot be revoked; use controller-reset'')"
    unfolding sample_db_def by code_simp
  then have "sq_revoke_controller ''id-k1'' ''t8'' sample_db
      = (Inl (Conflict ''the last Controller cannot be revoked; use controller-reset''),
         snd (sq_revoke_controller ''id-k1'' ''t8'' sample_db))"
    by (simp add: prod_eq_iff)
  from revocation_exact [OF sample_db_inv this] sample_db_authorized show ?thesis by simp
qed

text \<open>
  C6. A claim that answers with a Grant was made with the hash of the window's own code: either on
  a window still open at that time, which the claim consumed and bound to the Controller it
  answered with, or as the replay of a claim the same Controller id already made on it, which
  changes nothing.
\<close>

theorem claim_needs_code:
  assumes "sq_claim_controller sid h g now db = (Inr g', db')"
  shows "\<exists>r \<in> set (db_sessions db). sr_session_id r = sid \<and> sr_secret_hash r = h
    \<and> (is_open (session_of r) now
         \<and> (\<exists>r' \<in> set (db_sessions db'). sr_session_id r' = sid \<and> sr_consumed_at r' = Some now
              \<and> sr_claimed_controller_id r' = Some (cg_controller_id g'))
       \<or> sr_consumed_at r \<noteq> None \<and> sr_claimed_controller_id r = Some (cg_controller_id g)
         \<and> cg_public_key g' = cg_public_key g \<and> db' = db)"
  using assms
proof (cases rule: sq_claim_cases)
  case (fresh r)
  let ?r' = "row_consume sid (cg_controller_id g') now r"
  have "?r' \<in> set (db_sessions db')" using fresh(1,5) by simp
  moreover have "sr_session_id ?r' = sid" "sr_consumed_at ?r' = Some now"
      "sr_claimed_controller_id ?r' = Some (cg_controller_id g')"
    using fresh(2) by (simp_all add: row_consume_def)
  ultimately show ?thesis using fresh(1-4) by blast
next
  case (replay r)
  then show ?thesis by blast
qed

definition sample_window :: sql_db where
  "sample_window = snd (sq_issue_commissioning_session ''w1'' ''hash'' ''t1'' None
     (sq_create_at_current_schema ''t0''))"

lemma claim_needs_code_witness:
  "\<exists>r \<in> set (db_sessions sample_window). sr_session_id r = ''w1'' \<and> sr_secret_hash r = ''hash''"
proof -
  have "fst (sq_claim_controller ''w1'' ''hash'' (sample_grant ''k1'' 0 ''t2'') ''t2'' sample_window)
      = Inr (sample_grant ''k1'' 0 ''t2'')"
    unfolding sample_window_def by code_simp
  then have "sq_claim_controller ''w1'' ''hash'' (sample_grant ''k1'' 0 ''t2'') ''t2'' sample_window
      = (Inr (sample_grant ''k1'' 0 ''t2''),
         snd (sq_claim_controller ''w1'' ''hash'' (sample_grant ''k1'' 0 ''t2'') ''t2'' sample_window))"
    by (simp add: prod_eq_iff)
  from claim_needs_code [OF this] show ?thesis by auto
qed

text \<open>
  C7. Once a window has been consumed by a Controller, every later claim on it under another
  Controller id is refused and changes nothing, whatever code it brings and whatever calls were
  made in between, resets included.
\<close>

theorem window_single_use:
  assumes "sq_inv names db" and "consumed_by db sid cid" and "calls_ok names cs (db_session_ids db)"
    and "run_calls sqlite_store cs db = (rs, db')" and "cg_controller_id g \<noteq> cid"
  shows "sq_claim_controller sid h g now db' = (Inl session_unavailable, db')"
proof -
  obtain m where db: "db_ok names db" "store_sim db m" using assms(1) by (auto simp: sq_inv_def)
  have "consumed_by db' sid cid"
    using consumed_by_persists [OF db assms(3,2)] assms(4) by simp
  moreover have "db_open db'"
    using db_okD(1) run_calls_agree [OF db assms(3)] assms(4) by simp blast
  ultimately show ?thesis using assms(5) by (intro consumed_refuses)
qed

lemma window_single_use_witness:
  "sq_claim_controller ''w2'' ''hash2'' (sample_grant ''k2'' 2 ''t9'') ''t9''
     (snd (run_calls sqlite_store [CReset DEGRADED ''t8'' None] sample_db))
   = (Inl session_unavailable, snd (run_calls sqlite_store [CReset DEGRADED ''t8'' None] sample_db))"
proof -
  have used: "consumed_by sample_db ''w2'' ''id-k1''" unfolding sample_db_def by code_simp
  have "calls_ok sample_names [CReset DEGRADED ''t8'' None] (db_session_ids sample_db)"
    by (simp add: calls_ok_def)
  from window_single_use [OF sample_db_inv used this, of _ _ "sample_grant ''k2'' 2 ''t9''"]
  show ?thesis by (simp add: sample_grant_def prod_eq_iff)
qed

lemma reset_then_claimable:
  assumes "sq_inv names db" and "seed_session_id seed \<notin> db_session_ids db"
    and "grant_named names g" and "cg_revoked_at g = None"
    and "cg_reset_epoch g = port_epoch sqlite_store db + 1"
    and "\<And>e. seed_expires_at seed = Some e \<Longrightarrow> later < e"
  shows "\<exists>st db' db''. sq_reset_authority n now (Some seed) db = (Inr st, db')
    \<and> sq_claim_controller (seed_session_id seed) (seed_secret_hash seed) g later db' = (Inr g, db'')
    \<and> authorized sqlite_store db'' (cg_controller_id g) = Some g"
proof -
  obtain m where db: "db_ok names db" "store_sim db m" and inv: "mem_inv names m"
    using assms(1) by (auto simp: sq_inv_def)
  obtain st db' where reset: "sq_reset_authority n now (Some seed) db = (Inr st, db')" "sq_inv names db'"
      "bs_reset_epoch st = port_epoch sqlite_store db + 1"
    using sq.reset_law [OF assms(1), of n now "Some seed"] assms(2) by auto
  have "agree names (sq_reset_authority n now (Some seed) db) (mem_reset_authority n now (Some seed) m)"
    using assms(2) by (intro reset_agree [OF db]) auto
  then obtain m' where m': "mem_reset_authority n now (Some seed) m = (Inr st, m')" "store_sim db' m'"
      "db_ok names db'"
    using reset(1) by (cases "mem_reset_authority n now (Some seed) m") (auto simp: agree_def)
  obtain m'' where "mem_claim_controller (seed_session_id seed) (seed_secret_hash seed) g later m' = (Inr g, m'')"
    using mem_reset_then_claim [OF inv _ m'(1), of g later] assms(2,5,6) reset(3) sim_ids [OF db(2)] by auto
  moreover obtain r db'' where claim: "sq_claim_controller (seed_session_id seed) (seed_secret_hash seed) g later db' = (r, db'')"
    by (cases "sq_claim_controller (seed_session_id seed) (seed_secret_hash seed) g later db'")
  ultimately have "r = Inr g" using claim_agree [OF m'(3,2) assms(3,4)] by (simp add: agree_def) (metis fst_conv)
  with sq.claim_law [OF reset(2) assms(3,4), of "seed_session_id seed" "seed_secret_hash seed" later]
    claim reset(1) show ?thesis by auto
qed

text \<open>
  C8. No dead end: after a reset that seeds a recovery window, any key whatever, also one that
  held a Grant before, can claim the Host through that window with its code until it expires.
\<close>

theorem recovery_window_claimable:
  assumes "sq_inv names db" and "seed_session_id seed \<notin> db_session_ids db"
    and "grant_named names g" and "cg_revoked_at g = None"
    and "cg_reset_epoch g = port_epoch sqlite_store db + 1"
    and "\<And>e. seed_expires_at seed = Some e \<Longrightarrow> later < e"
  shows "\<exists>st db' db''. sq_reset_authority n now (Some seed) db = (Inr st, db')
    \<and> sq_claim_controller (seed_session_id seed) (seed_secret_hash seed) g later db' = (Inr g, db'')
    \<and> authorized sqlite_store db'' (cg_controller_id g) = Some g"
  by (rule reset_then_claimable [OF assms])

lemma recovery_window_claimable_witness:
  "\<exists>st db' db''. sq_reset_authority CONNECTED ''t7'' (Some \<lparr>seed_session_id = ''w3'',
       seed_secret_hash = ''hash3'', seed_expires_at = Some ''t9''\<rparr>) sample_db = (Inr st, db')
    \<and> sq_claim_controller ''w3'' ''hash3'' (sample_grant ''k1'' 2 ''t8'') ''t8'' db'
      = (Inr (sample_grant ''k1'' 2 ''t8''), db'')"
proof -
  have "''w3'' \<notin> db_session_ids sample_db" "port_epoch sqlite_store sample_db = 1"
    unfolding sample_db_def by code_simp+
  then show ?thesis
    using recovery_window_claimable [OF sample_db_inv, of "\<lparr>seed_session_id = ''w3'',
       seed_secret_hash = ''hash3'', seed_expires_at = Some ''t9''\<rparr>" "sample_grant ''k1'' 2 ''t8''"
       "''t8''" CONNECTED "''t7''"]
    by (auto simp: grant_named_def sample_names_def sample_grant_def less_char_def)
qed

end
