(* ===== verification/Encoding.thy ===== *)
theory Encoding
  imports Prelude
begin

text \<open>
  The encodings the wire handlers check: base64url as \<open>base64.urlsafe_b64decode\<close> and
  \<open>urlsafe_b64encode\<close> work on it, and UUID texts as \<open>uuid.UUID\<close> reads and prints them. A text
  is a list of code points below 256; a byte is a natural number below 256.
\<close>

section \<open>base64url\<close>

type_synonym bytes = "nat list"

text \<open>\<open>str.encode("utf-8")\<close> for code points below 256.\<close>

definition utf8_char :: "char \<Rightarrow> bytes" where
  "utf8_char c = (let v = of_char c in if v < 128 then [v] else [192 + v div 64, 128 + v mod 64])"

definition utf8 :: "string \<Rightarrow> bytes" where
  "utf8 s = concat (map utf8_char s)"

definition b64_alphabet :: string where
  "b64_alphabet = ''ABCDEFGHIJKLMNOPQRSTUVWXYZabcdefghijklmnopqrstuvwxyz0123456789-_''"

definition b64_char :: "nat \<Rightarrow> char" where
  "b64_char v = b64_alphabet ! v"

fun index_of :: "'a \<Rightarrow> 'a list \<Rightarrow> nat option" where
  "index_of x [] = None"
| "index_of x (y # ys) = (if x = y then Some 0 else map_option Suc (index_of x ys))"

text \<open>
  \<open>urlsafe_b64decode\<close> maps \<open>-\<close> and \<open>_\<close> to \<open>+\<close> and \<open>/\<close> and decodes the standard alphabet, so
  it reads either spelling of the last two digits.
\<close>

definition b64_value :: "char \<Rightarrow> nat option" where
  "b64_value c = (if c = CHR ''+'' then Some 62 else if c = CHR ''/'' then Some 63
     else index_of c b64_alphabet)"

text \<open>
  \<open>binascii.a2b_base64\<close> in its lenient mode, the loop of the C function: \<open>quad\<close> counts the digits
  of the current group, \<open>left\<close> holds the bits not yet written, \<open>pads\<close> the padding characters
  since the last digit. Other characters are skipped; padding that completes a group ends the
  text; a text that ends inside a group is an error.
\<close>

fun a2b :: "nat \<Rightarrow> nat \<Rightarrow> nat \<Rightarrow> string \<Rightarrow> bytes option" where
  "a2b quad left pads [] = (if quad = 0 then Some [] else None)"
| "a2b quad left pads (c # cs) =
     (if c = CHR ''='' then
        (if 2 \<le> quad \<and> 4 \<le> quad + Suc pads then Some []
         else a2b quad left (if 2 \<le> quad then Suc pads else pads) cs)
      else (case b64_value c of
        None \<Rightarrow> a2b quad left pads cs
      | Some v \<Rightarrow>
          (if quad = 0 then a2b 1 v 0 cs
           else if quad = 1 then map_option (Cons (left * 4 + v div 16)) (a2b 2 (v mod 16) 0 cs)
           else if quad = 2 then map_option (Cons (left * 16 + v div 4)) (a2b 3 (v mod 4) 0 cs)
           else map_option (Cons (left * 64 + v)) (a2b 0 0 0 cs))))"

definition is_ascii :: "char \<Rightarrow> bool" where
  "is_ascii c \<longleftrightarrow> of_char c < (128 :: nat)"

definition urlsafe_b64decode :: "string \<Rightarrow> bytes option" where
  "urlsafe_b64decode s = (if list_all is_ascii s then a2b 0 0 0 s else None)"

text \<open>\<open>urlsafe_b64encode(...).rstrip(b"=")\<close>: the digits without the padding.\<close>

fun b64encode :: "bytes \<Rightarrow> string" where
  "b64encode [] = []"
| "b64encode [a] = [b64_char (a div 4), b64_char (a mod 4 * 16)]"
| "b64encode [a, b] = [b64_char (a div 4), b64_char (a mod 4 * 16 + b div 16), b64_char (b mod 16 * 4)]"
| "b64encode (a # b # c # rest) =
     b64_char (a div 4) # b64_char (a mod 4 * 16 + b div 16) # b64_char (b mod 16 * 4 + c div 64)
     # b64_char (c mod 64) # b64encode rest"

text \<open>\<open>"=" * (-len(value) % 4)\<close>\<close>

definition b64_padding :: "string \<Rightarrow> string" where
  "b64_padding s = replicate ((4 - length s mod 4) mod 4) (CHR ''='')"

datatype b64_error = B64Missing | B64Malformed | B64NotCanonical

definition decode_base64url :: "json \<Rightarrow> b64_error + bytes" where
  "decode_base64url value =
     (case value of
        JStr s \<Rightarrow>
          (if s = [] then Inl B64Missing
           else (case urlsafe_b64decode (s @ b64_padding s) of
                   None \<Rightarrow> Inl B64Malformed
                 | Some decoded \<Rightarrow>
                     (if b64encode decoded \<noteq> s then Inl B64NotCanonical else Inr decoded)))
      | _ \<Rightarrow> Inl B64Missing)"

section \<open>Decoding undoes encoding\<close>

definition is_bytes :: "bytes \<Rightarrow> bool" where
  "is_bytes bs \<longleftrightarrow> list_all (\<lambda>b. b < 256) bs"

lemma b64_alphabet_check:
  "\<forall>v \<in> set [0..<64]. b64_value (b64_char v) = Some v \<and> b64_char v \<noteq> CHR ''='' \<and> is_ascii (b64_char v)"
  by code_simp

lemma b64_char_value:
  assumes "v < 64"
  shows "b64_value (b64_char v) = Some v" and "b64_char v \<noteq> CHR ''=''" and "is_ascii (b64_char v)"
  using b64_alphabet_check assms by auto

lemma a2b_digit:
  assumes "v < 64"
  shows "a2b 0 left pads (b64_char v # cs) = a2b 1 v 0 cs"
    and "a2b (Suc 0) left pads (b64_char v # cs) = map_option (Cons (left * 4 + v div 16)) (a2b 2 (v mod 16) 0 cs)"
    and "a2b 2 left pads (b64_char v # cs) = map_option (Cons (left * 16 + v div 4)) (a2b 3 (v mod 4) 0 cs)"
    and "a2b 3 left pads (b64_char v # cs) = map_option (Cons (left * 64 + v)) (a2b 0 0 0 cs)"
  using b64_char_value [OF assms] by simp_all

lemma a2b_pad: "a2b 2 left 0 (CHR ''='' # CHR ''='' # cs) = Some []" "a2b 3 left 0 (CHR ''='' # cs) = Some []"
  by simp_all

lemma b64_padding_group: "b64_padding (a # b # c # d # s) = b64_padding s"
proof -
  have "Suc (Suc (Suc (Suc n))) mod 4 = n mod 4" for n :: nat by presburger
  then show ?thesis by (simp add: b64_padding_def)
qed

lemma b64_padding_short:
  "b64_padding [] = []" "b64_padding [a, b] = ''==''" "b64_padding [a, b, c] = ''=''"
  by (simp_all add: b64_padding_def numeral_2_eq_2)

lemma b64_split:
  fixes a b c :: nat
  assumes "a < 256" and "b < 256" and "c < 256"
  shows "a div 4 < 64" and "b div 16 < 16" and "c div 64 < 4"
  using assms by simp_all

lemma b64_digits:
  fixes a b c :: nat
  assumes "a < 256" and "b < 256" and "c < 256"
  shows "a div 4 < 64" and "a mod 4 * 16 < 64" and "a mod 4 * 16 + b div 16 < 64"
    and "b mod 16 * 4 < 64" and "b mod 16 * 4 + c div 64 < 64" and "c mod 64 < 64"
proof -
  note bounds = b64_split [OF assms]
  have mods: "a mod 4 < 4" "b mod 16 < 16" "c mod 64 < 64" by simp_all
  show "a div 4 < 64" "c mod 64 < 64" using bounds mods by simp_all
  show "a mod 4 * 16 < 64" "a mod 4 * 16 + b div 16 < 64" "b mod 16 * 4 < 64"
    "b mod 16 * 4 + c div 64 < 64"
    using bounds mods by linarith+
qed

lemma b64_rejoin:
  fixes a b c :: nat
  assumes "b < 256" and "c < 256"
  shows "(a mod 4 * 16 + b div 16) div 16 = a mod 4" and "(a mod 4 * 16 + b div 16) mod 16 = b div 16"
    and "(b mod 16 * 4 + c div 64) div 4 = b mod 16" and "(b mod 16 * 4 + c div 64) mod 4 = c div 64"
    and "a mod 4 * 16 div 16 = a mod 4" and "b mod 16 * 4 div 4 = b mod 16"
    and "b div 16 mod 16 = b div 16" and "c div 64 mod 4 = c div 64"
proof -
  have "b div 16 < 16" "c div 64 < 4" using assms by simp_all
  then show "(a mod 4 * 16 + b div 16) div 16 = a mod 4" "(a mod 4 * 16 + b div 16) mod 16 = b div 16"
    "(b mod 16 * 4 + c div 64) div 4 = b mod 16" "(b mod 16 * 4 + c div 64) mod 4 = c div 64"
    by (simp_all only: div_mult_self3 mod_mult_self3 div_less mod_less add_0_right)
  show "a mod 4 * 16 div 16 = a mod 4" "b mod 16 * 4 div 4 = b mod 16"
    "b div 16 mod 16 = b div 16" "c div 64 mod 4 = c div 64"
    using assms by simp_all
qed

lemma a2b_encode:
  "is_bytes bs \<Longrightarrow> a2b 0 0 0 (b64encode bs @ b64_padding (b64encode bs)) = Some bs"
proof (induction bs rule: b64encode.induct)
  case (2 a)
  then have "a < 256" by (simp add: is_bytes_def)
  note digits = b64_digits [OF this this this]
  show ?case
    by (simp add: a2b_digit digits b64_padding_short a2b_pad b64_rejoin del: a2b.simps(2))
next
  case (3 a b)
  then have "a < 256" "b < 256" by (simp_all add: is_bytes_def)
  note digits = b64_digits [OF this this(2)] b64_rejoin [OF this(2) this(2)]
  show ?case
    by (simp add: a2b_digit digits b64_padding_short a2b_pad del: a2b.simps(2))
next
  case (4 a b c rest)
  then have bounds: "a < 256" "b < 256" "c < 256" and rest: "is_bytes rest" by (simp_all add: is_bytes_def)
  note digits = b64_digits [OF bounds] b64_rejoin [OF bounds(2,3)]
  show ?case
    using 4(1) [OF rest] by (simp add: a2b_digit digits b64_padding_group del: a2b.simps(2))
qed (simp add: b64_padding_short)

lemma b64encode_all:
  assumes "\<And>v. v < 64 \<Longrightarrow> Q (b64_char v)"
  shows "is_bytes bs \<Longrightarrow> list_all Q (b64encode bs)"
proof (induction bs rule: b64encode.induct)
  case (2 a)
  then have "a < 256" by (simp add: is_bytes_def)
  from b64_digits [OF this this this] show ?case by (simp add: assms)
next
  case (3 a b)
  then have "a < 256" "b < 256" by (simp_all add: is_bytes_def)
  from b64_digits [OF this this(2)] show ?case by (simp add: assms)
next
  case (4 a b c rest)
  then have "a < 256" "b < 256" "c < 256" by (simp_all add: is_bytes_def)
  from b64_digits [OF this] 4 show ?case by (simp add: assms is_bytes_def)
qed simp

lemma b64encode_ascii: "is_bytes bs \<Longrightarrow> list_all is_ascii (b64encode bs)"
  by (rule b64encode_all) (rule b64_char_value)

lemma length_b64encode: "length (b64encode bs) = (4 * length bs + 2) div 3"
  by (induction bs rule: b64encode.induct) auto

lemma b64_padding_ascii: "list_all is_ascii (b64_padding s)"
  by (simp add: b64_padding_def list_all_iff is_ascii_def)

lemma b64encode_Nil [simp]: "b64encode bs = [] \<longleftrightarrow> bs = []"
  by (cases bs rule: b64encode.cases) simp_all

lemma index_of_bound: "index_of x xs = Some i \<Longrightarrow> i < length xs"
  by (induction xs arbitrary: i) (auto split: if_splits)

lemma b64_value_bound: "b64_value c = Some v \<Longrightarrow> v < 64"
  using index_of_bound [of c b64_alphabet v]
  by (auto simp: b64_value_def b64_alphabet_def split: if_splits)

text \<open>The bits carried between digits stay below the size their position allows.\<close>

lemma a2b_bytes:
  assumes "a2b quad left pads cs = Some bs"
    and "(quad = 1 \<longrightarrow> left < 64) \<and> (quad = 2 \<longrightarrow> left < 16) \<and> (2 < quad \<longrightarrow> left < 4)"
  shows "is_bytes bs"
  using assms
proof (induction quad left pads cs arbitrary: bs rule: a2b.induct)
  case (2 quad left pads c cs)
  show ?case
  proof (cases "c = CHR ''='' \<or> b64_value c = None")
    case True
    with 2 show ?thesis by (auto split: if_splits simp: is_bytes_def)
  next
    case False
    then obtain v where v: "b64_value c = Some v" "v < 64" "c \<noteq> CHR ''=''"
      using b64_value_bound by auto
    consider "quad = 0" | "quad = 1" | "quad = 2" | "2 < quad" by linarith
    then show ?thesis
    proof cases
      case 1
      with 2 v show ?thesis by auto
    next
      case 2
      then obtain r where "a2b 2 (v mod 16) 0 cs = Some r" "bs = (left * 4 + v div 16) # r"
        using "2.prems"(1) v by auto
      with 2 "2.IH"(4) [OF v(3) v(1)] "2.prems"(2) v(2) show ?thesis by (auto simp: is_bytes_def)
    next
      case 3
      then obtain r where "a2b 3 (v mod 4) 0 cs = Some r" "bs = (left * 16 + v div 4) # r"
        using "2.prems"(1) v by auto
      with 3 "2.IH"(5) [OF v(3) v(1)] "2.prems"(2) v(2) show ?thesis by (auto simp: is_bytes_def)
    next
      case 4
      then obtain r where "a2b 0 0 0 cs = Some r" "bs = (left * 64 + v) # r"
        using "2.prems"(1) v by auto
      with 4 "2.IH"(6) [OF v(3) v(1)] "2.prems"(2) v(2) show ?thesis by (auto simp: is_bytes_def)
    qed
  qed
qed (auto simp: is_bytes_def split: if_splits)

lemma decode_base64url_iff:
  "decode_base64url value = Inr bs \<longleftrightarrow> bs \<noteq> [] \<and> is_bytes bs \<and> value = JStr (b64encode bs)"
proof
  assume "decode_base64url value = Inr bs"
  then obtain s where s: "value = JStr s" "s \<noteq> []" "urlsafe_b64decode (s @ b64_padding s) = Some bs"
      "b64encode bs = s"
    by (auto simp: decode_base64url_def split: json.splits if_splits option.splits)
  then have "is_bytes bs" by (auto simp: urlsafe_b64decode_def split: if_splits dest: a2b_bytes)
  with s show "bs \<noteq> [] \<and> is_bytes bs \<and> value = JStr (b64encode bs)" by auto
next
  assume "bs \<noteq> [] \<and> is_bytes bs \<and> value = JStr (b64encode bs)"
  then show "decode_base64url value = Inr bs"
    by (simp add: decode_base64url_def urlsafe_b64decode_def a2b_encode b64encode_ascii b64_padding_ascii)
qed

section \<open>UUID texts\<close>

fun remove_all :: "string \<Rightarrow> string \<Rightarrow> string" where
  "remove_all p [] = []"
| "remove_all p (c # cs) =
     (if p \<noteq> [] \<and> take (length p) (c # cs) = p then remove_all p (drop (length p - 1) cs)
      else c # remove_all p cs)"

definition strip_chars :: "(char \<Rightarrow> bool) \<Rightarrow> string \<Rightarrow> string" where
  "strip_chars P s = rev (dropWhile P (rev (dropWhile P s)))"

text \<open>\<open>str.isspace\<close> below code point 256, and \<open>str.strip()\<close>.\<close>

definition is_space :: "char \<Rightarrow> bool" where
  "is_space c \<longleftrightarrow> of_char c \<in> set ([9, 10, 11, 12, 13, 28, 29, 30, 31, 32, 133, 160] :: nat list)"

definition py_strip :: "string \<Rightarrow> string" where
  "py_strip = strip_chars is_space"

definition hex_alphabet :: string where
  "hex_alphabet = ''0123456789abcdef''"

definition hex_char :: "nat \<Rightarrow> char" where
  "hex_char v = hex_alphabet ! v"

definition hex_value :: "char \<Rightarrow> nat option" where
  "hex_value c = (case index_of c hex_alphabet of
     Some v \<Rightarrow> Some v
   | None \<Rightarrow> map_option (\<lambda>v. 10 + v) (index_of c ''ABCDEF''))"

text \<open>
  \<open>int(text, 16)\<close>: surrounding space, a sign, a \<open>0x\<close> prefix, and single underscores between
  digits are allowed; anything else is \<open>ValueError\<close>.
\<close>

fun hex_digits :: "nat \<Rightarrow> string \<Rightarrow> nat option" where
  "hex_digits acc [] = Some acc"
| "hex_digits acc (c # cs) =
     (if c = CHR ''_'' then
        (case cs of [] \<Rightarrow> None
         | d # ds \<Rightarrow> (case hex_value d of None \<Rightarrow> None | Some v \<Rightarrow> hex_digits (acc * 16 + v) ds))
      else (case hex_value c of None \<Rightarrow> None | Some v \<Rightarrow> hex_digits (acc * 16 + v) cs))"

definition hex_number :: "string \<Rightarrow> nat option" where
  "hex_number s = (case s of [] \<Rightarrow> None
     | c # cs \<Rightarrow> (case hex_value c of None \<Rightarrow> None | Some v \<Rightarrow> hex_digits v cs))"

definition after_prefix :: "string \<Rightarrow> string" where
  "after_prefix s =
     (if length s \<ge> 2 \<and> s ! 0 = CHR ''0'' \<and> s ! 1 \<in> {CHR ''x'', CHR ''X''}
      then (if length s \<ge> 3 \<and> s ! 2 = CHR ''_'' then drop 3 s else drop 2 s) else s)"

definition int16 :: "string \<Rightarrow> int option" where
  "int16 text =
     (let s = py_strip text
      in if s \<noteq> [] \<and> hd s = CHR ''-'' then map_option (\<lambda>n. - int n) (hex_number (after_prefix (tl s)))
         else if s \<noteq> [] \<and> hd s = CHR ''+'' then map_option int (hex_number (after_prefix (tl s)))
         else map_option int (hex_number (after_prefix s)))"

definition uuid_parse :: "string \<Rightarrow> nat option" where
  "uuid_parse value =
     (let h = remove_all ''-'' (strip_chars (\<lambda>c. c \<in> {CHR ''{'', CHR ''}''})
                (remove_all ''uuid:'' (remove_all ''urn:'' value)))
      in if length h \<noteq> 32 then None
         else (case int16 h of
                 None \<Rightarrow> None
               | Some i \<Rightarrow> (if 0 \<le> i \<and> i < 2 ^ 128 then Some (nat i) else None)))"

fun hex_of :: "nat \<Rightarrow> nat \<Rightarrow> nat list" where
  "hex_of 0 n = []"
| "hex_of (Suc k) n = hex_of k (n div 16) @ [n mod 16]"

definition uuid_str :: "nat \<Rightarrow> string" where
  "uuid_str n =
     (let h = map hex_char (hex_of 32 n)
      in take 8 h @ ''-'' @ take 4 (drop 8 h) @ ''-'' @ take 4 (drop 12 h) @ ''-''
         @ take 4 (drop 16 h) @ ''-'' @ drop 20 h)"

datatype uuid_error = UuidMissing | UuidMalformed | UuidNotCanonical

definition canonical_uuid :: "json \<Rightarrow> uuid_error + string" where
  "canonical_uuid value =
     (case value of
        JStr s \<Rightarrow>
          (case uuid_parse s of
             None \<Rightarrow> Inl UuidMalformed
           | Some n \<Rightarrow> (if uuid_str n \<noteq> s then Inl UuidNotCanonical else Inr s))
      | _ \<Rightarrow> Inl UuidMissing)"

section \<open>Reading back a printed UUID\<close>

lemma hex_of_length [simp]: "length (hex_of k n) = k"
  by (induction k arbitrary: n) simp_all

lemma hex_of_bound: "d \<in> set (hex_of k n) \<Longrightarrow> d < 16"
  by (induction k arbitrary: n) auto

lemma hex_alphabet_check:
  "\<forall>v \<in> set [0..<16]. hex_value (hex_char v) = Some v \<and> \<not> is_space (hex_char v)
     \<and> hex_char v \<notin> set ''-_:{}+xX''"
  by code_simp

lemma hex_char_facts:
  assumes "v < 16"
  shows "hex_value (hex_char v) = Some v" and "\<not> is_space (hex_char v)"
    and "hex_char v \<notin> set ''-_:{}+xX''"
proof -
  have "v \<in> set [0..<16]" using assms by simp
  with hex_alphabet_check show "hex_value (hex_char v) = Some v" "\<not> is_space (hex_char v)"
    "hex_char v \<notin> set ''-_:{}+xX''" by blast+
qed

lemma hex_digits_append:
  "\<forall>d \<in> set ds. d < 16 \<Longrightarrow>
     hex_digits acc (map hex_char ds @ rest) = hex_digits (foldl (\<lambda>a d. a * 16 + d) acc ds) rest"
proof (induction ds arbitrary: acc)
  case (Cons d ds)
  then have "d < 16" by simp
  note facts = hex_char_facts [OF this]
  have "hex_char d \<noteq> CHR ''_''" using facts(3) by auto
  with facts(1) Cons show ?case by simp
qed simp

lemma foldl_hex_of: "foldl (\<lambda>a d. a * 16 + d) acc (hex_of k n) = acc * 16 ^ k + n mod 16 ^ k"
proof (induction k arbitrary: n)
  case (Suc k)
  have "n mod (16 * 16 ^ k) = 16 * (n div 16 mod 16 ^ k) + n mod 16" by (rule mod_mult2_eq)
  with Suc show ?case by (simp add: algebra_simps)
qed simp

lemma remove_all_absent: "x \<in> set p \<Longrightarrow> x \<notin> set s \<Longrightarrow> remove_all p s = s"
proof (induction s)
  case (Cons c cs)
  have "take (length p) (c # cs) \<noteq> p"
  proof
    assume "take (length p) (c # cs) = p"
    with Cons.prems(1) have "x \<in> set (take (length p) (c # cs))" by simp
    with Cons.prems(2) show False by (blast dest: in_set_takeD)
  qed
  with Cons show ?case by (simp del: take_Suc_Cons)
qed simp

lemma strip_chars_clean: "\<forall>c \<in> set s. \<not> P c \<Longrightarrow> strip_chars P s = s"
proof -
  assume clean: "\<forall>c \<in> set s. \<not> P c"
  have drop: "dropWhile P xs = xs" if "\<forall>c \<in> set xs. \<not> P c" for xs
    using that by (cases xs) simp_all
  show ?thesis using drop [of s] drop [of "rev s"] clean by (simp add: strip_chars_def)
qed

lemma remove_dash: "remove_all ''-'' s = filter (\<lambda>c. c \<noteq> CHR ''-'') s"
  by (induction s) auto

definition uuid_group :: "string \<Rightarrow> string" where
  "uuid_group h = take 8 h @ ''-'' @ take 4 (drop 8 h) @ ''-'' @ take 4 (drop 12 h) @ ''-''
     @ take 4 (drop 16 h) @ ''-'' @ drop 20 h"

lemma uuid_group_set: "set (uuid_group h) \<subseteq> insert (CHR ''-'') (set h)"
  unfolding uuid_group_def by (auto dest!: in_set_takeD in_set_dropD)

lemma uuid_group_parts:
  "take 8 h @ take 4 (drop 8 h) @ take 4 (drop 12 h) @ take 4 (drop 16 h) @ drop 20 h = h"
proof -
  have "take 4 (drop k h) @ drop (k + 4) h = drop k h" for k
    using append_take_drop_id [of 4 "drop k h"] by (simp add: add.commute)
  from this [of 16] this [of 12] this [of 8] append_take_drop_id [of 8 h] show ?thesis by simp
qed

lemma uuid_group_filter:
  assumes "\<forall>c \<in> set h. c \<noteq> CHR ''-''"
  shows "filter (\<lambda>c. c \<noteq> CHR ''-'') (uuid_group h) = h"
proof -
  have "filter (\<lambda>c. c \<noteq> CHR ''-'') s = s" if "set s \<subseteq> set h" for s
    using that assms by (intro filter_True) blast
  moreover have "set (take j (drop k h)) \<subseteq> set h" for j k
    by (blast dest: in_set_takeD in_set_dropD)
  ultimately have piece: "filter (\<lambda>c. c \<noteq> CHR ''-'') (take j (drop k h)) = take j (drop k h)"
      "filter (\<lambda>c. c \<noteq> CHR ''-'') (take j h) = take j h"
      "filter (\<lambda>c. c \<noteq> CHR ''-'') (drop k h) = drop k h" for j k
    by (simp_all add: set_take_subset set_drop_subset)
  show ?thesis
    unfolding uuid_group_def filter_append piece by (simp add: uuid_group_parts)
qed

lemma uuid_str_group: "uuid_str n = uuid_group (map hex_char (hex_of 32 n))"
  by (simp only: uuid_str_def uuid_group_def Let_def)

lemma hex_text_chars: "c \<in> set (map hex_char (hex_of k n)) \<Longrightarrow> \<exists>d < 16. c = hex_char d"
  using hex_of_bound by fastforce

lemma uuid_str_chars:
  "c \<in> set (uuid_str n) \<Longrightarrow> c = CHR ''-'' \<or> (\<exists>d < 16. c = hex_char d)"
  using uuid_group_set hex_text_chars unfolding uuid_str_group by blast

lemma uuid_str_filter: "filter (\<lambda>c. c \<noteq> CHR ''-'') (uuid_str n) = map hex_char (hex_of 32 n)"
  unfolding uuid_str_group
proof (rule uuid_group_filter, rule ballI)
  fix c assume "c \<in> set (map hex_char (hex_of 32 n))"
  then obtain d where "d < 16" "c = hex_char d" using hex_text_chars by blast
  with hex_char_facts(3) [of d] show "c \<noteq> CHR ''-''" by auto
qed

lemma int16_hex:
  assumes "n < 16 ^ Suc k"
  shows "int16 (map hex_char (hex_of (Suc k) n)) = Some (int n)"
proof -
  let ?ds = "hex_of (Suc k) n"
  obtain d ds where ds: "?ds = d # ds" by (cases ?ds) (simp_all add: hex_of_length [of "Suc k" n])
  have bound: "\<forall>x \<in> set (d # ds). x < 16" using hex_of_bound [of _ "Suc k" n] unfolding ds by blast
  then have facts: "\<forall>c \<in> set (map hex_char (d # ds)). \<not> is_space c \<and> c \<notin> set ''-_:{}+xX''"
    using hex_char_facts(2,3) by auto
  have strip: "py_strip (map hex_char (d # ds)) = map hex_char (d # ds)"
    unfolding py_strip_def by (rule strip_chars_clean) (use facts in blast)
  have sign: "hex_char d \<noteq> CHR ''-''" "hex_char d \<noteq> CHR ''+''" using facts by auto
  have prefix: "after_prefix (map hex_char (d # ds)) = map hex_char (d # ds)"
  proof (cases ds)
    case (Cons e es)
    then have "hex_char e \<notin> {CHR ''x'', CHR ''X''}" using facts by auto
    with Cons show ?thesis by (simp add: after_prefix_def)
  qed (simp add: after_prefix_def)
  have "foldl (\<lambda>a d. a * 16 + d) 0 ?ds = n" using assms by (simp add: foldl_hex_of del: hex_of.simps)
  then have total: "foldl (\<lambda>a d. a * 16 + d) d ds = n" unfolding ds by simp
  have "hex_number (map hex_char (d # ds)) = Some n"
    using bound hex_char_facts(1) [of d] hex_digits_append [of ds d "[]"] total
    by (simp add: hex_number_def)
  with strip prefix sign show ?thesis
    unfolding ds int16_def by simp
qed

lemma uuid_parse_str:
  assumes "n < 2 ^ 128"
  shows "uuid_parse (uuid_str n) = Some n"
proof -
  have no: "x \<notin> set (uuid_str n)" if "x \<in> set '':{}''" for x
    using that uuid_str_chars hex_char_facts(3) by fastforce
  have strip: "strip_chars (\<lambda>c. c \<in> {CHR ''{'', CHR ''}''}) (uuid_str n) = uuid_str n"
    by (rule strip_chars_clean) (use no in auto)
  have "int16 (map hex_char (hex_of 32 n)) = Some (int n)"
    using int16_hex [of n 31] assms by (simp del: hex_of.simps)
  then show ?thesis
    using no assms strip
    by (simp add: uuid_parse_def remove_all_absent [where x = "CHR '':''"] remove_dash uuid_str_filter
        del: hex_of.simps)
qed

lemma canonical_uuid_iff:
  "canonical_uuid value = Inr s \<longleftrightarrow> (\<exists>n < 2 ^ 128. s = uuid_str n \<and> value = JStr s)"
proof
  assume "canonical_uuid value = Inr s"
  then obtain n where n: "value = JStr s" "uuid_parse s = Some n" "uuid_str n = s"
    by (auto simp: canonical_uuid_def split: json.splits option.splits if_splits)
  from n(2) have "n < 2 ^ 128"
    by (auto simp: uuid_parse_def Let_def split: if_splits option.splits)
  with n show "\<exists>n < 2 ^ 128. s = uuid_str n \<and> value = JStr s" by blast
next
  assume "\<exists>n < 2 ^ 128. s = uuid_str n \<and> value = JStr s"
  then show "canonical_uuid value = Inr s" by (auto simp: canonical_uuid_def uuid_parse_str)
qed

end
