(* ===== verification/Network.thy ===== *)
theory Network
  imports Domain Encoding
begin

text \<open>
  The network provisioning port, \<open>bootstrap/ports/network_provisioning.py\<close>, and its in-memory
  adapter, \<open>bootstrap/adapters/network/memory.py\<close>.
\<close>

section \<open>The port\<close>

record NetworkChangeRequest =
  nr_operation_id :: string
  nr_ssid :: string
  nr_passphrase :: "string option"
  nr_hidden :: bool

record WifiAccessPoint =
  ap_ssid :: string
  ap_signal :: int
  ap_secured :: bool

record NetworkProvisioningSnapshot =
  np_state :: NetworkState
  np_active_operation_id :: "string option"
  np_current_ssid :: "string option"
  np_staged_ssid :: "string option"

text \<open>\<open>NetErr\<close> is \<open>NetworkProvisioningError\<close>; \<open>NetOther\<close> any other exception an adapter lets out.\<close>

datatype net_error = NetErr string | NetOther string

record 'n net_port =
  observes_host_network :: bool
  net_recover_interrupted :: "('n, net_error, NetworkProvisioningSnapshot) op"
  net_scan :: "('n, net_error, WifiAccessPoint list) op"
  net_get_state :: "('n, net_error, NetworkProvisioningSnapshot) op"
  net_begin_change :: "NetworkChangeRequest \<Rightarrow> ('n, net_error, NetworkProvisioningSnapshot) op"
  net_confirm :: "string \<Rightarrow> ('n, net_error, NetworkProvisioningSnapshot) op"
  net_rollback :: "string \<Rightarrow> ('n, net_error, NetworkProvisioningSnapshot) op"
  net_forget_all_wifi_profiles :: "('n, net_error, NetworkProvisioningSnapshot) op"

section \<open>The in-memory adapter\<close>

record mem_net =
  mn_current_ssid :: "string option"
  mn_previous_ssid :: "string option"
  mn_staged_ssid :: "string option"
  mn_active_operation_id :: "string option"
  mn_state :: NetworkState
  mn_access_points :: "WifiAccessPoint list"

definition settled_state :: "string option \<Rightarrow> NetworkState" where
  "settled_state current = (if current \<noteq> None then CONNECTED else UNCONFIGURED)"

definition mem_net_new :: "string option \<Rightarrow> WifiAccessPoint list \<Rightarrow> mem_net" where
  "mem_net_new current_ssid access_points =
     \<lparr>mn_current_ssid = current_ssid, mn_previous_ssid = None, mn_staged_ssid = None,
      mn_active_operation_id = None, mn_state = settled_state current_ssid,
      mn_access_points = access_points\<rparr>"

definition mn_snapshot :: "mem_net \<Rightarrow> NetworkProvisioningSnapshot" where
  "mn_snapshot n = \<lparr>np_state = mn_state n, np_active_operation_id = mn_active_operation_id n,
     np_current_ssid = mn_current_ssid n, np_staged_ssid = mn_staged_ssid n\<rparr>"

definition mn_clear_operation :: "mem_net \<Rightarrow> mem_net" where
  "mn_clear_operation n =
     n\<lparr>mn_active_operation_id := None, mn_staged_ssid := None, mn_previous_ssid := None\<rparr>"

definition mn_require_operation :: "string \<Rightarrow> (mem_net, net_error, unit) op" where
  "mn_require_operation operation_id n =
     (if operation_id = [] \<or> Some operation_id \<noteq> mn_active_operation_id n
      then (Inl (NetErr ''network operation does not match''), n) else (Inr (), n))"

definition mn_restore :: "string option \<Rightarrow> mem_net \<Rightarrow> mem_net" where
  "mn_restore ssid n =
     (let n1 = mn_clear_operation (n\<lparr>mn_current_ssid := ssid\<rparr>) in n1\<lparr>mn_state := settled_state ssid\<rparr>)"

definition mn_recover_interrupted :: "(mem_net, net_error, NetworkProvisioningSnapshot) op" where
  "mn_recover_interrupted n =
     (let n1 = (if mn_active_operation_id n \<noteq> None then mn_restore (mn_previous_ssid n) n else n)
      in (Inr (mn_snapshot n1), n1))"

definition mn_scan :: "(mem_net, net_error, WifiAccessPoint list) op" where
  "mn_scan n = (Inr (mn_access_points n), n)"

definition mn_get_state :: "(mem_net, net_error, NetworkProvisioningSnapshot) op" where
  "mn_get_state n = (Inr (mn_snapshot n), n)"

definition mn_begin_change :: "NetworkChangeRequest \<Rightarrow> (mem_net, net_error, NetworkProvisioningSnapshot) op"
  where
  "mn_begin_change request n =
     (let operation_id = py_strip (nr_operation_id request); ssid = py_strip (nr_ssid request)
      in if operation_id = [] then (Inl (NetErr ''operation_id is required''), n)
         else if ssid = [] then (Inl (NetErr ''ssid is required''), n)
         else if mn_active_operation_id n \<noteq> None
         then (Inl (NetErr ''another network change is active''), n)
         else (let n1 = n\<lparr>mn_previous_ssid := mn_current_ssid n, mn_staged_ssid := Some ssid,
                          mn_active_operation_id := Some operation_id, mn_state := STAGING\<rparr>
               in (Inr (mn_snapshot n1), n1)))"

definition mn_confirm :: "string \<Rightarrow> (mem_net, net_error, NetworkProvisioningSnapshot) op" where
  "mn_confirm operation_id = bindS (mn_require_operation operation_id) (\<lambda>_ n.
     (let n1 = (mn_clear_operation (n\<lparr>mn_current_ssid := mn_staged_ssid n\<rparr>))\<lparr>mn_state := CONNECTED\<rparr>
      in (Inr (mn_snapshot n1), n1)))"

definition mn_rollback :: "string \<Rightarrow> (mem_net, net_error, NetworkProvisioningSnapshot) op" where
  "mn_rollback operation_id = bindS (mn_require_operation operation_id) (\<lambda>_ n.
     (let n1 = mn_restore (mn_previous_ssid n) n in (Inr (mn_snapshot n1), n1)))"

definition mn_forget_all_wifi_profiles :: "(mem_net, net_error, NetworkProvisioningSnapshot) op" where
  "mn_forget_all_wifi_profiles n =
     (let n1 = (mn_clear_operation (n\<lparr>mn_current_ssid := None\<rparr>))\<lparr>mn_state := UNCONFIGURED\<rparr>
      in (Inr (mn_snapshot n1), n1))"

definition memory_network :: "mem_net net_port" where
  "memory_network = \<lparr>
     observes_host_network = False,
     net_recover_interrupted = mn_recover_interrupted,
     net_scan = mn_scan,
     net_get_state = mn_get_state,
     net_begin_change = mn_begin_change,
     net_confirm = mn_confirm,
     net_rollback = mn_rollback,
     net_forget_all_wifi_profiles = mn_forget_all_wifi_profiles\<rparr>"

lemma memory_network_sel [simp]:
  "observes_host_network memory_network = False"
  "net_recover_interrupted memory_network = mn_recover_interrupted"
  "net_scan memory_network = mn_scan"
  "net_get_state memory_network = mn_get_state"
  "net_begin_change memory_network = mn_begin_change"
  "net_confirm memory_network = mn_confirm"
  "net_rollback memory_network = mn_rollback"
  "net_forget_all_wifi_profiles memory_network = mn_forget_all_wifi_profiles"
  by (simp_all add: memory_network_def)

section \<open>Staged changes\<close>

text \<open>
  An operation is staged exactly while its SSID is, and outside a staged operation the state
  says whether the Host is on a network.
\<close>

definition mem_net_ok :: "mem_net \<Rightarrow> bool" where
  "mem_net_ok n \<longleftrightarrow> (mn_active_operation_id n = None \<longleftrightarrow> mn_staged_ssid n = None)
     \<and> (if mn_active_operation_id n = None
        then mn_previous_ssid n = None \<and> mn_state n = settled_state (mn_current_ssid n)
        else mn_state n = STAGING \<and> mn_previous_ssid n = mn_current_ssid n)"

lemma mem_net_ok_new: "mem_net_ok (mem_net_new ssid aps)"
  by (simp add: mem_net_ok_def mem_net_new_def)

lemmas mn_defs = mn_restore_def mn_clear_operation_def mn_require_operation_def mn_snapshot_def
  bindS_def Let_def settled_state_def

lemma mem_net_ok_step:
  assumes "mem_net_ok n"
  shows "mem_net_ok (snd (mn_recover_interrupted n))" and "mem_net_ok (snd (mn_scan n))"
    and "mem_net_ok (snd (mn_get_state n))" and "mem_net_ok (snd (mn_begin_change req n))"
    and "mem_net_ok (snd (mn_confirm i n))" and "mem_net_ok (snd (mn_rollback i n))"
    and "mem_net_ok (snd (mn_forget_all_wifi_profiles n))"
  using assms
  by (auto simp: mem_net_ok_def mn_recover_interrupted_def mn_scan_def mn_get_state_def
      mn_begin_change_def mn_confirm_def mn_rollback_def mn_forget_all_wifi_profiles_def mn_defs)

lemma mn_rollback_undoes:
  assumes "mem_net_ok n" and "mn_begin_change req n = (Inr s, n1)"
  shows "mn_rollback (py_strip (nr_operation_id req)) n1 = (Inr (mn_snapshot n), n)"
  using assms
  by (auto simp: mem_net_ok_def mn_begin_change_def mn_rollback_def mn_defs split: if_splits)

end
