(* ===== verification/Runtime.thy ===== *)
theory Runtime
  imports Authority Network
begin

text \<open>
  What the application services run on: the exceptions they see, the world they act on (the
  store, the network adapter, and how often a clock or random source was read), and the code
  outside the repository as the fields of \<open>env\<close>.
\<close>

section \<open>Outside code\<close>

text \<open>
  \<open>load_der_public_key\<close>: a P-256 key, some other key, \<open>ValueError\<close>, or another exception
  (\<open>UnsupportedAlgorithm\<close> is not a \<open>ValueError\<close>).
\<close>

datatype loaded_key = KeyP256 | KeyOther | KeyInvalid | KeyRaises string

text \<open>
  The \<open>k\<close>-th reading of the wall clock (already formatted by \<open>_timestamp\<close>), of the monotonic
  clock (in microseconds), of \<open>secrets.token_bytes(32)\<close> and of \<open>uuid.uuid4\<close>; SHA-256 in
  hexadecimal; loading a DER key; ECDSA verification of a signature over a message.
\<close>

record env =
  e_clock :: "nat \<Rightarrow> timestamp"
  e_monotonic :: "nat \<Rightarrow> int"
  e_token_bytes :: "nat \<Rightarrow> bytes"
  e_uuid4 :: "nat \<Rightarrow> string"
  e_sha256_hex :: "bytes \<Rightarrow> string"
  e_load_key :: "bytes \<Rightarrow> loaded_key"
  e_ecdsa_verify :: "bytes \<Rightarrow> bytes \<Rightarrow> bytes \<Rightarrow> bool"

section \<open>The world\<close>

record ('s, 'n) world =
  w_store :: 's
  w_net :: 'n
  w_tick :: nat

text \<open>
  \<open>Rejected\<close> is \<open>CommissioningRequestRejected\<close> with its code; \<open>Refused\<close> any other exception the
  repository raises itself, by class name; \<open>OtherExn\<close> one the interpreter or a library raises.
\<close>

datatype exn =
    Rejected string string
  | Refused string string
  | StoreExn store_error
  | NetExn net_error
  | OtherExn string

lemma world_update_order [simp]:
  "w\<lparr>w_tick := t, w_store := s\<rparr> = w\<lparr>w_store := s, w_tick := t\<rparr>"
  "w\<lparr>w_tick := t, w_net := n\<rparr> = w\<lparr>w_net := n, w_tick := t\<rparr>"
  "w\<lparr>w_net := n, w_store := s\<rparr> = w\<lparr>w_store := s, w_net := n\<rparr>"
  by simp_all

definition on_store :: "('s, store_error, 'a) op \<Rightarrow> (('s, 'n) world, exn, 'a) op" where
  "on_store m w = (case m (w_store w) of (r, s) \<Rightarrow> (map_sum StoreExn id r, w\<lparr>w_store := s\<rparr>))"

definition on_net :: "('n, net_error, 'a) op \<Rightarrow> (('s, 'n) world, exn, 'a) op" where
  "on_net m w = (case m (w_net w) of (r, n) \<Rightarrow> (map_sum NetExn id r, w\<lparr>w_net := n\<rparr>))"

definition reading :: "(nat \<Rightarrow> 'a) \<Rightarrow> (('s, 'n) world, exn, 'a) op" where
  "reading f w = (Inr (f (w_tick w)), w\<lparr>w_tick := Suc (w_tick w)\<rparr>)"

abbreviation now_ts :: "env \<Rightarrow> (('s, 'n) world, exn, timestamp) op" where
  "now_ts E \<equiv> reading (e_clock E)"

definition of_result :: "exn + 'a \<Rightarrow> ('w, exn, 'a) op" where
  "of_result r w = (r, w)"

text \<open>\<open>except BootstrapStateConflict\<close>\<close>

definition catch_conflict :: "('w, exn, 'a) op \<Rightarrow> (string \<Rightarrow> ('w, exn, 'a) op) \<Rightarrow> ('w, exn, 'a) op" where
  "catch_conflict m h = catchS m (\<lambda>e. case e of StoreExn (Conflict msg) \<Rightarrow> h msg | _ \<Rightarrow> raise e)"

text \<open>\<open>except NetworkProvisioningError\<close>\<close>

definition catch_net :: "('w, exn, 'a) op \<Rightarrow> (string \<Rightarrow> ('w, exn, 'a) op) \<Rightarrow> ('w, exn, 'a) op" where
  "catch_net m h = catchS m (\<lambda>e. case e of NetExn (NetErr msg) \<Rightarrow> h msg | _ \<Rightarrow> raise e)"

section \<open>What an operation of the world may touch\<close>

definition net_same :: "('s, 'n) world \<Rightarrow> ('s, 'n) world \<Rightarrow> bool" where
  "net_same w w' \<longleftrightarrow> w_net w' = w_net w"

definition store_same :: "('s, 'n) world \<Rightarrow> ('s, 'n) world \<Rightarrow> bool" where
  "store_same w w' \<longleftrightarrow> w_store w' = w_store w"

lemma net_same_preorder: "reflp net_same" "transp net_same"
  by (simp_all add: net_same_def reflp_def transp_def)

lemma framed_catch:
  assumes "transp R" and "framed R m" and "\<And>e. framed R (h e)"
  shows "framed R (catchS m h)"
proof (rule framedI)
  fix s
  obtain r t where m: "m s = (r, t)" by (cases "m s")
  then have "R s t" by (rule framedD [OF assms(2)])
  moreover have "R t (snd (h e t))" for e using assms(3) by (simp add: framed_def)
  ultimately show "R s (snd (catchS m h s))"
    using m transpD [OF assms(1)] by (cases r) (auto simp: catchS_def)
qed

lemma framed_catch_conflict:
  "reflp R \<Longrightarrow> transp R \<Longrightarrow> framed R m \<Longrightarrow> (\<And>x. framed R (h x)) \<Longrightarrow> framed R (catch_conflict m h)"
  unfolding catch_conflict_def
  by (intro framed_catch) (auto split: exn.split store_error.split intro: framed_raise)

lemma framed_catch_net:
  "reflp R \<Longrightarrow> transp R \<Longrightarrow> framed R m \<Longrightarrow> (\<And>x. framed R (h x)) \<Longrightarrow> framed R (catch_net m h)"
  unfolding catch_net_def
  by (intro framed_catch) (auto split: exn.split net_error.split intro: framed_raise)

lemma net_same_store: "framed net_same (on_store m)"
  by (simp add: framed_def net_same_def on_store_def split: prod.split)

lemma net_same_reading: "framed net_same (reading f)"
  by (simp add: framed_def net_same_def reading_def)

lemma net_same_result: "framed net_same (of_result r)"
  by (simp add: framed_def net_same_def of_result_def)

lemmas net_same_rules = framed_rules framed_catch_conflict framed_catch_net net_same_preorder
  net_same_store net_same_reading net_same_result

lemma on_store_run: "m (w_store w) = (r, s) \<Longrightarrow> on_store m w = (map_sum StoreExn id r, w\<lparr>w_store := s\<rparr>)"
  by (simp add: on_store_def)

lemma on_store_InrE:
  assumes "on_store m w = (Inr v, w')"
  obtains s where "m (w_store w) = (Inr v, s)" and "w' = w\<lparr>w_store := s\<rparr>"
  using assms by (cases "m (w_store w)"; cases "fst (m (w_store w))") (auto simp: on_store_def)

lemma on_net_InrE:
  assumes "on_net m w = (Inr v, w')"
  obtains n where "m (w_net w) = (Inr v, n)" and "w' = w\<lparr>w_net := n\<rparr>"
  using assms by (cases "m (w_net w)"; cases "fst (m (w_net w))") (auto simp: on_net_def)

lemma reading_run [simp]: "reading f w = (Inr (f (w_tick w)), w\<lparr>w_tick := Suc (w_tick w)\<rparr>)"
  by (simp add: reading_def)

section \<open>Names of keys\<close>

definition controller_id_of :: "env \<Rightarrow> bytes \<Rightarrow> string" where
  "controller_id_of E der = ''ectrl-'' @ take 20 (e_sha256_hex E der)"

definition fingerprint_of :: "env \<Rightarrow> bytes \<Rightarrow> string" where
  "fingerprint_of E der = ''sha256:'' @ e_sha256_hex E der"

text \<open>The names every Grant the services build carries, as a function of its public key.\<close>

definition key_names_of :: "env \<Rightarrow> key_names" where
  "key_names_of E key = (case decode_base64url (JStr key) of
     Inr der \<Rightarrow> (controller_id_of E der, fingerprint_of E der) | Inl _ \<Rightarrow> ([], []))"

section \<open>Services act on the store through port calls only\<close>

text \<open>
  A good world: the store is in its invariant, and the UUIDs still to be drawn differ from each
  other and from every window the store knows. A \<open>host_step\<close> keeps a world good and changes the store by port calls alone.
\<close>

definition good_world :: "('s \<Rightarrow> bool) \<Rightarrow> ('s \<Rightarrow> string set) \<Rightarrow> env \<Rightarrow> ('s, 'n) world \<Rightarrow> bool" where
  "good_world I ids E w \<longleftrightarrow> I (w_store w)
     \<and> (\<forall>k \<ge> w_tick w. e_uuid4 E k \<notin> ids (w_store w) \<and> (\<forall>j > k. e_uuid4 E j \<noteq> e_uuid4 E k))"

definition host_step ::
  "'s store_port \<Rightarrow> ('s \<Rightarrow> bool) \<Rightarrow> ('s \<Rightarrow> string set) \<Rightarrow> env \<Rightarrow> ('s, 'n) world \<Rightarrow> ('s, 'n) world \<Rightarrow> bool"
  where
  "host_step P I ids E w w' \<longleftrightarrow> (good_world I ids E w \<longrightarrow> good_world I ids E w'
     \<and> reaches P (key_names_of E) ids (w_store w) (w_store w'))"

lemma host_step_preorder: "reflp (host_step P I ids E)" "transp (host_step P I ids E)"
  by (auto simp: host_step_def reflp_def transp_def intro: reaches_refl reaches_trans)

lemma answer_snd [simp]: "snd (answer f m s) = snd (m s)"
  by (auto simp: answer_def bindS_def ret_def split: prod.split sum.split)

lemma on_store_snd [simp]: "snd (on_store m w) = w\<lparr>w_store := snd (m (w_store w))\<rparr>"
  by (simp add: on_store_def case_prod_beta)

lemma framed_bind_result:
  "reflp R \<Longrightarrow> (\<And>v. r = Inr v \<Longrightarrow> framed R (f v)) \<Longrightarrow> framed R (bindS (of_result r) f)"
  by (cases r) (auto simp: framed_def bindS_def of_result_def reflp_def)

locale host_env = authority_store P inv "key_names_of E" ids
  for P :: "'s store_port" and inv :: "'s \<Rightarrow> bool" and E :: env and ids :: "'s \<Rightarrow> string set"
begin

lemma step_call:
  assumes "\<And>s. snd (m s) = snd (run_call P c s)" and "call_ok (key_names_of E) c" and "minted_ids c = []"
  shows "framed (host_step P inv ids E) (on_store m)"
proof (rule framedI, unfold host_step_def, intro impI)
  fix w :: "('s, 'n) world"
  let ?s = "w_store w" and ?t = "snd (run_call P c (w_store w))"
  assume good: "good_world inv ids E w"
  have run: "run_call P c ?s = (fst (run_call P c ?s), ?t)" by simp
  have fresh: "set (minted_ids c) \<inter> ids ?s = {}" using assms(3) by simp
  have inv: "inv ?s" using good by (simp add: good_world_def)
  have "inv ?t" by (rule call_keeps_inv [OF inv assms(2) fresh run])
  moreover have "ids ?t \<subseteq> ids ?s" using ids_law [OF inv assms(2) fresh run] assms(3) by simp
  moreover have "reaches P (key_names_of E) ids ?s ?t" using assms(2) fresh by (rule reaches_call)
  ultimately show "good_world inv ids E (snd (on_store m w))
      \<and> reaches P (key_names_of E) ids ?s (w_store (snd (on_store m w)))"
    using good assms(1) by (auto simp: good_world_def)
qed

lemma step_mint:
  fixes f :: "string \<Rightarrow> 'v \<Rightarrow> (('s, 'n) world, exn, 'x) op"
  assumes run: "\<And>sid s. snd (m sid s) = snd (run_call P (c sid) s)"
    and c: "\<And>sid. call_ok (key_names_of E) (c sid)" "\<And>sid. minted_ids (c sid) = [sid]"
    and f: "\<And>sid v. framed (host_step P inv ids E) (f sid v)"
  shows "framed (host_step P inv ids E) (bindS (reading (e_uuid4 E)) (\<lambda>sid. bindS (on_store (m sid)) (f sid)))"
proof (rule framedI)
  fix w :: "('s, 'n) world"
  let ?sid = "e_uuid4 E (w_tick w)" and ?s = "w_store w"
  let ?t = "snd (run_call P (c ?sid) ?s)"
  let ?w = "w\<lparr>w_tick := Suc (w_tick w), w_store := ?t\<rparr>"
  have minted: "host_step P inv ids E w ?w"
    unfolding host_step_def
  proof (intro impI)
    assume good: "good_world inv ids E w"
    then have inv: "inv ?s" and fresh: "set (minted_ids (c ?sid)) \<inter> ids ?s = {}"
      by (simp_all add: good_world_def c(2))
    have eq: "run_call P (c ?sid) ?s = (fst (run_call P (c ?sid) ?s), ?t)" by simp
    have "inv ?t" by (rule call_keeps_inv [OF inv c(1) fresh eq])
    moreover have "ids ?t \<subseteq> insert ?sid (ids ?s)" using ids_law [OF inv c(1) fresh eq] c(2) by simp
    moreover have "reaches P (key_names_of E) ids ?s ?t" using c(1) fresh by (rule reaches_call)
    ultimately show "good_world inv ids E ?w \<and> reaches P (key_names_of E) ids ?s (w_store ?w)"
      using good by (auto simp: good_world_def Suc_le_eq)
  qed
  have "host_step P inv ids E ?w (snd (f ?sid v ?w))" for v using f by (simp add: framed_def)
  with minted have "host_step P inv ids E w (snd (f ?sid v ?w))" for v
    by (rule transpD [OF host_step_preorder(2)])
  then show "host_step P inv ids E w (snd (bindS (reading (e_uuid4 E)) (\<lambda>sid. bindS (on_store (m sid)) (f sid)) w))"
    using minted run [of ?sid ?s]
    by (auto simp: bindS_def on_store_def split: prod.split sum.split)
qed

lemma step_read:
  assumes "\<And>s. snd (m s) = s"
  shows "framed (host_step P inv ids E) (on_store m)"
  using assms by (auto simp: framed_def host_step_def good_world_def reaches_refl)

lemma step_calls:
  "framed (host_step P inv ids E) (on_store (sp_get_state P))"
  "framed (host_step P inv ids E) (on_store (sp_authorize_commissioning_session P sid h now))"
  "framed (host_step P inv ids E) (on_store (sp_get_controller P cid))"
  "framed (host_step P inv ids E) (on_store (sp_revoke_controller P cid now))"
  "framed (host_step P inv ids E) (on_store (sp_create_operation P p))"
  "framed (host_step P inv ids E) (on_store (sp_get_operation P i))"
  "framed (host_step P inv ids E) (on_store (sp_update_operation P i st n now code))"
  "framed (host_step P inv ids E) (on_store (sp_fail_interrupted_operations P now))"
  "framed (host_step P inv ids E) (on_store (sp_reconcile_network_state P n now))"
  "framed (host_step P inv ids E) (on_store (sp_latest_commissioning_session P))"
  "framed (host_step P inv ids E) (on_store (sp_list_controllers P))"
  by (rule step_call [where c = "CGetState"], simp_all,
      rule step_call [where c = "CAuthorize sid h now"], simp_all,
      rule step_call [where c = "CGetController cid"], simp_all,
      rule step_call [where c = "CRevoke cid now"], simp_all,
      rule step_call [where c = "CCreateOperation p"], simp_all,
      rule step_call [where c = "CGetOperation i"], simp_all,
      rule step_call [where c = "CUpdateOperation i st n now code"], simp_all,
      rule step_call [where c = "CFailInterrupted now"], simp_all,
      rule step_call [where c = "CReconcile n now"], simp_all,
      (rule step_read, rule reads_law)+)

lemma step_claim:
  "grant_named (key_names_of E) g \<Longrightarrow> cg_revoked_at g = None \<Longrightarrow>
     framed (host_step P inv ids E) (on_store (sp_claim_controller P sid h g now))"
  by (rule step_call [where c = "CClaim sid h g now"]) simp_all

lemma step_leaves:
  "framed (host_step P inv ids E) (reading f)"
  "framed (host_step P inv ids E) (of_result r)"
  "framed (host_step P inv ids E) (on_net q)"
  by (simp_all add: framed_def host_step_def good_world_def reaches_refl of_result_def on_net_def
      case_prod_beta)

lemmas step_rules = framed_rules framed_catch framed_catch_conflict framed_catch_net
  host_step_preorder step_leaves step_calls

end

end
