(* ===== verification/Settings.thy ===== *)
theory Settings
  imports Runtime
begin

text \<open>
  The configuration of the bootstrap process, \<open>bootstrap/config.py\<close>: the declarations a Host may
  make in its environment and the checks that keep a production Host from weakening them. The
  parts of the standard library it uses (\<open>str.lower\<close>, \<open>int(text)\<close>, \<open>pathlib\<close>) come first; the
  password database is the parameter \<open>user_home\<close>.
\<close>

section \<open>Text and paths\<close>

text \<open>\<open>str.lower\<close> for code points below 256.\<close>

definition lower_char :: "char \<Rightarrow> char" where
  "lower_char c = (let v = of_char c :: nat in
     if 65 \<le> v \<and> v \<le> 90 \<or> 192 \<le> v \<and> v \<le> 222 \<and> v \<noteq> 215 then char_of (v + 32) else c)"

definition py_lower :: "string \<Rightarrow> string" where
  "py_lower = map lower_char"

definition dec_value :: "char \<Rightarrow> nat option" where
  "dec_value c = index_of c ''0123456789''"

text \<open>
  \<open>int(text)\<close>: surrounding space, a sign, and single underscores between digits are allowed, at
  most 4300 digits.
\<close>

fun dec_digits :: "nat \<Rightarrow> string \<Rightarrow> nat option" where
  "dec_digits acc [] = Some acc"
| "dec_digits acc (c # cs) =
     (if c = CHR ''_'' then
        (case cs of [] \<Rightarrow> None
         | d # ds \<Rightarrow> (case dec_value d of None \<Rightarrow> None | Some v \<Rightarrow> dec_digits (acc * 10 + v) ds))
      else (case dec_value c of None \<Rightarrow> None | Some v \<Rightarrow> dec_digits (acc * 10 + v) cs))"

definition dec_number :: "string \<Rightarrow> nat option" where
  "dec_number s = (if length (filter (\<lambda>c. c \<noteq> CHR ''_'') s) > 4300 then None else case s of [] \<Rightarrow> None
     | c # cs \<Rightarrow> (case dec_value c of None \<Rightarrow> None | Some v \<Rightarrow> dec_digits v cs))"

definition int10 :: "string \<Rightarrow> int option" where
  "int10 text =
     (let s = py_strip text
      in if s \<noteq> [] \<and> hd s = CHR ''-'' then map_option (\<lambda>n. - int n) (dec_number (tl s))
         else if s \<noteq> [] \<and> hd s = CHR ''+'' then map_option int (dec_number (tl s))
         else map_option int (dec_number s))"

text \<open>A POSIX path: its root (empty, \<open>/\<close> or \<open>//\<close>) and its parts.\<close>

record path =
  p_root :: string
  p_parts :: "string list"

fun split_on :: "char \<Rightarrow> string \<Rightarrow> string list" where
  "split_on sep [] = [[]]"
| "split_on sep (c # cs) =
     (if c = sep then [] # split_on sep cs
      else (case split_on sep cs of [] \<Rightarrow> [[c]] | p # ps \<Rightarrow> (c # p) # ps))"

definition path_of :: "string \<Rightarrow> path" where
  "path_of s =
     \<lparr>p_root = (if take 1 s \<noteq> ''/'' then []
        else if take 2 s = ''//'' \<and> take 3 s \<noteq> ''///'' then ''//'' else ''/''),
      p_parts = filter (\<lambda>p. p \<noteq> [] \<and> p \<noteq> ''.'') (split_on (CHR ''/'') s)\<rparr>"

fun join_parts :: "string list \<Rightarrow> string" where
  "join_parts [] = []"
| "join_parts [x] = x"
| "join_parts (x # y # zs) = x @ ''/'' @ join_parts (y # zs)"

definition path_str :: "path \<Rightarrow> string" where
  "path_str p = (if p_root p = [] \<and> p_parts p = [] then ''.'' else p_root p @ join_parts (p_parts p))"

definition path_append :: "path \<Rightarrow> string \<Rightarrow> path" where
  "path_append p name = p\<lparr>p_parts := p_parts p @ [name]\<rparr>"

definition is_absolute :: "path \<Rightarrow> bool" where
  "is_absolute p \<longleftrightarrow> p_root p \<noteq> []"

text \<open>
  \<open>Path.expanduser\<close>: a first part that begins with a tilde is the home of the named user (of this
  user for a bare tilde); an unknown home is a \<open>RuntimeError\<close>.
\<close>

definition expanduser :: "(string \<Rightarrow> string option) \<Rightarrow> path \<Rightarrow> path option" where
  "expanduser user_home p =
     (case p_parts p of
        first # rest \<Rightarrow>
          (if p_root p = [] \<and> take 1 first = ''~''
           then (case user_home (tl first) of
                   None \<Rightarrow> None
                 | Some home \<Rightarrow> Some (let h = path_of home in h\<lparr>p_parts := p_parts h @ rest\<rparr>))
           else Some p)
      | [] \<Rightarrow> Some p)"

section \<open>What a Host declares\<close>

datatype BootstrapMode = DEVELOPMENT | PRODUCTION

datatype ClaimWindowPolicy = ON_DEMAND | ALWAYS_OPEN

datatype CommissioningAdapter = DISABLED | BLUEZ

datatype NetworkAdapter = MEMORY | NETWORK_MANAGER

fun BootstrapMode_value :: "BootstrapMode \<Rightarrow> string" where
  "BootstrapMode_value DEVELOPMENT = ''development''"
| "BootstrapMode_value PRODUCTION = ''production''"

fun ClaimWindowPolicy_value :: "ClaimWindowPolicy \<Rightarrow> string" where
  "ClaimWindowPolicy_value ON_DEMAND = ''on_demand''"
| "ClaimWindowPolicy_value ALWAYS_OPEN = ''always_open''"

fun CommissioningAdapter_value :: "CommissioningAdapter \<Rightarrow> string" where
  "CommissioningAdapter_value DISABLED = ''disabled''"
| "CommissioningAdapter_value BLUEZ = ''bluez''"

fun NetworkAdapter_value :: "NetworkAdapter \<Rightarrow> string" where
  "NetworkAdapter_value MEMORY = ''memory''"
| "NetworkAdapter_value NETWORK_MANAGER = ''networkmanager''"

record BootstrapSettings =
  st_mode :: BootstrapMode
  st_state_dir :: path
  st_runtime_dir :: path
  st_control_socket :: path
  st_ble_service_uuid :: string
  st_setup_code_ttl_seconds :: int
  st_commissioning_adapter :: CommissioningAdapter
  st_network_adapter :: NetworkAdapter
  st_local_api_port :: int
  st_claim_window :: ClaimWindowPolicy

definition st_database_path :: "BootstrapSettings \<Rightarrow> path" where
  "st_database_path st = path_append (st_state_dir st) ''bootstrap.sqlite3''"

definition st_identity_key_path :: "BootstrapSettings \<Rightarrow> path" where
  "st_identity_key_path st = path_append (st_state_dir st) ''host_identity.ed25519''"

definition st_factory_setup_code_path :: "BootstrapSettings \<Rightarrow> path" where
  "st_factory_setup_code_path st = path_append (st_state_dir st) ''factory_setup_code''"

definition st_commissioning_tls_pem_path :: "BootstrapSettings \<Rightarrow> path" where
  "st_commissioning_tls_pem_path st = path_append (st_state_dir st) ''commissioning_tls.pem''"

definition st_instance_lock_path :: "BootstrapSettings \<Rightarrow> path" where
  "st_instance_lock_path st = path_append (st_runtime_dir st) ''bootstrapd.lock''"

section \<open>Reading the environment\<close>

definition config_error :: "string \<Rightarrow> exn" where
  "config_error msg = Refused ''BootstrapConfigurationError'' msg"

type_synonym environ = "(string \<times> string) list"

definition env_get :: "environ \<Rightarrow> string \<Rightarrow> string \<Rightarrow> string" where
  "env_get environ k dflt = (case map_of environ k of None \<Rightarrow> dflt | Some v \<Rightarrow> v)"

definition declared :: "string \<Rightarrow> string" where
  "declared raw = py_lower (py_strip raw)"

definition bind_res :: "'e + 'a \<Rightarrow> ('a \<Rightarrow> 'e + 'b) \<Rightarrow> 'e + 'b" where
  "bind_res r f = (case r of Inl e \<Rightarrow> Inl e | Inr v \<Rightarrow> f v)"

definition or_raise :: "'e \<Rightarrow> 'a option \<Rightarrow> 'e + 'a" where
  "or_raise e x = (case x of None \<Rightarrow> Inl e | Some v \<Rightarrow> Inr v)"

definition check :: "bool \<Rightarrow> 'e \<Rightarrow> 'e + unit" where
  "check b e = (if b then Inr () else Inl e)"

definition read_mode :: "environ \<Rightarrow> exn + BootstrapMode" where
  "read_mode environ = or_raise (config_error ''EIDOLON_BOOTSTRAP_MODE must be development or production'')
     (enum_lookup BootstrapMode_value [DEVELOPMENT, PRODUCTION]
       (declared (env_get environ ''EIDOLON_BOOTSTRAP_MODE'' (BootstrapMode_value PRODUCTION))))"

definition read_commissioning :: "environ \<Rightarrow> BootstrapMode \<Rightarrow> exn + CommissioningAdapter" where
  "read_commissioning environ mode =
     or_raise (config_error ''EIDOLON_BOOTSTRAP_COMMISSIONING_ADAPTER must be disabled or bluez'')
       (enum_lookup CommissioningAdapter_value [DISABLED, BLUEZ]
         (declared (env_get environ ''EIDOLON_BOOTSTRAP_COMMISSIONING_ADAPTER''
           (CommissioningAdapter_value (if mode = PRODUCTION then BLUEZ else DISABLED)))))"

definition read_network :: "environ \<Rightarrow> BootstrapMode \<Rightarrow> exn + NetworkAdapter" where
  "read_network environ mode =
     or_raise (config_error ''EIDOLON_BOOTSTRAP_NETWORK_ADAPTER must be memory or networkmanager'')
       (enum_lookup NetworkAdapter_value [MEMORY, NETWORK_MANAGER]
         (declared (env_get environ ''EIDOLON_BOOTSTRAP_NETWORK_ADAPTER''
           (NetworkAdapter_value (if mode = PRODUCTION then NETWORK_MANAGER else MEMORY)))))"

definition read_claim_window :: "environ \<Rightarrow> exn + ClaimWindowPolicy" where
  "read_claim_window environ =
     (let raw = declared (env_get environ ''EIDOLON_BOOTSTRAP_CLAIM_WINDOW'' [])
      in if raw = [] then Inr ON_DEMAND
         else or_raise (config_error ''EIDOLON_BOOTSTRAP_CLAIM_WINDOW must be on_demand or always_open'')
                (enum_lookup ClaimWindowPolicy_value [ON_DEMAND, ALWAYS_OPEN] raw))"

definition no_home :: exn where
  "no_home = OtherExn ''RuntimeError''"

definition home_path :: "(string \<Rightarrow> string option) \<Rightarrow> exn + path" where
  "home_path user_home = or_raise no_home (map_option path_of (user_home []))"

definition read_path :: "(string \<Rightarrow> string option) \<Rightarrow> string \<Rightarrow> exn + path" where
  "read_path user_home text = or_raise no_home (expanduser user_home (path_of text))"

definition read_state_dir ::
  "(string \<Rightarrow> string option) \<Rightarrow> environ \<Rightarrow> BootstrapMode \<Rightarrow> exn + path" where
  "read_state_dir user_home environ mode =
     (case map_of environ ''EIDOLON_BOOTSTRAP_STATE_DIR'' of
        Some text \<Rightarrow> read_path user_home text
      | None \<Rightarrow> (if mode = PRODUCTION then Inr (path_of ''/var/lib/eidolon-bootstrap'')
          else bind_res (home_path user_home) (\<lambda>home.
            Inr (path_append (path_append home ''eidolon'') ''bootstrap''))))"

definition read_runtime_dir ::
  "(string \<Rightarrow> string option) \<Rightarrow> environ \<Rightarrow> BootstrapMode \<Rightarrow> path \<Rightarrow> exn + path" where
  "read_runtime_dir user_home environ mode state_dir =
     (case map_of environ ''EIDOLON_BOOTSTRAP_RUNTIME_DIR'' of
        Some text \<Rightarrow> read_path user_home text
      | None \<Rightarrow> Inr (if mode = PRODUCTION then path_of ''/run/eidolon-bootstrap''
          else path_append state_dir ''run''))"

definition read_int :: "environ \<Rightarrow> string \<Rightarrow> string \<Rightarrow> exn + int" where
  "read_int environ k dflt =
     or_raise (config_error (k @ '' must be an integer'')) (int10 (env_get environ k dflt))"

definition load_bootstrap_settings ::
  "string \<Rightarrow> (string \<Rightarrow> string option) \<Rightarrow> environ \<Rightarrow> exn + BootstrapSettings" where
  "load_bootstrap_settings default_ble_uuid user_home environ =
     bind_res (read_mode environ) (\<lambda>mode.
     bind_res (read_commissioning environ mode) (\<lambda>commissioning_adapter.
     bind_res (read_network environ mode) (\<lambda>network_adapter.
     bind_res (check (\<not> (mode = PRODUCTION \<and> (commissioning_adapter \<noteq> BLUEZ \<or> network_adapter \<noteq> NETWORK_MANAGER)))
       (config_error ''production bootstrap requires bluez and networkmanager adapters'')) (\<lambda>_.
     bind_res (read_state_dir user_home environ mode) (\<lambda>state_dir.
     bind_res (read_runtime_dir user_home environ mode state_dir) (\<lambda>runtime_dir.
     bind_res (read_path user_home (env_get environ ''EIDOLON_BOOTSTRAP_CONTROL_SOCKET''
       (path_str (path_append runtime_dir ''control.sock'')))) (\<lambda>control_socket.
     bind_res (read_int environ ''EIDOLON_BOOTSTRAP_SETUP_CODE_TTL_SECONDS'' ''600'') (\<lambda>ttl.
     bind_res (check (60 \<le> ttl \<and> ttl \<le> 86400)
       (config_error ''Setup code TTL must be between 60 and 86400 seconds'')) (\<lambda>_.
     let ble_service_uuid = py_strip (env_get environ ''EIDOLON_BOOTSTRAP_BLE_SERVICE_UUID'' default_ble_uuid) in
     bind_res (check (uuid_parse ble_service_uuid \<noteq> None)
       (config_error ''EIDOLON_BOOTSTRAP_BLE_SERVICE_UUID must be a UUID'')) (\<lambda>_.
     bind_res (check (mode \<noteq> PRODUCTION \<or> is_absolute state_dir \<and> is_absolute runtime_dir \<and> is_absolute control_socket)
       (config_error ''production bootstrap paths must be absolute'')) (\<lambda>_.
     bind_res (check (length (utf8 (path_str control_socket)) \<le> 100)
       (config_error ''bootstrap control socket path must be at most 100 encoded bytes'')) (\<lambda>_.
     bind_res (read_int environ ''EIDOLON_BOOTSTRAP_LOCAL_API_PORT'' ''9002'') (\<lambda>local_api_port.
     bind_res (check (1 \<le> local_api_port \<and> local_api_port \<le> 65535)
       (config_error ''EIDOLON_BOOTSTRAP_LOCAL_API_PORT must be between 1 and 65535'')) (\<lambda>_.
     bind_res (read_claim_window environ) (\<lambda>claim_window.
       Inr \<lparr>st_mode = mode, st_state_dir = state_dir, st_runtime_dir = runtime_dir,
         st_control_socket = control_socket, st_ble_service_uuid = ble_service_uuid,
         st_setup_code_ttl_seconds = ttl, st_commissioning_adapter = commissioning_adapter,
         st_network_adapter = network_adapter, st_local_api_port = local_api_port,
         st_claim_window = claim_window\<rparr>)))))))))))))))"

section \<open>What settings that loaded guarantee\<close>

lemma bind_res_Inr: "bind_res r f = Inr v \<longleftrightarrow> (\<exists>x. r = Inr x \<and> f x = Inr v)"
  by (cases r) (simp_all add: bind_res_def)

lemma check_Inr [simp]: "check b e = Inr u \<longleftrightarrow> b"
  by (simp add: check_def)

lemma or_raise_Inr [simp]: "or_raise e x = Inr v \<longleftrightarrow> x = Some v"
  by (cases x) (simp_all add: or_raise_def)

lemma settings_loaded:
  assumes "load_bootstrap_settings ble user_home environ = Inr st"
  shows "st_mode st = PRODUCTION \<Longrightarrow> st_commissioning_adapter st = BLUEZ \<and> st_network_adapter st = NETWORK_MANAGER
      \<and> is_absolute (st_state_dir st) \<and> is_absolute (st_runtime_dir st) \<and> is_absolute (st_control_socket st)"
    and "length (utf8 (path_str (st_control_socket st))) \<le> 100"
    and "1 \<le> st_local_api_port st \<and> st_local_api_port st \<le> 65535"
    and "60 \<le> st_setup_code_ttl_seconds st \<and> st_setup_code_ttl_seconds st \<le> 86400"
    and "\<exists>n. uuid_parse (st_ble_service_uuid st) = Some n"
    and "read_mode environ = Inr (st_mode st)" and "read_claim_window environ = Inr (st_claim_window st)"
  by (insert assms [unfolded load_bootstrap_settings_def Let_def bind_res_Inr check_Inr])
    (elim exE conjE, force)+

lemma declared_mode:
  "map_of environ ''EIDOLON_BOOTSTRAP_MODE'' = None \<Longrightarrow> read_mode environ = Inr PRODUCTION"
  by (simp add: read_mode_def env_get_def) code_simp

lemma undeclared_window:
  "map_of environ ''EIDOLON_BOOTSTRAP_CLAIM_WINDOW'' \<in> {None, Some []} \<Longrightarrow> read_claim_window environ = Inr ON_DEMAND"
  by (auto simp: read_claim_window_def env_get_def declared_def py_strip_def strip_chars_def py_lower_def)

text \<open>
  C14. A configuration that loads keeps the trust boundary: a production Host has the Bluetooth and
  NetworkManager adapters and absolute paths, a Host that declares no mode is a production Host, a
  Host that declares no claim window (or an empty one) stands none, and the socket path, the port
  and the window length are within their bounds.
\<close>

theorem loaded_settings_hardened:
  assumes "load_bootstrap_settings ble user_home environ = Inr st"
  shows "(st_mode st = PRODUCTION \<longrightarrow> st_commissioning_adapter st = BLUEZ \<and> st_network_adapter st = NETWORK_MANAGER
      \<and> is_absolute (st_state_dir st) \<and> is_absolute (st_runtime_dir st) \<and> is_absolute (st_control_socket st))
    \<and> (map_of environ ''EIDOLON_BOOTSTRAP_MODE'' = None \<longrightarrow> st_mode st = PRODUCTION)
    \<and> (map_of environ ''EIDOLON_BOOTSTRAP_CLAIM_WINDOW'' \<in> {None, Some []} \<longrightarrow> st_claim_window st = ON_DEMAND)
    \<and> length (utf8 (path_str (st_control_socket st))) \<le> 100
    \<and> 1 \<le> st_local_api_port st \<and> st_local_api_port st \<le> 65535
    \<and> 60 \<le> st_setup_code_ttl_seconds st \<and> st_setup_code_ttl_seconds st \<le> 86400"
  using settings_loaded [OF assms] declared_mode [of environ] undeclared_window [of environ] by simp

definition sample_environ :: environ where
  "sample_environ = [(''EIDOLON_BOOTSTRAP_RUNTIME_DIR'', ''//run/./x''), (''EIDOLON_BOOTSTRAP_LOCAL_API_PORT'', '' 9_002 '')]"

lemma loaded_settings_hardened_witness:
  "\<exists>st. load_bootstrap_settings (uuid_str 7) (\<lambda>_. None) sample_environ = Inr st
     \<and> st_network_adapter st = NETWORK_MANAGER \<and> st_claim_window st = ON_DEMAND"
proof -
  have "case load_bootstrap_settings (uuid_str 7) (\<lambda>_. None) sample_environ of Inr _ \<Rightarrow> True | Inl _ \<Rightarrow> False"
    by code_simp
  then obtain st where st: "load_bootstrap_settings (uuid_str 7) (\<lambda>_. None) sample_environ = Inr st"
    by (auto split: sum.splits)
  from loaded_settings_hardened [OF this] st show ?thesis by (simp add: sample_environ_def)
qed

end
