(* ===== verification/Json_Text.thy ===== *)
theory Json_Text
  imports Encoding
begin

text \<open>
  \<open>json.dumps\<close> with \<open>sort_keys=True\<close> and \<open>separators=(",", ":")\<close>, the canonical text that is
  signed and whose size the Bluetooth endpoint is held to. \<open>ascii\<close> is \<open>ensure_ascii\<close>.
\<close>

fun dec_of_nat :: "nat \<Rightarrow> string" where
  "dec_of_nat n = (if n < 10 then [''0123456789'' ! n]
     else dec_of_nat (n div 10) @ [''0123456789'' ! (n mod 10)])"

declare dec_of_nat.simps [simp del]

definition dec_of_int :: "int \<Rightarrow> string" where
  "dec_of_int i = (if i < 0 then CHR ''-'' # dec_of_nat (nat (- i)) else dec_of_nat (nat i))"

definition u_escape :: "char \<Rightarrow> string" where
  "u_escape c = [CHR 92, CHR ''u'', CHR ''0'', CHR ''0'', hex_char (of_char c div 16), hex_char (of_char c mod 16)]"

definition json_char :: "bool \<Rightarrow> char \<Rightarrow> string" where
  "json_char ascii c =
     (if c = CHR 34 then [CHR 92, CHR 34]
      else if c = CHR 92 then [CHR 92, CHR 92]
      else if c = CHR 10 then [CHR 92, CHR ''n'']
      else if c = CHR 13 then [CHR 92, CHR ''r'']
      else if c = CHR 9 then [CHR 92, CHR ''t'']
      else if c = CHR 12 then [CHR 92, CHR ''f'']
      else if c = CHR 8 then [CHR 92, CHR ''b'']
      else if of_char c < (32 :: nat) \<or> ascii \<and> of_char c > (126 :: nat) then u_escape c
      else [c])"

definition json_string :: "bool \<Rightarrow> string \<Rightarrow> string" where
  "json_string ascii s = CHR 34 # concat (map (json_char ascii) s) @ [CHR 34]"

fun join_with :: "string \<Rightarrow> string list \<Rightarrow> string" where
  "join_with sep [] = []"
| "join_with sep [x] = x"
| "join_with sep (x # y # zs) = x @ sep @ join_with sep (y # zs)"

fun json_dumps :: "bool \<Rightarrow> json \<Rightarrow> string" where
  "json_dumps ascii JNull = ''null''"
| "json_dumps ascii (JBool b) = (if b then ''true'' else ''false'')"
| "json_dumps ascii (JInt i) = dec_of_int i"
| "json_dumps ascii (JStr s) = json_string ascii s"
| "json_dumps ascii (JList xs) = ''['' @ join_with '','' (map (json_dumps ascii) xs) @ '']''"
| "json_dumps ascii (JObj ms) =
     ''{'' @ join_with '','' (map (\<lambda>(k, text). json_string ascii k @ '':'' @ text)
        (sort_key fst (map (\<lambda>m. (fst m, json_dumps ascii (snd m))) ms))) @ ''}''"

end
