(* ===== verification/Addresses.thy ===== *)
theory Addresses
  imports Settings Json_Text
begin

text \<open>
  Where the Host can be reached, \<open>bootstrap/host_addresses.py\<close>, and the encoding of the endpoint
  that carries it, \<open>bootstrap/endpoint_encoding.py\<close>. What \<open>psutil\<close> reports and the SDK's
  \<open>on_product_link\<close> are parameters.
\<close>

section \<open>IPv4 addresses\<close>

text \<open>\<open>ipaddress.IPv4Address(text)\<close>: four decimal octets, at most three digits, no leading zero.\<close>

definition octet_of :: "string \<Rightarrow> nat option" where
  "octet_of s =
     (if s = [] \<or> \<not> list_all is_ascii_digit s \<or> length s > 3 \<or> (s \<noteq> ''0'' \<and> hd s = CHR ''0'') then None
      else (case dec_number s of None \<Rightarrow> None | Some n \<Rightarrow> if n > 255 then None else Some n))"

type_synonym ipv4 = "nat \<times> nat \<times> nat \<times> nat"

definition ipv4_of :: "string \<Rightarrow> ipv4 option" where
  "ipv4_of s =
     (case split_on (CHR ''.'') s of
        [a, b, c, d] \<Rightarrow>
          (case (octet_of a, octet_of b, octet_of c, octet_of d) of
             (Some w, Some x, Some y, Some z) \<Rightarrow> Some (w, x, y, z)
           | _ \<Rightarrow> None)
      | _ \<Rightarrow> None)"

fun is_loopback :: "ipv4 \<Rightarrow> bool" where "is_loopback (a, _, _, _) = (a = 127)"

fun is_multicast :: "ipv4 \<Rightarrow> bool" where "is_multicast (a, _, _, _) = (224 \<le> a \<and> a \<le> 239)"

definition is_unspecified :: "ipv4 \<Rightarrow> bool" where "is_unspecified ip = (ip = (0, 0, 0, 0))"

fun is_link_local :: "ipv4 \<Rightarrow> bool" where "is_link_local (a, b, _, _) = (a = 169 \<and> b = 254)"

section \<open>The addresses a Controller is offered\<close>

text \<open>
  One entry of \<open>psutil.net_if_addrs()\<close>: whether its family is \<open>AF_INET\<close>, and its address when that
  is text. \<open>None\<close> for the whole report is \<open>OSError\<close>.
\<close>

type_synonym if_entry = "bool \<times> string option"

definition kernel_reported_addresses :: "if_entry list list option \<Rightarrow> string list" where
  "kernel_reported_addresses interfaces =
     (case interfaces of
        None \<Rightarrow> []
      | Some report \<Rightarrow> concat (map (\<lambda>entries. concat (map (\<lambda>entry. case entry of
            (True, Some address) \<Rightarrow> [address] | _ \<Rightarrow> []) entries)) report))"

definition offered :: "(ipv4 \<Rightarrow> bool) \<Rightarrow> string \<Rightarrow> bool" where
  "offered product_link raw =
     (case ipv4_of raw of
        None \<Rightarrow> False
      | Some ip \<Rightarrow> \<not> (is_loopback ip \<or> is_multicast ip \<or> is_unspecified ip) \<and> product_link ip)"

fun collect_addresses :: "(ipv4 \<Rightarrow> bool) \<Rightarrow> string list \<Rightarrow> string list \<Rightarrow> string list" where
  "collect_addresses product_link addresses [] = addresses"
| "collect_addresses product_link addresses (raw # rest) =
     collect_addresses product_link
       (if offered product_link raw \<and> raw \<notin> set addresses then addresses @ [raw] else addresses) rest"

definition link_local_text :: "string \<Rightarrow> bool" where
  "link_local_text raw = (case ipv4_of raw of None \<Rightarrow> False | Some ip \<Rightarrow> is_link_local ip)"

definition reachable_ipv4_addresses ::
  "(ipv4 \<Rightarrow> bool) \<Rightarrow> if_entry list list option \<Rightarrow> string list" where
  "reachable_ipv4_addresses product_link interfaces =
     sort_key link_local_text (collect_addresses product_link [] (kernel_reported_addresses interfaces))"

definition local_api_base_urls ::
  "int \<Rightarrow> (ipv4 \<Rightarrow> bool) \<Rightarrow> if_entry list list option \<Rightarrow> string list" where
  "local_api_base_urls port product_link interfaces =
     map (\<lambda>address. ''https://'' @ address @ '':'' @ dec_of_int port)
       (reachable_ipv4_addresses product_link interfaces)"

lemma collect_addresses_in:
  "a \<in> set (collect_addresses L acc xs) \<longleftrightarrow> a \<in> set acc \<or> a \<in> set xs \<and> offered L a"
  by (induction xs arbitrary: acc) auto

lemma collect_addresses_distinct: "distinct acc \<Longrightarrow> distinct (collect_addresses L acc xs)"
  by (induction xs arbitrary: acc) simp_all

lemma sorted_bool_split:
  "sorted (map f xs) \<Longrightarrow> xs = filter (\<lambda>x. \<not> f x) xs @ filter f xs"
proof (induction xs)
  case (Cons x xs)
  then have IH: "xs = filter (\<lambda>x. \<not> f x) xs @ filter f xs" by simp
  show ?case
  proof (cases "f x")
    case True
    with Cons.prems have "\<forall>y \<in> set xs. f y" by simp
    with True show ?thesis by (simp add: filter_False filter_True)
  next
    case False
    with IH show ?thesis by simp
  qed
qed simp

text \<open>
  The addresses the Host offers are exactly the usable ones the kernel reported, each once:
  never loopback, multicast, the unspecified address or an operator's own link, and the link-local
  ones stand behind all others.
\<close>

theorem offered_addresses:
  "distinct (reachable_ipv4_addresses L report)
   \<and> (\<forall>a. a \<in> set (reachable_ipv4_addresses L report)
        = (a \<in> set (kernel_reported_addresses report) \<and> offered L a))
   \<and> (\<exists>routable local. reachable_ipv4_addresses L report = routable @ local
        \<and> filter link_local_text (routable @ local) = local)"
proof -
  let ?xs = "reachable_ipv4_addresses L report"
  have "distinct ?xs" "\<forall>a. a \<in> set ?xs = (a \<in> set (kernel_reported_addresses report) \<and> offered L a)"
    by (simp_all add: reachable_ipv4_addresses_def collect_addresses_in collect_addresses_distinct)
  moreover have "sorted (map link_local_text ?xs)"
    by (simp add: reachable_ipv4_addresses_def)
  from sorted_bool_split [OF this]
  have "?xs = filter (\<lambda>x. \<not> link_local_text x) ?xs @ filter link_local_text ?xs
      \<and> filter link_local_text (filter (\<lambda>x. \<not> link_local_text x) ?xs @ filter link_local_text ?xs)
        = filter link_local_text ?xs"
    by simp
  ultimately show ?thesis by blast
qed

section \<open>The encoded endpoint\<close>

definition GATT_MAX_ATTRIBUTE_BYTES :: nat where
  "GATT_MAX_ATTRIBUTE_BYTES = 512"

definition encode_endpoint :: "jobject \<Rightarrow> bytes" where
  "encode_endpoint endpoint = utf8 (json_dumps False (JObj endpoint))"

definition endpoint_size :: "jobject \<Rightarrow> nat" where
  "endpoint_size endpoint = length (encode_endpoint endpoint)"

end
