(* ===== verification/Commissioning.thy ===== *)
theory Commissioning
  imports Runtime
begin

text \<open>
  The setup use cases, \<open>bootstrap/commissioning_service.py\<close>, written over the store port and the
  network port, so that they run on every pair of adapters. One definition per method.
\<close>

section \<open>Building a Grant from a request\<close>

definition is_controller_id :: "string \<Rightarrow> bool" where
  "is_controller_id s \<longleftrightarrow> length s = 26 \<and> take 6 s = ''ectrl-''
     \<and> list_all (\<lambda>c. c \<in> set hex_alphabet) (drop 6 s)"

definition decode_field :: "string \<Rightarrow> json \<Rightarrow> exn + bytes" where
  "decode_field field value =
     (case decode_base64url value of
        Inl B64Missing \<Rightarrow> Inl (Rejected ''invalid_request'' (field @ '' is required''))
      | Inl B64Malformed \<Rightarrow> Inl (Rejected ''invalid_request'' (field @ '' must be unpadded base64url''))
      | Inl B64NotCanonical \<Rightarrow>
          Inl (Rejected ''invalid_request'' (field @ '' must use canonical base64url''))
      | Inr der \<Rightarrow> Inr der)"

text \<open>\<open>platform not in {"android", "ios"}\<close>: a list or an object is unhashable, a \<open>TypeError\<close>.\<close>

fun platform_of :: "json \<Rightarrow> exn + string" where
  "platform_of (JStr s) = (if s = ''android'' \<or> s = ''ios'' then Inr s
     else Inl (Rejected ''invalid_request'' ''Controller platform is unsupported''))"
| "platform_of (JList _) = Inl (OtherExn ''TypeError'')"
| "platform_of (JObj _) = Inl (OtherExn ''TypeError'')"
| "platform_of _ = Inl (Rejected ''invalid_request'' ''Controller platform is unsupported'')"

definition supplied_id_ok :: "string \<Rightarrow> json \<Rightarrow> bool" where
  "supplied_id_ok controller_id supplied =
     (case supplied of
        JNull \<Rightarrow> True
      | JStr s \<Rightarrow> is_controller_id s \<and> s = controller_id
      | _ \<Rightarrow> False)"

definition display_name_of :: "json \<Rightarrow> exn + string" where
  "display_name_of value =
     (case value of
        JStr s \<Rightarrow>
          (let name = py_strip s
           in if name = []
              then Inl (Rejected ''invalid_request'' ''Controller display_name is required'')
              else if length name > 80
              then Inl (Rejected ''invalid_request'' ''Controller display_name is too long'')
              else Inr name)
      | _ \<Rightarrow> Inl (Rejected ''invalid_request'' ''Controller display_name is required''))"

definition controller_grant :: "env \<Rightarrow> jobject \<Rightarrow> int \<Rightarrow> timestamp \<Rightarrow> exn + ControllerGrant" where
  "controller_grant E payload reset_epoch created_at =
     (case decode_field ''public_key'' (jget ''public_key'' payload) of
        Inl e \<Rightarrow> Inl e
      | Inr der \<Rightarrow>
          (case e_load_key E der of
             KeyInvalid \<Rightarrow>
               Inl (Rejected ''invalid_controller_key'' ''Controller public key is not valid DER'')
           | KeyRaises what \<Rightarrow> Inl (OtherExn what)
           | KeyOther \<Rightarrow> Inl (Rejected ''invalid_controller_key'' ''Controller key must be P-256'')
           | KeyP256 \<Rightarrow>
               (if \<not> supplied_id_ok (controller_id_of E der) (jget ''controller_id'' payload)
                then Inl (Rejected ''invalid_controller_key''
                  ''Controller ID does not match its public key'')
                else (case display_name_of (jget ''display_name'' payload) of
                        Inl e \<Rightarrow> Inl e
                      | Inr display_name \<Rightarrow>
                          (case platform_of (jget ''platform'' payload) of
                             Inl e \<Rightarrow> Inl e
                           | Inr platform \<Rightarrow> Inr
                               \<lparr>cg_controller_id = controller_id_of E der,
                                cg_public_key = the (as_str (jget ''public_key'' payload)),
                                cg_public_key_fingerprint = fingerprint_of E der,
                                cg_role = HOST_ADMIN, cg_display_name = display_name,
                                cg_platform = platform, cg_reset_epoch = reset_epoch,
                                cg_created_at = created_at, cg_revoked_at = None\<rparr>)))))"

lemma controller_grant_named:
  assumes "controller_grant E payload epoch now = Inr g"
  shows "grant_named (key_names_of E) g" and "cg_revoked_at g = None" and "cg_reset_epoch g = epoch"
    and "cg_created_at g = now"
proof -
  obtain der where der: "decode_base64url (jget ''public_key'' payload) = Inr der"
      "cg_controller_id g = controller_id_of E der" "cg_public_key_fingerprint g = fingerprint_of E der"
      "cg_public_key g = the (as_str (jget ''public_key'' payload))"
      "cg_revoked_at g = None" "cg_reset_epoch g = epoch" "cg_created_at g = now"
    using assms
    by (auto simp: controller_grant_def decode_field_def
        split: sum.splits loaded_key.splits if_splits b64_error.splits)
  then have "jget ''public_key'' payload = JStr (b64encode der)" by (simp add: decode_base64url_iff)
  with der show "grant_named (key_names_of E) g" "cg_revoked_at g = None" "cg_reset_epoch g = epoch"
    "cg_created_at g = now"
    by (simp_all add: grant_named_def key_names_of_def)
qed

section \<open>Authorizations\<close>

datatype access =
    CommissioningAuthorization string string
  | ControllerAuthorization ControllerGrant

definition denied_session :: exn where
  "denied_session = Rejected ''commissioning_denied'' ''Commissioning session is unavailable''"

definition denied_controller :: exn where
  "denied_controller = Rejected ''controller_denied'' ''Controller is not authorized for this Host''"

definition denied_admin :: exn where
  "denied_admin = Rejected ''controller_denied'' ''Host Admin authorization is required''"

definition cs_authorize ::
  "'s store_port \<Rightarrow> env \<Rightarrow> json \<Rightarrow> json \<Rightarrow> (('s, 'n) world, exn, access) op" where
  "cs_authorize P E session_id secret =
     (case (session_id, secret) of
        (JStr sid, JStr code) \<Rightarrow>
          (if sid = [] \<or> \<not> is_usable_setup_code code then raise denied_session
           else (let secret_hash = e_sha256_hex E (utf8 code)
                 in bindS (now_ts E) (\<lambda>now.
                    bindS (catch_conflict
                      (on_store (sp_authorize_commissioning_session P sid secret_hash now))
                      (\<lambda>_. raise denied_session)) (\<lambda>_.
                    ret (CommissioningAuthorization sid secret_hash)))))
      | _ \<Rightarrow> raise denied_session)"

definition cs_authorize_controller ::
  "'s store_port \<Rightarrow> json \<Rightarrow> (('s, 'n) world, exn, ControllerGrant) op" where
  "cs_authorize_controller P controller_id =
     (case controller_id of
        JStr cid \<Rightarrow>
          (if \<not> is_controller_id cid then raise denied_controller
           else bindS (on_store (sp_get_controller P cid)) (\<lambda>grant.
                bindS (on_store (sp_get_state P)) (\<lambda>state.
                  case grant of
                    None \<Rightarrow> raise denied_controller
                  | Some g \<Rightarrow>
                      (if cg_revoked_at g \<noteq> None \<or> cg_reset_epoch g \<noteq> bs_reset_epoch state
                          \<or> cg_role g \<noteq> HOST_ADMIN
                       then raise denied_controller else ret g))))
      | _ \<Rightarrow> raise denied_controller)"

definition cs_require_authorized ::
  "'s store_port \<Rightarrow> env \<Rightarrow> access \<Rightarrow> (('s, 'n) world, exn, unit) op" where
  "cs_require_authorized P E authorization =
     (case authorization of
        ControllerAuthorization grant \<Rightarrow>
          bindS (on_store (sp_get_controller P (cg_controller_id grant))) (\<lambda>current.
          bindS (on_store (sp_get_state P)) (\<lambda>state.
            case current of
              None \<Rightarrow> raise denied_controller
            | Some g \<Rightarrow>
                (if cg_revoked_at g \<noteq> None \<or> cg_public_key g \<noteq> cg_public_key grant
                    \<or> cg_reset_epoch g \<noteq> bs_reset_epoch state
                 then raise denied_controller else ret ())))
      | CommissioningAuthorization sid secret_hash \<Rightarrow>
          bindS (now_ts E) (\<lambda>now.
          bindS (catch_conflict (on_store (sp_authorize_commissioning_session P sid secret_hash now))
                  (\<lambda>_. raise denied_session)) (\<lambda>_. ret ())))"

text \<open>\<open>_require_authorized\<close> followed by the check that the caller is a Host Admin.\<close>

definition cs_require_admin ::
  "'s store_port \<Rightarrow> env \<Rightarrow> access \<Rightarrow> (('s, 'n) world, exn, unit) op" where
  "cs_require_admin P E authorization =
     bindS (cs_require_authorized P E authorization) (\<lambda>_.
       case authorization of ControllerAuthorization _ \<Rightarrow> ret () | _ \<Rightarrow> raise denied_admin)"

definition cs_status :: "'s store_port \<Rightarrow> env \<Rightarrow> access \<Rightarrow> (('s, 'n) world, exn, jobject) op" where
  "cs_status P E authorization =
     bindS (cs_require_authorized P E authorization) (\<lambda>_.
     bindS (on_store (sp_get_state P)) (\<lambda>state.
       ret [(''state'', JObj (BootstrapState_to_dict state))]))"

section \<open>Scanning\<close>

text \<open>One entry per SSID, the strongest signal seen; the first of equals stays.\<close>

definition add_access_point ::
  "(string \<times> WifiAccessPoint) list \<Rightarrow> WifiAccessPoint \<Rightarrow> (string \<times> WifiAccessPoint) list" where
  "add_access_point unique item =
     (case map_of unique (ap_ssid item) of
        None \<Rightarrow> dict_set (ap_ssid item) item unique
      | Some previous \<Rightarrow>
          (if ap_signal item > ap_signal previous then dict_set (ap_ssid item) item unique else unique))"

definition best_access_points :: "WifiAccessPoint list \<Rightarrow> WifiAccessPoint list" where
  "best_access_points access_points =
     sort_key (\<lambda>item. (- ap_signal item, ap_ssid item))
       (map snd (foldl add_access_point [] access_points))"

definition cs_scan_networks ::
  "'s store_port \<Rightarrow> 'n net_port \<Rightarrow> env \<Rightarrow> access \<Rightarrow> (('s, 'n) world, exn, jobject) op" where
  "cs_scan_networks P N E authorization =
     bindS (cs_require_authorized P E authorization) (\<lambda>_.
     bindS (on_net (net_get_state N)) (\<lambda>current.
     bindS (on_net (net_scan N)) (\<lambda>access_points.
       ret [(''current_network'', JObj
              [(''state'', JStr (NetworkState_value (np_state current))),
               (''ssid'', jopt (np_current_ssid current))]),
            (''networks'', JList (map (\<lambda>item. JObj
              [(''ssid'', JStr (ap_ssid item)), (''signal'', JInt (ap_signal item)),
               (''secured'', JBool (ap_secured item))]) (best_access_points access_points)))])))"

section \<open>Changing the network\<close>

definition operation_id_of :: "json \<Rightarrow> exn + string" where
  "operation_id_of value =
     (case canonical_uuid value of
        Inl UuidMissing \<Rightarrow> Inl (Rejected ''invalid_request'' ''operation_id is required'')
      | Inl UuidMalformed \<Rightarrow> Inl (Rejected ''invalid_request'' ''operation_id must be a UUID'')
      | Inl UuidNotCanonical \<Rightarrow>
          Inl (Rejected ''invalid_request'' ''operation_id must use canonical UUID encoding'')
      | Inr s \<Rightarrow> Inr s)"

definition ssid_of :: "json \<Rightarrow> exn + string" where
  "ssid_of value =
     (case value of
        JStr s \<Rightarrow>
          (if s = [] then Inl (Rejected ''invalid_network'' ''SSID is required'')
           else if \<not> (1 \<le> length (utf8 s) \<and> length (utf8 s) \<le> 32)
           then Inl (Rejected ''invalid_network'' ''SSID must contain 1 to 32 UTF-8 bytes'')
           else Inr s)
      | _ \<Rightarrow> Inl (Rejected ''invalid_network'' ''SSID is required''))"

definition passphrase_of :: "json \<Rightarrow> exn + string option" where
  "passphrase_of value =
     (case value of
        JNull \<Rightarrow> Inr None
      | JStr s \<Rightarrow>
          (if \<not> (8 \<le> length s \<and> length s \<le> 63)
           then Inl (Rejected ''invalid_network'' ''Wi-Fi passphrase must contain 8 to 63 characters'')
           else Inr (Some s))
      | _ \<Rightarrow> Inl (Rejected ''invalid_network'' ''Wi-Fi passphrase must be a string''))"

definition hidden_of :: "json \<Rightarrow> exn + bool" where
  "hidden_of value = (case value of JBool b \<Rightarrow> Inr b
     | _ \<Rightarrow> Inl (Rejected ''invalid_network'' ''hidden must be a boolean''))"

definition operation_result :: "BootstrapOperation \<Rightarrow> jobject" where
  "operation_result p = [(''operation'', JObj (BootstrapOperation_to_dict p))]"

definition update_op ::
  "'s store_port \<Rightarrow> env \<Rightarrow> string \<Rightarrow> BootstrapOperationState \<Rightarrow> NetworkState \<Rightarrow> string option
    \<Rightarrow> (('s, 'n) world, exn, BootstrapOperation) op" where
  "update_op P E operation_id state network_state error_code =
     bindS (now_ts E) (\<lambda>now.
       on_store (sp_update_operation P operation_id state network_state now error_code))"

text \<open>
  \<open>except (BootstrapStateConflict, NetworkProvisioningError)\<close>, with the error code each becomes.
\<close>

definition staging_failure :: "exn \<Rightarrow> (string \<times> string) option" where
  "staging_failure e =
     (case e of
        StoreExn (Conflict msg) \<Rightarrow> Some (''operation_conflict'', msg)
      | NetExn (NetErr msg) \<Rightarrow> Some (''network_stage_failed'', msg)
      | _ \<Rightarrow> None)"

text \<open>What the request asks for, checked in the order of the source.\<close>

definition change_request :: "jobject \<Rightarrow> exn + NetworkChangeRequest" where
  "change_request payload =
     (case operation_id_of (jget ''operation_id'' payload) of
        Inl e \<Rightarrow> Inl e
      | Inr operation_id \<Rightarrow>
     (case ssid_of (jget ''ssid'' payload) of
        Inl e \<Rightarrow> Inl e
      | Inr ssid \<Rightarrow>
     (case passphrase_of (jget ''passphrase'' payload) of
        Inl e \<Rightarrow> Inl e
      | Inr passphrase \<Rightarrow>
     (case hidden_of (jget_default ''hidden'' (JBool False) payload) of
        Inl e \<Rightarrow> Inl e
      | Inr hidden \<Rightarrow> Inr \<lparr>nr_operation_id = operation_id, nr_ssid = ssid,
          nr_passphrase = passphrase, nr_hidden = hidden\<rparr>))))"

definition new_operation :: "NetworkChangeRequest \<Rightarrow> int \<Rightarrow> timestamp \<Rightarrow> BootstrapOperation" where
  "new_operation req epoch now =
     \<lparr>op_operation_id = nr_operation_id req, op_operation_type = CHANGE_NETWORK, op_state = PENDING,
      op_target = nr_ssid req, op_reset_epoch = epoch, op_created_at = now, op_updated_at = now,
      op_error_code = None\<rparr>"

text \<open>The statements of the \<open>try\<close> block after the operation exists.\<close>

definition cs_stage ::
  "'s store_port \<Rightarrow> 'n net_port \<Rightarrow> env \<Rightarrow> NetworkChangeRequest \<Rightarrow> timestamp
    \<Rightarrow> (('s, 'n) world, exn, BootstrapOperation) op" where
  "cs_stage P N E req now =
     bindS (on_store (sp_update_operation P (nr_operation_id req) RUNNING STAGING now None)) (\<lambda>_.
     bindS (on_net (net_begin_change N req)) (\<lambda>_.
       update_op P E (nr_operation_id req) WAITING_CONFIRMATION STAGING None))"

definition fallback_state :: "NetworkState \<Rightarrow> NetworkState" where
  "fallback_state previous = (if previous = CONNECTED then CONNECTED else DEGRADED)"

definition cs_staging_failed ::
  "'s store_port \<Rightarrow> env \<Rightarrow> string \<Rightarrow> NetworkState \<Rightarrow> exn
    \<Rightarrow> (('s, 'n) world, exn, BootstrapOperation) op" where
  "cs_staging_failed P E operation_id previous e =
     (case staging_failure e of
        None \<Rightarrow> raise e
      | Some (code, msg) \<Rightarrow>
          bindS (update_op P E operation_id FAILED (fallback_state previous) (Some code)) (\<lambda>_.
            raise (Rejected code msg)))"

definition cs_configure_network ::
  "'s store_port \<Rightarrow> 'n net_port \<Rightarrow> env \<Rightarrow> access \<Rightarrow> jobject \<Rightarrow> (('s, 'n) world, exn, jobject) op" where
  "cs_configure_network P N E authorization payload =
     bindS (cs_require_admin P E authorization) (\<lambda>_.
     bindS (of_result (change_request payload)) (\<lambda>req.
     bindS (on_store (sp_get_operation P (nr_operation_id req))) (\<lambda>existing.
       case existing of
         Some p \<Rightarrow>
           (if op_target p \<noteq> nr_ssid req
            then raise (Rejected ''operation_conflict'' ''operation_id is already in use'')
            else ret (operation_result p))
       | None \<Rightarrow>
           bindS (on_store (sp_get_state P)) (\<lambda>state.
           bindS (now_ts E) (\<lambda>now.
           bindS (catch_conflict
               (on_store (sp_create_operation P (new_operation req (bs_reset_epoch state) now)))
               (\<lambda>msg. raise (Rejected ''operation_conflict'' msg))) (\<lambda>_.
           bindS (catchS (cs_stage P N E req now)
               (cs_staging_failed P E (nr_operation_id req) (bs_network_state state))) (\<lambda>operation.
             ret (operation_result operation))))))))"

definition operation_missing :: exn where
  "operation_missing = Rejected ''operation_not_found'' ''Network operation does not exist''"

definition cs_confirm_network ::
  "'s store_port \<Rightarrow> 'n net_port \<Rightarrow> env \<Rightarrow> access \<Rightarrow> json \<Rightarrow> (('s, 'n) world, exn, jobject) op" where
  "cs_confirm_network P N E authorization operation_id =
     bindS (cs_require_admin P E authorization) (\<lambda>_.
     bindS (of_result (operation_id_of operation_id)) (\<lambda>i.
     bindS (on_store (sp_get_operation P i)) (\<lambda>operation.
       case operation of
         None \<Rightarrow> raise operation_missing
       | Some p \<Rightarrow>
           (if op_state p = SUCCEEDED then ret (operation_result p)
            else if op_state p \<noteq> WAITING_CONFIRMATION
            then raise (Rejected ''operation_conflict'' ''Network operation cannot be confirmed'')
            else bindS (catch_net (on_net (net_confirm N i)) (\<lambda>_.
                   raise (Rejected ''network_confirm_failed''
                     ''The staged Wi-Fi network is not connected''))) (\<lambda>_.
                 bindS (update_op P E i SUCCEEDED CONNECTED None) (\<lambda>q. ret (operation_result q)))))))"

definition cs_rollback_network ::
  "'s store_port \<Rightarrow> 'n net_port \<Rightarrow> env \<Rightarrow> access \<Rightarrow> json \<Rightarrow> (('s, 'n) world, exn, jobject) op" where
  "cs_rollback_network P N E authorization operation_id =
     bindS (cs_require_admin P E authorization) (\<lambda>_.
     bindS (of_result (operation_id_of operation_id)) (\<lambda>i.
     bindS (on_store (sp_get_operation P i)) (\<lambda>operation.
       case operation of
         None \<Rightarrow> raise operation_missing
       | Some p \<Rightarrow>
           (if op_state p = FAILED then ret (operation_result p)
            else bindS (catchS
                   (bindS (update_op P E i COMPENSATING ROLLING_BACK None) (\<lambda>_.
                      on_net (net_rollback N i)))
                   (\<lambda>e. case staging_failure e of
                      None \<Rightarrow> raise e
                    | Some _ \<Rightarrow> raise (Rejected ''network_rollback_failed''
                        ''The Wi-Fi rollback did not complete''))) (\<lambda>snapshot.
                 bindS (update_op P E i FAILED (np_state snapshot) (Some ''cancelled'')) (\<lambda>q.
                   ret (operation_result q)))))))"

section \<open>Claiming\<close>

definition claim_refusal :: "string \<Rightarrow> exn" where
  "claim_refusal reason = Rejected
     (if reason = ''commissioning session is unavailable'' then ''commissioning_denied''
      else ''operation_conflict'') reason"

text \<open>\<open>on_claimed\<close> is the callback given at construction; what it raises is logged and dropped.\<close>

definition cs_claim_controller ::
  "'s store_port \<Rightarrow> env \<Rightarrow> (('s, 'n) world, exn, unit) op option \<Rightarrow> string \<Rightarrow> string \<Rightarrow> jobject
    \<Rightarrow> (('s, 'n) world, exn, jobject) op" where
  "cs_claim_controller P E on_claimed session_id secret_hash payload =
     bindS (on_store (sp_get_state P)) (\<lambda>state.
     bindS (now_ts E) (\<lambda>now.
     bindS (of_result (controller_grant E payload (bs_reset_epoch state) now)) (\<lambda>grant.
     bindS (catch_conflict (on_store (sp_claim_controller P session_id secret_hash grant now))
         (\<lambda>reason. raise (claim_refusal reason))) (\<lambda>granted.
     bindS (case on_claimed of
         None \<Rightarrow> ret ()
       | Some callback \<Rightarrow> catchS callback (\<lambda>_. ret ())) (\<lambda>_.
     bindS (on_store (sp_get_state P)) (\<lambda>after.
       ret [(''controller'', JObj (ControllerGrant_to_dict granted)),
            (''state'', JObj (BootstrapState_to_dict after))]))))))"

section \<open>The use cases act through port calls\<close>

context host_env
begin

lemma step_authorizations:
  "framed (host_step P inv ids E) (cs_authorize P E sid code)"
  "framed (host_step P inv ids E) (cs_authorize_controller P cid)"
  "framed (host_step P inv ids E) (cs_require_authorized P E a)"
  "framed (host_step P inv ids E) (cs_require_admin P E a)"
  "framed (host_step P inv ids E) (cs_status P E a)"
proof -
  show "framed (host_step P inv ids E) (cs_authorize P E sid code)"
    unfolding cs_authorize_def Let_def
    by (cases sid; cases code) (auto intro!: step_rules)
  show "framed (host_step P inv ids E) (cs_authorize_controller P cid)"
    unfolding cs_authorize_controller_def by (cases cid) (auto intro!: step_rules)
  show required: "framed (host_step P inv ids E) (cs_require_authorized P E a)"
    unfolding cs_require_authorized_def by (cases a) (auto intro!: step_rules)
  then show "framed (host_step P inv ids E) (cs_require_admin P E a)"
    unfolding cs_require_admin_def by (cases a) (auto intro!: step_rules)
  show "framed (host_step P inv ids E) (cs_status P E a)"
    unfolding cs_status_def by (intro step_rules required)
qed

lemma step_network:
  "framed (host_step P inv ids E) (cs_scan_networks P N E a)"
  "framed (host_step P inv ids E) (cs_configure_network P N E a payload)"
  "framed (host_step P inv ids E) (cs_confirm_network P N E a i)"
  "framed (host_step P inv ids E) (cs_rollback_network P N E a i)"
proof -
  note auth = step_authorizations
  have update: "framed (host_step P inv ids E) (update_op P E x st n code)" for x st n code
    unfolding update_op_def by (intro step_rules)
  show "framed (host_step P inv ids E) (cs_scan_networks P N E a)"
    unfolding cs_scan_networks_def by (intro step_rules auth)
  have "framed (host_step P inv ids E) (cs_stage P N E req now)" for req now
    unfolding cs_stage_def by (intro step_rules update)
  moreover have "framed (host_step P inv ids E) (cs_staging_failed P E x n e)" for x n e
    unfolding cs_staging_failed_def
    by (auto split: option.split prod.split intro!: step_rules update)
  ultimately show "framed (host_step P inv ids E) (cs_configure_network P N E a payload)"
    unfolding cs_configure_network_def by (intro step_rules auth)
  show "framed (host_step P inv ids E) (cs_confirm_network P N E a i)"
    unfolding cs_confirm_network_def by (intro step_rules auth update)
  show "framed (host_step P inv ids E) (cs_rollback_network P N E a i)"
    unfolding cs_rollback_network_def by (intro step_rules auth update)
qed

lemma step_claim_use_case:
  assumes "\<And>cb. on_claimed = Some cb \<Longrightarrow> framed (host_step P inv ids E) cb"
  shows "framed (host_step P inv ids E) (cs_claim_controller P E on_claimed sid h payload)"
proof -
  have claim: "framed (host_step P inv ids E) (on_store (sp_claim_controller P sid h g now))"
    if "controller_grant E payload epoch now = Inr g" for epoch now g
    using controller_grant_named [OF that] by (intro step_claim)
  have tail: "framed (host_step P inv ids E)
      (bindS (case on_claimed of None \<Rightarrow> ret () | Some callback \<Rightarrow> catchS callback (\<lambda>_. ret ()))
        (\<lambda>_. bindS (on_store (sp_get_state P)) (\<lambda>after. ret (f after))))" for f :: "BootstrapState \<Rightarrow> jobject"
    by (intro step_rules assms)
  show ?thesis
    unfolding cs_claim_controller_def
    by (rule framed_bind [OF host_step_preorder(2)], rule step_calls,
        rule framed_bind [OF host_step_preorder(2) step_leaves(1)],
        rule framed_bind_result [OF host_step_preorder(1)],
        intro framed_bind host_step_preorder framed_catch_conflict framed_raise claim tail)
qed

lemma require_admin_ok:
  assumes "inv (w_store w)" and "cs_require_admin P E a w = (Inr u, w')"
  shows "w' = w \<and> (\<exists>g g'. a = ControllerAuthorization g
    \<and> authorized P (w_store w) (cg_controller_id g) = Some g' \<and> cg_public_key g' = cg_public_key g)"
proof (cases a)
  case (CommissioningAuthorization sid h)
  with assms(2) show ?thesis by (auto simp: cs_require_admin_def raise_def)
next
  case (ControllerAuthorization g)
  obtain x where x: "sp_get_controller P (cg_controller_id g) (w_store w) = (Inr x, w_store w)"
    using lookup_law [OF assms(1)] by blast
  obtain st where st: "sp_get_state P (w_store w) = (Inr st, w_store w)"
    using state_law [OF assms(1)] by blast
  have "on_store (sp_get_controller P (cg_controller_id g)) w = (Inr x, w)"
      "on_store (sp_get_state P) w = (Inr st, w)"
    using x st by (simp_all add: on_store_def)
  with assms(2) ControllerAuthorization show ?thesis
    by (auto simp: cs_require_admin_def cs_require_authorized_def bindS_def raise_def ret_def
        authorized_def x split: option.splits if_splits)
qed

end

section \<open>What touches the network\<close>

lemma net_same_authorizations:
  "framed net_same (cs_authorize P E sid code)"
  "framed net_same (cs_authorize_controller P cid)"
  "framed net_same (cs_require_authorized P E a)"
  "framed net_same (cs_require_admin P E a)"
  "framed net_same (cs_status P E a)"
proof -
  show "framed net_same (cs_authorize P E sid code)"
    unfolding cs_authorize_def Let_def
    by (cases sid; cases code) (auto intro!: net_same_rules)
  show "framed net_same (cs_authorize_controller P cid)"
    unfolding cs_authorize_controller_def by (cases cid) (auto intro!: net_same_rules)
  show required: "framed net_same (cs_require_authorized P E a)"
    unfolding cs_require_authorized_def by (cases a) (auto intro!: net_same_rules)
  then show "framed net_same (cs_require_admin P E a)"
    unfolding cs_require_admin_def by (cases a) (auto intro!: net_same_rules)
  show "framed net_same (cs_status P E a)"
    unfolding cs_status_def by (intro net_same_rules required)
qed

lemma net_same_scan:
  assumes "\<And>n. snd (net_scan N n) = n" and "\<And>n. snd (net_get_state N n) = n"
  shows "framed net_same (cs_scan_networks P N E a)"
proof -
  have "framed net_same (on_net (net_scan N))" "framed net_same (on_net (net_get_state N))"
    using assms by (simp_all add: framed_def net_same_def on_net_def case_prod_beta)
  then show ?thesis
    unfolding cs_scan_networks_def by (intro net_same_rules net_same_authorizations)
qed

lemma net_same_claim:
  assumes "\<And>cb. on_claimed = Some cb \<Longrightarrow> framed net_same cb"
  shows "framed net_same (cs_claim_controller P E on_claimed sid h payload)"
  unfolding cs_claim_controller_def by (intro net_same_rules framed_catch assms)

lemma net_change_passed_admin:
  assumes "m = bindS (cs_require_admin P E a) f" and "m w = (r, w')" and "\<not> net_same w w'"
  obtains u w1 where "cs_require_admin P E a w = (Inr u, w1)"
proof -
  obtain x w1 where admin: "cs_require_admin P E a w = (x, w1)" by (cases "cs_require_admin P E a w")
  have "net_same w w1" by (rule framedD [OF net_same_authorizations(4) admin])
  with assms admin that show thesis by (cases x) (auto simp: bindS_def)
qed

end
