(* ===== verification/Commissioning_Protocol.thy ===== *)
theory Commissioning_Protocol
  imports Commissioning Json_Text
begin

text \<open>
  The request protocol of one commissioning link, \<open>bootstrap/commissioning_protocol.py\<close>, and the
  signature check it shares with the LAN, \<open>bootstrap/controller_auth.py\<close>.
\<close>

section \<open>Controller signatures\<close>

definition BLE_CONTROLLER_AUTH_PURPOSE :: string where
  "BLE_CONTROLLER_AUTH_PURPOSE = ''eidolon-controller-ble-auth-v1''"

definition LOCAL_API_CONTROLLER_AUTH_PURPOSE :: string where
  "LOCAL_API_CONTROLLER_AUTH_PURPOSE = ''eidolon-controller-local-auth-v1''"

datatype sig_outcome = SigOk | SigInvalid string | SigRaises string

definition signed_message :: "string \<Rightarrow> string \<Rightarrow> string \<Rightarrow> int \<Rightarrow> bytes" where
  "signed_message controller_id challenge purpose reset_epoch = utf8 (json_dumps True (JObj
     [(''challenge'', JStr challenge), (''contract_version'', JStr ''1''),
      (''controller_id'', JStr controller_id), (''purpose'', JStr purpose),
      (''reset_epoch'', JInt reset_epoch)]))"

definition decode_signature_field :: "json \<Rightarrow> sig_outcome + bytes" where
  "decode_signature_field value =
     (case decode_base64url value of
        Inl B64Missing \<Rightarrow> Inl (SigInvalid ''Controller signature is required'')
      | Inl B64Malformed \<Rightarrow> Inl (SigInvalid ''Controller value is not base64url'')
      | Inl B64NotCanonical \<Rightarrow> Inl (SigInvalid ''Controller value is not canonical base64url'')
      | Inr bs \<Rightarrow> Inr bs)"

definition verify_controller_signature ::
  "env \<Rightarrow> ControllerGrant \<Rightarrow> string \<Rightarrow> string \<Rightarrow> int \<Rightarrow> json \<Rightarrow> sig_outcome" where
  "verify_controller_signature E grant challenge purpose reset_epoch signature_value =
     (case decode_signature_field signature_value of
        Inl bad \<Rightarrow> bad
      | Inr signature \<Rightarrow>
     (case decode_signature_field (JStr (cg_public_key grant)) of
        Inl bad \<Rightarrow> bad
      | Inr public_der \<Rightarrow>
     (case e_load_key E public_der of
        KeyInvalid \<Rightarrow> SigInvalid ''Controller signature is invalid''
      | KeyRaises what \<Rightarrow> SigRaises what
      | KeyOther \<Rightarrow> SigInvalid ''Controller key must be P-256''
      | KeyP256 \<Rightarrow>
          (if e_ecdsa_verify E public_der signature
                (signed_message (cg_controller_id grant) challenge purpose reset_epoch)
           then SigOk else SigInvalid ''Controller signature is invalid''))))"

section \<open>The link\<close>

record ('s, 'n) link =
  l_world :: "('s, 'n) world"
  l_authorization :: "access option"
  l_challenge :: "(string \<times> string \<times> int \<times> int) option"

definition on_world :: "(('s, 'n) world, exn, 'a) op \<Rightarrow> (('s, 'n) link, exn, 'a) op" where
  "on_world m l = (case m (l_world l) of (r, w) \<Rightarrow> (r, l\<lparr>l_world := w\<rparr>))"

definition set_authorization :: "access \<Rightarrow> (('s, 'n) link, exn, unit) op" where
  "set_authorization a l = (Inr (), l\<lparr>l_authorization := Some a\<rparr>)"

definition CHALLENGE_TTL :: int where
  "CHALLENGE_TTL = 60 * 1000000"

definition controller_rejected :: "string \<Rightarrow> exn" where
  "controller_rejected msg = Rejected ''controller_denied'' msg"

text \<open>Python's \<open>==\<close> between a JSON value and an integer: \<open>True\<close> is 1 and \<open>False\<close> is 0.\<close>

fun json_is_int :: "json \<Rightarrow> int \<Rightarrow> bool" where
  "json_is_int (JInt j) i = (j = i)"
| "json_is_int (JBool b) i = (i = (if b then 1 else 0))"
| "json_is_int _ i = False"

definition pr_authenticate_controller ::
  "'s store_port \<Rightarrow> env \<Rightarrow> jobject \<Rightarrow> (('s, 'n) link, exn, access) op" where
  "pr_authenticate_controller P E payload l =
     (let l1 = l\<lparr>l_challenge := None\<rparr>
      in case l_challenge l of
           None \<Rightarrow> (Inl (controller_rejected ''Controller challenge is missing or expired''), l1)
         | Some (controller_id, challenge, reset_epoch, expires) \<Rightarrow>
             bindS (on_world (reading (e_monotonic E))) (\<lambda>now.
               if expires \<le> now
               then raise (controller_rejected ''Controller challenge is missing or expired'')
               else if jget ''controller_id'' payload \<noteq> JStr controller_id
                  \<or> jget ''challenge'' payload \<noteq> JStr challenge
                  \<or> \<not> json_is_int (jget ''reset_epoch'' payload) reset_epoch
               then raise (controller_rejected ''Controller challenge does not match'')
               else bindS (on_world (cs_authorize_controller P (JStr controller_id))) (\<lambda>grant.
                 case verify_controller_signature E grant challenge BLE_CONTROLLER_AUTH_PURPOSE
                        reset_epoch (jget ''signature'' payload) of
                   SigOk \<Rightarrow> ret (ControllerAuthorization grant)
                 | SigInvalid _ \<Rightarrow> raise (controller_rejected ''Controller signature is invalid'')
                 | SigRaises what \<Rightarrow> raise (OtherExn what))) l1)"

definition pr_issue_challenge ::
  "'s store_port \<Rightarrow> env \<Rightarrow> jobject \<Rightarrow> (('s, 'n) link, exn, jobject) op" where
  "pr_issue_challenge P E payload =
     bindS (on_world (cs_authorize_controller P (jget ''controller_id'' payload))) (\<lambda>grant.
     bindS (on_world (reading (\<lambda>k. b64encode (e_token_bytes E k)))) (\<lambda>challenge.
     bindS (on_world (reading (e_monotonic E))) (\<lambda>now l.
       (let cid = the (as_str (jget ''controller_id'' payload))
        in (Inr [(''contract_version'', JStr ''1''), (''purpose'', JStr BLE_CONTROLLER_AUTH_PURPOSE),
                 (''controller_id'', JStr cid), (''challenge'', JStr challenge),
                 (''reset_epoch'', JInt (cg_reset_epoch grant))],
            l\<lparr>l_challenge := Some (cid, challenge, cg_reset_epoch grant, now + CHALLENGE_TTL)\<rparr>)))))"

definition validate_request_id :: "json \<Rightarrow> exn + unit" where
  "validate_request_id value =
     (case canonical_uuid value of
        Inr _ \<Rightarrow> Inr ()
      | Inl UuidNotCanonical \<Rightarrow>
          Inl (Rejected ''invalid_request'' ''request_id must use canonical UUID encoding'')
      | Inl _ \<Rightarrow> Inl (Rejected ''invalid_request'' ''request_id must be a UUID''))"

section \<open>Dispatch\<close>

text \<open>The operations of an authenticated session.\<close>

definition pr_authorized_dispatch ::
  "'s store_port \<Rightarrow> 'n net_port \<Rightarrow> env \<Rightarrow> (('s, 'n) world, exn, unit) op option
    \<Rightarrow> access \<Rightarrow> json \<Rightarrow> jobject \<Rightarrow> (('s, 'n) world, exn, jobject) op" where
  "pr_authorized_dispatch P N E on_claimed authorization operation payload =
     (if operation = JStr ''setup.status'' then cs_status P E authorization
      else if operation = JStr ''wifi.scan'' then cs_scan_networks P N E authorization
      else if operation = JStr ''wifi.configure'' then cs_configure_network P N E authorization payload
      else if operation = JStr ''wifi.confirm''
      then cs_confirm_network P N E authorization (jget ''operation_id'' payload)
      else if operation = JStr ''wifi.rollback''
      then cs_rollback_network P N E authorization (jget ''operation_id'' payload)
      else if operation = JStr ''claim.complete''
      then (case authorization of
              CommissioningAuthorization sid h \<Rightarrow> cs_claim_controller P E on_claimed sid h payload
            | ControllerAuthorization _ \<Rightarrow>
                raise (controller_rejected ''Initial credential is required to claim''))
      else raise (Rejected ''unknown_operation'' ''Unknown commissioning operation''))"

definition pr_dispatch ::
  "'s store_port \<Rightarrow> 'n net_port \<Rightarrow> env \<Rightarrow> (('s, 'n) world, exn, unit) op option
    \<Rightarrow> json \<Rightarrow> jobject \<Rightarrow> (('s, 'n) link, exn, jobject) op" where
  "pr_dispatch P N E on_claimed operation payload =
     (if operation = JStr ''session.authenticate'' then (\<lambda>l.
        (if l_authorization l \<noteq> None
         then (Inl (Rejected ''operation_conflict'' ''Session is already authenticated''), l)
         else bindS (on_world (cs_authorize P E (jget ''commissioning_id'' payload) (jget ''setup_code'' payload)))
                (\<lambda>a. bindS (set_authorization a) (\<lambda>_. on_world (cs_status P E a))) l))
      else if operation = JStr ''controller.challenge'' then pr_issue_challenge P E payload
      else if operation = JStr ''controller.authenticate''
      then bindS (pr_authenticate_controller P E payload) (\<lambda>a.
             bindS (set_authorization a) (\<lambda>_. on_world (cs_status P E a)))
      else (\<lambda>l. case l_authorization l of
              None \<Rightarrow> (Inl (Rejected ''commissioning_denied'' ''Authenticate this session first''), l)
            | Some a \<Rightarrow> on_world (pr_authorized_dispatch P N E on_claimed a operation payload) l))"

definition pr_request ::
  "'s store_port \<Rightarrow> 'n net_port \<Rightarrow> env \<Rightarrow> (('s, 'n) world, exn, unit) op option
    \<Rightarrow> jobject \<Rightarrow> (('s, 'n) link, exn, jobject) op" where
  "pr_request P N E on_claimed request =
     bindS (of_result (validate_request_id (jget ''request_id'' request))) (\<lambda>_.
       if jget ''contract_version'' request \<noteq> JStr ''1''
       then raise (Rejected ''unsupported_contract'' ''Unsupported commissioning contract'')
       else (case jget_default ''payload'' (JObj []) request of
               JObj payload \<Rightarrow> pr_dispatch P N E on_claimed (jget ''operation'' request) payload
             | _ \<Rightarrow> raise (Rejected ''invalid_request'' ''payload must be an object'')))"

definition retryable_codes :: "string list" where
  "retryable_codes = [''bootstrap_unavailable'', ''internal_error'', ''network_confirm_failed'',
     ''network_rollback_failed'', ''network_stage_failed'']"

definition error_response :: "json \<Rightarrow> string \<Rightarrow> string \<Rightarrow> bool \<Rightarrow> jobject" where
  "error_response request_id code message retryable =
     [(''contract_version'', JStr ''1''),
      (''request_id'', if is_jstr request_id then request_id else JNull),
      (''ok'', JBool False),
      (''error'', JObj [(''code'', JStr code), (''message'', JStr message), (''retryable'', JBool retryable)])]"

definition pr_handle ::
  "'s store_port \<Rightarrow> 'n net_port \<Rightarrow> env \<Rightarrow> (('s, 'n) world, exn, unit) op option
    \<Rightarrow> jobject \<Rightarrow> ('s, 'n) link \<Rightarrow> jobject \<times> ('s, 'n) link" where
  "pr_handle P N E on_claimed request l =
     (case pr_request P N E on_claimed request l of
        (Inr result, l1) \<Rightarrow>
          ([(''contract_version'', JStr ''1''), (''request_id'', jget ''request_id'' request),
            (''ok'', JBool True), (''result'', JObj result)], l1)
      | (Inl (Rejected code message), l1) \<Rightarrow>
          (error_response (jget ''request_id'' request) code message (code \<in> set retryable_codes), l1)
      | (Inl _, l1) \<Rightarrow>
          (error_response (jget ''request_id'' request) ''internal_error''
             ''The Host could not complete this Setup request'' True, l1))"

section \<open>What a request can do\<close>

lemma on_world_snd [simp]: "snd (on_world m l) = l\<lparr>l_world := snd (m (l_world l))\<rparr>"
  by (simp add: on_world_def case_prod_beta)

definition link_rel :: "(('s, 'n) world \<Rightarrow> ('s, 'n) world \<Rightarrow> bool) \<Rightarrow> ('s, 'n) link \<Rightarrow> ('s, 'n) link \<Rightarrow> bool"
  where
  "link_rel R l l' \<longleftrightarrow> R (l_world l) (l_world l')"

lemma link_rel_preorder: "reflp R \<Longrightarrow> reflp (link_rel R)" "transp R \<Longrightarrow> transp (link_rel R)"
  by (auto simp: link_rel_def reflp_def transp_def)

lemma link_rel_on_world: "framed R m \<Longrightarrow> framed (link_rel R) (on_world m)"
  by (simp add: framed_def link_rel_def)

lemma link_rel_local:
  assumes "reflp R"
  shows "framed (link_rel R) (set_authorization a)" and "framed (link_rel R) (of_result r)"
  using assms by (simp_all add: framed_def link_rel_def set_authorization_def of_result_def reflp_def)

text \<open>
  Every relation that the use cases respect is respected by a whole request: the link itself adds
  only its own authorization and challenge.
\<close>

lemma framed_request:
  fixes R :: "('s, 'n) world \<Rightarrow> ('s, 'n) world \<Rightarrow> bool"
  assumes R: "reflp R" "transp R"
    and authz: "\<And>sid code. framed R (cs_authorize P E sid code)"
      "\<And>cid. framed R (cs_authorize_controller P cid)" "\<And>a. framed R (cs_status P E a)"
      "\<And>f :: nat \<Rightarrow> int. framed R (reading f)" "\<And>f :: nat \<Rightarrow> string. framed R (reading f)"
    and dispatch: "\<And>a operation payload. l_authorization l = Some a \<Longrightarrow>
      R (l_world l) (snd (pr_authorized_dispatch P N E on_claimed a operation payload (l_world l)))"
  shows "R (l_world l) (l_world (snd (pr_request P N E on_claimed request l)))"
proof -
  note rules = framed_rules link_rel_preorder R link_rel_on_world link_rel_local authz
  have issue: "framed (link_rel R) (pr_issue_challenge P E payload)" for payload
    unfolding pr_issue_challenge_def
    by (intro rules framedI) (use R(1) in \<open>simp_all add: link_rel_def reflp_def Let_def\<close>)
  have auth: "framed (link_rel R) (pr_authenticate_controller P E payload)" for payload
  proof (rule framedI)
    fix l :: "('s, 'n) link"
    let ?rest = "\<lambda>cid ch ep ex. bindS (on_world (reading (e_monotonic E))) (\<lambda>now.
               if ex \<le> now
               then raise (controller_rejected ''Controller challenge is missing or expired'')
               else if jget ''controller_id'' payload \<noteq> JStr cid
                  \<or> jget ''challenge'' payload \<noteq> JStr ch
                  \<or> \<not> json_is_int (jget ''reset_epoch'' payload) ep
               then raise (controller_rejected ''Controller challenge does not match'')
               else bindS (on_world (cs_authorize_controller P (JStr cid))) (\<lambda>grant.
                 case verify_controller_signature E grant ch BLE_CONTROLLER_AUTH_PURPOSE
                        ep (jget ''signature'' payload) of
                   SigOk \<Rightarrow> ret (ControllerAuthorization grant)
                 | SigInvalid _ \<Rightarrow> raise (controller_rejected ''Controller signature is invalid'')
                 | SigRaises what \<Rightarrow> raise (OtherExn what)))"
    have "framed (link_rel R) (?rest cid ch ep ex)" for cid ch ep ex
      by (intro rules) (auto split: sig_outcome.split intro!: rules)
    then have "link_rel R (l\<lparr>l_challenge := None\<rparr>) (snd (?rest cid ch ep ex (l\<lparr>l_challenge := None\<rparr>)))"
      for cid ch ep ex by (simp add: framed_def)
    then show "link_rel R l (snd (pr_authenticate_controller P E payload l))"
      using R(1) by (simp add: pr_authenticate_controller_def Let_def link_rel_def reflp_def
          split: option.split prod.split)
  qed
  have "link_rel R l (snd (pr_dispatch P N E on_claimed operation payload l))" for operation payload
  proof -
    have "framed (link_rel R) (bindS (on_world (cs_authorize P E sid code))
        (\<lambda>a. bindS (set_authorization a) (\<lambda>_. on_world (cs_status P E a))))" for sid code
      by (intro rules)
    moreover have "framed (link_rel R) (bindS (pr_authenticate_controller P E payload) (\<lambda>a.
        bindS (set_authorization a) (\<lambda>_. on_world (cs_status P E a))))"
      by (intro rules auth)
    ultimately show ?thesis
      using issue [of payload] dispatch R(1)
      by (simp add: pr_dispatch_def framed_def link_rel_def reflp_def split: option.split)
  qed
  then show ?thesis
    using R(1)
    by (simp add: pr_request_def bindS_def of_result_def raise_def link_rel_def reflp_def
        split: sum.split json.split)
qed

locale commissioning_host = host_env P inv E ids
  for P :: "'s store_port" and inv :: "'s \<Rightarrow> bool" and E :: env and ids :: "'s \<Rightarrow> string set" +
  fixes N :: "'n net_port" and on_claimed :: "(('s, 'n) world, exn, unit) op option"
  assumes reads_network: "snd (net_scan N n) = n" "snd (net_get_state N n) = n"
    and callback_step: "on_claimed = Some cb \<Longrightarrow> framed (host_step P inv ids E) cb"
    and callback_net: "on_claimed = Some cb \<Longrightarrow> framed net_same cb"
begin

lemma dispatch_step:
  "framed (host_step P inv ids E) (pr_authorized_dispatch P N E on_claimed a operation payload)"
  unfolding pr_authorized_dispatch_def
  by (cases a) (auto intro!: step_authorizations step_network step_claim_use_case callback_step
      framed_raise host_step_preorder)

lemma handle_step:
  "host_step P inv ids E (l_world l) (l_world (snd (pr_handle P N E on_claimed request l)))"
proof -
  have "snd (pr_handle P N E on_claimed request l) = snd (pr_request P N E on_claimed request l)"
    by (auto simp: pr_handle_def split: prod.split sum.split exn.split)
  moreover have "host_step P inv ids E (l_world l) (l_world (snd (pr_request P N E on_claimed request l)))"
  proof (rule framed_request)
    fix a operation payload
    show "host_step P inv ids E (l_world l)
        (snd (pr_authorized_dispatch P N E on_claimed a operation payload (l_world l)))"
      using dispatch_step by (simp add: framed_def)
  qed (rule host_step_preorder step_authorizations step_leaves)+
  ultimately show ?thesis by simp
qed

lemma dispatch_net:
  assumes inv: "inv (w_store w)" and change: "\<not> net_same w (snd (pr_authorized_dispatch P N E on_claimed a operation payload w))"
  shows "\<exists>g g'. a = ControllerAuthorization g
    \<and> authorized P (w_store w) (cg_controller_id g) = Some g' \<and> cg_public_key g' = cg_public_key g"
proof -
  let ?m = "pr_authorized_dispatch P N E on_claimed a operation payload"
  have quiet: "framed net_same m \<Longrightarrow> ?m = m \<Longrightarrow> False" for m
    using change by (simp add: framed_def)
  have admin: ?thesis if shape: "?m = bindS (cs_require_admin P E a) f" for f
  proof -
    obtain u w1 where "cs_require_admin P E a w = (Inr u, w1)"
      using net_change_passed_admin [OF shape, of w "fst (?m w)" "snd (?m w)"] change by auto
    from require_admin_ok [OF inv this] show ?thesis by blast
  qed
  consider "operation = JStr ''wifi.configure''" | "operation = JStr ''wifi.confirm''"
    | "operation = JStr ''wifi.rollback''"
    | "operation \<noteq> JStr ''wifi.configure''" "operation \<noteq> JStr ''wifi.confirm''" "operation \<noteq> JStr ''wifi.rollback''"
    by blast
  then show ?thesis
  proof cases
    case 4
    have "framed net_same ?m"
      unfolding pr_authorized_dispatch_def
      by (cases a) (use 4 in \<open>auto intro!: net_same_authorizations net_same_scan net_same_claim callback_net
        reads_network framed_raise net_same_preorder\<close>)
    with quiet show ?thesis by blast
  qed (rule admin; simp add: pr_authorized_dispatch_def cs_configure_network_def cs_confirm_network_def
         cs_rollback_network_def)+
qed

lemma network_needs_admin:
  assumes inv: "inv (w_store (l_world l))"
    and change: "w_net (l_world (snd (pr_handle P N E on_claimed request l))) \<noteq> w_net (l_world l)"
  shows "\<exists>g g'. l_authorization l = Some (ControllerAuthorization g)
    \<and> authorized P (w_store (l_world l)) (cg_controller_id g) = Some g' \<and> cg_public_key g' = cg_public_key g"
proof (rule ccontr)
  assume none: "\<not> ?thesis"
  have "snd (pr_handle P N E on_claimed request l) = snd (pr_request P N E on_claimed request l)"
    by (auto simp: pr_handle_def split: prod.split sum.split exn.split)
  moreover have "net_same (l_world l) (l_world (snd (pr_request P N E on_claimed request l)))"
  proof (rule framed_request)
    fix a operation payload assume "l_authorization l = Some a"
    with none dispatch_net [OF inv, of a operation payload]
    show "net_same (l_world l) (snd (pr_authorized_dispatch P N E on_claimed a operation payload (l_world l)))"
      by blast
  qed (auto intro: net_same_preorder net_same_authorizations net_same_reading)
  ultimately show False using change by (simp add: net_same_def)
qed

end

end
