(* ===== verification/Host_Service.thy ===== *)
theory Host_Service
  imports Addresses Commissioning_Protocol
begin

text \<open>
  The early-boot application service, \<open>bootstrap/service.py\<close>: the claim windows this Host stands
  up by itself, the codes an operator mints, the recovery window, LAN authentication of
  Controllers, and the signed endpoint a phone reads before it can authenticate anything.
\<close>

section \<open>What the service runs on\<close>

text \<open>
  \<open>path.read_text(encoding="utf-8")\<close> on the factory code: \<open>FileNotFoundError\<close>, another
  \<open>OSError\<close>, bytes that are not UTF-8 (a \<open>ValueError\<close>), or the text.
\<close>

datatype file_text = FileMissing | FileUnreadable | FileNotUtf8 | FileText string

text \<open>
  The Host around the service. \<open>h_identity_load\<close> is what loading the Host key and the TLS identity
  at startup does; \<open>h_sign\<close> is Ed25519 with the Host key; \<open>h_factory_file k\<close>, \<open>h_interfaces k\<close> and
  \<open>h_randbelow k\<close> are the factory code file, the interface report and the random draws as the
  \<open>k\<close>-th reading finds them; \<open>h_later ttl k\<close> is the \<open>k\<close>-th clock reading plus \<open>ttl\<close> seconds;
  \<open>h_draws\<close> bounds the draws followed for one Setup code; \<open>h_message\<close> and \<open>h_repr\<close> are the texts
  the interpreter itself puts into a message.
\<close>

record host =
  h_settings :: BootstrapSettings
  h_env :: env
  h_identity :: HostIdentity
  h_identity_load :: "exn + unit"
  h_sign :: "bytes \<Rightarrow> bytes"
  h_tls_spki_fingerprint :: string
  h_interfaces :: "nat \<Rightarrow> if_entry list list option"
  h_product_link :: "ipv4 \<Rightarrow> bool"
  h_factory_file :: "nat \<Rightarrow> file_text"
  h_randbelow :: "nat \<Rightarrow> nat \<Rightarrow> nat"
  h_draws :: nat
  h_later :: "int \<Rightarrow> nat \<Rightarrow> timestamp"
  h_pid :: int
  h_message :: "string \<Rightarrow> string"
  h_repr :: "json \<Rightarrow> string"

definition op_rejected :: "string \<Rightarrow> exn" where
  "op_rejected msg = Refused ''BootstrapOperationRejected'' msg"

definition auth_rejected :: "string \<Rightarrow> exn" where
  "auth_rejected msg = Refused ''ControllerAuthenticationRejected'' msg"

definition setup_hash :: "host \<Rightarrow> string \<Rightarrow> string" where
  "setup_hash H code = e_sha256_hex (h_env H) (utf8 code)"

definition sign_mapping :: "host \<Rightarrow> jobject \<Rightarrow> string" where
  "sign_mapping H value = b64encode (h_sign H (utf8 (json_dumps False (JObj value))))"

section \<open>Claim windows\<close>

definition hs_read_factory_setup_code :: "host \<Rightarrow> (('s, 'n) world, exn, string option) op" where
  "hs_read_factory_setup_code H =
     bindS (reading (h_factory_file H)) (\<lambda>file.
       case file of
         FileMissing \<Rightarrow> ret None
       | FileUnreadable \<Rightarrow> ret None
       | FileNotUtf8 \<Rightarrow> raise (OtherExn ''UnicodeDecodeError'')
       | FileText text \<Rightarrow>
           (let code = py_strip text
            in if \<not> is_usable_setup_code code then ret None else ret (Some code)))"

definition hs_mint_window ::
  "'s store_port \<Rightarrow> host \<Rightarrow> string \<Rightarrow> (('s, 'n) world, exn, jobject) op" where
  "hs_mint_window P H setup_code =
     bindS (now_ts (h_env H)) (\<lambda>now.
     bindS (reading (e_uuid4 (h_env H))) (\<lambda>session_id.
     bindS (on_store (sp_issue_commissioning_session P session_id (setup_hash H setup_code) now None)) (\<lambda>_.
       ret [(''host_id'', JStr (hi_host_id (h_identity H))), (''commissioning_id'', JStr session_id),
            (''setup_code'', JStr setup_code), (''issued_at'', JStr now), (''expires_at'', JNull)])))"

definition window_standing :: "CommissioningSessionMetadata option \<Rightarrow> timestamp \<Rightarrow> bool" where
  "window_standing session now = (case session of None \<Rightarrow> False | Some s \<Rightarrow> is_open s now)"

definition hs_open_factory_window ::
  "'s store_port \<Rightarrow> host \<Rightarrow> timestamp \<Rightarrow> (('s, 'n) world, exn, unit) op" where
  "hs_open_factory_window P H now =
     bindS (hs_read_factory_setup_code H) (\<lambda>code.
       case code of
         None \<Rightarrow> ret ()
       | Some c \<Rightarrow>
           bindS (if st_claim_window (h_settings H) \<noteq> ALWAYS_OPEN
                  then bindS (on_store (sp_get_state P)) (\<lambda>state. ret (bs_claim_state state \<noteq> UNCLAIMED))
                  else ret False) (\<lambda>owned.
             if owned then ret ()
             else bindS (on_store (sp_latest_commissioning_session P)) (\<lambda>session.
               if window_standing session now then ret ()
               else bindS (hs_mint_window P H c) (\<lambda>_. ret ()))))"

definition hs_reopen_standing_claim_window ::
  "'s store_port \<Rightarrow> host \<Rightarrow> (('s, 'n) world, exn, unit) op" where
  "hs_reopen_standing_claim_window P H =
     (if st_claim_window (h_settings H) \<noteq> ALWAYS_OPEN then ret ()
      else bindS (now_ts (h_env H)) (\<lambda>now.
           bindS (on_store (sp_latest_commissioning_session P)) (\<lambda>session.
             if window_standing session now then ret ()
             else bindS (hs_read_factory_setup_code H) (\<lambda>code.
               case code of
                 None \<Rightarrow> ret ()
               | Some c \<Rightarrow> bindS (hs_mint_window P H c) (\<lambda>_. ret ())))))"

text \<open>\<open>generate_setup_code()\<close>: the draws this reading finds, at most \<open>h_draws\<close> of them.\<close>

definition hs_draw_setup_code :: "host \<Rightarrow> (('s, 'n) world, exn, string) op" where
  "hs_draw_setup_code H =
     bindS (reading (\<lambda>k. generate_setup_code (h_draws H) (h_randbelow H k) 0)) (\<lambda>drawn.
       case drawn of None \<Rightarrow> raise (OtherExn ''drawing'') | Some code \<Rightarrow> ret code)"

definition hs_issue_setup_code ::
  "'s store_port \<Rightarrow> host \<Rightarrow> int option \<Rightarrow> string option \<Rightarrow> (('s, 'n) world, exn, jobject) op" where
  "hs_issue_setup_code P H ttl_seconds setup_code =
     (case setup_code of
        None \<Rightarrow> bindS (hs_draw_setup_code H) (hs_mint_window P H)
      | Some code \<Rightarrow>
          (if \<not> is_usable_setup_code code
           then raise (op_rejected (''setup_code must be a usable 8-digit Setup code: ''
             @ ''digits only, not all the same, and not the plain run up or down''))
           else hs_mint_window P H code))"

definition hs_active_setup_session ::
  "'s store_port \<Rightarrow> host \<Rightarrow> (('s, 'n) world, exn, json) op" where
  "hs_active_setup_session P H =
     bindS (on_store (sp_latest_commissioning_session P)) (\<lambda>session.
       case session of
         None \<Rightarrow> ret JNull
       | Some s \<Rightarrow>
           bindS (now_ts (h_env H)) (\<lambda>now.
             if \<not> is_open s now then ret JNull
             else ret (JObj [(''commissioning_id'', JStr (cs_session_id s)), (''expires_at'', jopt (cs_expires_at s))])))"

definition hs_setup_session_status :: "'s store_port \<Rightarrow> (('s, 'n) world, exn, jobject) op" where
  "hs_setup_session_status P =
     bindS (on_store (sp_latest_commissioning_session P)) (\<lambda>session.
       ret [(''current'', case session of None \<Rightarrow> JNull | Some s \<Rightarrow> JObj (CommissioningSession_to_dict s))])"

section \<open>Recovery and reset\<close>

definition RECOVERY_WINDOW_TTL_SECONDS :: int where
  "RECOVERY_WINDOW_TTL_SECONDS = 900"

text \<open>\<open>ttl_seconds or RECOVERY_WINDOW_TTL_SECONDS\<close>: zero counts as not given.\<close>

definition recovery_ttl :: "int option \<Rightarrow> int" where
  "recovery_ttl ttl_seconds = (case ttl_seconds of
     None \<Rightarrow> RECOVERY_WINDOW_TTL_SECONDS
   | Some t \<Rightarrow> if t = 0 then RECOVERY_WINDOW_TTL_SECONDS else t)"

definition active_in :: "int \<Rightarrow> ControllerGrant \<Rightarrow> bool" where
  "active_in epoch g \<longleftrightarrow> cg_revoked_at g = None \<and> cg_reset_epoch g = epoch"

definition recovery_answer ::
  "host \<Rightarrow> BootstrapState \<Rightarrow> BootstrapState \<Rightarrow> ControllerGrant list \<Rightarrow> jobject \<Rightarrow> jobject" where
  "recovery_answer H before after revoked session =
     [(''host_id'', JStr (hi_host_id (h_identity H))),
      (''before'', JObj (BootstrapState_to_dict before)), (''after'', JObj (BootstrapState_to_dict after)),
      (''revoked_controllers'', JList (map (\<lambda>g. JStr (cg_controller_id g)) revoked)),
      (''setup_session'', JObj session),
      (''preserved'', JList [JStr ''host_identity'', JStr ''network_profiles'', JStr ''component_data''])]"

definition hs_open_controller_recovery_window ::
  "'s store_port \<Rightarrow> host \<Rightarrow> int option \<Rightarrow> (('s, 'n) world, exn, jobject) op" where
  "hs_open_controller_recovery_window P H ttl_seconds =
     (let ttl = recovery_ttl ttl_seconds
      in if \<not> (60 \<le> ttl \<and> ttl \<le> 86400)
         then raise (op_rejected ''ttl_seconds must be between 60 and 86400'')
         else bindS (on_store (sp_get_state P)) (\<lambda>before.
              bindS (on_store (sp_list_controllers P)) (\<lambda>controllers.
              bindS (reading (\<lambda>k. (e_clock (h_env H) k, h_later H ttl k))) (\<lambda>(now, expires).
              bindS (hs_draw_setup_code H) (\<lambda>setup_code.
              bindS (reading (e_uuid4 (h_env H))) (\<lambda>session_id.
              bindS (on_store (sp_reset_authority P (bs_network_state before) now (Some
                  \<lparr>seed_session_id = session_id, seed_secret_hash = setup_hash H setup_code,
                   seed_expires_at = Some expires\<rparr>))) (\<lambda>after.
                ret (recovery_answer H before after (filter (active_in (bs_reset_epoch before)) controllers)
                  [(''host_id'', JStr (hi_host_id (h_identity H))), (''commissioning_id'', JStr session_id),
                   (''setup_code'', JStr setup_code), (''issued_at'', JStr now), (''expires_at'', JStr expires)]))))))))"

definition hs_reconcile_network_state ::
  "'s store_port \<Rightarrow> host \<Rightarrow> NetworkState \<Rightarrow> (('s, 'n) world, exn, unit) op" where
  "hs_reconcile_network_state P H network_state =
     bindS (now_ts (h_env H)) (\<lambda>now. on_store (sp_reconcile_network_state P network_state now))"

text \<open>
  The branch of the reset that clears saved Wi-Fi profiles. When clearing fails the state the
  network is left in is recorded if it can be read, and the refusal says the rest was done.
\<close>

definition hs_forget_profiles ::
  "'s store_port \<Rightarrow> 'n net_port \<Rightarrow> host \<Rightarrow> (('s, 'n) world, exn, BootstrapState) op" where
  "hs_forget_profiles P N H =
     bindS (catch_net (on_net (net_forget_all_wifi_profiles N)) (\<lambda>_.
       bindS (catch_net
         (bindS (on_net (net_get_state N)) (\<lambda>current. hs_reconcile_network_state P H (np_state current)))
         (\<lambda>_. ret ())) (\<lambda>_.
       raise (op_rejected ''claim reset completed, but saved Wi-Fi profiles could not be cleared'')))) (\<lambda>network.
     bindS (hs_reconcile_network_state P H (np_state network)) (\<lambda>_. on_store (sp_get_state P)))"

definition hs_reset_development_state ::
  "'s store_port \<Rightarrow> 'n net_port option \<Rightarrow> host \<Rightarrow> bool \<Rightarrow> (('s, 'n) world, exn, jobject) op" where
  "hs_reset_development_state P network H forget_wifi_profiles =
     (if st_mode (h_settings H) \<noteq> DEVELOPMENT
      then raise (op_rejected ''development reset is disabled in production'')
      else (case network of
        None \<Rightarrow> raise (op_rejected ''development reset requires a network provisioning adapter'')
      | Some N \<Rightarrow>
          bindS (catch_net (on_net (net_get_state N)) (\<lambda>_.
            raise (op_rejected ''development reset could not read the current network state''))) (\<lambda>current.
          bindS (on_store (sp_get_state P)) (\<lambda>before.
          bindS (now_ts (h_env H)) (\<lambda>now.
          bindS (on_store (sp_reset_authority P (np_state current) now None)) (\<lambda>reset.
          bindS (if forget_wifi_profiles then hs_forget_profiles P N H else ret reset) (\<lambda>after.
          bindS (hs_active_setup_session P H) (\<lambda>setup.
            ret [(''host_id'', JStr (hi_host_id (h_identity H))),
                 (''before'', JObj (BootstrapState_to_dict before)), (''after'', JObj (BootstrapState_to_dict after)),
                 (''forgot_wifi_profiles'', JBool forget_wifi_profiles), (''setup_session'', setup)]))))))))"

section \<open>The endpoint\<close>

text \<open>As many addresses, from the front, as one characteristic read can carry with the signature.\<close>

definition endpoint_with :: "host \<Rightarrow> jobject \<Rightarrow> string list \<Rightarrow> jobject" where
  "endpoint_with H unsigned addresses =
     (let filled = dict_set ''local_api_base_urls'' (JList (map JStr addresses)) unsigned
      in dict_set ''signature'' (JStr (sign_mapping H filled)) filled)"

fun addresses_that_fit :: "host \<Rightarrow> jobject \<Rightarrow> string list \<Rightarrow> string list \<Rightarrow> string list" where
  "addresses_that_fit H unsigned admitted [] = admitted"
| "addresses_that_fit H unsigned admitted (address # rest) =
     (if endpoint_size (endpoint_with H unsigned (admitted @ [address])) > GATT_MAX_ATTRIBUTE_BYTES
      then admitted
      else addresses_that_fit H unsigned (admitted @ [address]) rest)"

definition unsigned_endpoint :: "host \<Rightarrow> int \<Rightarrow> json \<Rightarrow> jobject" where
  "unsigned_endpoint H reset_epoch setup_session =
     [(''contract_version'', JStr ''1''), (''purpose'', JStr ''eidolon-ble-commissioning-endpoint-v1''),
      (''host_public_key'', JStr (hi_public_key (h_identity H))), (''reset_epoch'', JInt reset_epoch),
      (''tls_spki_fingerprint'', JStr (h_tls_spki_fingerprint H)), (''setup_session'', setup_session),
      (''local_api_base_urls'', JList [])]"

definition hs_commissioning_endpoint ::
  "'s store_port \<Rightarrow> host \<Rightarrow> (('s, 'n) world, exn, jobject) op" where
  "hs_commissioning_endpoint P H =
     bindS (on_store (sp_get_state P)) (\<lambda>state.
     bindS (hs_active_setup_session P H) (\<lambda>setup.
     bindS (reading (\<lambda>k. local_api_base_urls (st_local_api_port (h_settings H)) (h_product_link H) (h_interfaces H k))) (\<lambda>urls.
       (let unsigned = unsigned_endpoint H (bs_reset_epoch state) setup
        in ret (endpoint_with H unsigned (addresses_that_fit H unsigned [] urls))))))"

section \<open>Controllers over the LAN\<close>

definition not_authorized_here :: exn where
  "not_authorized_here = auth_rejected ''Controller is not authorized for this Host''"

definition hs_active_controller ::
  "'s store_port \<Rightarrow> json \<Rightarrow> (('s, 'n) world, exn, ControllerGrant) op" where
  "hs_active_controller P controller_id =
     (case controller_id of
        JStr cid \<Rightarrow>
          (if \<not> is_controller_id cid then raise not_authorized_here
           else bindS (on_store (sp_get_controller P cid)) (\<lambda>grant.
                bindS (on_store (sp_get_state P)) (\<lambda>state.
                  case grant of
                    None \<Rightarrow> raise not_authorized_here
                  | Some g \<Rightarrow>
                      (if cg_revoked_at g \<noteq> None \<or> cg_reset_epoch g \<noteq> bs_reset_epoch state
                          \<or> cg_role g \<noteq> HOST_ADMIN
                       then raise not_authorized_here else ret g))))
      | _ \<Rightarrow> raise not_authorized_here)"

definition controller_principal :: "ControllerGrant \<Rightarrow> jobject" where
  "controller_principal g =
     [(''contract_version'', JStr ''1''), (''controller_id'', JStr (cg_controller_id g)),
      (''role'', JStr (ControllerRole_value (cg_role g))), (''display_name'', JStr (cg_display_name g)),
      (''platform'', JStr (cg_platform g)), (''reset_epoch'', JInt (cg_reset_epoch g))]"

definition hs_validate_controller ::
  "'s store_port \<Rightarrow> json \<Rightarrow> json \<Rightarrow> (('s, 'n) world, exn, jobject) op" where
  "hs_validate_controller P controller_id reset_epoch =
     bindS (hs_active_controller P controller_id) (\<lambda>grant.
       if \<not> json_is_int reset_epoch (cg_reset_epoch grant)
       then raise (auth_rejected ''Controller session is no longer authorized'')
       else ret (controller_principal grant))"

definition hs_list_controllers ::
  "'s store_port \<Rightarrow> json \<Rightarrow> (('s, 'n) world, exn, jobject) op" where
  "hs_list_controllers P controller_id =
     bindS (hs_active_controller P controller_id) (\<lambda>_.
     bindS (on_store (sp_get_state P)) (\<lambda>state.
     bindS (on_store (sp_list_controllers P)) (\<lambda>grants.
       ret [(''controllers'', JList (map (\<lambda>g. JObj (ControllerGrant_to_dict g))
         (filter (active_in (bs_reset_epoch state)) grants)))])))"

text \<open>A target that is not text equals no Controller id, which the store answers as a conflict.\<close>

definition hs_revoke_controller ::
  "'s store_port \<Rightarrow> host \<Rightarrow> json \<Rightarrow> json \<Rightarrow> (('s, 'n) world, exn, jobject) op" where
  "hs_revoke_controller P H controller_id target_id =
     bindS (hs_active_controller P controller_id) (\<lambda>_.
     bindS (now_ts (h_env H)) (\<lambda>now.
     bindS (catch_conflict
       (case target_id of
          JStr target \<Rightarrow> on_store (sp_revoke_controller P target now)
        | _ \<Rightarrow> raise (StoreExn (Conflict ''controller is not authorized for this Host'')))
       (\<lambda>msg. raise (op_rejected msg))) (\<lambda>revoked.
       ret [(''controller'', JObj (ControllerGrant_to_dict revoked))])))"

definition hs_claim_lan_controller ::
  "'s store_port \<Rightarrow> 'n net_port option \<Rightarrow> host \<Rightarrow> json \<Rightarrow> json \<Rightarrow> jobject \<Rightarrow> (('s, 'n) world, exn, jobject) op" where
  "hs_claim_lan_controller P network H commissioning_id setup_code controller =
     (case network of
        None \<Rightarrow> raise (op_rejected ''LAN commissioning requires a network adapter'')
      | Some _ \<Rightarrow>
          bindS (cs_authorize P (h_env H) commissioning_id setup_code) (\<lambda>authorization.
            case authorization of
              CommissioningAuthorization sid secret_hash \<Rightarrow>
                bindS (cs_claim_controller P (h_env H) (Some (hs_reopen_standing_claim_window P H))
                    sid secret_hash controller) (\<lambda>result.
                  ret ([(''contract_version'', JStr ''1''), (''operation'', JStr ''local.lan-commissioning-claim''),
                        (''host_id'', JStr (hi_host_id (h_identity H)))] @ result))
            | ControllerAuthorization _ \<Rightarrow> raise (OtherExn ''AttributeError'')))"

section \<open>The state of the running service\<close>

text \<open>
  \<open>_controller_challenges\<close> maps a challenge to the Controller it was issued to, its epoch and the
  instant of the monotonic clock (in microseconds) at which it expires.
\<close>

type_synonym challenges = "(string \<times> (string \<times> int \<times> int)) list"

record ('s, 'n) service =
  sv_world :: "('s, 'n) world"
  sv_run_id :: "string option"
  sv_started_at :: "string option"
  sv_commissioning_status :: string
  sv_challenges :: challenges

definition service_new :: "host \<Rightarrow> ('s, 'n) world \<Rightarrow> ('s, 'n) service" where
  "service_new H w = \<lparr>sv_world = w, sv_run_id = None, sv_started_at = None,
     sv_commissioning_status = (if st_commissioning_adapter (h_settings H) = DISABLED then ''disabled'' else ''starting''),
     sv_challenges = []\<rparr>"

definition on_sv :: "(('s, 'n) world, exn, 'a) op \<Rightarrow> (('s, 'n) service, exn, 'a) op" where
  "on_sv m v = (case m (sv_world v) of (r, w) \<Rightarrow> (r, v\<lparr>sv_world := w\<rparr>))"

definition purge_challenges :: "int \<Rightarrow> challenges \<Rightarrow> challenges" where
  "purge_challenges now cs = filter (\<lambda>(_, _, _, expires_at). \<not> expires_at \<le> now) cs"

definition pop_challenge :: "string \<Rightarrow> challenges \<Rightarrow> challenges" where
  "pop_challenge challenge cs = filter (\<lambda>(c, _). c \<noteq> challenge) cs"

definition expiry :: "string \<times> (string \<times> int \<times> int) \<Rightarrow> int" where
  "expiry = (\<lambda>(_, _, _, expires_at). expires_at)"

text \<open>\<open>min(..., key=...)\<close>: the first entry whose expiry is least.\<close>

fun earliest :: "string \<times> (string \<times> int \<times> int) \<Rightarrow> challenges \<Rightarrow> string \<times> (string \<times> int \<times> int)" where
  "earliest m [] = m"
| "earliest m (x # xs) = earliest (if expiry x < expiry m then x else m) xs"

definition make_room :: "challenges \<Rightarrow> challenges" where
  "make_room cs =
     (if length cs \<ge> 256
      then (case cs of [] \<Rightarrow> [] | x # xs \<Rightarrow> pop_challenge (fst (earliest x xs)) cs) else cs)"

definition hs_issue_controller_challenge ::
  "'s store_port \<Rightarrow> host \<Rightarrow> json \<Rightarrow> (('s, 'n) service, exn, jobject) op" where
  "hs_issue_controller_challenge P H controller_id =
     bindS (on_sv (hs_active_controller P controller_id)) (\<lambda>grant.
     bindS (on_sv (reading (e_monotonic (h_env H)))) (\<lambda>now.
     bindS (on_sv (reading (\<lambda>k. b64encode (e_token_bytes (h_env H) k)))) (\<lambda>challenge v.
       (Inr [(''contract_version'', JStr ''1''), (''purpose'', JStr LOCAL_API_CONTROLLER_AUTH_PURPOSE),
             (''controller_id'', JStr (cg_controller_id grant)), (''challenge'', JStr challenge),
             (''reset_epoch'', JInt (cg_reset_epoch grant))],
        v\<lparr>sv_challenges := dict_set challenge (cg_controller_id grant, cg_reset_epoch grant, now + CHALLENGE_TTL)
            (make_room (purge_challenges now (sv_challenges v)))\<rparr>))))"

definition lan_challenge_lost :: exn where
  "lan_challenge_lost = auth_rejected ''Controller challenge is missing or expired''"

text \<open>Taking the challenge out of the table, whatever becomes of the request.\<close>

definition hs_take_challenge ::
  "host \<Rightarrow> string \<Rightarrow> (('s, 'n) service, exn, string \<times> int) op" where
  "hs_take_challenge H challenge =
     bindS (on_sv (reading (e_monotonic (h_env H)))) (\<lambda>now v.
       (let live = purge_challenges now (sv_challenges v);
            v1 = v\<lparr>sv_challenges := pop_challenge challenge live\<rparr>
        in case map_of live challenge of
             None \<Rightarrow> (Inl lan_challenge_lost, v1)
           | Some (controller_id, reset_epoch, expires_at) \<Rightarrow>
               (if expires_at \<le> now then (Inl lan_challenge_lost, v1)
                else (Inr (controller_id, reset_epoch), v1))))"

definition hs_check_proof ::
  "'s store_port \<Rightarrow> host \<Rightarrow> jobject \<Rightarrow> string \<Rightarrow> string \<Rightarrow> int \<Rightarrow> (('s, 'n) world, exn, jobject) op" where
  "hs_check_proof P H payload challenge controller_id reset_epoch =
     (if jget ''contract_version'' payload \<noteq> JStr ''1''
         \<or> jget ''purpose'' payload \<noteq> JStr LOCAL_API_CONTROLLER_AUTH_PURPOSE
         \<or> jget ''controller_id'' payload \<noteq> JStr controller_id
         \<or> \<not> json_is_int (jget ''reset_epoch'' payload) reset_epoch
      then raise (auth_rejected ''Controller challenge does not match'')
      else bindS (hs_active_controller P (JStr controller_id)) (\<lambda>grant.
        case verify_controller_signature (h_env H) grant challenge LOCAL_API_CONTROLLER_AUTH_PURPOSE
               reset_epoch (jget ''signature'' payload) of
          SigOk \<Rightarrow> ret (controller_principal grant)
        | SigInvalid _ \<Rightarrow> raise (auth_rejected ''Controller signature is invalid'')
        | SigRaises what \<Rightarrow> raise (OtherExn what)))"

definition hs_authenticate_controller ::
  "'s store_port \<Rightarrow> host \<Rightarrow> json \<Rightarrow> (('s, 'n) service, exn, jobject) op" where
  "hs_authenticate_controller P H proof_value =
     (case proof_value of
        JObj payload \<Rightarrow>
          (case jget ''challenge'' payload of
             JStr challenge \<Rightarrow>
               bindS (hs_take_challenge H challenge) (\<lambda>(controller_id, reset_epoch).
                 on_sv (hs_check_proof P H payload challenge controller_id reset_epoch))
           | _ \<Rightarrow> raise (auth_rejected ''Controller proof is invalid''))
      | _ \<Rightarrow> raise (auth_rejected ''Controller proof is invalid''))"

section \<open>Lifecycle, description and proof of the Host\<close>

text \<open>\<open>boot\<close> is \<open>open\<close> followed by \<open>initialize(now)\<close> of the store adapter.\<close>

definition hs_initialize ::
  "'s store_port \<Rightarrow> (timestamp \<Rightarrow> ('s, store_error, unit) op) \<Rightarrow> host \<Rightarrow> (('s, 'n) service, exn, unit) op" where
  "hs_initialize P boot H =
     bindS (on_sv (now_ts (h_env H))) (\<lambda>now.
     bindS (on_sv (on_store (boot now))) (\<lambda>_.
     bindS (of_result (h_identity_load H)) (\<lambda>_.
     bindS (on_sv (on_store (sp_fail_interrupted_operations P now))) (\<lambda>_.
     bindS (on_sv (hs_open_factory_window P H now)) (\<lambda>_.
     bindS (on_sv (reading (e_uuid4 (h_env H)))) (\<lambda>run_id v.
       (Inr (), v\<lparr>sv_run_id := Some run_id, sv_started_at := Some now\<rparr>)))))))"

definition hs_shutdown :: "('s, store_error, unit) op \<Rightarrow> (('s, 'n) service, exn, unit) op" where
  "hs_shutdown close =
     bindS (on_sv (on_store close)) (\<lambda>_ v. (Inr (), v\<lparr>sv_challenges := [], sv_run_id := None\<rparr>))"

definition hs_set_commissioning_status :: "string \<Rightarrow> (('s, 'n) service, exn, unit) op" where
  "hs_set_commissioning_status status v =
     (if status \<notin> set [''disabled'', ''starting'', ''ready'', ''degraded'', ''stopping'']
      then (Inl (Refused ''ValueError'' ''unknown commissioning runtime status''), v)
      else (Inr (), v\<lparr>sv_commissioning_status := status\<rparr>))"

definition public_descriptor :: "host \<Rightarrow> jobject" where
  "public_descriptor H =
     [(''contract_version'', JStr ''1''), (''host_id'', JStr (hi_host_id (h_identity H))),
      (''host_public_key'', JStr (hi_public_key (h_identity H))),
      (''host_public_key_fingerprint'', JStr (hi_public_key_fingerprint (h_identity H))),
      (''ble_service_uuid'', JStr (st_ble_service_uuid (h_settings H)))]"

definition hs_health :: "'s store_port \<Rightarrow> host \<Rightarrow> (('s, 'n) service, exn, jobject) op" where
  "hs_health P H =
     bindS (on_sv (on_store (sp_get_state P))) (\<lambda>state v.
       (Inr [(''status'', JStr ''running''), (''mode'', JStr (BootstrapMode_value (st_mode (h_settings H)))),
             (''claim_window'', JStr (ClaimWindowPolicy_value (st_claim_window (h_settings H)))),
             (''pid'', JInt (h_pid H)), (''run_id'', jopt (sv_run_id v)), (''started_at'', jopt (sv_started_at v)),
             (''commissioning'', JObj
               [(''adapter'', JStr (CommissioningAdapter_value (st_commissioning_adapter (h_settings H)))),
                (''status'', JStr (sv_commissioning_status v))]),
             (''descriptor'', JObj (public_descriptor H)), (''state'', JObj (BootstrapState_to_dict state))], v))"

definition HOST_PROOF_PURPOSE :: string where
  "HOST_PROOF_PURPOSE = ''eidolon-local-api-host-proof-v1''"

text \<open>\<open>_BASE64URL_32_BYTES\<close>: 43 characters of the URL-safe alphabet.\<close>

definition is_proof_challenge :: "string \<Rightarrow> bool" where
  "is_proof_challenge s \<longleftrightarrow> length s = 43 \<and> list_all (\<lambda>c. c \<in> set b64_alphabet) s"

definition prove_host :: "host \<Rightarrow> json \<Rightarrow> exn + jobject" where
  "prove_host H value =
     (case value of
        JStr challenge \<Rightarrow>
          (if \<not> is_proof_challenge challenge
           then Inl (op_rejected ''host proof challenge must be 32 unpadded base64url bytes'')
           else (case urlsafe_b64decode (challenge @ ''='') of
                   None \<Rightarrow> Inl (op_rejected ''host proof challenge is not valid base64url'')
                 | Some decoded \<Rightarrow>
                     (if length decoded \<noteq> 32
                      then Inl (op_rejected ''host proof challenge must decode to 32 bytes'')
                      else if b64encode decoded \<noteq> challenge
                      then Inl (op_rejected ''host proof challenge must use canonical base64url encoding'')
                      else (let unsigned =
                              [(''contract_version'', JStr ''1''), (''purpose'', JStr HOST_PROOF_PURPOSE),
                               (''host_id'', JStr (hi_host_id (h_identity H))), (''challenge'', JStr challenge)]
                            in Inr (unsigned @ [(''signature'', JStr (sign_mapping H unsigned))])))))
      | _ \<Rightarrow> Inl (op_rejected ''host proof challenge must be 32 unpadded base64url bytes''))"

end
