(* ===== verification/Control_Socket.thy ===== *)
theory Control_Socket
  imports Host_Service
begin

text \<open>
  The control socket, \<open>bootstrap/control.py\<close>: dispatch of one decoded request and the response it
  becomes. Framing and JSON parsing of the line are the standard library's; a request starts here
  as the value \<open>json.loads\<close> returned.
\<close>

definition control_error :: "string \<Rightarrow> exn" where
  "control_error msg = Refused ''BootstrapControlError'' msg"

text \<open>\<open>None if raw is None else int(raw)\<close>\<close>

definition ttl_of :: "json \<Rightarrow> exn + int option" where
  "ttl_of raw =
     (case raw of
        JNull \<Rightarrow> Inr None
      | JInt i \<Rightarrow> Inr (Some i)
      | JBool b \<Rightarrow> Inr (Some (if b then 1 else 0))
      | JStr s \<Rightarrow> (case int10 s of None \<Rightarrow> Inl (OtherExn ''ValueError'') | Some i \<Rightarrow> Inr (Some i))
      | _ \<Rightarrow> Inl (OtherExn ''TypeError''))"

definition setup_code_of :: "json \<Rightarrow> exn + string option" where
  "setup_code_of value =
     (case value of JNull \<Rightarrow> Inr None | JStr s \<Rightarrow> Inr (Some s)
      | _ \<Rightarrow> Inl (control_error ''setup_code must be a string''))"

definition ct_lan_claim ::
  "'s store_port \<Rightarrow> 'n net_port option \<Rightarrow> host \<Rightarrow> jobject \<Rightarrow> (('s, 'n) service, exn, jobject) op" where
  "ct_lan_claim P network H request =
     (case jget ''controller'' request of
        JObj controller \<Rightarrow> on_sv (hs_claim_lan_controller P network H (jget ''commissioning_id'' request)
          (jget ''setup_code'' request) controller)
      | _ \<Rightarrow> raise (control_error ''controller must be an object''))"

definition ct_dispatch ::
  "'s store_port \<Rightarrow> 'n net_port option \<Rightarrow> host \<Rightarrow> jobject \<Rightarrow> (('s, 'n) service, exn, jobject) op" where
  "ct_dispatch P network H request =
     (let operation = jget ''op'' request
      in if operation = JStr ''health'' then hs_health P H
         else if operation = JStr ''descriptor'' then ret (public_descriptor H)
         else if operation = JStr ''host.prove'' then of_result (prove_host H (jget ''challenge'' request))
         else if operation = JStr ''controller.challenge''
         then hs_issue_controller_challenge P H (jget ''controller_id'' request)
         else if operation = JStr ''controller.authenticate''
         then hs_authenticate_controller P H (jget ''proof'' request)
         else if operation = JStr ''controller.validate''
         then on_sv (hs_validate_controller P (jget ''controller_id'' request) (jget ''reset_epoch'' request))
         else if operation = JStr ''controller.list''
         then on_sv (hs_list_controllers P (jget ''controller_id'' request))
         else if operation = JStr ''controller.revoke''
         then on_sv (hs_revoke_controller P H (jget ''controller_id'' request) (jget ''target_id'' request))
         else if operation = JStr ''commissioning.endpoint'' \<or> operation = JStr ''commissioning.lan.endpoint''
         then on_sv (hs_commissioning_endpoint P H)
         else if operation = JStr ''commissioning.lan.claim'' then ct_lan_claim P network H request
         else if operation = JStr ''controller.reset''
         then bindS (of_result (ttl_of (jget ''ttl_seconds'' request))) (\<lambda>ttl.
                on_sv (hs_open_controller_recovery_window P H ttl))
         else if operation = JStr ''commissioning.code''
         then bindS (of_result (ttl_of (jget ''ttl_seconds'' request))) (\<lambda>ttl.
              bindS (of_result (setup_code_of (jget ''setup_code'' request))) (\<lambda>code.
                on_sv (hs_issue_setup_code P H ttl code)))
         else if operation = JStr ''commissioning.status'' then on_sv (hs_setup_session_status P)
         else if operation = JStr ''dev.reset''
         then (case jget_default ''forget_wifi_profiles'' (JBool False) request of
                 JBool forget \<Rightarrow> on_sv (hs_reset_development_state P network H forget)
               | _ \<Rightarrow> raise (control_error ''forget_wifi_profiles must be a boolean''))
         else raise (control_error (''unknown control operation: '' @ h_repr H operation)))"

text \<open>
  The exceptions of the interpreter that the second \<open>except\<close> clause names (\<open>TypeError\<close> and
  \<open>ValueError\<close>, with the subclass of the latter that can occur).
\<close>

definition named_builtins :: "string list" where
  "named_builtins = [''TypeError'', ''ValueError'', ''UnicodeDecodeError'']"

definition error_answer :: "string \<Rightarrow> string \<Rightarrow> jobject" where
  "error_answer code message =
     [(''ok'', JBool False), (''error'', JObj [(''code'', JStr code), (''message'', JStr message)])]"

definition control_response :: "host \<Rightarrow> exn + jobject \<Rightarrow> jobject" where
  "control_response H outcome =
     (case outcome of
        Inr result \<Rightarrow> [(''ok'', JBool True), (''result'', JObj result)]
      | Inl (Rejected code message) \<Rightarrow> error_answer code message
      | Inl (Refused cls message) \<Rightarrow> error_answer cls message
      | Inl (OtherExn cls) \<Rightarrow>
          (if cls \<in> set named_builtins then error_answer cls (h_message H cls)
           else error_answer ''internal_error'' ''bootstrap control operation failed'')
      | Inl _ \<Rightarrow> error_answer ''internal_error'' ''bootstrap control operation failed'')"

definition ct_handle ::
  "'s store_port \<Rightarrow> 'n net_port option \<Rightarrow> host \<Rightarrow> json \<Rightarrow> ('s, 'n) service \<Rightarrow> jobject \<times> ('s, 'n) service" where
  "ct_handle P network H request v =
     (case request of
        JObj members \<Rightarrow> (case ct_dispatch P network H members v of (outcome, v1) \<Rightarrow> (control_response H outcome, v1))
      | _ \<Rightarrow> (control_response H (Inl (control_error ''control request must be a JSON object'')), v))"

end
