(* ===== verification/Operations.thy ===== *)
theory Operations
  imports Authority
begin

text \<open>
  The contract for Bootstrap operations: looking one up, starting one when none is active, and
  moving one along together with the Host's network state. Both adapters keep it.
\<close>

definition op_of :: "'s store_port \<Rightarrow> 's \<Rightarrow> string \<Rightarrow> BootstrapOperation option" where
  "op_of P s i = (case fst (sp_get_operation P i s) of Inr x \<Rightarrow> x | Inl _ \<Rightarrow> None)"

definition net_state_of :: "'s store_port \<Rightarrow> 's \<Rightarrow> NetworkState" where
  "net_state_of P s = (case fst (sp_get_state P s) of Inr st \<Rightarrow> bs_network_state st | Inl _ \<Rightarrow> UNCONFIGURED)"

definition idle :: "'s store_port \<Rightarrow> 's \<Rightarrow> bool" where
  "idle P s \<longleftrightarrow> (\<forall>i q. op_of P s i = Some q \<longrightarrow> op_state q \<notin> set active_states)"

definition moved_op ::
  "BootstrapOperationState \<Rightarrow> timestamp \<Rightarrow> string option \<Rightarrow> BootstrapOperation \<Rightarrow> BootstrapOperation" where
  "moved_op st now code q = q\<lparr>op_state := st, op_updated_at := now, op_error_code := code\<rparr>"

lemma moved_op_fields [simp]:
  "op_state (moved_op st now code q) = st" "op_error_code (moved_op st now code q) = code"
  "op_operation_id (moved_op st now code q) = op_operation_id q"
  "op_target (moved_op st now code q) = op_target q"
  "op_reset_epoch (moved_op st now code q) = op_reset_epoch q"
  by (simp_all add: moved_op_def)

locale operation_store = authority_store P inv names ids
  for P :: "'s store_port" and inv :: "'s \<Rightarrow> bool" and names :: key_names and ids :: "'s \<Rightarrow> string set" +
  assumes op_read: "inv s \<Longrightarrow> sp_get_operation P i s = (Inr (op_of P s i), s)"
    and op_created: "inv s \<Longrightarrow> op_of P s (op_operation_id p) = None \<Longrightarrow> op_reset_epoch p = port_epoch P s \<Longrightarrow>
      idle P s \<Longrightarrow> \<exists>s'. sp_create_operation P p s = (Inr p, s')
        \<and> op_of P s' = (op_of P s)(op_operation_id p \<mapsto> p) \<and> net_state_of P s' = net_state_of P s"
    and op_blocked: "inv s \<Longrightarrow> op_of P s (op_operation_id p) = None \<Longrightarrow> op_reset_epoch p = port_epoch P s \<Longrightarrow>
      \<not> idle P s \<Longrightarrow> sp_create_operation P p s
        = (Inl (Conflict ''another bootstrap operation is active''), s)"
    and op_updated: "inv s \<Longrightarrow> op_of P s i = Some q \<Longrightarrow>
      \<exists>s'. sp_update_operation P i st n now code s = (Inr (moved_op st now code q), s')
        \<and> op_of P s' = (op_of P s)(i \<mapsto> moved_op st now code q) \<and> net_state_of P s' = n"
begin

lemma created_inv:
  assumes "inv s" and "sp_create_operation P p s = (r, s')"
  shows "inv s' \<and> authorized P s' = authorized P s \<and> port_epoch P s' = port_epoch P s"
  using quiet_law [OF assms(1), of "CCreateOperation p"] answer_of [where m = "sp_create_operation P p" and f = AOperation, OF assms(2)] by simp

lemma updated_inv:
  assumes "inv s" and "sp_update_operation P i st n now code s = (r, s')"
  shows "inv s' \<and> authorized P s' = authorized P s \<and> port_epoch P s' = port_epoch P s"
  using quiet_law [OF assms(1), of "CUpdateOperation i st n now code"] answer_of [where m = "sp_update_operation P i st n now code" and f = AOperation, OF assms(2)]
  by simp

end

section \<open>In memory\<close>

lemma op_of_memory: "ms_opened m \<Longrightarrow> op_of memory_store m i = map_of (ms_operations m) i"
  by (simp add: op_of_def mem_get_operation_run)

lemma net_state_of_memory: "ms_opened m \<Longrightarrow> ms_state m = Some s \<Longrightarrow> net_state_of memory_store m = bs_network_state s"
  by (simp add: net_state_of_def)

lemma related_operations:
  assumes "related names m"
  shows "distinct (map fst (ms_operations m))"
proof -
  obtain db where db: "db_ok names db" "store_sim db m" using assms by (auto simp: related_def)
  then have "ms_operations m = map (\<lambda>r. (or_operation_id r, operation_of_row r)) (db_operations db)"
      "distinct (map or_operation_id (db_operations db))"
    by (simp_all add: store_sim_def db_ok_def operations_ok_def)
  then show ?thesis by (simp add: comp_def)
qed

lemma idle_memory:
  assumes "related names m"
  shows "idle memory_store m \<longleftrightarrow> \<not> list_ex (\<lambda>q. op_state q \<in> set active_states) (map snd (ms_operations m))"
proof -
  have "map_of (ms_operations m) i = Some q \<longleftrightarrow> (i, q) \<in> set (ms_operations m)" for i q
    using related_operations [OF assms] by (simp add: map_of_eq_Some_iff)
  then show ?thesis
    using related_opened(1) [OF assms]
    by (force simp: idle_def op_of_memory list_ex_iff simp del: active_states_iff)
qed

interpretation mem_ops: operation_store memory_store "mem_inv names" names mem_ids
proof unfold_locales
  fix m i p q st n now code
  assume "mem_inv names m"
  then obtain s where rel: "related names m" and s: "ms_opened m" "ms_state m = Some s"
    by (rule mem_invE)
  note obs = op_of_memory [OF s(1)] authorized_memory(2) [OF s]
  show "sp_get_operation memory_store i m = (Inr (op_of memory_store m i), m)"
    using s(1) by (simp add: obs mem_get_operation_run)
  show "\<exists>m'. sp_create_operation memory_store p m = (Inr p, m')
      \<and> op_of memory_store m' = (op_of memory_store m)(op_operation_id p \<mapsto> p)
      \<and> net_state_of memory_store m' = net_state_of memory_store m"
    if "op_of memory_store m (op_operation_id p) = None" "op_reset_epoch p = port_epoch memory_store m"
      "idle memory_store m"
    using that s
    by (simp add: obs idle_memory [OF rel] mem_create_operation_def bindS_ok fun_eq_iff op_of_memory
        net_state_of_memory del: active_states_iff)
  show "sp_create_operation memory_store p m
      = (Inl (Conflict ''another bootstrap operation is active''), m)"
    if "op_of memory_store m (op_operation_id p) = None" "op_reset_epoch p = port_epoch memory_store m"
      "\<not> idle memory_store m"
    using that s
    by (simp add: obs idle_memory [OF rel] mem_create_operation_def bindS_ok del: active_states_iff)
  show "\<exists>m'. sp_update_operation memory_store i st n now code m = (Inr (moved_op st now code q), m')
      \<and> op_of memory_store m' = (op_of memory_store m)(i \<mapsto> moved_op st now code q)
      \<and> net_state_of memory_store m' = n"
    if "op_of memory_store m i = Some q"
    using that s
    by (simp add: obs mem_update_operation_def Let_def moved_op_def fun_eq_iff op_of_memory net_state_of_memory)
qed

section \<open>On disk\<close>

lemma sim_ops:
  assumes "db_ok names db" and "store_sim db m"
  shows "op_of sqlite_store db = op_of memory_store m"
    and "net_state_of sqlite_store db = net_state_of memory_store m"
    and "idle sqlite_store db = idle memory_store m"
proof -
  show ops: "op_of sqlite_store db = op_of memory_store m"
    using get_operation_agree [OF assms] by (auto simp: op_of_def agree_def fun_eq_iff)
  show "net_state_of sqlite_store db = net_state_of memory_store m"
    using get_state_agree [OF assms] by (auto simp: net_state_of_def agree_def)
  show "idle sqlite_store db = idle memory_store m" by (simp add: idle_def ops)
qed

interpretation sq_ops: operation_store sqlite_store "sq_inv names" names db_session_ids
proof unfold_locales
  fix db i p q st n now code
  assume "sq_inv names db"
  then obtain m where db: "db_ok names db" and sim: "store_sim db m" and inv: "mem_inv names m"
    by (auto simp: sq_inv_def)
  note obs = sim_ops [OF db sim] sim_authorized(2) [OF db sim]
  have carry_op: "\<exists>db'. a db = (Inr v, db') \<and> op_of sqlite_store db' = ops \<and> net_state_of sqlite_store db' = net"
    if ag: "agree names (a db) (b m)" and ex: "\<exists>m'. b m = (Inr v, m') \<and> op_of memory_store m' = ops \<and> net_state_of memory_store m' = net"
    for a :: "(sql_db, store_error, BootstrapOperation) op" and b v ops net
  proof -
    obtain m' where m': "b m = (Inr v, m')" "op_of memory_store m' = ops" "net_state_of memory_store m' = net"
      using ex by blast
    obtain x db' where "a db = (x, db')" by (cases "a db")
    with ag m' sim_ops [of names db' m'] show ?thesis by (auto simp: agree_def)
  qed
  show "sp_get_operation sqlite_store i db = (Inr (op_of sqlite_store db i), db)"
    using mem_ops.op_read [OF inv, of i] get_operation_agree [OF db sim, of i]
    by (simp add: obs agree_def sq_get_operation_run [OF db])
  show "\<exists>db'. sp_create_operation sqlite_store p db = (Inr p, db')
      \<and> op_of sqlite_store db' = (op_of sqlite_store db)(op_operation_id p \<mapsto> p)
      \<and> net_state_of sqlite_store db' = net_state_of sqlite_store db"
    if "op_of sqlite_store db (op_operation_id p) = None" "op_reset_epoch p = port_epoch sqlite_store db"
      "idle sqlite_store db"
    using mem_ops.op_created [OF inv, of p] that carry_op [where a = "sq_create_operation p" and b = "mem_create_operation p", OF create_operation_agree [OF db sim]]
    by (simp add: obs)
  show "sp_create_operation sqlite_store p db
      = (Inl (Conflict ''another bootstrap operation is active''), db)"
    if "op_of sqlite_store db (op_operation_id p) = None" "op_reset_epoch p = port_epoch sqlite_store db"
      "\<not> idle sqlite_store db"
  proof -
    have "mem_create_operation p m = (Inl (Conflict ''another bootstrap operation is active''), m)"
      using mem_ops.op_blocked [OF inv, of p] that by (simp add: obs)
    with create_operation_agree [OF db sim, of p] have "fst (sq_create_operation p db)
        = Inl (Conflict ''another bootstrap operation is active'')" by (simp add: agree_def)
    then show ?thesis
      by (auto simp: sq_create_operation_def bindS_def sq_get_operation_run [OF db] sq_get_state_run [OF db]
          ret_def raise_def transact_def split: option.splits if_splits)
  qed
  show "\<exists>db'. sp_update_operation sqlite_store i st n now code db = (Inr (moved_op st now code q), db')
      \<and> op_of sqlite_store db' = (op_of sqlite_store db)(i \<mapsto> moved_op st now code q)
      \<and> net_state_of sqlite_store db' = n"
    if "op_of sqlite_store db i = Some q"
    using mem_ops.op_updated [OF inv, of i q st n now code] that
      carry_op [where a = "sq_update_operation i st n now code"
        and b = "mem_update_operation i st n now code", OF update_operation_agree [OF db sim]]
    by (simp add: obs)
qed

end
