(* ===== verification/Network_Change.thy ===== *)
theory Network_Change
  imports Commissioning_Protocol Operations Windows
begin

text \<open>
  The life of a network change through the commissioning use cases: what staging, confirming and
  rolling back leave behind in the store and in the adapter, on every branch.
\<close>

definition admin_access :: "'s store_port \<Rightarrow> access \<Rightarrow> 's \<Rightarrow> bool" where
  "admin_access P a s \<longleftrightarrow> (case a of
     ControllerAuthorization g \<Rightarrow> (case authorized P s (cg_controller_id g) of
       Some g' \<Rightarrow> cg_public_key g' = cg_public_key g | None \<Rightarrow> False)
   | CommissioningAuthorization _ _ \<Rightarrow> False)"

lemma on_store_ok: "m (w_store w) = (Inr v, s) \<Longrightarrow> on_store m w = (Inr v, w\<lparr>w_store := s\<rparr>)"
  by (simp add: on_store_def)

lemma on_net_ok: "m (w_net w) = (Inr v, n) \<Longrightarrow> on_net m w = (Inr v, w\<lparr>w_net := n\<rparr>)"
  by (simp add: on_net_def)

lemma on_net_err: "m (w_net w) = (Inl e, n) \<Longrightarrow> on_net m w = (Inl (NetExn e), w\<lparr>w_net := n\<rparr>)"
  by (simp add: on_net_def)

locale network_host = host_env P inv E ids + operation_store P inv "key_names_of E" ids
  for P :: "'s store_port" and inv :: "'s \<Rightarrow> bool" and E :: env and ids :: "'s \<Rightarrow> string set"
begin

lemma state_read:
  assumes "inv s"
  obtains st where "sp_get_state P s = (Inr st, s)" and "bs_reset_epoch st = port_epoch P s"
    and "bs_network_state st = net_state_of P s"
proof -
  obtain st where "sp_get_state P s = (Inr st, s)" using state_law [OF assms] by blast
  with that show thesis by (simp add: port_epoch_def net_state_of_def)
qed

lemma admin_passes:
  assumes "inv (w_store w)" and "admin_access P a (w_store w)"
  shows "cs_require_admin P E a w = (Inr (), w)"
proof -
  obtain g g' where g: "a = ControllerAuthorization g"
      "authorized P (w_store w) (cg_controller_id g) = Some g'" "cg_public_key g' = cg_public_key g"
    using assms(2) by (auto simp: admin_access_def split: access.splits option.splits)
  obtain x where x: "sp_get_controller P (cg_controller_id g) (w_store w) = (Inr x, w_store w)"
      "\<And>y. x = Some y \<Longrightarrow> cg_reset_epoch y = port_epoch P (w_store w)"
    using lookup_law [OF assms(1)] by blast
  with g(2) have "x = Some g'" "cg_revoked_at g' = None" "cg_reset_epoch g' = port_epoch P (w_store w)"
    by (auto simp: authorized_def split: option.splits if_splits)
  moreover obtain st where st: "sp_get_state P (w_store w) = (Inr st, w_store w)"
      "bs_reset_epoch st = port_epoch P (w_store w)"
    using state_read [OF assms(1)] by blast
  ultimately show ?thesis
    using g x(1)
    by (simp add: cs_require_admin_def cs_require_authorized_def bindS_def on_store_ok ret_def)
qed

lemma update_op_run:
  assumes "inv (w_store w)" and "op_of P (w_store w) i = Some q"
  obtains s' where "update_op P E i st n code w
      = (Inr (moved_op st (e_clock E (w_tick w)) code q), w\<lparr>w_store := s', w_tick := Suc (w_tick w)\<rparr>)"
    and "op_of P s' = (op_of P (w_store w))(i \<mapsto> moved_op st (e_clock E (w_tick w)) code q)"
    and "net_state_of P s' = n" and "inv s'" and "authorized P s' = authorized P (w_store w)"
    and "port_epoch P s' = port_epoch P (w_store w)"
proof -
  let ?now = "e_clock E (w_tick w)"
  obtain s' where s': "sp_update_operation P i st n ?now code (w_store w) = (Inr (moved_op st ?now code q), s')"
      "op_of P s' = (op_of P (w_store w))(i \<mapsto> moved_op st ?now code q)" "net_state_of P s' = n"
    using op_updated [OF assms] by blast
  have "update_op P E i st n code w = (Inr (moved_op st ?now code q), w\<lparr>w_store := s', w_tick := Suc (w_tick w)\<rparr>)"
    using s'(1) by (simp add: update_op_def bindS_def on_store_def)
  with that s' updated_inv [OF assms(1) s'(1)] show thesis by blast
qed

lemma configure_created:
  assumes inv: "inv (w_store w)" and admin: "admin_access P a (w_store w)"
    and req: "change_request payload = Inr req"
    and new: "op_of P (w_store w) (nr_operation_id req) = None" and idle: "idle P (w_store w)"
  defines "i \<equiv> nr_operation_id req" and "now \<equiv> e_clock E (w_tick w)"
  defines "q \<equiv> moved_op RUNNING now None (new_operation req (port_epoch P (w_store w)) now)"
  obtains s2 where
      "cs_configure_network P N E a payload w =
        bindS (catchS (bindS (on_net (net_begin_change N req)) (\<lambda>_.
                update_op P E i WAITING_CONFIRMATION STAGING None))
              (cs_staging_failed P E i (net_state_of P (w_store w))))
          (\<lambda>operation. ret (operation_result operation)) (w\<lparr>w_store := s2, w_tick := Suc (w_tick w)\<rparr>)"
    and "op_of P s2 = (op_of P (w_store w))(i \<mapsto> q)" and "inv s2"
    and "authorized P s2 = authorized P (w_store w)"
proof -
  let ?s = "w_store w"
  let ?p = "new_operation req (port_epoch P ?s) now"
  obtain st where st: "sp_get_state P ?s = (Inr st, ?s)" "bs_reset_epoch st = port_epoch P ?s"
      "bs_network_state st = net_state_of P ?s"
    using state_read [OF inv] by blast
  have pid: "op_operation_id ?p = i" "op_reset_epoch ?p = port_epoch P ?s"
    by (simp_all add: new_operation_def i_def)
  obtain s1 where s1: "sp_create_operation P ?p ?s = (Inr ?p, s1)"
      "op_of P s1 = (op_of P ?s)(i \<mapsto> ?p)"
    using op_created [OF inv, of ?p] new idle pid by (auto simp: i_def)
  note k1 = created_inv [OF inv s1(1)]
  obtain s2 where s2: "sp_update_operation P i RUNNING STAGING now None s1 = (Inr q, s2)"
      "op_of P s2 = (op_of P s1)(i \<mapsto> q)"
    using op_updated [of s1 i ?p RUNNING STAGING now None] k1 s1(2) unfolding q_def by auto
  note k2 = updated_inv [OF conjunct1 [OF k1] s2(1)]
  have "cs_configure_network P N E a payload w =
      bindS (catchS (cs_stage P N E req now) (cs_staging_failed P E i (net_state_of P ?s)))
        (\<lambda>operation. ret (operation_result operation)) (w\<lparr>w_store := s1, w_tick := Suc (w_tick w)\<rparr>)"
    using admin_passes [OF inv admin] req st s1(1) op_read [OF inv, of i] new
    by (simp add: cs_configure_network_def bindS_ok of_result_def on_store_def i_def now_def
        catch_conflict_def catchS_def)
  moreover have "cs_stage P N E req now (w\<lparr>w_store := s1, w_tick := Suc (w_tick w)\<rparr>)
      = bindS (on_net (net_begin_change N req)) (\<lambda>_. update_op P E i WAITING_CONFIRMATION STAGING None)
          (w\<lparr>w_store := s2, w_tick := Suc (w_tick w)\<rparr>)"
    using s2(1) by (simp add: cs_stage_def i_def bindS_ok on_store_def)
  ultimately show thesis
    using that [of s2] s1(2) s2(2) k1 k2 by (simp add: bindS_def catchS_def)
qed

lemma configure_success:
  assumes inv: "inv (w_store w)" and admin: "admin_access P a (w_store w)"
    and req: "change_request payload = Inr req"
    and new: "op_of P (w_store w) (nr_operation_id req) = None" and idle: "idle P (w_store w)"
    and staged: "net_begin_change N req (w_net w) = (Inr snapshot, n)"
  shows "\<exists>q w'. cs_configure_network P N E a payload w = (Inr (operation_result q), w')
    \<and> op_of P (w_store w') = (op_of P (w_store w))(nr_operation_id req \<mapsto> q)
    \<and> op_state q = WAITING_CONFIRMATION \<and> op_target q = nr_ssid req
    \<and> net_state_of P (w_store w') = STAGING \<and> w_net w' = n"
proof -
  let ?i = "nr_operation_id req" and ?now = "e_clock E (w_tick w)"
  let ?q = "moved_op RUNNING ?now None (new_operation req (port_epoch P (w_store w)) ?now)"
  obtain s2 where run: "cs_configure_network P N E a payload w =
        bindS (catchS (bindS (on_net (net_begin_change N req)) (\<lambda>_.
                update_op P E ?i WAITING_CONFIRMATION STAGING None))
              (cs_staging_failed P E ?i (net_state_of P (w_store w))))
          (\<lambda>operation. ret (operation_result operation)) (w\<lparr>w_store := s2, w_tick := Suc (w_tick w)\<rparr>)"
      and s2: "op_of P s2 = (op_of P (w_store w))(?i \<mapsto> ?q)" "inv s2"
    using configure_created [OF inv admin req new idle, where N = N] by blast
  let ?w2 = "w\<lparr>w_store := s2, w_net := n, w_tick := Suc (w_tick w)\<rparr>"
  obtain s3 where s3: "update_op P E ?i WAITING_CONFIRMATION STAGING None ?w2
      = (Inr (moved_op WAITING_CONFIRMATION (e_clock E (w_tick ?w2)) None ?q),
         ?w2\<lparr>w_store := s3, w_tick := Suc (w_tick ?w2)\<rparr>)"
      "op_of P s3 = (op_of P s2)(?i \<mapsto> moved_op WAITING_CONFIRMATION (e_clock E (w_tick ?w2)) None ?q)"
      "net_state_of P s3 = STAGING"
    using update_op_run [of ?w2 ?i ?q WAITING_CONFIRMATION STAGING None] s2 by auto
  have "on_net (net_begin_change N req) (w\<lparr>w_store := s2, w_tick := Suc (w_tick w)\<rparr>) = (Inr snapshot, ?w2)"
    using staged by (simp add: on_net_def)
  with run s3(1) have "cs_configure_network P N E a payload w
      = (Inr (operation_result (moved_op WAITING_CONFIRMATION (e_clock E (w_tick ?w2)) None ?q)),
         ?w2\<lparr>w_store := s3, w_tick := Suc (w_tick ?w2)\<rparr>)"
    by (simp add: bindS_def catchS_def ret_def)
  with s2(1) s3(2,3) show ?thesis
    by (intro exI [of _ "moved_op WAITING_CONFIRMATION (e_clock E (w_tick ?w2)) None ?q"]
        exI [of _ "?w2\<lparr>w_store := s3, w_tick := Suc (w_tick ?w2)\<rparr>"])
       (simp add: new_operation_def)
qed

lemma configure_failure:
  assumes inv: "inv (w_store w)" and admin: "admin_access P a (w_store w)"
    and req: "change_request payload = Inr req"
    and new: "op_of P (w_store w) (nr_operation_id req) = None" and idle: "idle P (w_store w)"
    and failed: "net_begin_change N req (w_net w) = (Inl (NetErr msg), n)"
  shows "\<exists>q w'. cs_configure_network P N E a payload w = (Inl (Rejected ''network_stage_failed'' msg), w')
    \<and> op_of P (w_store w') = (op_of P (w_store w))(nr_operation_id req \<mapsto> q)
    \<and> op_state q = FAILED \<and> op_error_code q = Some ''network_stage_failed''
    \<and> net_state_of P (w_store w') = fallback_state (net_state_of P (w_store w))
    \<and> idle P (w_store w') \<and> authorized P (w_store w') = authorized P (w_store w)"
proof -
  let ?i = "nr_operation_id req" and ?now = "e_clock E (w_tick w)" and ?net = "net_state_of P (w_store w)"
  let ?q = "moved_op RUNNING ?now None (new_operation req (port_epoch P (w_store w)) ?now)"
  obtain s2 where run: "cs_configure_network P N E a payload w =
        bindS (catchS (bindS (on_net (net_begin_change N req)) (\<lambda>_.
                update_op P E ?i WAITING_CONFIRMATION STAGING None))
              (cs_staging_failed P E ?i ?net))
          (\<lambda>operation. ret (operation_result operation)) (w\<lparr>w_store := s2, w_tick := Suc (w_tick w)\<rparr>)"
      and s2: "op_of P s2 = (op_of P (w_store w))(?i \<mapsto> ?q)" "inv s2"
        "authorized P s2 = authorized P (w_store w)"
    using configure_created [OF inv admin req new idle, where N = N] by blast
  let ?w2 = "w\<lparr>w_store := s2, w_net := n, w_tick := Suc (w_tick w)\<rparr>"
  let ?code = "''network_stage_failed''"
  let ?q3 = "moved_op FAILED (e_clock E (w_tick ?w2)) (Some ?code) ?q"
  obtain s3 where s3: "update_op P E ?i FAILED (fallback_state ?net) (Some ?code) ?w2
      = (Inr ?q3, ?w2\<lparr>w_store := s3, w_tick := Suc (w_tick ?w2)\<rparr>)"
      "op_of P s3 = (op_of P s2)(?i \<mapsto> ?q3)" "net_state_of P s3 = fallback_state ?net"
      "authorized P s3 = authorized P s2"
    using update_op_run [of ?w2 ?i ?q FAILED "fallback_state ?net" "Some ?code"] s2 by auto
  have "on_net (net_begin_change N req) (w\<lparr>w_store := s2, w_tick := Suc (w_tick w)\<rparr>) = (Inl (NetExn (NetErr msg)), ?w2)"
    using failed by (simp add: on_net_def)
  with run s3(1) have "cs_configure_network P N E a payload w
      = (Inl (Rejected ?code msg), ?w2\<lparr>w_store := s3, w_tick := Suc (w_tick ?w2)\<rparr>)"
    by (simp add: bindS_def catchS_def cs_staging_failed_def staging_failure_def raise_def)
  moreover have "idle P s3"
    using idle s2(1) s3(2) by (simp add: idle_def)
  ultimately show ?thesis
    using s2(1,3) s3(2-4)
    by (intro exI [of _ ?q3] exI [of _ "?w2\<lparr>w_store := s3, w_tick := Suc (w_tick ?w2)\<rparr>"]) simp
qed

lemma configure_blocked:
  assumes inv: "inv (w_store w)" and admin: "admin_access P a (w_store w)"
    and req: "change_request payload = Inr req"
    and new: "op_of P (w_store w) (nr_operation_id req) = None" and busy: "\<not> idle P (w_store w)"
  shows "cs_configure_network P N E a payload w
    = (Inl (Rejected ''operation_conflict'' ''another bootstrap operation is active''),
       w\<lparr>w_tick := Suc (w_tick w)\<rparr>)"
proof -
  let ?s = "w_store w"
  let ?p = "new_operation req (port_epoch P ?s) (e_clock E (w_tick w))"
  obtain st where st: "sp_get_state P ?s = (Inr st, ?s)" "bs_reset_epoch st = port_epoch P ?s"
    using state_read [OF inv] by blast
  have "sp_create_operation P ?p ?s = (Inl (Conflict ''another bootstrap operation is active''), ?s)"
    using op_blocked [OF inv, of ?p] new busy by (simp add: new_operation_def)
  then show ?thesis
    using admin_passes [OF inv admin] req st op_read [OF inv, of "nr_operation_id req"] new
    by (simp add: cs_configure_network_def bindS_ok of_result_def on_store_def catch_conflict_def
        catchS_def raise_def bindS_err [where m = "catchS _ _"])
qed

lemma configure_repeated:
  assumes inv: "inv (w_store w)" and admin: "admin_access P a (w_store w)"
    and req: "change_request payload = Inr req"
    and known: "op_of P (w_store w) (nr_operation_id req) = Some q"
  shows "cs_configure_network P N E a payload w =
    (if op_target q = nr_ssid req then Inr (operation_result q)
     else Inl (Rejected ''operation_conflict'' ''operation_id is already in use''), w)"
  using admin_passes [OF inv admin] req op_read [OF inv, of "nr_operation_id req"] known
  by (simp add: cs_configure_network_def bindS_ok of_result_def on_store_def raise_def ret_def)

lemma confirm_run:
  assumes inv: "inv (w_store w)" and admin: "admin_access P a (w_store w)"
    and i: "operation_id_of value = Inr i" and q: "op_of P (w_store w) i = Some q"
    and waiting: "op_state q = WAITING_CONFIRMATION"
  shows "case net_confirm N i (w_net w) of
      (Inr snapshot, n) \<Rightarrow> (\<exists>q' w'. cs_confirm_network P N E a value w = (Inr (operation_result q'), w')
          \<and> op_of P (w_store w') = (op_of P (w_store w))(i \<mapsto> q') \<and> op_state q' = SUCCEEDED
          \<and> net_state_of P (w_store w') = CONNECTED \<and> w_net w' = n)
    | (Inl (NetErr msg), n) \<Rightarrow> cs_confirm_network P N E a value w
        = (Inl (Rejected ''network_confirm_failed'' ''The staged Wi-Fi network is not connected''), w\<lparr>w_net := n\<rparr>)
    | (Inl (NetOther msg), n) \<Rightarrow> cs_confirm_network P N E a value w = (Inl (NetExn (NetOther msg)), w\<lparr>w_net := n\<rparr>)"
proof -
  obtain x n where x: "net_confirm N i (w_net w) = (x, n)" by (cases "net_confirm N i (w_net w)")
  have run: "cs_confirm_network P N E a value w
      = bindS (catch_net (on_net (net_confirm N i)) (\<lambda>_.
                   raise (Rejected ''network_confirm_failed''
                     ''The staged Wi-Fi network is not connected''))) (\<lambda>_.
                 bindS (update_op P E i SUCCEEDED CONNECTED None) (\<lambda>q. ret (operation_result q))) w"
    using admin_passes [OF inv admin] i op_read [OF inv, of i] q waiting
    by (simp add: cs_confirm_network_def bindS_ok of_result_def on_store_def)
  show ?thesis
  proof (cases x)
    case (Inl e)
    with x show ?thesis
      by (cases e) (simp_all add: run bindS_def catch_net_def catchS_def on_net_def raise_def)
  next
    case (Inr snapshot)
    let ?w1 = "w\<lparr>w_net := n\<rparr>"
    have "inv (w_store ?w1)" "op_of P (w_store ?w1) i = Some q" using inv q by simp_all
    then obtain s' where s': "update_op P E i SUCCEEDED CONNECTED None ?w1
        = (Inr (moved_op SUCCEEDED (e_clock E (w_tick ?w1)) None q), ?w1\<lparr>w_store := s', w_tick := Suc (w_tick ?w1)\<rparr>)"
        "op_of P s' = (op_of P (w_store ?w1))(i \<mapsto> moved_op SUCCEEDED (e_clock E (w_tick ?w1)) None q)"
        "net_state_of P s' = CONNECTED"
      using update_op_run by metis
    have "cs_confirm_network P N E a value w = (Inr (operation_result (moved_op SUCCEEDED (e_clock E (w_tick ?w1)) None q)),
        ?w1\<lparr>w_store := s', w_tick := Suc (w_tick ?w1)\<rparr>)"
      using x Inr s'(1) by (simp add: run bindS_def catch_net_def catchS_def on_net_def ret_def)
    with x Inr s'(2,3) show ?thesis
      by (simp, intro exI [of _ "moved_op SUCCEEDED (e_clock E (w_tick ?w1)) None q"]) simp
  qed
qed

lemma rollback_run:
  assumes inv: "inv (w_store w)" and admin: "admin_access P a (w_store w)"
    and i: "operation_id_of value = Inr i" and q: "op_of P (w_store w) i = Some q"
    and open': "op_state q \<noteq> FAILED"
  obtains s1 where "inv s1" and "authorized P s1 = authorized P (w_store w)"
    and "port_epoch P s1 = port_epoch P (w_store w)"
    and "op_of P s1 = (op_of P (w_store w))(i \<mapsto> moved_op COMPENSATING (e_clock E (w_tick w)) None q)"
    and "net_state_of P s1 = ROLLING_BACK"
    and "cs_rollback_network P N E a value w =
      (case net_rollback N i (w_net w) of
         (Inr snapshot, n) \<Rightarrow> bindS (update_op P E i FAILED (np_state snapshot) (Some ''cancelled''))
             (\<lambda>q. ret (operation_result q)) (w\<lparr>w_store := s1, w_net := n, w_tick := Suc (w_tick w)\<rparr>)
       | (Inl (NetErr msg), n) \<Rightarrow> (Inl (Rejected ''network_rollback_failed''
             ''The Wi-Fi rollback did not complete''), w\<lparr>w_store := s1, w_net := n, w_tick := Suc (w_tick w)\<rparr>)
       | (Inl (NetOther msg), n) \<Rightarrow> (Inl (NetExn (NetOther msg)),
             w\<lparr>w_store := s1, w_net := n, w_tick := Suc (w_tick w)\<rparr>))"
proof -
  let ?q = "moved_op COMPENSATING (e_clock E (w_tick w)) None q"
  obtain s1 where s1: "update_op P E i COMPENSATING ROLLING_BACK None w
      = (Inr ?q, w\<lparr>w_store := s1, w_tick := Suc (w_tick w)\<rparr>)"
      "op_of P s1 = (op_of P (w_store w))(i \<mapsto> ?q)" "net_state_of P s1 = ROLLING_BACK" "inv s1"
      "authorized P s1 = authorized P (w_store w)" "port_epoch P s1 = port_epoch P (w_store w)"
    using update_op_run [OF inv q] by metis
  have "cs_rollback_network P N E a value w =
      bindS (catchS
         (bindS (update_op P E i COMPENSATING ROLLING_BACK None) (\<lambda>_. on_net (net_rollback N i)))
         (\<lambda>e. case staging_failure e of
            None \<Rightarrow> raise e
          | Some _ \<Rightarrow> raise (Rejected ''network_rollback_failed''
              ''The Wi-Fi rollback did not complete''))) (\<lambda>snapshot.
       bindS (update_op P E i FAILED (np_state snapshot) (Some ''cancelled'')) (\<lambda>q.
         ret (operation_result q))) w"
    using admin_passes [OF inv admin] i op_read [OF inv, of i] q open'
    by (simp add: cs_rollback_network_def bindS_ok of_result_def on_store_def)
  moreover obtain x n where x: "net_rollback N i (w_net w) = (x, n)" by (cases "net_rollback N i (w_net w)")
  moreover have "on_net (net_rollback N i) (w\<lparr>w_store := s1, w_tick := Suc (w_tick w)\<rparr>)
      = (map_sum NetExn id x, w\<lparr>w_store := s1, w_net := n, w_tick := Suc (w_tick w)\<rparr>)"
    using x by (simp add: on_net_def)
  ultimately show thesis
    using that [OF s1(4,5,6,2,3)] s1(1)
    by (cases x)
       (auto simp: bindS_def catchS_def staging_failure_def raise_def split: net_error.splits)
qed

lemma rollback_success:
  assumes inv: "inv (w_store w)" and admin: "admin_access P a (w_store w)"
    and i: "operation_id_of value = Inr i" and q: "op_of P (w_store w) i = Some q"
    and open': "op_state q \<noteq> FAILED" and net: "net_rollback N i (w_net w) = (Inr snapshot, n)"
  shows "\<exists>q' w'. cs_rollback_network P N E a value w = (Inr (operation_result q'), w')
    \<and> op_of P (w_store w') = (op_of P (w_store w))(i \<mapsto> q') \<and> op_state q' = FAILED
    \<and> op_error_code q' = Some ''cancelled'' \<and> net_state_of P (w_store w') = np_state snapshot \<and> w_net w' = n"
proof -
  let ?q = "moved_op COMPENSATING (e_clock E (w_tick w)) None q"
  obtain s1 where s1: "inv s1" "op_of P s1 = (op_of P (w_store w))(i \<mapsto> ?q)"
      and run: "cs_rollback_network P N E a value w =
        bindS (update_op P E i FAILED (np_state snapshot) (Some ''cancelled''))
             (\<lambda>q. ret (operation_result q)) (w\<lparr>w_store := s1, w_net := n, w_tick := Suc (w_tick w)\<rparr>)"
    using rollback_run [OF inv admin i q open', where N = N] net by auto
  let ?w1 = "w\<lparr>w_store := s1, w_net := n, w_tick := Suc (w_tick w)\<rparr>"
  let ?q2 = "moved_op FAILED (e_clock E (w_tick ?w1)) (Some ''cancelled'') ?q"
  have "inv (w_store ?w1)" "op_of P (w_store ?w1) i = Some ?q" using s1 by simp_all
  then obtain s2 where s2: "update_op P E i FAILED (np_state snapshot) (Some ''cancelled'') ?w1
      = (Inr ?q2, ?w1\<lparr>w_store := s2, w_tick := Suc (w_tick ?w1)\<rparr>)"
      "op_of P s2 = (op_of P (w_store ?w1))(i \<mapsto> ?q2)" "net_state_of P s2 = np_state snapshot"
    using update_op_run by metis
  have "cs_rollback_network P N E a value w
      = (Inr (operation_result ?q2), ?w1\<lparr>w_store := s2, w_tick := Suc (w_tick ?w1)\<rparr>)"
    using run s2(1) by (simp add: bindS_def ret_def)
  with s1(2) s2(2,3) show ?thesis
    by (intro exI [of _ ?q2] exI [of _ "?w1\<lparr>w_store := s2, w_tick := Suc (w_tick ?w1)\<rparr>"]) simp
qed

text \<open>
  A rollback the adapter refuses leaves the operation compensating, so the store is busy and no
  other change can start.
\<close>

lemma rollback_refused:
  assumes inv: "inv (w_store w)" and admin: "admin_access P a (w_store w)"
    and i: "operation_id_of value = Inr i" and q: "op_of P (w_store w) i = Some q"
    and open': "op_state q \<noteq> FAILED" and net: "net_rollback N i (w_net w) = (Inl (NetErr msg), n)"
  shows "\<exists>w'. cs_rollback_network P N E a value w = (Inl (Rejected ''network_rollback_failed''
        ''The Wi-Fi rollback did not complete''), w')
    \<and> (\<exists>q'. op_of P (w_store w') i = Some q' \<and> op_state q' = COMPENSATING)
    \<and> net_state_of P (w_store w') = ROLLING_BACK \<and> w_net w' = n
    \<and> (\<forall>payload req. change_request payload = Inr req \<longrightarrow> op_of P (w_store w') (nr_operation_id req) = None \<longrightarrow>
         fst (cs_configure_network P N E a payload w')
         = Inl (Rejected ''operation_conflict'' ''another bootstrap operation is active''))"
proof -
  let ?q = "moved_op COMPENSATING (e_clock E (w_tick w)) None q"
  obtain s1 where s1: "inv s1" "authorized P s1 = authorized P (w_store w)"
      "op_of P s1 = (op_of P (w_store w))(i \<mapsto> ?q)" "net_state_of P s1 = ROLLING_BACK"
      and run: "cs_rollback_network P N E a value w =
        (Inl (Rejected ''network_rollback_failed'' ''The Wi-Fi rollback did not complete''),
         w\<lparr>w_store := s1, w_net := n, w_tick := Suc (w_tick w)\<rparr>)"
    using rollback_run [OF inv admin i q open', where N = N] net by auto
  let ?w1 = "w\<lparr>w_store := s1, w_net := n, w_tick := Suc (w_tick w)\<rparr>"
  have "inv (w_store ?w1)" using s1(1) by simp
  moreover have "admin_access P a (w_store ?w1)" using admin by (cases a) (simp_all add: admin_access_def s1(2))
  moreover have "op_of P s1 i = Some ?q" using s1(3) by simp
  then have "\<not> idle P (w_store ?w1)"
    by (auto simp: idle_def intro!: exI [of _ i] exI [of _ ?q])
  ultimately show ?thesis
    using configure_blocked [of ?w1 a] run s1(3,4)
    by (intro exI [of _ ?w1]) auto
qed

end

section \<open>Both adapters\<close>

interpretation sq_net: network_host sqlite_store "sq_inv (key_names_of E)" E db_session_ids
  by (intro network_host.intro host_env.intro sq_ops.operation_store_axioms sq.authority_store_axioms)

interpretation mem_net: network_host memory_store "mem_inv (key_names_of E)" E mem_ids
  by (intro network_host.intro host_env.intro mem_ops.operation_store_axioms mem.authority_store_axioms)

lemma sq_idle_iff:
  assumes "sq_inv names db"
  shows "idle sqlite_store db \<longleftrightarrow> \<not> list_ex (\<lambda>r. or_state r \<in> set active_state_texts) (db_operations db)"
proof -
  obtain m where m: "db_ok names db" "store_sim db m" "mem_inv names m" using assms by (auto simp: sq_inv_def)
  then have "related names m" by (auto simp: related_def)
  from idle_memory [OF this] sim_ops(3) [OF m(1,2)] operations_active_iff [OF m(1,2)] show ?thesis by simp
qed

section \<open>A sample Host\<close>

definition sample_env :: env where
  "sample_env = \<lparr>e_clock = (\<lambda>k. ''t'' @ dec_of_nat (100 + k)), e_monotonic = (\<lambda>k. int k),
     e_token_bytes = (\<lambda>k. replicate 31 0 @ [k mod 256]), e_uuid4 = uuid_str,
     e_sha256_hex = (\<lambda>bs. replicate 64 (hex_char (foldl (+) 0 bs mod 16))), e_load_key = (\<lambda>_. KeyP256),
     e_ecdsa_verify = (\<lambda>key sig msg. sig = key)\<rparr>"

definition sample_payload :: jobject where
  "sample_payload = [(''public_key'', JStr ''AQID''), (''display_name'', JStr '' Phone ''),
     (''platform'', JStr ''ios'')]"

definition sample_admin :: ControllerGrant where
  "sample_admin = \<lparr>cg_controller_id = ''ectrl-66666666666666666666'', cg_public_key = ''AQID'',
     cg_public_key_fingerprint = ''sha256:'' @ replicate 64 (CHR ''6''), cg_role = HOST_ADMIN,
     cg_display_name = ''Phone'', cg_platform = ''ios'', cg_reset_epoch = 0, cg_created_at = ''t2'',
     cg_revoked_at = None\<rparr>"

definition sample_claim_calls :: "store_call list" where
  "sample_claim_calls = [CIssue ''w1'' ''hash'' ''t1'' None, CClaim ''w1'' ''hash'' sample_admin ''t2'']"

definition sample_host_db :: sql_db where
  "sample_host_db = snd (run_calls sqlite_store sample_claim_calls (sq_create_at_current_schema ''t0''))"

lemma sample_grant_built: "controller_grant sample_env sample_payload 0 ''t2'' = Inr sample_admin"
  by code_simp

lemma sample_host_inv: "sq_inv (key_names_of sample_env) sample_host_db"
proof -
  have "calls_ok (key_names_of sample_env) sample_claim_calls {}"
    using controller_grant_named [OF sample_grant_built]
    by (simp add: calls_ok_def sample_claim_calls_def)
  with sq.run_keeps_inv [OF fresh_inv, of "key_names_of sample_env" sample_claim_calls "''t0''"]
  show ?thesis by (simp add: sample_host_db_def)
qed

lemma sample_host_admin: "admin_access sqlite_store (ControllerAuthorization sample_admin) sample_host_db"
  unfolding sample_host_db_def by code_simp

lemma sample_host_ops: "db_operations sample_host_db = []"
  unfolding sample_host_db_def by code_simp

lemma sample_host_idle: "idle sqlite_store sample_host_db"
  by (simp add: sq_idle_iff [OF sample_host_inv] sample_host_ops)

definition sample_change :: jobject where
  "sample_change = [(''operation_id'', JStr (uuid_str 5)), (''ssid'', JStr ''home''),
     (''passphrase'', JStr ''password''), (''hidden'', JBool True)]"

definition sample_request :: NetworkChangeRequest where
  "sample_request = \<lparr>nr_operation_id = uuid_str 5, nr_ssid = ''home'', nr_passphrase = Some ''password'',
     nr_hidden = True\<rparr>"

lemma sample_change_request: "change_request sample_change = Inr sample_request"
  by code_simp

lemma sample_op_new: "op_of sqlite_store sample_host_db (nr_operation_id sample_request) = None"
  unfolding sample_host_db_def by code_simp

definition sample_world :: "mem_net \<Rightarrow> (sql_db, mem_net) world" where
  "sample_world n = \<lparr>w_store = sample_host_db, w_net = n, w_tick = 0\<rparr>"

lemma sample_world_facts:
  "sq_inv (key_names_of sample_env) (w_store (sample_world n))"
  "admin_access sqlite_store (ControllerAuthorization sample_admin) (w_store (sample_world n))"
  "op_of sqlite_store (w_store (sample_world n)) (nr_operation_id sample_request) = None"
  "idle sqlite_store (w_store (sample_world n))"
  using sample_host_inv sample_host_admin sample_op_new sample_host_idle
  by (simp_all add: sample_world_def)

section \<open>Properties of network changes\<close>

text \<open>
  When an authorized Host Admin asks for a new change on an idle Host and the adapter refuses
  to stage it, the request is refused with the adapter's reason, the operation is recorded as
  failed, the Host falls back to the network state it can vouch for, nobody's authority changes,
  and the Host is idle again, so the next change can be tried.
\<close>

theorem staging_failure_recovers:
  assumes "sq_inv (key_names_of E) (w_store w)" and "admin_access sqlite_store a (w_store w)"
    and "change_request payload = Inr req"
    and "op_of sqlite_store (w_store w) (nr_operation_id req) = None" and "idle sqlite_store (w_store w)"
    and "net_begin_change N req (w_net w) = (Inl (NetErr msg), n)"
  shows "\<exists>q w'. cs_configure_network sqlite_store N E a payload w
        = (Inl (Rejected ''network_stage_failed'' msg), w')
    \<and> op_of sqlite_store (w_store w') = (op_of sqlite_store (w_store w))(nr_operation_id req \<mapsto> q)
    \<and> op_state q = FAILED \<and> op_error_code q = Some ''network_stage_failed''
    \<and> net_state_of sqlite_store (w_store w') = fallback_state (net_state_of sqlite_store (w_store w))
    \<and> idle sqlite_store (w_store w') \<and> authorized sqlite_store (w_store w') = authorized sqlite_store (w_store w)"
  by (rule sq_net.configure_failure [OF assms])

definition busy_net :: mem_net where
  "busy_net = (mem_net_new (Some ''office'') [])\<lparr>mn_active_operation_id := Some ''other'',
     mn_staged_ssid := Some ''cafe'', mn_previous_ssid := Some ''office'', mn_state := STAGING\<rparr>"

lemma busy_net_refuses:
  "mn_begin_change sample_request busy_net = (Inl (NetErr ''another network change is active''), busy_net)"
  by code_simp

lemma staging_failure_recovers_witness:
  "\<exists>w'. cs_configure_network sqlite_store memory_network sample_env (ControllerAuthorization sample_admin)
       sample_change (sample_world busy_net)
     = (Inl (Rejected ''network_stage_failed'' ''another network change is active''), w')
   \<and> idle sqlite_store (w_store w')"
proof -
  have "net_begin_change memory_network sample_request (w_net (sample_world busy_net))
      = (Inl (NetErr ''another network change is active''), busy_net)"
    using busy_net_refuses by (simp add: sample_world_def)
  from staging_failure_recovers [OF sample_world_facts(1,2) sample_change_request sample_world_facts(3,4) this]
  show ?thesis by blast
qed

text \<open>
  When the adapter stages the change, the request answers with the operation waiting for
  confirmation on the requested network, recorded as such; the Host's network state is staging,
  and the adapter is left as the staging left it.
\<close>

theorem staged_change_waits:
  assumes "sq_inv (key_names_of E) (w_store w)" and "admin_access sqlite_store a (w_store w)"
    and "change_request payload = Inr req"
    and "op_of sqlite_store (w_store w) (nr_operation_id req) = None" and "idle sqlite_store (w_store w)"
    and "net_begin_change N req (w_net w) = (Inr snapshot, n)"
  shows "\<exists>q w'. cs_configure_network sqlite_store N E a payload w = (Inr (operation_result q), w')
    \<and> op_of sqlite_store (w_store w') = (op_of sqlite_store (w_store w))(nr_operation_id req \<mapsto> q)
    \<and> op_state q = WAITING_CONFIRMATION \<and> op_target q = nr_ssid req
    \<and> net_state_of sqlite_store (w_store w') = STAGING \<and> w_net w' = n"
  by (rule sq_net.configure_success [OF assms])

lemma staged_change_waits_witness:
  "\<exists>q w'. cs_configure_network sqlite_store memory_network sample_env (ControllerAuthorization sample_admin)
       sample_change (sample_world (mem_net_new None [])) = (Inr (operation_result q), w')
     \<and> op_state q = WAITING_CONFIRMATION \<and> op_target q = ''home''"
proof -
  have "fst (mn_begin_change sample_request (mem_net_new None [])) \<noteq> Inl e" for e
    by (simp add: mn_begin_change_def sample_request_def mem_net_new_def Let_def) code_simp
  then obtain snapshot n where "net_begin_change memory_network sample_request (w_net (sample_world (mem_net_new None [])))
      = (Inr snapshot, n)"
    by (cases "mn_begin_change sample_request (mem_net_new None [])";
        cases "fst (mn_begin_change sample_request (mem_net_new None []))") (auto simp: sample_world_def)
  from staged_change_waits [OF sample_world_facts(1,2) sample_change_request sample_world_facts(3,4) this]
  show ?thesis by (auto simp: sample_request_def)
qed

definition sample_ops_db :: "store_call list \<Rightarrow> sql_db" where
  "sample_ops_db cs = snd (run_calls sqlite_store (sample_claim_calls @ cs) (sq_create_at_current_schema ''t0''))"

definition sample_operation :: BootstrapOperation where
  "sample_operation = new_operation sample_request 0 ''t3''"

definition sample_ops_world :: "store_call list \<Rightarrow> (sql_db, mem_net) world" where
  "sample_ops_world cs = \<lparr>w_store = sample_ops_db cs, w_net = mem_net_new (Some ''home'') [], w_tick = 0\<rparr>"

lemma sample_ops_inv:
  assumes "list_all quiet_call cs" and "concat (map minted_ids cs) = []"
  shows "sq_inv (key_names_of sample_env) (w_store (sample_ops_world cs))"
proof -
  have "call_ok (key_names_of sample_env) c" if "quiet_call c" for c using that by (cases c) simp_all
  then have "list_all (call_ok (key_names_of sample_env)) cs" using assms(1) by (auto simp: list_all_iff)
  then have "calls_ok (key_names_of sample_env) (sample_claim_calls @ cs) {}"
    using controller_grant_named [OF sample_grant_built]
    by (simp del: concat_eq_Nil_conv add: calls_ok_def sample_claim_calls_def assms(2))
  with sq.run_keeps_inv [OF fresh_inv, of "key_names_of sample_env" "sample_claim_calls @ cs" "''t0''"]
  show ?thesis by (simp add: sample_ops_db_def sample_ops_world_def)
qed

definition waiting_calls :: "store_call list" where
  "waiting_calls = [CCreateOperation sample_operation]"

definition succeeded_calls :: "store_call list" where
  "succeeded_calls = waiting_calls @ [CUpdateOperation (uuid_str 5) SUCCEEDED CONNECTED ''t4'' None]"

lemma sample_ops_facts:
  "sq_inv (key_names_of sample_env) (w_store (sample_ops_world waiting_calls))"
  "sq_inv (key_names_of sample_env) (w_store (sample_ops_world succeeded_calls))"
  "admin_access sqlite_store (ControllerAuthorization sample_admin) (w_store (sample_ops_world waiting_calls))"
  "admin_access sqlite_store (ControllerAuthorization sample_admin) (w_store (sample_ops_world succeeded_calls))"
  "op_of sqlite_store (w_store (sample_ops_world waiting_calls)) (uuid_str 5) = Some sample_operation"
  "op_of sqlite_store (w_store (sample_ops_world succeeded_calls)) (uuid_str 5)
     = Some (moved_op SUCCEEDED ''t4'' None sample_operation)"
proof -
  show "sq_inv (key_names_of sample_env) (w_store (sample_ops_world waiting_calls))"
    "sq_inv (key_names_of sample_env) (w_store (sample_ops_world succeeded_calls))"
    by (rule sample_ops_inv; simp add: waiting_calls_def succeeded_calls_def)+
qed (unfold sample_ops_world_def sample_ops_db_def, code_simp+)

text \<open>
  A second change cannot start while an operation is active: the request is refused as a
  conflict before anything is written or staged; only the clock was read.
\<close>

theorem busy_host_refuses_change:
  assumes "sq_inv (key_names_of E) (w_store w)" and "admin_access sqlite_store a (w_store w)"
    and "change_request payload = Inr req"
    and "op_of sqlite_store (w_store w) (nr_operation_id req) = None" and "\<not> idle sqlite_store (w_store w)"
  shows "cs_configure_network sqlite_store N E a payload w
    = (Inl (Rejected ''operation_conflict'' ''another bootstrap operation is active''),
       w\<lparr>w_tick := Suc (w_tick w)\<rparr>)"
  by (rule sq_net.configure_blocked [OF assms])

definition other_change :: jobject where
  "other_change = [(''operation_id'', JStr (uuid_str 6)), (''ssid'', JStr ''cafe'')]"

definition other_request :: NetworkChangeRequest where
  "other_request = \<lparr>nr_operation_id = uuid_str 6, nr_ssid = ''cafe'', nr_passphrase = None, nr_hidden = False\<rparr>"

lemma other_change_request: "change_request other_change = Inr other_request"
  by code_simp

lemma busy_host_refuses_change_witness:
  "fst (cs_configure_network sqlite_store memory_network sample_env (ControllerAuthorization sample_admin)
     other_change (sample_ops_world waiting_calls))
   = Inl (Rejected ''operation_conflict'' ''another bootstrap operation is active'')"
proof -
  have "op_state sample_operation = PENDING" by (simp add: sample_operation_def new_operation_def)
  then have "\<not> idle sqlite_store (w_store (sample_ops_world waiting_calls))"
    unfolding idle_def using sample_ops_facts(5)
    by (auto simp: active_states_def intro!: exI [of _ "uuid_str 5"] exI [of _ sample_operation])
  moreover have "op_of sqlite_store (w_store (sample_ops_world waiting_calls)) (nr_operation_id other_request) = None"
    unfolding sample_ops_world_def sample_ops_db_def by code_simp
  ultimately show ?thesis
    using busy_host_refuses_change [OF sample_ops_facts(1,3) other_change_request, of memory_network] by simp
qed

text \<open>
  Asking again for a change under the same operation id answers with the recorded operation,
  or refuses when the id belongs to another network; either way nothing changes.
\<close>

theorem repeated_change_is_answered:
  assumes "sq_inv (key_names_of E) (w_store w)" and "admin_access sqlite_store a (w_store w)"
    and "change_request payload = Inr req"
    and "op_of sqlite_store (w_store w) (nr_operation_id req) = Some q"
  shows "cs_configure_network sqlite_store N E a payload w =
    (if op_target q = nr_ssid req then Inr (operation_result q)
     else Inl (Rejected ''operation_conflict'' ''operation_id is already in use''), w)"
  by (rule sq_net.configure_repeated [OF assms])

lemma repeated_change_is_answered_witness:
  "cs_configure_network sqlite_store memory_network sample_env (ControllerAuthorization sample_admin)
     sample_change (sample_ops_world waiting_calls)
   = (Inr (operation_result sample_operation), sample_ops_world waiting_calls)"
  using repeated_change_is_answered [OF sample_ops_facts(1,3) sample_change_request, of sample_operation memory_network]
    sample_ops_facts(5)
  by (simp add: sample_request_def sample_operation_def new_operation_def)

text \<open>
  C13. Rolling back a change that was already confirmed: the in-memory adapter has nothing staged
  and refuses, the request answers that the rollback did not complete, and the operation, which
  had succeeded, is left compensating with the Host rolling back. From then on every new change is
  refused as a conflict.
\<close>

theorem confirmed_rollback_blocks:
  assumes "sq_inv (key_names_of E) (w_store w)" and "admin_access sqlite_store a (w_store w)"
    and "operation_id_of value = Inr i" and "op_of sqlite_store (w_store w) i = Some q"
    and "op_state q = SUCCEEDED" and "mn_active_operation_id (w_net w) = None"
  shows "\<exists>w'. cs_rollback_network sqlite_store memory_network E a value w
      = (Inl (Rejected ''network_rollback_failed'' ''The Wi-Fi rollback did not complete''), w')
    \<and> (\<exists>q'. op_of sqlite_store (w_store w') i = Some q' \<and> op_state q' = COMPENSATING)
    \<and> net_state_of sqlite_store (w_store w') = ROLLING_BACK \<and> w_net w' = w_net w
    \<and> (\<forall>payload req. change_request payload = Inr req \<longrightarrow>
         op_of sqlite_store (w_store w') (nr_operation_id req) = None \<longrightarrow>
         fst (cs_configure_network sqlite_store memory_network E a payload w')
         = Inl (Rejected ''operation_conflict'' ''another bootstrap operation is active''))"
proof -
  have "net_rollback memory_network i (w_net w) = (Inl (NetErr ''network operation does not match''), w_net w)"
    using assms(6) by (simp add: mn_rollback_def mn_require_operation_def bindS_def)
  from sq_net.rollback_refused [OF assms(1-4) _ this] assms(5) show ?thesis by simp
qed

lemma confirmed_rollback_blocks_witness:
  "\<exists>w'. cs_rollback_network sqlite_store memory_network sample_env (ControllerAuthorization sample_admin)
       (JStr (uuid_str 5)) (sample_ops_world succeeded_calls)
     = (Inl (Rejected ''network_rollback_failed'' ''The Wi-Fi rollback did not complete''), w')
   \<and> net_state_of sqlite_store (w_store w') = ROLLING_BACK"
proof -
  have "operation_id_of (JStr (uuid_str 5)) = Inr (uuid_str 5)" by code_simp
  from confirmed_rollback_blocks [OF sample_ops_facts(2,4) this sample_ops_facts(6)]
  show ?thesis by (auto simp: sample_ops_world_def mem_net_new_def)
qed

end
