(* ===== verification/Host_Steps.thy ===== *)
theory Host_Steps
  imports Control_Socket Network_Change
begin

text \<open>
  The service and the control socket act on the store through port calls alone. Every operation
  is a \<open>host_step\<close>: it keeps a good world good and changes the store by calls that mint fresh window
  ids and carry well-named Grants, so what is proved of runs of port calls holds of every history
  of the running Host.
\<close>

section \<open>Operations of the service\<close>

locale service_host = host_env P inv "h_env H" ids
  for P :: "'s store_port" and inv :: "'s \<Rightarrow> bool" and H :: host and ids :: "'s \<Rightarrow> string set"
begin

abbreviation step :: "('s, 'n) world \<Rightarrow> ('s, 'n) world \<Rightarrow> bool" where
  "step \<equiv> host_step P inv ids (h_env H)"

lemma step_file_text:
  "(\<And>x. framed step (f x)) \<Longrightarrow> framed step a \<Longrightarrow> framed step b \<Longrightarrow> framed step c \<Longrightarrow>
     framed step (case t of FileMissing \<Rightarrow> a | FileUnreadable \<Rightarrow> b | FileNotUtf8 \<Rightarrow> c | FileText x \<Rightarrow> f x)"
  by (cases t) simp_all

lemma step_reset: "framed step (on_store (sp_reset_authority P n now None))"
  by (rule step_call [where c = "CReset n now None"]) simp_all

lemma step_factory_code: "framed step (hs_read_factory_setup_code H)"
  unfolding hs_read_factory_setup_code_def Let_def by (intro step_rules step_file_text)

lemma step_mint_window: "framed step (hs_mint_window P H code)"
proof -
  have mint: "framed step (bindS (reading (e_uuid4 (h_env H))) (\<lambda>sid.
      bindS (on_store (sp_issue_commissioning_session P sid h now None)) (\<lambda>_. ret (g sid))))"
    for h now and g :: "string \<Rightarrow> jobject"
    by (rule step_mint [where c = "\<lambda>sid. CIssue sid h now None"]) (simp_all add: framed_ret host_step_preorder)
  show ?thesis unfolding hs_mint_window_def by (rule mint | rule step_rules)+
qed

lemma step_draw: "framed step (hs_draw_setup_code H)"
  unfolding hs_draw_setup_code_def by (intro step_rules)

lemmas service_leaves = step_rules step_factory_code step_mint_window step_draw step_reset

lemma step_windows:
  "framed step (hs_open_factory_window P H now)"
  "framed step (hs_reopen_standing_claim_window P H)"
  "framed step (hs_issue_setup_code P H ttl c)"
  "framed step (hs_active_setup_session P H)"
  "framed step (hs_setup_session_status P)"
  unfolding hs_open_factory_window_def hs_reopen_standing_claim_window_def hs_issue_setup_code_def
    hs_active_setup_session_def hs_setup_session_status_def
  by (intro service_leaves)+

lemma step_recovery: "framed step (hs_open_controller_recovery_window P H ttl)"
proof -
  have mint: "framed step (bindS (reading (e_uuid4 (h_env H))) (\<lambda>sid.
      bindS (on_store (sp_reset_authority P n now (Some \<lparr>seed_session_id = sid, seed_secret_hash = h,
        seed_expires_at = e\<rparr>))) (\<lambda>after. ret (g sid after))))"
    for n h now e and g :: "string \<Rightarrow> BootstrapState \<Rightarrow> jobject"
    by (rule step_mint [where c = "\<lambda>sid. CReset n now (Some \<lparr>seed_session_id = sid, seed_secret_hash = h,
        seed_expires_at = e\<rparr>)"]) (simp_all add: framed_ret host_step_preorder)
  show ?thesis
    unfolding hs_open_controller_recovery_window_def Let_def case_prod_beta
    by (rule mint | rule service_leaves)+
qed

lemma step_reset_development: "framed step (hs_reset_development_state P network H forget)"
proof -
  have reconcile: "framed step (hs_reconcile_network_state P H n)" for n
    unfolding hs_reconcile_network_state_def by (intro step_rules)
  have "framed step (hs_forget_profiles P N H)" for N
    unfolding hs_forget_profiles_def by (intro step_rules reconcile)
  then show ?thesis
    unfolding hs_reset_development_state_def by (intro service_leaves step_windows)
qed

lemma step_active: "framed step (hs_active_controller P cid)"
  unfolding hs_active_controller_def by (cases cid) (auto intro!: step_rules)

lemma active_ok:
  assumes "inv (w_store w)" and "hs_active_controller P (JStr cid) w = (Inr g, w')"
  shows "w' = w" and "authorized P (w_store w) cid = Some g" and "cg_controller_id g = cid"
proof -
  obtain x where x: "sp_get_controller P cid (w_store w) = (Inr x, w_store w)"
      "\<And>g. x = Some g \<Longrightarrow> cg_controller_id g = cid"
    using lookup_law [OF assms(1)] by blast
  obtain st where st: "sp_get_state P (w_store w) = (Inr st, w_store w)"
    using state_law [OF assms(1)] by blast
  have "on_store (sp_get_controller P cid) w = (Inr x, w)" "on_store (sp_get_state P) w = (Inr st, w)"
    using x st by (simp_all add: on_store_def)
  with assms(2) have "x = Some g \<and> w' = w \<and> cg_revoked_at g = None"
    by (auto simp: hs_active_controller_def bindS_def raise_def ret_def split: option.splits if_splits)
  with x show "w' = w" "authorized P (w_store w) cid = Some g" "cg_controller_id g = cid"
    by (simp_all add: authorized_def)
qed

lemma step_controllers:
  "framed step (hs_validate_controller P cid e)"
  "framed step (hs_list_controllers P cid)"
  "framed step (hs_revoke_controller P H cid target)"
  "framed step (hs_check_proof P H payload challenge c n)"
proof -
  show "framed step (hs_validate_controller P cid e)" "framed step (hs_list_controllers P cid)"
    unfolding hs_validate_controller_def hs_list_controllers_def by (intro step_rules step_active)+
  show "framed step (hs_revoke_controller P H cid target)"
    unfolding hs_revoke_controller_def by (cases target) (auto intro!: step_rules step_active)
  show "framed step (hs_check_proof P H payload challenge c n)"
    unfolding hs_check_proof_def by (auto intro!: step_rules step_active split: sig_outcome.split)
qed

lemma step_endpoint: "framed step (hs_commissioning_endpoint P H)"
  unfolding hs_commissioning_endpoint_def Let_def by (intro step_rules step_windows)

lemma step_lan_claim: "framed step (hs_claim_lan_controller P network H sid code controller)"
proof -
  have "framed step (cs_claim_controller P (h_env H) (Some (hs_reopen_standing_claim_window P H)) sid h payload)"
    for sid h payload
    by (rule step_claim_use_case) (simp add: step_windows)
  then show ?thesis
    unfolding hs_claim_lan_controller_def
    by (auto split: option.split access.split intro!: step_rules step_authorizations)
qed

end

section \<open>Requests on the control socket\<close>

text \<open>What a relation on worlds says about the service around them, and the table of challenges.\<close>

definition sv_rel :: "(('s, 'n) world \<Rightarrow> ('s, 'n) world \<Rightarrow> bool) \<Rightarrow> ('s, 'n) service \<Rightarrow> ('s, 'n) service \<Rightarrow> bool" where
  "sv_rel R v v' \<longleftrightarrow> R (sv_world v) (sv_world v')"

lemma on_sv_snd [simp]: "snd (on_sv m v) = v\<lparr>sv_world := snd (m (sv_world v))\<rparr>"
  by (simp add: on_sv_def case_prod_beta)

lemma sv_rel_preorder: "reflp R \<Longrightarrow> reflp (sv_rel R)" "transp R \<Longrightarrow> transp (sv_rel R)"
  by (auto simp: sv_rel_def reflp_def transp_def)

lemma sv_rel_on_sv: "framed R m \<Longrightarrow> framed (sv_rel R) (on_sv m)"
  by (simp add: framed_def sv_rel_def)

lemma sv_rel_result: "reflp R \<Longrightarrow> framed (sv_rel R) (of_result r)"
  by (simp add: framed_def sv_rel_def of_result_def reflp_def)

text \<open>An operation whose last act is to set fields of the service other than the world.\<close>

lemma sv_rel_local: "reflp R \<Longrightarrow> (\<And>v. sv_world (snd (f v)) = sv_world v) \<Longrightarrow> framed (sv_rel R) f"
  by (simp add: framed_def sv_rel_def reflp_def)

context service_host
begin

lemma step_take: "framed (sv_rel step) (hs_take_challenge H challenge)"
  unfolding hs_take_challenge_def
  by (intro framed_bind sv_rel_preorder host_step_preorder sv_rel_on_sv step_leaves sv_rel_local)
    (auto simp: Let_def split: option.split)

lemma step_lan_authentication:
  "framed (sv_rel step) (hs_issue_controller_challenge P H cid)"
  "framed (sv_rel step) (hs_authenticate_controller P H proof_value)"
proof -
  show "framed (sv_rel step) (hs_issue_controller_challenge P H cid)"
    unfolding hs_issue_controller_challenge_def
    by (intro framed_bind sv_rel_preorder host_step_preorder sv_rel_on_sv step_leaves step_active sv_rel_local) simp
  show "framed (sv_rel step) (hs_authenticate_controller P H proof_value)"
    unfolding hs_authenticate_controller_def
    by (auto split: json.split prod.split intro!: framed_bind framed_raise sv_rel_preorder host_step_preorder
        sv_rel_on_sv step_take step_controllers)
qed

lemma step_dispatch: "framed (sv_rel step) (ct_dispatch P network H request)"
proof -
  have "framed (sv_rel step) (hs_health P H)"
    unfolding hs_health_def
    by (intro framed_bind sv_rel_preorder host_step_preorder sv_rel_on_sv step_calls sv_rel_local) simp
  moreover have "framed (sv_rel step) (ct_lan_claim P network H request)"
    unfolding ct_lan_claim_def
    by (auto split: json.split intro!: framed_raise sv_rel_preorder host_step_preorder sv_rel_on_sv step_lan_claim)
  moreover have "framed (sv_rel step) (case j of JBool b \<Rightarrow> on_sv (hs_reset_development_state P network H b)
      | _ \<Rightarrow> raise e)" for j and e :: exn
    by (auto split: json.split intro!: framed_raise sv_rel_preorder host_step_preorder sv_rel_on_sv step_reset_development)
  ultimately show ?thesis
    unfolding ct_dispatch_def Let_def
    by (intro framed_if framed_bind framed_ret framed_raise sv_rel_preorder host_step_preorder sv_rel_on_sv
        sv_rel_result step_lan_authentication step_controllers step_endpoint step_recovery step_windows)
qed

lemma handle_keeps: "step (sv_world v) (sv_world (snd (ct_handle P network H request v)))"
  using step_dispatch
  by (auto simp: ct_handle_def framed_def sv_rel_def case_prod_beta reflpD [OF host_step_preorder(1)]
      split: json.split)

end

end
