(* ===== verification/Daemon.thy ===== *)
theory Daemon
  imports Host_Steps Windows
begin

text \<open>
  The running daemon, \<open>bootstrap/daemon.py\<close>: one service shared by the control socket and any
  number of Bluetooth links. A history of the daemon is a sequence of events, each handled to its
  end before the next (the process has a single event loop; the store calls of a request do not
  suspend it).
\<close>

section \<open>States and events\<close>

record link_state =
  ls_authorization :: "access option"
  ls_challenge :: "(string \<times> string \<times> int \<times> int) option"

definition new_link :: link_state where
  "new_link = \<lparr>ls_authorization = None, ls_challenge = None\<rparr>"

record ('s, 'n) daemon =
  d_service :: "('s, 'n) service"
  d_links :: "(nat \<times> link_state) list"

abbreviation d_world :: "('s, 'n) daemon \<Rightarrow> ('s, 'n) world" where
  "d_world d \<equiv> sv_world (d_service d)"

abbreviation d_store :: "('s, 'n) daemon \<Rightarrow> 's" where
  "d_store d \<equiv> w_store (d_world d)"

text \<open>A request on a link: \<open>CommissioningProtocolSession.handle\<close> over the shared service.\<close>

definition link_of :: "('s, 'n) world \<Rightarrow> link_state \<Rightarrow> ('s, 'n) link" where
  "link_of w ls = \<lparr>l_world = w, l_authorization = ls_authorization ls, l_challenge = ls_challenge ls\<rparr>"

definition dm_link_request ::
  "'s store_port \<Rightarrow> 'n net_port \<Rightarrow> host \<Rightarrow> nat \<Rightarrow> jobject \<Rightarrow> ('s, 'n) daemon \<Rightarrow> jobject option \<times> ('s, 'n) daemon" where
  "dm_link_request P N H i request d =
     (case map_of (d_links d) i of
        None \<Rightarrow> (None, d)
      | Some ls \<Rightarrow>
          (case pr_handle P N (h_env H) (Some (hs_reopen_standing_claim_window P H)) request (link_of (d_world d) ls) of
             (response, l) \<Rightarrow>
               (Some response,
                d\<lparr>d_service := (d_service d)\<lparr>sv_world := l_world l\<rparr>,
                  d_links := dict_set i \<lparr>ls_authorization = l_authorization l, ls_challenge = l_challenge l\<rparr> (d_links d)\<rparr>)))"

definition dm_control ::
  "'s store_port \<Rightarrow> 'n net_port \<Rightarrow> host \<Rightarrow> json \<Rightarrow> ('s, 'n) daemon \<Rightarrow> jobject \<times> ('s, 'n) daemon" where
  "dm_control P N H request d =
     (case ct_handle P (Some N) H request (d_service d) of (response, v) \<Rightarrow> (response, d\<lparr>d_service := v\<rparr>))"

text \<open>
  What may happen next: a link is accepted or lost, a request arrives on a link or on the control
  socket, the listener changes the published status, or the radio changes by itself.
\<close>

inductive daemon_step ::
  "'s store_port \<Rightarrow> 'n net_port \<Rightarrow> host \<Rightarrow> ('s, 'n) daemon \<Rightarrow> ('s, 'n) daemon \<Rightarrow> bool" for P N H where
  accepted: "i \<notin> fst ` set (d_links d) \<Longrightarrow> daemon_step P N H d (d\<lparr>d_links := d_links d @ [(i, new_link)]\<rparr>)"
| lost: "daemon_step P N H d (d\<lparr>d_links := filter (\<lambda>(j, _). j \<noteq> i) (d_links d)\<rparr>)"
| link_request: "dm_link_request P N H i request d = (response, d') \<Longrightarrow> daemon_step P N H d d'"
| control_request: "dm_control P N H request d = (response, d') \<Longrightarrow> daemon_step P N H d d'"
| status: "hs_set_commissioning_status s (d_service d) = (r, v) \<Longrightarrow> daemon_step P N H d (d\<lparr>d_service := v\<rparr>)"
| radio: "daemon_step P N H d (d\<lparr>d_service := (d_service d)\<lparr>sv_world := (d_world d)\<lparr>w_net := n\<rparr>\<rparr>\<rparr>)"

abbreviation daemon_run ::
  "'s store_port \<Rightarrow> 'n net_port \<Rightarrow> host \<Rightarrow> ('s, 'n) daemon \<Rightarrow> ('s, 'n) daemon \<Rightarrow> bool" where
  "daemon_run P N H \<equiv> (daemon_step P N H)\<^sup>*\<^sup>*"

section \<open>The table of LAN challenges\<close>

text \<open>Bounded, one entry per challenge.\<close>

definition challenges_ok :: "challenges \<Rightarrow> bool" where
  "challenges_ok cs \<longleftrightarrow> length cs \<le> 256 \<and> distinct (map fst cs)"

lemma challenges_filter: "challenges_ok cs \<Longrightarrow> challenges_ok (filter p cs)"
  by (auto simp: challenges_ok_def distinct_map_filter intro: le_trans [OF length_filter_le])

lemma earliest_in: "earliest m xs \<in> insert m (set xs)"
  by (induction xs arbitrary: m) auto

lemma make_room_small:
  assumes "challenges_ok cs"
  shows "challenges_ok (make_room cs)" and "length (make_room cs) < 256"
proof -
  show "challenges_ok (make_room cs)"
    using challenges_filter [OF assms] assms by (cases cs) (simp_all add: make_room_def pop_challenge_def del: filter.simps)
  show "length (make_room cs) < 256"
  proof (cases "length cs < 256")
    case False
    then obtain x xs where cs: "cs = x # xs" by (cases cs) auto
    let ?e = "earliest x xs"
    have "?e \<in> set cs" using earliest_in [of x xs] cs by simp
    then have "length (filter (\<lambda>(c, _). c \<noteq> fst ?e) cs) < length cs"
      by (rule length_filter_less) (auto simp: case_prod_beta)
    with False assms cs show ?thesis by (simp add: make_room_def pop_challenge_def challenges_ok_def)
  qed (simp add: make_room_def)
qed

lemma length_dict_set: "length (dict_set k v cs) \<le> Suc (length cs)"
  by (induction cs) auto

lemma challenges_set:
  "challenges_ok cs \<Longrightarrow> length cs < 256 \<Longrightarrow> challenges_ok (dict_set k v cs)"
  using length_dict_set [of k v cs] by (simp add: challenges_ok_def distinct_update)

definition table_kept :: "('s, 'n) service \<Rightarrow> ('s, 'n) service \<Rightarrow> bool" where
  "table_kept v v' \<longleftrightarrow> (challenges_ok (sv_challenges v) \<longrightarrow> challenges_ok (sv_challenges v'))"

lemma table_kept_preorder: "reflp table_kept" "transp table_kept"
  by (auto simp: table_kept_def reflp_def transp_def)

lemma table_on_sv: "framed table_kept (on_sv m)"
  by (simp add: framed_def table_kept_def)

lemma table_result: "framed table_kept (of_result r)"
  by (simp add: framed_def table_kept_def of_result_def)

lemmas table_rules = framed_rules table_kept_preorder table_on_sv table_result

lemma table_issue: "framed table_kept (hs_issue_controller_challenge P H cid)"
  unfolding hs_issue_controller_challenge_def
  by (intro table_rules) (auto simp: framed_def table_kept_def purge_challenges_def
      intro!: challenges_set make_room_small challenges_filter)

lemma table_authenticate: "framed table_kept (hs_authenticate_controller P H proof_value)"
proof -
  have "framed table_kept (hs_take_challenge H challenge)" for challenge
    unfolding hs_take_challenge_def
    by (intro table_rules) (auto simp: framed_def table_kept_def purge_challenges_def pop_challenge_def Let_def
        intro!: challenges_filter split: option.split)
  then show ?thesis
    unfolding hs_authenticate_controller_def
    by (auto split: json.split prod.split intro!: table_rules)
qed

lemma table_dispatch: "framed table_kept (ct_dispatch P network H request)"
proof -
  have "framed table_kept (hs_health P H)"
    unfolding hs_health_def by (intro table_rules) (simp add: framed_def table_kept_def)
  moreover have "framed table_kept (ct_lan_claim P network H request)"
    unfolding ct_lan_claim_def by (auto split: json.split intro!: table_rules)
  moreover have "framed table_kept (case j of JBool b \<Rightarrow> on_sv (f b) | _ \<Rightarrow> raise e)" for j f and e :: exn
    by (auto split: json.split intro!: table_rules)
  ultimately show ?thesis
    unfolding ct_dispatch_def Let_def by (intro table_rules table_issue table_authenticate)
qed

lemma table_handle: "table_kept v (snd (ct_handle P network H request v))"
  by (auto simp: ct_handle_def case_prod_beta reflpD [OF table_kept_preorder(1)] split: json.split
      intro: table_dispatch [unfolded framed_def, rule_format])

section \<open>Every history\<close>

locale daemon_host = service_host P inv H ids
  for P :: "'s store_port" and inv :: "'s \<Rightarrow> bool" and H :: host and ids :: "'s \<Rightarrow> string set" +
  fixes N :: "'n net_port"
  assumes reads_network: "snd (net_scan N n) = n" "snd (net_get_state N n) = n"
begin

lemma callback_frames:
  "framed step (hs_reopen_standing_claim_window P H)"
  "framed net_same (hs_reopen_standing_claim_window P H)"
proof -
  show "framed step (hs_reopen_standing_claim_window P H)" by (rule step_windows)
  have "framed net_same (hs_read_factory_setup_code H)"
    unfolding hs_read_factory_setup_code_def Let_def
    by (auto split: file_text.split intro!: net_same_rules)
  moreover have "framed net_same (hs_mint_window P H code)" for code
    unfolding hs_mint_window_def by (intro net_same_rules)
  ultimately show "framed net_same (hs_reopen_standing_claim_window P H)"
    unfolding hs_reopen_standing_claim_window_def by (intro net_same_rules)
qed

end

sublocale daemon_host \<subseteq> link: commissioning_host P inv "h_env H" ids N "Some (hs_reopen_standing_claim_window P H)"
  by unfold_locales (auto intro: callback_frames reads_network)

context daemon_host
begin

lemma link_request_step: "step (d_world d) (d_world (snd (dm_link_request P N H i request d)))"
  using link.handle_step [of "link_of (d_world d) ls" request for ls]
  by (auto simp: dm_link_request_def link_of_def case_prod_beta reflpD [OF host_step_preorder(1)] split: option.split)

lemma control_step: "step (d_world d) (d_world (snd (dm_control P N H request d)))"
  using handle_keeps by (simp add: dm_control_def case_prod_beta)

lemma step_world:
  assumes "daemon_step P N H d d'"
  shows "step (d_world d) (d_world d')"
  using assms
proof (cases rule: daemon_step.cases)
  case (link_request i request response)
  then show ?thesis using link_request_step [of d i request] by simp
next
  case (control_request request response)
  then show ?thesis using control_step [of d request] by simp
next
  case (status s r v)
  then show ?thesis
    by (auto simp: hs_set_commissioning_status_def reflpD [OF host_step_preorder(1)] split: if_splits)
qed (auto simp: host_step_def good_world_def reaches_refl reflpD [OF host_step_preorder(1)])

lemma step_table:
  assumes "daemon_step P N H d d'"
  shows "table_kept (d_service d) (d_service d')"
  using assms
proof (cases rule: daemon_step.cases)
  case (link_request i request response)
  then show ?thesis by (auto simp: dm_link_request_def table_kept_def split: option.splits prod.splits)
next
  case (control_request request response)
  then show ?thesis
    using table_handle [of "d_service d" P "Some N" H request] by (auto simp: dm_control_def split: prod.splits)
next
  case (status s r v)
  then show ?thesis by (auto simp: hs_set_commissioning_status_def table_kept_def split: if_splits)
qed (simp_all add: table_kept_def)

lemma run_world: "daemon_run P N H d d' \<Longrightarrow> step (d_world d) (d_world d')"
  by (induction rule: rtranclp_induct)
    (auto intro: step_world transpD [OF host_step_preorder(2)] reflpD [OF host_step_preorder(1)])

lemma run_table: "daemon_run P N H d d' \<Longrightarrow> table_kept (d_service d) (d_service d')"
  by (induction rule: rtranclp_induct)
    (auto intro: step_table transpD [OF table_kept_preorder(2)] reflpD [OF table_kept_preorder(1)])

lemma run_invariant:
  assumes "daemon_run P N H d d'" and "good_world inv ids (h_env H) (d_world d)"
    and "challenges_ok (sv_challenges (d_service d))"
  shows "good_world inv ids (h_env H) (d_world d')" and "challenges_ok (sv_challenges (d_service d'))"
    and "reaches P (key_names_of (h_env H)) ids (d_store d) (d_store d')"
    and "\<exists>st. sp_get_state P (d_store d') = (Inr st, d_store d')
      \<and> (bs_claim_state st = CLAIMED \<longleftrightarrow> (\<exists>c. authorized P (d_store d') c \<noteq> None))"
proof -
  show good: "good_world inv ids (h_env H) (d_world d')"
    and "reaches P (key_names_of (h_env H)) ids (d_store d) (d_store d')"
    using run_world [OF assms(1)] assms(2) by (simp_all add: host_step_def)
  show "challenges_ok (sv_challenges (d_service d'))"
    using run_table [OF assms(1)] assms(3) by (simp add: table_kept_def)
  show "\<exists>st. sp_get_state P (d_store d') = (Inr st, d_store d')
      \<and> (bs_claim_state st = CLAIMED \<longleftrightarrow> (\<exists>c. authorized P (d_store d') c \<noteq> None))"
    using state_law good by (simp add: good_world_def)
qed

end

interpretation sq_daemon: daemon_host sqlite_store "sq_inv (key_names_of (h_env H))" H db_session_ids memory_network
  by unfold_locales (simp_all add: memory_network_def mn_scan_def mn_get_state_def ret_def)

interpretation mem_daemon: daemon_host memory_store "mem_inv (key_names_of (h_env H))" H mem_ids memory_network
  by unfold_locales (simp_all add: memory_network_def mn_scan_def mn_get_state_def ret_def)

end
