(* ===== verification/Endpoint.thy ===== *)
theory Endpoint
  imports Daemon
begin

text \<open>
  The signed endpoint against the 512 bytes one Bluetooth attribute can carry: how many addresses
  are admitted, and that the endpoint of a Host fits whatever addresses it has.
\<close>

section \<open>Admitting addresses\<close>

lemma addresses_that_fit_prefix:
  "\<exists>n \<le> length addresses. addresses_that_fit H unsigned admitted addresses = admitted @ take n addresses
     \<and> (n < length addresses \<longrightarrow>
          endpoint_size (endpoint_with H unsigned (admitted @ take (Suc n) addresses)) > GATT_MAX_ATTRIBUTE_BYTES)"
proof (induction addresses arbitrary: admitted)
  case (Cons a as)
  show ?case
  proof (cases "endpoint_size (endpoint_with H unsigned (admitted @ [a])) > GATT_MAX_ATTRIBUTE_BYTES")
    case True
    then show ?thesis by (intro exI [of _ 0]) simp
  next
    case False
    from Cons.IH [of "admitted @ [a]"] obtain n where n: "n \<le> length as"
      "addresses_that_fit H unsigned (admitted @ [a]) as = (admitted @ [a]) @ take n as"
      "n < length as \<longrightarrow> endpoint_size (endpoint_with H unsigned ((admitted @ [a]) @ take (Suc n) as)) > GATT_MAX_ATTRIBUTE_BYTES"
      by blast
    with False show ?thesis by (intro exI [of _ "Suc n"]) simp
  qed
qed simp

lemma addresses_that_fit_size:
  "endpoint_size (endpoint_with H unsigned admitted) \<le> GATT_MAX_ATTRIBUTE_BYTES \<Longrightarrow>
     endpoint_size (endpoint_with H unsigned (addresses_that_fit H unsigned admitted addresses)) \<le> GATT_MAX_ATTRIBUTE_BYTES"
  by (induction H unsigned admitted addresses rule: addresses_that_fit.induct) auto

section \<open>Sizes of canonical text\<close>

definition text_size :: "string \<Rightarrow> nat" where
  "text_size s = length (utf8 s)"

lemma text_size_simps [simp]:
  "text_size [] = 0"
  "text_size (c # s) = length (utf8_char c) + text_size s"
  "text_size (a @ b) = text_size a + text_size b"
  by (simp_all add: text_size_def utf8_def)

text \<open>Printable ASCII that JSON writes as it is: what identifiers, keys and digests consist of.\<close>

definition plain :: "string \<Rightarrow> bool" where
  "plain s \<longleftrightarrow> list_all (\<lambda>c. 32 \<le> (of_char c :: nat) \<and> (of_char c :: nat) < 127 \<and> c \<noteq> CHR 34 \<and> c \<noteq> CHR 92) s"

lemma plain_char:
  assumes "32 \<le> (of_char c :: nat)" and "(of_char c :: nat) < 127" and "c \<noteq> CHR 34" and "c \<noteq> CHR 92"
  shows "json_char ascii c = [c]" and "length (utf8_char c) = 1"
proof -
  have "c \<noteq> CHR 10" "c \<noteq> CHR 13" "c \<noteq> CHR 9" "c \<noteq> CHR 12" "c \<noteq> CHR 8" using assms(1) by auto
  then show "json_char ascii c = [c]" using assms by (simp add: json_char_def)
  show "length (utf8_char c) = 1" using assms(2) by (simp add: utf8_char_def Let_def of_char_of)
qed

lemma plain_text: "plain s \<Longrightarrow> concat (map (json_char ascii) s) = s \<and> text_size s = length s"
  by (induction s) (auto simp: plain_def plain_char)

lemma text_size_string: "plain s \<Longrightarrow> text_size (json_string ascii s) = length s + 2"
  using plain_text [of s ascii] by (simp add: json_string_def utf8_char_def)

lemma plain_append [simp]: "plain (a @ b) \<longleftrightarrow> plain a \<and> plain b"
  by (simp add: plain_def)

lemma plain_b64encode: "is_bytes bs \<Longrightarrow> plain (b64encode bs)"
  unfolding plain_def
proof (rule b64encode_all)
  have "\<forall>v \<in> set [0..<64]. plain [b64_char v]" by code_simp
  then show "v < 64 \<Longrightarrow> 32 \<le> (of_char (b64_char v) :: nat) \<and> (of_char (b64_char v) :: nat) < 127
      \<and> b64_char v \<noteq> CHR 34 \<and> b64_char v \<noteq> CHR 92" for v
    by (auto simp: plain_def)
qed

lemma dec_digit_plain: "n < 10 \<Longrightarrow> plain [''0123456789'' ! n]"
proof -
  have "\<forall>v \<in> set [0..<10]. plain [''0123456789'' ! v]" by code_simp
  then show "n < 10 \<Longrightarrow> ?thesis" by auto
qed

lemma dec_of_nat_size: "0 < k \<Longrightarrow> n < 10 ^ k \<Longrightarrow> plain (dec_of_nat n) \<and> length (dec_of_nat n) \<le> k"
proof (induction k arbitrary: n)
  case (Suc k)
  show ?case
  proof (cases "n < 10")
    case True
    then show ?thesis using dec_digit_plain [of n] by (simp add: dec_of_nat.simps)
  next
    case False
    then have "0 < k" using Suc.prems by (cases k) auto
    moreover have "n div 10 < 10 ^ k" using Suc.prems by (simp add: less_mult_imp_div_less mult.commute)
    ultimately have "plain (dec_of_nat (n div 10)) \<and> length (dec_of_nat (n div 10)) \<le> k" by (rule Suc.IH)
    with False dec_digit_plain [of "n mod 10"] show ?thesis by (subst (1 2) dec_of_nat.simps) simp
  qed
qed simp

section \<open>The endpoint of a Host\<close>

text \<open>
  The fixed parts of an endpoint: a raw Ed25519 public key and the digest of the TLS key in
  base64url with its prefix, 64 byte signatures, and a window named by a UUID.
\<close>

definition identity_sized :: "host \<Rightarrow> bool" where
  "identity_sized H \<longleftrightarrow> plain (hi_public_key (h_identity H)) \<and> length (hi_public_key (h_identity H)) \<le> 43
     \<and> plain (h_tls_spki_fingerprint H) \<and> length (h_tls_spki_fingerprint H) \<le> 50
     \<and> (\<forall>m. is_bytes (h_sign H m) \<and> length (h_sign H m) = 64)"

definition session_sized :: "json \<Rightarrow> bool" where
  "session_sized sess \<longleftrightarrow> sess = JNull \<or> (\<exists>sid expires. sess = JObj [(''commissioning_id'', JStr sid), (''expires_at'', jopt expires)]
     \<and> plain sid \<and> length sid \<le> 36 \<and> (\<forall>e. expires = Some e \<longrightarrow> plain e \<and> length e \<le> 27))"

lemma session_text:
  assumes "session_sized sess"
  shows "text_size (json_dumps False sess) \<le> 103"
  using assms unfolding session_sized_def
proof
  assume "sess = JNull"
  then show ?thesis by (simp add: utf8_char_def)
next
  assume "\<exists>sid expires. sess = JObj [(''commissioning_id'', JStr sid), (''expires_at'', jopt expires)]
     \<and> plain sid \<and> length sid \<le> 36 \<and> (\<forall>e. expires = Some e \<longrightarrow> plain e \<and> length e \<le> 27)"
  then obtain sid expires where s: "sess = JObj [(''commissioning_id'', JStr sid), (''expires_at'', jopt expires)]"
      "plain sid" "length sid \<le> 36" "\<And>e. expires = Some e \<Longrightarrow> plain e \<and> length e \<le> 27" by blast
  have keys: "plain ''commissioning_id''" "plain ''expires_at''" by code_simp+
  have "text_size (json_dumps False (jopt expires)) \<le> 29"
    using s(4) by (cases expires) (simp_all add: jopt_def text_size_string utf8_char_def)
  moreover have order: "''commissioning_id'' \<le> ''expires_at''" by (simp add: less_eq_char_def)
  ultimately show ?thesis
    using s(1-3) by (simp add: text_size_string keys utf8_char_def order)
qed

lemma endpoint_keys:
  "plain ''contract_version''" "plain ''host_public_key''" "plain ''local_api_base_urls''" "plain ''purpose''"
  "plain ''reset_epoch''" "plain ''setup_session''" "plain ''signature''" "plain ''tls_spki_fingerprint''"
  "plain ''1''" "plain ''eidolon-ble-commissioning-endpoint-v1''"
  by code_simp+

lemma endpoint_text:
  "json_dumps False (JObj (endpoint_with H (unsigned_endpoint H e sess) [])) =
     ''{'' @ json_string False ''contract_version'' @ '':'' @ json_string False ''1'' @ '',''
     @ json_string False ''host_public_key'' @ '':'' @ json_string False (hi_public_key (h_identity H)) @ '',''
     @ json_string False ''local_api_base_urls'' @ '':[],''
     @ json_string False ''purpose'' @ '':'' @ json_string False ''eidolon-ble-commissioning-endpoint-v1'' @ '',''
     @ json_string False ''reset_epoch'' @ '':'' @ dec_of_int e @ '',''
     @ json_string False ''setup_session'' @ '':'' @ json_dumps False sess @ '',''
     @ json_string False ''signature'' @ '':'' @ json_string False (sign_mapping H (unsigned_endpoint H e sess)) @ '',''
     @ json_string False ''tls_spki_fingerprint'' @ '':'' @ json_string False (h_tls_spki_fingerprint H) @ ''}''"
  by (simp add: endpoint_with_def unsigned_endpoint_def Let_def less_eq_char_def less_char_def)

lemma base_endpoint_fits:
  assumes "identity_sized H" and "session_sized sess" and "0 \<le> e" and "e < 10 ^ 9"
  shows "endpoint_size (endpoint_with H (unsigned_endpoint H e sess) []) \<le> GATT_MAX_ATTRIBUTE_BYTES"
proof -
  note H = assms(1) [unfolded identity_sized_def]
  have "nat e < 10 ^ 9" using assms(3,4) by simp
  then have epoch: "text_size (dec_of_int e) \<le> 9"
    using dec_of_nat_size [of 9 "nat e"] plain_text [of "dec_of_nat (nat e)"] assms(3) by (simp add: dec_of_int_def)
  have "plain (sign_mapping H m) \<and> length (sign_mapping H m) = 86" for m
    using H by (simp add: sign_mapping_def plain_b64encode length_b64encode)
  then have "text_size (json_string False (sign_mapping H m)) = 88" for m by (simp add: text_size_string)
  moreover note session_text [OF assms(2)] epoch
  moreover have "text_size (json_string False (hi_public_key (h_identity H))) \<le> 45"
      "text_size (json_string False (h_tls_spki_fingerprint H)) \<le> 52"
    using H by (simp_all add: text_size_string)
  ultimately show ?thesis
    unfolding endpoint_size_def encode_endpoint_def text_size_def [symmetric] endpoint_text GATT_MAX_ATTRIBUTE_BYTES_def
    by (simp add: text_size_string endpoint_keys utf8_char_def)
qed

definition own_urls :: "host \<Rightarrow> nat \<Rightarrow> string list" where
  "own_urls H k = local_api_base_urls (st_local_api_port (h_settings H)) (h_product_link H) (h_interfaces H k)"

text \<open>Windows as the services mint them: a UUID for a name, a timestamp at most for an end.\<close>

definition sessions_sized :: "sql_db \<Rightarrow> bool" where
  "sessions_sized db \<longleftrightarrow> list_all (\<lambda>r. plain (sr_session_id r) \<and> length (sr_session_id r) \<le> 36
     \<and> (case sr_expires_at r of None \<Rightarrow> True | Some e \<Rightarrow> plain e \<and> length e \<le> 27)) (db_sessions db)"

lemma active_session_sized:
  assumes "sessions_sized (w_store w)" and "hs_active_setup_session sqlite_store H w = (Inr sess, w')"
  shows "session_sized sess"
proof -
  have latest: "plain (cs_session_id s) \<and> length (cs_session_id s) \<le> 36
      \<and> (\<forall>e. cs_expires_at s = Some e \<longrightarrow> plain e \<and> length e \<le> 27)"
    if "sq_latest_commissioning_session (w_store w) = (Inr (Some s), d)" for s d
  proof -
    let ?rows = "sort_key (\<lambda>r. (sr_created_at r, sr_session_id r)) (db_sessions (w_store w))"
    have "db_sessions (w_store w) \<noteq> []" and s: "s = session_of (last ?rows)"
      using that by (auto simp: sq_latest_commissioning_session_def bindS_def sq_connection_def split: if_splits)
    then have "last ?rows \<in> set ?rows" by (intro last_in_set) (metis length_0_conv length_sort)
    with assms(1) s show ?thesis
      by (auto simp: sessions_sized_def list_all_iff session_of_def split: option.splits)
  qed
  then have "session_sized (JObj [(''commissioning_id'', JStr (cs_session_id s)), (''expires_at'', jopt (cs_expires_at s))])"
    if "sq_latest_commissioning_session (w_store w) = (Inr (Some s), d)" for s d
    using that unfolding session_sized_def by blast
  moreover have "session_sized JNull" by (simp add: session_sized_def)
  ultimately show ?thesis
    using assms(2)
    by (auto simp: hs_active_setup_session_def ret_def elim!: on_store_InrE split: option.splits if_splits)
qed

lemma endpoint_run:
  assumes "hs_commissioning_endpoint sqlite_store H w = (Inr endpoint, w')" and "sessions_sized (w_store w)"
  obtains sess k where "session_sized sess"
    and "endpoint = endpoint_with H (unsigned_endpoint H (port_epoch sqlite_store (w_store w)) sess)
      (addresses_that_fit H (unsigned_endpoint H (port_epoch sqlite_store (w_store w)) sess) []
        (own_urls H k))"
proof -
  obtain state s where st: "sq_get_state (w_store w) = (Inr state, s)"
    using assms(1) by (auto simp: hs_commissioning_endpoint_def elim!: on_store_InrE)
  have "s = w_store w" using framed_sq_reads st by (auto simp: sq_get_state_def bindS_def sq_connection_def split: if_splits option.splits)
  with st have get: "on_store (sp_get_state sqlite_store) w = (Inr state, w)" by (simp add: on_store_def)
  have epoch: "bs_reset_epoch state = port_epoch sqlite_store (w_store w)"
    using st by (simp add: port_epoch_def)
  obtain sess w1 where sess: "hs_active_setup_session sqlite_store H w = (Inr sess, w1)"
      and out: "endpoint = (let unsigned = unsigned_endpoint H (bs_reset_epoch state) sess in
        endpoint_with H unsigned (addresses_that_fit H unsigned []
        (own_urls H (w_tick w1))))"
    using assms(1) unfolding hs_commissioning_endpoint_def bindS_ok [where m = "on_store (sp_get_state sqlite_store)", OF get] own_urls_def
    by (auto simp: Let_def ret_def)
  show thesis
    by (rule that [OF active_session_sized [OF assms(2) sess], of "w_tick w1"]) (simp add: out Let_def epoch)
qed

lemma sq_inv_open: "sq_inv names db \<Longrightarrow> db_open db"
  using db_okD(1) by (auto simp: sq_inv_def)

lemma sq_latest_ok: "sq_inv names db \<Longrightarrow> \<exists>x. sq_latest_commissioning_session db = (Inr x, db)"
  using sq_inv_open by (auto simp: sq_latest_commissioning_session_def bindS_def sq_connection_def)

lemma active_session_total:
  assumes "sq_inv names (w_store w)"
  shows "\<exists>sess w'. hs_active_setup_session sqlite_store H w = (Inr sess, w') \<and> w_store w' = w_store w"
proof -
  obtain x where "on_store (sp_latest_commissioning_session sqlite_store) w = (Inr x, w)"
    using sq_latest_ok [OF assms] by (auto simp: on_store_def)
  then show ?thesis
    by (cases x) (auto simp: hs_active_setup_session_def bindS_def ret_def)
qed

lemma endpoint_total:
  assumes "sq_inv names (w_store w)"
  shows "\<exists>endpoint w'. hs_commissioning_endpoint sqlite_store H w = (Inr endpoint, w')"
proof -
  obtain st where "on_store (sp_get_state sqlite_store) w = (Inr st, w)"
    using sq.state_law [OF assms] by (auto simp: on_store_def)
  moreover obtain sess w1 where "hs_active_setup_session sqlite_store H w = (Inr sess, w1)"
    using active_session_total [OF assms] by blast
  ultimately show ?thesis by (simp add: hs_commissioning_endpoint_def bindS_def ret_def Let_def)
qed

text \<open>
  The endpoint a Host publishes is never longer than the 512 bytes one attribute read carries,
  whatever addresses the machine has: it carries the longest run of them, from the most routable
  on, that fits together with the signature.
\<close>

theorem published_endpoint_fits:
  assumes "hs_commissioning_endpoint sqlite_store H w = (Inr endpoint, w')" and "identity_sized H"
    and "sessions_sized (w_store w)"
    and "0 \<le> port_epoch sqlite_store (w_store w)" and "port_epoch sqlite_store (w_store w) < 10 ^ 9"
  shows "endpoint_size endpoint \<le> 512
    \<and> (\<exists>sess k n. let unsigned = unsigned_endpoint H (port_epoch sqlite_store (w_store w)) sess;
            urls = own_urls H k
          in endpoint = endpoint_with H unsigned (take n urls)
             \<and> (n < length urls \<longrightarrow> 512 < endpoint_size (endpoint_with H unsigned (take (Suc n) urls))))"
proof -
  obtain sess k where run: "session_sized sess"
    "endpoint = endpoint_with H (unsigned_endpoint H (port_epoch sqlite_store (w_store w)) sess)
      (addresses_that_fit H (unsigned_endpoint H (port_epoch sqlite_store (w_store w)) sess) []
        (own_urls H k))"
    using endpoint_run [OF assms(1,3)] by blast
  have "endpoint_size endpoint \<le> 512"
    using addresses_that_fit_size [OF base_endpoint_fits [OF assms(2) run(1) assms(4,5)]] run(2)
    by (simp add: GATT_MAX_ATTRIBUTE_BYTES_def)
  moreover obtain n where
    "endpoint = endpoint_with H (unsigned_endpoint H (port_epoch sqlite_store (w_store w)) sess)
       (take n (own_urls H k))"
    "n < length (own_urls H k) \<longrightarrow>
      512 < endpoint_size (endpoint_with H (unsigned_endpoint H (port_epoch sqlite_store (w_store w)) sess)
       (take (Suc n) (own_urls H k)))"
    using addresses_that_fit_prefix [of "own_urls H k"
        H "unsigned_endpoint H (port_epoch sqlite_store (w_store w)) sess" "[]"] run(2)
    unfolding GATT_MAX_ATTRIBUTE_BYTES_def append_Nil by metis
  ultimately show ?thesis unfolding Let_def by blast
qed

definition sample_host :: host where
  "sample_host = \<lparr>h_settings = \<lparr>st_mode = DEVELOPMENT, st_state_dir = path_of ''/s'', st_runtime_dir = path_of ''/r'',
      st_control_socket = path_of ''/c'', st_ble_service_uuid = uuid_str 7, st_setup_code_ttl_seconds = 600,
      st_commissioning_adapter = DISABLED, st_network_adapter = MEMORY, st_local_api_port = 9002,
      st_claim_window = ALWAYS_OPEN\<rparr>,
     h_env = sample_env, h_identity = \<lparr>hi_host_id = ''ehost-1'', hi_public_key = ''key'', hi_public_key_fingerprint = ''sha256:f''\<rparr>,
     h_identity_load = Inr (), h_sign = (\<lambda>_. replicate 64 7), h_tls_spki_fingerprint = ''sha256:t'',
     h_interfaces = (\<lambda>_. Some [[(True, Some ''169.254.1.1''), (True, Some ''10.0.0.2'')]]), h_product_link = (\<lambda>_. True),
     h_factory_file = (\<lambda>_. FileText ''73915284''), h_randbelow = (\<lambda>_ _. 7), h_draws = 4,
     h_later = (\<lambda>_ k. ''u'' @ dec_of_nat (100 + k)), h_pid = 1, h_message = (\<lambda>c. c), h_repr = (\<lambda>_. ''?'')\<rparr>"

lemma sample_host_env [simp]: "h_env sample_host = sample_env"
  by (simp add: sample_host_def)

lemma sample_identity_sized: "identity_sized sample_host"
proof -
  have "plain ''key''" "plain ''sha256:t''" by code_simp+
  then show ?thesis by (simp add: identity_sized_def sample_host_def is_bytes_def list_all_iff)
qed

lemma published_endpoint_fits_witness:
  "\<exists>endpoint w'. hs_commissioning_endpoint sqlite_store sample_host (sample_world (mem_net_new None [])) = (Inr endpoint, w')
     \<and> endpoint_size endpoint \<le> 512"
proof -
  let ?w = "sample_world (mem_net_new None [])"
  obtain endpoint w' where run: "hs_commissioning_endpoint sqlite_store sample_host ?w = (Inr endpoint, w')"
    using endpoint_total [OF sample_world_facts(1)] by blast
  have "sessions_sized (w_store ?w)" "port_epoch sqlite_store (w_store ?w) = 0"
    unfolding sample_world_def sample_host_db_def by code_simp+
  with published_endpoint_fits [OF run sample_identity_sized] run show ?thesis by auto
qed

end
