(* ===== verification/Host_Claims.thy ===== *)
theory Host_Claims
  imports Endpoint
begin

text \<open>
  What the running Host guarantees to the people around it: who may use the radio, what a proof of
  a Controller is worth, and which windows are open after each operation that touches them.
\<close>

section \<open>Every history of the daemon\<close>

text \<open>
  C16. In every history of the daemon, whatever requests arrive on its links and its control socket
  and in whatever order, the durable store stays in its invariant, the Host reports itself claimed
  exactly when some Controller is authorized, and no more than 256 LAN challenges are outstanding.
\<close>

theorem daemon_history_invariant:
  assumes "daemon_run sqlite_store memory_network H d d'"
    and "good_world (sq_inv (key_names_of (h_env H))) db_session_ids (h_env H) (d_world d)"
    and "challenges_ok (sv_challenges (d_service d))"
  shows "sq_inv (key_names_of (h_env H)) (d_store d') \<and> length (sv_challenges (d_service d')) \<le> 256
    \<and> (\<exists>st. sq_get_state (d_store d') = (Inr st, d_store d')
        \<and> (bs_claim_state st = CLAIMED \<longleftrightarrow> (\<exists>c. authorized sqlite_store (d_store d') c \<noteq> None)))"
  using sq_daemon.run_invariant [OF assms] by (simp add: good_world_def challenges_ok_def)

text \<open>A Host whose UUIDs never repeat, for concrete runs.\<close>

definition fresh_env :: env where
  "fresh_env = sample_env\<lparr>e_uuid4 := (\<lambda>k. CHR ''u'' # replicate k (CHR ''x''))\<rparr>"

definition fresh_host :: host where
  "fresh_host = sample_host\<lparr>h_env := fresh_env\<rparr>"

lemma key_names_uuid: "key_names_of (E\<lparr>e_uuid4 := f\<rparr>) = key_names_of E"
  by (simp add: key_names_of_def fun_eq_iff controller_id_of_def fingerprint_of_def split: sum.split)

lemma fresh_host_env [simp]: "h_env fresh_host = fresh_env" "key_names_of fresh_env = key_names_of sample_env"
  by (simp_all add: fresh_host_def fresh_env_def key_names_uuid)

definition fresh_daemon :: "(sql_db, mem_net) daemon" where
  "fresh_daemon = \<lparr>d_service = service_new fresh_host (sample_world (mem_net_new None [])), d_links = []\<rparr>"

lemma fresh_world_good:
  "good_world (sq_inv (key_names_of sample_env)) db_session_ids fresh_env (sample_world n)"
proof -
  have "db_session_ids sample_host_db = {''w1''}" unfolding sample_host_db_def by code_simp
  moreover have "replicate j (CHR ''x'') = replicate k (CHR ''x'') \<longleftrightarrow> j = k" for j k by (rule replicate_eq_replicate [THEN trans]) auto
  moreover have "''1'' \<noteq> replicate k (CHR ''x'')" for k by (cases k) auto
  ultimately show ?thesis
    using sample_world_facts(1) [of n] by (simp add: good_world_def sample_world_def fresh_env_def)
qed

definition code_request :: json where
  "code_request = JObj [(''op'', JStr ''commissioning.code''), (''setup_code'', JStr ''73915284'')]"

lemma daemon_history_invariant_witness:
  "sq_inv (key_names_of sample_env) (d_store (snd (dm_control sqlite_store memory_network fresh_host code_request fresh_daemon)))"
proof -
  have "daemon_run sqlite_store memory_network fresh_host fresh_daemon
      (snd (dm_control sqlite_store memory_network fresh_host code_request fresh_daemon))"
    by (intro r_into_rtranclp control_request) (rule prod.collapse [symmetric])
  from daemon_history_invariant [OF this] show ?thesis
    using fresh_world_good by (simp add: fresh_daemon_def service_new_def challenges_ok_def)
qed

section \<open>The radio\<close>

text \<open>
  C18. A request on a link touches the radio only when that link holds the authorization of a
  Controller that is authorized now, under the same key: a Setup code alone never changes the
  network, and neither does a link whose Controller has been revoked since.
\<close>

theorem radio_needs_authorized_controller:
  assumes "sq_inv (key_names_of (h_env H)) (d_store d)"
    and "w_net (d_world (snd (dm_link_request sqlite_store memory_network H i request d))) \<noteq> w_net (d_world d)"
  shows "\<exists>ls g g'. map_of (d_links d) i = Some ls \<and> ls_authorization ls = Some (ControllerAuthorization g)
    \<and> authorized sqlite_store (d_store d) (cg_controller_id g) = Some g' \<and> cg_public_key g' = cg_public_key g"
proof -
  obtain ls where ls: "map_of (d_links d) i = Some ls"
    using assms(2) by (auto simp: dm_link_request_def split: option.splits)
  let ?l = "link_of (d_world d) ls"
  have "w_net (l_world (snd (pr_handle sqlite_store memory_network (h_env H)
      (Some (hs_reopen_standing_claim_window sqlite_store H)) request ?l))) \<noteq> w_net (l_world ?l)"
    using assms(2) ls by (simp add: dm_link_request_def case_prod_beta link_of_def)
  from sq_daemon.link.network_needs_admin [OF _ this] assms(1) ls show ?thesis by (auto simp: link_of_def)
qed

definition admin_daemon :: "(sql_db, mem_net) daemon" where
  "admin_daemon = fresh_daemon\<lparr>d_links := [(1, \<lparr>ls_authorization = Some (ControllerAuthorization sample_admin), ls_challenge = None\<rparr>)]\<rparr>"

definition wifi_request :: jobject where
  "wifi_request = [(''request_id'', JStr (uuid_str 9)), (''contract_version'', JStr ''1''),
     (''operation'', JStr ''wifi.configure''), (''payload'', JObj sample_change)]"

lemma sample_staged:
  obtains snapshot n where "mn_begin_change sample_request (mem_net_new None []) = (Inr snapshot, n)"
    and "mn_active_operation_id n = Some (py_strip (uuid_str 5))"
proof -
  have "\<not> isl (fst (mn_begin_change sample_request (mem_net_new None [])))" by code_simp
  moreover have "mn_active_operation_id (snd (mn_begin_change sample_request (mem_net_new None [])))
      = Some (py_strip (uuid_str 5))"
    by code_simp
  ultimately show thesis
    using that by (cases "mn_begin_change sample_request (mem_net_new None [])";
        cases "fst (mn_begin_change sample_request (mem_net_new None []))") auto
qed

lemma sample_configured:
  obtains q w' where "cs_configure_network sqlite_store memory_network fresh_env (ControllerAuthorization sample_admin)
      sample_change (sample_world (mem_net_new None [])) = (Inr (operation_result q), w')"
    and "mn_active_operation_id (w_net w') \<noteq> None"
proof -
  let ?n = "mem_net_new None []"
  have inv: "sq_inv (key_names_of fresh_env) (w_store (sample_world ?n))" using sample_world_facts(1) by simp
  obtain snapshot n where "net_begin_change memory_network sample_request (w_net (sample_world ?n)) = (Inr snapshot, n)"
    and n: "mn_active_operation_id n \<noteq> None"
    by (rule sample_staged) (auto simp: sample_world_def)
  from sq_net.configure_success [OF inv sample_world_facts(2) sample_change_request sample_world_facts(3,4) this(1)]
  show thesis using that n by blast
qed

lemma wifi_request_handled:
  assumes "l_authorization l = Some a"
  shows "l_world (snd (pr_handle P N E cb wifi_request l)) = snd (cs_configure_network P N E a sample_change (l_world l))"
proof -
  have request: "validate_request_id (JStr (uuid_str 9)) = Inr ()" by code_simp
  have "pr_request P N E cb wifi_request l = on_world (cs_configure_network P N E a sample_change) l"
    using assms by (simp add: pr_request_def wifi_request_def jget_def jget_default_def request bindS_def of_result_def
        pr_dispatch_def pr_authorized_dispatch_def)
  then show ?thesis by (auto simp: pr_handle_def on_world_def split: prod.split sum.split exn.split)
qed

lemma admin_daemon_moves_radio:
  "w_net (d_world (snd (dm_link_request sqlite_store memory_network fresh_host 1 wifi_request admin_daemon)))
     \<noteq> w_net (d_world admin_daemon)"
proof -
  obtain q w' where run: "cs_configure_network sqlite_store memory_network fresh_env (ControllerAuthorization sample_admin)
      sample_change (sample_world (mem_net_new None [])) = (Inr (operation_result q), w')"
    and moved: "mn_active_operation_id (w_net w') \<noteq> None"
    using sample_configured by blast
  have "d_world (snd (dm_link_request sqlite_store memory_network fresh_host 1 wifi_request admin_daemon)) = w'"
    by (simp add: dm_link_request_def admin_daemon_def fresh_daemon_def service_new_def case_prod_beta
        wifi_request_handled link_of_def run)
  then show ?thesis using moved
    by (auto simp: admin_daemon_def fresh_daemon_def service_new_def sample_world_def mem_net_new_def)
qed

lemma radio_needs_authorized_controller_witness:
  "\<exists>g'. authorized sqlite_store (d_store admin_daemon) (cg_controller_id sample_admin) = Some g'"
proof -
  have "sq_inv (key_names_of (h_env fresh_host)) (d_store admin_daemon)"
    using sample_host_inv by (simp add: admin_daemon_def fresh_daemon_def service_new_def sample_world_def)
  from radio_needs_authorized_controller [OF this admin_daemon_moves_radio] show ?thesis by (auto simp: admin_daemon_def)
qed

section \<open>Proofs of a Controller over the LAN\<close>

lemma map_of_pop: "map_of (pop_challenge c cs) c = None"
  by (induction cs) (auto simp: pop_challenge_def)

lemma map_of_purge:
  assumes "distinct (map fst cs)" and "map_of (purge_challenges now cs) c = Some (cid, e, x)"
  shows "map_of cs c = Some (cid, e, x)" and "now < x"
proof -
  have "(c, cid, e, x) \<in> set (purge_challenges now cs)" using assms(2) by (rule map_of_SomeD)
  then have "(c, cid, e, x) \<in> set cs" "now < x" by (auto simp: purge_challenges_def)
  then show "map_of cs c = Some (cid, e, x)" "now < x" using assms(1) by simp_all
qed

lemma take_challenge_run:
  assumes "hs_take_challenge H c v = (r, v')" and "challenges_ok (sv_challenges v)"
  shows "map_of (sv_challenges v') c = None" and "w_store (sv_world v') = w_store (sv_world v)"
    and "challenges_ok (sv_challenges v')"
    and "r = Inr (cid, e) \<Longrightarrow> \<exists>x. map_of (sv_challenges v) c = Some (cid, e, x)
      \<and> e_monotonic (h_env H) (w_tick (sv_world v)) < x"
proof -
  let ?live = "purge_challenges (e_monotonic (h_env H) (w_tick (sv_world v))) (sv_challenges v)"
  have v': "sv_challenges v' = pop_challenge c ?live" "w_store (sv_world v') = w_store (sv_world v)"
    using assms(1) by (auto simp: hs_take_challenge_def bindS_def on_sv_def Let_def split: option.splits if_splits)
  then show "map_of (sv_challenges v') c = None" "w_store (sv_world v') = w_store (sv_world v)"
    "challenges_ok (sv_challenges v')"
    using challenges_filter assms(2) by (simp_all add: map_of_pop) (simp add: pop_challenge_def purge_challenges_def)
  assume "r = Inr (cid, e)"
  then obtain x where "map_of ?live c = Some (cid, e, x)"
    using assms(1) by (auto simp: hs_take_challenge_def bindS_def on_sv_def Let_def split: option.splits if_splits)
  from map_of_purge [OF _ this] assms(2) show "\<exists>x. map_of (sv_challenges v) c = Some (cid, e, x)
      \<and> e_monotonic (h_env H) (w_tick (sv_world v)) < x"
    unfolding challenges_ok_def by blast
qed

lemma absent_challenge_lost:
  assumes "map_of (sv_challenges v) c = None" and "jget ''challenge'' payload = JStr c"
  shows "fst (hs_authenticate_controller P H (JObj payload) v) = Inl lan_challenge_lost"
proof -
  have "map_of (purge_challenges now (sv_challenges v)) c = None" for now
    using assms(1) by (auto simp: map_of_eq_None_iff purge_challenges_def)
  with assms(2) show ?thesis
    by (simp add: hs_authenticate_controller_def hs_take_challenge_def bindS_def on_sv_def Let_def)
qed

lemma check_proof_ok:
  assumes "sq_inv (key_names_of (h_env H)) (w_store w)"
    and "hs_check_proof sqlite_store H payload c cid e w = (Inr who, w')"
  shows "\<exists>g. cg_controller_id g = cid \<and> authorized sqlite_store (w_store w) cid = Some g
    \<and> verify_controller_signature (h_env H) g c LOCAL_API_CONTROLLER_AUTH_PURPOSE e (jget ''signature'' payload) = SigOk
    \<and> who = controller_principal g"
proof -
  obtain g w1 where g: "hs_active_controller sqlite_store (JStr cid) w = (Inr g, w1)"
      "verify_controller_signature (h_env H) g c LOCAL_API_CONTROLLER_AUTH_PURPOSE e (jget ''signature'' payload) = SigOk"
      "who = controller_principal g"
    using assms(2)
    by (auto simp: hs_check_proof_def ret_def raise_def split: if_splits sig_outcome.splits)
  with sq_daemon.active_ok [OF assms(1) g(1)] show ?thesis by auto
qed

text \<open>
  C19. A LAN challenge is good for one attempt: whatever the outcome, it is gone afterwards and any
  later proof that names it is refused. A proof succeeds only for the live challenge it answers, for
  a Controller authorized at that moment, with a signature by that Controller's own key over it.
\<close>

theorem lan_proof_single_use:
  assumes "sq_inv (key_names_of (h_env H)) (w_store (sv_world v))" and "challenges_ok (sv_challenges v)"
    and "jget ''challenge'' payload = JStr c"
    and "hs_authenticate_controller sqlite_store H (JObj payload) v = (r, v')"
  shows "(\<forall>again. jget ''challenge'' again = JStr c \<longrightarrow>
        fst (hs_authenticate_controller sqlite_store H (JObj again) v') = Inl lan_challenge_lost)
    \<and> (\<forall>who. r = Inr who \<longrightarrow> (\<exists>g e x. map_of (sv_challenges v) c = Some (cg_controller_id g, e, x)
          \<and> e_monotonic (h_env H) (w_tick (sv_world v)) < x
          \<and> authorized sqlite_store (w_store (sv_world v)) (cg_controller_id g) = Some g
          \<and> verify_controller_signature (h_env H) g c LOCAL_API_CONTROLLER_AUTH_PURPOSE e (jget ''signature'' payload) = SigOk
          \<and> who = controller_principal g))"
proof -
  obtain t v1 where t: "hs_take_challenge H c v = (t, v1)" by (cases "hs_take_challenge H c v")
  note taken = take_challenge_run [OF t assms(2)]
  have run: "bindS (hs_take_challenge H c) (\<lambda>(cid, e). on_sv (hs_check_proof sqlite_store H payload c cid e)) v = (r, v')"
    using assms(3,4) by (simp add: hs_authenticate_controller_def)
  then have "sv_challenges v' = sv_challenges v1"
    using t by (auto simp: bindS_def on_sv_def split: sum.splits prod.splits)
  then have lost: "map_of (sv_challenges v') c = None" using taken(1) by simp
  have "\<exists>g e x. map_of (sv_challenges v) c = Some (cg_controller_id g, e, x)
          \<and> e_monotonic (h_env H) (w_tick (sv_world v)) < x
          \<and> authorized sqlite_store (w_store (sv_world v)) (cg_controller_id g) = Some g
          \<and> verify_controller_signature (h_env H) g c LOCAL_API_CONTROLLER_AUTH_PURPOSE e (jget ''signature'' payload) = SigOk
          \<and> who = controller_principal g" if ok: "r = Inr who" for who
  proof -
    obtain cid e w2 where "t = Inr (cid, e)"
        "hs_check_proof sqlite_store H payload c cid e (sv_world v1) = (Inr who, w2)"
      using run [unfolded ok] t by (auto simp: on_sv_def split: prod.splits)
    with taken(2,4) check_proof_ok [of H "sv_world v1" payload c cid e who w2] assms(1)
    show ?thesis by fastforce
  qed
  with lost absent_challenge_lost show ?thesis by blast
qed

definition proof_service :: "(sql_db, mem_net) service" where
  "proof_service = (service_new sample_host (sample_world (mem_net_new None [])))\<lparr>sv_challenges := [(''c'', (''ectrl-66666666666666666666'', 0, 50))]\<rparr>"

definition sample_proof :: jobject where
  "sample_proof = [(''challenge'', JStr ''c''), (''contract_version'', JStr ''1''),
     (''purpose'', JStr LOCAL_API_CONTROLLER_AUTH_PURPOSE), (''controller_id'', JStr ''ectrl-66666666666666666666''),
     (''reset_epoch'', JInt 0), (''signature'', JStr ''AQID'')]"

lemma lan_proof_single_use_witness:
  "\<exists>r v'. hs_authenticate_controller sqlite_store sample_host (JObj sample_proof) proof_service = (r, v')
     \<and> fst (hs_authenticate_controller sqlite_store sample_host (JObj sample_proof) v') = Inl lan_challenge_lost"
proof -
  obtain r v' where run: "hs_authenticate_controller sqlite_store sample_host (JObj sample_proof) proof_service = (r, v')"
    by fastforce
  have "sq_inv (key_names_of (h_env sample_host)) (w_store (sv_world proof_service))"
      "challenges_ok (sv_challenges proof_service)"
    using sample_world_facts(1) by (simp_all add: proof_service_def service_new_def challenges_ok_def)
  moreover have c: "jget ''challenge'' sample_proof = JStr ''c''" by (simp add: jget_def sample_proof_def)
  ultimately show ?thesis using lan_proof_single_use [OF _ _ c run] run c by blast
qed

end
