(* ===== verification/Host_Windows.thy ===== *)
theory Host_Windows
  imports Host_Claims
begin

text \<open>
  Which claim windows are open after the operations that open them: the code an operator mints,
  the standing window of a development Host, and the recovery window.
\<close>

section \<open>Minting\<close>

abbreviation good :: "host \<Rightarrow> (sql_db, 'n) world \<Rightarrow> bool" where
  "good H w \<equiv> good_world (sq_inv (key_names_of (h_env H))) db_session_ids (h_env H) w"

definition row_supersede :: "timestamp \<Rightarrow> session_row \<Rightarrow> session_row" where
  "row_supersede now r =
     (if sr_consumed_at r = None \<and> sr_revoked_at r = None then r\<lparr>sr_revoked_at := Some now\<rparr> else r)"

lemma row_supersede_closed: "\<not> is_open (session_of (row_supersede now r)) t"
  by (auto simp: row_supersede_def session_of_def is_open_def)

lemma row_supersede_id [simp]: "sr_session_id (row_supersede now r) = sr_session_id r"
  by (simp add: row_supersede_def)

lemma sq_issue_run:
  assumes "sq_inv names db" and "sid \<notin> db_session_ids db"
  shows "sq_issue_commissioning_session sid h now expires db
    = (Inr (), db\<lparr>db_sessions := map (row_supersede now) (db_sessions db) @ [new_session_row sid h now expires]\<rparr>)"
proof -
  have "sr_session_id ` set (map (row_supersede now) (db_sessions db)) = db_session_ids db"
    by (simp add: image_image)
  moreover have "stmt_supersede_sessions now db = db\<lparr>db_sessions := map (row_supersede now) (db_sessions db)\<rparr>"
    by (simp add: stmt_supersede_sessions_def row_supersede_def [abs_def])
  ultimately show ?thesis
    using assms sq_inv_open [OF assms(1)]
    by (simp add: sq_issue_commissioning_session_def bindS_def sq_connection_def transact_def stmt_insert_session_def
        new_session_row_def)
qed

text \<open>After minting, the new window is open for good, under the hash of its code, and every other is closed.\<close>

definition sole_window :: "sql_db \<Rightarrow> string \<Rightarrow> string \<Rightarrow> bool" where
  "sole_window db sid h \<longleftrightarrow> (\<exists>r \<in> set (db_sessions db). sr_session_id r = sid \<and> sr_secret_hash r = h \<and> (\<forall>t. is_open (session_of r) t))
     \<and> (\<forall>r \<in> set (db_sessions db). \<forall>t. is_open (session_of r) t \<longrightarrow> sr_session_id r = sid)"

lemma mint_run:
  assumes "good H w"
  shows "\<exists>w'. hs_mint_window sqlite_store H code w =
      (Inr [(''host_id'', JStr (hi_host_id (h_identity H))), (''commissioning_id'', JStr (e_uuid4 (h_env H) (Suc (w_tick w)))),
            (''setup_code'', JStr code), (''issued_at'', JStr (e_clock (h_env H) (w_tick w))), (''expires_at'', JNull)], w')
    \<and> sole_window (w_store w') (e_uuid4 (h_env H) (Suc (w_tick w))) (setup_hash H code)
    \<and> w_tick w' = w_tick w + 2 \<and> authorized sqlite_store (w_store w') = authorized sqlite_store (w_store w)
    \<and> (\<exists>rows. w_store w' = (w_store w)\<lparr>db_sessions := rows\<rparr>)"
proof -
  let ?sid = "e_uuid4 (h_env H) (Suc (w_tick w))" and ?now = "e_clock (h_env H) (w_tick w)"
  let ?db = "(w_store w)\<lparr>db_sessions := map (row_supersede ?now) (db_sessions (w_store w))
      @ [new_session_row ?sid (setup_hash H code) ?now None]\<rparr>"
  have inv: "sq_inv (key_names_of (h_env H)) (w_store w)" and fresh: "?sid \<notin> db_session_ids (w_store w)"
    using assms by (simp_all add: good_world_def)
  note issue = sq_issue_run [OF inv fresh]
  have "run_call sqlite_store (CIssue ?sid (setup_hash H code) ?now None) (w_store w) = (Inr (AUnit ()), ?db)"
    by (simp add: answer_def bindS_def issue ret_def)
  from sq.quiet_law [OF inv _ _ this] fresh have auth: "authorized sqlite_store ?db = authorized sqlite_store (w_store w)" by simp
  have "is_open (session_of (new_session_row ?sid (setup_hash H code) ?now None)) t" for t
    by (simp add: session_of_def new_session_row_def is_open_def)
  then have "sole_window ?db ?sid (setup_hash H code)"
    by (auto simp: sole_window_def row_supersede_closed new_session_row_def)
  with issue auth show ?thesis
    by (auto simp: hs_mint_window_def bindS_def on_store_def ret_def)
qed

text \<open>
  Minting a Setup code always works on a Host in its invariant, whether the operator names the
  code or the Host draws one: the answer carries a usable code, its window is open without end, and
  it is the only open window left, so an older code no longer opens anything. Nobody's authority
  changes.
\<close>

theorem minted_code_sole_window:
  assumes "good H w"
    and "case named of Some code \<Rightarrow> is_usable_setup_code code
         | None \<Rightarrow> generate_setup_code (h_draws H) (h_randbelow H (w_tick w)) 0 \<noteq> None"
  shows "\<exists>answer w' sid code. hs_issue_setup_code sqlite_store H ttl named w = (Inr answer, w')
    \<and> jget ''commissioning_id'' answer = JStr sid \<and> jget ''setup_code'' answer = JStr code
    \<and> is_usable_setup_code code \<and> (\<forall>c. named = Some c \<longrightarrow> code = c)
    \<and> sole_window (w_store w') sid (setup_hash H code)
    \<and> authorized sqlite_store (w_store w') = authorized sqlite_store (w_store w)"
proof (cases named)
  case (Some code)
  from mint_run [OF assms(1), of code] Some assms(2) show ?thesis
    by (auto simp: hs_issue_setup_code_def jget_def)
next
  case None
  with assms(2) obtain code where code: "generate_setup_code (h_draws H) (h_randbelow H (w_tick w)) 0 = Some code" by auto
  have "good H (w\<lparr>w_tick := Suc (w_tick w)\<rparr>)" using assms(1) by (simp add: good_world_def)
  from mint_run [OF this, of code] None code generate_setup_code_usable [OF code] show ?thesis
    by (auto simp: hs_issue_setup_code_def hs_draw_setup_code_def bindS_def ret_def jget_def)
qed

lemma sample_draw: "generate_setup_code (h_draws fresh_host) (h_randbelow fresh_host k) 0 = Some ''00000007''"
proof -
  have "format_setup_code 7 = ''00000007''"
    by (simp add: format_setup_code_def SETUP_CODE_DIGITS_def digit_char_def upt_rec)
  moreover have "is_usable_setup_code ''00000007''" by code_simp
  moreover have draws: "h_draws fresh_host = Suc 3" and "h_randbelow fresh_host k 0 = 7"
    by (simp_all add: fresh_host_def sample_host_def)
  ultimately show ?thesis
    unfolding draws generate_setup_code.simps(2) by (simp add: SETUP_CODE_DIGITS_def Let_def)
qed

lemma minted_code_sole_window_witness:
  "\<exists>answer w' sid code. hs_issue_setup_code sqlite_store fresh_host None None (sample_world (mem_net_new None [])) = (Inr answer, w')
    \<and> jget ''commissioning_id'' answer = JStr sid \<and> sole_window (w_store w') sid (setup_hash fresh_host code)"
proof -
  have "good fresh_host (sample_world (mem_net_new None []))" using fresh_world_good by simp
  from minted_code_sole_window [OF this, of None None] show ?thesis by (auto simp: sample_draw)
qed

section \<open>The standing window\<close>

text \<open>The Host declares a standing window and holds a usable factory code whenever it looks.\<close>

definition stands_window :: "host \<Rightarrow> bool" where
  "stands_window H \<longleftrightarrow> st_claim_window (h_settings H) = ALWAYS_OPEN
     \<and> (\<forall>k. \<exists>t. h_factory_file H k = FileText t \<and> is_usable_setup_code (py_strip t))"

definition open_window_at :: "sql_db \<Rightarrow> timestamp \<Rightarrow> bool" where
  "open_window_at db t \<longleftrightarrow> (\<exists>r \<in> set (db_sessions db). is_open (session_of r) t)"

lemma latest_row:
  assumes "sq_latest_commissioning_session db = (Inr (Some s), db')"
  shows "\<exists>r \<in> set (db_sessions db). s = session_of r"
proof -
  let ?rows = "sort_key (\<lambda>r. (sr_created_at r, sr_session_id r)) (db_sessions db)"
  have "db_sessions db \<noteq> []" and s: "s = session_of (last ?rows)"
    using assms by (auto simp: sq_latest_commissioning_session_def bindS_def sq_connection_def split: if_splits)
  then have "last ?rows \<in> set ?rows" by (intro last_in_set) (metis length_0_conv length_sort)
  with s show ?thesis by auto
qed

lemma factory_code_run:
  assumes "stands_window H"
  shows "\<exists>code. is_usable_setup_code code
    \<and> hs_read_factory_setup_code H w = (Inr (Some code), w\<lparr>w_tick := Suc (w_tick w)\<rparr>)"
proof -
  obtain t where "h_factory_file H (w_tick w) = FileText t" "is_usable_setup_code (py_strip t)"
    using assms unfolding stands_window_def by blast
  then show ?thesis by (simp add: hs_read_factory_setup_code_def bindS_def ret_def Let_def)
qed

lemma reopen_stands:
  assumes "good H w" and "stands_window H"
  shows "\<exists>w' k. hs_reopen_standing_claim_window sqlite_store H w = (Inr (), w')
    \<and> w_tick w \<le> k \<and> k < w_tick w' \<and> open_window_at (w_store w') (e_clock (h_env H) k)"
proof -
  let ?now = "e_clock (h_env H) (w_tick w)" and ?w1 = "w\<lparr>w_tick := Suc (w_tick w)\<rparr>"
  have always: "st_claim_window (h_settings H) = ALWAYS_OPEN" using assms(2) by (simp add: stands_window_def)
  have inv: "sq_inv (key_names_of (h_env H)) (w_store w)" using assms(1) by (simp add: good_world_def)
  obtain x where x: "sq_latest_commissioning_session (w_store w) = (Inr x, w_store w)"
    using sq_latest_ok [OF inv] by blast
  show ?thesis
  proof (cases "window_standing x ?now")
    case True
    then obtain s where "x = Some s" "is_open s ?now" by (auto simp: window_standing_def split: option.splits)
    with latest_row [of "w_store w" s] x have "open_window_at (w_store w) ?now" by (auto simp: open_window_at_def)
    moreover have "hs_reopen_standing_claim_window sqlite_store H w = (Inr (), ?w1)"
      using always x True by (simp add: hs_reopen_standing_claim_window_def bindS_def on_store_def ret_def)
    ultimately show ?thesis by (intro exI [of _ ?w1] exI [of _ "w_tick w"]) simp
  next
    case False
    let ?w2 = "w\<lparr>w_tick := Suc (Suc (w_tick w))\<rparr>"
    obtain code where code: "hs_read_factory_setup_code H ?w1 = (Inr (Some code), ?w2)"
      using factory_code_run [OF assms(2), of ?w1] by auto
    have "good H ?w2" using assms(1) by (simp add: good_world_def)
    from mint_run [OF this, of code] obtain answer w' sid where
      mint: "hs_mint_window sqlite_store H code ?w2 = (Inr answer, w')" "sole_window (w_store w') sid (setup_hash H code)"
        "w_tick w' = w_tick w + 4" by auto
    have "hs_reopen_standing_claim_window sqlite_store H w = (Inr (), w')"
      using always x False code mint(1) by (simp add: hs_reopen_standing_claim_window_def bindS_def on_store_def ret_def)
    moreover have "open_window_at (w_store w') t" for t
      using mint(2) by (auto simp: sole_window_def open_window_at_def)
    ultimately show ?thesis using mint(3) by (intro exI [of _ w'] exI [of _ "w_tick w"]) simp
  qed
qed

lemma claim_runs_callback:
  assumes "good H w" and "cs_claim_controller sqlite_store (h_env H) (Some cb) sid h payload w = (Inr result, w')"
  obtains w1 r w2 where "good H w1" and "cb w1 = (r, w2)" and "w_store w' = w_store w2"
    and "w_tick w \<le> w_tick w1" and "w_tick w' = w_tick w2"
proof -
  obtain state w0 where get: "on_store sq_get_state w = (Inr state, w0)"
    using assms(2) by (auto simp: cs_claim_controller_def)
  let ?now = "e_clock (h_env H) (w_tick w0)" and ?w1 = "w0\<lparr>w_tick := Suc (w_tick w0)\<rparr>"
  obtain g g' w2 where grant: "controller_grant (h_env H) payload (bs_reset_epoch state) ?now = Inr g"
      and claim: "catch_conflict (on_store (sq_claim_controller sid h g ?now)) (\<lambda>reason. raise (claim_refusal reason)) ?w1 = (Inr g', w2)"
      and rest: "bindS (catchS cb (\<lambda>_. ret ())) (\<lambda>_. bindS (on_store sq_get_state) (\<lambda>after.
        ret [(''controller'', JObj (ControllerGrant_to_dict g')), (''state'', JObj (BootstrapState_to_dict after))])) w2
        = (Inr result, w')"
    using assms(2) get unfolding cs_claim_controller_def
    by (auto simp: of_result_def bindS_def split: sum.splits prod.splits)
  have "good H w0" using framedD [OF sq_net.step_calls(1) get [folded sqlite_store_sel]] assms(1)
    by (simp add: host_step_def)
  then have "good H ?w1" by (simp add: good_world_def)
  moreover have "framed (host_step sqlite_store (sq_inv (key_names_of (h_env H))) db_session_ids (h_env H))
      (catch_conflict (on_store (sp_claim_controller sqlite_store sid h g ?now)) (\<lambda>reason. raise (claim_refusal reason)))"
    using controller_grant_named [OF grant]
    by (intro framed_catch_conflict host_step_preorder framed_raise sq_net.step_claim)
  ultimately have "good H w2" using framedD [of _ _ ?w1] claim by (fastforce simp: host_step_def)
  moreover obtain r w3 where cb: "cb w2 = (r, w3)" by (cases "cb w2")
  moreover have called: "catchS cb (\<lambda>_. ret ()) w2 = (Inr (), w3)" using cb by (cases r) (auto simp: catchS_def ret_def)
  have "w_store w' = w_store w3" "w_tick w' = w_tick w3"
    using rest unfolding bindS_ok [where m = "catchS cb (\<lambda>_. ret ())", OF called]
    by (auto simp: ret_def elim!: on_store_InrE)
      (auto simp: sq_get_state_def bindS_def sq_connection_def split: if_splits option.splits)
  moreover have "w_tick w \<le> w_tick w2"
  proof -
    have "w_tick w0 = w_tick w" using get by (auto elim!: on_store_InrE)
    moreover have "w_tick w2 = Suc (w_tick w0)"
      using claim by (auto simp: catch_conflict_def catchS_def on_store_def raise_def
          split: prod.splits sum.splits exn.splits store_error.splits)
    ultimately show ?thesis by simp
  qed
  ultimately show thesis by (intro that) simp_all
qed

text \<open>
  C21. On a Host that stands a window, a claim leaves a window open, whether or not it used up the
  last one and over whichever transport it came: the next phone is never locked out by the last.
\<close>

theorem claim_leaves_window_standing:
  fixes w w' :: "(sql_db, 'n) world"
  assumes "good H w" and "stands_window H"
    and "cs_claim_controller sqlite_store (h_env H) (Some (hs_reopen_standing_claim_window sqlite_store H)) sid h payload w
      = (Inr result, w')"
  shows "\<exists>k. w_tick w \<le> k \<and> k < w_tick w' \<and> open_window_at (w_store w') (e_clock (h_env H) k)"
proof -
  obtain w1 w2 :: "(sql_db, 'n) world" and r where cb: "good H w1" "hs_reopen_standing_claim_window sqlite_store H w1 = (r, w2)"
      "w_store w' = w_store w2" "w_tick w \<le> w_tick w1" "w_tick w' = w_tick w2"
    by (rule claim_runs_callback [OF assms(1,3)])
  from reopen_stands [OF cb(1) assms(2)] obtain k where
    "w_tick w1 \<le> k" "k < w_tick w2" "open_window_at (w_store w2) (e_clock (h_env H) k)" using cb(2) by auto
  with cb show ?thesis by (intro exI [of _ k]) simp
qed

text \<open>A Host with a constant digest and a constant clock, for concrete runs.\<close>

definition quick_host :: host where
  "quick_host = fresh_host\<lparr>h_env := fresh_env\<lparr>e_sha256_hex := (\<lambda>_. replicate 64 (CHR ''a'')), e_clock := (\<lambda>_. ''t2'')\<rparr>\<rparr>"

definition claim_world :: "(sql_db, mem_net) world" where
  "claim_world = \<lparr>w_store = snd (run_calls sqlite_store [CIssue ''w1'' (replicate 64 (CHR ''a'')) ''t1'' None]
     (sq_create_at_current_schema ''t0'')), w_net = mem_net_new None [], w_tick = 0\<rparr>"

lemma claim_world_good: "good quick_host claim_world"
proof -
  have "sq_inv names (w_store claim_world)" for names
    unfolding claim_world_def world.select_convs
    by (rule sq.run_keeps_inv [OF fresh_inv]) (simp add: calls_ok_def)
  moreover have "db_session_ids (w_store claim_world) = {''w1''}" by code_simp
  moreover have "replicate j (CHR ''x'') = replicate k (CHR ''x'') \<longleftrightarrow> j = k" for j k
    by (rule replicate_eq_replicate [THEN trans]) auto
  moreover have "''1'' \<noteq> replicate k (CHR ''x'')" for k by (cases k) auto
  ultimately show ?thesis by (simp add: good_world_def quick_host_def fresh_env_def)
qed

lemma quick_host_stands: "stands_window quick_host"
proof -
  have "is_usable_setup_code (py_strip ''73915284'')" by code_simp
  then show ?thesis by (simp add: stands_window_def quick_host_def fresh_host_def sample_host_def)
qed

lemma claim_leaves_window_standing_witness:
  "\<exists>result w' k. cs_claim_controller sqlite_store (h_env quick_host) (Some (hs_reopen_standing_claim_window sqlite_store quick_host))
      ''w1'' (replicate 64 (CHR ''a'')) sample_payload claim_world = (Inr result, w')
    \<and> open_window_at (w_store w') (e_clock (h_env quick_host) k)"
proof -
  let ?run = "cs_claim_controller sqlite_store (h_env quick_host) (Some (hs_reopen_standing_claim_window sqlite_store quick_host))
      ''w1'' (replicate 64 (CHR ''a'')) sample_payload claim_world"
  have "\<not> isl (fst ?run)" by code_simp
  then obtain result w' where run: "?run = (Inr result, w')" by (cases ?run; cases "fst ?run") auto
  from claim_leaves_window_standing [OF claim_world_good quick_host_stands run] run show ?thesis by blast
qed

section \<open>The recovery window\<close>

lemma sq_list_ok: "sq_inv names db \<Longrightarrow> \<exists>gs. sq_list_controllers db = (Inr gs, db)"
  using sq_list_controllers_run by (auto simp: sq_inv_def)

lemma recovery_run:
  assumes "good H w" and "60 \<le> recovery_ttl ttl" and "recovery_ttl ttl \<le> 86400"
    and "generate_setup_code (h_draws H) (h_randbelow H (Suc (w_tick w))) 0 = Some code"
  obtains before gs st db' where
    "hs_open_controller_recovery_window sqlite_store H ttl w =
      (Inr (recovery_answer H before st (filter (active_in (bs_reset_epoch before)) gs)
        [(''host_id'', JStr (hi_host_id (h_identity H))), (''commissioning_id'', JStr (e_uuid4 (h_env H) (w_tick w + 2))),
         (''setup_code'', JStr code), (''issued_at'', JStr (e_clock (h_env H) (w_tick w))),
         (''expires_at'', JStr (h_later H (recovery_ttl ttl) (w_tick w)))]),
       w\<lparr>w_store := db', w_tick := w_tick w + 3\<rparr>)"
    and "sq_reset_authority (bs_network_state before) (e_clock (h_env H) (w_tick w))
      (Some \<lparr>seed_session_id = e_uuid4 (h_env H) (w_tick w + 2), seed_secret_hash = setup_hash H code,
         seed_expires_at = Some (h_later H (recovery_ttl ttl) (w_tick w))\<rparr>) (w_store w) = (Inr st, db')"
    and "authorized sqlite_store db' = (\<lambda>_. None)" and "port_epoch sqlite_store db' = port_epoch sqlite_store (w_store w) + 1"
proof -
  let ?sid = "e_uuid4 (h_env H) (w_tick w + 2)"
  have inv: "sq_inv (key_names_of (h_env H)) (w_store w)" and fresh: "?sid \<notin> db_session_ids (w_store w)"
    using assms(1) by (simp_all add: good_world_def)
  obtain before where before: "sq_get_state (w_store w) = (Inr before, w_store w)" using sq.state_law [OF inv] by auto
  obtain gs where gs: "sq_list_controllers (w_store w) = (Inr gs, w_store w)" using sq_list_ok [OF inv] by blast
  obtain st db' where reset: "sq_reset_authority (bs_network_state before) (e_clock (h_env H) (w_tick w))
      (Some \<lparr>seed_session_id = ?sid, seed_secret_hash = setup_hash H code,
         seed_expires_at = Some (h_later H (recovery_ttl ttl) (w_tick w))\<rparr>) (w_store w) = (Inr st, db')"
      "authorized sqlite_store db' = (\<lambda>_. None)" "port_epoch sqlite_store db' = port_epoch sqlite_store (w_store w) + 1"
    using sq.reset_law [OF inv, of "bs_network_state before" "e_clock (h_env H) (w_tick w)"
        "Some \<lparr>seed_session_id = ?sid, seed_secret_hash = setup_hash H code,
         seed_expires_at = Some (h_later H (recovery_ttl ttl) (w_tick w))\<rparr>"] fresh by auto
  have "w_tick w + 3 = Suc (Suc (Suc (w_tick w)))" "w_tick w + 2 = Suc (Suc (w_tick w))" by simp_all
  then show thesis
    using that [OF _ reset] before gs reset(1) assms(2-4)
    by (simp add: hs_open_controller_recovery_window_def Let_def bindS_def on_store_def ret_def hs_draw_setup_code_def)
qed

text \<open>
  The recovery command, in one act: every Controller loses the Host, the epoch moves on, and
  the answer tells the operator a usable code and the window it opens. With exactly those two, any
  key can claim the Host until the window ends, so the Host never comes to rest with nobody in
  charge and no way in.
\<close>

theorem recovery_leaves_way_in:
  assumes "good H w" and "60 \<le> recovery_ttl ttl" and "recovery_ttl ttl \<le> 86400"
    and "generate_setup_code (h_draws H) (h_randbelow H (Suc (w_tick w))) 0 = Some code"
  shows "\<exists>answer session sid expires w'. hs_open_controller_recovery_window sqlite_store H ttl w = (Inr answer, w')
    \<and> jget ''setup_session'' answer = JObj session \<and> jget ''commissioning_id'' session = JStr sid
    \<and> jget ''setup_code'' session = JStr code \<and> is_usable_setup_code code \<and> jget ''expires_at'' session = JStr expires
    \<and> (\<forall>cid. authorized sqlite_store (w_store w') cid = None)
    \<and> port_epoch sqlite_store (w_store w') = port_epoch sqlite_store (w_store w) + 1
    \<and> (\<forall>g later. grant_named (key_names_of (h_env H)) g \<longrightarrow> cg_revoked_at g = None \<longrightarrow>
         cg_reset_epoch g = port_epoch sqlite_store (w_store w') \<longrightarrow> later < expires \<longrightarrow>
         (\<exists>db. sq_claim_controller sid (setup_hash H code) g later (w_store w') = (Inr g, db)
           \<and> authorized sqlite_store db (cg_controller_id g) = Some g))"
proof -
  let ?sid = "e_uuid4 (h_env H) (w_tick w + 2)" and ?expires = "h_later H (recovery_ttl ttl) (w_tick w)"
  let ?seed = "\<lparr>seed_session_id = ?sid, seed_secret_hash = setup_hash H code, seed_expires_at = Some ?expires\<rparr>"
  obtain before gs st db' where
    run: "hs_open_controller_recovery_window sqlite_store H ttl w =
      (Inr (recovery_answer H before st (filter (active_in (bs_reset_epoch before)) gs)
        [(''host_id'', JStr (hi_host_id (h_identity H))), (''commissioning_id'', JStr ?sid),
         (''setup_code'', JStr code), (''issued_at'', JStr (e_clock (h_env H) (w_tick w))), (''expires_at'', JStr ?expires)]),
       w\<lparr>w_store := db', w_tick := w_tick w + 3\<rparr>)"
    and reset: "sq_reset_authority (bs_network_state before) (e_clock (h_env H) (w_tick w)) (Some ?seed) (w_store w) = (Inr st, db')"
    and none: "authorized sqlite_store db' = (\<lambda>_. None)"
    and epoch: "port_epoch sqlite_store db' = port_epoch sqlite_store (w_store w) + 1"
    by (rule recovery_run [OF assms])
  have inv: "sq_inv (key_names_of (h_env H)) (w_store w)" and fresh: "seed_session_id ?seed \<notin> db_session_ids (w_store w)"
    using assms(1) by (simp_all add: good_world_def)
  have claim: "\<exists>db. sq_claim_controller ?sid (setup_hash H code) g later db' = (Inr g, db)
      \<and> authorized sqlite_store db (cg_controller_id g) = Some g"
    if "grant_named (key_names_of (h_env H)) g" "cg_revoked_at g = None" "cg_reset_epoch g = port_epoch sqlite_store db'"
      "later < ?expires" for g later
    using reset_then_claimable [OF inv fresh that(1,2), of later "bs_network_state before" "e_clock (h_env H) (w_tick w)"]
      that(3,4) epoch reset by auto
  let ?session = "[(''host_id'', JStr (hi_host_id (h_identity H))), (''commissioning_id'', JStr ?sid),
      (''setup_code'', JStr code), (''issued_at'', JStr (e_clock (h_env H) (w_tick w))), (''expires_at'', JStr ?expires)]"
  let ?answer = "recovery_answer H before st (filter (active_in (bs_reset_epoch before)) gs) ?session"
  show ?thesis
    by (insert claim, rule exI [of _ ?answer], rule exI [of _ ?session], rule exI [of _ ?sid], rule exI [of _ ?expires],
        rule exI [of _ "w\<lparr>w_store := db', w_tick := w_tick w + 3\<rparr>"])
      (simp_all add: run none epoch [symmetric] generate_setup_code_usable [OF assms(4)] recovery_answer_def jget_def)
qed

lemma recovery_leaves_way_in_witness:
  "\<exists>answer w'. hs_open_controller_recovery_window sqlite_store fresh_host (Some 0) (sample_world (mem_net_new None [])) = (Inr answer, w')
    \<and> authorized sqlite_store (w_store w') (cg_controller_id sample_admin) = None"
proof -
  have "good fresh_host (sample_world (mem_net_new None []))" using fresh_world_good by simp
  from recovery_leaves_way_in [OF this, of "Some 0", OF _ _ sample_draw] show ?thesis
    by (fastforce simp: recovery_ttl_def RECOVERY_WINDOW_TTL_SECONDS_def)
qed

end
