(* ===== verification/Link_Auth.thy ===== *)
theory Link_Auth
  imports Host_Windows
begin

text \<open>How a Bluetooth link comes to hold an authorization.\<close>

lemma sq_authorize_row:
  assumes "sq_authorize_commissioning_session sid h now db = (Inr m, db')"
  shows "\<exists>r \<in> set (db_sessions db). sr_session_id r = sid \<and> sr_secret_hash r = h \<and> is_open (session_of r) now"
proof -
  obtain r where r: "find (\<lambda>r. sr_session_id r = sid) (db_sessions db) = Some r" "sr_secret_hash r = h" "is_open (session_of r) now"
    using assms
    by (auto simp: sq_authorize_commissioning_session_def bindS_def sq_connection_def split: if_splits option.splits)
  with find_SomeD [OF r(1)] show ?thesis by blast
qed

lemma map_sum_Inr [simp]: "map_sum f id x = Inr v \<longleftrightarrow> x = Inr v"
  by (cases x) simp_all

lemma authorize_ok:
  assumes "cs_authorize sqlite_store E session_id code w = (Inr a, w')"
  shows "\<exists>sid c r. session_id = JStr sid \<and> code = JStr c \<and> is_usable_setup_code c
    \<and> a = CommissioningAuthorization sid (e_sha256_hex E (utf8 c))
    \<and> r \<in> set (db_sessions (w_store w)) \<and> sr_session_id r = sid \<and> sr_secret_hash r = e_sha256_hex E (utf8 c)
    \<and> is_open (session_of r) (e_clock E (w_tick w))"
proof -
  obtain sid c where s: "session_id = JStr sid" "code = JStr c"
    using assms by (cases session_id; cases code) (auto simp: cs_authorize_def raise_def)
  let ?h = "e_sha256_hex E (utf8 c)"
  have "a = CommissioningAuthorization sid ?h" "is_usable_setup_code c"
    and "\<exists>m d. sq_authorize_commissioning_session sid ?h (e_clock E (w_tick w)) (w_store w) = (Inr m, d)"
    using assms s
    by (auto simp: cs_authorize_def raise_def Let_def ret_def catch_conflict_def catchS_def on_store_def
        split: if_splits prod.splits sum.splits exn.splits store_error.splits)
  with s sq_authorize_row [of sid ?h "e_clock E (w_tick w)" "w_store w"] show ?thesis by blast
qed

lemma authenticate_ok:
  assumes "sq_inv (key_names_of E) (w_store (l_world l))"
    and "pr_authenticate_controller sqlite_store E payload l = (Inr a, l')"
  shows "\<exists>g c e x. a = ControllerAuthorization g \<and> l_challenge l = Some (cg_controller_id g, c, e, x)
    \<and> e_monotonic E (w_tick (l_world l)) < x
    \<and> jget ''controller_id'' payload = JStr (cg_controller_id g) \<and> jget ''challenge'' payload = JStr c
    \<and> json_is_int (jget ''reset_epoch'' payload) e
    \<and> authorized sqlite_store (w_store (l_world l)) (cg_controller_id g) = Some g
    \<and> verify_controller_signature E g c BLE_CONTROLLER_AUTH_PURPOSE e (jget ''signature'' payload) = SigOk"
    and "l_challenge l' = None"
proof -
  obtain cid c e x where ch: "l_challenge l = Some (cid, c, e, x)"
    using assms(2) by (cases "l_challenge l") (auto simp: pr_authenticate_controller_def Let_def)
  let ?w = "(l_world l)\<lparr>w_tick := Suc (w_tick (l_world l))\<rparr>"
  obtain g w' where live: "e_monotonic E (w_tick (l_world l)) < x"
      and named: "jget ''controller_id'' payload = JStr cid" "jget ''challenge'' payload = JStr c" "json_is_int (jget ''reset_epoch'' payload) e"
      and g: "cs_authorize_controller sqlite_store (JStr cid) ?w = (Inr g, w')"
      and sig: "verify_controller_signature E g c BLE_CONTROLLER_AUTH_PURPOSE e (jget ''signature'' payload) = SigOk"
      and a: "a = ControllerAuthorization g"
    using assms(2) ch
    by (auto simp: pr_authenticate_controller_def Let_def raise_def ret_def on_world_def
        split: if_splits sig_outcome.splits prod.splits)
  have "hs_active_controller sqlite_store (JStr cid) ?w = (Inr g, w')"
    using g by (auto simp: cs_authorize_controller_def hs_active_controller_def raise_def bindS_def ret_def
        split: if_splits prod.splits sum.splits option.splits)
  from sq_daemon.active_ok [where H = "fresh_host\<lparr>h_env := E\<rparr>", OF _ this] assms(1)
  have "authorized sqlite_store (w_store (l_world l)) cid = Some g" "cg_controller_id g = cid" by simp_all
  with live named sig a ch show "\<exists>g c e x. a = ControllerAuthorization g \<and> l_challenge l = Some (cg_controller_id g, c, e, x)
    \<and> e_monotonic E (w_tick (l_world l)) < x
    \<and> jget ''controller_id'' payload = JStr (cg_controller_id g) \<and> jget ''challenge'' payload = JStr c
    \<and> json_is_int (jget ''reset_epoch'' payload) e
    \<and> authorized sqlite_store (w_store (l_world l)) (cg_controller_id g) = Some g
    \<and> verify_controller_signature E g c BLE_CONTROLLER_AUTH_PURPOSE e (jget ''signature'' payload) = SigOk" by blast
  show "l_challenge l' = None"
    using assms(2) ch
    by (auto simp: pr_authenticate_controller_def Let_def raise_def ret_def on_world_def
        split: if_splits sig_outcome.splits prod.splits)
qed

text \<open>Two requests alone set the authorization of a link.\<close>

lemma dispatch_authorization:
  assumes "l_authorization (snd (pr_dispatch P N E cb operation payload l)) = Some a" and "l_authorization l \<noteq> Some a"
  shows "(\<exists>w'. operation = JStr ''session.authenticate'' \<and> l_authorization l = None
      \<and> cs_authorize P E (jget ''commissioning_id'' payload) (jget ''setup_code'' payload) (l_world l) = (Inr a, w'))
    \<or> (\<exists>l'. operation = JStr ''controller.authenticate'' \<and> pr_authenticate_controller P E payload l = (Inr a, l'))"
proof -
  have keep: "l_authorization (snd (on_world m k)) = l_authorization k" for m :: "(('a, 'b) world, exn, jobject) op" and k by simp
  have challenge: "l_authorization (snd (pr_issue_challenge P E payload l)) = l_authorization l"
    by (auto simp: pr_issue_challenge_def bindS_def on_world_def Let_def split: prod.split sum.split)
  have failed: "pr_authenticate_controller P E payload l = (Inl e, l') \<Longrightarrow> l_authorization l' = l_authorization l" for e l'
    by (auto simp: pr_authenticate_controller_def Let_def bindS_def on_world_def raise_def ret_def
        split: option.splits prod.splits sum.splits if_splits sig_outcome.splits)
  show ?thesis
    using assms failed challenge
    by (auto simp: pr_dispatch_def bindS_def on_world_def set_authorization_def
        split: if_splits option.splits prod.splits sum.splits)
qed

lemma signature_accepted:
  "verify_controller_signature E g c purpose e value = SigOk \<longleftrightarrow> (\<exists>signature der.
     decode_signature_field value = Inr signature \<and> decode_signature_field (JStr (cg_public_key g)) = Inr der
     \<and> e_load_key E der = KeyP256 \<and> e_ecdsa_verify E der signature (signed_message (cg_controller_id g) c purpose e))"
proof -
  have "decode_signature_field v \<noteq> Inl SigOk" for v
    by (auto simp: decode_signature_field_def split: sum.splits b64_error.splits)
  then show ?thesis by (auto simp: verify_controller_signature_def split: sum.splits loaded_key.splits)
qed

text \<open>
  C23. A request brings its link a new authorization in exactly two ways, both decided by what that
  very request carries. Either the link held none and the request authenticates with the id of a
  window and a usable Setup code whose hash is the one stored for that window, which is open at that
  moment. Or the request answers the live challenge issued on this very link: it repeats its
  Controller, its text and its epoch, and its signature verifies over them under the key of the
  Controller, which is authorized at that moment.
\<close>

theorem link_authorization_earned:
  assumes "sq_inv (key_names_of E) (w_store (l_world l))"
    and "l_authorization (snd (pr_handle sqlite_store N E cb request l)) = Some a" and "l_authorization l \<noteq> Some a"
  shows "\<exists>payload. jget_default ''payload'' (JObj []) request = JObj payload \<and>
    ((\<exists>sid code r. jget ''operation'' request = JStr ''session.authenticate'' \<and> l_authorization l = None
        \<and> jget ''commissioning_id'' payload = JStr sid \<and> jget ''setup_code'' payload = JStr code \<and> is_usable_setup_code code
        \<and> a = CommissioningAuthorization sid (e_sha256_hex E (utf8 code))
        \<and> r \<in> set (db_sessions (w_store (l_world l))) \<and> sr_session_id r = sid \<and> sr_secret_hash r = e_sha256_hex E (utf8 code)
        \<and> is_open (session_of r) (e_clock E (w_tick (l_world l))))
    \<or> (\<exists>g c e x signature der. jget ''operation'' request = JStr ''controller.authenticate'' \<and> a = ControllerAuthorization g
        \<and> l_challenge l = Some (cg_controller_id g, c, e, x) \<and> e_monotonic E (w_tick (l_world l)) < x
        \<and> jget ''controller_id'' payload = JStr (cg_controller_id g) \<and> jget ''challenge'' payload = JStr c
        \<and> json_is_int (jget ''reset_epoch'' payload) e
        \<and> authorized sqlite_store (w_store (l_world l)) (cg_controller_id g) = Some g
        \<and> decode_signature_field (jget ''signature'' payload) = Inr signature
        \<and> decode_signature_field (JStr (cg_public_key g)) = Inr der \<and> e_load_key E der = KeyP256
        \<and> e_ecdsa_verify E der signature (signed_message (cg_controller_id g) c BLE_CONTROLLER_AUTH_PURPOSE e)))"
proof -
  have "snd (pr_handle sqlite_store N E cb request l) = snd (pr_request sqlite_store N E cb request l)"
    by (auto simp: pr_handle_def split: prod.split sum.split exn.split)
  with assms(2,3) obtain payload where payload: "jget_default ''payload'' (JObj []) request = JObj payload"
    and "l_authorization (snd (pr_dispatch sqlite_store N E cb (jget ''operation'' request) payload l)) = Some a"
    by (auto simp: pr_request_def bindS_def of_result_def raise_def split: sum.splits if_splits json.splits)
  from dispatch_authorization [OF this(2) assms(3)]
  consider w' where "jget ''operation'' request = JStr ''session.authenticate''" "l_authorization l = None"
      "cs_authorize sqlite_store E (jget ''commissioning_id'' payload) (jget ''setup_code'' payload) (l_world l) = (Inr a, w')"
    | l' where "jget ''operation'' request = JStr ''controller.authenticate''" "pr_authenticate_controller sqlite_store E payload l = (Inr a, l')"
    by blast
  then show ?thesis
  proof cases
    case 1
    with authorize_ok [OF 1(3)] payload show ?thesis by blast
  next
    case 2
    with authenticate_ok(1) [OF assms(1) 2(2)] payload show ?thesis unfolding signature_accepted by blast
  qed
qed

definition code_link :: "(sql_db, mem_net) link" where
  "code_link = link_of claim_world new_link"

definition authenticate_request :: jobject where
  "authenticate_request = [(''request_id'', JStr (uuid_str 9)), (''contract_version'', JStr ''1''),
     (''operation'', JStr ''session.authenticate''),
     (''payload'', JObj [(''commissioning_id'', JStr ''w1''), (''setup_code'', JStr ''73915284'')])]"

lemma link_authorization_earned_witness:
  "\<exists>r \<in> set (db_sessions (w_store claim_world)). sr_session_id r = ''w1''
     \<and> sr_secret_hash r = e_sha256_hex (h_env quick_host) (utf8 ''73915284'')
     \<and> is_open (session_of r) (e_clock (h_env quick_host) 0)"
proof -
  have "l_authorization (snd (pr_handle sqlite_store memory_network (h_env quick_host) None authenticate_request code_link))
      = Some (CommissioningAuthorization ''w1'' (replicate 64 (CHR ''a'')))"
    by code_simp
  moreover have "sq_inv (key_names_of (h_env quick_host)) (w_store (l_world code_link))"
    using claim_world_good by (simp add: good_world_def code_link_def link_of_def)
  moreover have "l_authorization code_link = None" "w_tick (l_world code_link) = 0" "w_store (l_world code_link) = w_store claim_world"
    by (simp_all add: code_link_def link_of_def new_link_def claim_world_def)
  ultimately show ?thesis
    using link_authorization_earned [of "h_env quick_host" code_link memory_network None authenticate_request
        "CommissioningAuthorization ''w1'' (replicate 64 (CHR ''a''))"]
    by (auto simp: authenticate_request_def jget_def jget_default_def)
qed

end
