(* ===== verification/Startup.thy ===== *)
theory Startup
  imports Host_Windows
begin

text \<open>
  How the daemon comes up, the first half of \<open>run_daemon\<close> in \<open>bootstrap/daemon.py\<close>: opening the
  store, settling what the last process left unfinished, standing the factory window, and letting
  the network adapter roll back a change it was in the middle of.
\<close>

section \<open>Coming up\<close>

text \<open>
  \<open>open\<close> and \<open>initialize\<close> on a database that is already at the current schema, where the ladder of
  migrations is empty and no row changes. Theory \<open>Schema\<close> has the file itself and the ladder; the
  root theory shows that this is the store read from a file of any version once it is upgraded.
\<close>

definition sq_boot :: "timestamp \<Rightarrow> (sql_db, store_error, unit) op" where
  "sq_boot now db = (Inr (), db\<lparr>db_open := True\<rparr>)"

text \<open>
  Recovery of an interrupted change always runs, its answer is kept only from an adapter that
  observes the Host, and \<open>except Exception\<close> lets nothing of it stop the daemon.
\<close>

definition dm_recover_network ::
  "'s store_port \<Rightarrow> 'n net_port \<Rightarrow> host \<Rightarrow> (('s, 'n) world, exn, unit) op" where
  "dm_recover_network P N H =
     catchS (bindS (on_net (net_recover_interrupted N)) (\<lambda>recovered_network.
       if observes_host_network N then hs_reconcile_network_state P H (np_state recovered_network) else ret ()))
     (\<lambda>_. ret ())"

definition dm_start ::
  "'s store_port \<Rightarrow> 'n net_port \<Rightarrow> (timestamp \<Rightarrow> ('s, store_error, unit) op) \<Rightarrow> host
    \<Rightarrow> (('s, 'n) service, exn, unit) op" where
  "dm_start P N boot H = bindS (hs_initialize P boot H) (\<lambda>_. on_sv (dm_recover_network P N H))"

section \<open>What is left unfinished\<close>

lemma fail_interrupted_settles:
  assumes "sq_inv names db"
  shows "\<exists>n db'. sq_fail_interrupted_operations now db = (Inr n, db')
    \<and> \<not> list_ex (\<lambda>r. or_state r \<in> set active_state_texts) (db_operations db')
    \<and> db_sessions db' = db_sessions db"
proof -
  have failed: "OperationState_value FAILED \<notin> set active_state_texts" by code_simp
  let ?db = "stmt_fail_operations now ''daemon_restarted'' db"
  have "\<not> list_ex (\<lambda>r. or_state r \<in> set active_state_texts) (db_operations ?db)"
    using failed by (auto simp: stmt_fail_operations_def list_ex_iff)
  moreover have "db_operations (stmt_set_network_state n now d) = db_operations d"
    "db_sessions (stmt_set_network_state n now d) = db_sessions d" for n d
    by (simp_all add: stmt_set_network_state_def)
  moreover have "db_sessions ?db = db_sessions db" by (simp add: stmt_fail_operations_def)
  ultimately show ?thesis using sq_inv_open [OF assms]
    by (simp add: sq_fail_interrupted_operations_def bindS_def sq_connection_def transact_def Let_def)
qed

text \<open>A Host that is owned and does not stand a window opens none by itself.\<close>

definition keeps_closed :: "host \<Rightarrow> sql_db \<Rightarrow> bool" where
  "keeps_closed H db \<longleftrightarrow> st_claim_window (h_settings H) \<noteq> ALWAYS_OPEN
     \<and> (\<exists>st. sq_get_state db = (Inr st, db) \<and> bs_claim_state st \<noteq> UNCLAIMED)"

lemma keeps_closed_iff:
  assumes "sq_inv names db"
  shows "keeps_closed H db \<longleftrightarrow> st_claim_window (h_settings H) \<noteq> ALWAYS_OPEN \<and> (\<exists>c. authorized sqlite_store db c \<noteq> None)"
proof -
  obtain st where "sq_get_state db = (Inr st, db)" "bs_claim_state st = CLAIMED \<longleftrightarrow> (\<exists>c. authorized sqlite_store db c \<noteq> None)"
    using sq.state_law [OF assms] by auto
  then show ?thesis by (cases "bs_claim_state st") (auto simp: keeps_closed_def)
qed

definition factory_code_at :: "host \<Rightarrow> nat \<Rightarrow> bool" where
  "factory_code_at H k \<longleftrightarrow> (\<exists>t. h_factory_file H k = FileText t \<and> is_usable_setup_code (py_strip t))"

lemma factory_file_run:
  "(h_factory_file H (w_tick w) = FileNotUtf8 \<and> hs_read_factory_setup_code H w = (Inl (OtherExn ''UnicodeDecodeError''), w\<lparr>w_tick := Suc (w_tick w)\<rparr>))
   \<or> (\<exists>c. h_factory_file H (w_tick w) \<noteq> FileNotUtf8 \<and> hs_read_factory_setup_code H w = (Inr c, w\<lparr>w_tick := Suc (w_tick w)\<rparr>)
      \<and> (factory_code_at H (w_tick w) \<longleftrightarrow> c \<noteq> None)
      \<and> (\<forall>code. c = Some code \<longrightarrow> (\<exists>t. h_factory_file H (w_tick w) = FileText t \<and> code = py_strip t)))"
  by (cases "h_factory_file H (w_tick w)")
    (auto simp: hs_read_factory_setup_code_def factory_code_at_def bindS_def ret_def raise_def Let_def)

text \<open>The window that was issued last is open.\<close>

definition latest_standing :: "sql_db \<Rightarrow> timestamp \<Rightarrow> bool" where
  "latest_standing db now \<longleftrightarrow> (\<exists>x. sq_latest_commissioning_session db = (Inr x, db) \<and> window_standing x now)"

text \<open>
  What a startup does to the windows. They stay as they are when the Host keeps closed, when there is
  no usable factory code, and when the last window is still open; otherwise the factory code gets a
  window that does not expire and that is the only open one.
\<close>

definition factory_windows :: "host \<Rightarrow> nat \<Rightarrow> timestamp \<Rightarrow> sql_db \<Rightarrow> sql_db \<Rightarrow> bool" where
  "factory_windows H k now db db' \<longleftrightarrow>
     (if keeps_closed H db \<or> \<not> factory_code_at H k \<or> latest_standing db now then db_sessions db' = db_sessions db
      else \<exists>t sid. h_factory_file H k = FileText t \<and> sole_window db' sid (setup_hash H (py_strip t)))"

lemma latest_standing_open: "latest_standing db now \<Longrightarrow> open_window_at db now"
proof -
  assume "latest_standing db now"
  then obtain s where "sq_latest_commissioning_session db = (Inr (Some s), db)" "is_open s now"
    by (auto simp: latest_standing_def window_standing_def split: option.splits)
  with latest_row [of db s] show ?thesis by (auto simp: open_window_at_def)
qed

lemma factory_windows_open:
  assumes "factory_windows H k now db db'" and "\<not> keeps_closed H db" and "factory_code_at H k"
  shows "open_window_at db' now"
  using assms latest_standing_open [of db now] by (auto simp: factory_windows_def sole_window_def open_window_at_def split: if_splits)

lemma factory_window_run:
  fixes w :: "(sql_db, 'n) world"
  assumes good: "good H w"
  shows "if h_factory_file H (w_tick w) = FileNotUtf8
    then hs_open_factory_window sqlite_store H now w = (Inl (OtherExn ''UnicodeDecodeError''), w\<lparr>w_tick := Suc (w_tick w)\<rparr>)
    else \<exists>w' rows. hs_open_factory_window sqlite_store H now w = (Inr (), w') \<and> w_store w' = (w_store w)\<lparr>db_sessions := rows\<rparr>
      \<and> factory_windows H (w_tick w) now (w_store w) (w_store w')"
proof (cases "h_factory_file H (w_tick w) = FileNotUtf8")
  case True
  with factory_file_run [of H w] show ?thesis by (simp add: hs_open_factory_window_def bindS_def)
next
  case False
  let ?w1 = "w\<lparr>w_tick := Suc (w_tick w)\<rparr>"
  have inv: "sq_inv (key_names_of (h_env H)) (w_store w)" and good1: "good H ?w1"
    using good by (simp_all add: good_world_def)
  obtain c where c: "hs_read_factory_setup_code H w = (Inr c, ?w1)" "factory_code_at H (w_tick w) \<longleftrightarrow> c \<noteq> None"
      and content: "\<And>code. c = Some code \<Longrightarrow> \<exists>t. h_factory_file H (w_tick w) = FileText t \<and> code = py_strip t"
    using factory_file_run [of H w] False by auto
  obtain st where st: "sq_get_state (w_store w) = (Inr st, w_store w)" using sq.state_law [OF inv] by auto
  obtain x where x: "sq_latest_commissioning_session (w_store w) = (Inr x, w_store w)" using sq_latest_ok [OF inv] by blast
  have closed: "keeps_closed H (w_store w) \<longleftrightarrow> st_claim_window (h_settings H) \<noteq> ALWAYS_OPEN \<and> bs_claim_state st \<noteq> UNCLAIMED"
    using st by (simp add: keeps_closed_def)
  have standing: "latest_standing (w_store w) now \<longleftrightarrow> window_standing x now" using x by (simp add: latest_standing_def)
  note run = hs_open_factory_window_def bindS_def on_store_def ret_def
  show ?thesis
  proof (cases "keeps_closed H (w_store w) \<or> c = None \<or> window_standing x now")
    case True
    then have "hs_open_factory_window sqlite_store H now w = (Inr (), ?w1)"
      using c st x closed by (auto simp: run split: option.split)
    moreover have "factory_windows H (w_tick w) now (w_store w) (w_store ?w1)" using True c(2) standing by (auto simp: factory_windows_def)
    moreover have "w_store ?w1 = (w_store w)\<lparr>db_sessions := db_sessions (w_store w)\<rparr>" by simp
    ultimately show ?thesis unfolding if_not_P [OF False] by blast
  next
    case mints: False
    then obtain code where code: "c = Some code" by auto
    obtain answer w' sid rows where mint: "hs_mint_window sqlite_store H code ?w1 = (Inr answer, w')"
        "sole_window (w_store w') sid (setup_hash H code)" "w_store w' = (w_store w)\<lparr>db_sessions := rows\<rparr>"
      using mint_run [OF good1, of code] by auto
    have "hs_open_factory_window sqlite_store H now w = (Inr (), w')"
      using mints code c st x closed mint(1) by (auto simp: run)
    moreover have "factory_windows H (w_tick w) now (w_store w) (w_store w')"
      using mints mint(2) c(2) standing content [OF code] unfolding factory_windows_def by auto
    ultimately show ?thesis using mint(3) unfolding if_not_P [OF False] by blast
  qed
qed

text \<open>
  What of the store a startup leaves alone once the unfinished operations are settled: the
  operations, and who is authorized.
\<close>

definition settled_same :: "sql_db \<Rightarrow> sql_db \<Rightarrow> bool" where
  "settled_same db db' \<longleftrightarrow> db_operations db' = db_operations db
     \<and> authorized sqlite_store db' = authorized sqlite_store db"

lemma authorized_sessions: "authorized sqlite_store (db\<lparr>db_sessions := rows\<rparr>) = authorized sqlite_store db"
  by (rule ext)
    (simp add: authorized_def sq_get_controller_def sq_get_state_def sq_connection_def bindS_def split: option.splits)

lemma recover_run:
  fixes w :: "(sql_db, 'n) world"
  assumes "good H w"
  shows "\<exists>w'. dm_recover_network sqlite_store N H w = (Inr (), w') \<and> good H w'
    \<and> settled_same (w_store w) (w_store w') \<and> db_sessions (w_store w') = db_sessions (w_store w)"
proof -
  obtain r n where r: "net_recover_interrupted N (w_net w) = (r, n)" by (cases "net_recover_interrupted N (w_net w)")
  let ?w1 = "w\<lparr>w_net := n\<rparr>" and ?now = "e_clock (h_env H) (w_tick w)"
  let ?db = "\<lambda>s. snd (sq_reconcile_network_state s ?now (w_store w))"
  let ?w2 = "\<lambda>s. ?w1\<lparr>w_tick := Suc (w_tick w), w_store := ?db s\<rparr>"
  have inv: "sq_inv (key_names_of (h_env H)) (w_store w)" using assms by (simp add: good_world_def)
  have good1: "good H (?w1\<lparr>w_tick := Suc (w_tick w)\<rparr>)" "good H ?w1" using assms by (simp_all add: good_world_def)
  have rows: "db_operations (?db s) = db_operations (w_store w)" "db_sessions (?db s) = db_sessions (w_store w)" for s
    by (auto simp: sq_reconcile_network_state_def raise_def bindS_def sq_connection_def transact_def stmt_set_network_state_def)
  have "authorized sqlite_store (?db s) = authorized sqlite_store (w_store w)" for s
  proof -
    have "run_call sqlite_store (CReconcile s ?now) (w_store w)
        = (fst (run_call sqlite_store (CReconcile s ?now) (w_store w)), ?db s)" by (simp add: prod_eq_iff)
    from sq.quiet_law [OF inv _ _ this] show ?thesis by simp
  qed
  with rows have same: "settled_same (w_store w) (?db s)" for s by (simp add: settled_same_def)
  have "good H (?w2 s)" for s
    using sq_net.step_calls(9) [of "h_env H" s ?now, unfolded framed_def, rule_format, of "?w1\<lparr>w_tick := Suc (w_tick w)\<rparr>"] good1(1)
    by (simp add: host_step_def)
  then have "\<exists>w'. dm_recover_network sqlite_store N H w = (Inr (), w') \<and> (w' = ?w1 \<or> (\<exists>s. w' = ?w2 s \<and> good H w'))"
    using r
    by (cases r)
      (auto simp: dm_recover_network_def hs_reconcile_network_state_def bindS_def catchS_def on_net_def on_store_def
        ret_def case_prod_beta split: sum.split)
  then show ?thesis using good1(2) same rows by (auto simp: settled_same_def)
qed

text \<open>The windows are read from the sessions and the claim state alone.\<close>

lemma factory_windows_same:
  assumes "factory_windows H k now db2 db3" and "db_sessions db' = db_sessions db3" and "db_sessions db2 = db_sessions db"
    and "sq_inv names db" and "sq_inv names db2" and "authorized sqlite_store db2 = authorized sqlite_store db"
  shows "factory_windows H k now db db'"
proof -
  have "keeps_closed H db2 \<longleftrightarrow> keeps_closed H db" using keeps_closed_iff assms(4-6) by metis
  moreover have "latest_standing db2 now \<longleftrightarrow> latest_standing db now"
    using sq_inv_open [OF assms(4)] sq_inv_open [OF assms(5)] assms(3)
    by (simp add: latest_standing_def sq_latest_commissioning_session_def bindS_def sq_connection_def)
  moreover have "sole_window db' sid h \<longleftrightarrow> sole_window db3 sid h" for sid h using assms(2) by (simp add: sole_window_def)
  ultimately show ?thesis using assms(1-3) by (auto simp: factory_windows_def split: if_splits)
qed

section \<open>Every startup\<close>

lemma operations_settled:
  fixes w :: "(sql_db, 'n) world"
  assumes good: "good H w"
  shows "\<exists>n db'. sq_fail_interrupted_operations now (w_store w) = (Inr n, db') \<and> good H (w\<lparr>w_store := db'\<rparr>) \<and> idle sqlite_store db'
    \<and> authorized sqlite_store db' = authorized sqlite_store (w_store w) \<and> db_sessions db' = db_sessions (w_store w)"
proof -
  have inv: "sq_inv (key_names_of (h_env H)) (w_store w)" using good by (simp add: good_world_def)
  obtain n db' where fail: "sq_fail_interrupted_operations now (w_store w) = (Inr n, db')"
      "\<not> list_ex (\<lambda>r. or_state r \<in> set active_state_texts) (db_operations db')" "db_sessions db' = db_sessions (w_store w)"
    using fail_interrupted_settles [OF inv] by blast
  have "run_call sqlite_store (CFailInterrupted now) (w_store w) = (Inr (ACount n), db')"
    by (simp add: answer_def bindS_def fail(1) ret_def)
  from sq.quiet_law [OF inv _ _ this] have "authorized sqlite_store db' = authorized sqlite_store (w_store w)" by simp
  moreover have good': "good H (w\<lparr>w_store := db'\<rparr>)"
    using sq_net.step_calls(8) [of "h_env H" now, unfolded framed_def, rule_format, of w] good fail(1) by (simp add: host_step_def)
  moreover have "sq_inv (key_names_of (h_env H)) db'" using good' by (simp add: good_world_def)
  with fail(2) have "idle sqlite_store db'" by (simp add: sq_idle_iff)
  ultimately show ?thesis using fail(1,3) by blast
qed

lemma comes_up:
  fixes w :: "(sql_db, 'n) world"
  assumes good: "good H w" and content: "h_factory_file H (w_tick w) \<noteq> FileNotUtf8"
  shows "\<exists>w1 w2. hs_open_factory_window sqlite_store H now w = (Inr (), w1)
    \<and> dm_recover_network sqlite_store N H (w1\<lparr>w_tick := Suc (w_tick w1)\<rparr>) = (Inr (), w2) \<and> good H w2
    \<and> db_operations (w_store w2) = db_operations (w_store w) \<and> authorized sqlite_store (w_store w2) = authorized sqlite_store (w_store w)
    \<and> factory_windows H (w_tick w) now (w_store w) (w_store w2)"
proof -
  obtain w1 rows where factory: "hs_open_factory_window sqlite_store H now w = (Inr (), w1)"
      "w_store w1 = (w_store w)\<lparr>db_sessions := rows\<rparr>" "factory_windows H (w_tick w) now (w_store w) (w_store w1)"
    using factory_window_run [OF good, of now] content by auto
  have "good H w1"
    using sq_daemon.step_windows(1) [of H now, unfolded framed_def, rule_format, of w] good factory(1) by (simp add: host_step_def)
  then have "good H (w1\<lparr>w_tick := Suc (w_tick w1)\<rparr>)" by (simp add: good_world_def)
  from recover_run [OF this, of N] obtain w2 where recover: "dm_recover_network sqlite_store N H (w1\<lparr>w_tick := Suc (w_tick w1)\<rparr>) = (Inr (), w2)"
      "good H w2" "settled_same (w_store w1) (w_store w2)" "db_sessions (w_store w2) = db_sessions (w_store w1)" by auto
  have "sq_inv (key_names_of (h_env H)) (w_store w)" using good by (simp add: good_world_def)
  from factory_windows_same [OF factory(3) recover(4) refl this this refl] factory(1,2) recover show ?thesis
    by (simp add: settled_same_def authorized_sessions)
qed

text \<open>What a startup that could open its store has done by the time the keys are to be loaded.\<close>

lemma start_opened:
  "hs_initialize sqlite_store sq_boot H (service_new H w) =
    (case h_identity_load H of
       Inl e \<Rightarrow> (Inl e, (service_new H w)\<lparr>sv_world := w\<lparr>w_store := (w_store w)\<lparr>db_open := True\<rparr>, w_tick := Suc (w_tick w)\<rparr>\<rparr>)
     | Inr _ \<Rightarrow>
         bindS (on_sv (on_store (sp_fail_interrupted_operations sqlite_store (e_clock (h_env H) (w_tick w))))) (\<lambda>_.
         bindS (on_sv (hs_open_factory_window sqlite_store H (e_clock (h_env H) (w_tick w)))) (\<lambda>_.
         bindS (on_sv (reading (e_uuid4 (h_env H)))) (\<lambda>run_id v.
           (Inr (), v\<lparr>sv_run_id := Some run_id, sv_started_at := Some (e_clock (h_env H) (w_tick w))\<rparr>))))
         ((service_new H w)\<lparr>sv_world := w\<lparr>w_store := (w_store w)\<lparr>db_open := True\<rparr>, w_tick := Suc (w_tick w)\<rparr>\<rparr>))"
  by (simp add: hs_initialize_def service_new_def sq_boot_def bindS_def on_sv_def on_store_def of_result_def split: sum.split)

text \<open>
  C24. On a store in its invariant at the current schema, a startup ends in one of three ways,
  whatever the network adapter does. When the Host's keys do not load, their error ends it and the
  store is opened and nothing else. When the keys load but the factory code file is not UTF-8,
  \<open>UnicodeDecodeError\<close> ends it, after the unfinished operations were settled and before any window
  was touched. Otherwise the daemon comes up with a run of its own. In all three nobody's authority
  changes; once the keys have loaded nothing of the last process is left active. The windows of a
  daemon that came up: unchanged when the Host is owned and does not stand a window, when there is no
  usable factory code, or when the last window is still open; else the only open window is a new one
  for the factory code.
\<close>

theorem startup_settles:
  fixes w :: "(sql_db, 'n) world"
  assumes "good H (w\<lparr>w_store := (w_store w)\<lparr>db_open := True\<rparr>\<rparr>)"
  shows "\<exists>answer v. dm_start sqlite_store N sq_boot H (service_new H w) = (answer, v)
    \<and> good H (sv_world v)
    \<and> authorized sqlite_store (w_store (sv_world v)) = authorized sqlite_store ((w_store w)\<lparr>db_open := True\<rparr>)
    \<and> (case h_identity_load H of
         Inl e \<Rightarrow> answer = Inl e \<and> sv_run_id v = None \<and> w_store (sv_world v) = (w_store w)\<lparr>db_open := True\<rparr>
       | Inr _ \<Rightarrow> idle sqlite_store (w_store (sv_world v))
         \<and> (if h_factory_file H (Suc (w_tick w)) = FileNotUtf8
            then answer = Inl (OtherExn ''UnicodeDecodeError'') \<and> sv_run_id v = None
              \<and> db_sessions (w_store (sv_world v)) = db_sessions (w_store w)
            else answer = Inr () \<and> sv_run_id v \<noteq> None
              \<and> factory_windows H (Suc (w_tick w)) (e_clock (h_env H) (w_tick w)) ((w_store w)\<lparr>db_open := True\<rparr>) (w_store (sv_world v))
              \<and> (\<not> keeps_closed H ((w_store w)\<lparr>db_open := True\<rparr>) \<longrightarrow> factory_code_at H (Suc (w_tick w))
                 \<longrightarrow> open_window_at (w_store (sv_world v)) (e_clock (h_env H) (w_tick w)))))"
    (is "\<exists>answer v. ?ends answer v")
proof -
  let ?now = "e_clock (h_env H) (w_tick w)" and ?db = "(w_store w)\<lparr>db_open := True\<rparr>"
  let ?w1 = "w\<lparr>w_store := ?db, w_tick := Suc (w_tick w)\<rparr>"
  have good1: "good H ?w1" using assms by (simp add: good_world_def)
  from operations_settled [OF this, of ?now] obtain n db2 where settled: "sq_fail_interrupted_operations ?now ?db = (Inr n, db2)"
      "good H (?w1\<lparr>w_store := db2\<rparr>)" "idle sqlite_store db2" "authorized sqlite_store db2 = authorized sqlite_store ?db"
      "db_sessions db2 = db_sessions ?db" by auto
  let ?w2 = "?w1\<lparr>w_store := db2\<rparr>"
  consider e where "h_identity_load H = Inl e"
    | "h_identity_load H = Inr ()" "h_factory_file H (Suc (w_tick w)) = FileNotUtf8"
    | "h_identity_load H = Inr ()" "h_factory_file H (Suc (w_tick w)) \<noteq> FileNotUtf8" by (cases "h_identity_load H") auto
  then show ?thesis
  proof cases
    case 1
    have "dm_start sqlite_store N sq_boot H (service_new H w) = (Inl e, (service_new H w)\<lparr>sv_world := ?w1\<rparr>)"
      by (simp add: dm_start_def start_opened bindS_def 1)
    with good1 1 show ?thesis by (simp add: service_new_def)
  next
    case 2
    have "hs_open_factory_window sqlite_store H ?now ?w2 = (Inl (OtherExn ''UnicodeDecodeError''), ?w2\<lparr>w_tick := Suc (w_tick ?w2)\<rparr>)"
      using factory_window_run [OF settled(2), of ?now] 2 by simp
    then have "dm_start sqlite_store N sq_boot H (service_new H w)
        = (Inl (OtherExn ''UnicodeDecodeError''), (service_new H w)\<lparr>sv_world := ?w2\<lparr>w_tick := Suc (w_tick ?w2)\<rparr>\<rparr>)"
      using settled(1) 2 by (simp add: dm_start_def start_opened bindS_def on_sv_def on_store_def)
    moreover have "good H (?w2\<lparr>w_tick := Suc (w_tick ?w2)\<rparr>)" using settled(2) by (simp add: good_world_def)
    ultimately show ?thesis using 2 settled by (simp add: service_new_def)
  next
    case 3
    from comes_up [OF settled(2), of ?now N] 3(2) obtain w3 w5 where
      up: "hs_open_factory_window sqlite_store H ?now ?w2 = (Inr (), w3)"
        "dm_recover_network sqlite_store N H (w3\<lparr>w_tick := Suc (w_tick w3)\<rparr>) = (Inr (), w5)" "good H w5"
        "db_operations (w_store w5) = db_operations db2" "authorized sqlite_store (w_store w5) = authorized sqlite_store db2"
        "factory_windows H (Suc (w_tick w)) ?now db2 (w_store w5)" by auto
    let ?v = "(service_new H w)\<lparr>sv_world := w5, sv_run_id := Some (e_uuid4 (h_env H) (w_tick w3)), sv_started_at := Some ?now\<rparr>"
    have run: "dm_start sqlite_store N sq_boot H (service_new H w) = (Inr (), ?v)"
      using settled(1) up(1,2) 3(1) by (simp add: dm_start_def start_opened bindS_def on_sv_def on_store_def)
    have "sq_inv (key_names_of (h_env H)) ?db" "sq_inv (key_names_of (h_env H)) db2" "sq_inv (key_names_of (h_env H)) (w_store w5)"
      using good1 settled(2) up(3) by (simp_all add: good_world_def)
    then have "idle sqlite_store (w_store w5)"
        and windows: "factory_windows H (Suc (w_tick w)) ?now ?db (w_store w5)"
      using settled(3-5) up(4) factory_windows_same [OF up(6) refl, of ?db] by (simp_all add: sq_idle_iff)
    then have "?ends (Inr ()) ?v" using run up(3,5) settled(4) factory_windows_open [OF windows] 3 by simp
    then show ?thesis by blast
  qed
qed

text \<open>A Host that was stopped while a change was staged, with its store closed again.\<close>

definition interrupted_db :: sql_db where
  "interrupted_db = snd (run_calls sqlite_store
     [CIssue ''w1'' ''h1'' ''t1'' (Some ''t2''), CCreateOperation
        \<lparr>op_operation_id = ''op'', op_operation_type = CHANGE_NETWORK, op_state = RUNNING, op_target = ''home'',
         op_reset_epoch = 0, op_created_at = ''t1'', op_updated_at = ''t1'', op_error_code = None\<rparr>]
     (sq_create_at_current_schema ''t0''))"

definition stopped_world :: "(sql_db, mem_net) world" where
  "stopped_world = \<lparr>w_store = interrupted_db\<lparr>db_open := False\<rparr>, w_net = mem_net_new None [], w_tick = 0\<rparr>"

lemma interrupted_inv: "sq_inv names interrupted_db"
  unfolding interrupted_db_def by (rule sq.run_keeps_inv [OF fresh_inv]) (simp add: calls_ok_def)

lemma stopped_world_good: "good quick_host (stopped_world\<lparr>w_store := (w_store stopped_world)\<lparr>db_open := True\<rparr>\<rparr>)"
proof -
  have "interrupted_db\<lparr>db_open := True\<rparr> = interrupted_db" using sq_inv_open [OF interrupted_inv] by simp
  moreover have "db_session_ids interrupted_db = {''w1''}" by code_simp
  moreover have "replicate j (CHR ''x'') = replicate k (CHR ''x'') \<longleftrightarrow> j = k" for j k
    by (rule replicate_eq_replicate [THEN trans]) auto
  moreover have "''1'' \<noteq> replicate k (CHR ''x'')" for k by (cases k) auto
  ultimately show ?thesis
    using interrupted_inv by (simp add: good_world_def quick_host_def fresh_env_def stopped_world_def)
qed

lemma startup_settles_witness:
  "\<not> idle sqlite_store interrupted_db
   \<and> (\<exists>v. dm_start sqlite_store memory_network sq_boot quick_host (service_new quick_host stopped_world) = (Inr (), v)
        \<and> idle sqlite_store (w_store (sv_world v))
        \<and> open_window_at (w_store (sv_world v)) (e_clock (h_env quick_host) 0))"
proof
  have "list_ex (\<lambda>r. or_state r \<in> set active_state_texts) (db_operations interrupted_db)" by code_simp
  then show "\<not> idle sqlite_store interrupted_db" using sq_idle_iff [OF interrupted_inv] by simp
  have factory: "h_factory_file quick_host k = FileText ''73915284''" "h_identity_load quick_host = Inr ()"
      "st_claim_window (h_settings quick_host) = ALWAYS_OPEN" for k
    by (simp_all add: quick_host_def fresh_host_def sample_host_def)
  have "factory_code_at quick_host k" for k using quick_host_stands by (simp add: stands_window_def factory_code_at_def)
  with startup_settles [OF stopped_world_good, of memory_network] factory
  show "\<exists>v. dm_start sqlite_store memory_network sq_boot quick_host (service_new quick_host stopped_world) = (Inr (), v)
        \<and> idle sqlite_store (w_store (sv_world v))
        \<and> open_window_at (w_store (sv_world v)) (e_clock (h_env quick_host) 0)"
    by (auto simp: keeps_closed_def stopped_world_def)
qed

end
