(* ===== verification/Schema.thy ===== *)
theory Schema
  imports Store_SQLite
begin

text \<open>
  The database file of the SQLite adapter and how \<open>initialize\<close> brings it to the current schema,
  \<open>bootstrap/adapters/persistence/sqlite.py\<close>: the fresh creation, the ladder of migrations, and the
  SQL statements they run, each with the ways it can fail.
\<close>

section \<open>Tables\<close>

datatype cell = Null | IntCell int | TextCell string

text \<open>A row gives a value in each column of its table, and \<open>Null\<close> under any other name.\<close>

type_synonym row = "string \<Rightarrow> cell"

datatype check = NonNegative string | IsOne string

fun check_column :: "check \<Rightarrow> string" where
  "check_column (NonNegative c) = c"
| "check_column (IsOne c) = c"

text \<open>A \<open>CHECK\<close> that evaluates to null passes.\<close>

fun check_holds :: "check \<Rightarrow> row \<Rightarrow> bool" where
  "check_holds (NonNegative c) r = (case r c of IntCell i \<Rightarrow> 0 \<le> i | _ \<Rightarrow> True)"
| "check_holds (IsOne c) r = (case r c of IntCell i \<Rightarrow> i = 1 | TextCell _ \<Rightarrow> False | Null \<Rightarrow> True)"

record sql_table =
  tb_columns :: "string list"
  tb_not_null :: "string list"
  tb_keys :: "string list list"
  tb_checks :: "check list"
  tb_rows :: "row list"

text \<open>\<open>PRIMARY KEY\<close> and \<open>UNIQUE\<close>: two rows clash when they agree on the key and no part of it is null.\<close>

definition clash :: "row \<Rightarrow> row \<Rightarrow> string list \<Rightarrow> bool" where
  "clash r r' key = list_all (\<lambda>c. r c \<noteq> Null \<and> r c = r' c) key"

definition row_ok :: "sql_table \<Rightarrow> row \<Rightarrow> bool" where
  "row_ok t r = (list_all (\<lambda>c. r c \<noteq> Null) (tb_not_null t) \<and> list_all (\<lambda>k. check_holds k r) (tb_checks t))"

record sql_file =
  fl_tables :: "string \<Rightarrow> sql_table option"
  fl_indexes :: "(string \<times> string) list"
  fl_user_version :: int

text \<open>
  \<open>Unsupported\<close> is the store's own refusal of a newer schema; the others are the errors of the
  database library.
\<close>

datatype schema_error = Unsupported int | Operational string | Integrity

section \<open>Statements\<close>

datatype statement =
    CreateTable string sql_table
  | CreateIndex string string
  | DropTableIfExists string
  | DropTable string
  | RenameTable string string
  | AddColumn string string cell bool "check list"
  | DropColumn string string
  | InsertRow string row
  | InsertSelect string "string list" string
  | UpdateText string string string string

definition insert_row :: "row \<Rightarrow> (sql_table, schema_error, unit) op" where
  "insert_row r t =
     (if \<not> row_ok t r \<or> list_ex (\<lambda>r'. list_ex (clash r r') (tb_keys t)) (tb_rows t)
      then (Inl Integrity, t) else (Inr (), t\<lparr>tb_rows := tb_rows t @ [r]\<rparr>))"

fun insert_rows :: "row list \<Rightarrow> (sql_table, schema_error, unit) op" where
  "insert_rows [] = ret ()"
| "insert_rows (r # rs) = bindS (insert_row r) (\<lambda>_. insert_rows rs)"

definition project :: "string list \<Rightarrow> row \<Rightarrow> row" where
  "project columns r = (\<lambda>c. if c \<in> set columns then r c else Null)"

text \<open>
  A statement on one table. A failing statement leaves its table as it was, also an
  \<open>INSERT ... SELECT\<close> that fails half way.
\<close>

definition on_table ::
  "string \<Rightarrow> (sql_table, schema_error, unit) op \<Rightarrow> (sql_file, schema_error, unit) op" where
  "on_table name m f =
     (case fl_tables f name of
        None \<Rightarrow> (Inl (Operational ''no such table''), f)
      | Some t \<Rightarrow>
          (case m t of
             (Inl e, _) \<Rightarrow> (Inl e, f)
           | (Inr _, t') \<Rightarrow> (Inr (), f\<lparr>fl_tables := (fl_tables f)(name \<mapsto> t')\<rparr>)))"

definition drop_table :: "string \<Rightarrow> sql_file \<Rightarrow> sql_file" where
  "drop_table name f = f\<lparr>fl_tables := (fl_tables f)(name := None),
     fl_indexes := filter (\<lambda>(_, t). t \<noteq> name) (fl_indexes f)\<rparr>"

definition add_column :: "string \<Rightarrow> cell \<Rightarrow> bool \<Rightarrow> check list \<Rightarrow> (sql_table, schema_error, unit) op" where
  "add_column column default_value not_null checks t =
     (if column \<in> set (tb_columns t) then (Inl (Operational ''duplicate column name''), t)
      else (Inr (), t\<lparr>tb_columns := tb_columns t @ [column],
        tb_not_null := tb_not_null t @ (if not_null then [column] else []),
        tb_checks := tb_checks t @ checks, tb_rows := map (\<lambda>r. r(column := default_value)) (tb_rows t)\<rparr>))"

definition drop_column :: "string \<Rightarrow> (sql_table, schema_error, unit) op" where
  "drop_column column t =
     (if column \<notin> set (tb_columns t) then (Inl (Operational ''no such column''), t)
      else if list_ex (\<lambda>key. column \<in> set key) (tb_keys t) then (Inl (Operational ''cannot drop key column''), t)
      else (Inr (), t\<lparr>tb_columns := filter (\<lambda>c. c \<noteq> column) (tb_columns t),
        tb_not_null := filter (\<lambda>c. c \<noteq> column) (tb_not_null t),
        tb_checks := filter (\<lambda>k. check_column k \<noteq> column) (tb_checks t),
        tb_rows := map (\<lambda>r. r(column := Null)) (tb_rows t)\<rparr>))"

text \<open>\<open>UPDATE t SET c = new WHERE c = old\<close>, for a text column under no key and no check.\<close>

definition update_text :: "string \<Rightarrow> string \<Rightarrow> string \<Rightarrow> (sql_table, schema_error, unit) op" where
  "update_text column new old t =
     (if column \<notin> set (tb_columns t) then (Inl (Operational ''no such column''), t)
      else (Inr (), t\<lparr>tb_rows := map (\<lambda>r. if r column = TextCell old then r(column := TextCell new) else r) (tb_rows t)\<rparr>))"

fun exec :: "statement \<Rightarrow> (sql_file, schema_error, unit) op" where
  "exec (CreateTable name t) f =
     (if fl_tables f name \<noteq> None then (Inl (Operational ''table already exists''), f)
      else (Inr (), f\<lparr>fl_tables := (fl_tables f)(name \<mapsto> t)\<rparr>))"
| "exec (CreateIndex index name) f =
     (if index \<in> fst ` set (fl_indexes f) then (Inl (Operational ''index already exists''), f)
      else if fl_tables f name = None then (Inl (Operational ''no such table''), f)
      else (Inr (), f\<lparr>fl_indexes := fl_indexes f @ [(index, name)]\<rparr>))"
| "exec (DropTableIfExists name) f = (Inr (), drop_table name f)"
| "exec (DropTable name) f =
     (if fl_tables f name = None then (Inl (Operational ''no such table''), f) else (Inr (), drop_table name f))"
| "exec (RenameTable old new) f =
     (case fl_tables f old of
        None \<Rightarrow> (Inl (Operational ''no such table''), f)
      | Some t \<Rightarrow>
          (if fl_tables f new \<noteq> None then (Inl (Operational ''table already exists''), f)
           else (Inr (), f\<lparr>fl_tables := (fl_tables f)(old := None, new \<mapsto> t),
             fl_indexes := map (\<lambda>(i, n). (i, if n = old then new else n)) (fl_indexes f)\<rparr>)))"
| "exec (AddColumn name column default_value not_null checks) f =
     on_table name (add_column column default_value not_null checks) f"
| "exec (DropColumn name column) f = on_table name (drop_column column) f"
| "exec (InsertRow name r) f = on_table name (insert_row r) f"
| "exec (InsertSelect name columns source) f =
     (case fl_tables f source of
        None \<Rightarrow> (Inl (Operational ''no such table''), f)
      | Some t \<Rightarrow>
          (if \<not> set columns \<subseteq> set (tb_columns t) then (Inl (Operational ''no such column''), f)
           else on_table name (insert_rows (map (project columns) (tb_rows t))) f))"
| "exec (UpdateText name column new old) f = on_table name (update_text column new old) f"

text \<open>A script: each statement commits by itself, and the first error ends it.\<close>

fun exec_script :: "statement list \<Rightarrow> (sql_file, schema_error, unit) op" where
  "exec_script [] = ret ()"
| "exec_script (s # ss) = bindS (exec s) (\<lambda>_. exec_script ss)"

section \<open>The current schema\<close>

definition SCHEMA_VERSION :: int where
  "SCHEMA_VERSION = 10"

definition grants_columns :: "string list" where
  "grants_columns = [''controller_id'', ''public_key'', ''public_key_fingerprint'', ''role'', ''display_name'',
     ''platform'', ''reset_epoch'', ''created_at'', ''revoked_at'']"

definition CONTROLLER_GRANTS_DDL :: statement where
  "CONTROLLER_GRANTS_DDL = CreateTable ''controller_grants''
     \<lparr>tb_columns = grants_columns,
      tb_not_null = [''controller_id'', ''public_key'', ''public_key_fingerprint'', ''role'', ''display_name'',
        ''platform'', ''reset_epoch'', ''created_at''],
      tb_keys = [[''controller_id'', ''reset_epoch''], [''public_key_fingerprint'', ''reset_epoch'']],
      tb_checks = [NonNegative ''reset_epoch''], tb_rows = []\<rparr>"

definition sessions_columns :: "string list" where
  "sessions_columns = [''session_id'', ''secret_hash'', ''created_at'', ''expires_at'', ''consumed_at'',
     ''revoked_at'', ''claimed_controller_id'', ''failed_attempts'']"

definition sessions_ddl :: statement where
  "sessions_ddl = CreateTable ''commissioning_sessions''
     \<lparr>tb_columns = sessions_columns, tb_not_null = [''secret_hash'', ''created_at'', ''failed_attempts''],
      tb_keys = [[''session_id'']], tb_checks = [NonNegative ''failed_attempts''], tb_rows = []\<rparr>"

definition operations_ddl :: statement where
  "operations_ddl = CreateTable ''bootstrap_operations''
     \<lparr>tb_columns = [''operation_id'', ''operation_type'', ''state'', ''target'', ''reset_epoch'', ''created_at'',
        ''updated_at'', ''error_code''],
      tb_not_null = [''operation_type'', ''state'', ''target'', ''reset_epoch'', ''created_at'', ''updated_at''],
      tb_keys = [[''operation_id'']], tb_checks = [NonNegative ''reset_epoch''], tb_rows = []\<rparr>"

definition state_ddl :: statement where
  "state_ddl = CreateTable ''bootstrap_state''
     \<lparr>tb_columns = [''singleton'', ''reset_epoch'', ''claim_state'', ''network_state'', ''updated_at''],
      tb_not_null = [''reset_epoch'', ''claim_state'', ''network_state'', ''updated_at''],
      tb_keys = [[''singleton'']], tb_checks = [IsOne ''singleton'', NonNegative ''reset_epoch''], tb_rows = []\<rparr>"

definition create_at_current_schema :: "timestamp \<Rightarrow> statement list" where
  "create_at_current_schema now =
     [state_ddl, sessions_ddl, operations_ddl,
      CreateIndex ''commissioning_sessions_created_idx'' ''commissioning_sessions'',
      CONTROLLER_GRANTS_DDL,
      InsertRow ''bootstrap_state'' ((\<lambda>_. Null)(''singleton'' := IntCell 1, ''reset_epoch'' := IntCell 0,
        ''claim_state'' := TextCell (ClaimState_value UNCLAIMED),
        ''network_state'' := TextCell (NetworkState_value UNCONFIGURED), ''updated_at'' := TextCell now))]"

section \<open>The ladder\<close>

definition migrate_v1_to_v2 :: "statement list" where
  "migrate_v1_to_v2 = [DropTableIfExists ''daemon_runs'']"

definition migrate_v2_to_v3 :: "statement list" where
  "migrate_v2_to_v3 =
     [AddColumn ''commissioning_sessions'' ''claimed_controller_id'' Null False [],
      CreateTable ''controller_grants''
        \<lparr>tb_columns = grants_columns,
         tb_not_null = [''public_key'', ''public_key_fingerprint'', ''role'', ''display_name'', ''platform'',
           ''reset_epoch'', ''created_at''],
         tb_keys = [[''controller_id''], [''public_key_fingerprint'']],
         tb_checks = [NonNegative ''reset_epoch''], tb_rows = []\<rparr>,
      operations_ddl]"

definition migrate_v3_to_v4 :: "statement list" where
  "migrate_v3_to_v4 =
     [AddColumn ''commissioning_sessions'' ''failed_attempts'' (IntCell 0) True [NonNegative ''failed_attempts'']]"

definition migrate_v4_to_v5 :: "statement list" where
  "migrate_v4_to_v5 = [AddColumn ''bootstrap_state'' ''owner_id'' Null False []]"

definition migrate_v5_to_v6 :: "statement list" where
  "migrate_v5_to_v6 = [DropColumn ''bootstrap_state'' ''recovery_state'']"

definition migrate_v6_to_v7 :: "statement list" where
  "migrate_v6_to_v7 =
     [RenameTable ''controller_grants'' ''controller_grants_pre_v7'', CONTROLLER_GRANTS_DDL,
      InsertSelect ''controller_grants'' grants_columns ''controller_grants_pre_v7'',
      DropTable ''controller_grants_pre_v7'']"

definition migrate_v7_to_v8 :: "statement list" where
  "migrate_v7_to_v8 = [DropColumn ''bootstrap_state'' ''owner_id'', DropColumn ''bootstrap_state'' ''workspace_state'']"

definition migrate_v8_to_v9 :: "statement list" where
  "migrate_v8_to_v9 =
     [RenameTable ''commissioning_sessions'' ''commissioning_sessions_v8'', sessions_ddl,
      InsertSelect ''commissioning_sessions'' sessions_columns ''commissioning_sessions_v8'',
      DropTable ''commissioning_sessions_v8'']"

definition migrate_v9_to_v10 :: "statement list" where
  "migrate_v9_to_v10 = [UpdateText ''bootstrap_operations'' ''operation_type'' ''change_network'' ''initial_network'']"

definition ladder :: "statement list list" where
  "ladder = [migrate_v1_to_v2, migrate_v2_to_v3, migrate_v3_to_v4, migrate_v4_to_v5, migrate_v5_to_v6,
     migrate_v6_to_v7, migrate_v7_to_v8, migrate_v8_to_v9, migrate_v9_to_v10]"

text \<open>\<open>xs[i:]\<close>, where a negative \<open>i\<close> counts from the end.\<close>

definition slice_from :: "int \<Rightarrow> 'a list \<Rightarrow> 'a list" where
  "slice_from i xs = drop (nat (if i < 0 then int (length xs) + i else i)) xs"

definition sq_initialize :: "timestamp \<Rightarrow> (sql_file, schema_error, unit) op" where
  "sq_initialize now f =
     (let version = fl_user_version f
      in if version > SCHEMA_VERSION then (Inl (Unsupported version), f)
         else bindS
           (if version = 0 then exec_script (create_at_current_schema now)
            else exec_script (concat (slice_from (version - 1) ladder)))
           (\<lambda>_ g. (Inr (), g\<lparr>fl_user_version := SCHEMA_VERSION\<rparr>)) f)"

section \<open>Files at each version\<close>

text \<open>
  The tables of a Host that has followed the ladder from version 1 (the schema of version 1 is
  the one the migration test of the repository builds) up to version \<open>v\<close>, with the given rows.
\<close>

definition state_table :: "int \<Rightarrow> row list \<Rightarrow> sql_table" where
  "state_table v rows =
     \<lparr>tb_columns = [''singleton'', ''reset_epoch'', ''claim_state'', ''network_state'']
        @ (if v < 8 then [''workspace_state''] else []) @ (if v < 6 then [''recovery_state''] else [])
        @ [''updated_at''] @ (if 5 \<le> v \<and> v < 8 then [''owner_id''] else []),
      tb_not_null = [''reset_epoch'', ''claim_state'', ''network_state'']
        @ (if v < 8 then [''workspace_state''] else []) @ (if v < 6 then [''recovery_state''] else []) @ [''updated_at''],
      tb_keys = [[''singleton'']], tb_checks = [IsOne ''singleton'', NonNegative ''reset_epoch''], tb_rows = rows\<rparr>"

definition sessions_table :: "int \<Rightarrow> row list \<Rightarrow> sql_table" where
  "sessions_table v rows =
     \<lparr>tb_columns = [''session_id'', ''secret_hash'', ''created_at'', ''expires_at'', ''consumed_at'', ''revoked_at'']
        @ (if 3 \<le> v then [''claimed_controller_id''] else []) @ (if 4 \<le> v then [''failed_attempts''] else []),
      tb_not_null = [''secret_hash'', ''created_at''] @ (if v < 9 then [''expires_at''] else [])
        @ (if 4 \<le> v then [''failed_attempts''] else []),
      tb_keys = [[''session_id'']], tb_checks = (if 4 \<le> v then [NonNegative ''failed_attempts''] else []),
      tb_rows = rows\<rparr>"

definition grants_table :: "int \<Rightarrow> row list \<Rightarrow> sql_table" where
  "grants_table v rows =
     \<lparr>tb_columns = grants_columns,
      tb_not_null = (if v < 7 then [] else [''controller_id'']) @ [''public_key'', ''public_key_fingerprint'', ''role'',
        ''display_name'', ''platform'', ''reset_epoch'', ''created_at''],
      tb_keys = (if v < 7 then [[''controller_id''], [''public_key_fingerprint'']]
        else [[''controller_id'', ''reset_epoch''], [''public_key_fingerprint'', ''reset_epoch'']]),
      tb_checks = [NonNegative ''reset_epoch''], tb_rows = rows\<rparr>"

definition operations_table :: "row list \<Rightarrow> sql_table" where
  "operations_table rows =
     \<lparr>tb_columns = [''operation_id'', ''operation_type'', ''state'', ''target'', ''reset_epoch'', ''created_at'',
        ''updated_at'', ''error_code''],
      tb_not_null = [''operation_type'', ''state'', ''target'', ''reset_epoch'', ''created_at'', ''updated_at''],
      tb_keys = [[''operation_id'']], tb_checks = [NonNegative ''reset_epoch''], tb_rows = rows\<rparr>"

definition tables_at ::
  "int \<Rightarrow> sql_table option \<Rightarrow> row list \<Rightarrow> row list \<Rightarrow> row list \<Rightarrow> row list \<Rightarrow> string \<Rightarrow> sql_table option" where
  "tables_at v runs st se gr op = (\<lambda>n.
     if n = ''bootstrap_state'' then Some (state_table v st)
     else if n = ''commissioning_sessions'' then Some (sessions_table v se)
     else if n = ''controller_grants'' \<and> 3 \<le> v then Some (grants_table v gr)
     else if n = ''bootstrap_operations'' \<and> 3 \<le> v then Some (operations_table op)
     else if n = ''daemon_runs'' then runs else None)"

text \<open>The rows a table may hold: nothing outside its columns, and every constraint met.\<close>

definition rows_ok :: "sql_table \<Rightarrow> bool" where
  "rows_ok t \<longleftrightarrow> (\<forall>r \<in> set (tb_rows t). row_ok t r \<and> (\<forall>c. c \<notin> set (tb_columns t) \<longrightarrow> r c = Null))
     \<and> (\<forall>key \<in> set (tb_keys t). sorted_wrt (\<lambda>r r'. \<not> clash r' r key) (tb_rows t))"

text \<open>
  A file at version \<open>v\<close>, and what of it a version uses: before version 3 there are no Grants and no
  operations, and after version 1 no record of daemon runs. Every Grant names its Controller (a
  text primary key alone would let SQLite store a null there).
\<close>

definition at_schema :: "int \<Rightarrow> sql_table option \<Rightarrow> row list \<Rightarrow> row list \<Rightarrow> row list \<Rightarrow> row list \<Rightarrow> sql_file \<Rightarrow> bool" where
  "at_schema v runs st se gr op f \<longleftrightarrow> fl_tables f = tables_at v runs st se gr op
     \<and> (2 \<le> v \<longrightarrow> runs = None) \<and> (v < 3 \<longrightarrow> gr = [] \<and> op = [])
     \<and> rows_ok (state_table v st) \<and> rows_ok (sessions_table v se) \<and> rows_ok (grants_table v gr)
     \<and> (\<forall>r \<in> set gr. r ''controller_id'' \<noteq> Null)"

definition at_version :: "int \<Rightarrow> sql_file \<Rightarrow> bool" where
  "at_version v f \<longleftrightarrow> (\<exists>runs st se gr op. at_schema v runs st se gr op f)"

lemma at_versionI: "at_schema v runs st se gr op f \<Longrightarrow> at_version v f"
  unfolding at_version_def by blast

section \<open>What the store reads from a file\<close>

fun text_of :: "cell \<Rightarrow> string" where
  "text_of (TextCell s) = s"
| "text_of _ = []"

fun text_option :: "cell \<Rightarrow> string option" where
  "text_option (TextCell s) = Some s"
| "text_option _ = None"

fun int_of :: "cell \<Rightarrow> int" where
  "int_of (IntCell i) = i"
| "int_of _ = 0"

definition read_state :: "row \<Rightarrow> state_row" where
  "read_state r = \<lparr>st_reset_epoch = int_of (r ''reset_epoch''), st_claim_state = text_of (r ''claim_state''),
     st_network_state = text_of (r ''network_state''), st_updated_at = text_of (r ''updated_at'')\<rparr>"

definition read_session :: "row \<Rightarrow> session_row" where
  "read_session r = \<lparr>sr_session_id = text_of (r ''session_id''), sr_secret_hash = text_of (r ''secret_hash''),
     sr_created_at = text_of (r ''created_at''), sr_expires_at = text_option (r ''expires_at''),
     sr_consumed_at = text_option (r ''consumed_at''), sr_revoked_at = text_option (r ''revoked_at''),
     sr_claimed_controller_id = text_option (r ''claimed_controller_id''),
     sr_failed_attempts = int_of (r ''failed_attempts'')\<rparr>"

definition read_grant :: "row \<Rightarrow> grant_row" where
  "read_grant r = \<lparr>gr_controller_id = text_of (r ''controller_id''), gr_public_key = text_of (r ''public_key''),
     gr_public_key_fingerprint = text_of (r ''public_key_fingerprint''), gr_role = text_of (r ''role''),
     gr_display_name = text_of (r ''display_name''), gr_platform = text_of (r ''platform''),
     gr_reset_epoch = int_of (r ''reset_epoch''), gr_created_at = text_of (r ''created_at''),
     gr_revoked_at = text_option (r ''revoked_at'')\<rparr>"

definition read_operation :: "row \<Rightarrow> operation_row" where
  "read_operation r = \<lparr>or_operation_id = text_of (r ''operation_id''), or_operation_type = text_of (r ''operation_type''),
     or_state = text_of (r ''state''), or_target = text_of (r ''target''), or_reset_epoch = int_of (r ''reset_epoch''),
     or_created_at = text_of (r ''created_at''), or_updated_at = text_of (r ''updated_at''),
     or_error_code = text_option (r ''error_code'')\<rparr>"

definition rows_of :: "sql_file \<Rightarrow> string \<Rightarrow> row list" where
  "rows_of f name = (case fl_tables f name of None \<Rightarrow> [] | Some t \<Rightarrow> tb_rows t)"

text \<open>The rows of a file as the store's statements see them; a column a version lacks reads as null.\<close>

definition read_store :: "sql_file \<Rightarrow> sql_db" where
  "read_store f =
     \<lparr>db_open = True,
      db_state = map_option read_state (find (\<lambda>r. r ''singleton'' = IntCell 1) (rows_of f ''bootstrap_state'')),
      db_sessions = map read_session (rows_of f ''commissioning_sessions''),
      db_grants = map read_grant (rows_of f ''controller_grants''),
      db_operations = map read_operation (rows_of f ''bootstrap_operations'')\<rparr>"

text \<open>The one change a migration makes to what is stored.\<close>

definition rename_operation_type :: "operation_row \<Rightarrow> operation_row" where
  "rename_operation_type r =
     (if or_operation_type r = ''initial_network'' then r\<lparr>or_operation_type := ''change_network''\<rparr> else r)"

section \<open>Copying a table\<close>

lemma insert_rows_ok:
  assumes "rows_ok (t\<lparr>tb_rows := tb_rows t @ rs\<rparr>)"
  shows "insert_rows rs t = (Inr (), t\<lparr>tb_rows := tb_rows t @ rs\<rparr>)"
  using assms
proof (induction rs arbitrary: t)
  case (Cons r rs)
  let ?t = "t\<lparr>tb_rows := tb_rows t @ [r]\<rparr>"
  have "\<not> clash r r' key" if "r' \<in> set (tb_rows t)" "key \<in> set (tb_keys t)" for r' key
    using Cons.prems that by (auto simp: rows_ok_def sorted_wrt_append)
  moreover have "row_ok t r" using Cons.prems by (simp add: rows_ok_def row_ok_def)
  ultimately have "insert_row r t = (Inr (), ?t)" by (auto simp: insert_row_def list_ex_iff)
  moreover have "insert_rows rs ?t = (Inr (), ?t\<lparr>tb_rows := tb_rows ?t @ rs\<rparr>)"
    using Cons.prems by (intro Cons.IH) simp
  ultimately show ?case by (simp add: bindS_def)
qed (simp add: ret_def)

lemma project_id: "(\<And>c. c \<notin> set columns \<Longrightarrow> r c = Null) \<Longrightarrow> project columns r = r"
  by (auto simp: project_def)

lemma project_rows:
  assumes "rows_ok t" and "set (tb_columns t) \<subseteq> set columns"
  shows "map (project columns) (tb_rows t) = tb_rows t"
  using assms by (intro map_idI project_id) (auto simp: rows_ok_def)

section \<open>Each step of the ladder\<close>

text \<open>
  A script that leads from one version to the next and leaves, table by table, the rows given.
\<close>

definition leads :: "statement list \<Rightarrow> sql_file \<Rightarrow> (string \<Rightarrow> sql_table option) \<Rightarrow> bool" where
  "leads script f tables \<longleftrightarrow> (\<exists>g. exec_script script f = (Inr (), g) \<and> fl_tables g = tables
     \<and> fl_user_version g = fl_user_version f)"

lemmas run_simps = ret_def bindS_def on_table_def drop_table_def add_column_def drop_column_def update_text_def

lemmas table_defs = state_table_def sessions_table_def grants_table_def operations_table_def

lemma tables_at_lookup [simp]:
  "tables_at v runs st se gr op ''bootstrap_state'' = Some (state_table v st)"
  "tables_at v runs st se gr op ''commissioning_sessions'' = Some (sessions_table v se)"
  "tables_at v runs st se gr op ''controller_grants'' = (if 3 \<le> v then Some (grants_table v gr) else None)"
  "tables_at v runs st se gr op ''bootstrap_operations'' = (if 3 \<le> v then Some (operations_table op) else None)"
  "tables_at v runs st se gr op ''daemon_runs'' = runs"
  "tables_at v runs st se gr op ''controller_grants_pre_v7'' = None"
  "tables_at v runs st se gr op ''commissioning_sessions_v8'' = None"
  by (simp_all add: tables_at_def)

lemma table_rows [simp]:
  "tb_rows (state_table v rows) = rows" "tb_rows (sessions_table v rows) = rows"
  "tb_rows (grants_table v rows) = rows" "tb_rows (operations_table rows) = rows"
  by (simp_all add: table_defs)

lemma tables_at_eqI:
  assumes "T ''bootstrap_state'' = Some (state_table v st)" and "T ''commissioning_sessions'' = Some (sessions_table v se)"
    and "T ''controller_grants'' = (if 3 \<le> v then Some (grants_table v gr) else None)"
    and "T ''bootstrap_operations'' = (if 3 \<le> v then Some (operations_table op) else None)"
    and "\<And>n. n \<notin> {''bootstrap_state'', ''commissioning_sessions'', ''controller_grants'', ''bootstrap_operations''} \<Longrightarrow> T n = None"
  shows "T = tables_at v None st se gr op"
proof (rule ext)
  fix n
  consider "n = ''bootstrap_state''" | "n = ''commissioning_sessions''" | "n = ''controller_grants''"
    | "n = ''bootstrap_operations''"
    | "n \<notin> {''bootstrap_state'', ''commissioning_sessions'', ''controller_grants'', ''bootstrap_operations''}" by blast
  then show "T n = tables_at v None st se gr op n"
    by cases (simp_all add: assms(1-4), simp add: assms(5) tables_at_def)
qed

lemma leads_v1:
  "fl_tables f = tables_at 1 runs st se gr op \<Longrightarrow> leads migrate_v1_to_v2 f (tables_at 2 None st se gr op)"
  by (simp add: leads_def migrate_v1_to_v2_def run_simps)
    (rule tables_at_eqI; simp add: table_defs; simp add: tables_at_def)

lemma leads_v2:
  "fl_tables f = tables_at 2 None st se [] [] \<Longrightarrow>
     leads migrate_v2_to_v3 f (tables_at 3 None st (map (\<lambda>r. r(''claimed_controller_id'' := Null)) se) [] [])"
  by (simp add: leads_def migrate_v2_to_v3_def operations_ddl_def run_simps sessions_table_def)
    (rule tables_at_eqI; simp add: table_defs; simp add: tables_at_def)

lemma leads_v3:
  "fl_tables f = tables_at 3 None st se gr op \<Longrightarrow>
     leads migrate_v3_to_v4 f (tables_at 4 None st (map (\<lambda>r. r(''failed_attempts'' := IntCell 0)) se) gr op)"
  by (simp add: leads_def migrate_v3_to_v4_def run_simps sessions_table_def)
    (rule tables_at_eqI; simp add: table_defs; simp add: tables_at_def)

lemma leads_v4:
  "fl_tables f = tables_at 4 None st se gr op \<Longrightarrow>
     leads migrate_v4_to_v5 f (tables_at 5 None (map (\<lambda>r. r(''owner_id'' := Null)) st) se gr op)"
  by (simp add: leads_def migrate_v4_to_v5_def run_simps state_table_def)
    (rule tables_at_eqI; simp add: table_defs; simp add: tables_at_def)

lemma leads_v5:
  "fl_tables f = tables_at 5 None st se gr op \<Longrightarrow>
     leads migrate_v5_to_v6 f (tables_at 6 None (map (\<lambda>r. r(''recovery_state'' := Null)) st) se gr op)"
  by (simp add: leads_def migrate_v5_to_v6_def run_simps state_table_def)
    (rule tables_at_eqI; simp add: table_defs; simp add: tables_at_def)

lemma leads_v7:
  "fl_tables f = tables_at 7 None st se gr op \<Longrightarrow>
     leads migrate_v7_to_v8 f (tables_at 8 None (map (\<lambda>r. r(''owner_id'' := Null, ''workspace_state'' := Null)) st) se gr op)"
  by (simp add: leads_def migrate_v7_to_v8_def run_simps state_table_def)
    (rule tables_at_eqI; simp add: table_defs; simp add: tables_at_def)

lemma leads_v9:
  "fl_tables f = tables_at 9 None st se gr op \<Longrightarrow>
     leads migrate_v9_to_v10 f (tables_at 10 None st se gr (map (\<lambda>r. if r ''operation_type'' = TextCell ''initial_network''
       then r(''operation_type'' := TextCell ''change_network'') else r) op))"
  by (simp add: leads_def migrate_v9_to_v10_def run_simps operations_table_def)
    (rule tables_at_eqI; simp add: table_defs; simp add: tables_at_def)

lemma leads_v6:
  assumes "fl_tables f = tables_at 6 None st se gr op" and "rows_ok (grants_table 6 gr)" and "rows_ok (grants_table 7 gr)"
  shows "leads migrate_v6_to_v7 f (tables_at 7 None st se gr op)"
proof -
  have run: "map (project grants_columns) gr = gr" using project_rows [OF assms(2)] by (simp add: grants_table_def)
  have ins: "insert_rows gr (grants_table 7 []) = (Inr (), grants_table 7 gr)"
    using insert_rows_ok [of "grants_table 7 []" gr] assms(3) by (simp add: grants_table_def)
  have ddl: "CONTROLLER_GRANTS_DDL = CreateTable ''controller_grants'' (grants_table 7 [])"
    by (simp add: CONTROLLER_GRANTS_DDL_def grants_table_def)
  have cols: "tb_columns (grants_table 6 gr) = grants_columns" by (simp add: grants_table_def)
  show ?thesis
    by (simp add: leads_def migrate_v6_to_v7_def run_simps run ins ddl cols assms(1))
      (rule tables_at_eqI; simp add: state_table_def sessions_table_def; simp add: tables_at_def)
qed

lemma leads_v8:
  assumes "fl_tables f = tables_at 8 None st se gr op" and "rows_ok (sessions_table 8 se)" and "rows_ok (sessions_table 9 se)"
  shows "leads migrate_v8_to_v9 f (tables_at 9 None st se gr op)"
proof -
  have run: "map (project sessions_columns) se = se"
    using project_rows [OF assms(2)] by (simp add: sessions_table_def sessions_columns_def)
  have ins: "insert_rows se (sessions_table 9 []) = (Inr (), sessions_table 9 se)"
    using insert_rows_ok [of "sessions_table 9 []" se] assms(3) by (simp add: sessions_table_def)
  have ddl: "sessions_ddl = CreateTable ''commissioning_sessions'' (sessions_table 9 [])"
    by (simp add: sessions_ddl_def sessions_table_def sessions_columns_def)
  have cols: "tb_columns (sessions_table 8 se) = sessions_columns" by (simp add: sessions_table_def sessions_columns_def)
  show ?thesis
    by (simp add: leads_def migrate_v8_to_v9_def run_simps run ins ddl cols assms(1))
      (rule tables_at_eqI; simp add: state_table_def grants_table_def; simp add: tables_at_def)
qed

section \<open>Climbing\<close>

lemma rows_ok_map:
  assumes "rows_ok t" and "tb_rows t' = map h (tb_rows t)" and "set (tb_keys t') \<subseteq> set (tb_keys t)"
    and "\<And>r. r \<in> set (tb_rows t) \<Longrightarrow> row_ok t r \<Longrightarrow> (\<And>c. c \<notin> set (tb_columns t) \<Longrightarrow> r c = Null) \<Longrightarrow>
      row_ok t' (h r) \<and> (\<forall>c. c \<notin> set (tb_columns t') \<longrightarrow> h r c = Null)"
    and "\<And>r key c. key \<in> set (tb_keys t') \<Longrightarrow> c \<in> set key \<Longrightarrow> h r c = r c"
  shows "rows_ok t'"
proof -
  have "clash (h r') (h r) key \<longleftrightarrow> clash r' r key" if "key \<in> set (tb_keys t')" for r r' key
    using assms(5) [OF that] by (auto simp: clash_def list_all_iff)
  with assms show ?thesis by (auto simp: rows_ok_def sorted_wrt_map)
qed

lemma sessions_rows:
  "rows_ok (sessions_table 1 se) \<Longrightarrow> rows_ok (sessions_table 2 se)"
  "rows_ok (sessions_table 2 se) \<Longrightarrow> rows_ok (sessions_table 3 (map (\<lambda>r. r(''claimed_controller_id'' := Null)) se))"
  "rows_ok (sessions_table 3 se) \<Longrightarrow> rows_ok (sessions_table 4 (map (\<lambda>r. r(''failed_attempts'' := IntCell 0)) se))"
  "rows_ok (sessions_table 8 se) \<Longrightarrow> rows_ok (sessions_table 9 se)"
  subgoal by (simp add: sessions_table_def)
  subgoal by (rule rows_ok_map [where t = "sessions_table 2 se" and h = "\<lambda>r. r(''claimed_controller_id'' := Null)"]) (auto simp: sessions_table_def row_ok_def)
  subgoal by (rule rows_ok_map [where t = "sessions_table 3 se" and h = "\<lambda>r. r(''failed_attempts'' := IntCell 0)"]) (auto simp: sessions_table_def row_ok_def)
  subgoal by (auto simp: sessions_table_def row_ok_def rows_ok_def)
  done

lemma state_rows:
  "rows_ok (state_table 4 st) \<Longrightarrow> rows_ok (state_table 5 (map (\<lambda>r. r(''owner_id'' := Null)) st))"
  "rows_ok (state_table 5 st) \<Longrightarrow> rows_ok (state_table 6 (map (\<lambda>r. r(''recovery_state'' := Null)) st))"
  "rows_ok (state_table 7 st) \<Longrightarrow> rows_ok (state_table 8 (map (\<lambda>r. r(''owner_id'' := Null, ''workspace_state'' := Null)) st))"
  subgoal by (rule rows_ok_map [where t = "state_table 4 st" and h = "\<lambda>r. r(''owner_id'' := Null)"]) (auto simp: state_table_def row_ok_def)
  subgoal by (rule rows_ok_map [where t = "state_table 5 st" and h = "\<lambda>r. r(''recovery_state'' := Null)"]) (auto simp: state_table_def row_ok_def)
  subgoal by (rule rows_ok_map [where t = "state_table 7 st" and h = "\<lambda>r. r(''owner_id'' := Null, ''workspace_state'' := Null)"]) (auto simp: state_table_def row_ok_def)
  done

lemma grants_rows:
  assumes "rows_ok (grants_table 6 gr)" and "\<forall>r \<in> set gr. r ''controller_id'' \<noteq> Null"
  shows "rows_ok (grants_table 7 gr)"
proof -
  have "clash r r' [c]" if "clash r r' [c, ''reset_epoch'']" for r r' :: row and c using that by (auto simp: clash_def)
  then have "sorted_wrt (\<lambda>r r'. \<not> clash r' r [c, ''reset_epoch'']) gr" if "sorted_wrt (\<lambda>r r'. \<not> clash r' r [c]) gr" for c
    using that by (rule_tac sorted_wrt_mono_rel [of gr "\<lambda>r r'. \<not> clash r' r [c]"]) blast+
  with assms show ?thesis by (auto simp: rows_ok_def row_ok_def grants_table_def)
qed

lemma read_store_at:
  assumes "fl_tables f = tables_at v runs st se gr op" and "v < 3 \<longrightarrow> gr = [] \<and> op = []"
  shows "read_store f = \<lparr>db_open = True, db_state = map_option read_state (find (\<lambda>r. r ''singleton'' = IntCell 1) st),
    db_sessions = map read_session se, db_grants = map read_grant gr, db_operations = map read_operation op\<rparr>"
  using assms by (auto simp: read_store_def rows_of_def)

lemma state_reads:
  "map_option read_state (find (\<lambda>r. r ''singleton'' = IntCell 1) (map (\<lambda>r. r(''owner_id'' := c)) st))
     = map_option read_state (find (\<lambda>r. r ''singleton'' = IntCell 1) st)"
  "map_option read_state (find (\<lambda>r. r ''singleton'' = IntCell 1) (map (\<lambda>r. r(''recovery_state'' := c)) st))
     = map_option read_state (find (\<lambda>r. r ''singleton'' = IntCell 1) st)"
  "map_option read_state (find (\<lambda>r. r ''singleton'' = IntCell 1) (map (\<lambda>r. r(''owner_id'' := c, ''workspace_state'' := d)) st))
     = map_option read_state (find (\<lambda>r. r ''singleton'' = IntCell 1) st)"
  by (simp_all add: find_map option.map_comp o_def comp_def read_state_def [abs_def])

lemma rows_null: "rows_ok t \<Longrightarrow> r \<in> set (tb_rows t) \<Longrightarrow> c \<notin> set (tb_columns t) \<Longrightarrow> r c = Null"
  by (simp add: rows_ok_def)

lemma session_reads:
  "rows_ok (sessions_table 2 se) \<Longrightarrow>
     map (read_session \<circ> (\<lambda>r. r(''claimed_controller_id'' := Null))) se = map read_session se"
  "rows_ok (sessions_table 3 se) \<Longrightarrow>
     map (read_session \<circ> (\<lambda>r. r(''failed_attempts'' := IntCell 0))) se = map read_session se"
proof -
  have "read_session (r(''claimed_controller_id'' := Null)) = read_session r"
    if "rows_ok (sessions_table 2 se)" "r \<in> set se" for r
    using rows_null [OF that(1), of r "''claimed_controller_id''"] that(2) by (simp add: read_session_def sessions_table_def)
  then show "rows_ok (sessions_table 2 se) \<Longrightarrow>
     map (read_session \<circ> (\<lambda>r. r(''claimed_controller_id'' := Null))) se = map read_session se" by simp
  have "read_session (r(''failed_attempts'' := IntCell 0)) = read_session r"
    if "rows_ok (sessions_table 3 se)" "r \<in> set se" for r
    using rows_null [OF that(1), of r "''failed_attempts''"] that(2) by (simp add: read_session_def sessions_table_def)
  then show "rows_ok (sessions_table 3 se) \<Longrightarrow>
     map (read_session \<circ> (\<lambda>r. r(''failed_attempts'' := IntCell 0))) se = map read_session se" by simp
qed

lemma operation_reads:
  "map (read_operation \<circ> (\<lambda>r. if r ''operation_type'' = TextCell ''initial_network''
      then r(''operation_type'' := TextCell ''change_network'') else r)) op
   = map (rename_operation_type \<circ> read_operation) op"
proof -
  have "text_of c = ''initial_network'' \<longleftrightarrow> c = TextCell ''initial_network''" for c by (cases c) auto
  then show ?thesis by (simp add: read_operation_def rename_operation_type_def)
qed

definition renamed_if :: "bool \<Rightarrow> sql_db \<Rightarrow> sql_db" where
  "renamed_if b db = (if b then db\<lparr>db_operations := map rename_operation_type (db_operations db)\<rparr> else db)"

text \<open>A step takes a file at one version to the next and keeps what the store reads.\<close>

definition climbs :: "int \<Rightarrow> sql_file \<Rightarrow> bool" where
  "climbs v f \<longleftrightarrow> (\<exists>g st se gr op. exec_script (ladder ! nat (v - 1)) f = (Inr (), g)
     \<and> at_schema (v + 1) None st se gr op g \<and> fl_user_version g = fl_user_version f
     \<and> read_store g = renamed_if (v = 9) (read_store f))"

lemma climbsI:
  assumes "at_schema v runs st se gr op f" and "leads script f (tables_at u None st' se' gr' op')"
    and "u = v + 1 \<and> script = ladder ! nat (v - 1)"
    and "rows_ok (state_table u st')" and "rows_ok (sessions_table u se')"
    and "rows_ok (grants_table u gr')" and "\<forall>r \<in> set gr'. r ''controller_id'' \<noteq> Null"
    and "u < 3 \<longrightarrow> gr' = [] \<and> op' = []"
    and "map_option read_state (find (\<lambda>r. r ''singleton'' = IntCell 1) st') = map_option read_state (find (\<lambda>r. r ''singleton'' = IntCell 1) st)"
    and "map read_session se' = map read_session se" and "map read_grant gr' = map read_grant gr"
    and "map read_operation op' = (if v = 9 then map (rename_operation_type \<circ> read_operation) op else map read_operation op)"
  shows "climbs v f"
proof -
  obtain g where g: "exec_script (ladder ! nat (v - 1)) f = (Inr (), g)" "fl_tables g = tables_at u None st' se' gr' op'"
      "fl_user_version g = fl_user_version f"
    using assms(2,3) by (auto simp: leads_def)
  have "read_store g = renamed_if (v = 9) (read_store f)"
    using read_store_at [OF g(2)] read_store_at [of f v runs st se gr op] assms(1,8-12)
    by (auto simp: at_schema_def renamed_if_def)
  then show ?thesis
    using g assms(3-8) unfolding climbs_def at_schema_def by blast
qed

lemma climb:
  assumes at: "at_schema v runs st se gr op f" and v: "1 \<le> v" "v \<le> 9"
  shows "climbs v f"
proof -
  have tables: "fl_tables f = tables_at v runs st se gr op" and runs: "2 \<le> v \<longrightarrow> runs = None"
    and early: "v < 3 \<longrightarrow> gr = [] \<and> op = []" and rows: "rows_ok (state_table v st)" "rows_ok (sessions_table v se)"
      "rows_ok (grants_table v gr)" "\<forall>r \<in> set gr. r ''controller_id'' \<noteq> Null"
    using at by (auto simp: at_schema_def)
  from v have "v \<in> {1, 2, 3, 4, 5, 6, 7, 8, 9}" by auto
  then consider "v = 1" | "v = 2" | "v = 3" | "v = 4" | "v = 5" | "v = 6" | "v = 7" | "v = 8" | "v = 9" by blast
  then show ?thesis
  proof cases
    case 1
    show ?thesis unfolding 1
      by (rule climbsI [OF at [unfolded 1] leads_v1 [of f runs st se gr op]])
        (use tables early rows 1 in \<open>simp_all add: ladder_def table_defs\<close>)
  next
    case 2
    show ?thesis unfolding 2
      by (rule climbsI [OF at [unfolded 2] leads_v2 [of f st se]])
        (use tables runs early rows 2 sessions_rows(2) session_reads(1) in \<open>simp_all add: ladder_def\<close>,
         simp_all add: table_defs)
  next
    case 3
    show ?thesis unfolding 3
      by (rule climbsI [OF at [unfolded 3] leads_v3 [of f st se gr op]])
        (use tables runs rows 3 sessions_rows(3) session_reads(2) in \<open>simp_all add: ladder_def\<close>,
         simp_all add: table_defs)
  next
    case 4
    show ?thesis unfolding 4
      by (rule climbsI [OF at [unfolded 4] leads_v4 [of f st se gr op]])
        (use tables runs rows 4 state_rows(1) state_reads in \<open>simp_all add: ladder_def\<close>, simp_all add: table_defs)
  next
    case 5
    show ?thesis unfolding 5
      by (rule climbsI [OF at [unfolded 5] leads_v5 [of f st se gr op]])
        (use tables runs rows 5 state_rows(2) state_reads in \<open>simp_all add: ladder_def\<close>, simp_all add: table_defs)
  next
    case 6
    show ?thesis unfolding 6
      by (rule climbsI [OF at [unfolded 6] leads_v6 [of f st se gr op]])
        (use tables runs rows 6 grants_rows in \<open>simp_all add: ladder_def\<close>, simp_all add: state_table_def sessions_table_def)
  next
    case 7
    show ?thesis unfolding 7
      by (rule climbsI [OF at [unfolded 7] leads_v7 [of f st se gr op]])
        (use tables runs rows 7 state_rows(3) state_reads in \<open>simp_all add: ladder_def\<close>, simp_all add: table_defs)
  next
    case 8
    show ?thesis unfolding 8
      by (rule climbsI [OF at [unfolded 8] leads_v8 [of f st se gr op]])
        (use tables runs rows 8 sessions_rows(4) in \<open>simp_all add: ladder_def\<close>, simp_all add: state_table_def grants_table_def)
  next
    case 9
    show ?thesis unfolding 9
      by (rule climbsI [OF at [unfolded 9] leads_v9 [of f st se gr op]])
        (use tables runs rows 9 operation_reads in \<open>simp_all add: ladder_def\<close>, simp_all add: table_defs)
  qed
qed

lemma climb_version:
  assumes "at_version v f" and "1 \<le> v" and "v \<le> 9"
  obtains g where "exec_script (ladder ! nat (v - 1)) f = (Inr (), g)" and "at_version (v + 1) g"
    and "fl_user_version g = fl_user_version f" and "read_store g = renamed_if (v = 9) (read_store f)"
proof -
  obtain runs st se gr op where "at_schema v runs st se gr op f" using assms(1) unfolding at_version_def by blast
  from climb [OF this assms(2,3)] that show thesis unfolding climbs_def by (metis at_versionI)
qed

lemma exec_script_append: "exec_script (a @ b) = bindS (exec_script a) (\<lambda>_. exec_script b)"
  by (induction a) (auto simp: bindS_def ret_def fun_eq_iff split: prod.split sum.split)

lemma ladder_from:
  assumes "1 \<le> v" and "v \<le> 9"
  shows "slice_from (v - 1) ladder = ladder ! nat (v - 1) # slice_from v ladder"
proof -
  have len: "length ladder = 9" by (simp add: ladder_def)
  moreover have "nat v = Suc (nat (v - 1))" using assms(1) by (simp add: nat_diff_distrib)
  moreover have "nat (v - 1) < 9" using assms by simp
  ultimately show ?thesis
    using Cons_nth_drop_Suc [of "nat (v - 1)" ladder] assms by (simp add: slice_from_def)
qed

lemma renamed_twice: "renamed_if a (renamed_if b db) = renamed_if (a \<or> b) db"
  by (auto simp: renamed_if_def rename_operation_type_def)

lemma ladder_climbs:
  assumes "at_version v f" and "1 \<le> v" and "v \<le> 10"
  shows "\<exists>g. exec_script (concat (slice_from (v - 1) ladder)) f = (Inr (), g)
    \<and> at_version 10 g \<and> read_store g = renamed_if (v \<le> 9) (read_store f)"
  using assms
proof (induction "nat (10 - v)" arbitrary: v f)
  case 0
  then have "v = 10" by simp
  moreover have "slice_from 9 ladder = []" by (simp add: slice_from_def ladder_def)
  ultimately show ?case using 0 by (simp add: ret_def renamed_if_def)
next
  case (Suc n)
  then have v: "v \<le> 9" by simp
  obtain g where g: "exec_script (ladder ! nat (v - 1)) f = (Inr (), g)" "at_version (v + 1) g"
      "read_store g = renamed_if (v = 9) (read_store f)"
    by (rule climb_version [OF Suc.prems(1,2) v])
  have "n = nat (10 - (v + 1))" using Suc.hyps(2) by simp
  from Suc.hyps(1) [OF this g(2)] Suc.prems(2) v g(3) obtain h where
    "exec_script (concat (slice_from v ladder)) g = (Inr (), h)" "at_version 10 h"
    "read_store h = renamed_if (v + 1 \<le> 9 \<or> v = 9) (read_store f)" by (auto simp: renamed_twice)
  moreover have "(v + 1 \<le> 9 \<or> v = 9) = True" using v by auto
  ultimately show ?case
    using g(1) v by (auto simp: ladder_from [OF Suc.prems(2) v] exec_script_append bindS_def)
qed

section \<open>Opening a file\<close>

text \<open>
  C25. A file that stands at any version from 1 to 10 is brought to version 10 with the tables of
  version 10, and what the store reads from it afterwards (the authority record, every window, every
  Grant, every operation) is what it held before, save that an operation recorded under the old name
  \<open>initial_network\<close> now carries the name \<open>change_network\<close>. A file at version 10 is not touched at all.
\<close>

theorem upgrade_keeps_authority:
  assumes "at_version v f" and "fl_user_version f = v" and "1 \<le> v" and "v \<le> 10"
  shows "\<exists>g. sq_initialize now f = (Inr (), g) \<and> fl_user_version g = 10 \<and> at_version 10 g
    \<and> read_store g = renamed_if (v \<le> 9) (read_store f) \<and> (v = 10 \<longrightarrow> g = f)"
proof -
  obtain g where g: "exec_script (concat (slice_from (v - 1) ladder)) f = (Inr (), g)"
      "at_version 10 g" "read_store g = renamed_if (v \<le> 9) (read_store f)"
    using ladder_climbs [OF assms(1,3,4)] by blast
  let ?g = "g\<lparr>fl_user_version := 10\<rparr>"
  have "sq_initialize now f = (Inr (), ?g)"
    using assms(2-4) g(1) by (simp add: sq_initialize_def SCHEMA_VERSION_def bindS_def)
  moreover have "at_version 10 ?g" "read_store ?g = read_store g"
    using g(2) by (simp_all add: at_version_def at_schema_def read_store_def rows_of_def)
  moreover have "?g = f" if "v = 10" using g(1) assms(2) that by (simp add: slice_from_def ladder_def ret_def)
  ultimately show ?thesis using g(3) by (intro exI [of _ ?g]) auto
qed

definition sample_file :: sql_file where
  "sample_file = \<lparr>fl_tables = tables_at 1 None
       [(\<lambda>_. Null)(''singleton'' := IntCell 1, ''reset_epoch'' := IntCell 7, ''claim_state'' := TextCell ''claimed'',
         ''network_state'' := TextCell ''connected'', ''workspace_state'' := TextCell ''ready'',
         ''recovery_state'' := TextCell ''normal'', ''updated_at'' := TextCell ''t0'')]
       [(\<lambda>_. Null)(''session_id'' := TextCell ''w1'', ''secret_hash'' := TextCell ''h1'', ''created_at'' := TextCell ''t0'',
         ''expires_at'' := TextCell ''t5'')] [] [],
     fl_indexes = [], fl_user_version = 1\<rparr>"

lemma upgrade_keeps_authority_witness:
  "\<exists>g. sq_initialize ''t1'' sample_file = (Inr (), g) \<and> fl_user_version g = 10
    \<and> read_store g = read_store sample_file \<and> map sr_session_id (db_sessions (read_store sample_file)) = [''w1'']"
proof -
  have "at_schema 1 None (rows_of sample_file ''bootstrap_state'') (rows_of sample_file ''commissioning_sessions'') [] [] sample_file"
    by (simp add: at_schema_def sample_file_def rows_of_def rows_ok_def row_ok_def table_defs)
  then have "at_version 1 sample_file" by (rule at_versionI)
  from upgrade_keeps_authority [OF this, of "''t1''"] obtain g where
    "sq_initialize ''t1'' sample_file = (Inr (), g)" "fl_user_version g = 10" "read_store g = renamed_if True (read_store sample_file)"
    by (auto simp: sample_file_def)
  moreover have "renamed_if True (read_store sample_file) = read_store sample_file"
    "map sr_session_id (db_sessions (read_store sample_file)) = [''w1'']"
    by (simp_all add: renamed_if_def read_store_def sample_file_def rows_of_def read_session_def)
  ultimately show ?thesis by auto
qed

text \<open>
  C26. A database file that does not exist yet is created with exactly the tables, columns, keys and
  checks at which every upgrade arrives, and reads as the store of an unclaimed Host in epoch 0.
\<close>

theorem fresh_file_agrees_with_upgrade:
  shows "\<exists>g. sq_initialize now \<lparr>fl_tables = (\<lambda>_. None), fl_indexes = [], fl_user_version = 0\<rparr> = (Inr (), g)
    \<and> fl_user_version g = 10 \<and> at_version 10 g \<and> read_store g = sq_create_at_current_schema now"
proof -
  let ?r = "(\<lambda>_. Null)(''singleton'' := IntCell 1, ''reset_epoch'' := IntCell 0,
        ''claim_state'' := TextCell (ClaimState_value UNCLAIMED),
        ''network_state'' := TextCell (NetworkState_value UNCONFIGURED), ''updated_at'' := TextCell now)"
  let ?f = "\<lparr>fl_tables = (\<lambda>_. None), fl_indexes = [], fl_user_version = 0\<rparr> :: sql_file"
  have ddl: "state_ddl = CreateTable ''bootstrap_state'' (state_table 10 [])"
    "sessions_ddl = CreateTable ''commissioning_sessions'' (sessions_table 10 [])"
    "operations_ddl = CreateTable ''bootstrap_operations'' (operations_table [])"
    "CONTROLLER_GRANTS_DDL = CreateTable ''controller_grants'' (grants_table 10 [])"
    by (simp_all add: state_ddl_def sessions_ddl_def operations_ddl_def CONTROLLER_GRANTS_DDL_def table_defs sessions_columns_def)
  have insert: "insert_row ?r (state_table 10 []) = (Inr (), state_table 10 [?r])"
    by (simp add: insert_row_def row_ok_def state_table_def)
  have "leads (create_at_current_schema now) ?f (tables_at 10 None [?r] [] [] [])"
    by (simp add: leads_def create_at_current_schema_def ddl insert [simplified] run_simps)
      (rule tables_at_eqI; simp)
  then obtain g where g: "exec_script (create_at_current_schema now) ?f = (Inr (), g)"
      "fl_tables g = tables_at 10 None [?r] [] [] []" by (auto simp: leads_def)
  let ?g = "g\<lparr>fl_user_version := 10\<rparr>"
  have "sq_initialize now ?f = (Inr (), ?g)" using g(1) by (simp add: sq_initialize_def SCHEMA_VERSION_def bindS_def)
  moreover from g(2) have "at_schema 10 None [?r] [] [] [] ?g"
    by (simp add: at_schema_def rows_ok_def row_ok_def table_defs)
  then have "at_version 10 ?g" by (rule at_versionI)
  moreover have "read_store ?g = sq_create_at_current_schema now"
    using g(2) by (simp add: read_store_def rows_of_def read_state_def sq_create_at_current_schema_def)
  ultimately show ?thesis by (intro exI [of _ ?g]) simp
qed

text \<open>
  An upgrade that was cut short. The statements commit one by one and the version is stamped only
  after the last, so the next start runs the first migration again, on the tables it has already made.
\<close>

lemma again_v6:
  assumes "fl_tables f = tables_at 7 None st se gr op" and "rows_ok (grants_table 7 gr)"
  shows "leads migrate_v6_to_v7 f (tables_at 7 None st se gr op)"
proof -
  have run: "map (project grants_columns) gr = gr" using project_rows [OF assms(2)] by (simp add: grants_table_def)
  have ins: "insert_rows gr (grants_table 7 []) = (Inr (), grants_table 7 gr)"
    using insert_rows_ok [of "grants_table 7 []" gr] assms(2) by (simp add: grants_table_def)
  have ddl: "CONTROLLER_GRANTS_DDL = CreateTable ''controller_grants'' (grants_table 7 [])"
    by (simp add: CONTROLLER_GRANTS_DDL_def grants_table_def)
  have cols: "tb_columns (grants_table 7 gr) = grants_columns" by (simp add: grants_table_def)
  show ?thesis
    by (simp add: leads_def migrate_v6_to_v7_def run_simps run ins ddl cols assms(1)) (rule tables_at_eqI; simp; simp add: tables_at_def)
qed

lemma again_v8:
  assumes "fl_tables f = tables_at 9 None st se gr op" and "rows_ok (sessions_table 9 se)"
  shows "leads migrate_v8_to_v9 f (tables_at 9 None st se gr op)"
proof -
  have run: "map (project sessions_columns) se = se"
    using project_rows [OF assms(2)] by (simp add: sessions_table_def sessions_columns_def)
  have ins: "insert_rows se (sessions_table 9 []) = (Inr (), sessions_table 9 se)"
    using insert_rows_ok [of "sessions_table 9 []" se] assms(2) by (simp add: sessions_table_def)
  have ddl: "sessions_ddl = CreateTable ''commissioning_sessions'' (sessions_table 9 [])"
    by (simp add: sessions_ddl_def sessions_table_def sessions_columns_def)
  have cols: "tb_columns (sessions_table 9 se) = sessions_columns" by (simp add: sessions_table_def sessions_columns_def)
  show ?thesis
    by (simp add: leads_def migrate_v8_to_v9_def run_simps run ins ddl cols assms(1)) (rule tables_at_eqI; simp; simp add: tables_at_def)
qed

lemma read_store_tables: "fl_tables f = fl_tables g \<Longrightarrow> read_store f = read_store g"
  by (simp add: read_store_def rows_of_def)

text \<open>Four of the migrations may run a second time.\<close>

lemma runs_again:
  assumes at: "at_version (v + 1) g" and v: "v \<in> {1, 6, 8, 9}"
  shows "\<exists>h. exec_script (ladder ! nat (v - 1)) g = (Inr (), h) \<and> at_version (v + 1) h
    \<and> read_store h = renamed_if (v = 9) (read_store g)"
proof -
  obtain runs st se gr op where sch: "at_schema (v + 1) runs st se gr op g" using at by (auto simp: at_version_def)
  then have tables: "fl_tables g = tables_at (v + 1) None st se gr op" and rows: "rows_ok (grants_table (v + 1) gr)" "rows_ok (sessions_table (v + 1) se)"
    and at': "at_schema (v + 1) None st se gr op g"
    using v by (auto simp: at_schema_def)
  have same: "\<exists>h. exec_script (ladder ! nat (v - 1)) g = (Inr (), h) \<and> at_version (v + 1) h \<and> read_store h = read_store g"
    if "leads (ladder ! nat (v - 1)) g (tables_at (v + 1) None st se gr op)"
  proof -
    from that obtain h where h: "exec_script (ladder ! nat (v - 1)) g = (Inr (), h)" "fl_tables h = fl_tables g"
      unfolding leads_def tables by blast
    with at' have "at_schema (v + 1) None st se gr op h" by (simp add: at_schema_def)
    with h read_store_tables [OF h(2)] show ?thesis by (blast intro: at_versionI)
  qed
  from v consider "v = 1 \<or> v = 9" | "v = 6" | "v = 8" by blast
  then show ?thesis
  proof cases
    case 1
    then have same: "state_table (v + 1) st = state_table v st" "sessions_table (v + 1) se = sessions_table v se"
        "grants_table (v + 1) gr = grants_table v gr" "3 \<le> v + 1 \<longleftrightarrow> 3 \<le> v"
      by (elim disjE; simp add: table_defs)+
    then have "tables_at (v + 1) None st se gr op = tables_at v None st se gr op" unfolding tables_at_def by (simp only:)
    with at' 1 same have "at_schema v None st se gr op g" unfolding at_schema_def by (elim disjE; simp)
    then have "at_version v g" by (rule at_versionI)
    moreover have "1 \<le> v" "v \<le> 9" using v by auto
    ultimately obtain h where "exec_script (ladder ! nat (v - 1)) g = (Inr (), h)" "at_version (v + 1) h"
        "read_store h = renamed_if (v = 9) (read_store g)" by (rule climb_version)
    then show ?thesis by blast
  next
    case 2
    with again_v6 [of g st se gr op] tables rows(1) have "leads (ladder ! nat (v - 1)) g (tables_at (v + 1) None st se gr op)"
      by (simp add: ladder_def)
    from same [OF this] 2 show ?thesis by (simp add: renamed_if_def)
  next
    case 3
    with again_v8 [of g st se gr op] tables rows(2) have "leads (ladder ! nat (v - 1)) g (tables_at (v + 1) None st se gr op)"
      by (simp add: ladder_def)
    from same [OF this] 3 show ?thesis by (simp add: renamed_if_def)
  qed
qed

lemma interrupted_upgrade_resumes:
  assumes at: "at_version v f" and version: "fl_user_version f = v" and v: "v \<in> {1, 6, 8, 9}"
    and run: "exec_script (ladder ! nat (v - 1)) f = (Inr (), g)"
  shows "\<exists>h. sq_initialize now g = (Inr (), h) \<and> fl_user_version h = 10 \<and> at_version 10 h \<and> read_store h = renamed_if True (read_store f)"
proof -
  have bounds: "1 \<le> v" "v \<le> 9" using v by auto
  obtain g' where "exec_script (ladder ! nat (v - 1)) f = (Inr (), g')" "at_version (v + 1) g'"
      "fl_user_version g' = fl_user_version f" "read_store g' = renamed_if (v = 9) (read_store f)"
    by (rule climb_version [OF at bounds])
  with run version have g: "at_version (v + 1) g" "fl_user_version g = v" "read_store g = renamed_if (v = 9) (read_store f)" by simp_all
  obtain h where h: "exec_script (ladder ! nat (v - 1)) g = (Inr (), h)" "at_version (v + 1) h"
      "read_store h = renamed_if (v = 9) (read_store g)"
    using runs_again [OF g(1) v] by blast
  obtain k where k: "exec_script (concat (slice_from v ladder)) h = (Inr (), k)" "at_version 10 k"
      "read_store k = renamed_if (v + 1 \<le> 9) (read_store h)"
    using ladder_climbs [OF h(2)] bounds by auto
  let ?k = "k\<lparr>fl_user_version := 10\<rparr>"
  have "exec_script (concat (slice_from (v - 1) ladder)) g = (Inr (), k)"
    using h(1) k(1) by (simp add: ladder_from [OF bounds] exec_script_append bindS_def)
  then have "sq_initialize now g = (Inr (), ?k)" using g(2) bounds by (simp add: sq_initialize_def SCHEMA_VERSION_def bindS_def)
  moreover have "at_version 10 ?k" "read_store ?k = read_store k"
    using k(2) by (simp_all add: at_version_def at_schema_def read_store_def rows_of_def)
  moreover have "read_store k = renamed_if True (read_store f)"
  proof -
    have "(v + 1 \<le> 9 \<or> v = 9 \<or> v = 9) = True" using bounds by auto
    then show ?thesis by (simp only: k(3) h(3) g(3) renamed_twice)
  qed
  ultimately show ?thesis by (intro exI [of _ ?k]) simp
qed

lemma interrupted_upgrade_refused:
  assumes "at_version v f" and "fl_user_version f = v" and "v \<in> {2, 3, 4, 5, 7}"
    and "exec_script (ladder ! nat (v - 1)) f = (Inr (), g)"
  shows "\<exists>message. sq_initialize now g = (Inl (Operational message), g)"
proof -
  obtain runs st se gr op where at: "at_schema v runs st se gr op f" using assms(1) by (auto simp: at_version_def)
  have tables: "fl_tables f = tables_at v None st se gr op" and early: "v < 3 \<longrightarrow> gr = [] \<and> op = []"
    using at assms(3) by (auto simp: at_schema_def)
  have "1 \<le> v" "v \<le> 9" using assms(3) by auto
  from climb_version [OF assms(1) this] assms(2,4) have version: "fl_user_version g = v" by fastforce
  from assms(3) consider "v = 2" | "v = 3" | "v = 4" | "v = 5" | "v = 7" by blast
  then show ?thesis
  proof cases
    case 1
    from leads_v2 [of f st se] tables early 1 assms(4) have "fl_tables g ''commissioning_sessions''
        = Some (sessions_table 3 (map (\<lambda>r. r(''claimed_controller_id'' := Null)) se))" by (auto simp: leads_def ladder_def)
    then show ?thesis using version 1
      by (simp add: sq_initialize_def SCHEMA_VERSION_def slice_from_def ladder_def migrate_v2_to_v3_def run_simps sessions_table_def)
  next
    case 2
    from leads_v3 [of f st se gr op] tables 2 assms(4) have "fl_tables g ''commissioning_sessions''
        = Some (sessions_table 4 (map (\<lambda>r. r(''failed_attempts'' := IntCell 0)) se))" by (auto simp: leads_def ladder_def)
    then show ?thesis using version 2
      by (simp add: sq_initialize_def SCHEMA_VERSION_def slice_from_def ladder_def migrate_v3_to_v4_def run_simps sessions_table_def)
  next
    case 3
    from leads_v4 [of f st se gr op] tables 3 assms(4) have "fl_tables g ''bootstrap_state''
        = Some (state_table 5 (map (\<lambda>r. r(''owner_id'' := Null)) st))" by (auto simp: leads_def ladder_def)
    then show ?thesis using version 3
      by (simp add: sq_initialize_def SCHEMA_VERSION_def slice_from_def ladder_def migrate_v4_to_v5_def run_simps state_table_def)
  next
    case 4
    from leads_v5 [of f st se gr op] tables 4 assms(4) have "fl_tables g ''bootstrap_state''
        = Some (state_table 6 (map (\<lambda>r. r(''recovery_state'' := Null)) st))" by (auto simp: leads_def ladder_def)
    then show ?thesis using version 4
      by (simp add: sq_initialize_def SCHEMA_VERSION_def slice_from_def ladder_def migrate_v5_to_v6_def run_simps state_table_def)
  next
    case 5
    from leads_v7 [of f st se gr op] tables 5 assms(4) have "fl_tables g ''bootstrap_state''
        = Some (state_table 8 (map (\<lambda>r. r(''owner_id'' := Null, ''workspace_state'' := Null)) st))" by (auto simp: leads_def ladder_def)
    then show ?thesis using version 5
      by (simp add: sq_initialize_def SCHEMA_VERSION_def slice_from_def ladder_def migrate_v7_to_v8_def run_simps state_table_def)
  qed
qed

text \<open>
  C27. An upgrade that stops right after its first migration. When it started at version 2, 3, 4, 5 or
  7 it leaves a file that no later start can open: it is refused with an error of the database,
  unchanged, every time. When it started at version 1, 6, 8 or 9 the next start brings the file to
  version 10 and what the store reads is what an undisturbed upgrade would have left.
\<close>

theorem interrupted_upgrade_stuck:
  assumes "at_version v f" and "fl_user_version f = v" and "1 \<le> v" and "v \<le> 9"
    and "exec_script (ladder ! nat (v - 1)) f = (Inr (), g)"
  shows "if v \<in> {2, 3, 4, 5, 7} then \<exists>message. sq_initialize now g = (Inl (Operational message), g)
    else \<exists>h. sq_initialize now g = (Inr (), h) \<and> fl_user_version h = 10 \<and> at_version 10 h
      \<and> read_store h = renamed_if True (read_store f)"
proof (cases "v \<in> {2, 3, 4, 5, 7}")
  case True
  with interrupted_upgrade_refused [OF assms(1,2) True assms(5)] show ?thesis by simp
next
  case False
  with assms(3,4) have "v \<in> {1, 6, 8, 9}" by auto
  from interrupted_upgrade_resumes [OF assms(1,2) this assms(5)] False show ?thesis by simp
qed

lemma interrupted_upgrade_stuck_witness:
  "\<exists>g message. exec_script (ladder ! 1) (sample_file\<lparr>fl_tables := tables_at 2 None [] [] [] [], fl_user_version := 2\<rparr>) = (Inr (), g)
    \<and> sq_initialize ''t1'' g = (Inl (Operational message), g)"
proof -
  let ?f = "sample_file\<lparr>fl_tables := tables_at 2 None [] [] [] [], fl_user_version := 2\<rparr>"
  have "at_schema 2 None [] [] [] [] ?f" by (simp add: at_schema_def rows_ok_def table_defs)
  then have at: "at_version 2 ?f" by (rule at_versionI)
  have "leads (ladder ! 1) ?f (tables_at 3 None [] [] [] [])"
    using leads_v2 [of ?f "[]" "[]"] by (simp add: ladder_def)
  then obtain g where g: "exec_script (ladder ! 1) ?f = (Inr (), g)" by (auto simp: leads_def)
  from interrupted_upgrade_stuck [OF at, of g "''t1''"] g show ?thesis by auto
qed

end
