(* ===== verification/Wire_Contracts.thy ===== *)
theory Wire_Contracts
  imports Host_Service
begin

text \<open>
  What crosses the wire: canonical encodings of keys, proofs and ids, Setup codes, the list of Wi-Fi
  networks a phone is shown, and the shape of every response on a commissioning link.
\<close>

section \<open>Keys, challenges and ids\<close>

text \<open>
  C28. Decoding accepts a text exactly when it is the unpadded base64url encoding of some non-empty
  bytes, and returns those bytes: every key and signature has one spelling, and encoding then
  decoding gives back what was encoded.
\<close>

theorem base64url_one_spelling:
  "decode_base64url j = Inr bs \<longleftrightarrow> bs \<noteq> [] \<and> is_bytes bs \<and> j = JStr (b64encode bs)"
  by (rule decode_base64url_iff)

text \<open>
  An operation id is accepted exactly when it is the canonical text of a 128-bit UUID, and is
  kept as it was sent.
\<close>

theorem operation_ids_canonical:
  "operation_id_of j = Inr s \<longleftrightarrow> (\<exists>n. n < 2 ^ 128 \<and> s = uuid_str n \<and> j = JStr s)"
  using canonical_uuid_iff [of j s]
  by (auto simp: operation_id_of_def split: sum.splits uuid_error.splits)

text \<open>
  The Host proves itself for a challenge exactly when the general decoder of keys and signatures
  would accept that challenge and find 32 bytes in it, although the proof checks the text in its own
  way; and the proof is the Host's signature over the challenge it was given.
\<close>

theorem host_proof_accepts:
  "prove_host H j = Inr reply \<longleftrightarrow>
     (\<exists>bs. decode_base64url j = Inr bs \<and> length bs = 32
       \<and> (let unsigned = [(''contract_version'', JStr ''1''), (''purpose'', JStr HOST_PROOF_PURPOSE),
            (''host_id'', JStr (hi_host_id (h_identity H))), (''challenge'', j)]
          in reply = unsigned @ [(''signature'', JStr (sign_mapping H unsigned))]))"
proof (cases j)
  case (JStr s)
  have padding: "b64_padding s = ''=''" if "length s = 43" using that by (simp add: b64_padding_def)
  have "length b64_alphabet = 64" by (simp add: b64_alphabet_def)
  then have letter: "v < 64 \<Longrightarrow> b64_char v \<in> set b64_alphabet" for v by (simp add: b64_char_def)
  have canonical: "is_proof_challenge s" if "is_bytes bs" "length bs = 32" "s = b64encode bs" for bs
    using that b64encode_all [of "\<lambda>c. c \<in> set b64_alphabet" bs, OF letter] by (simp add: is_proof_challenge_def length_b64encode)
  have decode: "decode_base64url j = Inr bs \<longleftrightarrow> urlsafe_b64decode (s @ ''='') = Some bs \<and> b64encode bs = s"
    if "is_proof_challenge s" for bs
    using that JStr padding by (auto simp: decode_base64url_def is_proof_challenge_def split: option.splits)
  show ?thesis
  proof (cases "is_proof_challenge s")
    case True
    then show ?thesis using JStr decode
      by (auto simp: prove_host_def Let_def split: option.splits)
  next
    case False
    then show ?thesis using JStr canonical decode_base64url_iff [of j] by (auto simp: prove_host_def)
  qed
qed (simp_all add: prove_host_def decode_base64url_iff)

section \<open>Setup codes\<close>

lemma digits_determine:
  fixes m n :: nat
  assumes "\<And>i. i < k \<Longrightarrow> n div 10 ^ i mod 10 = m div 10 ^ i mod 10"
  shows "n mod 10 ^ k = m mod 10 ^ k"
  using assms
proof (induction k)
  case (Suc k)
  have "x mod 10 ^ Suc k = 10 ^ k * (x div 10 ^ k mod 10) + x mod 10 ^ k" for x :: nat
    using mod_mult2_eq [of x "10 ^ k" 10] by (simp add: mult.commute)
  with Suc show ?case by simp
qed simp

lemma digit_char_inj: "digit_char a = digit_char b \<Longrightarrow> a mod 10 = b mod 10"
  by (simp add: digit_char_def nth_eq_iff_index_eq)

lemma format_setup_code_inj: "inj_on format_setup_code {n. n < 10 ^ 8}"
proof (rule inj_onI)
  fix m n :: nat
  assume small: "m \<in> {n. n < 10 ^ 8}" "n \<in> {n. n < 10 ^ 8}" and eq: "format_setup_code m = format_setup_code n"
  have "m div 10 ^ i mod 10 = n div 10 ^ i mod 10" if "i < 8" for i
  proof -
    have "format_setup_code m ! (7 - i) = format_setup_code n ! (7 - i)" using eq by simp
    moreover have "[0..<8] ! (7 - i) = 7 - i" using that by (subst nth_upt) auto
    moreover have "7 - (7 - i) = i" using that by linarith
    ultimately have "digit_char (m div 10 ^ i) = digit_char (n div 10 ^ i)"
      using that by (simp add: format_setup_code_def SETUP_CODE_DIGITS_def)
    then show ?thesis by (rule digit_char_inj)
  qed
  from digits_determine [of 8, OF this] small show "m = n" by simp
qed

text \<open>The twelve codes that are refused.\<close>

definition refused_codes :: "string set" where
  "refused_codes = (\<lambda>c. replicate 8 c) ` set ''0123456789'' \<union> {ascending_run, rev ascending_run}"

lemma refused_codes_card: "finite refused_codes" "card refused_codes \<le> 12"
proof -
  show "finite refused_codes" by (simp add: refused_codes_def)
  have "card refused_codes \<le> card ((\<lambda>c. replicate 8 c) ` set ''0123456789'') + card {ascending_run, rev ascending_run}"
    unfolding refused_codes_def by (rule card_Un_le)
  also have "\<dots> \<le> 10 + 2"
    by (intro add_mono card_image_le [THEN order_trans]) (simp_all add: card_insert_if)
  finally show "card refused_codes \<le> 12" by simp
qed

lemma refused_format:
  assumes "\<not> is_usable_setup_code (format_setup_code n)"
  shows "format_setup_code n \<in> refused_codes"
proof -
  let ?c = "format_setup_code n"
  have shape: "length ?c = 8" "list_all is_ascii_digit ?c" using format_setup_code_shape by blast+
  then consider "card (set ?c) = 1" | "?c \<in> {ascending_run, rev ascending_run}"
    using assms by (auto simp: is_usable_setup_code_def split: if_splits)
  then show ?thesis
  proof cases
    case 1
    then obtain d where d: "set ?c = {d}" by (auto simp: card_1_singleton_iff)
    then have "?c = replicate 8 d" using shape(1) by (intro replicate_eqI) auto
    moreover have "d \<in> set ''0123456789''" using d shape(2) by (simp add: list_all_iff is_ascii_digit_def)
    ultimately show ?thesis unfolding refused_codes_def by blast
  qed (auto simp: refused_codes_def)
qed

text \<open>
  C31. Drawing a Setup code ends: only twelve codes are refused, so among any thirteen different
  draws one is taken, and the code taken is usable.
\<close>

theorem setup_code_drawn:
  assumes "distinct (map rng [0..<13])" and "\<And>k. rng k < 10 ^ 8"
  shows "\<exists>code. generate_setup_code 13 rng 0 = Some code \<and> is_usable_setup_code code"
proof -
  have "\<exists>k < 13. is_usable_setup_code (format_setup_code (rng k))"
  proof (rule ccontr)
    assume "\<not> ?thesis"
    then have "(format_setup_code \<circ> rng) ` {0..<13} \<subseteq> refused_codes" using refused_format by auto
    from card_mono [OF refused_codes_card(1) this] have few: "card ((format_setup_code \<circ> rng) ` {0..<13}) \<le> 12"
      using refused_codes_card(2) by linarith
    have "inj_on rng {0..<13}" using assms(1) by (simp only: distinct_map) simp
    moreover have "inj_on format_setup_code (rng ` {0..<13})"
      by (rule inj_on_subset [OF format_setup_code_inj]) (use assms(2) in auto)
    ultimately have "inj_on (format_setup_code \<circ> rng) {0..<13}" by (rule comp_inj_on)
    from card_image [OF this] have "card ((format_setup_code \<circ> rng) ` {0..<13}) = 13" by simp
    with few show False by simp
  qed
  then obtain k where k: "k < 13" "is_usable_setup_code (format_setup_code (rng k mod 10 ^ SETUP_CODE_DIGITS))"
    using assms(2) by (auto simp: SETUP_CODE_DIGITS_def)
  then obtain code where code: "generate_setup_code 13 rng 0 = Some code"
    using generate_setup_code_enough [of 0 k 13 rng] by auto
  with generate_setup_code_usable [OF code] show ?thesis by blast
qed

lemma setup_code_drawn_witness:
  "\<exists>code. generate_setup_code 13 (\<lambda>k. if k < 13 then k * 11111111 mod 10 ^ 8 else 0) 0 = Some code \<and> is_usable_setup_code code"
  by (rule setup_code_drawn) (simp_all add: upt_rec)

section \<open>The networks a phone is shown\<close>

text \<open>\<open>acc\<close> holds, for each SSID seen in \<open>A\<close>, an access point of \<open>A\<close> with the strongest signal.\<close>

definition strongest_in :: "WifiAccessPoint set \<Rightarrow> WifiAccessPoint \<Rightarrow> bool" where
  "strongest_in A x \<longleftrightarrow> x \<in> A \<and> (\<forall>y \<in> A. ap_ssid y = ap_ssid x \<longrightarrow> ap_signal y \<le> ap_signal x)"

definition best_of :: "WifiAccessPoint set \<Rightarrow> (string \<times> WifiAccessPoint) list \<Rightarrow> bool" where
  "best_of A acc \<longleftrightarrow> distinct (map fst acc) \<and> dom (map_of acc) = ap_ssid ` A
     \<and> (\<forall>s x. map_of acc s = Some x \<longrightarrow> ap_ssid x = s \<and> strongest_in A x)"

lemma best_of_upd:
  assumes "best_of A acc" and "ap_ssid a \<notin> ap_ssid ` A \<or> (\<forall>x. map_of acc (ap_ssid a) = Some x \<longrightarrow> ap_signal x \<le> ap_signal a)"
  shows "best_of (insert a A) (dict_set (ap_ssid a) a acc)"
proof -
  have top: "ap_signal y \<le> ap_signal a" if "y \<in> A" "ap_ssid y = ap_ssid a" for y
  proof -
    have seen: "ap_ssid a \<in> ap_ssid ` A" using that by (metis imageI)
    moreover have "dom (map_of acc) = ap_ssid ` A" using assms(1) unfolding best_of_def by blast
    ultimately obtain x where x: "map_of acc (ap_ssid a) = Some x" by (metis domD)
    then have "ap_ssid x = ap_ssid a \<and> strongest_in A x" using assms(1) unfolding best_of_def by blast
    then have "ap_signal y \<le> ap_signal x" using that unfolding strongest_in_def by metis
    moreover have "ap_signal x \<le> ap_signal a" using assms(2) x seen by blast
    ultimately show ?thesis by simp
  qed
  then have "strongest_in (insert a A) a" by (auto simp: strongest_in_def)
  moreover have "strongest_in (insert a A) x" if "strongest_in A x" "ap_ssid x \<noteq> ap_ssid a" for x
    using that by (auto simp: strongest_in_def)
  ultimately have "ap_ssid x = s \<and> strongest_in (insert a A) x" if "map_of (dict_set (ap_ssid a) a acc) s = Some x" for s x
    using assms(1) that by (auto simp only: best_of_def map_of_dict_set fun_upd_apply option.inject split: if_splits)
  moreover have "distinct (map fst (dict_set (ap_ssid a) a acc))" using assms(1) by (simp add: best_of_def distinct_update)
  moreover have "dom (map_of (dict_set (ap_ssid a) a acc)) = ap_ssid ` insert a A"
    using assms(1) by (simp add: best_of_def)
  ultimately show ?thesis unfolding best_of_def by blast
qed

lemma best_of_keep:
  assumes "best_of A acc" and "map_of acc (ap_ssid a) = Some x" and "ap_signal a \<le> ap_signal x"
  shows "best_of (insert a A) acc"
proof -
  have "strongest_in (insert a A) y" if "map_of acc s = Some y" for s y
  proof (cases "ap_ssid a = s")
    case True
    with assms(2) that have "y = x" by simp
    with assms that show ?thesis by (simp add: best_of_def strongest_in_def)
  qed (use assms(1) that in \<open>auto simp: best_of_def strongest_in_def\<close>)
  moreover have "ap_ssid a \<in> ap_ssid ` A" using assms(1,2) by (auto simp: best_of_def)
  ultimately show ?thesis using assms(1) by (simp add: best_of_def insert_absorb)
qed

lemma best_of_step: "best_of A acc \<Longrightarrow> best_of (insert a A) (add_access_point acc a)"
proof (cases "map_of acc (ap_ssid a)")
  case None
  assume best: "best_of A acc"
  then have "ap_ssid a \<notin> ap_ssid ` A" using None by (force simp: best_of_def)
  then show ?thesis using best_of_upd [OF best, of a] None by (simp add: add_access_point_def)
next
  case (Some x)
  assume "best_of A acc"
  then show ?thesis
    using Some best_of_upd [of A acc a] best_of_keep [of A acc a x] by (auto simp: add_access_point_def)
qed

lemma best_of_foldl: "best_of A acc \<Longrightarrow> best_of (A \<union> set xs) (foldl add_access_point acc xs)"
proof (induction xs arbitrary: A acc)
  case (Cons a xs)
  from Cons.IH [OF best_of_step [OF Cons.prems]] show ?case by simp
qed simp

text \<open>
  The networks a scan reports are shown one per SSID, each by an access point with the strongest
  signal among those seen under that SSID, none left out and none made up, in order of falling signal.
\<close>

theorem networks_shown_once:
  "distinct (map ap_ssid (best_access_points aps))
   \<and> ap_ssid ` set (best_access_points aps) = ap_ssid ` set aps
   \<and> list_all (strongest_in (set aps)) (best_access_points aps)
   \<and> sorted (map (\<lambda>x. - ap_signal x) (best_access_points aps))"
proof -
  let ?acc = "foldl add_access_point [] aps"
  have best: "best_of (set aps) ?acc" using best_of_foldl [of "{}" "[]" aps] by (simp add: best_of_def)
  then have dist: "distinct (map fst ?acc)" by (simp add: best_of_def)
  have item: "ap_ssid x = s \<and> strongest_in (set aps) x" if "(s, x) \<in> set ?acc" for s x
    using best that dist by (auto simp: best_of_def dest: map_of_is_SomeI)
  then have keys: "map ap_ssid (map snd ?acc) = map fst ?acc" by auto
  have "ap_ssid ` set (map snd ?acc) = fst ` set ?acc" using keys by (metis list.set_map)
  also have "\<dots> = ap_ssid ` set aps" using best by (simp add: best_of_def dom_map_of_conv_image_fst)
  finally have "ap_ssid ` set (best_access_points aps) = ap_ssid ` set aps" by (simp add: best_access_points_def)
  moreover have "distinct (map ap_ssid (best_access_points aps))"
  proof -
    have "mset (map ap_ssid (best_access_points aps)) = mset (map ap_ssid (map snd ?acc))"
      by (simp add: best_access_points_def image_mset.compositionality)
    then have "mset (map ap_ssid (best_access_points aps)) = mset (map fst ?acc)" by (simp only: keys)
    from mset_eq_imp_distinct_iff [OF this] dist show ?thesis by simp
  qed
  moreover have "list_all (strongest_in (set aps)) (best_access_points aps)"
    using item by (auto simp: best_access_points_def list_all_iff)
  moreover have "sorted (map (\<lambda>x. - ap_signal x) (best_access_points aps))"
  proof -
    have "sorted (map (\<lambda>x. (- ap_signal x, ap_ssid x)) (best_access_points aps))"
      unfolding best_access_points_def by (rule sorted_sort_key)
    then show ?thesis unfolding sorted_map by (rule sorted_wrt_mono_rel [rotated]) auto
  qed
  ultimately show ?thesis by blast
qed

section \<open>Responses on a link\<close>

text \<open>
  The shape of a response: the contract, the id of the request, whether it succeeded, and either a
  result or an error with a code, a message and whether trying again may help.
\<close>

definition response_ok :: "jobject \<Rightarrow> jobject \<Rightarrow> bool" where
  "response_ok request response \<longleftrightarrow>
     (\<exists>result. response = [(''contract_version'', JStr ''1''), (''request_id'', jget ''request_id'' request),
        (''ok'', JBool True), (''result'', JObj result)]
        \<and> (\<exists>n. n < 2 ^ 128 \<and> jget ''request_id'' request = JStr (uuid_str n)) \<and> jget ''contract_version'' request = JStr ''1'')
   \<or> (\<exists>request_id code message retryable. response = [(''contract_version'', JStr ''1''), (''request_id'', request_id),
        (''ok'', JBool False),
        (''error'', JObj [(''code'', JStr code), (''message'', JStr message), (''retryable'', JBool retryable)])]
        \<and> (request_id = jget ''request_id'' request \<and> is_jstr request_id \<or> request_id = JNull)
        \<and> (retryable \<longleftrightarrow> code \<in> set retryable_codes))"

text \<open>
  C33. Every request on a link is answered, whatever it holds and whatever fails while it is handled,
  and the answer has the shape of a response: a success only for a request under a canonical id and
  the supported contract, an error with a code that alone decides whether it may be tried again.
\<close>

theorem every_request_answered: "response_ok request (fst (pr_handle P N E on_claimed request l))"
proof -
  obtain r l1 where run: "pr_request P N E on_claimed request l = (r, l1)" by (cases "pr_request P N E on_claimed request l")
  have failed: "response_ok request (error_response (jget ''request_id'' request) code message (code \<in> set retryable_codes))"
    for code message
    by (auto simp: response_ok_def error_response_def)
  have "response_ok request (error_response (jget ''request_id'' request) ''internal_error'' message True)" for message
    using failed [of "''internal_error''" message] by (simp add: retryable_codes_def)
  note failed = failed this
  show ?thesis
  proof (cases r)
    case (Inr result)
    with run have "validate_request_id (jget ''request_id'' request) = Inr ()" "jget ''contract_version'' request = JStr ''1''"
      by (auto simp: pr_request_def of_result_def raise_def split: if_splits)
    moreover from this(1) obtain s where "canonical_uuid (jget ''request_id'' request) = Inr s"
      by (auto simp: validate_request_id_def split: sum.splits uuid_error.splits)
    ultimately show ?thesis
      using run Inr canonical_uuid_iff by (auto simp: pr_handle_def response_ok_def)
  next
    case (Inl e)
    with run failed show ?thesis by (cases e) (simp_all add: pr_handle_def)
  qed
qed

end
