(* ===== verification/Ledger.thy ===== *)
theory Ledger
  imports Json_Text
begin

text \<open>
  The ground the control plane's journals stand on: the shared SDK and the standard library as
  parameters, what a journal may raise, and the contract of a journal of intents. An intent is
  recorded before a remote authority is asked, under an id that the request determines, so that a
  request that is repeated after a crash or a lost reply resumes where it was.
\<close>

section \<open>Outside code\<close>

text \<open>
  The device reference \<open>'ref\<close> and the result of a revocation \<open>'res\<close> are models of the SDK; the code
  reads the fields named here, compares them, and stores them as JSON. Instants are microseconds;
  \<open>dt_text\<close> and \<open>dt_parse\<close> are their ISO texts. \<open>sha256_hex\<close> and \<open>uuid5_hex\<close> are the digests.
\<close>

record ('ref, 'res) sdk =
  ref_owner_domain_id :: "'ref \<Rightarrow> string"
  ref_device_instance_id :: "'ref \<Rightarrow> string"
  ref_owner_domain_generation :: "'ref \<Rightarrow> int"
  ref_claim_generation :: "'ref \<Rightarrow> int"
  ref_trust_epoch :: "'ref \<Rightarrow> int"
  ref_dump_json :: "'ref \<Rightarrow> string"
  ref_load_json :: "string \<Rightarrow> 'ref option"
  res_event_id :: "'res \<Rightarrow> string option"
  res_command_id :: "'res \<Rightarrow> string"
  res_outcome :: "'res \<Rightarrow> string"
  res_dump_json :: "'res \<Rightarrow> string"
  res_load_json :: "string \<Rightarrow> 'res option"
  dt_text :: "int \<Rightarrow> string"
  dt_parse :: "string \<Rightarrow> int option"
  sha256_hex :: "string \<Rightarrow> string"
  uuid5_hex :: "string \<Rightarrow> string \<Rightarrow> string"

text \<open>
  What the journals rely on: a model or an instant that was written is read back as itself, the
  digest that names intents does not collide, and it is written in hexadecimal.
\<close>

definition sdk_ok :: "('ref, 'res) sdk \<Rightarrow> bool" where
  "sdk_ok S \<longleftrightarrow> (\<forall>r. ref_load_json S (ref_dump_json S r) = Some r) \<and> (\<forall>r. res_load_json S (res_dump_json S r) = Some r)
     \<and> (\<forall>t. dt_parse S (dt_text S t) = Some t)
     \<and> (\<forall>ns a b. uuid5_hex S ns a = uuid5_hex S ns b \<longrightarrow> a = b)
     \<and> (\<forall>ns a. set (uuid5_hex S ns a) \<subseteq> set ''0123456789abcdef'')"

lemma sdk_okD:
  assumes "sdk_ok S"
  shows "ref_load_json S (ref_dump_json S r) = Some r" and "res_load_json S (res_dump_json S x) = Some x"
    and "dt_parse S (dt_text S t) = Some t" and "uuid5_hex S ns a = uuid5_hex S ns b \<longleftrightarrow> a = b"
    and "CHR '':'' \<notin> set (uuid5_hex S ns a)"
proof -
  show "ref_load_json S (ref_dump_json S r) = Some r" "res_load_json S (res_dump_json S x) = Some x"
    "dt_parse S (dt_text S t) = Some t" "uuid5_hex S ns a = uuid5_hex S ns b \<longleftrightarrow> a = b"
    using assms unfolding sdk_ok_def by blast+
  have "set (uuid5_hex S ns a) \<subseteq> set ''0123456789abcdef''" using assms unfolding sdk_ok_def by blast
  moreover have "CHR '':'' \<notin> set ''0123456789abcdef''" by simp
  ultimately show "CHR '':'' \<notin> set (uuid5_hex S ns a)" by blast
qed

text \<open>\<open>KeyErr\<close> is not a \<open>ValueError\<close>; the callers translate \<open>ValueErr\<close> alone.\<close>

datatype ledger_error = ValueErr string | KeyErr string | RuntimeError string | IntegrityError

lemma split_at_colon:
  assumes "a @ CHR '':'' # x = b @ CHR '':'' # y" and "CHR '':'' \<notin> set a" and "CHR '':'' \<notin> set b"
  shows "a = b \<and> x = y"
  using assms
proof (induction a arbitrary: b)
  case Nil
  then show ?case by (cases b) auto
next
  case (Cons c a)
  then show ?case by (cases b) auto
qed

section \<open>A journal as a list of intents\<close>

text \<open>
  What every adapter does, told over the list of intents in the order they were recorded:
  \<open>journal_create\<close> answers a request whose intent would be \<open>fresh\<close>, \<open>journal_commit\<close> records a result.
\<close>

definition journal_entry :: "('i \<Rightarrow> string) \<Rightarrow> 'i list \<Rightarrow> string \<Rightarrow> 'i option" where
  "journal_entry ident xs k = find (\<lambda>i. ident i = k) xs"

definition journal_create ::
  "('i \<Rightarrow> string) \<Rightarrow> 'i \<Rightarrow> ('i \<Rightarrow> bool) \<Rightarrow> ledger_error \<Rightarrow> ('i list, ledger_error, 'i) op" where
  "journal_create ident fresh same reused xs =
     (case journal_entry ident xs (ident fresh) of
        None \<Rightarrow> (Inr fresh, xs @ [fresh])
      | Some current \<Rightarrow> if same current then (Inr current, xs) else (Inl reused, xs))"

definition journal_commit ::
  "('i \<Rightarrow> string) \<Rightarrow> ('i \<Rightarrow> 'r option) \<Rightarrow> ('i \<Rightarrow> 'i) \<Rightarrow> ledger_error \<Rightarrow> ledger_error \<Rightarrow> string \<Rightarrow> 'r
    \<Rightarrow> ('i list, ledger_error, 'i) op" where
  "journal_commit ident result complete missing changed k x xs =
     (case journal_entry ident xs k of
        None \<Rightarrow> (Inl missing, xs)
      | Some current \<Rightarrow>
          if result current \<noteq> None \<and> result current \<noteq> Some x then (Inl changed, xs)
          else (Inr (complete current), map (\<lambda>i. if ident i = k then complete i else i) xs))"

lemma find_cong_set: "(\<And>x. x \<in> set xs \<Longrightarrow> P x \<longleftrightarrow> Q x) \<Longrightarrow> find P xs = find Q xs"
  by (induction xs) auto

lemma journal_entry_append:
  assumes "journal_entry ident xs (ident y) = None"
  shows "journal_entry ident (xs @ [y]) = (journal_entry ident xs)(ident y \<mapsto> y)"
  using assms by (auto simp: journal_entry_def fun_eq_iff find_append split: option.splits)

lemma journal_entry_upd:
  assumes "distinct (map ident xs)" and "\<And>i. ident (h i) = ident i" and "journal_entry ident xs k = Some y"
  shows "journal_entry ident (map (\<lambda>i. if ident i = k then h i else i) xs) = (journal_entry ident xs)(k \<mapsto> h y)"
proof (rule ext)
  fix n
  have y: "y \<in> set xs" "ident y = k" using assms(3) by (auto simp: journal_entry_def dest: find_SomeD)
  have pred: "(\<lambda>i. ident i = n) \<circ> (\<lambda>i. if ident i = k then h i else i) = (\<lambda>i. ident i = n)"
    using assms(2) by (auto simp: fun_eq_iff)
  show "journal_entry ident (map (\<lambda>i. if ident i = k then h i else i) xs) n = ((journal_entry ident xs)(k \<mapsto> h y)) n"
  proof (cases "n = k")
    case True
    have "find (\<lambda>i. ident i = n) (map (\<lambda>i. if ident i = k then h i else i) xs)
        = map_option (\<lambda>i. if ident i = k then h i else i) (find (\<lambda>i. ident i = n) xs)"
      unfolding find_map pred ..
    then show ?thesis using True assms(3) y by (simp add: journal_entry_def)
  next
    case False
    then show ?thesis
      by (cases "find (\<lambda>i. ident i = n) xs") (auto simp: journal_entry_def find_map pred dest: find_SomeD)
  qed
qed

lemma journal_append_distinct:
  "distinct (map ident xs) \<Longrightarrow> journal_entry ident xs (ident y) = None \<Longrightarrow> distinct (map ident (xs @ [y]))"
  by (auto simp: journal_entry_def find_None)

lemma journal_upd_distinct:
  assumes "distinct (map ident xs)" and "\<And>i. ident (h i) = ident i"
  shows "distinct (map ident (map (\<lambda>i. if ident i = k then h i else i) xs))"
proof -
  have "map ident (map (\<lambda>i. if ident i = k then h i else i) xs) = map ident xs" using assms(2) by simp
  with assms(1) show ?thesis by metis
qed

text \<open>A dictionary from the id of an intent to the intent is such a list.\<close>

abbreviation keyed_by :: "('i \<Rightarrow> string) \<Rightarrow> 'i list \<Rightarrow> (string \<times> 'i) list" where
  "keyed_by ident xs \<equiv> map (\<lambda>i. (ident i, i)) xs"

lemma keyed_lookup: "map_of (keyed_by ident xs) k = journal_entry ident xs k"
  by (simp add: map_of_map_key journal_entry_def option.map_ident)

lemma keyed_append:
  "journal_entry ident xs (ident y) = None \<Longrightarrow> dict_set (ident y) y (keyed_by ident xs) = keyed_by ident (xs @ [y])"
  using dict_set_map_keys [of xs ident "ident y" y "\<lambda>i. i"] by (auto simp: journal_entry_def find_None)

lemma keyed_upd:
  assumes "distinct (map ident xs)" and "\<And>i. ident (h i) = ident i" and "journal_entry ident xs k = Some y"
  shows "dict_set k (h y) (keyed_by ident xs) = keyed_by ident (map (\<lambda>i. if ident i = k then h i else i) xs)"
proof -
  have y: "y \<in> set xs" "ident y = k" using assms(3) by (auto simp: journal_entry_def dest: find_SomeD)
  then have "i = y" if "i \<in> set xs" "ident i = k" for i
    using distinct_map_key_eq [OF assms(1)] that by simp
  then have "map (\<lambda>i. (ident i, if ident i = k then h y else i)) xs = keyed_by ident (map (\<lambda>i. if ident i = k then h i else i) xs)"
    using assms(2) by auto
  with dict_set_map_upd [OF assms(1) y, of "h y" "\<lambda>i. i"] show ?thesis by simp
qed

section \<open>The contract\<close>

text \<open>
  \<open>entry s k\<close> is the intent recorded under \<open>k\<close>; \<open>frozen\<close> is what of an intent its request fixed;
  \<open>accepts q f\<close> says that the request \<open>q\<close> is the one that fixed \<open>f\<close>. A request is \<open>typed\<close> when its
  fields are what the boundary lets through, and \<open>request_ok\<close> when the journal itself accepts it.
\<close>

locale intent_ledger =
  fixes get_or_create :: "'q \<Rightarrow> ('s, ledger_error, 'i) op"
    and commit :: "string \<Rightarrow> 'r \<Rightarrow> int \<Rightarrow> ('s, ledger_error, 'i) op"
    and entry :: "'s \<Rightarrow> string \<Rightarrow> 'i option"
    and inv :: "'s \<Rightarrow> bool"
    and typed :: "'q \<Rightarrow> bool"
    and request_ok :: "'q \<Rightarrow> bool"
    and key :: "'q \<Rightarrow> string"
    and accepts :: "'q \<Rightarrow> 'f \<Rightarrow> bool"
    and frozen :: "'i \<Rightarrow> 'f"
    and result :: "'i \<Rightarrow> 'r option"
  assumes create_law: "inv s \<Longrightarrow> typed q \<Longrightarrow> request_ok q \<Longrightarrow>
      (case entry s (key q) of
         None \<Rightarrow> \<exists>i s'. get_or_create q s = (Inr i, s') \<and> inv s' \<and> entry s' = (entry s)(key q \<mapsto> i)
             \<and> result i = None \<and> accepts q (frozen i)
       | Some i \<Rightarrow> if accepts q (frozen i) then get_or_create q s = (Inr i, s)
           else \<exists>msg. get_or_create q s = (Inl (ValueErr msg), s))"
    and refuse_law: "inv s \<Longrightarrow> typed q \<Longrightarrow> \<not> request_ok q \<Longrightarrow> \<exists>e. get_or_create q s = (Inl e, s)"
    and commit_law: "inv s \<Longrightarrow>
      (case entry s k of
         None \<Rightarrow> \<exists>e. commit k x now s = (Inl e, s)
       | Some i \<Rightarrow>
           if result i = None \<or> result i = Some x
           then \<exists>i' s'. commit k x now s = (Inr i', s') \<and> inv s' \<and> entry s' = (entry s)(k \<mapsto> i')
             \<and> result i' = Some x \<and> frozen i' = frozen i
           else \<exists>msg. commit k x now s = (Inl (ValueErr msg), s))"
begin

text \<open>A later state of the journal: nothing recorded is lost or rewritten.\<close>

definition grows :: "'s \<Rightarrow> 's \<Rightarrow> bool" where
  "grows s s' \<longleftrightarrow> (inv s \<longrightarrow> inv s' \<and> (\<forall>k i. entry s k = Some i \<longrightarrow>
     (\<exists>i'. entry s' k = Some i' \<and> frozen i' = frozen i \<and> (\<forall>x. result i = Some x \<longrightarrow> result i' = Some x))))"

lemma grows_preorder: "reflp grows" "transp grows"
proof -
  show "reflp grows" by (auto simp: grows_def reflp_def)
  show "transp grows"
  proof (rule transpI, unfold grows_def, intro impI conjI allI)
    fix s t u
    assume st: "inv s \<longrightarrow> inv t \<and> (\<forall>k i. entry s k = Some i \<longrightarrow> (\<exists>i'. entry t k = Some i' \<and> frozen i' = frozen i
        \<and> (\<forall>x. result i = Some x \<longrightarrow> result i' = Some x)))"
      and tu: "inv t \<longrightarrow> inv u \<and> (\<forall>k i. entry t k = Some i \<longrightarrow> (\<exists>i'. entry u k = Some i' \<and> frozen i' = frozen i
        \<and> (\<forall>x. result i = Some x \<longrightarrow> result i' = Some x)))" and inv: "inv s"
    show "inv u" using st tu inv by blast
    fix k i assume "entry s k = Some i"
    with st inv obtain j where j: "inv t" "entry t k = Some j" "frozen j = frozen i" "\<forall>x. result i = Some x \<longrightarrow> result j = Some x"
      by blast
    with tu obtain l where "entry u k = Some l" "frozen l = frozen j" "\<forall>x. result j = Some x \<longrightarrow> result l = Some x" by blast
    with j show "\<exists>i'. entry u k = Some i' \<and> frozen i' = frozen i \<and> (\<forall>x. result i = Some x \<longrightarrow> result i' = Some x)"
      by metis
  qed
qed

lemma create_grows:
  assumes "typed q"
  shows "framed grows (get_or_create q)"
proof (rule framedI)
  fix s
  show "grows s (snd (get_or_create q s))"
  proof (cases "request_ok q \<and> inv s")
    case True
    then show ?thesis
      using create_law [of s q] assms by (auto simp: grows_def split: option.splits if_splits)
  next
    case False
    then show ?thesis using refuse_law [of s q] assms by (cases "inv s") (auto simp: grows_def)
  qed
qed

lemma commit_grows: "framed grows (commit k x now)"
proof (rule framedI)
  fix s
  show "grows s (snd (commit k x now s))"
    using commit_law [of s k x now] by (auto simp: grows_def split: option.splits if_splits)
qed

text \<open>A request that was accepted once is answered with the same intent at any later time.\<close>

lemma repeated_request:
  assumes "inv s" and "typed q" and "get_or_create q s = (Inr i, s1)" and "grows s1 s2"
  shows "\<exists>i'. get_or_create q s2 = (Inr i', s2) \<and> frozen i' = frozen i \<and> entry s2 (key q) = Some i'
    \<and> (\<forall>x. result i = Some x \<longrightarrow> result i' = Some x)"
proof -
  have ok: "request_ok q" using refuse_law [of s q] assms(1-3) by auto
  have i: "inv s1 \<and> entry s1 (key q) = Some i \<and> accepts q (frozen i)"
    using create_law [OF assms(1,2) ok] assms(1,3) by (auto split: option.splits if_splits)
  then obtain i' where i': "inv s2" "entry s2 (key q) = Some i'" "frozen i' = frozen i" "\<forall>x. result i = Some x \<longrightarrow> result i' = Some x"
    using assms(4) unfolding grows_def by blast
  then have "get_or_create q s2 = (Inr i', s2)" using create_law [OF i'(1) assms(2) ok] i by simp
  with i' show ?thesis by blast
qed

end

text \<open>
  An adapter that keeps the list \<open>xs\<close> in the form \<open>rep xs\<close> and does what \<open>journal_create\<close> and
  \<open>journal_commit\<close> tell is a ledger in the sense of the contract.
\<close>

lemma journal_is_ledger:
  assumes create: "\<And>q xs. ok xs \<Longrightarrow> typed q \<Longrightarrow> request_ok q \<Longrightarrow>
        get_or_create q (rep xs) = apsnd rep (journal_create ident (fresh q) (same q) (ValueErr reused) xs)"
    and refuse: "\<And>q xs. ok xs \<Longrightarrow> typed q \<Longrightarrow> \<not> request_ok q \<Longrightarrow> \<exists>e. get_or_create q (rep xs) = (Inl e, rep xs)"
    and com: "\<And>k x now xs. ok xs \<Longrightarrow>
        commit k x now (rep xs) = apsnd rep (journal_commit ident result (complete x now) (missing k) (ValueErr changed) k x xs)"
    and entry: "\<And>xs. ok xs \<Longrightarrow> entry (rep xs) = journal_entry ident xs"
    and create_ok: "\<And>q xs. ok xs \<Longrightarrow> typed q \<Longrightarrow> request_ok q \<Longrightarrow>
        ok (snd (journal_create ident (fresh q) (same q) (ValueErr reused) xs))"
    and commit_ok: "\<And>k x now xs. ok xs \<Longrightarrow>
        ok (snd (journal_commit ident result (complete x now) (missing k) (ValueErr changed) k x xs))"
    and ids: "\<And>xs. ok xs \<Longrightarrow> distinct (map ident xs)" "\<And>x now i. ident (complete x now i) = ident i"
    and same: "\<And>q i. same q i \<longleftrightarrow> accepts q (frozen i)"
    and fresh: "\<And>q. result (fresh q) = None" "\<And>q. accepts q (frozen (fresh q))"
    and complete: "\<And>x now i. result (complete x now i) = Some x" "\<And>x now i. frozen (complete x now i) = frozen i"
  shows "intent_ledger get_or_create commit entry (\<lambda>s. \<exists>xs. s = rep xs \<and> ok xs) typed request_ok (\<lambda>q. ident (fresh q)) accepts frozen result"
proof
  fix s q assume inv: "\<exists>xs. s = rep xs \<and> ok xs" and q: "typed q" "request_ok q"
  then obtain xs where s: "s = rep xs" and ok: "ok xs" by blast
  have next_ok: "ok (snd (journal_create ident (fresh q) (same q) (ValueErr reused) xs))" by (rule create_ok [OF ok q])
  show "case entry s (ident (fresh q)) of
      None \<Rightarrow> \<exists>i s'. get_or_create q s = (Inr i, s') \<and> (\<exists>xs. s' = rep xs \<and> ok xs) \<and> entry s' = (entry s)(ident (fresh q) \<mapsto> i)
          \<and> result i = None \<and> accepts q (frozen i)
    | Some i \<Rightarrow> if accepts q (frozen i) then get_or_create q s = (Inr i, s)
        else \<exists>msg. get_or_create q s = (Inl (ValueErr msg), s)"
  proof (cases "journal_entry ident xs (ident (fresh q))")
    case None
    then have "ok (xs @ [fresh q])" using next_ok by (simp add: journal_create_def)
    with None show ?thesis
      by (auto simp: s create [OF ok q] entry [OF ok] entry journal_create_def journal_entry_append fresh)
  next
    case (Some i)
    then show ?thesis by (simp add: s create [OF ok q] entry [OF ok] journal_create_def same)
  qed
next
  fix s q assume "\<exists>xs. s = rep xs \<and> ok xs" and "typed q" and "\<not> request_ok q"
  then show "\<exists>e. get_or_create q s = (Inl e, s)" using refuse by blast
next
  fix s k x now assume "\<exists>xs. s = rep xs \<and> ok xs"
  then obtain xs where s: "s = rep xs" and ok: "ok xs" by blast
  have next_ok: "ok (snd (journal_commit ident result (complete x now) (missing k) (ValueErr changed) k x xs))" by (rule commit_ok [OF ok])
  show "case entry s k of None \<Rightarrow> \<exists>e. commit k x now s = (Inl e, s)
    | Some i \<Rightarrow> if result i = None \<or> result i = Some x
        then \<exists>i' s'. commit k x now s = (Inr i', s') \<and> (\<exists>xs. s' = rep xs \<and> ok xs) \<and> entry s' = (entry s)(k \<mapsto> i')
          \<and> result i' = Some x \<and> frozen i' = frozen i
        else \<exists>msg. commit k x now s = (Inl (ValueErr msg), s)"
  proof (cases "journal_entry ident xs k")
    case None
    then show ?thesis by (simp add: s com [OF ok] entry [OF ok] journal_commit_def)
  next
    case (Some i)
    let ?ys = "map (\<lambda>i. if ident i = k then complete x now i else i) xs"
    show ?thesis
    proof (cases "result i = None \<or> result i = Some x")
      case True
      then have "ok ?ys" using next_ok Some by (auto simp: journal_commit_def)
      moreover have "journal_entry ident ?ys = (journal_entry ident xs)(k \<mapsto> complete x now i)"
        by (rule journal_entry_upd [OF ids(1) [OF ok] ids(2) Some])
      ultimately show ?thesis using True Some
        by (auto simp: s com [OF ok] entry [OF ok] entry journal_commit_def complete)
    next
      case False
      with Some show ?thesis by (auto simp: s com [OF ok] entry [OF ok] journal_commit_def)
    qed
  qed
qed

end
