(* ===== verification/Admission_Intents.thy ===== *)
theory Admission_Intents
  imports Ledger
begin

text \<open>
  The ledger of enrollment decisions, \<open>app/control_plane/admission_intents.py\<close>: what an authenticated
  Controller asked to be submitted, and the Hub's Decision once it was seen. The adapter in memory
  and the one over SQLite keep the contract of \<open>Ledger\<close>.
\<close>

section \<open>Outside code\<close>

text \<open>
  The actor, the decision and its result are models of the SDK. \<open>model_dump\<close> gives their JSON values;
  the result is read back from its text.
\<close>

record ('act, 'dec, 'res) admission_sdk =
  actor_dump :: "'act \<Rightarrow> json"
  decision_dump :: "'dec \<Rightarrow> json"
  decision_enrollment_id :: "'dec \<Rightarrow> string"
  decided_dump :: "'res \<Rightarrow> json"
  decided_load_json :: "string \<Rightarrow> 'res option"
  adm_dt_text :: "int \<Rightarrow> string"
  adm_dt_parse :: "string \<Rightarrow> int option"
  adm_sha256_hex :: "string \<Rightarrow> string"
  adm_uuid5_hex :: "string \<Rightarrow> string \<Rightarrow> string"

definition canonical :: "json \<Rightarrow> string" where
  "canonical v = json_dumps False v"

definition admission_sdk_ok :: "('act, 'dec, 'res) admission_sdk \<Rightarrow> bool" where
  "admission_sdk_ok A \<longleftrightarrow> (\<forall>r. decided_load_json A (canonical (decided_dump A r)) = Some r)
     \<and> (\<forall>t. adm_dt_parse A (adm_dt_text A t) = Some t)
     \<and> (\<forall>ns a b. adm_uuid5_hex A ns a = adm_uuid5_hex A ns b \<longrightarrow> a = b)
     \<and> (\<forall>ns a. set (adm_uuid5_hex A ns a) \<subseteq> set hex_alphabet)"

lemma admission_sdk_okD:
  assumes "admission_sdk_ok A"
  shows "decided_load_json A (canonical (decided_dump A r)) = Some r" and "adm_dt_parse A (adm_dt_text A t) = Some t"
    and "adm_uuid5_hex A ns a = adm_uuid5_hex A ns b \<longleftrightarrow> a = b" and "CHR '':'' \<notin> set (adm_uuid5_hex A ns a)"
proof -
  show "decided_load_json A (canonical (decided_dump A r)) = Some r" "adm_dt_parse A (adm_dt_text A t) = Some t"
    "adm_uuid5_hex A ns a = adm_uuid5_hex A ns b \<longleftrightarrow> a = b" using assms unfolding admission_sdk_ok_def by blast+
  have "set (adm_uuid5_hex A ns a) \<subseteq> set hex_alphabet" using assms unfolding admission_sdk_ok_def by blast
  moreover have "CHR '':'' \<notin> set hex_alphabet" by (simp add: hex_alphabet_def)
  ultimately show "CHR '':'' \<notin> set (adm_uuid5_hex A ns a)" by blast
qed

section \<open>Intents\<close>

record 'res AdmissionDecisionIntent =
  ai_intent_id :: string
  ai_ingress_request_id :: string
  ai_command_id :: string
  ai_correlation_id :: string
  ai_owner_domain_id :: string
  ai_business_owner_id :: string
  ai_enrollment_id :: string
  ai_actor_json :: string
  ai_actor_sha256 :: string
  ai_decision_json :: string
  ai_decision_sha256 :: string
  ai_checkpoint :: string
  ai_result :: "'res option"
  ai_created_at :: int
  ai_updated_at :: int

text \<open>The keyword arguments of \<open>get_or_create\<close>.\<close>

record ('act, 'dec) admission_request =
  aq_ingress_request_id :: string
  aq_owner_domain_id :: string
  aq_business_owner_id :: string
  aq_actor :: 'act
  aq_decision :: 'dec
  aq_now :: int

definition ADMISSION_NAMESPACE :: string where
  "ADMISSION_NAMESPACE = ''af670012-0805-51bb-b089-3a666e8a70b4''"

definition digest :: "('act, 'dec, 'res) admission_sdk \<Rightarrow> string \<Rightarrow> string" where
  "digest A v = ''sha256:'' @ adm_sha256_hex A v"

definition decision_intent_id :: "('act, 'dec, 'res) admission_sdk \<Rightarrow> string \<Rightarrow> string \<Rightarrow> string" where
  "decision_intent_id A owner_domain_id request_id = ''admission-intent-'' @
     adm_uuid5_hex A ADMISSION_NAMESPACE (''eidolon-admission-decision-intent-v1:'' @ owner_domain_id @ '':'' @ request_id)"

definition decision_command_id :: "('act, 'dec, 'res) admission_sdk \<Rightarrow> string \<Rightarrow> string \<Rightarrow> string" where
  "decision_command_id A intent_id enrollment_id = ''decide-enrollment-'' @
     adm_uuid5_hex A ADMISSION_NAMESPACE (''eidolon-admission-decision-command-v1:'' @ intent_id @ '':'' @ enrollment_id)"

definition new_decision_intent ::
  "('act, 'dec, 'res) admission_sdk \<Rightarrow> ('act, 'dec) admission_request \<Rightarrow> 'res AdmissionDecisionIntent" where
  "new_decision_intent A q =
     (let intent_id = decision_intent_id A (aq_owner_domain_id q) (aq_ingress_request_id q);
          actor_json = canonical (actor_dump A (aq_actor q));
          decision_json = canonical (decision_dump A (aq_decision q));
          enrollment_id = decision_enrollment_id A (aq_decision q)
      in \<lparr>ai_intent_id = intent_id, ai_ingress_request_id = aq_ingress_request_id q,
          ai_command_id = decision_command_id A intent_id enrollment_id, ai_correlation_id = intent_id,
          ai_owner_domain_id = aq_owner_domain_id q, ai_business_owner_id = aq_business_owner_id q,
          ai_enrollment_id = enrollment_id, ai_actor_json = actor_json, ai_actor_sha256 = digest A actor_json,
          ai_decision_json = decision_json, ai_decision_sha256 = digest A decision_json,
          ai_checkpoint = ''intent_recorded'', ai_result = None, ai_created_at = aq_now q, ai_updated_at = aq_now q\<rparr>)"

definition same_intent :: "'res AdmissionDecisionIntent \<Rightarrow> 'res AdmissionDecisionIntent \<Rightarrow> bool" where
  "same_intent existing candidate \<longleftrightarrow> \<not> (ai_business_owner_id existing \<noteq> ai_business_owner_id candidate
     \<or> ai_enrollment_id existing \<noteq> ai_enrollment_id candidate \<or> ai_actor_sha256 existing \<noteq> ai_actor_sha256 candidate
     \<or> ai_decision_sha256 existing \<noteq> ai_decision_sha256 candidate \<or> ai_command_id existing \<noteq> ai_command_id candidate)"

definition decision_reused :: ledger_error where
  "decision_reused = ValueErr ''Admission Decision request id was reused with different context''"

definition decision_changed :: ledger_error where
  "decision_changed = ValueErr ''Hub Decision result changed for an existing intent''"

definition decision_missing :: ledger_error where
  "decision_missing = ValueErr ''Admission Decision intent does not exist''"

definition committed :: "'res \<Rightarrow> int \<Rightarrow> 'res AdmissionDecisionIntent \<Rightarrow> 'res AdmissionDecisionIntent" where
  "committed res now intent = intent\<lparr>ai_checkpoint := ''decision_committed'', ai_result := Some res, ai_updated_at := now\<rparr>"

section \<open>In memory\<close>

type_synonym 'res admission_values = "(string \<times> 'res AdmissionDecisionIntent) list"

definition am_get_or_create ::
  "('act, 'dec, 'res) admission_sdk \<Rightarrow> ('act, 'dec) admission_request
    \<Rightarrow> ('res admission_values, ledger_error, 'res AdmissionDecisionIntent) op" where
  "am_get_or_create A q values =
     (let candidate = new_decision_intent A q in
      case map_of values (ai_intent_id candidate) of
        Some existing \<Rightarrow> (if \<not> same_intent existing candidate then (Inl decision_reused, values) else (Inr existing, values))
      | None \<Rightarrow> (Inr candidate, dict_set (ai_intent_id candidate) candidate values))"

definition am_mark_decision_committed ::
  "string \<Rightarrow> 'res \<Rightarrow> int \<Rightarrow> ('res admission_values, ledger_error, 'res AdmissionDecisionIntent) op" where
  "am_mark_decision_committed intent_id res now values =
     (case map_of values intent_id of
        None \<Rightarrow> (Inl (KeyErr intent_id), values)
      | Some intent \<Rightarrow>
          (if ai_result intent \<noteq> None \<and> ai_result intent \<noteq> Some res then (Inl decision_changed, values)
           else (Inr (committed res now intent), dict_set intent_id (committed res now intent) values)))"

section \<open>Over SQLite\<close>

record admission_row =
  ar_intent_id :: string
  ar_ingress_request_id :: string
  ar_command_id :: string
  ar_correlation_id :: string
  ar_owner_domain_id :: string
  ar_business_owner_id :: string
  ar_enrollment_id :: string
  ar_actor_json :: string
  ar_actor_sha256 :: string
  ar_decision_json :: string
  ar_decision_sha256 :: string
  ar_checkpoint :: string
  ar_result_json :: "string option"
  ar_created_at :: string
  ar_updated_at :: string

text \<open>\<open>_decode\<close>; a stored text that cannot be read raises a \<open>ValueError\<close>.\<close>

definition decode_admission ::
  "('act, 'dec, 'res) admission_sdk \<Rightarrow> admission_row \<Rightarrow> ledger_error + 'res AdmissionDecisionIntent" where
  "decode_admission A row =
     (case (case ar_result_json row of None \<Rightarrow> Some None | Some text \<Rightarrow> map_option Some (decided_load_json A text),
            adm_dt_parse A (ar_created_at row), adm_dt_parse A (ar_updated_at row)) of
        (Some res, Some created_at, Some updated_at) \<Rightarrow>
          Inr \<lparr>ai_intent_id = ar_intent_id row, ai_ingress_request_id = ar_ingress_request_id row,
            ai_command_id = ar_command_id row, ai_correlation_id = ar_correlation_id row,
            ai_owner_domain_id = ar_owner_domain_id row, ai_business_owner_id = ar_business_owner_id row,
            ai_enrollment_id = ar_enrollment_id row, ai_actor_json = ar_actor_json row,
            ai_actor_sha256 = ar_actor_sha256 row, ai_decision_json = ar_decision_json row,
            ai_decision_sha256 = ar_decision_sha256 row, ai_checkpoint = ar_checkpoint row, ai_result = res,
            ai_created_at = created_at, ai_updated_at = updated_at\<rparr>
      | _ \<Rightarrow> Inl (ValueErr ''stored value is invalid''))"

definition admission_row_of ::
  "('act, 'dec, 'res) admission_sdk \<Rightarrow> 'res AdmissionDecisionIntent \<Rightarrow> admission_row" where
  "admission_row_of A i =
     \<lparr>ar_intent_id = ai_intent_id i, ar_ingress_request_id = ai_ingress_request_id i, ar_command_id = ai_command_id i,
      ar_correlation_id = ai_correlation_id i, ar_owner_domain_id = ai_owner_domain_id i,
      ar_business_owner_id = ai_business_owner_id i, ar_enrollment_id = ai_enrollment_id i,
      ar_actor_json = ai_actor_json i, ar_actor_sha256 = ai_actor_sha256 i, ar_decision_json = ai_decision_json i,
      ar_decision_sha256 = ai_decision_sha256 i, ar_checkpoint = ai_checkpoint i,
      ar_result_json = map_option (\<lambda>r. canonical (decided_dump A r)) (ai_result i),
      ar_created_at = adm_dt_text A (ai_created_at i), ar_updated_at = adm_dt_text A (ai_updated_at i)\<rparr>"

text \<open>The \<open>INSERT\<close>: the primary key, the two unique keys and the check of the table.\<close>

definition stmt_insert_admission :: "admission_row \<Rightarrow> (admission_row list, ledger_error, unit) op" where
  "stmt_insert_admission row rows =
     (if ar_checkpoint row \<notin> {''intent_recorded'', ''decision_committed''}
         \<or> list_ex (\<lambda>r. ar_intent_id r = ar_intent_id row \<or> ar_command_id r = ar_command_id row
             \<or> ar_owner_domain_id r = ar_owner_domain_id row \<and> ar_ingress_request_id r = ar_ingress_request_id row) rows
      then (Inl IntegrityError, rows) else (Inr (), rows @ [row]))"

definition as_get_or_create ::
  "('act, 'dec, 'res) admission_sdk \<Rightarrow> ('act, 'dec) admission_request
    \<Rightarrow> (admission_row list, ledger_error, 'res AdmissionDecisionIntent) op" where
  "as_get_or_create A q rows =
     (let candidate = new_decision_intent A q in transact (\<lambda>rows.
        case find (\<lambda>r. ar_owner_domain_id r = ai_owner_domain_id candidate
            \<and> ar_ingress_request_id r = ai_ingress_request_id candidate) rows of
          Some row \<Rightarrow>
            (case decode_admission A row of
               Inl e \<Rightarrow> (Inl e, rows)
             | Inr existing \<Rightarrow> (if \<not> same_intent existing candidate then (Inl decision_reused, rows) else (Inr existing, rows)))
        | None \<Rightarrow> bindS (stmt_insert_admission (admission_row_of A candidate)) (\<lambda>_. ret candidate) rows) rows)"

definition as_mark_decision_committed ::
  "('act, 'dec, 'res) admission_sdk \<Rightarrow> string \<Rightarrow> 'res \<Rightarrow> int
    \<Rightarrow> (admission_row list, ledger_error, 'res AdmissionDecisionIntent) op" where
  "as_mark_decision_committed A intent_id res now = transact (\<lambda>rows.
     case find (\<lambda>r. ar_intent_id r = intent_id) rows of
       None \<Rightarrow> (Inl decision_missing, rows)
     | Some row \<Rightarrow>
         (case decode_admission A row of
            Inl e \<Rightarrow> (Inl e, rows)
          | Inr intent \<Rightarrow>
              (if ai_result intent \<noteq> None \<and> ai_result intent \<noteq> Some res then (Inl decision_changed, rows)
               else (Inr (committed res now intent), map (\<lambda>r. if ar_intent_id r = intent_id
                 then r\<lparr>ar_checkpoint := ai_checkpoint (committed res now intent),
                        ar_result_json := Some (canonical (decided_dump A res)), ar_updated_at := adm_dt_text A now\<rparr>
                 else r) rows))))"

section \<open>Both adapters keep the contract\<close>

text \<open>The two parts of the text an intent is named after are kept apart by the colon between them.\<close>

definition decision_typed :: "('act, 'dec) admission_request \<Rightarrow> bool" where
  "decision_typed q \<longleftrightarrow> CHR '':'' \<notin> set (aq_owner_domain_id q)"

definition decision_ok :: "('act, 'dec, 'res) admission_sdk \<Rightarrow> 'res AdmissionDecisionIntent \<Rightarrow> bool" where
  "decision_ok A i \<longleftrightarrow> ai_intent_id i = decision_intent_id A (ai_owner_domain_id i) (ai_ingress_request_id i)
     \<and> ai_command_id i = decision_command_id A (ai_intent_id i) (ai_enrollment_id i) \<and> CHR '':'' \<notin> set (ai_owner_domain_id i)
     \<and> ai_correlation_id i = ai_intent_id i"

definition decisions_ok :: "('act, 'dec, 'res) admission_sdk \<Rightarrow> 'res AdmissionDecisionIntent list \<Rightarrow> bool" where
  "decisions_ok A xs \<longleftrightarrow> distinct (map ai_intent_id xs) \<and> list_all (decision_ok A) xs"

definition decision_frozen :: "'res AdmissionDecisionIntent \<Rightarrow> 'res AdmissionDecisionIntent" where
  "decision_frozen i = i\<lparr>ai_checkpoint := ''intent_recorded'', ai_result := None, ai_updated_at := 0\<rparr>"

definition accepts_decision ::
  "('act, 'dec, 'res) admission_sdk \<Rightarrow> ('act, 'dec) admission_request \<Rightarrow> 'res AdmissionDecisionIntent \<Rightarrow> bool" where
  "accepts_decision A q i \<longleftrightarrow> same_intent i (new_decision_intent A q)"

definition admission_memory_entry :: "'res admission_values \<Rightarrow> string \<Rightarrow> 'res AdmissionDecisionIntent option" where
  "admission_memory_entry values = map_of values"

definition admission_sqlite_entry ::
  "('act, 'dec, 'res) admission_sdk \<Rightarrow> admission_row list \<Rightarrow> string \<Rightarrow> 'res AdmissionDecisionIntent option" where
  "admission_sqlite_entry A rows k = (case find (\<lambda>r. ar_intent_id r = k) rows of None \<Rightarrow> None
     | Some row \<Rightarrow> (case decode_admission A row of Inl _ \<Rightarrow> None | Inr i \<Rightarrow> Some i))"

lemma new_decision_intent_fields [simp]:
  "ai_intent_id (new_decision_intent A q) = decision_intent_id A (aq_owner_domain_id q) (aq_ingress_request_id q)"
  "ai_owner_domain_id (new_decision_intent A q) = aq_owner_domain_id q"
  "ai_ingress_request_id (new_decision_intent A q) = aq_ingress_request_id q"
  "ai_result (new_decision_intent A q) = None"
  "ai_checkpoint (new_decision_intent A q) = ''intent_recorded''"
  "ai_correlation_id (new_decision_intent A q) = decision_intent_id A (aq_owner_domain_id q) (aq_ingress_request_id q)"
  "ai_enrollment_id (new_decision_intent A q) = decision_enrollment_id A (aq_decision q)"
  "ai_command_id (new_decision_intent A q) = decision_command_id A
     (decision_intent_id A (aq_owner_domain_id q) (aq_ingress_request_id q)) (decision_enrollment_id A (aq_decision q))"
  by (simp_all add: new_decision_intent_def Let_def)

lemma committed_fields [simp]:
  "ai_intent_id (committed x now i) = ai_intent_id i" "ai_result (committed x now i) = Some x"
  "ai_owner_domain_id (committed x now i) = ai_owner_domain_id i" "ai_command_id (committed x now i) = ai_command_id i"
  "ai_ingress_request_id (committed x now i) = ai_ingress_request_id i" "ai_enrollment_id (committed x now i) = ai_enrollment_id i"
  "decision_frozen (committed x now i) = decision_frozen i" "decision_ok A (committed x now i) = decision_ok A i"
  by (simp_all add: committed_def decision_frozen_def decision_ok_def)

lemma accepts_decision_simps [simp]:
  "accepts_decision A q (decision_frozen i) = accepts_decision A q i"
  "accepts_decision A q (new_decision_intent A q)"
  by (simp_all add: accepts_decision_def same_intent_def decision_frozen_def)

lemma decision_intent_id_eq:
  assumes "admission_sdk_ok A" and "CHR '':'' \<notin> set owner" and "CHR '':'' \<notin> set owner'"
  shows "decision_intent_id A owner req = decision_intent_id A owner' req' \<longleftrightarrow> req = req' \<and> owner = owner'"
  using split_at_colon [of owner req owner' req'] assms by (auto simp: decision_intent_id_def admission_sdk_okD(3))

lemma decision_command_id_eq:
  assumes "admission_sdk_ok A" and "CHR '':'' \<notin> set a" and "CHR '':'' \<notin> set b"
    and "decision_command_id A a e = decision_command_id A b e'"
  shows "a = b"
  using split_at_colon [of a e b e'] assms by (auto simp: decision_command_id_def admission_sdk_okD(3))

lemma decision_intent_id_plain: "admission_sdk_ok A \<Longrightarrow> CHR '':'' \<notin> set (decision_intent_id A owner req)"
  by (simp add: decision_intent_id_def admission_sdk_okD(4))

lemma decision_create_ok:
  assumes "decisions_ok A xs" and "decision_typed q"
  shows "decisions_ok A (snd (journal_create ai_intent_id (new_decision_intent A q) (accepts_decision A q) e xs))"
proof -
  have "decision_ok A (new_decision_intent A q)" using assms(2) by (simp add: decision_ok_def decision_typed_def)
  with assms(1) journal_append_distinct [of ai_intent_id xs "new_decision_intent A q"] show ?thesis
    by (auto simp: decisions_ok_def journal_create_def split: option.split)
qed

lemma decision_commit_ok:
  assumes "decisions_ok A xs"
  shows "decisions_ok A (snd (journal_commit ai_intent_id ai_result (committed x now) e e' k x xs))"
proof -
  have "list_all (decision_ok A) (map (\<lambda>i. if ai_intent_id i = k then committed x now i else i) xs)"
    using assms by (auto simp: decisions_ok_def list_all_iff)
  with assms journal_upd_distinct [of ai_intent_id xs "committed x now" k] show ?thesis
    by (auto simp: decisions_ok_def journal_commit_def simp del: map_map split: option.split)
qed

lemma admission_memory_create:
  "am_get_or_create A q (keyed_by ai_intent_id xs)
    = apsnd (keyed_by ai_intent_id) (journal_create ai_intent_id (new_decision_intent A q) (accepts_decision A q) decision_reused xs)"
  using keyed_append [of ai_intent_id xs "new_decision_intent A q"]
  by (auto simp: am_get_or_create_def journal_create_def keyed_lookup Let_def accepts_decision_def split: option.split)

lemma admission_memory_commit:
  "decisions_ok A xs \<Longrightarrow> am_mark_decision_committed k x now (keyed_by ai_intent_id xs)
    = apsnd (keyed_by ai_intent_id) (journal_commit ai_intent_id ai_result (committed x now) (KeyErr k) decision_changed k x xs)"
  using keyed_upd [of ai_intent_id xs "committed x now" k]
  by (auto simp: am_mark_decision_committed_def journal_commit_def keyed_lookup decisions_ok_def simp del: map_map split: option.split)

lemma decode_admission_row [simp]: "admission_sdk_ok A \<Longrightarrow> decode_admission A (admission_row_of A i) = Inr i"
  by (cases i; cases "ai_result i") (simp_all add: decode_admission_def admission_row_of_def admission_sdk_okD)

lemma admission_find_request:
  assumes "admission_sdk_ok A" and "decisions_ok A xs" and "decision_typed q"
  shows "find (\<lambda>r. ar_owner_domain_id r = aq_owner_domain_id q \<and> ar_ingress_request_id r = aq_ingress_request_id q)
      (map (admission_row_of A) xs)
    = map_option (admission_row_of A) (journal_entry ai_intent_id xs (ai_intent_id (new_decision_intent A q)))"
proof -
  have "find ((\<lambda>r. ar_owner_domain_id r = aq_owner_domain_id q \<and> ar_ingress_request_id r = aq_ingress_request_id q)
      \<circ> admission_row_of A) xs = find (\<lambda>i. ai_intent_id i = ai_intent_id (new_decision_intent A q)) xs"
  proof (rule find_cong_set)
    fix i assume "i \<in> set xs"
    with assms(2) have "decision_ok A i" by (simp add: decisions_ok_def list_all_iff)
    then show "((\<lambda>r. ar_owner_domain_id r = aq_owner_domain_id q \<and> ar_ingress_request_id r = aq_ingress_request_id q)
        \<circ> admission_row_of A) i \<longleftrightarrow> ai_intent_id i = ai_intent_id (new_decision_intent A q)"
      using assms(1,3) by (auto simp: decision_ok_def decision_intent_id_eq decision_typed_def admission_row_of_def)
  qed
  then show ?thesis by (simp add: find_map journal_entry_def)
qed

lemma admission_insert_fresh:
  assumes "admission_sdk_ok A" and "decisions_ok A xs" and "decision_typed q"
    and none: "journal_entry ai_intent_id xs (ai_intent_id (new_decision_intent A q)) = None"
  shows "stmt_insert_admission (admission_row_of A (new_decision_intent A q)) (map (admission_row_of A) xs)
    = (Inr (), map (admission_row_of A) (xs @ [new_decision_intent A q]))"
proof -
  let ?row = "admission_row_of A (new_decision_intent A q)"
  have "ar_intent_id r \<noteq> ar_intent_id ?row \<and> ar_command_id r \<noteq> ar_command_id ?row
      \<and> \<not> (ar_owner_domain_id r = ar_owner_domain_id ?row \<and> ar_ingress_request_id r = ar_ingress_request_id ?row)"
    if mem: "r \<in> set (map (admission_row_of A) xs)" for r
  proof -
    obtain i where i: "i \<in> set xs" "r = admission_row_of A i" using mem by auto
    then have other: "ai_intent_id i \<noteq> ai_intent_id (new_decision_intent A q)" using none by (auto simp: journal_entry_def find_None)
    have ok: "decision_ok A i" using assms(2) i(1) by (simp add: decisions_ok_def list_all_iff)
    have "CHR '':'' \<notin> set (ai_intent_id i)" using ok assms(1) by (simp add: decision_ok_def decision_intent_id_plain)
    then have "ai_command_id i \<noteq> ai_command_id (new_decision_intent A q)"
      using ok other decision_command_id_eq [OF assms(1), of "ai_intent_id i" "ai_intent_id (new_decision_intent A q)"]
      by (auto simp: decision_ok_def decision_intent_id_plain [OF assms(1)])
    then show ?thesis using i(2) other ok by (auto simp: admission_row_of_def decision_ok_def)
  qed
  moreover have "ar_checkpoint ?row = ''intent_recorded''" by (simp add: admission_row_of_def)
  ultimately show ?thesis unfolding stmt_insert_admission_def list_ex_iff by (auto simp del: set_map)
qed

lemma admission_sqlite_create:
  assumes "admission_sdk_ok A" and "decisions_ok A xs" and "decision_typed q"
  shows "as_get_or_create A q (map (admission_row_of A) xs)
    = apsnd (map (admission_row_of A)) (journal_create ai_intent_id (new_decision_intent A q) (accepts_decision A q) decision_reused xs)"
proof (cases "journal_entry ai_intent_id xs (ai_intent_id (new_decision_intent A q))")
  case None
  with admission_find_request [OF assms] admission_insert_fresh [OF assms None] show ?thesis
    by (simp add: as_get_or_create_def Let_def journal_create_def transact_def bindS_def ret_def)
next
  case (Some i)
  with admission_find_request [OF assms] assms(1) show ?thesis
    by (simp add: as_get_or_create_def Let_def journal_create_def transact_def accepts_decision_def)
qed

lemma admission_sqlite_commit:
  assumes "admission_sdk_ok A"
  shows "as_mark_decision_committed A k x now (map (admission_row_of A) xs)
    = apsnd (map (admission_row_of A)) (journal_commit ai_intent_id ai_result (committed x now) decision_missing decision_changed k x xs)"
proof -
  have "find (\<lambda>r. ar_intent_id r = k) (map (admission_row_of A) xs) = map_option (admission_row_of A) (journal_entry ai_intent_id xs k)"
    by (simp add: find_map journal_entry_def comp_def admission_row_of_def)
  moreover have "map (\<lambda>r. if ar_intent_id r = k then r\<lparr>ar_checkpoint := ai_checkpoint (committed x now y),
        ar_result_json := Some (canonical (decided_dump A x)), ar_updated_at := adm_dt_text A now\<rparr> else r) (map (admission_row_of A) xs)
      = map (admission_row_of A) (map (\<lambda>i. if ai_intent_id i = k then committed x now i else i) xs)" for y
    by (simp add: admission_row_of_def committed_def)
  ultimately show ?thesis using assms
    by (auto simp: as_mark_decision_committed_def journal_commit_def transact_def simp del: map_map split: option.split)
qed

lemma admission_sqlite_entry_rows:
  assumes "admission_sdk_ok A"
  shows "admission_sqlite_entry A (map (admission_row_of A) xs) = journal_entry ai_intent_id xs"
proof
  fix k
  have "(\<lambda>r. ar_intent_id r = k) \<circ> admission_row_of A = (\<lambda>i. ai_intent_id i = k)"
    by (simp add: fun_eq_iff admission_row_of_def)
  then show "admission_sqlite_entry A (map (admission_row_of A) xs) k = journal_entry ai_intent_id xs k"
    using assms by (simp add: admission_sqlite_entry_def journal_entry_def find_map split: option.split)
qed

interpretation admission_mem: intent_ledger "am_get_or_create A" am_mark_decision_committed admission_memory_entry
  "\<lambda>s. \<exists>xs. s = keyed_by ai_intent_id xs \<and> decisions_ok A xs" decision_typed "\<lambda>_. True"
  "\<lambda>q. ai_intent_id (new_decision_intent A q)" "accepts_decision A" decision_frozen ai_result
  for A :: "('act, 'dec, 'res) admission_sdk"
proof (rule journal_is_ledger)
  fix q :: "('act, 'dec) admission_request" and xs :: "'res AdmissionDecisionIntent list" and k now and x :: 'res
  assume ok: "decisions_ok A xs"
  show "admission_memory_entry (keyed_by ai_intent_id xs) = journal_entry ai_intent_id xs"
    by (simp add: fun_eq_iff admission_memory_entry_def keyed_lookup)
  show "distinct (map ai_intent_id xs)" using ok by (simp add: decisions_ok_def)
  show "am_mark_decision_committed k x now (keyed_by ai_intent_id xs) = apsnd (keyed_by ai_intent_id) (journal_commit ai_intent_id ai_result
      (committed x now) (KeyErr k) (ValueErr ''Hub Decision result changed for an existing intent'') k x xs)"
    using admission_memory_commit [OF ok] by (simp add: decision_changed_def)
  show "decisions_ok A (snd (journal_commit ai_intent_id ai_result
      (committed x now) (KeyErr k) (ValueErr ''Hub Decision result changed for an existing intent'') k x xs))"
    by (rule decision_commit_ok [OF ok])
  assume q: "decision_typed q"
  show "am_get_or_create A q (keyed_by ai_intent_id xs) = apsnd (keyed_by ai_intent_id) (journal_create ai_intent_id (new_decision_intent A q)
      (accepts_decision A q) (ValueErr ''Admission Decision request id was reused with different context'') xs)"
    using admission_memory_create [of A q xs] by (simp add: decision_reused_def)
  show "decisions_ok A (snd (journal_create ai_intent_id (new_decision_intent A q) (accepts_decision A q)
      (ValueErr ''Admission Decision request id was reused with different context'') xs))"
    by (rule decision_create_ok [OF ok q])
qed simp_all

interpretation admission_sql: intent_ledger "as_get_or_create A" "as_mark_decision_committed A" "admission_sqlite_entry A"
  "\<lambda>s. \<exists>xs. s = map (admission_row_of A) xs \<and> (admission_sdk_ok A \<and> decisions_ok A xs)" decision_typed "\<lambda>_. True"
  "\<lambda>q. ai_intent_id (new_decision_intent A q)" "accepts_decision A" decision_frozen ai_result
  for A :: "('act, 'dec, 'res) admission_sdk"
proof (rule journal_is_ledger)
  fix q :: "('act, 'dec) admission_request" and xs :: "'res AdmissionDecisionIntent list" and k now and x :: 'res
  assume "admission_sdk_ok A \<and> decisions_ok A xs"
  then have A: "admission_sdk_ok A" and ok: "decisions_ok A xs" by blast+
  show "admission_sqlite_entry A (map (admission_row_of A) xs) = journal_entry ai_intent_id xs"
    by (rule admission_sqlite_entry_rows [OF A])
  show "distinct (map ai_intent_id xs)" using ok by (simp add: decisions_ok_def)
  show "as_mark_decision_committed A k x now (map (admission_row_of A) xs) = apsnd (map (admission_row_of A)) (journal_commit ai_intent_id ai_result
      (committed x now) decision_missing (ValueErr ''Hub Decision result changed for an existing intent'') k x xs)"
    using admission_sqlite_commit [OF A] by (simp add: decision_changed_def)
  show "admission_sdk_ok A \<and> decisions_ok A (snd (journal_commit ai_intent_id ai_result
      (committed x now) decision_missing (ValueErr ''Hub Decision result changed for an existing intent'') k x xs))"
    using A decision_commit_ok [OF ok] by blast
  assume q: "decision_typed q"
  show "as_get_or_create A q (map (admission_row_of A) xs) = apsnd (map (admission_row_of A)) (journal_create ai_intent_id
      (new_decision_intent A q) (accepts_decision A q) (ValueErr ''Admission Decision request id was reused with different context'') xs)"
    using admission_sqlite_create [OF A ok q] by (simp add: decision_reused_def)
  show "admission_sdk_ok A \<and> decisions_ok A (snd (journal_create ai_intent_id (new_decision_intent A q) (accepts_decision A q)
      (ValueErr ''Admission Decision request id was reused with different context'') xs))"
    using A decision_create_ok [OF ok q] by blast
qed simp_all

end
