(* ===== verification/Intent_Log.thy ===== *)
theory Intent_Log
  imports Ledger
begin

text \<open>
  What a workflow over a ledger sends to a remote authority. The workflow records an intent, sends the
  command the intent prescribes unless an answer is recorded already, and records the answer. Told
  over the log of what was sent: one command per intent, and none after an answer.
\<close>

text \<open>Each entry of a log is a command with whether it was answered; \<open>corr\<close> is the intent it belongs to.\<close>

definition sent_once :: "('c \<Rightarrow> string) \<Rightarrow> ('c \<times> bool) list \<Rightarrow> bool" where
  "sent_once corr l \<longleftrightarrow> (\<forall>i j. i < j \<and> j < length l \<and> corr (fst (l ! i)) = corr (fst (l ! j))
     \<longrightarrow> fst (l ! i) = fst (l ! j) \<and> \<not> snd (l ! i))"

definition log_recorded ::
  "('c \<Rightarrow> string) \<Rightarrow> ('i \<Rightarrow> 'c) \<Rightarrow> ('i \<Rightarrow> 'r option) \<Rightarrow> (string \<Rightarrow> 'i option) \<Rightarrow> ('c \<times> bool) list \<Rightarrow> bool" where
  "log_recorded corr sent_of result ent l \<longleftrightarrow> (\<forall>c answered. (c, answered) \<in> set l \<longrightarrow>
     (\<exists>i. ent (corr c) = Some i \<and> c = sent_of i \<and> (answered \<longrightarrow> result i \<noteq> None)))"

lemma sent_nothing [simp]: "sent_once corr []" "log_recorded corr sent_of result ent []"
  by (simp_all add: sent_once_def log_recorded_def)

lemma sent_once_append:
  assumes "sent_once corr l" and "log_recorded corr sent_of result ent l" and "ent (corr (sent_of i)) = Some i" and "result i = None"
  shows "sent_once corr (l @ [(sent_of i, ok)])"
  unfolding sent_once_def
proof (intro allI impI, elim conjE)
  let ?l = "l @ [(sent_of i, ok)]"
  fix a b assume ab: "a < b" "b < length ?l" and same: "corr (fst (?l ! a)) = corr (fst (?l ! b))"
  show "fst (?l ! a) = fst (?l ! b) \<and> \<not> snd (?l ! a)"
  proof (cases "b < length l")
    case True
    with ab same assms(1) show ?thesis by (simp add: nth_append sent_once_def)
  next
    case False
    with ab have a: "a < length l" and b: "b = length l" by auto
    then have "(fst (l ! a), snd (l ! a)) \<in> set l" by simp
    from assms(2) [unfolded log_recorded_def, rule_format, OF this]
    obtain j where j: "ent (corr (fst (l ! a))) = Some j" "fst (l ! a) = sent_of j" "snd (l ! a) \<longrightarrow> result j \<noteq> None"
      by (elim exE conjE)
    have "corr (fst (l ! a)) = corr (sent_of i)" using same a b by (simp add: nth_append)
    then have "j = i" using j(1) assms(3) by simp
    then show ?thesis using j(2,3) a b assms(4) by (simp add: nth_append)
  qed
qed

text \<open>The command an intent prescribes is part of what its request froze.\<close>

locale intent_log = intent_ledger get_or_create commit entry inv typed request_ok key accepts frozen result
  for get_or_create :: "'q \<Rightarrow> ('s, ledger_error, 'i) op"
    and commit :: "string \<Rightarrow> 'r \<Rightarrow> int \<Rightarrow> ('s, ledger_error, 'i) op"
    and entry :: "'s \<Rightarrow> string \<Rightarrow> 'i option"
    and inv :: "'s \<Rightarrow> bool"
    and typed :: "'q \<Rightarrow> bool"
    and request_ok :: "'q \<Rightarrow> bool"
    and key :: "'q \<Rightarrow> string"
    and accepts :: "'q \<Rightarrow> 'f \<Rightarrow> bool"
    and frozen :: "'i \<Rightarrow> 'f"
    and result :: "'i \<Rightarrow> 'r option" +
  fixes ident :: "'i \<Rightarrow> string"
    and sent_of :: "'i \<Rightarrow> 'c"
    and corr :: "'c \<Rightarrow> string"
  assumes entry_ident: "inv s \<Longrightarrow> entry s k = Some i \<Longrightarrow> ident i = k"
    and sent_frozen: "frozen i = frozen j \<Longrightarrow> sent_of i = sent_of j"
    and corr_sent: "corr (sent_of i) = ident i"
begin

lemma growsD:
  assumes "grows s s'" and "inv s"
  shows "inv s'"
    and "entry s k = Some i \<Longrightarrow> \<exists>i'. entry s' k = Some i' \<and> frozen i' = frozen i \<and> (result i \<noteq> None \<longrightarrow> result i' \<noteq> None)"
proof -
  have "inv s' \<and> (\<forall>k i. entry s k = Some i \<longrightarrow> (\<exists>i'. entry s' k = Some i' \<and> frozen i' = frozen i
      \<and> (\<forall>x. result i = Some x \<longrightarrow> result i' = Some x)))"
    by (rule assms(1) [unfolded grows_def, rule_format, OF assms(2)])
  then show "inv s'" and "entry s k = Some i \<Longrightarrow> \<exists>i'. entry s' k = Some i' \<and> frozen i' = frozen i
      \<and> (result i \<noteq> None \<longrightarrow> result i' \<noteq> None)"
    by (blast, metis option.distinct(1) option.exhaust)
qed

lemma create_grows_to: "typed q \<Longrightarrow> get_or_create q s = (r, s') \<Longrightarrow> grows s s'"
  using create_grows [of q, unfolded framed_def, rule_format, of s] by simp

lemma commit_grows_to: "grows s (snd (commit k x now s))"
  by (rule commit_grows [unfolded framed_def, rule_format])

lemma created_entry:
  assumes "inv s" and "typed q" and "get_or_create q s = (Inr i, s1)"
  shows "entry s1 (ident i) = Some i"
proof -
  have "request_ok q" using refuse_law [OF assms(1,2)] assms(3) by auto
  then have k: "inv s1 \<and> entry s1 (key q) = Some i"
    using create_law [OF assms(1,2)] assms(1,3) by (auto split: option.splits if_splits)
  then have "ident i = key q" using entry_ident by blast
  with k show ?thesis by simp
qed

lemma log_recorded_grows:
  assumes "log_recorded corr sent_of result (entry s) l" and "grows s s'" and "inv s"
  shows "log_recorded corr sent_of result (entry s') l"
  unfolding log_recorded_def
proof (intro allI impI)
  fix c answered assume "(c, answered) \<in> set l"
  from assms(1) [unfolded log_recorded_def, rule_format, OF this]
  obtain i where i: "entry s (corr c) = Some i" "c = sent_of i" "answered \<longrightarrow> result i \<noteq> None" by (elim exE conjE)
  from growsD(2) [OF assms(2,3) i(1)] i(2,3) show "\<exists>i. entry s' (corr c) = Some i \<and> c = sent_of i \<and> (answered \<longrightarrow> result i \<noteq> None)"
    by (metis sent_frozen)
qed

lemma sent_extended:
  assumes log: "sent_once corr l" "log_recorded corr sent_of result (entry s) l"
    and s: "inv s" "entry s (ident i) = Some i" "result i = None"
    and later: "grows s s'" "ok \<Longrightarrow> \<exists>i'. entry s' (ident i) = Some i' \<and> result i' \<noteq> None"
  shows "sent_once corr (l @ [(sent_of i, ok)]) \<and> log_recorded corr sent_of result (entry s') (l @ [(sent_of i, ok)])"
proof
  show "sent_once corr (l @ [(sent_of i, ok)])" using sent_once_append [OF log, of i] s by (simp add: corr_sent)
  obtain j where j: "entry s' (ident i) = Some j" "frozen j = frozen i" using growsD(2) [OF later(1) s(1,2)] by blast
  then have "\<exists>j. entry s' (corr (sent_of i)) = Some j \<and> sent_of i = sent_of j \<and> (ok \<longrightarrow> result j \<noteq> None)"
    using sent_frozen [OF j(2)] later(2) by (auto simp: corr_sent)
  with log_recorded_grows [OF log(2) later(1) s(1)] show "log_recorded corr sent_of result (entry s') (l @ [(sent_of i, ok)])"
    unfolding log_recorded_def by auto
qed

text \<open>A visit creates or finds the intent, may send its command, and may record the answer.\<close>

lemma visit_keeps_log:
  assumes s: "inv s" and q: "typed q" and log: "sent_once corr l" "log_recorded corr sent_of result (entry s) l"
    and create: "get_or_create q s = (r, s1)"
    and effects: "s' \<in> {s, s1} \<and> l' = l
      \<or> (\<exists>i. r = Inr i \<and> result i = None \<and> s' = s1 \<and> l' = l @ [(sent_of i, False)])
      \<or> (\<exists>i x now. r = Inr i \<and> result i = None \<and> s' = snd (commit (ident i) x now s1) \<and> l' = l @ [(sent_of i, True)])"
  shows "inv s' \<and> sent_once corr l' \<and> log_recorded corr sent_of result (entry s') l'"
proof -
  note grow = create_grows_to [OF q create]
  note s1 = growsD(1) [OF grow s] and log1 = log(1) log_recorded_grows [OF log(2) grow s]
  note made = created_entry [OF s q]
  have self: "grows s1 s1" using grows_preorder(1) by (simp add: reflp_def)
  from effects show ?thesis
  proof (elim disjE conjE exE)
    assume "s' \<in> {s, s1}" "l' = l"
    with s s1 log log1 show ?thesis by auto
  next
    fix i assume c: "r = Inr i" "result i = None" "s' = s1" "l' = l @ [(sent_of i, False)]"
    with sent_extended [OF log1 s1 made c(2) self] create s1 show ?thesis by simp
  next
    fix i x now assume c: "r = Inr i" "result i = None" "s' = snd (commit (ident i) x now s1)" "l' = l @ [(sent_of i, True)]"
    have i: "entry s1 (ident i) = Some i" using made create c(1) by simp
    have grow2: "grows s1 s'" unfolding c(3) by (rule commit_grows_to)
    have "\<exists>i'. entry s' (ident i) = Some i' \<and> result i' \<noteq> None"
      using commit_law [OF s1, of "ident i" x now] i c(2,3) by auto
    with sent_extended [OF log1 s1 i c(2) grow2, of True] growsD(1) [OF grow2 s1] c(4) show ?thesis by simp
  qed
qed

end

end
