(* ===== verification/Control_Contracts.thy ===== *)
theory Control_Contracts
  imports Ledger
begin

text \<open>
  The refusals of the control plane, \<open>app/control_plane/errors.py\<close>, and the steps a workflow reports, from
  \<open>contracts.py\<close>: what every workflow of the service may raise and what it answers with. Also the
  mounts of the Kernel and how the service looks for one.
\<close>

section \<open>Refusals\<close>

record AuthorityFailure =
  af_authority :: string
  af_kind :: string
  af_detail :: string
  af_status_code :: int
  af_upstream_status :: "int option"
  af_retryable :: bool
  af_code :: "string option"

text \<open>The constructor with the arguments that have no default.\<close>

definition failure :: "string \<Rightarrow> string \<Rightarrow> string \<Rightarrow> int \<Rightarrow> AuthorityFailure" where
  "failure authority kind detail status_code =
     \<lparr>af_authority = authority, af_kind = kind, af_detail = detail, af_status_code = status_code,
      af_upstream_status = None, af_retryable = False, af_code = None\<rparr>"

definition PUBLIC_REFUSAL_KIND :: "(string \<times> string) list" where
  "PUBLIC_REFUSAL_KIND =
     [(''unauthorized'', ''denied''), (''forbidden'', ''denied''), (''not_found'', ''not_found''),
      (''conflict'', ''conflict''), (''invalid_request'', ''invalid''), (''unavailable'', ''not_running''),
      (''runtime_missing'', ''not_running''), (''upstream_failure'', ''upstream''),
      (''contract_violation'', ''upstream''), (''configuration'', ''not_configured'')]"

definition authorities :: "string list" where
  "authorities = [''directory'', ''data'', ''hub'', ''kernel'', ''memory'', ''agent'']"

record Refusal =
  rf_kind :: string
  rf_reason :: string
  rf_code :: "string option"
  rf_retryable :: bool

record WorkflowFailure =
  wf_authority :: string
  wf_kind :: string
  wf_detail :: string
  wf_refusal :: Refusal
  wf_code :: "string option"
  wf_upstream_status :: "int option"
  wf_retryable :: bool

text \<open>
  What may leave a call: a refusal, an error of the ledger, a failed assertion, a value that a model
  rejects, an attribute that is not there, any other exception by name. \<open>OutOfFuel\<close> is the model's own:
  a wait is a loop.
\<close>

datatype call_error = Failed AuthorityFailure | Raised ledger_error | AssertionErr | ValidationErr | AttributeErr | OutOfFuel
  | OtherErr string

definition to_refusal :: "AuthorityFailure \<Rightarrow> call_error + Refusal" where
  "to_refusal f =
     (case map_of PUBLIC_REFUSAL_KIND (af_kind f) of
        None \<Rightarrow> Inl (Raised (KeyErr (af_kind f)))
      | Some kind \<Rightarrow> Inr \<lparr>rf_kind = kind, rf_reason = af_detail f, rf_code = af_code f, rf_retryable = af_retryable f\<rparr>)"

definition to_wire :: "AuthorityFailure \<Rightarrow> call_error + WorkflowFailure" where
  "to_wire f =
     (case to_refusal f of
        Inl e \<Rightarrow> Inl e
      | Inr refusal \<Rightarrow>
          (if af_authority f \<notin> set authorities \<or> af_kind f \<notin> fst ` set PUBLIC_REFUSAL_KIND then Inl ValidationErr
           else Inr \<lparr>wf_authority = af_authority f, wf_kind = af_kind f, wf_detail = af_detail f, wf_refusal = refusal,
                     wf_code = af_code f, wf_upstream_status = af_upstream_status f, wf_retryable = af_retryable f\<rparr>))"

section \<open>Steps\<close>

text \<open>The model checks the word of a step.\<close>

record WorkflowStep =
  st_name :: string
  st_state :: string
  st_request_id :: "string option"
  st_revision :: "int option"
  st_failure :: "WorkflowFailure option"

definition step_states :: "string list" where
  "step_states = [''committed'', ''replayed'', ''failed'', ''not_requested'', ''not_attempted'']"

definition workflow_step ::
  "string \<Rightarrow> string \<Rightarrow> string option \<Rightarrow> int option \<Rightarrow> WorkflowFailure option \<Rightarrow> call_error + WorkflowStep" where
  "workflow_step name state request_id revision fail =
     (if state \<notin> set step_states then Inl ValidationErr
      else Inr \<lparr>st_name = name, st_state = state, st_request_id = request_id, st_revision = revision, st_failure = fail\<rparr>)"

definition mk_step :: "string \<Rightarrow> string \<Rightarrow> string option \<Rightarrow> WorkflowFailure option \<Rightarrow> call_error + WorkflowStep" where
  "mk_step name state request_id fail = workflow_step name state request_id None fail"

lemma failed_step [simp]: "workflow_step name ''failed'' r v f = Inr \<lparr>st_name = name, st_state = ''failed'', st_request_id = r, st_revision = v, st_failure = f\<rparr>"
  by (simp add: workflow_step_def step_states_def)

section \<open>Mounts\<close>

text \<open>The fields of a mount that are read. A page has at most a hundred; its cursor is not read.\<close>

record KernelMount =
  km_device_id :: string
  km_owner_id :: string
  km_revision :: int
  km_active :: bool

definition owner_mount ::
  "(string \<Rightarrow> ('w, call_error, KernelMount list) op) \<Rightarrow> string \<Rightarrow> string \<Rightarrow> bool \<Rightarrow> ('w, call_error, KernelMount option) op" where
  "owner_mount list_mounts owner_id device_id active_only w =
     (case list_mounts owner_id w of
        (Inl e, w1) \<Rightarrow> (Inl e, w1)
      | (Inr mounts, w1) \<Rightarrow>
          (Inr (find (\<lambda>m. km_device_id m = device_id \<and> (km_active m \<or> \<not> active_only)) mounts), w1))"

end
