(* ===== verification/Decision_Workflow.thy ===== *)
theory Decision_Workflow
  imports Admission_Intents Intent_Log Control_Contracts
begin

text \<open>
  The decision on an enrollment, \<open>ControlPlaneService.decide_controller_enrollment\<close> in
  \<open>app/control_plane/service.py\<close> with its two validators. The workflow records what the Controller
  decided, compares it with the proposal as the Hub has it, submits the decision unless the Hub's
  answer is recorded already, and compares the answer with what the Hub shows afterwards.
\<close>

section \<open>Documents\<close>

text \<open>
  The SDK's documents, with the fields the code reads. Manifests \<open>'man\<close> and actors \<open>'act\<close> are
  compared only; \<open>'more\<close> is what of a decision is only passed on.
\<close>

record ('man, 'more) DecideEnrollment =
  dc_enrollment_id :: string
  dc_expected_proposal_revision :: int
  dc_decision :: string
  dc_target_owner_domain_id :: string
  dc_target_business_owner_id :: string
  dc_reviewed_manifest_ref :: 'man
  dc_more :: 'more

record 'act DecideEnrollmentResult =
  dd_decision_id :: string
  dd_decided_by :: 'act
  dd_decision :: string
  dd_proposal_revision :: int

record 'man proposal =
  pp_enrollment_id :: string
  pp_device_instance_candidate_id :: string
  pp_requested_owner_domain_id :: string
  pp_manifest_ref :: 'man
  pp_state :: string
  pp_proposal_revision :: int

record ('man, 'act) approval_decision =
  ad_decision_id :: string
  ad_enrollment_id :: string
  ad_actor :: 'act
  ad_decision :: string
  ad_target_owner_domain_id :: string
  ad_target_business_owner_id :: string
  ad_reviewed_manifest_ref :: 'man
  ad_expected_proposal_revision :: int

record ('man, 'act) recovery =
  rv_proposal :: "'man proposal"
  rv_approval_decision :: "('man, 'act) approval_decision option"

record ('man, 'more, 'act) ControllerEnrollmentDecisionIntent =
  ci_request_id :: string
  ci_actor :: 'act
  ci_decision :: "('man, 'more) DecideEnrollment"

record ('man, 'act) AdmissionDecisionWorkflowResult =
  wr_request_id :: string
  wr_intent_id :: string
  wr_command_id :: string
  wr_checkpoint :: string
  wr_decision_result :: "'act DecideEnrollmentResult"
  wr_recovery :: "('man, 'act) recovery"

section \<open>Validators\<close>

definition conflict :: "string \<Rightarrow> call_error" where
  "conflict detail = Failed (failure ''hub'' ''conflict'' detail 409)"

definition validate_decision_target ::
  "('man, 'more, 'act) ControllerEnrollmentDecisionIntent \<Rightarrow> ('man, 'act) recovery \<Rightarrow> call_error option" where
  "validate_decision_target payload rv =
     (let proposal = rv_proposal rv; decision = ci_decision payload
      in if pp_requested_owner_domain_id proposal \<noteq> dc_target_owner_domain_id decision
            \<or> pp_manifest_ref proposal \<noteq> dc_reviewed_manifest_ref decision
         then Some (conflict ''Hub Proposal no longer matches the explicit Decision'')
         else if pp_state proposal = ''pending_review''
         then (if pp_proposal_revision proposal \<noteq> dc_expected_proposal_revision decision
               then Some (conflict ''Hub Proposal revision changed'') else None)
         else if pp_state proposal \<notin> {''approved_awaiting_handoff'', ''grant_delivered''}
            \<or> (case rv_approval_decision rv of
                 None \<Rightarrow> True
               | Some made \<Rightarrow> ad_enrollment_id made \<noteq> dc_enrollment_id decision \<or> ad_actor made \<noteq> ci_actor payload
                   \<or> ad_decision made \<noteq> dc_decision decision \<or> ad_target_owner_domain_id made \<noteq> dc_target_owner_domain_id decision
                   \<or> ad_target_business_owner_id made \<noteq> dc_target_business_owner_id decision
                   \<or> ad_reviewed_manifest_ref made \<noteq> dc_reviewed_manifest_ref decision
                   \<or> ad_expected_proposal_revision made \<noteq> dc_expected_proposal_revision decision)
         then Some (conflict ''Hub Proposal is not decision-recoverable'')
         else None)"

definition validate_committed_decision ::
  "('man, 'more, 'act) ControllerEnrollmentDecisionIntent \<Rightarrow> 'act DecideEnrollmentResult option \<Rightarrow> ('man, 'act) recovery
    \<Rightarrow> call_error option" where
  "validate_committed_decision payload res rv =
     (case (res, rv_approval_decision rv) of
        (Some r, Some decision) \<Rightarrow>
          (if ad_decision_id decision \<noteq> dd_decision_id r \<or> dd_decided_by r \<noteq> ci_actor payload
              \<or> dd_decision r \<noteq> dc_decision (ci_decision payload) \<or> ad_actor decision \<noteq> ci_actor payload
              \<or> ad_decision decision \<noteq> dc_decision (ci_decision payload)
              \<or> ad_target_business_owner_id decision \<noteq> dc_target_business_owner_id (ci_decision payload)
              \<or> ad_target_owner_domain_id decision \<noteq> dc_target_owner_domain_id (ci_decision payload)
           then Some (Failed (failure ''hub'' ''contract_violation'' ''Hub recovery Decision changed identity or scope'' 502))
           else None)
      | _ \<Rightarrow> Some (Failed (failure ''hub'' ''contract_violation'' ''Hub omitted the committed Decision'' 502)))"

section \<open>The workflow\<close>

text \<open>The collaborators; the Hub and the clock live in a world \<open>'w\<close> of which nothing is assumed.\<close>

record ('s, 'w, 'man, 'more, 'act) decision_service =
  ds_hub_credentials :: "('act \<Rightarrow> string \<Rightarrow> string option \<Rightarrow> string) option"
  ds_create :: "('act, ('man, 'more) DecideEnrollment) admission_request
    \<Rightarrow> ('s, ledger_error, 'act DecideEnrollmentResult AdmissionDecisionIntent) op"
  ds_mark :: "string \<Rightarrow> 'act DecideEnrollmentResult \<Rightarrow> int \<Rightarrow> ('s, ledger_error, 'act DecideEnrollmentResult AdmissionDecisionIntent) op"
  ds_get_enrollment_recovery :: "string \<Rightarrow> string \<Rightarrow> ('w, call_error, ('man, 'act) recovery) op"
  ds_decide_enrollment :: "('man, 'more) DecideEnrollment \<Rightarrow> string \<Rightarrow> string \<Rightarrow> string \<Rightarrow> ('w, call_error, 'act DecideEnrollmentResult) op"
  ds_now :: "'w \<Rightarrow> int"

definition decision_request ::
  "('man, 'more, 'act) ControllerEnrollmentDecisionIntent \<Rightarrow> int \<Rightarrow> ('act, ('man, 'more) DecideEnrollment) admission_request" where
  "decision_request payload now =
     \<lparr>aq_ingress_request_id = ci_request_id payload, aq_owner_domain_id = dc_target_owner_domain_id (ci_decision payload),
      aq_business_owner_id = dc_target_business_owner_id (ci_decision payload), aq_actor = ci_actor payload,
      aq_decision = ci_decision payload, aq_now = now\<rparr>"

text \<open>From a recorded answer on: the Hub is read once more.\<close>

definition confirm_decision ::
  "('s, 'w, 'man, 'more, 'act) decision_service \<Rightarrow> ('man, 'more, 'act) ControllerEnrollmentDecisionIntent
    \<Rightarrow> 'act DecideEnrollmentResult AdmissionDecisionIntent \<Rightarrow> string \<Rightarrow> ('w, call_error, ('man, 'act) AdmissionDecisionWorkflowResult) op" where
  "confirm_decision V payload intent authorization w =
     (case ds_get_enrollment_recovery V (dc_enrollment_id (ci_decision payload)) authorization w of
        (Inl e, w1) \<Rightarrow> (Inl e, w1)
      | (Inr rv, w1) \<Rightarrow>
          (case validate_committed_decision payload (ai_result intent) rv of
             Some e \<Rightarrow> (Inl e, w1)
           | None \<Rightarrow>
               (case ai_result intent of
                  None \<Rightarrow> (Inl ValidationErr, w1)
                | Some res \<Rightarrow>
                    (Inr \<lparr>wr_request_id = ci_request_id payload, wr_intent_id = ai_intent_id intent, wr_command_id = ai_command_id intent,
                          wr_checkpoint = ai_checkpoint intent, wr_decision_result = res, wr_recovery = rv\<rparr>, w1))))"

text \<open>From the accepted intent on.\<close>

definition pursue_decision ::
  "('s, 'w, 'man, 'more, 'act) decision_service \<Rightarrow> ('man, 'more, 'act) ControllerEnrollmentDecisionIntent
    \<Rightarrow> 'act DecideEnrollmentResult AdmissionDecisionIntent \<Rightarrow> string \<Rightarrow> ('s \<times> 'w, call_error, ('man, 'act) AdmissionDecisionWorkflowResult) op" where
  "pursue_decision V payload intent authorization sw =
     (case sw of (s, w) \<Rightarrow>
      case ds_get_enrollment_recovery V (dc_enrollment_id (ci_decision payload)) authorization w of
        (Inl e, w1) \<Rightarrow> (Inl e, (s, w1))
      | (Inr rv, w1) \<Rightarrow>
          (case validate_decision_target payload rv of
             Some e \<Rightarrow> (Inl e, (s, w1))
           | None \<Rightarrow>
               (case ai_result intent of
                  Some _ \<Rightarrow> (case confirm_decision V payload intent authorization w1 of (r, w2) \<Rightarrow> (r, (s, w2)))
                | None \<Rightarrow>
                    (case ds_decide_enrollment V (ci_decision payload) (ai_command_id intent) (ai_correlation_id intent) authorization w1 of
                       (Inl e, w2) \<Rightarrow> (Inl e, (s, w2))
                     | (Inr res, w2) \<Rightarrow>
                         (case ds_mark V (ai_intent_id intent) res (ds_now V w2) s of
                            (Inl (ValueErr detail), s2) \<Rightarrow> (Inl (conflict detail), (s2, w2))
                          | (Inl e, s2) \<Rightarrow> (Inl (Raised e), (s2, w2))
                          | (Inr intent', s2) \<Rightarrow>
                              (case confirm_decision V payload intent' authorization w2 of (r, w3) \<Rightarrow> (r, (s2, w3))))))))"

definition decide_controller_enrollment ::
  "('s, 'w, 'man, 'more, 'act) decision_service \<Rightarrow> ('man, 'more, 'act) ControllerEnrollmentDecisionIntent
    \<Rightarrow> ('s \<times> 'w, call_error, ('man, 'act) AdmissionDecisionWorkflowResult) op" where
  "decide_controller_enrollment V payload sw =
     (case sw of (s, w) \<Rightarrow>
      case ds_hub_credentials V of
        None \<Rightarrow> (Inl (Failed (failure ''hub'' ''configuration'' ''Hub Admission credential issuer is unavailable'' 503)), (s, w))
      | Some issue \<Rightarrow>
          (case ds_create V (decision_request payload (ds_now V w)) s of
             (Inl (ValueErr detail), s1) \<Rightarrow> (Inl (conflict detail), (s1, w))
           | (Inl e, s1) \<Rightarrow> (Inl (Raised e), (s1, w))
           | (Inr intent, s1) \<Rightarrow>
               pursue_decision V payload intent
                 (issue (ci_actor payload) (dc_target_business_owner_id (ci_decision payload)) (Some (ai_intent_id intent))) (s1, w)))"

section \<open>One decision per intent\<close>

text \<open>What was submitted: under which ids, for which enrollment, and the digest of the decision.\<close>

record submitted =
  sb_enrollment_id :: string
  sb_command_id :: string
  sb_correlation_id :: string
  sb_decision_sha256 :: string

definition submitted_for :: "'res AdmissionDecisionIntent \<Rightarrow> submitted" where
  "submitted_for i = \<lparr>sb_enrollment_id = ai_enrollment_id i, sb_command_id = ai_command_id i, sb_correlation_id = ai_intent_id i,
     sb_decision_sha256 = ai_decision_sha256 i\<rparr>"

type_synonym ('man, 'more, 'act) decision_sdk = "('act, ('man, 'more) DecideEnrollment, 'act DecideEnrollmentResult) admission_sdk"

text \<open>A service over the SQLite ledger whose world also keeps what was submitted.\<close>

definition submitting ::
  "('man, 'more, 'act) decision_sdk \<Rightarrow> ('s, 'w, 'man, 'more, 'act) decision_service
    \<Rightarrow> (admission_row list, 'w \<times> (submitted \<times> bool) list, 'man, 'more, 'act) decision_service" where
  "submitting A V =
     \<lparr>ds_hub_credentials = ds_hub_credentials V, ds_create = as_get_or_create A, ds_mark = as_mark_decision_committed A,
      ds_get_enrollment_recovery = (\<lambda>enrollment authorization wl.
        case ds_get_enrollment_recovery V enrollment authorization (fst wl) of (r, w) \<Rightarrow> (r, (w, snd wl))),
      ds_decide_enrollment = (\<lambda>decision command_id correlation_id authorization wl.
        case ds_decide_enrollment V decision command_id correlation_id authorization (fst wl) of
          (r, w) \<Rightarrow> (r, (w, snd wl @ [(\<lparr>sb_enrollment_id = decision_enrollment_id A decision, sb_command_id = command_id,
                      sb_correlation_id = correlation_id, sb_decision_sha256 = digest A (canonical (decision_dump A decision))\<rparr>, \<not> isl r)]))),
      ds_now = (\<lambda>wl. ds_now V (fst wl))\<rparr>"

fun decision_visits ::
  "('s, 'w, 'man, 'more, 'act) decision_service \<Rightarrow> ('man, 'more, 'act) ControllerEnrollmentDecisionIntent list \<Rightarrow> 's \<times> 'w \<Rightarrow> 's \<times> 'w" where
  "decision_visits V [] sw = sw"
| "decision_visits V (payload # ps) sw = decision_visits V ps (snd (decide_controller_enrollment V payload sw))"

abbreviation decision_ledger :: "('act, 'dec, 'res) admission_sdk \<Rightarrow> admission_row list \<Rightarrow> bool" where
  "decision_ledger A s \<equiv> \<exists>xs. s = map (admission_row_of A) xs \<and> (admission_sdk_ok A \<and> decisions_ok A xs)"

lemma decision_entry_id: "decision_ledger A s \<Longrightarrow> admission_sqlite_entry A s k = Some i \<Longrightarrow> ai_intent_id i = k"
  by (auto simp: admission_sqlite_entry_rows journal_entry_def dest: find_SomeD)

interpretation decision_log: intent_log "as_get_or_create A" "as_mark_decision_committed A" "admission_sqlite_entry A"
  "\<lambda>s. \<exists>xs. s = map (admission_row_of A) xs \<and> (admission_sdk_ok A \<and> decisions_ok A xs)" decision_typed "\<lambda>_. True"
  "\<lambda>q. ai_intent_id (new_decision_intent A q)" "accepts_decision A" decision_frozen ai_result ai_intent_id submitted_for sb_correlation_id
  for A :: "('act, 'dec, 'res) admission_sdk"
proof
  show "ai_intent_id i = k" if "decision_ledger A s" "admission_sqlite_entry A s k = Some i" for s k i using that by (rule decision_entry_id)
  show "submitted_for i = submitted_for j" if "decision_frozen i = decision_frozen j" for i j :: "'res AdmissionDecisionIntent"
    using that by (cases i; cases j) (simp add: submitted_for_def decision_frozen_def)
  show "sb_correlation_id (submitted_for i) = ai_intent_id i" for i :: "'res AdmissionDecisionIntent" by (simp add: submitted_for_def)
qed

abbreviation decisions_recorded :: "('act, 'dec, 'res) admission_sdk \<Rightarrow> admission_row list \<Rightarrow> (submitted \<times> bool) list \<Rightarrow> bool" where
  "decisions_recorded A s \<equiv> log_recorded sb_correlation_id submitted_for ai_result (admission_sqlite_entry A s)"

text \<open>The intent that a request is answered with prescribes the request's own decision.\<close>

lemma accepted_intent:
  assumes "decision_ledger A s" and "decision_typed q" and "as_get_or_create A q s = (Inr i, s1)"
  shows "accepts_decision A q i" and "ai_correlation_id i = ai_intent_id i"
proof -
  obtain xs where s: "s = map (admission_row_of A) xs" "admission_sdk_ok A" "decisions_ok A xs" using assms(1) by blast
  have new_ok: "decision_ok A (new_decision_intent A q)" using assms(2) by (simp add: decision_ok_def decision_typed_def)
  have "accepts_decision A q i \<and> decision_ok A i"
  proof (cases "journal_entry ai_intent_id xs (ai_intent_id (new_decision_intent A q))")
    case None
    with assms(3) admission_sqlite_create [OF s(2,3) assms(2)] s(1) new_ok show ?thesis by (auto simp: journal_create_def)
  next
    case (Some j)
    then have "j \<in> set xs" by (auto simp: journal_entry_def dest: find_SomeD)
    with s(3) have "decision_ok A j" by (simp add: decisions_ok_def list_all_iff)
    with Some assms(3) admission_sqlite_create [OF s(2,3) assms(2)] s(1) show ?thesis
      by (auto simp: journal_create_def split: if_splits)
  qed
  then show "accepts_decision A q i" "ai_correlation_id i = ai_intent_id i" by (simp_all add: decision_ok_def)
qed

lemma submitting_sel [simp]:
  "ds_hub_credentials (submitting A V) = ds_hub_credentials V" "ds_create (submitting A V) = as_get_or_create A"
  "ds_mark (submitting A V) = as_mark_decision_committed A" "ds_now (submitting A V) (w, l) = ds_now V w"
  "ds_get_enrollment_recovery (submitting A V) enrollment authorization (w, l)
     = (case ds_get_enrollment_recovery V enrollment authorization w of (r, w1) \<Rightarrow> (r, (w1, l)))"
  by (simp_all add: submitting_def)

lemma submitting_decide:
  assumes "accepts_decision A (decision_request payload now) i" and "ai_correlation_id i = ai_intent_id i"
  shows "ds_decide_enrollment (submitting A V) (ci_decision payload) (ai_command_id i) (ai_correlation_id i) authorization (w, l)
    = (case ds_decide_enrollment V (ci_decision payload) (ai_command_id i) (ai_correlation_id i) authorization w of
         (r, w1) \<Rightarrow> (r, (w1, l @ [(submitted_for i, \<not> isl r)])))"
  using assms by (simp add: submitting_def submitted_for_def accepts_decision_def same_intent_def decision_request_def new_decision_intent_def
      Let_def split: prod.split)

lemma confirm_keeps_log:
  "\<exists>w'. snd (confirm_decision (submitting A V) payload intent authorization (w, l)) = (w', l)"
  by (simp add: confirm_decision_def split: prod.split sum.split option.split)

lemma pursue_decision_effects:
  assumes "accepts_decision A (decision_request payload now) i" and "ai_correlation_id i = ai_intent_id i"
    and run: "pursue_decision (submitting A V) payload i authorization (s, (w, l)) = (r, (s', (w', l')))"
  shows "s' = s \<and> l' = l \<or> ai_result i = None \<and> s' = s \<and> l' = l @ [(submitted_for i, False)]
    \<or> (\<exists>res now. ai_result i = None \<and> s' = snd (as_mark_decision_committed A (ai_intent_id i) res now s) \<and> l' = l @ [(submitted_for i, True)])"
proof -
  obtain g w1 where g: "ds_get_enrollment_recovery V (dc_enrollment_id (ci_decision payload)) authorization w = (g, w1)" by fastforce
  show ?thesis
  proof (cases "(\<exists>rv. g = Inr rv \<and> validate_decision_target payload rv = None) \<and> ai_result i = None")
    case False
    then show ?thesis using run g confirm_keeps_log [of A V payload i authorization w1 l]
      by (auto simp: pursue_decision_def split: sum.splits option.splits prod.splits)
  next
    case True
    then obtain rv where rv: "g = Inr rv" "validate_decision_target payload rv = None" and none: "ai_result i = None" by blast
    obtain h w2 where h: "ds_decide_enrollment V (ci_decision payload) (ai_command_id i) (ai_correlation_id i) authorization w1 = (h, w2)" by fastforce
    note decide = submitting_decide [OF assms(1,2), of V authorization w1 l, unfolded h, simplified]
    show ?thesis
    proof (cases h)
      case (Inl e)
      with run g rv none decide show ?thesis by (simp add: pursue_decision_def)
    next
      case (Inr res)
      obtain m s2 where mark: "as_mark_decision_committed A (ai_intent_id i) res (ds_now V w2) s = (m, s2)" by fastforce
      have "s' = s2 \<and> l' = l @ [(submitted_for i, True)]"
      proof (cases m)
        case (Inl e)
        with run g rv none decide Inr mark show ?thesis by (cases e) (simp_all add: pursue_decision_def)
      next
        case (Inr i')
        with run g rv none decide \<open>h = Inr res\<close> mark
          confirm_keeps_log [of A V payload i' authorization w2 "l @ [(submitted_for i, True)]"] show ?thesis
          by (auto simp: pursue_decision_def split: prod.splits)
      qed
      moreover have "s2 = snd (as_mark_decision_committed A (ai_intent_id i) res (ds_now V w2) s)" using mark by simp
      ultimately show ?thesis using none by blast
    qed
  qed
qed

lemma decide_keeps_log:
  assumes "decision_typed (decision_request payload 0)" and s: "decision_ledger A s"
    and log: "sent_once sb_correlation_id l" "decisions_recorded A s l"
    and run: "decide_controller_enrollment (submitting A V) payload (s, (w, l)) = (r, (s', (w', l')))"
  shows "decision_ledger A s' \<and> sent_once sb_correlation_id l' \<and> decisions_recorded A s' l'"
proof -
  let ?q = "decision_request payload (ds_now V w)"
  have q: "decision_typed ?q" using assms(1) by (simp add: decision_typed_def decision_request_def)
  obtain r1 s1 where create: "as_get_or_create A ?q s = (r1, s1)" by fastforce
  have "s' \<in> {s, s1} \<and> l' = l \<or> (\<exists>i. r1 = Inr i \<and> ai_result i = None \<and> s' = s1 \<and> l' = l @ [(submitted_for i, False)])
    \<or> (\<exists>i x now. r1 = Inr i \<and> ai_result i = None \<and> s' = snd (as_mark_decision_committed A (ai_intent_id i) x now s1)
        \<and> l' = l @ [(submitted_for i, True)])"
  proof (cases "ds_hub_credentials V")
    case None
    with run show ?thesis by (simp add: decide_controller_enrollment_def)
  next
    case (Some issue)
    show ?thesis
    proof (cases r1)
      case (Inl e)
      with Some run create show ?thesis by (cases e) (simp_all add: decide_controller_enrollment_def)
    next
      case (Inr i)
      note i = accepted_intent [OF s q create [unfolded Inr]]
      have "pursue_decision (submitting A V) payload i (issue (ci_actor payload) (dc_target_business_owner_id (ci_decision payload))
          (Some (ai_intent_id i))) (s1, (w, l)) = (r, (s', (w', l')))"
        using run Some create Inr by (simp add: decide_controller_enrollment_def)
      from pursue_decision_effects [OF i this] Inr show ?thesis by blast
    qed
  qed
  from decision_log.visit_keeps_log [OF s q log create this] show ?thesis .
qed

text \<open>
  Over any sequence of decision requests, against a Hub that may fail at any call, all
  submissions for one intent are the same command: the same ids, the same enrollment and a decision
  with the same digest, and none is submitted again once one has been answered.
\<close>

theorem decision_submitted_once:
  assumes "admission_sdk_ok A" and "\<forall>p\<in>set payloads. CHR '':'' \<notin> set (dc_target_owner_domain_id (ci_decision p))"
    and "decision_visits (submitting A V) payloads ([], (w, [])) = (rows, (w', sent))"
    and "i < j" and "j < length sent" and "sb_correlation_id (fst (sent ! i)) = sb_correlation_id (fst (sent ! j))"
  shows "fst (sent ! i) = fst (sent ! j) \<and> \<not> snd (sent ! i)"
proof -
  have "sent_once sb_correlation_id (snd (snd (decision_visits (submitting A V) ps (s, (w, l)))))"
    if "\<forall>p\<in>set ps. decision_typed (decision_request p 0)" "decision_ledger A s" "sent_once sb_correlation_id l" "decisions_recorded A s l" for ps s w l
    using that
  proof (induction ps arbitrary: s w l)
    case (Cons p ps)
    obtain r s1 w1 l1 where run: "decide_controller_enrollment (submitting A V) p (s, (w, l)) = (r, (s1, (w1, l1)))" by (metis prod.exhaust)
    from decide_keeps_log [OF _ Cons.prems(2-4) run] Cons.IH [of s1 l1 w1] Cons.prems(1) run show ?case by simp
  qed simp
  moreover have "decision_ledger A []" using assms(1) by (simp add: decisions_ok_def)
  moreover have "\<forall>p\<in>set payloads. decision_typed (decision_request p 0)" using assms(2) by (simp add: decision_typed_def decision_request_def)
  ultimately have "sent_once sb_correlation_id (snd (snd (decision_visits (submitting A V) payloads ([], (w, [])))))"
    using sent_nothing by blast
  then show ?thesis using assms(3-6) unfolding sent_once_def by auto
qed

text \<open>
  A decision that is repeated after the proposal has moved on is refused, although its answer is
  recorded: only a pending, an approved and a delivered proposal are taken for recoverable, not one
  that was rejected or whose grant the device has acknowledged.
\<close>

lemma settled_decision_refused:
  assumes "ds_get_enrollment_recovery V (dc_enrollment_id (ci_decision payload)) authorization w = (Inr rv, w1)"
    and "pp_state (rv_proposal rv) \<notin> {''pending_review'', ''approved_awaiting_handoff'', ''grant_delivered''}"
  shows "\<exists>detail. pursue_decision V payload i authorization (s, w) = (Inl (conflict detail), (s, w1))"
  using assms by (auto simp: pursue_decision_def validate_decision_target_def Let_def)

end
