(* ===== verification/Authority_Http.thy ===== *)
theory Authority_Http
  imports Control_Contracts
begin

text \<open>
  What the clients of the control plane share: \<open>app/control_plane/clients.py\<close> down to its first class,
  the directory of endpoints (\<open>directory.py\<close>) and the one place where a refusal becomes a response
  (\<open>failure_handler.py\<close>). A refusal that has no form on the wire is a plain 500; \<open>speaks\<close> says of an
  operation that none of its refusals is of that kind.
\<close>

section \<open>Texts\<close>

text \<open>Python's \<open>repr\<close> and \<open>str\<close> of a JSON value, for code points below 256.\<close>

definition hex2 :: "nat \<Rightarrow> string" where
  "hex2 v = [hex_char (v div 16), hex_char (v mod 16)]"

definition repr_char :: "char \<Rightarrow> char \<Rightarrow> string" where
  "repr_char q c =
     (let v = of_char c :: nat in
      if c = q \<or> c = CHR 92 then [CHR 92, c]
      else if v = 9 then [CHR 92, CHR ''t''] else if v = 10 then [CHR 92, CHR ''n''] else if v = 13 then [CHR 92, CHR ''r'']
      else if v < 32 \<or> v = 127 \<or> 128 \<le> v \<and> v \<le> 160 \<or> v = 173 then [CHR 92, CHR ''x''] @ hex2 v
      else [c])"

definition repr_string :: "string \<Rightarrow> string" where
  "repr_string s =
     (let q = (if CHR 39 \<in> set s \<and> CHR 34 \<notin> set s then CHR 34 else CHR 39)
      in q # concat (map (repr_char q) s) @ [q])"

fun py_repr :: "json \<Rightarrow> string" where
  "py_repr JNull = ''None''"
| "py_repr (JBool b) = (if b then ''True'' else ''False'')"
| "py_repr (JInt i) = dec_of_int i"
| "py_repr (JStr s) = repr_string s"
| "py_repr (JList xs) = ''['' @ join_with '', '' (map py_repr xs) @ '']''"
| "py_repr (JObj ms) = ''{'' @ join_with '', '' (map (\<lambda>m. repr_string (fst m) @ '': '' @ py_repr (snd m)) ms) @ ''}''"

definition py_str :: "json \<Rightarrow> string" where
  "py_str j = (case j of JStr s \<Rightarrow> s | _ \<Rightarrow> py_repr j)"

fun py_true :: "json \<Rightarrow> bool" where
  "py_true JNull = False"
| "py_true (JBool b) = b"
| "py_true (JInt i) = (i \<noteq> 0)"
| "py_true (JStr s) = (s \<noteq> [])"
| "py_true (JList xs) = (xs \<noteq> [])"
| "py_true (JObj ms) = (ms \<noteq> [])"

text \<open>\<open>urllib.parse.quote(s, safe="")\<close>.\<close>

definition HEX :: string where
  "HEX = ''0123456789ABCDEF''"

definition unreserved :: string where
  "unreserved = ''ABCDEFGHIJKLMNOPQRSTUVWXYZabcdefghijklmnopqrstuvwxyz0123456789_.-~''"

definition quote_byte :: "nat \<Rightarrow> string" where
  "quote_byte b = (if char_of b \<in> set unreserved then [char_of b] else [CHR ''%'', HEX ! (b div 16), HEX ! (b mod 16)])"

definition quote :: "string \<Rightarrow> string" where
  "quote s = concat (map quote_byte (utf8 s))"

definition rstrip_slash :: "string \<Rightarrow> string" where
  "rstrip_slash s = rev (dropWhile (\<lambda>c. c = CHR ''/'') (rev s))"

text \<open>
  \<open>urllib.parse.urlparse\<close>, for the scheme and the network location; \<open>None\<close> is its \<open>ValueError\<close> for
  unbalanced brackets. What stands between balanced brackets is not checked here.
\<close>

definition is_ascii_letter :: "char \<Rightarrow> bool" where
  "is_ascii_letter c \<longleftrightarrow> c \<in> set (take 52 unreserved)"

definition lower :: "char \<Rightarrow> char" where
  "lower c = (if c \<in> set (take 26 unreserved) then char_of (of_char c + 32 :: nat) else c)"

definition url_scheme :: "string \<Rightarrow> string \<times> string" where
  "url_scheme url =
     (let head = takeWhile (\<lambda>c. c \<noteq> CHR '':'') url; rest = dropWhile (\<lambda>c. c \<noteq> CHR '':'') url
      in if rest \<noteq> [] \<and> head \<noteq> [] \<and> is_ascii_letter (hd head)
            \<and> list_all (\<lambda>c. c \<in> set (take 62 unreserved) \<union> set ''+-.'') head
         then (map lower head, tl rest) else ([], url))"

definition urlparse :: "string \<Rightarrow> (string \<times> string) option" where
  "urlparse url =
     (case url_scheme (filter (\<lambda>c. of_char c \<notin> {9, 10, 13 :: nat}) (dropWhile (\<lambda>c. of_char c \<le> (32 :: nat)) url)) of
        (scheme, rest) \<Rightarrow>
          if take 2 rest = ''//''
          then (let netloc = takeWhile (\<lambda>c. c \<notin> set ''/?#'') (drop 2 rest)
                in if (CHR ''['' \<in> set netloc) \<noteq> (CHR '']'' \<in> set netloc) then None else Some (scheme, netloc))
          else Some (scheme, []))"

section \<open>Requests and answers\<close>

text \<open>
  The HTTP client is a parameter: what it is handed is a request, what it gives back an answer or an
  exception, and it acts on a world \<open>'w\<close>. An answer carries its content and what reading it as JSON
  gives (\<open>None\<close> for a \<open>ValueError\<close>). \<open>Lost\<close> is one of the three transport errors the code catches,
  \<open>Broke\<close> any other. Timeouts are milliseconds.
\<close>

record http_request =
  hq_method :: string
  hq_url :: string
  hq_timeout :: int
  hq_headers :: "(string \<times> string) list option"
  hq_json :: "json option"
  hq_content :: "bytes option"
  hq_params :: "(string \<times> string) list option"
  hq_replay_safe :: bool

record http_response =
  hr_status :: int
  hr_content :: bytes
  hr_json :: "json option"

datatype transport = Answered http_response | Lost string | Broke string

type_synonym 'w sender = "http_request \<Rightarrow> 'w \<Rightarrow> transport \<times> 'w"

definition http_request_to :: "string \<Rightarrow> string \<Rightarrow> int \<Rightarrow> http_request" where
  "http_request_to method url timeout =
     \<lparr>hq_method = method, hq_url = url, hq_timeout = timeout, hq_headers = None, hq_json = None, hq_content = None,
      hq_params = None, hq_replay_safe = False\<rparr>"

definition contract_violation :: "string \<Rightarrow> string \<Rightarrow> AuthorityFailure" where
  "contract_violation authority detail = failure authority ''contract_violation'' detail 502"

definition response_detail :: "http_response \<Rightarrow> string \<times> string option" where
  "response_detail response =
     (let plain = ''upstream returned HTTP '' @ dec_of_int (hr_status response)
      in case hr_json response of
           Some (JObj v) \<Rightarrow>
             (case jget ''detail'' v of
                JObj d \<Rightarrow>
                  (let code = jget ''code'' d; message = jget ''message'' d
                   in (take 500 (if py_true message then py_str message else plain),
                       if py_true code then Some (take 64 (py_str code)) else None))
              | detail \<Rightarrow> if py_true detail then (take 500 (py_str detail), None) else (plain, None))
         | _ \<Rightarrow> (plain, None))"

definition raise_status :: "string \<Rightarrow> http_response \<Rightarrow> AuthorityFailure" where
  "raise_status authority response =
     (case response_detail response of
        (detail, code) \<Rightarrow>
          let status = hr_status response;
              refuse = (\<lambda>kind status_code retryable.
                \<lparr>af_authority = authority, af_kind = kind, af_detail = detail, af_status_code = status_code,
                 af_upstream_status = Some status, af_retryable = retryable, af_code = code\<rparr>)
          in if status = 401 then refuse ''unauthorized'' 401 False
             else if status = 403 then refuse ''forbidden'' 403 False
             else if status = 404 then refuse ''not_found'' 404 False
             else if status \<in> {409, 412} then refuse ''conflict'' 409 False
             else if status = 400 then refuse ''invalid_request'' 422 False
             else if status = 422 then refuse ''invalid_request'' 422 False
             else if status \<ge> 500 then refuse ''upstream_failure'' 502 True
             else refuse ''upstream_failure'' 502 False)"

text \<open>A model is what pydantic makes of the content: a value, or nothing for a \<open>ValidationError\<close>.\<close>

definition parse_answer :: "string \<Rightarrow> http_response \<Rightarrow> (bytes \<Rightarrow> 'm option) \<Rightarrow> ('w, call_error, 'm) op" where
  "parse_answer authority response model =
     (if \<not> (200 \<le> hr_status response \<and> hr_status response < 300) then raise (Failed (raise_status authority response))
      else case model (hr_content response) of
             None \<Rightarrow> raise (Failed (contract_violation authority (authority @ '' response violated the consumed contract'')))
           | Some m \<Rightarrow> ret m)"

definition send_request :: "string \<Rightarrow> 'w sender \<Rightarrow> http_request \<Rightarrow> ('w, call_error, http_response) op" where
  "send_request authority send q w =
     (case send q w of
        (Answered response, w1) \<Rightarrow> (Inr response, w1)
      | (Lost _, w1) \<Rightarrow> (Inl (Failed (failure authority ''unavailable'' (authority @ '' authority is unreachable'') 503\<lparr>af_retryable := True\<rparr>)), w1)
      | (Broke name, w1) \<Rightarrow> (Inl (OtherErr name), w1))"

section \<open>The directory of endpoints\<close>

record ServiceEndpoint =
  se_service_id :: string
  se_endpoint_id :: string
  se_protocol :: string
  se_address :: string
  se_contract :: string

definition bounded_str :: "nat \<Rightarrow> json option \<Rightarrow> string option" where
  "bounded_str n j = (case j of Some (JStr s) \<Rightarrow> (if 1 \<le> length s \<and> length s \<le> n then Some s else None) | _ \<Rightarrow> None)"

definition service_endpoint :: "json \<Rightarrow> ServiceEndpoint option" where
  "service_endpoint j =
     (case j of
        JObj v \<Rightarrow>
          (if fst ` set v \<subseteq> {''operation'', ''service_id'', ''endpoint_id'', ''protocol'', ''address'', ''contract''}
              \<and> map_of v ''operation'' = Some (JStr ''system.service-endpoint'')
           then (case (bounded_str 128 (map_of v ''service_id''), bounded_str 128 (map_of v ''endpoint_id''),
                       bounded_str 32 (map_of v ''protocol''), bounded_str 2048 (map_of v ''address''),
                       bounded_str 256 (map_of v ''contract'')) of
                   (Some service_id, Some endpoint_id, Some protocol, Some address, Some contract) \<Rightarrow>
                     Some \<lparr>se_service_id = service_id, se_endpoint_id = endpoint_id, se_protocol = protocol,
                           se_address = address, se_contract = contract\<rparr>
                 | _ \<Rightarrow> None)
           else None)
      | _ \<Rightarrow> None)"

record 'w directory =
  sd_base_url :: string
  sd_timeout :: int
  sd_send :: "'w sender"

definition new_directory :: "string \<Rightarrow> int \<Rightarrow> 'w sender \<Rightarrow> call_error + 'w directory" where
  "new_directory base_url timeout send =
     (case urlparse base_url of
        None \<Rightarrow> Inl (Raised (ValueErr ''Invalid IPv6 URL''))
      | Some (scheme, netloc) \<Rightarrow>
          if scheme \<notin> {''http'', ''https''} \<or> netloc = []
          then Inl (Raised (ValueErr ''System Directory base URL must be HTTP(S)''))
          else Inr \<lparr>sd_base_url = rstrip_slash base_url, sd_timeout = timeout, sd_send = send\<rparr>)"

text \<open>What \<open>resolve\<close> asks of an endpoint that was read.\<close>

definition check_endpoint :: "string \<Rightarrow> string \<Rightarrow> string \<Rightarrow> ServiceEndpoint \<Rightarrow> ('w, call_error, ServiceEndpoint) op" where
  "check_endpoint service_id endpoint_id required_contract endpoint =
     (if se_service_id endpoint \<noteq> service_id \<or> se_endpoint_id endpoint \<noteq> endpoint_id
      then raise (Failed (contract_violation ''directory'' ''System Service Directory returned a different endpoint identity''))
      else if se_protocol endpoint \<noteq> ''http''
      then raise (Failed (contract_violation ''directory'' ''resolved endpoint is not HTTP''))
      else case urlparse (se_address endpoint) of
             None \<Rightarrow> raise (Raised (ValueErr ''Invalid IPv6 URL''))
           | Some (scheme, netloc) \<Rightarrow>
               if scheme \<notin> {''http'', ''https''} \<or> netloc = []
               then raise (Failed (contract_violation ''directory'' ''resolved endpoint address is not a valid HTTP URL''))
               else if se_contract endpoint \<noteq> required_contract
               then raise (Failed (contract_violation ''directory'' (''endpoint contract mismatch for '' @ service_id @ ''/'' @ endpoint_id)))
               else ret endpoint)"

definition resolve :: "'w directory \<Rightarrow> string \<Rightarrow> string \<Rightarrow> string \<Rightarrow> ('w, call_error, ServiceEndpoint) op" where
  "resolve d service_id endpoint_id required_contract w =
     (case sd_send d (http_request_to ''GET''
             (sd_base_url d @ ''/api/system/v1/services/'' @ quote service_id @ ''/endpoints/'' @ quote endpoint_id) (sd_timeout d)) w of
        (Lost _, w1) \<Rightarrow>
          (Inl (Failed (failure ''directory'' ''unavailable'' ''System Service Directory is unreachable'' 503\<lparr>af_retryable := True\<rparr>)), w1)
      | (Broke name, w1) \<Rightarrow> (Inl (OtherErr name), w1)
      | (Answered response, w1) \<Rightarrow>
          (let status = hr_status response in
           if status \<in> {404, 503}
           then (Inl (Failed (failure ''directory'' ''unavailable''
                   (''service endpoint is not ready: '' @ service_id @ ''/'' @ endpoint_id) 503
                   \<lparr>af_upstream_status := Some status, af_retryable := True\<rparr>)), w1)
           else if status \<noteq> 200
           then (Inl (Failed (failure ''directory'' ''upstream_failure''
                   (''unexpected System Service Directory status '' @ dec_of_int status) 502
                   \<lparr>af_upstream_status := Some status, af_retryable := status \<ge> 500\<rparr>)), w1)
           else case Option.bind (hr_json response) service_endpoint of
                  None \<Rightarrow> (Inl (Failed (contract_violation ''directory''
                            ''System Service Directory response violated the consumed contract'')), w1)
                | Some endpoint \<Rightarrow> check_endpoint service_id endpoint_id required_contract endpoint w1))"

section \<open>A refusal as a response\<close>

text \<open>\<open>_handle\<close>: the status and the body of the response. What \<open>to_wire\<close> raises leaves the handler.\<close>

definition handle_failure :: "AuthorityFailure \<Rightarrow> call_error + (int \<times> WorkflowFailure)" where
  "handle_failure exc =
     (case to_wire exc of Inl e \<Rightarrow> Inl e | Inr wire \<Rightarrow> Inr (af_status_code exc, wire))"

definition speakable :: "call_error \<Rightarrow> bool" where
  "speakable e \<longleftrightarrow> (case e of Failed f \<Rightarrow> \<not> isl (handle_failure f) | _ \<Rightarrow> True)"

lemma speakable_failed [simp]:
  "speakable (Failed f) \<longleftrightarrow> af_authority f \<in> set authorities \<and> af_kind f \<in> fst ` set PUBLIC_REFUSAL_KIND"
proof -
  have "map_of PUBLIC_REFUSAL_KIND (af_kind f) = None \<longleftrightarrow> af_kind f \<notin> fst ` set PUBLIC_REFUSAL_KIND" by (simp add: map_of_eq_None_iff)
  then show ?thesis by (auto simp: speakable_def handle_failure_def to_wire_def to_refusal_def split: option.splits)
qed

lemma speakable_others [simp]:
  "speakable (Raised e)" "speakable AssertionErr" "speakable ValidationErr" "speakable AttributeErr" "speakable OutOfFuel" "speakable (OtherErr n)"
  by (simp_all add: speakable_def)

definition speaks :: "('w, call_error, 'a) op \<Rightarrow> bool" where
  "speaks m \<longleftrightarrow> (\<forall>w e w'. m w = (Inl e, w') \<longrightarrow> speakable e)"

named_theorems speaks_intros

lemma speaksD: "speaks m \<Longrightarrow> m w = (Inl e, w') \<Longrightarrow> speakable e"
  unfolding speaks_def by blast

lemma speaks_ret [speaks_intros]: "speaks (ret v)"
  by (simp add: speaks_def ret_def)

lemma speaks_raise [speaks_intros]: "speakable e \<Longrightarrow> speaks (raise e)"
  by (simp add: speaks_def raise_def)

lemma speaks_bind [speaks_intros]: "speaks m \<Longrightarrow> (\<And>v. speaks (f v)) \<Longrightarrow> speaks (bindS m f)"
  unfolding speaks_def [of "bindS m f"] by (auto elim!: bindS_InlE dest: speaksD)

lemma speaks_if [speaks_intros]: "(b \<Longrightarrow> speaks x) \<Longrightarrow> (\<not> b \<Longrightarrow> speaks y) \<Longrightarrow> speaks (if b then x else y)"
  by simp

lemma speaks_option [speaks_intros]:
  "(v = None \<Longrightarrow> speaks x) \<Longrightarrow> (\<And>y. v = Some y \<Longrightarrow> speaks (f y)) \<Longrightarrow> speaks (case v of None \<Rightarrow> x | Some y \<Rightarrow> f y)"
  by (simp split: option.split)

lemma speaks_prod [speaks_intros]: "(\<And>a b. p = (a, b) \<Longrightarrow> speaks (f a b)) \<Longrightarrow> speaks (case p of (a, b) \<Rightarrow> f a b)"
  by (simp split: prod.split)

lemma speaks_json [speaks_intros]:
  assumes "speaks n" and "\<And>b. speaks (f1 b)" and "\<And>i. speaks (f2 i)" and "\<And>s. speaks (f3 s)" and "\<And>xs. speaks (f4 xs)" and "\<And>v. speaks (f5 v)"
  shows "speaks (case j of JNull \<Rightarrow> n | JBool b \<Rightarrow> f1 b | JInt i \<Rightarrow> f2 i | JStr s \<Rightarrow> f3 s | JList xs \<Rightarrow> f4 xs | JObj v \<Rightarrow> f5 v)"
  using assms by (cases j) simp_all

lemma failure_sel [simp]:
  "af_authority (failure a k d s) = a" "af_kind (failure a k d s) = k" "af_status_code (failure a k d s) = s"
  "af_retryable (failure a k d s) = False"
  by (simp_all add: failure_def)

lemma contract_violation_sel [simp]:
  "af_authority (contract_violation a d) = a" "af_kind (contract_violation a d) = ''contract_violation''"
  by (simp_all add: contract_violation_def)

lemma public_kinds [simp]:
  "fst ` set PUBLIC_REFUSAL_KIND = {''unauthorized'', ''forbidden'', ''not_found'', ''conflict'', ''invalid_request'', ''unavailable'',
     ''runtime_missing'', ''upstream_failure'', ''contract_violation'', ''configuration''}"
  by (simp add: PUBLIC_REFUSAL_KIND_def)

lemma authorities_set [simp]: "set authorities = {''directory'', ''data'', ''hub'', ''kernel'', ''memory'', ''agent''}"
  by (simp add: authorities_def)

lemma raise_status_sel [simp]: "af_authority (raise_status a r) = a" "af_upstream_status (raise_status a r) = Some (hr_status r)"
  by (simp_all add: raise_status_def Let_def split: prod.split)

lemma raise_status_kind: "af_kind (raise_status a r) \<in> {''unauthorized'', ''forbidden'', ''not_found'', ''conflict'', ''invalid_request'', ''upstream_failure''}"
  by (simp add: raise_status_def Let_def split: prod.split)

text \<open>Only a server's own failure is one to retry.\<close>

lemma raise_status_retryable: "af_retryable (raise_status a r) \<longleftrightarrow> hr_status r \<ge> 500"
  by (auto simp: raise_status_def Let_def split: prod.split)

lemma speaks_status [speaks_intros]: "a \<in> set authorities \<Longrightarrow> speaks (raise (Failed (raise_status a r)))"
  using raise_status_kind [of a r] by (intro speaks_raise) auto

lemma speaks_parse [speaks_intros]: "a \<in> set authorities \<Longrightarrow> speaks (parse_answer a r model)"
  unfolding parse_answer_def by (intro speaks_intros) auto

lemma speaks_send [speaks_intros]: "a \<in> set authorities \<Longrightarrow> speaks (send_request a send q)"
  by (auto simp: speaks_def send_request_def split: prod.splits transport.splits)

lemma speaks_check_endpoint: "speaks (check_endpoint s e c endpoint)"
  unfolding check_endpoint_def by (intro speaks_intros) simp_all

lemma speaks_resolve [speaks_intros]: "speaks (resolve d s e c)"
  unfolding speaks_def
proof (intro allI impI)
  fix w err w' assume run: "resolve d s e c w = (Inl err, w')"
  show "speakable err" using run speaksD [OF speaks_check_endpoint]
    by (auto simp: resolve_def Let_def split: prod.splits transport.splits option.splits if_splits)
qed

text \<open>An endpoint that was resolved is the one that was asked for, and can be dialled.\<close>

lemma resolved_endpoint:
  assumes "resolve d service_id endpoint_id contract w = (Inr endpoint, w')"
  shows "se_service_id endpoint = service_id" and "se_endpoint_id endpoint = endpoint_id" and "se_contract endpoint = contract"
    and "\<exists>scheme netloc. urlparse (se_address endpoint) = Some (scheme, netloc) \<and> scheme \<in> {''http'', ''https''} \<and> netloc \<noteq> []"
  using assms
  by (auto simp: resolve_def check_endpoint_def Let_def ret_def raise_def split: prod.splits transport.splits option.splits if_splits)

section \<open>Quoted ids stay in their place\<close>

text \<open>A code without prefixes reads back uniquely.\<close>

lemma concat_map_inj:
  assumes "\<And>a b x y. P a \<Longrightarrow> P b \<Longrightarrow> g a @ x = g b @ y \<Longrightarrow> a = b \<and> x = y" and "\<And>a. P a \<Longrightarrow> g a \<noteq> []"
    and "list_all P xs" and "list_all P ys" and "concat (map g xs) = concat (map g ys)"
  shows "xs = ys"
  using assms(3-5)
proof (induction xs arbitrary: ys)
  case Nil
  then show ?case using assms(2) by (cases ys) auto
next
  case (Cons a xs)
  obtain b zs where ys: "ys = b # zs" using Cons.prems assms(2) by (cases ys) auto
  with Cons.prems have "g a @ concat (map g xs) = g b @ concat (map g zs)" "P a" "P b" by simp_all
  with assms(1) have "a = b" "concat (map g xs) = concat (map g zs)" by blast+
  with Cons ys show ?case by simp
qed

lemma utf8_char_prefix:
  assumes "utf8_char a @ x = utf8_char b @ y"
  shows "a = b \<and> x = y"
proof -
  have inj: "a = b" if "(of_char a :: nat) = of_char b" using that by (simp add: of_char_eq_iff)
  have two: "a = b" if "(of_char a :: nat) div 64 = of_char b div 64" "(of_char a :: nat) mod 64 = of_char b mod 64"
    using that by (intro inj) (metis div_mult_mod_eq)
  show ?thesis using assms inj two nat_of_char_less_256 [of a] nat_of_char_less_256 [of b]
    by (auto simp: utf8_char_def Let_def split: if_splits)
qed

lemma utf8_inj: "utf8 s = utf8 t \<Longrightarrow> s = t"
  unfolding utf8_def
proof (rule concat_map_inj [of "\<lambda>_. True" utf8_char])
  show "utf8_char a \<noteq> []" for a by (simp add: utf8_char_def Let_def)
  show "a = b \<and> x = y" if "utf8_char a @ x = utf8_char b @ y" for a b x y using that by (rule utf8_char_prefix)
qed (simp_all add: list_all_iff)

lemma utf8_bytes: "list_all (\<lambda>b. b < 256) (utf8 s)"
proof -
  have "b < 256" if "b \<in> set (utf8_char c)" for b c
  proof -
    have "(of_char c :: nat) div 64 < 4" using nat_of_char_less_256 [of c] by (simp add: less_mult_imp_div_less)
    moreover have "(of_char c :: nat) mod 64 < 64" by simp
    ultimately show ?thesis using that by (auto simp: utf8_char_def Let_def split: if_splits)
  qed
  then show ?thesis by (auto simp: utf8_def list_all_iff)
qed

lemma HEX_inj: "i < 16 \<Longrightarrow> j < 16 \<Longrightarrow> HEX ! i = HEX ! j \<longleftrightarrow> i = j"
  by (rule nth_eq_iff_index_eq) (simp_all add: HEX_def)

lemma percent_reserved: "CHR ''%'' \<notin> set unreserved"
  by (simp add: unreserved_def)

lemma quote_byte_prefix:
  assumes "a < 256" and "b < 256" and "quote_byte a @ x = quote_byte b @ y"
  shows "a = b \<and> x = y"
proof -
  have kept: "a = b" if "(char_of a :: char) = char_of b" using that assms(1,2) by (metis of_char_of mod_less)
  have hex: "a = b" if "HEX ! (a div 16) = HEX ! (b div 16)" "HEX ! (a mod 16) = HEX ! (b mod 16)"
  proof -
    have "a div 16 < 16" "b div 16 < 16" using assms(1,2) by (simp_all add: less_mult_imp_div_less)
    then have "a div 16 = b div 16" "a mod 16 = b mod 16" using that HEX_inj by simp_all
    then show ?thesis by (metis div_mult_mod_eq)
  qed
  show ?thesis using assms(3) kept hex percent_reserved by (auto simp: quote_byte_def split: if_splits)
qed

lemma quote_inj: "quote s = quote t \<longleftrightarrow> s = t"
proof
  assume "quote s = quote t"
  then have "utf8 s = utf8 t" unfolding quote_def
  proof (rule concat_map_inj [of "\<lambda>b. b < 256" quote_byte, rotated 4])
    show "quote_byte a \<noteq> []" for a by (simp add: quote_byte_def)
    show "a = b \<and> x = y" if "a < 256" "b < 256" "quote_byte a @ x = quote_byte b @ y" for a b x y using that by (rule quote_byte_prefix)
  qed (rule utf8_bytes)+
  then show "s = t" by (rule utf8_inj)
qed simp

lemma quote_chars: "c \<in> set (quote s) \<Longrightarrow> c \<notin> set ''/?#:''"
proof -
  assume "c \<in> set (quote s)"
  then obtain b where b: "b \<in> set (utf8 s)" "c \<in> set (quote_byte b)" by (auto simp: quote_def)
  have "b < 256" using b(1) utf8_bytes [of s] by (auto simp: list_all_iff)
  then have "b div 16 < 16" by (simp add: less_mult_imp_div_less)
  then have "HEX ! (b div 16) \<in> set HEX" "HEX ! (b mod 16) \<in> set HEX" by (intro nth_mem, simp add: HEX_def)+
  with b(2) have "c \<in> set unreserved \<union> {CHR ''%''} \<union> set HEX" by (auto simp: quote_byte_def split: if_splits)
  then show ?thesis by (auto simp: unreserved_def HEX_def)
qed

end
