(* ===== verification/Data_Clients.thy ===== *)
theory Data_Clients
  imports Authority_Http
begin

text \<open>
  \<open>DataAuthorityClient\<close> and \<open>DataWorkspaceAuthorityClient\<close> of \<open>app/control_plane/clients.py\<close>: one operation per
  method, with the request it sends and what it asks of the answer.
\<close>

section \<open>Clients\<close>

text \<open>A client whose authority the directory names; \<open>ac_token\<close> is empty where none was configured.\<close>

record 'w authority_client =
  ac_directory :: "'w directory"
  ac_send :: "'w sender"
  ac_token :: string
  ac_timeout :: int

definition data_client :: "'w directory \<Rightarrow> 'w sender \<Rightarrow> string \<Rightarrow> int \<Rightarrow> 'w authority_client" where
  "data_client d send service_token timeout =
     \<lparr>ac_directory = d, ac_send = send, ac_token = py_strip service_token, ac_timeout = timeout\<rparr>"

definition bearer :: "'w authority_client \<Rightarrow> string \<Rightarrow> string \<Rightarrow> http_request" where
  "bearer C method url =
     http_request_to method url (ac_timeout C)\<lparr>hq_headers := Some [(''Authorization'', ''Bearer '' @ ac_token C)]\<rparr>"

section \<open>Answers\<close>

text \<open>The models of \<open>contracts.py\<close> that are compared with the question; \<open>'more\<close> is what is only passed on.\<close>

record 'more CompanionIdentity =
  ci_companion_id :: string
  ci_owner_id :: string
  ci_rest :: 'more

record 'more CompanionRosterPage =
  rp_owner_id :: string
  rp_rest :: 'more

record 'more CompanionRuntimeSnapshot =
  rs_owner_id :: string
  rs_rest :: 'more

record 'more WorkspaceOperation =
  wo_operation_id :: string
  wo_request_fingerprint :: string
  wo_rest :: 'more

record 'more OwnerIdentity =
  oi_owner_id :: string
  oi_default_companion_id :: "string option"
  oi_rest :: 'more

record 'more CompanionProvision =
  cp_operation_id :: string
  cp_rest :: 'more

record 'more OwnerGovernanceEvents =
  og_owner_id :: string
  og_rest :: 'more

record 'more CompanionLifecycleResult =
  cl_companion_id :: string
  cl_lifecycle_state :: string
  cl_rest :: 'more

definition violated :: "string \<Rightarrow> string \<Rightarrow> ('w, call_error, 'a) op" where
  "violated authority detail = raise (Failed (contract_violation authority detail))"

section \<open>Data\<close>

definition DATA_CONTRACT :: string where
  "DATA_CONTRACT = ''https://eidolon.dev/data/contracts/v1/companion/identity.schema.json''"

definition DATA_RUNTIME_CONTRACT :: string where
  "DATA_RUNTIME_CONTRACT = ''https://eidolon.dev/data/contracts/v1/companion/runtime-snapshot.schema.json''"

definition data_address :: "'w authority_client \<Rightarrow> string \<Rightarrow> string \<Rightarrow> ('w, call_error, string) op" where
  "data_address C endpoint_id contract =
     (if ac_token C = [] then raise (Failed (failure ''data'' ''configuration'' ''Admin Data authority credential is not configured'' 503))
      else bindS (resolve (ac_directory C) ''data'' endpoint_id contract) (\<lambda>endpoint. ret (rstrip_slash (se_address endpoint))))"

definition companion_authority ::
  "'w authority_client \<Rightarrow> (string \<Rightarrow> http_request) \<Rightarrow> ('w, call_error, http_response) op" where
  "companion_authority C request =
     bindS (data_address C ''companion-authority.http'' DATA_CONTRACT) (\<lambda>address.
       send_request ''data'' (ac_send C) (request (address @ ''/api/companion-authority/v1'')))"

definition get_companion where
  "get_companion C model companion_id =
     bindS (companion_authority C (\<lambda>base. bearer C ''GET'' (base @ ''/companions/'' @ quote companion_id))) (\<lambda>response.
     bindS (parse_answer ''data'' response model) (\<lambda>identity.
       if ci_companion_id identity \<noteq> companion_id then violated ''data'' ''Data returned a different companion identity''
       else ret identity))"

definition optional_params :: "(string \<times> string option) list \<Rightarrow> (string \<times> string) list" where
  "optional_params kvs = concat (map (\<lambda>(k, v). case v of None \<Rightarrow> [] | Some x \<Rightarrow> [(k, x)]) kvs)"

definition or_none :: "(string \<times> string) list \<Rightarrow> (string \<times> string) list option" where
  "or_none params = (if params = [] then None else Some params)"

definition list_owner_companions where
  "list_owner_companions C model owner_id cursor lim =
     bindS (companion_authority C (\<lambda>base. bearer C ''GET'' (base @ ''/owners/'' @ quote owner_id @ ''/companions'')
       \<lparr>hq_params := or_none (optional_params [(''cursor'', cursor), (''limit'', map_option dec_of_int lim)])\<rparr>)) (\<lambda>response.
     bindS (parse_answer ''data'' response model) (\<lambda>page.
       if rp_owner_id page \<noteq> owner_id then violated ''data'' ''Data returned a roster for a different Owner'' else ret page))"

definition get_owner_companion where
  "get_owner_companion C model owner_id companion_id =
     bindS (companion_authority C (\<lambda>base. bearer C ''GET'' (base @ ''/owners/'' @ quote owner_id @ ''/companions/'' @ quote companion_id))) (\<lambda>response.
     bindS (parse_answer ''data'' response model) (\<lambda>identity.
       if ci_companion_id identity \<noteq> companion_id \<or> ci_owner_id identity \<noteq> owner_id
       then violated ''data'' ''Data returned a different Companion than was asked for'' else ret identity))"

definition rename_companion where
  "rename_companion C model companion_id display_name =
     bindS (companion_authority C (\<lambda>base. bearer C ''PATCH'' (base @ ''/companions/'' @ quote companion_id)
       \<lparr>hq_json := Some (JObj [(''display_name'', JStr display_name)])\<rparr>)) (\<lambda>response.
     bindS (parse_answer ''data'' response model) (\<lambda>identity.
       if ci_companion_id identity \<noteq> companion_id then violated ''data'' ''Data returned a different companion identity''
       else ret identity))"

text \<open>The path is cut at its first slash; what stands before is quoted, what follows is not.\<close>

definition companion_call where
  "companion_call C method path companion_id model body =
     (let head = takeWhile (\<lambda>c. c \<noteq> CHR ''/'') path; tail = drop 1 (dropWhile (\<lambda>c. c \<noteq> CHR ''/'') path)
      in bindS (companion_authority C (\<lambda>base. bearer C method (base @ ''/companions/'' @ quote head @ ''/'' @ tail)\<lparr>hq_json := body\<rparr>))
           (\<lambda>response. parse_answer ''data'' response model))"

definition get_persona_timeline where
  "get_persona_timeline C model companion_id =
     companion_call C ''GET'' (companion_id @ ''/persona-timeline'') companion_id model None"

definition restore_persona where
  "restore_persona C model companion_id genome_id change_summary =
     companion_call C ''POST'' (companion_id @ ''/persona-restorations'') companion_id model
       (Some (JObj [(''genome_id'', JStr genome_id), (''change_summary'', JStr change_summary)]))"

definition persona_authoring_template where
  "persona_authoring_template C model =
     bindS (companion_authority C (\<lambda>base. bearer C ''GET'' (base @ ''/persona-authoring-template''))) (\<lambda>response.
       parse_answer ''data'' response model)"

definition persona_presets where
  "persona_presets C model =
     bindS (companion_authority C (\<lambda>base. bearer C ''GET'' (base @ ''/persona-presets''))) (\<lambda>response.
       parse_answer ''data'' response model)"

definition get_persona where
  "get_persona C model companion_id = companion_call C ''GET'' (companion_id @ ''/persona'') companion_id model None"

text \<open>\<open>persona\<close> is the dumped request. The summary is an argument that is not sent.\<close>

definition author_persona where
  "author_persona C model companion_id persona (change_summary :: string) =
     companion_call C ''PUT'' (companion_id @ ''/persona'') companion_id model (Some persona)"

definition get_companion_face_state where
  "get_companion_face_state C model companion_id =
     companion_call C ''GET'' (companion_id @ ''/face-state'') companion_id model None"

definition face_request where
  "face_request C method companion_id content headers =
     companion_authority C (\<lambda>base. bearer C method (base @ ''/companions/'' @ quote companion_id @ ''/face'')
       \<lparr>hq_headers := Some ((''Authorization'', ''Bearer '' @ ac_token C) # headers), hq_content := content\<rparr>)"

definition get_companion_face where
  "get_companion_face C companion_id =
     bindS (face_request C ''GET'' companion_id None []) (\<lambda>response.
       if hr_status response = 204 then ret None
       else if hr_status response = 404 then raise (Failed (failure ''data'' ''not_found'' ''companion not found'' 404))
       else if hr_status response \<noteq> 200 then violated ''data'' ''Data did not serve the Companion face''
       else ret (Some (hr_content response)))"

definition set_companion_face where
  "set_companion_face C model companion_id face =
     bindS (face_request C ''PUT'' companion_id (Some face) [(''Content-Type'', ''image/jpeg'')]) (\<lambda>response.
       if hr_status response \<in> {413, 415, 422}
       then raise (Failed (failure ''data'' ''rejected'' ''companion face was refused'' (hr_status response)))
       else parse_answer ''data'' response model)"

definition clear_companion_face where
  "clear_companion_face C model companion_id =
     bindS (face_request C ''DELETE'' companion_id None []) (\<lambda>response. parse_answer ''data'' response model)"

definition get_owner_default_runtime where
  "get_owner_default_runtime C model owner_id =
     bindS (data_address C ''companion-runtime-authority.http'' DATA_RUNTIME_CONTRACT) (\<lambda>address.
     bindS (send_request ''data'' (ac_send C) (bearer C ''GET''
       (address @ ''/api/companion-authority/v1/owners/'' @ quote owner_id @ ''/default-runtime-snapshot''))) (\<lambda>response.
     bindS (parse_answer ''data'' response model) (\<lambda>runtime.
       if rs_owner_id runtime \<noteq> owner_id then violated ''data'' ''Data returned a different Owner runtime snapshot'' else ret runtime)))"

section \<open>Workspaces\<close>

text \<open>
  \<open>workspace_policy.py\<close>: the fingerprint of a request leaves out the members nobody gave. Persona and
  preferences are SDK models, here as the documents they are dumped to; \<open>prune\<close> is what
  \<open>exclude_none\<close> leaves of such a document, \<open>sha256\<close> the digest in hexadecimal.
\<close>

record WorkspaceInitializeRequest =
  wi_owner_display_name :: string
  wi_companion_display_name :: string
  wi_persona :: "json option"
  wi_preferences :: "json option"
  wi_source_preset_id :: "string option"
  wi_source_preset_revision :: "string option"

definition given :: "string \<Rightarrow> json option \<Rightarrow> jobject" where
  "given k v = (case v of None \<Rightarrow> [] | Some j \<Rightarrow> [(k, j)])"

definition initialize_document :: "WorkspaceInitializeRequest \<Rightarrow> jobject" where
  "initialize_document p =
     [(''owner_display_name'', JStr (wi_owner_display_name p)), (''companion_display_name'', JStr (wi_companion_display_name p))]
     @ given ''persona'' (wi_persona p) @ given ''preferences'' (wi_preferences p)
     @ given ''source_preset_id'' (map_option JStr (wi_source_preset_id p))
     @ given ''source_preset_revision'' (map_option JStr (wi_source_preset_revision p))"

definition workspace_request_fingerprint :: "(bytes \<Rightarrow> string) \<Rightarrow> WorkspaceInitializeRequest \<Rightarrow> string" where
  "workspace_request_fingerprint sha256 payload =
     ''sha256:'' @ sha256 (utf8 (json_dumps False (JObj (initialize_document payload))))"

definition DATA_WORKSPACE_CONTRACT :: string where
  "DATA_WORKSPACE_CONTRACT = ''https://eidolon.live/contracts/system-data/workspace/onboarding-operation-v1.schema.json''"

definition workspace_base_url :: "'w authority_client \<Rightarrow> ('w, call_error, string) op" where
  "workspace_base_url C =
     (if ac_token C = []
      then raise (Failed (failure ''data'' ''configuration'' ''Admin Data workspace authority credential is not configured'' 503))
      else bindS (resolve (ac_directory C) ''data-workspace'' ''workspace-authority.http'' DATA_WORKSPACE_CONTRACT)
             (\<lambda>endpoint. ret (rstrip_slash (se_address endpoint))))"

definition workspace_authority ::
  "'w authority_client \<Rightarrow> (string \<Rightarrow> http_request) \<Rightarrow> ('w, call_error, http_response) op" where
  "workspace_authority C request =
     bindS (workspace_base_url C) (\<lambda>base. send_request ''data'' (ac_send C) (request (base @ ''/api/workspace-authority/v1'')))"

definition smarthome_registry where
  "smarthome_registry C model owner_id method resource payload expected_revision =
     bindS (workspace_authority C (\<lambda>base. bearer C method (base @ ''/owners/'' @ quote owner_id @ ''/smarthome/'' @ resource)
       \<lparr>hq_json := payload, hq_params := map_option (\<lambda>r. [(''expected_revision'', dec_of_int r)]) expected_revision\<rparr>)) (\<lambda>response.
       parse_answer ''data'' response model)"

definition workspace_initialize where
  "workspace_initialize C sha256 prune model operation_id payload =
     bindS (workspace_authority C (\<lambda>base. bearer C ''PUT'' (base @ ''/operations/'' @ quote operation_id)
       \<lparr>hq_json := Some (JObj (initialize_document (payload
          \<lparr>wi_persona := map_option prune (wi_persona payload), wi_preferences := map_option prune (wi_preferences payload)\<rparr>)))\<rparr>)) (\<lambda>response.
     bindS (parse_answer ''data'' response model) (\<lambda>result.
       if wo_operation_id result \<noteq> operation_id then violated ''data'' ''Data returned a different workspace operation''
       else if wo_request_fingerprint result \<noteq> workspace_request_fingerprint sha256 payload
       then violated ''data'' ''Data returned a workspace operation for different setup input''
       else ret result))"

definition owner_call where
  "owner_call C model method owner_id body =
     bindS (workspace_authority C (\<lambda>base. bearer C method (base @ ''/owners/'' @ quote owner_id)\<lparr>hq_json := body\<rparr>)) (\<lambda>response.
     bindS (parse_answer ''data'' response model) (\<lambda>identity.
       if oi_owner_id identity \<noteq> owner_id then violated ''data'' ''Data returned a different Owner identity'' else ret identity))"

definition get_owner where
  "get_owner C model owner_id = owner_call C model ''GET'' owner_id None"

definition rename_owner where
  "rename_owner C model owner_id display_name =
     owner_call C model ''PATCH'' owner_id (Some (JObj [(''display_name'', JStr display_name)]))"

definition provision_body :: "string \<Rightarrow> string \<Rightarrow> json option \<Rightarrow> json option \<Rightarrow> string option \<Rightarrow> string option \<Rightarrow> jobject" where
  "provision_body companion_display_name kind persona preferences source_preset_id source_preset_revision =
     [(''companion_display_name'', JStr companion_display_name), (''kind'', JStr kind)]
     @ given ''preferences'' preferences
     @ (case source_preset_id of None \<Rightarrow> []
        | Some i \<Rightarrow> [(''source_preset_id'', JStr i),
                     (''source_preset_revision'', case source_preset_revision of None \<Rightarrow> JNull | Some r \<Rightarrow> JStr r)])
     @ given ''persona'' persona"

definition provision_companion where
  "provision_companion C model owner_id operation_id companion_display_name kind persona preferences source_preset_id source_preset_revision =
     bindS (workspace_authority C (\<lambda>base. bearer C ''PUT''
         (base @ ''/owners/'' @ quote owner_id @ ''/companion-provisions/'' @ quote operation_id)
       \<lparr>hq_json := Some (JObj (provision_body companion_display_name kind persona preferences source_preset_id source_preset_revision))\<rparr>)) (\<lambda>response.
     bindS (parse_answer ''data'' response model) (\<lambda>result.
       if cp_operation_id result \<noteq> operation_id then violated ''data'' ''Data returned a different provision operation'' else ret result))"

definition set_default_companion where
  "set_default_companion C model owner_id companion_id expected_revision =
     bindS (workspace_authority C (\<lambda>base. bearer C ''PUT'' (base @ ''/owners/'' @ quote owner_id @ ''/default-companion'')
       \<lparr>hq_json := Some (JObj [(''companion_id'', JStr companion_id), (''expected_revision'', JInt expected_revision)])\<rparr>)) (\<lambda>response.
     bindS (parse_answer ''data'' response model) (\<lambda>identity.
       if oi_owner_id identity \<noteq> owner_id then violated ''data'' ''Data returned a different Owner identity''
       else if oi_default_companion_id identity \<noteq> Some companion_id
       then violated ''data'' ''Data accepted the default change without applying it'' else ret identity))"

definition list_governance_events where
  "list_governance_events C model owner_id lim before =
     bindS (workspace_authority C (\<lambda>base. bearer C ''GET'' (base @ ''/owners/'' @ quote owner_id @ ''/governance-events'')
       \<lparr>hq_params := or_none (optional_params [(''limit'', map_option dec_of_int lim), (''before'', map_option dec_of_int before)])\<rparr>)) (\<lambda>response.
     bindS (parse_answer ''data'' response model) (\<lambda>page.
       if og_owner_id page \<noteq> owner_id then violated ''data'' ''Data returned another Owner's governance events'' else ret page))"

definition set_companion_lifecycle where
  "set_companion_lifecycle C model owner_id companion_id lifecycle_state expected_revision replacement_companion_id =
     bindS (workspace_authority C (\<lambda>base. bearer C ''PUT'' (base @ ''/companions/'' @ quote companion_id @ ''/lifecycle'')
       \<lparr>hq_json := Some (JObj ([(''owner_id'', JStr owner_id), (''lifecycle_state'', JStr lifecycle_state)]
          @ given ''expected_revision'' (map_option JInt expected_revision)
          @ given ''replacement_companion_id'' (map_option JStr replacement_companion_id)))\<rparr>)) (\<lambda>response.
     bindS (parse_answer ''data'' response model) (\<lambda>result.
       if cl_companion_id result \<noteq> companion_id then violated ''data'' ''Data returned a different companion lifecycle result''
       else if cl_lifecycle_state result \<noteq> lifecycle_state
       then violated ''data'' ''Data accepted the lifecycle change without applying it'' else ret result))"

definition workspace_get where
  "workspace_get C model operation_id =
     bindS (workspace_authority C (\<lambda>base. bearer C ''GET'' (base @ ''/operations/'' @ quote operation_id))) (\<lambda>response.
     bindS (parse_answer ''data'' response model) (\<lambda>result.
       if wo_operation_id result \<noteq> operation_id then violated ''data'' ''Data returned a different workspace operation'' else ret result))"

section \<open>Refusals\<close>

lemma speaks_violated [speaks_intros]: "a \<in> set authorities \<Longrightarrow> speaks (violated a d)"
  unfolding violated_def by (intro speaks_raise) simp

lemma speaks_data_address [speaks_intros]: "speaks (data_address C e c)"
  unfolding data_address_def by (intro speaks_intros) simp

lemma speaks_companion_authority [speaks_intros]: "speaks (companion_authority C q)"
  unfolding companion_authority_def by (intro speaks_intros) simp

lemma speaks_workspace_authority [speaks_intros]: "speaks (workspace_authority C q)"
  unfolding workspace_authority_def workspace_base_url_def by (intro speaks_intros) simp_all

lemma speaks_companion_call [speaks_intros]: "speaks (companion_call C method path companion_id model body)"
  unfolding companion_call_def Let_def by (intro speaks_intros) simp

lemma speaks_face_request [speaks_intros]: "speaks (face_request C method companion_id content headers)"
  unfolding face_request_def by (intro speaks_intros)

lemma speaks_owner_call [speaks_intros]: "speaks (owner_call C model method owner_id body)"
  unfolding owner_call_def by (intro speaks_intros) simp_all

text \<open>
  Every refusal of the two clients of Data can be put on the wire, save that of a face.
\<close>

lemma data_reads_speak:
  "speaks (get_companion C model companion_id)" "speaks (list_owner_companions C pages owner_id cursor lim)"
  "speaks (get_owner_companion C model owner_id companion_id)" "speaks (get_persona_timeline C any companion_id)"
  "speaks (persona_authoring_template C any)" "speaks (persona_presets C any)" "speaks (get_persona C any companion_id)"
  "speaks (get_companion_face_state C any companion_id)" "speaks (get_companion_face C companion_id)"
  "speaks (get_owner_default_runtime C runtimes owner_id)"
  unfolding get_companion_def list_owner_companions_def get_owner_companion_def get_persona_timeline_def persona_authoring_template_def
    persona_presets_def get_persona_def get_companion_face_state_def get_companion_face_def get_owner_default_runtime_def
  by (intro speaks_intros; simp)+

lemma data_writes_speak:
  "speaks (rename_companion C model companion_id display_name)" "speaks (restore_persona C any companion_id genome_id change_summary)"
  "speaks (author_persona C any companion_id persona change_summary)" "speaks (clear_companion_face C any companion_id)"
  unfolding rename_companion_def restore_persona_def author_persona_def clear_companion_face_def
  by (intro speaks_intros; simp)+

lemma workspace_speaks:
  "speaks (smarthome_registry C any owner_id method resource payload revision)"
  "speaks (workspace_initialize C sha256 prune ops operation_id request)" "speaks (get_owner C owners owner_id)"
  "speaks (rename_owner C owners owner_id display_name)"
  "speaks (provision_companion C provisions owner_id operation_id name kind persona preferences preset preset_revision)"
  "speaks (set_default_companion C owners owner_id companion_id expected)" "speaks (list_governance_events C events owner_id lim before)"
  "speaks (set_companion_lifecycle C lives owner_id companion_id state revision replacement)" "speaks (workspace_get C ops operation_id)"
  unfolding smarthome_registry_def workspace_initialize_def get_owner_def rename_owner_def provision_companion_def
    set_default_companion_def list_governance_events_def set_companion_lifecycle_def workspace_get_def
  by (intro speaks_intros; simp)+

section \<open>The refusal of a face\<close>

lemma rejected_unspeakable: "handle_failure (failure ''data'' ''rejected'' d s) = Inl (Raised (KeyErr ''rejected''))"
  by (simp add: handle_failure_def to_wire_def to_refusal_def failure_def PUBLIC_REFUSAL_KIND_def)

text \<open>Data answered, with one of the statuses that mean the picture itself.\<close>

definition face_rejected :: "'w authority_client \<Rightarrow> string \<Rightarrow> bytes \<Rightarrow> 'w \<Rightarrow> 'w \<Rightarrow> bool" where
  "face_rejected C companion_id face w w' \<longleftrightarrow>
     (case face_request C ''PUT'' companion_id (Some face) [(''Content-Type'', ''image/jpeg'')] w of
        (Inr response, w1) \<Rightarrow> w1 = w' \<and> hr_status response \<in> {413, 415, 422}
      | _ \<Rightarrow> False)"

text \<open>
  C11. Setting a face may be refused in two ways. When Data answers 413, 415 or 422 the refusal has a kind
  that the control plane has no public word for, and the handler that should turn it into a response raises
  \<open>KeyError\<close> instead; every other refusal becomes a response with its own status.
\<close>

theorem face_refusal_unanswered:
  assumes "set_companion_face C model companion_id face w = (Inl (Failed f), w')"
  shows "if face_rejected C companion_id face w w' then handle_failure f = Inl (Raised (KeyErr ''rejected''))
    else \<exists>wire. handle_failure f = Inr (af_status_code f, wire)"
proof -
  have spoken: "\<exists>wire. handle_failure g = Inr (af_status_code g, wire)" if "speakable (Failed g)" for g
    using that by (auto simp: speakable_def handle_failure_def simp del: speakable_failed split: sum.splits)
  obtain r w1 where req: "face_request C ''PUT'' companion_id (Some face) [(''Content-Type'', ''image/jpeg'')] w = (r, w1)" by fastforce
  show ?thesis
  proof (cases r)
    case (Inl e)
    with assms req have "e = Failed f" by (auto simp: set_companion_face_def bindS_def)
    with speaksD [OF speaks_face_request req [unfolded Inl]] have "speakable (Failed f)" by simp
    with req Inl spoken show ?thesis by (simp add: face_rejected_def)
  next
    case (Inr response)
    show ?thesis
    proof (cases "hr_status response \<in> {413, 415, 422}")
      case True
      with assms req Inr have "f = failure ''data'' ''rejected'' ''companion face was refused'' (hr_status response)" "w' = w1"
        by (auto simp: set_companion_face_def bindS_def raise_def)
      with req Inr True show ?thesis by (auto simp: face_rejected_def rejected_unspeakable)
    next
      case False
      with assms req Inr have run: "parse_answer ''data'' response model w1 = (Inl (Failed f), w')"
        by (auto simp: set_companion_face_def bindS_def)
      have "speakable (Failed f)" by (rule speaksD [OF speaks_parse run]) simp
      with req Inr False spoken show ?thesis by (auto simp: face_rejected_def)
    qed
  qed
qed

text \<open>A Data that finds every picture too large, reached through a directory that names it.\<close>

definition example_data :: "unit authority_client" where
  "example_data = \<lparr>ac_directory = \<lparr>sd_base_url = ''d'', sd_timeout = 1, sd_send = (\<lambda>q w. (Answered
      \<lparr>hr_status = 200, hr_content = [], hr_json = Some (JObj [(''operation'', JStr ''system.service-endpoint''), (''service_id'', JStr ''data''),
         (''endpoint_id'', JStr ''companion-authority.http''), (''protocol'', JStr ''http''), (''address'', JStr ''http://h''),
         (''contract'', JStr DATA_CONTRACT)])\<rparr>, w))\<rparr>,
     ac_send = (\<lambda>q w. (Answered \<lparr>hr_status = 413, hr_content = [], hr_json = None\<rparr>, w)), ac_token = ''t'', ac_timeout = 1\<rparr>"

lemma example_data_resolves:
  "\<exists>e. resolve (ac_directory example_data) ''data'' ''companion-authority.http'' DATA_CONTRACT w = (Inr e, w)"
proof -
  have "urlparse ''http://h'' = Some (''http'', ''h'')"
    by (simp add: urlparse_def url_scheme_def unreserved_def is_ascii_letter_def lower_def Let_def)
  then show ?thesis
    by (simp add: resolve_def example_data_def http_request_to_def service_endpoint_def bounded_str_def DATA_CONTRACT_def
        check_endpoint_def ret_def Let_def)
qed

theorem face_refusal_unanswered_witness:
  "\<exists>f. set_companion_face example_data (\<lambda>_. Some ()) ''c'' [] () = (Inl (Failed f), ()) \<and> af_status_code f = 413
     \<and> handle_failure f = Inl (Raised (KeyErr ''rejected''))"
proof -
  have token: "ac_token example_data = ''t''" by (simp add: example_data_def)
  have req: "face_request example_data m c b h w = (Inr \<lparr>hr_status = 413, hr_content = [], hr_json = None\<rparr>, w)" for m c b h w
    using example_data_resolves [of w] token
    by (auto simp: face_request_def companion_authority_def data_address_def bindS_def ret_def send_request_def, simp add: example_data_def)
  let ?f = "failure ''data'' ''rejected'' ''companion face was refused'' 413"
  have run: "set_companion_face example_data (\<lambda>_. Some ()) ''c'' [] () = (Inl (Failed ?f), ())"
    by (simp add: set_companion_face_def bindS_def req raise_def)
  have "face_rejected example_data ''c'' [] () ()" by (simp add: face_rejected_def req)
  with face_refusal_unanswered [OF run] have "handle_failure ?f = Inl (Raised (KeyErr ''rejected''))" by simp
  with run show ?thesis by (metis failure_sel(3))
qed

end
