(* ===== verification/Hub_Clients.thy ===== *)
theory Hub_Clients
  imports Decision_Workflow Data_Clients
begin

text \<open>
  \<open>HubManagementClient\<close>, \<open>HubSmartHomeClient\<close> and \<open>KernelMountClient\<close> of \<open>app/control_plane/clients.py\<close>:
  what the workflows of the service call.
\<close>

section \<open>The Hub\<close>

definition HUB_CONTRACT :: string where
  "HUB_CONTRACT = ''eidolon.hub.device-directory.v1''"

definition hub_base_url :: "'w authority_client \<Rightarrow> ('w, call_error, string) op" where
  "hub_base_url C = bindS (resolve (ac_directory C) ''hub'' ''device-authority.http'' HUB_CONTRACT) (\<lambda>endpoint. ret (rstrip_slash (se_address endpoint)))"

definition hub_headers :: "string \<Rightarrow> call_error + (string \<times> string) list" where
  "hub_headers authorization =
     (if py_strip authorization = [] then Inl (Failed (failure ''hub'' ''unauthorized'' ''Bearer Hub management credential required'' 401))
      else Inr [(''Authorization'', authorization)])"

text \<open>The address is resolved before the headers are made.\<close>

definition hub_request ::
  "'w authority_client \<Rightarrow> string \<Rightarrow> (string \<Rightarrow> http_request) \<Rightarrow> ('w, call_error, http_response) op" where
  "hub_request C authorization request =
     bindS (hub_base_url C) (\<lambda>base. case hub_headers authorization of
       Inl e \<Rightarrow> raise e
     | Inr headers \<Rightarrow> send_request ''hub'' (ac_send C) (request base\<lparr>hq_headers := Some headers\<rparr>))"

definition hub_to :: "'w authority_client \<Rightarrow> string \<Rightarrow> string \<Rightarrow> http_request" where
  "hub_to C method url = http_request_to method url (ac_timeout C)"

text \<open>\<open>dump\<close> is what a command is sent as.\<close>

definition hub_decide_enrollment ::
  "'w authority_client \<Rightarrow> (bytes \<Rightarrow> 'act DecideEnrollmentResult option) \<Rightarrow> (('man, 'more) DecideEnrollment \<Rightarrow> jobject)
    \<Rightarrow> ('man, 'more) DecideEnrollment \<Rightarrow> string \<Rightarrow> string \<Rightarrow> string \<Rightarrow> ('w, call_error, 'act DecideEnrollmentResult) op" where
  "hub_decide_enrollment C model dump command command_id correlation_id authorization =
     bindS (hub_request C authorization (\<lambda>base. hub_to C ''POST''
         (base @ ''/api/admission/v1/enrollments/'' @ quote (dc_enrollment_id command) @ ''/decisions'')
       \<lparr>hq_json := Some (JObj ([(''command_id'', JStr command_id), (''correlation_id'', JStr correlation_id)] @ dump command))\<rparr>)) (\<lambda>response.
     bindS (parse_answer ''hub'' response model) (\<lambda>result.
       if dd_proposal_revision result \<noteq> dc_expected_proposal_revision command
       then violated ''hub'' ''Hub Decision response changed the reviewed Proposal content revision'' else ret result))"

text \<open>\<open>status_model\<close> validates an answer and dumps it again.\<close>

definition conversation_command ::
  "'w authority_client \<Rightarrow> (json \<Rightarrow> jobject option) \<Rightarrow> string \<Rightarrow> string \<Rightarrow> jobject \<Rightarrow> string \<Rightarrow> ('w, call_error, jobject) op" where
  "conversation_command C status_model resource action command authorization =
     (if action \<notin> {''open'', ''status'', ''close''} then raise (Raised (ValueErr ''invalid device conversation action''))
      else bindS (hub_request C authorization (\<lambda>base. http_request_to ''POST''
             (base @ ''/api/device-control/v1/'' @ resource @ ''/'' @ action) 35000\<lparr>hq_json := Some (JObj command)\<rparr>)) (\<lambda>response.
        if \<not> (200 \<le> hr_status response \<and> hr_status response < 300) then raise (Failed (raise_status ''hub'' response))
        else case Option.bind (hr_json response) status_model of
               None \<Rightarrow> violated ''hub'' ''invalid device conversation response''
             | Some result \<Rightarrow>
                 (case (map_of result ''session_id'', map_of command ''session_id'') of
                    (Some a, Some b) \<Rightarrow> if a \<noteq> b then violated ''hub'' ''invalid device conversation response'' else ret result
                  | _ \<Rightarrow> raise (Raised (KeyErr ''session_id'')))))"

definition hub_device_conversation where
  "hub_device_conversation C status_model action command authorization =
     conversation_command C status_model ''device-conversations'' action command authorization"

definition hub_role_group where
  "hub_role_group C status_model action command authorization =
     conversation_command C status_model ''role-groups'' action command authorization"

definition hub_shared_session :: "'w authority_client \<Rightarrow> string \<Rightarrow> jobject \<Rightarrow> string \<Rightarrow> ('w, call_error, jobject) op" where
  "hub_shared_session C action command authorization =
     (if action \<notin> {''open'', ''close''} then raise (Raised (ValueErr ''invalid shared session action''))
      else bindS (hub_request C authorization (\<lambda>base. http_request_to ''POST''
             (base @ ''/api/device-control/v1/shared-sessions/'' @ action) 35000\<lparr>hq_json := Some (JObj command)\<rparr>)) (\<lambda>response.
        if \<not> (200 \<le> hr_status response \<and> hr_status response < 300) then raise (Failed (raise_status ''hub'' response))
        else case hr_json response of
               None \<Rightarrow> violated ''hub'' ''invalid shared session response''
             | Some j \<Rightarrow>
                 (case map_of command ''session_id'' of
                    None \<Rightarrow> raise (Raised (KeyErr ''session_id''))
                  | Some expected_id \<Rightarrow>
                      (case j of
                         JObj result \<Rightarrow>
                           (if jget ''session_id'' result \<noteq> expected_id
                               \<or> jget ''state'' result \<noteq> JStr (if action = ''open'' then ''transport_ready'' else ''closed'')
                            then violated ''hub'' ''invalid shared session response'' else ret result)
                       | _ \<Rightarrow> violated ''hub'' ''invalid shared session response''))))"

text \<open>\<open>ref_of\<close> reads the device an answer is about, \<open>allowed_of\<close> the outputs a policy allows.\<close>

definition hub_read_device_output_configuration where
  "hub_read_device_output_configuration C model ref_of (query :: json) device_ref authorization =
     bindS (hub_request C authorization (\<lambda>base. hub_to C ''POST'' (base @ ''/api/device-control/v1/output-policy-queries'')
       \<lparr>hq_json := Some query, hq_replay_safe := True\<rparr>)) (\<lambda>response.
     bindS (parse_answer ''hub'' response model) (\<lambda>configuration.
       if ref_of configuration \<noteq> device_ref then violated ''hub'' ''Hub output configuration answered about another device'' else ret configuration))"

definition hub_set_device_output_policy where
  "hub_set_device_output_policy C model allowed_of (command :: json) allowed authorization =
     bindS (hub_request C authorization (\<lambda>base. hub_to C ''PUT'' (base @ ''/api/device-control/v1/output-policy'')
       \<lparr>hq_json := Some command\<rparr>)) (\<lambda>response.
     bindS (parse_answer ''hub'' response model) (\<lambda>policy.
       if allowed_of policy \<noteq> allowed then violated ''hub'' ''Hub stored an output policy other than the one decided'' else ret policy))"

definition hub_get_enrollment_recovery ::
  "'w authority_client \<Rightarrow> (bytes \<Rightarrow> ('man, 'act) recovery option) \<Rightarrow> string \<Rightarrow> string \<Rightarrow> ('w, call_error, ('man, 'act) recovery) op" where
  "hub_get_enrollment_recovery C model enrollment_id authorization =
     bindS (hub_request C authorization (\<lambda>base. hub_to C ''GET'' (base @ ''/api/admission/v1/enrollments/'' @ quote enrollment_id))) (\<lambda>response.
     bindS (parse_answer ''hub'' response model) (\<lambda>projection.
       if pp_enrollment_id (rv_proposal projection) \<noteq> enrollment_id
       then violated ''hub'' ''Hub recovery query returned another Enrollment'' else ret projection))"

text \<open>A page query of the SDK, and a page with the Owner Domain it belongs to.\<close>

record page_query =
  pq_owner_domain_id :: string
  pq_states :: "string list"
  pq_limit :: int
  pq_cursor :: "(string \<times> string) option"

record 'item owner_page =
  pg_owner_domain_id :: string
  pg_items :: "'item list"

definition page_params :: "page_query \<Rightarrow> (string \<times> string) list" where
  "page_params query =
     [(''states'', join_with '','' (pq_states query)), (''limit'', dec_of_int (pq_limit query))]
     @ (case pq_cursor query of None \<Rightarrow> []
        | Some (key, resource_id) \<Rightarrow> [(''after_sort_key'', key), (''after_resource_id'', resource_id)])"

definition hub_list_enrollment_recovery where
  "hub_list_enrollment_recovery C model query authorization =
     bindS (hub_request C authorization (\<lambda>base. hub_to C ''GET'' (base @ ''/api/admission/v1/enrollments'')
       \<lparr>hq_params := Some (page_params query)\<rparr>)) (\<lambda>response.
     bindS (parse_answer ''hub'' response model) (\<lambda>page.
       if pg_owner_domain_id page \<noteq> pq_owner_domain_id query
       then violated ''hub'' ''Hub Enrollment page crossed its requested Owner Domain'' else ret page))"

definition json_answer :: "http_response \<Rightarrow> ('w, call_error, json) op" where
  "json_answer response = (case hr_json response of None \<Rightarrow> raise (OtherErr ''JSONDecodeError'') | Some j \<Rightarrow> ret j)"

text \<open>The next three give back whatever JSON came, whatever its status.\<close>

definition hub_base_identity_for_key where
  "hub_base_identity_for_key C authorization operational_key_id =
     bindS (hub_request C authorization (\<lambda>base. hub_to C ''GET'' (base @ ''/api/admission/v1/base-identities'')
       \<lparr>hq_params := Some [(''operational_key_id'', operational_key_id)]\<rparr>)) json_answer"

definition hub_record_commissioning_standing where
  "hub_record_commissioning_standing C authorization jti operational_key_id =
     bindS (hub_request C authorization (\<lambda>base. hub_to C ''POST'' (base @ ''/api/admission/v1/commissioning-standings'')
       \<lparr>hq_json := Some (JObj [(''contract_version'', JStr ''1''), (''jti'', JStr jti), (''operational_key_id'', JStr operational_key_id)])\<rparr>)) json_answer"

definition hub_withdraw_controller where
  "hub_withdraw_controller C authorization principal_id =
     bindS (hub_request C authorization (\<lambda>base. hub_to C ''POST'' (base @ ''/api/admission/v1/controller-withdrawals'')
       \<lparr>hq_json := Some (JObj [(''contract_version'', JStr ''1''), (''principal_id'', JStr principal_id)])\<rparr>)) json_answer"

definition hub_list_authorized_enrollments where
  "hub_list_authorized_enrollments C model authorization states lim =
     bindS (hub_request C authorization (\<lambda>base. hub_to C ''GET'' (base @ ''/api/admission/v1/enrollments'')
       \<lparr>hq_params := Some [(''states'', join_with '','' states), (''limit'', dec_of_int lim)]\<rparr>)) (\<lambda>response.
       parse_answer ''hub'' response model)"

definition hub_list_claims where
  "hub_list_claims C model query authorization =
     bindS (hub_request C authorization (\<lambda>base. hub_to C ''GET'' (base @ ''/api/admission/v1/claims'')
       \<lparr>hq_params := Some (page_params query)\<rparr>)) (\<lambda>response.
     bindS (parse_answer ''hub'' response model) (\<lambda>page.
       if pg_owner_domain_id page \<noteq> pq_owner_domain_id query
       then violated ''hub'' ''Hub Claim page crossed its requested Owner Domain'' else ret page))"

definition hub_list_authorized_claims where
  "hub_list_authorized_claims C model authorization states lim =
     bindS (hub_request C authorization (\<lambda>base. hub_to C ''GET'' (base @ ''/api/admission/v1/claims'')
       \<lparr>hq_params := Some [(''states'', join_with '','' states), (''limit'', dec_of_int lim)]\<rparr>)) (\<lambda>response.
       parse_answer ''hub'' response model)"

text \<open>What a revocation answers: the command, the device and its state.\<close>

record ('ref, 'more) HubClaimRevocationResult =
  hv_command_id :: string
  hv_device_ref :: 'ref
  hv_lifecycle_state :: string
  hv_rest :: 'more

definition hub_revoke ::
  "'w authority_client \<Rightarrow> ('ref, 'res) sdk \<Rightarrow> (bytes \<Rightarrow> ('ref, 'more) HubClaimRevocationResult option) \<Rightarrow> ('ref \<Rightarrow> json)
    \<Rightarrow> 'ref \<Rightarrow> string \<Rightarrow> string \<Rightarrow> string \<Rightarrow> string \<Rightarrow> ('w, call_error, ('ref, 'more) HubClaimRevocationResult) op" where
  "hub_revoke C S model dump device_ref reason command_id correlation_id authorization =
     bindS (hub_request C authorization (\<lambda>base. hub_to C ''POST''
         (base @ ''/api/admission/v1/claims/'' @ quote (ref_device_instance_id S device_ref) @ '':revoke'')
       \<lparr>hq_json := Some (JObj [(''operation'', JStr ''device.claim-revocation''), (''command_id'', JStr command_id),
          (''correlation_id'', JStr correlation_id), (''device_ref'', dump device_ref), (''reason'', JStr reason)])\<rparr>)) (\<lambda>response.
     bindS (parse_answer ''hub'' response model) (\<lambda>result.
       if hv_command_id result \<noteq> command_id \<or> hv_device_ref result \<noteq> device_ref \<or> hv_lifecycle_state result \<noteq> ''revoked''
       then violated ''hub'' ''Hub revocation response did not confirm the requested Claim'' else ret result))"

definition hub_get_device_control_operation where
  "hub_get_device_control_operation C S model ref_of device_ref source_claim_event_id authorization =
     bindS (hub_request C authorization (\<lambda>base. hub_to C ''GET''
         (base @ ''/api/device-control/v1/owners/'' @ quote (ref_owner_domain_id S device_ref) @ ''/devices/''
            @ quote (ref_device_instance_id S device_ref) @ ''/erase-operations'')
       \<lparr>hq_params := Some [(''source_claim_event_id'', source_claim_event_id),
          (''owner_domain_generation'', dec_of_int (ref_owner_domain_generation S device_ref)),
          (''claim_generation'', dec_of_int (ref_claim_generation S device_ref)),
          (''trust_epoch'', dec_of_int (ref_trust_epoch S device_ref))]\<rparr>)) (\<lambda>response.
     bindS (parse_answer ''hub'' response model) (\<lambda>result.
       if ref_of result \<noteq> device_ref then violated ''hub'' ''Device Control status crossed its requested Claim scope'' else ret result))"

definition smarthome_call :: "'w authority_client \<Rightarrow> string \<Rightarrow> string \<Rightarrow> jobject option \<Rightarrow> ('w, call_error, jobject) op" where
  "smarthome_call C owner_id path body =
     (if ac_token C = [] then raise (Failed (failure ''hub'' ''unauthorized'' ''Hub smart-home credential was not configured'' 503))
      else bindS (hub_base_url C) (\<lambda>base.
           bindS (send_request ''hub'' (ac_send C) (bearer C ''POST'' (base @ ''/api/smarthome/v1/'' @ path)
             \<lparr>hq_json := Some (JObj (fold (\<lambda>(k, v). dict_set k v) (case body of None \<Rightarrow> [] | Some b \<Rightarrow> b) [(''owner_id'', JStr owner_id)]))\<rparr>)) (\<lambda>response.
             if \<not> (200 \<le> hr_status response \<and> hr_status response < 300) then raise (Failed (raise_status ''hub'' response))
             else case hr_json response of
                    None \<Rightarrow> violated ''hub'' ''Hub smart-home answer was not JSON''
                  | Some (JObj answer) \<Rightarrow> ret answer
                  | Some _ \<Rightarrow> violated ''hub'' ''Hub smart-home answer was not an object'')))"

section \<open>The Kernel\<close>

definition KERNEL_CONTRACT :: string where
  "KERNEL_CONTRACT = ''eidolon.kernel.device-mount.v1''"

record KernelMutationResult =
  kr_mount :: KernelMount
  kr_replayed :: bool

record body_assignment =
  ba_companion_id :: "string option"
  ba_revision :: int

record KernelBodyEndpoint =
  be_device_id :: string
  be_owner_id :: string
  be_body_endpoint_id :: string
  be_assignment :: "body_assignment option"

definition assignment_revision_of :: "KernelBodyEndpoint \<Rightarrow> int" where
  "assignment_revision_of endpoint = (case be_assignment endpoint of None \<Rightarrow> 0 | Some a \<Rightarrow> ba_revision a)"

definition kernel_request ::
  "'w authority_client \<Rightarrow> string \<Rightarrow> (string \<Rightarrow> http_request) \<Rightarrow> ('w, call_error, http_response) op" where
  "kernel_request C owner_id request =
     bindS (resolve (ac_directory C) ''kernel'' ''device-mount.http'' KERNEL_CONTRACT) (\<lambda>endpoint.
       send_request ''kernel'' (ac_send C) (request (rstrip_slash (se_address endpoint))\<lparr>hq_headers := Some [(''X-Eidolon-Owner'', owner_id)]\<rparr>))"

definition kernel_mount ::
  "'w authority_client \<Rightarrow> (bytes \<Rightarrow> KernelMutationResult option) \<Rightarrow> string \<Rightarrow> string \<Rightarrow> string \<Rightarrow> int \<Rightarrow> bool
    \<Rightarrow> ('w, call_error, KernelMutationResult) op" where
  "kernel_mount C model owner_id device_id request_id expected_revision replace_existing =
     bindS (kernel_request C owner_id (\<lambda>base. hub_to C ''POST'' (base @ ''/api/kernel/v1/device-mounts'')
       \<lparr>hq_json := Some (JObj [(''operation'', JStr ''device.mount''), (''request_id'', JStr request_id), (''device_id'', JStr device_id),
          (''expected_revision'', JInt expected_revision), (''replace_existing'', JBool replace_existing)])\<rparr>)) (\<lambda>response.
     bindS (parse_answer ''kernel'' response model) (\<lambda>result.
       if km_device_id (kr_mount result) \<noteq> device_id \<or> km_owner_id (kr_mount result) \<noteq> owner_id \<or> \<not> km_active (kr_mount result)
       then violated ''kernel'' ''Kernel Mount response did not confirm the requested owner/device'' else ret result))"

definition kernel_replace_assignment ::
  "'w authority_client \<Rightarrow> (bytes \<Rightarrow> KernelBodyEndpoint option) \<Rightarrow> string \<Rightarrow> string \<Rightarrow> string option \<Rightarrow> string \<Rightarrow> int \<Rightarrow> string \<Rightarrow> string option
    \<Rightarrow> ('w, call_error, KernelBodyEndpoint) op" where
  "kernel_replace_assignment C model owner_id device_id companion_id request_id expected_assignment_revision origin change_reason =
     (let body_endpoint_id = device_id @ '':body''
      in bindS (kernel_request C owner_id (\<lambda>base. hub_to C ''PUT'' (base @ ''/api/kernel/v1/body-endpoints/'' @ quote body_endpoint_id @ ''/assignment'')
           \<lparr>hq_json := Some (JObj ([(''operation'', JStr ''body.replace-assignment''), (''request_id'', JStr request_id),
              (''expected_assignment_revision'', JInt expected_assignment_revision),
              (''companion_id'', case companion_id of None \<Rightarrow> JNull | Some c \<Rightarrow> JStr c), (''origin'', JStr origin)]
              @ given ''change_reason'' (map_option JStr change_reason)))\<rparr>)) (\<lambda>response.
         bindS (parse_answer ''kernel'' response model) (\<lambda>endpoint.
           if be_device_id endpoint \<noteq> device_id \<or> be_owner_id endpoint \<noteq> owner_id \<or> be_body_endpoint_id endpoint \<noteq> body_endpoint_id
              \<or> (case be_assignment endpoint of None \<Rightarrow> None | Some a \<Rightarrow> ba_companion_id a) \<noteq> companion_id
           then violated ''kernel'' ''Kernel Body assignment response did not confirm the requested identities'' else ret endpoint)))"

definition kernel_list_body_endpoints ::
  "'w authority_client \<Rightarrow> (bytes \<Rightarrow> KernelBodyEndpoint list option) \<Rightarrow> string \<Rightarrow> ('w, call_error, KernelBodyEndpoint list) op" where
  "kernel_list_body_endpoints C model owner_id =
     bindS (kernel_request C owner_id (\<lambda>base. hub_to C ''GET'' (base @ ''/api/kernel/v1/body-endpoints''))) (\<lambda>response.
     bindS (parse_answer ''kernel'' response model) (\<lambda>page.
       if list_ex (\<lambda>e. be_owner_id e \<noteq> owner_id) page
       then violated ''kernel'' ''Kernel Body endpoint page crossed the requested owner scope'' else ret page))"

definition kernel_list_mounts ::
  "'w authority_client \<Rightarrow> (bytes \<Rightarrow> KernelMount list option) \<Rightarrow> string \<Rightarrow> int \<Rightarrow> ('w, call_error, KernelMount list) op" where
  "kernel_list_mounts C model owner_id lim =
     bindS (kernel_request C owner_id (\<lambda>base. hub_to C ''GET''
       (base @ ''/api/kernel/v1/device-mounts?active_only=false&limit='' @ dec_of_int lim))) (\<lambda>response.
     bindS (parse_answer ''kernel'' response model) (\<lambda>page.
       if list_ex (\<lambda>m. km_owner_id m \<noteq> owner_id) page
       then violated ''kernel'' ''Kernel Mount page crossed the requested owner scope'' else ret page))"

section \<open>Refusals\<close>

lemma speaks_sum [speaks_intros]:
  "(\<And>e. v = Inl e \<Longrightarrow> speaks (f e)) \<Longrightarrow> (\<And>x. v = Inr x \<Longrightarrow> speaks (g x)) \<Longrightarrow> speaks (case v of Inl e \<Rightarrow> f e | Inr x \<Rightarrow> g x)"
  by (simp split: sum.split)

lemma speaks_Let [speaks_intros]: "speaks (f x) \<Longrightarrow> speaks (let y = x in f y)"
  by simp

lemma speaks_hub_base_url [speaks_intros]: "speaks (hub_base_url C)"
  unfolding hub_base_url_def by (intro speaks_intros)

lemma speaks_hub_request [speaks_intros]: "speaks (hub_request C authorization q)"
  unfolding hub_request_def hub_headers_def by (intro speaks_intros) (auto split: if_splits)

lemma speaks_kernel_request [speaks_intros]: "speaks (kernel_request C owner_id q)"
  unfolding kernel_request_def by (intro speaks_intros) simp

lemma speaks_json_answer [speaks_intros]: "speaks (json_answer r)"
  unfolding json_answer_def by (intro speaks_intros) simp

lemma speaks_conversation [speaks_intros]: "speaks (conversation_command C m resource action command authorization)"
  unfolding conversation_command_def by (intro speaks_intros) (auto intro!: speaks_intros split: option.split)

text \<open>Every refusal of the clients of the Hub and of the Kernel can be put on the wire.\<close>

lemma hub_speaks:
  "speaks (hub_decide_enrollment C decisions dump command command_id correlation_id authorization)"
  "speaks (hub_device_conversation C m action objects authorization)" "speaks (hub_role_group C m action objects authorization)"
  "speaks (hub_read_device_output_configuration C any ref_of query device authorization)"
  "speaks (hub_set_device_output_policy C any allowed_of query allowed authorization)"
  "speaks (hub_get_enrollment_recovery C recoveries enrollment_id authorization)"
  "speaks (hub_list_enrollment_recovery C pages pq authorization)" "speaks (hub_base_identity_for_key C authorization key)"
  "speaks (hub_record_commissioning_standing C authorization jti key)" "speaks (hub_withdraw_controller C authorization principal_id)"
  "speaks (hub_list_authorized_enrollments C any authorization states lim)" "speaks (hub_list_claims C pages pq authorization)"
  "speaks (hub_list_authorized_claims C any authorization states lim)"
  "speaks (hub_revoke C S revocations dumped device reason command_id correlation_id authorization)"
  "speaks (hub_get_device_control_operation C S any ref_of device event authorization)"
  unfolding hub_decide_enrollment_def hub_device_conversation_def hub_role_group_def hub_read_device_output_configuration_def
    hub_set_device_output_policy_def hub_get_enrollment_recovery_def hub_list_enrollment_recovery_def hub_base_identity_for_key_def
    hub_record_commissioning_standing_def hub_withdraw_controller_def hub_list_authorized_enrollments_def hub_list_claims_def
    hub_list_authorized_claims_def hub_revoke_def hub_get_device_control_operation_def
  by (intro speaks_intros; simp)+

lemma hub_sessions_speak:
  "speaks (hub_shared_session C action command authorization)" "speaks (smarthome_call C owner_id path body)"
  unfolding hub_shared_session_def smarthome_call_def by (intro speaks_intros; simp)+

lemma kernel_speaks:
  "speaks (kernel_mount C mutations owner_id device_id request_id expected replace)"
  "speaks (kernel_replace_assignment C endpoints owner_id device_id companion request_id expected origin reason)"
  "speaks (kernel_list_body_endpoints C endpoint_pages owner_id)" "speaks (kernel_list_mounts C mount_pages owner_id lim)"
  unfolding kernel_mount_def kernel_replace_assignment_def kernel_list_body_endpoints_def kernel_list_mounts_def
  by (intro speaks_intros; simp)+

text \<open>What the Kernel's clients hand on is about the device and the Owner that were asked for.\<close>

lemma kernel_answers:
  "kernel_mount C mutations owner_id device_id request_id expected replace w = (Inr res, w')
     \<Longrightarrow> km_device_id (kr_mount res) = device_id \<and> km_owner_id (kr_mount res) = owner_id \<and> km_active (kr_mount res)"
  "kernel_list_mounts C mount_pages owner_id lim w = (Inr mounts, w') \<Longrightarrow> m \<in> set mounts \<Longrightarrow> km_owner_id m = owner_id"
  "kernel_list_body_endpoints C endpoint_pages owner_id w = (Inr es, w') \<Longrightarrow> e \<in> set es \<Longrightarrow> be_owner_id e = owner_id"
  by (auto simp: kernel_mount_def kernel_list_mounts_def kernel_list_body_endpoints_def violated_def ret_def raise_def list_ex_iff split: if_splits)

end
