(* ===== verification/Operator_Admission.thy ===== *)
theory Operator_Admission
  imports Hub_Clients
begin

text \<open>
  The operator's page of \<open>ControlPlaneService\<close> (\<open>app/control_plane/service.py\<close>): \<open>admit_operator_device\<close>, which approves an
  enrollment at the Hub, mounts the device at the Kernel and points its body at a Companion, and
  \<open>operator_owner_inventory\<close>, which shows what both hold.
\<close>

section \<open>Documents\<close>

record OperatorDeviceAdmissionRequest =
  oq_request_id :: string
  oq_owner_id :: string
  oq_device_id :: string
  oq_companion_id :: "string option"
  oq_expected_mount_revision :: int
  oq_replace_existing_mount :: bool

record OperatorDeviceAdmissionResult =
  oa_request_id :: string
  oa_outcome :: string
  oa_completed_stage :: string
  oa_recovery :: string
  oa_steps :: "WorkflowStep list"
  oa_mount :: "KernelMount option"

definition OPERATOR_ENROLLMENT_STATES :: "string list" where
  "OPERATOR_ENROLLMENT_STATES =
     [''pending_review'', ''approved_awaiting_handoff'', ''grant_delivered'', ''grant_acknowledged'', ''rejected'', ''expired'',
      ''canceled'', ''claim_revoked'']"

definition operator_child_request_id :: "string \<Rightarrow> string \<Rightarrow> string" where
  "operator_child_request_id request_id child = ''admin:'' @ request_id @ '':'' @ child"

text \<open>The collaborators. What a decision answers is not read here.\<close>

record ('w, 'man, 'act) operator_service =
  os_list_authorized_enrollments :: "string \<Rightarrow> string list \<Rightarrow> ('w, call_error, ('man, 'act) recovery list) op"
  os_decide_enrollment :: "('man, unit) DecideEnrollment \<Rightarrow> string \<Rightarrow> string \<Rightarrow> string \<Rightarrow> ('w, call_error, 'act DecideEnrollmentResult) op"
  os_get_enrollment_recovery :: "string \<Rightarrow> string \<Rightarrow> ('w, call_error, ('man, 'act) recovery) op"
  os_list_mounts :: "string \<Rightarrow> ('w, call_error, KernelMount list) op"
  os_mount :: "string \<Rightarrow> string \<Rightarrow> string \<Rightarrow> int \<Rightarrow> bool \<Rightarrow> ('w, call_error, KernelMutationResult) op"
  os_list_body_endpoints :: "string \<Rightarrow> ('w, call_error, KernelBodyEndpoint list) op"
  os_replace_assignment :: "string \<Rightarrow> string \<Rightarrow> string option \<Rightarrow> string \<Rightarrow> int \<Rightarrow> string \<Rightarrow> string option \<Rightarrow> ('w, call_error, KernelBodyEndpoint) op"

section \<open>Admission\<close>

definition operator_active :: "('man, 'act) recovery \<Rightarrow> bool" where
  "operator_active rv \<longleftrightarrow> pp_state (rv_proposal rv) \<in> {''pending_review'', ''approved_awaiting_handoff'', ''grant_delivered'', ''grant_acknowledged''}"

definition select_enrollment :: "OperatorDeviceAdmissionRequest \<Rightarrow> ('man, 'act) recovery list \<Rightarrow> call_error + ('man, 'act) recovery" where
  "select_enrollment payload items =
     (let matches = filter (\<lambda>rv. pp_device_instance_candidate_id (rv_proposal rv) = oq_device_id payload) items
      in if matches = [] then Inl (Failed (failure ''hub'' ''not_found'' ''Hub has no Enrollment for this device'' 404))
         else case filter operator_active matches of
                [rv] \<Rightarrow> Inr rv
              | _ \<Rightarrow> Inl (conflict ''Hub Enrollment is terminal or ambiguous for this device''))"

definition operator_decision :: "OperatorDeviceAdmissionRequest \<Rightarrow> 'man proposal \<Rightarrow> ('man, unit) DecideEnrollment" where
  "operator_decision payload proposal =
     \<lparr>dc_enrollment_id = pp_enrollment_id proposal, dc_expected_proposal_revision = pp_proposal_revision proposal,
      dc_decision = ''approve'', dc_target_owner_domain_id = pp_requested_owner_domain_id proposal,
      dc_target_business_owner_id = oq_owner_id payload, dc_reviewed_manifest_ref = pp_manifest_ref proposal, dc_more = ()\<rparr>"

text \<open>A pending proposal is approved and read again; any other is taken as it is.\<close>

definition approve_enrollment ::
  "('w, 'man, 'act) operator_service \<Rightarrow> OperatorDeviceAdmissionRequest \<Rightarrow> string \<Rightarrow> ('man, 'act) recovery
    \<Rightarrow> ('w, call_error, ('man, 'act) recovery \<times> string) op" where
  "approve_enrollment V payload hub_authorization rv =
     (let proposal = rv_proposal rv
      in if pp_state proposal = ''pending_review''
         then bindS (os_decide_enrollment V (operator_decision payload proposal)
                 (operator_child_request_id (oq_request_id payload) ''hub-approve'') (oq_request_id payload) hub_authorization) (\<lambda>_.
              bindS (os_get_enrollment_recovery V (pp_enrollment_id proposal) hub_authorization) (\<lambda>rv'. ret (rv', ''committed'')))
         else ret (rv, ''replayed''))"

definition approved_for :: "OperatorDeviceAdmissionRequest \<Rightarrow> ('man, 'act) recovery \<Rightarrow> bool" where
  "approved_for payload rv \<longleftrightarrow>
     (case rv_approval_decision rv of None \<Rightarrow> False
      | Some made \<Rightarrow> ad_decision made = ''approve'' \<and> ad_target_business_owner_id made = oq_owner_id payload)"

definition step_of :: "string \<Rightarrow> string \<Rightarrow> string option \<Rightarrow> int option \<Rightarrow> WorkflowFailure option \<Rightarrow> WorkflowStep" where
  "step_of name state request_id revision fail =
     \<lparr>st_name = name, st_state = state, st_request_id = request_id, st_revision = revision, st_failure = fail\<rparr>"

definition operator_result ::
  "OperatorDeviceAdmissionRequest \<Rightarrow> string \<Rightarrow> string \<Rightarrow> string \<Rightarrow> WorkflowStep list \<Rightarrow> KernelMount option \<Rightarrow> OperatorDeviceAdmissionResult" where
  "operator_result payload outcome stage recover steps mount =
     \<lparr>oa_request_id = oq_request_id payload, oa_outcome = outcome, oa_completed_stage = stage, oa_recovery = recover,
      oa_steps = steps, oa_mount = mount\<rparr>"

definition outcome_of :: "bool \<Rightarrow> string" where
  "outcome_of retryable = (if retryable then ''retry_required'' else ''blocked'')"

definition recovery_of :: "bool \<Rightarrow> string" where
  "recovery_of retryable = (if retryable then ''retry-forward-same-request-id'' else ''operator-action-required'')"

text \<open>The answer to a mount that the Kernel refused.\<close>

definition mount_refused ::
  "OperatorDeviceAdmissionRequest \<Rightarrow> WorkflowStep list \<Rightarrow> AuthorityFailure \<Rightarrow> ('w, call_error, OperatorDeviceAdmissionResult) op" where
  "mount_refused payload steps exc =
     (let retryable = af_retryable exc \<or> af_kind exc \<in> {''not_found'', ''unavailable'', ''upstream_failure''};
          waiting = (if af_kind exc = ''not_found''
            then failure ''kernel'' ''unavailable'' ''Hub has approved the Enrollment; waiting for the device to acknowledge its Claim'' 503
                   \<lparr>af_upstream_status := af_upstream_status exc, af_retryable := True\<rparr>
            else exc)
      in case to_wire waiting of
           Inl e \<Rightarrow> raise e
         | Inr fail \<Rightarrow>
             ret (operator_result payload (outcome_of retryable) ''hub_approved'' (recovery_of retryable)
               (steps @ [step_of ''kernel_mount'' ''failed'' (Some (operator_child_request_id (oq_request_id payload) ''kernel-mount'')) None (Some fail),
                  (case oq_companion_id payload of
                     None \<Rightarrow> step_of ''body_assignment'' ''not_requested'' None None None
                   | Some _ \<Rightarrow> step_of ''body_assignment'' ''not_attempted''
                       (Some (operator_child_request_id (oq_request_id payload) ''kernel-assign'')) None None)]) None))"

definition owner_body_endpoint ::
  "(string \<Rightarrow> ('w, call_error, KernelBodyEndpoint list) op) \<Rightarrow> string \<Rightarrow> string \<Rightarrow> ('w, call_error, KernelBodyEndpoint option) op" where
  "owner_body_endpoint list_endpoints owner_id device_id =
     bindS (list_endpoints owner_id) (\<lambda>endpoints. ret (find (\<lambda>e. be_device_id e = device_id) endpoints))"

text \<open>From a mounted device on.\<close>

definition assign_body ::
  "('w, 'man, 'act) operator_service \<Rightarrow> OperatorDeviceAdmissionRequest \<Rightarrow> WorkflowStep list \<Rightarrow> KernelMount
    \<Rightarrow> ('w, call_error, OperatorDeviceAdmissionResult) op" where
  "assign_body V payload steps mounted =
     (case oq_companion_id payload of
        None \<Rightarrow> ret (operator_result payload ''completed'' ''kernel_mounted'' ''none''
                  (steps @ [step_of ''body_assignment'' ''not_requested'' None None None]) (Some mounted))
      | Some companion_id \<Rightarrow>
          bindS (owner_body_endpoint (os_list_body_endpoints V) (oq_owner_id payload) (oq_device_id payload)) (\<lambda>endpoint w.
            let assign_request_id = operator_child_request_id (oq_request_id payload) ''kernel-assign'';
                expected = (case endpoint of None \<Rightarrow> 0 | Some e \<Rightarrow> assignment_revision_of e)
            in case os_replace_assignment V (oq_owner_id payload) (oq_device_id payload) (Some companion_id) assign_request_id expected ''owner'' None w of
                 (Inl (Failed exc), w1) \<Rightarrow>
                   (case to_wire exc of
                      Inl e \<Rightarrow> (Inl e, w1)
                    | Inr fail \<Rightarrow>
                        (Inr (operator_result payload (outcome_of (af_retryable exc)) ''kernel_mounted'' (recovery_of (af_retryable exc))
                           (steps @ [step_of ''body_assignment'' ''failed'' (Some assign_request_id) (Some (km_revision mounted)) (Some fail)])
                           (Some mounted)), w1))
               | (Inl e, w1) \<Rightarrow> (Inl e, w1)
               | (Inr assigned, w1) \<Rightarrow>
                   (Inr (operator_result payload ''completed'' ''body_assigned'' ''none''
                      (steps @ [step_of ''body_assignment'' ''committed'' (Some assign_request_id) (Some (assignment_revision_of assigned)) None])
                      (Some mounted)), w1)))"

text \<open>From an approved enrollment on.\<close>

definition mount_device ::
  "('w, 'man, 'act) operator_service \<Rightarrow> OperatorDeviceAdmissionRequest \<Rightarrow> string \<Rightarrow> ('w, call_error, OperatorDeviceAdmissionResult) op" where
  "mount_device V payload hub_step_state =
     (let mount_request_id = operator_child_request_id (oq_request_id payload) ''kernel-mount'';
          steps = [step_of ''hub_approval'' hub_step_state (Some (operator_child_request_id (oq_request_id payload) ''hub-approve'')) None None]
      in bindS (owner_mount (os_list_mounts V) (oq_owner_id payload) (oq_device_id payload) False) (\<lambda>found w.
           case (case found of None \<Rightarrow> None | Some m \<Rightarrow> (if km_active m then Some m else None)) of
             Some mounted \<Rightarrow>
               assign_body V payload (steps @ [step_of ''kernel_mount'' ''replayed'' None (Some (km_revision mounted)) None]) mounted w
           | None \<Rightarrow>
               (case os_mount V (oq_owner_id payload) (oq_device_id payload) mount_request_id (oq_expected_mount_revision payload)
                       (oq_replace_existing_mount payload) w of
                  (Inl (Failed exc), w1) \<Rightarrow> mount_refused payload steps exc w1
                | (Inl e, w1) \<Rightarrow> (Inl e, w1)
                | (Inr result, w1) \<Rightarrow>
                    assign_body V payload (steps @ [step_of ''kernel_mount'' (if kr_replayed result then ''replayed'' else ''committed'')
                      (Some mount_request_id) (Some (km_revision (kr_mount result))) None]) (kr_mount result) w1)))"

definition admit_operator_device ::
  "('w, 'man, 'act) operator_service \<Rightarrow> OperatorDeviceAdmissionRequest \<Rightarrow> string \<Rightarrow> ('w, call_error, OperatorDeviceAdmissionResult) op" where
  "admit_operator_device V payload hub_authorization =
     bindS (os_list_authorized_enrollments V hub_authorization OPERATOR_ENROLLMENT_STATES) (\<lambda>items.
       case select_enrollment payload items of
         Inl e \<Rightarrow> raise e
       | Inr rv \<Rightarrow>
           bindS (approve_enrollment V payload hub_authorization rv) (\<lambda>(rv', hub_step_state).
             if \<not> approved_for payload rv' then raise (conflict ''Hub Enrollment was not approved for this Owner'')
             else mount_device V payload hub_step_state))"

section \<open>Inventory\<close>

text \<open>Each source is measured by itself; \<open>latency\<close> is what the clock made of a call.\<close>

record SourceStatus =
  so_state :: string
  so_latency_ms :: int
  so_failure :: "WorkflowFailure option"

record 'claim OperatorOwnerDeviceInventory =
  iv_owner_id :: string
  iv_degraded :: bool
  iv_hub :: SourceStatus
  iv_kernel :: SourceStatus
  iv_claims :: "'claim list"
  iv_mounts :: "KernelMount list"

definition measured :: "('w, call_error, 'a) op \<Rightarrow> ('w \<Rightarrow> 'w \<Rightarrow> int) \<Rightarrow> ('w, call_error, 'a option \<times> SourceStatus) op" where
  "measured call latency w =
     (case call w of
        (Inr v, w1) \<Rightarrow> (Inr (Some v, \<lparr>so_state = ''ok'', so_latency_ms = latency w w1, so_failure = None\<rparr>), w1)
      | (Inl (Failed exc), w1) \<Rightarrow>
          (case to_wire exc of
             Inl e \<Rightarrow> (Inl e, w1)
           | Inr fail \<Rightarrow> (Inr (None, \<lparr>so_state = ''error'', so_latency_ms = latency w w1, so_failure = Some fail\<rparr>), w1))
      | (Inl e, w1) \<Rightarrow> (Inl e, w1))"

definition hub_refusal :: "WorkflowFailure \<Rightarrow> AuthorityFailure" where
  "hub_refusal fail =
     failure ''hub'' (wf_kind fail) (wf_detail fail) (if wf_kind fail = ''unauthorized'' then 401 else 403)
       \<lparr>af_upstream_status := wf_upstream_status fail, af_code := wf_code fail\<rparr>"

text \<open>The two calls run beside each other; here the Hub answers first. \<open>claim_owner\<close> reads the Owner of a Claim.\<close>

definition operator_owner_inventory ::
  "('w, call_error, 'claim list) op \<Rightarrow> ('w, call_error, KernelMount list) op \<Rightarrow> ('w \<Rightarrow> 'w \<Rightarrow> int) \<Rightarrow> ('claim \<Rightarrow> string) \<Rightarrow> string
    \<Rightarrow> ('w, call_error, 'claim OperatorOwnerDeviceInventory) op" where
  "operator_owner_inventory list_claims list_mounts latency claim_owner owner_id =
     bindS (measured list_claims latency) (\<lambda>(claim_page, hub_status).
     bindS (measured list_mounts latency) (\<lambda>(mount_page, kernel_status).
       case (case so_failure hub_status of None \<Rightarrow> None
             | Some fail \<Rightarrow> (if wf_kind fail \<in> {''unauthorized'', ''forbidden''} then Some fail else None)) of
         Some fail \<Rightarrow> raise (Failed (hub_refusal fail))
       | None \<Rightarrow>
           ret \<lparr>iv_owner_id = owner_id, iv_degraded = (claim_page = None \<or> mount_page = None), iv_hub = hub_status, iv_kernel = kernel_status,
                iv_claims = filter (\<lambda>c. claim_owner c = owner_id) (case claim_page of None \<Rightarrow> [] | Some items \<Rightarrow> items),
                iv_mounts = (case mount_page of None \<Rightarrow> [] | Some mounts \<Rightarrow> mounts)\<rparr>))"

section \<open>What an admission calls\<close>

text \<open>A service whose world also keeps the calls, with what they answered.\<close>

datatype ('man, 'act) operator_event =
    ListedEnrollments "('man, 'act) recovery list option"
  | Decided "('man, unit) DecideEnrollment" string string bool
  | ReadEnrollment string "('man, 'act) recovery option"
  | ListedMounts string "KernelMount list option"
  | Mounting string string string bool
  | ListedBodies string bool
  | Assigning string string "string option" string bool

definition answer :: "'e + 'a \<Rightarrow> 'a option" where
  "answer r = (case r of Inl _ \<Rightarrow> None | Inr v \<Rightarrow> Some v)"

lemma answer_simps [simp]: "answer (Inl e) = None" "answer (Inr v) = Some v"
  by (simp_all add: answer_def)

definition noting :: "('w, 'e, 'a) op \<Rightarrow> ('e + 'a \<Rightarrow> 'l) \<Rightarrow> ('w \<times> 'l list, 'e, 'a) op" where
  "noting m note_of wl = (case m (fst wl) of (r, w) \<Rightarrow> (r, (w, snd wl @ [note_of r])))"

lemma noting_run: "noting m f (w, l) = (case m w of (r, w1) \<Rightarrow> (r, (w1, l @ [f r])))"
  by (simp add: noting_def)

definition watched ::
  "('w, 'man, 'act) operator_service \<Rightarrow> ('w \<times> ('man, 'act) operator_event list, 'man, 'act) operator_service" where
  "watched V =
     \<lparr>os_list_authorized_enrollments = (\<lambda>a s. noting (os_list_authorized_enrollments V a s) (\<lambda>r. ListedEnrollments (answer r))),
      os_decide_enrollment = (\<lambda>d c k a. noting (os_decide_enrollment V d c k a) (\<lambda>r. Decided d c k (\<not> isl r))),
      os_get_enrollment_recovery = (\<lambda>e a. noting (os_get_enrollment_recovery V e a) (\<lambda>r. ReadEnrollment e (answer r))),
      os_list_mounts = (\<lambda>ow. noting (os_list_mounts V ow) (\<lambda>r. ListedMounts ow (answer r))),
      os_mount = (\<lambda>ow d q n x. noting (os_mount V ow d q n x) (\<lambda>r. Mounting ow d q (\<not> isl r))),
      os_list_body_endpoints = (\<lambda>ow. noting (os_list_body_endpoints V ow) (\<lambda>r. ListedBodies ow (\<not> isl r))),
      os_replace_assignment = (\<lambda>ow d c q n g x. noting (os_replace_assignment V ow d c q n g x) (\<lambda>r. Assigning ow d c q (\<not> isl r)))\<rparr>"

fun hub_call :: "('man, 'act) operator_event \<Rightarrow> bool" where
  "hub_call (ListedEnrollments _) = True"
| "hub_call (Decided _ _ _ _) = True"
| "hub_call (ReadEnrollment _ _) = True"
| "hub_call _ = False"

fun kernel_call_of :: "OperatorDeviceAdmissionRequest \<Rightarrow> ('man, 'act) operator_event \<Rightarrow> bool" where
  "kernel_call_of payload (ListedMounts ow _) = (ow = oq_owner_id payload)"
| "kernel_call_of payload (Mounting ow d q _) =
     (ow = oq_owner_id payload \<and> d = oq_device_id payload \<and> q = operator_child_request_id (oq_request_id payload) ''kernel-mount'')"
| "kernel_call_of payload (ListedBodies ow _) = (ow = oq_owner_id payload \<and> oq_companion_id payload \<noteq> None)"
| "kernel_call_of payload (Assigning ow d c q _) =
     (ow = oq_owner_id payload \<and> d = oq_device_id payload \<and> c = oq_companion_id payload \<and> c \<noteq> None
      \<and> q = operator_child_request_id (oq_request_id payload) ''kernel-assign'')"
| "kernel_call_of payload _ = False"

text \<open>The calls after which the Hub has shown the one active enrollment of the device: as listed, or as read after its approval.\<close>

definition hub_shows :: "OperatorDeviceAdmissionRequest \<Rightarrow> ('man, 'act) operator_event list \<Rightarrow> ('man, 'act) recovery \<Rightarrow> bool" where
  "hub_shows payload hub rv \<longleftrightarrow> (\<exists>items found. select_enrollment payload items = Inr found
     \<and> (hub = [ListedEnrollments (Some items)] \<and> rv = found \<and> pp_state (rv_proposal found) \<noteq> ''pending_review''
        \<or> hub = [ListedEnrollments (Some items),
            Decided (operator_decision payload (rv_proposal found)) (operator_child_request_id (oq_request_id payload) ''hub-approve'') (oq_request_id payload) True,
            ReadEnrollment (pp_enrollment_id (rv_proposal found)) (Some rv)] \<and> pp_state (rv_proposal found) = ''pending_review''))"

definition mounted_in :: "OperatorDeviceAdmissionRequest \<Rightarrow> ('man, 'act) operator_event list \<Rightarrow> bool" where
  "mounted_in payload log \<longleftrightarrow> (\<exists>ow d q. Mounting ow d q True \<in> set log)
     \<or> (\<exists>mounts m. ListedMounts (oq_owner_id payload) (Some mounts) \<in> set log \<and> find (\<lambda>m. km_device_id m = oq_device_id payload) mounts = Some m \<and> km_active m)"

definition assigned_in :: "('man, 'act) operator_event list \<Rightarrow> bool" where
  "assigned_in log \<longleftrightarrow> (\<exists>ow d c q. Assigning ow d c q True \<in> set log)"

text \<open>What an answer says of the calls it was made from.\<close>

definition truthful :: "OperatorDeviceAdmissionRequest \<Rightarrow> ('man, 'act) operator_event list \<Rightarrow> OperatorDeviceAdmissionResult \<Rightarrow> bool" where
  "truthful payload log res \<longleftrightarrow>
     oa_completed_stage res = (if assigned_in log then ''body_assigned'' else if mounted_in payload log then ''kernel_mounted'' else ''hub_approved'')
     \<and> (oa_outcome res = ''completed'' \<longleftrightarrow> mounted_in payload log \<and> (oq_companion_id payload = None \<or> assigned_in log))
     \<and> (oa_recovery res = ''none'' \<longleftrightarrow> oa_outcome res = ''completed'')
     \<and> (oa_recovery res = ''retry-forward-same-request-id'' \<longleftrightarrow> oa_outcome res = ''retry_required'')
     \<and> (oa_mount res \<noteq> None \<longleftrightarrow> mounted_in payload log)"

lemma watched_sel:
  "os_list_authorized_enrollments (watched V) a s = noting (os_list_authorized_enrollments V a s) (\<lambda>r. ListedEnrollments (answer r))"
  "os_decide_enrollment (watched V) dec c k a = noting (os_decide_enrollment V dec c k a) (\<lambda>r. Decided dec c k (\<not> isl r))"
  "os_get_enrollment_recovery (watched V) e a = noting (os_get_enrollment_recovery V e a) (\<lambda>r. ReadEnrollment e (answer r))"
  "os_list_mounts (watched V) ow = noting (os_list_mounts V ow) (\<lambda>r. ListedMounts ow (answer r))"
  "os_mount (watched V) ow d q n x = noting (os_mount V ow d q n x) (\<lambda>r. Mounting ow d q (\<not> isl r))"
  "os_list_body_endpoints (watched V) ow = noting (os_list_body_endpoints V ow) (\<lambda>r. ListedBodies ow (\<not> isl r))"
  "os_replace_assignment (watched V) ow d who q n g y = noting (os_replace_assignment V ow d who q n g y) (\<lambda>r. Assigning ow d who q (\<not> isl r))"
  by (simp_all add: watched_def)

lemma result_sel [simp]:
  "oa_outcome (operator_result p x y z s m) = x" "oa_completed_stage (operator_result p x y z s m) = y"
  "oa_recovery (operator_result p x y z s m) = z" "oa_mount (operator_result p x y z s m) = m"
  by (simp_all add: operator_result_def)

text \<open>The calls of the last stage: none, or the endpoints and then one assignment.\<close>

definition assigning :: "OperatorDeviceAdmissionRequest \<Rightarrow> bool \<Rightarrow> ('man, 'act) operator_event list" where
  "assigning payload made = [ListedBodies (oq_owner_id payload) True, Assigning (oq_owner_id payload) (oq_device_id payload) (oq_companion_id payload)
     (operator_child_request_id (oq_request_id payload) ''kernel-assign'') made]"

lemma assign_body_calls:
  assumes "assign_body (watched V) payload steps mounted (w, l) = (r, (w', l'))"
  shows "l' = l \<and> oq_companion_id payload = None \<and> (\<exists>s. r = Inr (operator_result payload ''completed'' ''kernel_mounted'' ''none'' s (Some mounted)))
    \<or> l' = l @ [ListedBodies (oq_owner_id payload) False] \<and> oq_companion_id payload \<noteq> None \<and> isl r
    \<or> l' = l @ assigning payload True \<and> oq_companion_id payload \<noteq> None
      \<and> (\<exists>s. r = Inr (operator_result payload ''completed'' ''body_assigned'' ''none'' s (Some mounted)))
    \<or> l' = l @ assigning payload False \<and> oq_companion_id payload \<noteq> None
      \<and> (isl r \<or> (\<exists>b s. r = Inr (operator_result payload (outcome_of b) ''kernel_mounted'' (recovery_of b) s (Some mounted))))"
proof (cases "oq_companion_id payload")
  case None
  with assms show ?thesis by (auto simp: assign_body_def ret_def)
next
  case (Some c)
  with assms show ?thesis
    by (auto simp: assign_body_def owner_body_endpoint_def ret_def assigning_def bindS_def watched_sel noting_run Let_def split: prod.splits sum.splits call_error.splits)
qed

lemma outcome_words [simp]:
  "outcome_of b \<noteq> ''completed''" "recovery_of b \<noteq> ''none''" "recovery_of b = ''retry-forward-same-request-id'' \<longleftrightarrow> b" "outcome_of b = ''retry_required'' \<longleftrightarrow> b"
  by (simp_all add: outcome_of_def recovery_of_def)

text \<open>What a log of the last stage adds to one that shows the device mounted.\<close>

lemma assign_body_truthful:
  assumes "assign_body (watched V) payload steps mounted (w, l) = (Inr res, (w', l'))"
    and "mounted_in payload l" and "\<not> assigned_in l"
  shows "truthful payload l' res"
  using assign_body_calls [OF assms(1)] assms(2,3)
  by (auto simp: truthful_def mounted_in_def assigned_in_def assigning_def)

lemma assign_body_kernel:
  assumes "assign_body (watched V) payload steps mounted (w, l) = (r, (w', l'))"
  shows "\<exists>calls. l' = l @ calls \<and> list_all (kernel_call_of payload) calls"
  using assign_body_calls [OF assms] by (auto simp: assigning_def)

text \<open>The stage before: the mounts are listed, and the device is mounted unless it is there already.\<close>

definition mounting :: "OperatorDeviceAdmissionRequest \<Rightarrow> bool \<Rightarrow> ('man, 'act) operator_event" where
  "mounting payload made = Mounting (oq_owner_id payload) (oq_device_id payload)
     (operator_child_request_id (oq_request_id payload) ''kernel-mount'') made"

definition listed_active :: "OperatorDeviceAdmissionRequest \<Rightarrow> KernelMount list \<Rightarrow> bool" where
  "listed_active payload mounts \<longleftrightarrow> (case find (\<lambda>m. km_device_id m = oq_device_id payload) mounts of None \<Rightarrow> False | Some m \<Rightarrow> km_active m)"

lemma mount_refused_answer:
  "\<exists>r. mount_refused payload steps exc wl = (r, wl)
     \<and> (isl r \<or> (\<exists>b s. r = Inr (operator_result payload (outcome_of b) ''hub_approved'' (recovery_of b) s None)))"
  by (auto simp: mount_refused_def Let_def raise_def ret_def split: sum.split)

lemma mount_device_calls:
  assumes "mount_device (watched V) payload hub_step (w, l) = (r, (w', l'))"
  shows "l' = l @ [ListedMounts (oq_owner_id payload) None] \<and> isl r
    \<or> (\<exists>mounts steps m w1. listed_active payload mounts
        \<and> assign_body (watched V) payload steps m (w1, l @ [ListedMounts (oq_owner_id payload) (Some mounts)]) = (r, (w', l')))
    \<or> (\<exists>mounts. \<not> listed_active payload mounts \<and> l' = l @ [ListedMounts (oq_owner_id payload) (Some mounts), mounting payload False]
        \<and> (isl r \<or> (\<exists>b s. r = Inr (operator_result payload (outcome_of b) ''hub_approved'' (recovery_of b) s None))))
    \<or> (\<exists>mounts steps m w1. \<not> listed_active payload mounts
        \<and> assign_body (watched V) payload steps m (w1, l @ [ListedMounts (oq_owner_id payload) (Some mounts), mounting payload True]) = (r, (w', l')))"
    (is "?none \<or> ?there \<or> ?refused \<or> ?made")
proof -
  let ?q = "operator_child_request_id (oq_request_id payload) ''kernel-mount''"
  note defs = mount_device_def bindS_def owner_mount_def watched_sel noting_run Let_def mounting_def
  obtain g w1 where g: "os_list_mounts V (oq_owner_id payload) w = (g, w1)" by fastforce
  show ?thesis
  proof (cases g)
    case (Inl e)
    with assms g show ?thesis by (auto simp: defs)
  next
    case (Inr mounts)
    show ?thesis
    proof (cases "listed_active payload mounts")
      case True
      then obtain m where "find (\<lambda>m. km_device_id m = oq_device_id payload) mounts = Some m" "km_active m"
        by (auto simp: listed_active_def split: option.splits)
      with assms g Inr obtain steps where "assign_body (watched V) payload steps m (w1, l @ [ListedMounts (oq_owner_id payload) (Some mounts)]) = (r, (w', l'))"
        by (auto simp: defs)
      with True show ?thesis by blast
    next
      case False
      then have none: "(case find (\<lambda>m. km_device_id m = oq_device_id payload) mounts of None \<Rightarrow> None | Some m \<Rightarrow> if km_active m then Some m else None) = None"
        by (auto simp: listed_active_def split: option.splits)
      obtain h w2 where h: "os_mount V (oq_owner_id payload) (oq_device_id payload) ?q (oq_expected_mount_revision payload)
          (oq_replace_existing_mount payload) w1 = (h, w2)" by fastforce
      show ?thesis
      proof (cases h)
        case h': (Inl e)
        have ?refused
        proof (cases e)
          case (Failed exc)
          from assms g Inr none h h' Failed obtain steps where
            "mount_refused payload steps exc (w2, l @ [ListedMounts (oq_owner_id payload) (Some mounts), mounting payload False]) = (r, (w', l'))" by (auto simp: defs)
          with mount_refused_answer [of payload steps exc "(w2, l @ [ListedMounts (oq_owner_id payload) (Some mounts), mounting payload False])"] False show ?thesis by auto
        qed (use assms g Inr none h h' False in \<open>auto simp: defs intro!: exI [of _ mounts]\<close>)
        then show ?thesis by blast
      next
        case h': (Inr result)
        with assms g Inr none h obtain steps where
          "assign_body (watched V) payload steps (kr_mount result) (w2, l @ [ListedMounts (oq_owner_id payload) (Some mounts), mounting payload True]) = (r, (w', l'))"
          by (auto simp: defs)
        with False have ?made by blast
        then show ?thesis by blast
      qed
    qed
  qed
qed

lemma mount_device_kernel:
  assumes "mount_device (watched V) payload hub_step (w, l) = (r, (w', l'))"
  shows "\<exists>calls. l' = l @ calls \<and> list_all (kernel_call_of payload) calls"
proof -
  have from_assign: ?thesis
    if a: "assign_body (watched V) payload steps m (w1, l @ calls) = (r, (w', l'))" and k: "list_all (kernel_call_of payload) calls" for steps m w1 calls
    using assign_body_kernel [OF a] k by (metis append.assoc list_all_append)
  from mount_device_calls [OF assms] show ?thesis
    by (elim disjE exE conjE) (auto simp: mounting_def intro: from_assign)
qed

lemma mount_device_truthful:
  assumes "mount_device (watched V) payload hub_step (w, l) = (Inr res, (w', l'))" and "list_all hub_call l"
  shows "truthful payload l' res"
proof -
  have l: "\<not> mounted_in payload l" "\<not> assigned_in l" using assms(2) by (auto simp: mounted_in_def assigned_in_def list_all_iff)
  from mount_device_calls [OF assms(1)] show ?thesis
  proof (elim disjE exE conjE)
    fix mounts steps m w1
    assume active: "listed_active payload mounts" and a: "assign_body (watched V) payload steps m (w1, l @ [ListedMounts (oq_owner_id payload) (Some mounts)]) = (Inr res, (w', l'))"
    have "mounted_in payload (l @ [ListedMounts (oq_owner_id payload) (Some mounts)])" "\<not> assigned_in (l @ [ListedMounts (oq_owner_id payload) (Some mounts)])"
      using active l by (auto simp: mounted_in_def assigned_in_def listed_active_def split: option.splits)
    with a show ?thesis by (rule assign_body_truthful)
  next
    fix mounts steps m w1
    assume a: "assign_body (watched V) payload steps m (w1, l @ [ListedMounts (oq_owner_id payload) (Some mounts), mounting payload True]) = (Inr res, (w', l'))"
    have "mounted_in payload (l @ [ListedMounts (oq_owner_id payload) (Some mounts), mounting payload True])"
      "\<not> assigned_in (l @ [ListedMounts (oq_owner_id payload) (Some mounts), mounting payload True])"
      using l by (auto simp: mounted_in_def assigned_in_def mounting_def)
    with a show ?thesis by (rule assign_body_truthful)
  next
    fix mounts b s
    assume "\<not> listed_active payload mounts" "l' = l @ [ListedMounts (oq_owner_id payload) (Some mounts), mounting payload False]"
      "Inr res = (Inr (operator_result payload (outcome_of b) ''hub_approved'' (recovery_of b) s None) :: call_error + OperatorDeviceAdmissionResult)"
    with l show ?thesis by (auto simp: truthful_def mounted_in_def assigned_in_def mounting_def listed_active_def split: option.splits)
  qed simp_all
qed

text \<open>The Hub's part: listing, and for a pending proposal its approval and a second reading.\<close>

lemma approve_calls:
  assumes "approve_enrollment (watched V) payload authorization found (w, [ListedEnrollments (Some items)]) = (r, (w', hub))"
    and "select_enrollment payload items = Inr found"
  shows "list_all hub_call hub" and "r = Inr (rv, st) \<Longrightarrow> hub_shows payload hub rv"
  using assms
  by (auto simp: approve_enrollment_def hub_shows_def Let_def watched_sel noting_run bindS_def ret_def split: if_splits prod.splits sum.splits)

lemma admit_calls:
  assumes "admit_operator_device (watched V) payload authorization (w, []) = (r, (w', log))"
  shows "list_all hub_call log \<and> isl r
    \<or> (\<exists>hub rv st w1. list_all hub_call hub \<and> hub_shows payload hub rv \<and> approved_for payload rv
        \<and> mount_device (watched V) payload st (w1, hub) = (r, (w', log)))"
proof -
  obtain g w1 where g: "os_list_authorized_enrollments V authorization OPERATOR_ENROLLMENT_STATES w = (g, w1)" by fastforce
  note defs = admit_operator_device_def bindS_def watched_sel noting_run raise_def g
  show ?thesis
  proof (cases "\<exists>items found. g = Inr items \<and> select_enrollment payload items = Inr found")
    case False
    with assms show ?thesis by (cases g) (auto simp: defs split: sum.splits)
  next
    case True
    then obtain items found where found: "g = Inr items" "select_enrollment payload items = Inr found" by blast
    obtain a w2 hub where a: "approve_enrollment (watched V) payload authorization found (w1, [ListedEnrollments (Some items)]) = (a, (w2, hub))"
      by (metis prod.exhaust)
    note hub = approve_calls [OF a found(2)]
    show ?thesis
    proof (cases "\<exists>rv st. a = Inr (rv, st) \<and> approved_for payload rv")
      case False
      with assms a hub(1) show ?thesis by (cases a) (auto simp: defs found)
    next
      case True
      then obtain rv st where rv: "a = Inr (rv, st)" "approved_for payload rv" by blast
      with assms a have "mount_device (watched V) payload st (w2, hub) = (r, (w', log))" by (simp add: defs found)
      with hub(1) hub(2) [OF rv(1)] rv(2) show ?thesis by blast
    qed
  qed
qed

text \<open>
  C10. An operator's admission writes to the Kernel only after the Hub has shown it the device's one active
  enrollment as approved for the request's Owner: as the Hub listed it, or as the Hub showed it after
  the approval that this admission submitted. All calls to the Kernel come after that, for the request's Owner
  and device, under ids made from the request's own.
\<close>

theorem operator_mount_needs_approval:
  assumes "admit_operator_device (watched V) payload authorization (w, []) = (r, (w', log))"
  shows "\<exists>hub kernel. log = hub @ kernel \<and> list_all hub_call hub \<and> list_all (kernel_call_of payload) kernel
    \<and> (kernel = [] \<or> (\<exists>rv. hub_shows payload hub rv \<and> approved_for payload rv))"
  using admit_calls [OF assms]
proof (elim disjE exE conjE)
  assume "list_all hub_call log"
  then show ?thesis by (intro exI [of _ log] exI [of _ "[]"]) simp
next
  fix hub rv st w1
  assume hub: "list_all hub_call hub" "hub_shows payload hub rv" "approved_for payload rv"
    and "mount_device (watched V) payload st (w1, hub) = (r, (w', log))"
  from mount_device_kernel [OF this(4)] obtain kernel where "log = hub @ kernel" "list_all (kernel_call_of payload) kernel" by blast
  with hub show ?thesis by blast
qed

text \<open>
  C12. The answer to an operator's admission tells what was reached. The stage is the furthest one that a call
  confirmed, the admission is completed exactly when the device is mounted and the assignment that
  was asked for was made, and a way forward is named exactly when it is not; a mount is handed out
  exactly when there is one.
\<close>

theorem operator_answer_truthful:
  assumes "admit_operator_device (watched V) payload authorization (w, []) = (Inr res, (w', log))"
  shows "truthful payload log res"
  using admit_calls [OF assms]
proof (elim disjE exE conjE)
  fix hub rv st w1
  assume "list_all hub_call hub" and "mount_device (watched V) payload st (w1, hub) = (Inr res, (w', log))"
  then show ?thesis by (intro mount_device_truthful)
qed simp

section \<open>An admission\<close>

text \<open>A pending enrollment of one device, a Hub that approves it and a Kernel that mounts it.\<close>

definition example_proposal :: "string \<Rightarrow> (unit, unit) recovery" where
  "example_proposal state =
     \<lparr>rv_proposal = \<lparr>pp_enrollment_id = ''e'', pp_device_instance_candidate_id = ''dev'', pp_requested_owner_domain_id = ''od'',
        pp_manifest_ref = (), pp_state = state, pp_proposal_revision = 1\<rparr>,
      rv_approval_decision = (if state = ''pending_review'' then None
        else Some \<lparr>ad_decision_id = ''x'', ad_enrollment_id = ''e'', ad_actor = (), ad_decision = ''approve'', ad_target_owner_domain_id = ''od'',
          ad_target_business_owner_id = ''o'', ad_reviewed_manifest_ref = (), ad_expected_proposal_revision = 1\<rparr>)\<rparr>"

definition example_mount :: KernelMount where
  "example_mount = \<lparr>km_device_id = ''dev'', km_owner_id = ''o'', km_revision = 1, km_active = True\<rparr>"

definition example_operator_service :: "(unit, unit, unit) operator_service" where
  "example_operator_service =
     \<lparr>os_list_authorized_enrollments = (\<lambda>_ _. ret [example_proposal ''pending_review'']),
      os_decide_enrollment = (\<lambda>_ _ _ _. ret \<lparr>dd_decision_id = ''x'', dd_decided_by = (), dd_decision = ''approve'', dd_proposal_revision = 1\<rparr>),
      os_get_enrollment_recovery = (\<lambda>_ _. ret (example_proposal ''approved_awaiting_handoff'')),
      os_list_mounts = (\<lambda>_. ret []), os_mount = (\<lambda>_ _ _ _ _. ret \<lparr>kr_mount = example_mount, kr_replayed = False\<rparr>),
      os_list_body_endpoints = (\<lambda>_. ret []), os_replace_assignment = (\<lambda>_ _ _ _ _ _ _. raise AssertionErr)\<rparr>"

definition example_operator_request :: OperatorDeviceAdmissionRequest where
  "example_operator_request = \<lparr>oq_request_id = ''r'', oq_owner_id = ''o'', oq_device_id = ''dev'', oq_companion_id = None,
     oq_expected_mount_revision = 0, oq_replace_existing_mount = False\<rparr>"

lemma example_admission:
  obtains res log where "admit_operator_device (watched example_operator_service) example_operator_request ''a'' ((), []) = (Inr res, ((), log))"
    and "mounting example_operator_request True \<in> set log"
proof -
  note ex = example_operator_service_def example_operator_request_def example_proposal_def example_mount_def
  have "select_enrollment example_operator_request [example_proposal ''pending_review''] = Inr (example_proposal ''pending_review'')"
    by (simp add: select_enrollment_def ex operator_active_def)
  moreover have "approve_enrollment (watched example_operator_service) example_operator_request ''a'' (example_proposal ''pending_review'') wl
      = (Inr (example_proposal ''approved_awaiting_handoff'', ''committed''), ((), snd wl @ [Decided (operator_decision example_operator_request
           (rv_proposal (example_proposal ''pending_review''))) (operator_child_request_id ''r'' ''hub-approve'') ''r'' True,
         ReadEnrollment ''e'' (Some (example_proposal ''approved_awaiting_handoff''))]))" for wl
    by (simp add: approve_enrollment_def Let_def watched_sel noting_def bindS_def ret_def ex)
  moreover have "approved_for example_operator_request (example_proposal ''approved_awaiting_handoff'')" by (simp add: approved_for_def ex)
  moreover have "\<exists>res. mount_device (watched example_operator_service) example_operator_request ''committed'' wl
      = (Inr res, ((), snd wl @ [ListedMounts ''o'' (Some []), mounting example_operator_request True]))" for wl
    by (simp add: mount_device_def mounting_def assign_body_def owner_mount_def Let_def watched_sel noting_def bindS_def ret_def
        example_operator_service_def example_operator_request_def)
  moreover have "os_list_authorized_enrollments (watched example_operator_service) a st ((), [])
      = (Inr [example_proposal ''pending_review''], ((), [ListedEnrollments (Some [example_proposal ''pending_review''])]))" for a st
    by (simp add: watched_sel noting_def ret_def example_operator_service_def)
  ultimately obtain res log where "admit_operator_device (watched example_operator_service) example_operator_request ''a'' ((), []) = (Inr res, ((), log))"
      "mounting example_operator_request True \<in> set log"
    by (fastforce simp: admit_operator_device_def bindS_def)
  then show thesis by (rule that)
qed

theorem operator_mount_needs_approval_witness:
  "\<exists>log hub kernel. snd (snd (admit_operator_device (watched example_operator_service) example_operator_request ''a'' ((), []))) = log
     \<and> log = hub @ kernel \<and> mounting example_operator_request True \<in> set kernel
     \<and> (\<exists>rv. hub_shows example_operator_request hub rv \<and> approved_for example_operator_request rv)"
proof -
  obtain res log where run: "admit_operator_device (watched example_operator_service) example_operator_request ''a'' ((), []) = (Inr res, ((), log))"
    and m: "mounting example_operator_request True \<in> set log" by (rule example_admission)
  from operator_mount_needs_approval [OF run] obtain hub kernel where k: "log = hub @ kernel" "list_all hub_call hub"
    "kernel = [] \<or> (\<exists>rv. hub_shows example_operator_request hub rv \<and> approved_for example_operator_request rv)" by blast
  have "mounting example_operator_request True \<notin> set hub" using k(2) by (auto simp: list_all_iff mounting_def)
  with m k(1) have "mounting example_operator_request True \<in> set kernel" by simp
  moreover from this k(3) have "\<exists>rv. hub_shows example_operator_request hub rv \<and> approved_for example_operator_request rv" by auto
  moreover from run have "snd (snd (admit_operator_device (watched example_operator_service) example_operator_request ''a'' ((), []))) = log" by simp
  ultimately show ?thesis using k(1) by blast
qed

theorem operator_answer_truthful_witness:
  "\<exists>res log. admit_operator_device (watched example_operator_service) example_operator_request ''a'' ((), []) = (Inr res, ((), log))
     \<and> truthful example_operator_request log res \<and> oa_outcome res = ''completed''"
proof -
  obtain res log where run: "admit_operator_device (watched example_operator_service) example_operator_request ''a'' ((), []) = (Inr res, ((), log))"
    and m: "mounting example_operator_request True \<in> set log" by (rule example_admission)
  note t = operator_answer_truthful [OF run]
  have "mounted_in example_operator_request log" using m by (auto simp: mounted_in_def mounting_def)
  with t have "oa_outcome res = ''completed''" by (simp add: truthful_def example_operator_request_def)
  with run t show ?thesis by blast
qed

end
