(* ===== verification/Runtime_Clients.thy ===== *)
theory Runtime_Clients
  imports Data_Clients
begin

text \<open>
  The clients of Memory and of the Agent in \<open>app/control_plane/clients.py\<close>: \<open>MemorySupervisorClient\<close>,
  \<open>MemoryRecollectionsClient\<close> and \<open>AgentActivityClient\<close>. They dial a configured address; which memory space
  belongs to an Owner is asked of Memory's own discovery.
\<close>

section \<open>Memory\<close>

record 'w fixed_client =
  fc_base_url :: string
  fc_send :: "'w sender"
  fc_timeout :: int
  fc_token :: string

definition fixed_bearer :: "'w fixed_client \<Rightarrow> string \<Rightarrow> string \<Rightarrow> http_request" where
  "fixed_bearer C method url =
     http_request_to method url (fc_timeout C)\<lparr>hq_headers := Some [(''Authorization'', ''Bearer '' @ fc_token C)]\<rparr>"

text \<open>\<open>str.rpartition\<close>: around the last occurrence, or nothing before the separator.\<close>

definition rpartition :: "string \<Rightarrow> string \<Rightarrow> string \<times> string \<times> string" where
  "rpartition sep s =
     (case find (\<lambda>i. take (length sep) (drop i s) = sep) (rev [0..<Suc (length s)]) of
        None \<Rightarrow> ([], [], s)
      | Some i \<Rightarrow> (take i s, sep, drop (i + length sep) s))"

definition realm_path :: "string \<Rightarrow> string \<Rightarrow> ('w, call_error, string) op" where
  "realm_path published_url leaf =
     (case rpartition ''/api/memory/v1/'' published_url of
        (prefix, separator, _) \<Rightarrow>
          if separator = [] then violated ''memory'' ''memory discovery published a read surface outside the contract''
          else ret (prefix @ separator @ leaf))"

definition realm_name :: "jobject \<Rightarrow> string" where
  "realm_name realm =
     (case find (\<lambda>v. case v of JStr s \<Rightarrow> s \<noteq> [] | _ \<Rightarrow> False) (map (\<lambda>k. jget k realm) [''memory_realm_id'', ''memory_space_id'']) of
        Some (JStr s) \<Rightarrow> s
      | _ \<Rightarrow> ''unidentified'')"

definition request_reconcile :: "'w fixed_client \<Rightarrow> ('w, call_error, bool) op" where
  "request_reconcile C w =
     (case fc_send C (http_request_to ''POST'' (fc_base_url C @ ''/api/admin/reconcile'') (fc_timeout C)) w of
        (Answered response, w1) \<Rightarrow> (Inr (hr_status response = 200), w1)
      | (Lost _, w1) \<Rightarrow> (Inr False, w1)
      | (Broke name, w1) \<Rightarrow> (Inl (OtherErr name), w1))"

text \<open>\<open>explain\<close> is the text of the error that reading the page raised.\<close>

definition list_realms :: "'w fixed_client \<Rightarrow> (json \<Rightarrow> 'm option) \<Rightarrow> (http_response \<Rightarrow> string) \<Rightarrow> ('w, call_error, 'm) op" where
  "list_realms C model explain w =
     (case fc_send C (http_request_to ''GET'' (fc_base_url C @ ''/api/admin/realms'') (fc_timeout C)) w of
        (Answered response, w1) \<Rightarrow>
          (if hr_status response \<ge> 400
           then (Inl (Failed (failure ''memory'' ''runtime_unavailable''
                   (''Memory Supervisor returned HTTP '' @ dec_of_int (hr_status response)) (hr_status response))), w1)
           else case Option.bind (hr_json response) model of
                  None \<Rightarrow> (Inl (Failed (contract_violation ''memory'' (''invalid realm runtime page: '' @ explain response))), w1)
                | Some page \<Rightarrow> (Inr page, w1))
      | (Lost name, w1) \<Rightarrow> (Inl (OtherErr name), w1)
      | (Broke name, w1) \<Rightarrow> (Inl (OtherErr name), w1))"

definition memory_client :: "string \<Rightarrow> 'w sender \<Rightarrow> int \<Rightarrow> string \<Rightarrow> 'w fixed_client" where
  "memory_client discovery_url send timeout service_token =
     \<lparr>fc_base_url = rstrip_slash discovery_url, fc_send = send, fc_timeout = timeout, fc_token = py_strip service_token\<rparr>"

definition has_credential :: "'w fixed_client \<Rightarrow> bool" where
  "has_credential C \<longleftrightarrow> py_strip (fc_token C) \<noteq> []"

definition owned_by :: "string \<Rightarrow> json list \<Rightarrow> jobject list" where
  "owned_by owner_id realms =
     concat (map (\<lambda>realm. case realm of JObj r \<Rightarrow> (if jget ''owner_id'' r = JStr owner_id then [r] else []) | _ \<Rightarrow> []) realms)"

text \<open>What is made of the realms that discovery listed.\<close>

definition choose_space :: "string \<Rightarrow> json list \<Rightarrow> ('w, call_error, string) op" where
  "choose_space owner_id realms =
     (case owned_by owner_id realms of
        [] \<Rightarrow> raise (Failed (failure ''memory'' ''not_found'' ''this Owner has no memory space'' 404))
      | [realm] \<Rightarrow>
          (case jget ''recollections_url'' realm of
             JStr url \<Rightarrow>
               (if url = [] then violated ''memory'' ''this memory space serves no read surface''
                else if \<not> py_true (jget_default ''enabled'' (JBool True) realm) \<or> jget ''agent_reachable'' realm = JBool False
                then raise (Failed (failure ''memory'' ''runtime_missing''
                       (''this Owner's memory space ('' @ realm_name realm @ '') is not running'') 503\<lparr>af_retryable := True\<rparr>))
                else ret url)
           | _ \<Rightarrow> violated ''memory'' ''this memory space serves no read surface'')
      | owned \<Rightarrow> raise (Failed (failure ''memory'' ''conflict''
            (''this Owner has more than one memory space ('' @ join_with '', '' (sort (map realm_name owned))
             @ ''); one Owner is one Realm, so which of these answers cannot be decided here'') 409)))"

definition space_for :: "'w fixed_client \<Rightarrow> string \<Rightarrow> ('w, call_error, string) op" where
  "space_for C owner_id =
     bindS (send_request ''memory'' (fc_send C)
       (http_request_to ''GET'' (fc_base_url C @ ''/api/discovery/agent-routing'') (fc_timeout C))) (\<lambda>response.
       if hr_status response \<noteq> 200
       then raise (Failed (failure ''memory'' ''unavailable'' ''memory discovery is unavailable'' 503\<lparr>af_retryable := True\<rparr>))
       else case hr_json response of
              Some (JObj v) \<Rightarrow>
                (case map_of v ''memory_realms'' of
                   Some (JList realms) \<Rightarrow> choose_space owner_id realms
                 | _ \<Rightarrow> violated ''memory'' ''memory discovery answered outside its contract'')
            | _ \<Rightarrow> violated ''memory'' ''memory discovery answered outside its contract'')"

definition realm_call ::
  "'w fixed_client \<Rightarrow> string \<Rightarrow> string \<Rightarrow> (string \<times> string) list option \<Rightarrow> json option \<Rightarrow> string \<Rightarrow> ('w, call_error, http_response) op" where
  "realm_call C owner_id leaf params body method =
     (if fc_token C = [] then raise (Failed (failure ''memory'' ''configuration'' ''Admin memory service credential is not configured'' 503))
      else bindS (space_for C owner_id) (\<lambda>space.
           bindS (realm_path space leaf) (\<lambda>url.
             send_request ''memory'' (fc_send C) (fixed_bearer C method url\<lparr>hq_params := params, hq_json := body\<rparr>))))"

text \<open>\<open>if x:\<close> on an optional text.\<close>

definition truthy :: "string option \<Rightarrow> string option" where
  "truthy v = (if v = Some [] then None else v)"

definition realm_read where
  "realm_read C model owner_id leaf params method =
     bindS (realm_call C owner_id leaf params None method) (\<lambda>response. parse_answer ''memory'' response model)"

definition recollections where
  "recollections C model owner_id query lim companion_id =
     realm_read C model owner_id ''recollections''
       (Some ([(''q'', query), (''limit'', dec_of_int lim)] @ optional_params [(''companion_id'', truthy companion_id)])) ''GET''"

definition browse where
  "browse C model owner_id companion_id =
     realm_read C model owner_id ''browse'' (or_none (optional_params [(''companion_id'', truthy companion_id)])) ''GET''"

definition memory_status where
  "memory_status C model owner_id companion_id =
     realm_read C model owner_id ''status'' (or_none (optional_params [(''companion_id'', truthy companion_id)])) ''GET''"

definition graph where
  "graph C model owner_id companion_id cursor history =
     realm_read C model owner_id ''graph''
       (Some ([(''history'', if history then ''true'' else ''false'')]
         @ optional_params [(''companion_id'', truthy companion_id), (''cursor'', truthy cursor)])) ''GET''"

definition entries where
  "entries C model owner_id since lim companion_id cursor =
     realm_read C model owner_id ''entries''
       (Some ([(''since'', since)] @ optional_params
         [(''cursor'', truthy cursor), (''limit'', map_option dec_of_int lim), (''companion_id'', truthy companion_id)])) ''GET''"

definition export_memory where
  "export_memory C model owner_id companion_id wing room =
     realm_read C model owner_id ''export''
       (Some (optional_params [(''companion_id'', companion_id), (''wing'', wing), (''room'', room)])) ''GET''"

definition forget_preview where
  "forget_preview C model owner_id target = realm_read C model owner_id ''forget/preview'' (Some [(''target'', target)]) ''POST''"

definition forget_confirm where
  "forget_confirm C model owner_id confirmation_token =
     realm_read C model owner_id ''forget/confirm'' (Some [(''confirmation_token'', confirmation_token)]) ''POST''"

definition forget_status where
  "forget_status C model owner_id request_id =
     realm_read C model owner_id ''forget/status'' (Some [(''request_id'', request_id)]) ''GET''"

section \<open>The Agent\<close>

record 'more TaskRow =
  tr_owner_id :: string
  tr_rest :: 'more

definition agent_client :: "string \<Rightarrow> 'w sender \<Rightarrow> int \<Rightarrow> string \<Rightarrow> 'w fixed_client" where
  "agent_client base_url send timeout service_token =
     \<lparr>fc_base_url = rstrip_slash base_url, fc_send = send, fc_timeout = timeout, fc_token = service_token\<rparr>"

definition agent_call ::
  "'w fixed_client \<Rightarrow> string \<Rightarrow> string \<Rightarrow> (string \<times> string) list option \<Rightarrow> json option \<Rightarrow> ('w, call_error, http_response) op" where
  "agent_call C method leaf params body =
     (if fc_token C = [] then raise (Failed (failure ''agent'' ''configuration'' ''Admin Agent service credential is not configured'' 503))
      else send_request ''agent'' (fc_send C) (fixed_bearer C method (fc_base_url C @ ''/api/admin'' @ leaf)
             \<lparr>hq_timeout := (if leaf = ''/persona/preview'' then max (fc_timeout C) 35000 else fc_timeout C),
              hq_params := params, hq_json := body\<rparr>))"

definition agent_read where
  "agent_read C model method leaf params body =
     bindS (agent_call C method leaf params body) (\<lambda>response. parse_answer ''agent'' response model)"

definition agent_scope :: "string \<Rightarrow> string \<Rightarrow> int \<Rightarrow> (string \<times> string) list" where
  "agent_scope owner_id companion_id lim = [(''owner_id'', owner_id), (''companion_id'', companion_id), (''limit'', dec_of_int lim)]"

definition list_conversations where
  "list_conversations C model owner_id companion_id lim before =
     agent_read C model ''GET'' ''/conversations''
       (Some (agent_scope owner_id companion_id lim @ optional_params [(''before'', truthy before)])) None"

definition list_transcript where
  "list_transcript C model owner_id companion_id conversation_id lim before =
     agent_read C model ''GET'' (''/conversations/'' @ quote conversation_id @ ''/turns'')
       (Some (agent_scope owner_id companion_id lim @ optional_params [(''before'', truthy before)])) None"

definition list_tasks where
  "list_tasks C model owner_id companion_id lim status before =
     agent_read C model ''GET'' ''/long-tasks''
       (Some (agent_scope owner_id companion_id lim @ optional_params [(''status'', truthy status), (''before'', truthy before)])) None"

definition get_task where
  "get_task C model owner_id task_id =
     bindS (agent_read C model ''GET'' (''/long-tasks/'' @ quote task_id) None None) (\<lambda>row.
       if tr_owner_id row \<noteq> owner_id then raise (Failed (failure ''agent'' ''not_found'' ''task not found'' 404)) else ret row)"

definition cancel_task where
  "cancel_task C model owner_id task_id =
     agent_read C model ''POST'' (''/long-tasks/'' @ quote task_id @ ''/cancel'') (Some [(''owner_id'', owner_id)]) None"

definition retry_task where
  "retry_task C model owner_id task_id =
     agent_read C model ''POST'' (''/long-tasks/'' @ quote task_id @ ''/retry'') (Some [(''owner_id'', owner_id)]) None"

definition companion_activity where
  "companion_activity C model owner_id =
     agent_read C model ''GET'' (''/owners/'' @ quote owner_id @ ''/companion-activity'') None None"

definition revoke_runtime_sessions where
  "revoke_runtime_sessions C model owner_id =
     agent_read C model ''POST'' (''/owners/'' @ quote owner_id @ ''/revoke-sessions'') None None"

text \<open>\<open>payload\<close> is the dumped request.\<close>

definition preview_persona where
  "preview_persona C model payload owner_id =
     agent_read C model ''POST'' ''/persona/preview'' (Some [(''owner_id'', owner_id)]) (Some payload)"

section \<open>Refusals\<close>

lemma speaks_choose_space [speaks_intros]: "speaks (choose_space owner_id realms)"
  unfolding choose_space_def by (auto intro!: speaks_intros split: list.split json.split)

lemma speaks_space_for [speaks_intros]: "speaks (space_for C owner_id)"
  unfolding space_for_def by (auto intro!: speaks_intros split: option.split json.split)

lemma speaks_realm_read [speaks_intros]: "speaks (realm_read C model owner_id leaf params method)"
  unfolding realm_read_def realm_call_def realm_path_def by (auto intro!: speaks_intros split: prod.split)

lemma speaks_agent_read [speaks_intros]: "speaks (agent_read C model method leaf params body)"
  unfolding agent_read_def agent_call_def by (auto intro!: speaks_intros)

text \<open>Every refusal of Memory's spaces and of the Agent can be put on the wire; those of the supervisor cannot.\<close>

lemma runtime_clients_speak:
  "speaks (recollections C any owner_id query lim companion)" "speaks (browse C any owner_id companion)"
  "speaks (memory_status C any owner_id companion)" "speaks (graph C any owner_id companion cursor history)"
  "speaks (entries C any owner_id since limits companion cursor)" "speaks (export_memory C any owner_id companion wing room)"
  "speaks (forget_preview C any owner_id target)" "speaks (forget_confirm C any owner_id token)" "speaks (forget_status C any owner_id request_id)"
  "speaks (list_conversations C any owner_id companion_id lim before)" "speaks (list_transcript C any owner_id companion_id conversation lim before)"
  "speaks (list_tasks C any owner_id companion_id lim status before)" "speaks (get_task C tasks owner_id task_id)"
  "speaks (cancel_task C any owner_id task_id)" "speaks (retry_task C any owner_id task_id)" "speaks (companion_activity C any owner_id)"
  "speaks (revoke_runtime_sessions C any owner_id)" "speaks (preview_persona C any payload owner_id)"
  unfolding recollections_def browse_def memory_status_def graph_def entries_def export_memory_def forget_preview_def forget_confirm_def
    forget_status_def list_conversations_def list_transcript_def list_tasks_def get_task_def cancel_task_def retry_task_def
    companion_activity_def revoke_runtime_sessions_def preview_persona_def
  by (intro speaks_intros; simp)+

lemma supervisor_refusal_unspeakable:
  assumes "fc_send C (http_request_to ''GET'' (fc_base_url C @ ''/api/admin/realms'') (fc_timeout C)) w = (Answered response, w')"
    and "hr_status response \<ge> 400"
  shows "\<exists>f. list_realms C model explain w = (Inl (Failed f), w') \<and> handle_failure f = Inl (Raised (KeyErr ''runtime_unavailable''))"
  using assms by (simp add: list_realms_def handle_failure_def to_wire_def to_refusal_def failure_def PUBLIC_REFUSAL_KIND_def)

section \<open>One Owner, one space\<close>

lemma choose_space_Inr:
  "choose_space owner_id realms w = (Inr url, w') \<longleftrightarrow>
     w' = w \<and> url \<noteq> [] \<and> (\<exists>realm. owned_by owner_id realms = [realm] \<and> jget ''recollections_url'' realm = JStr url
       \<and> py_true (jget_default ''enabled'' (JBool True) realm) \<and> jget ''agent_reachable'' realm \<noteq> JBool False)"
  by (auto simp: choose_space_def violated_def ret_def raise_def split: list.split json.split)

text \<open>A discovery that answers, and the realms it lists.\<close>

definition discovered :: "'w fixed_client \<Rightarrow> 'w \<Rightarrow> json list \<Rightarrow> 'w \<Rightarrow> bool" where
  "discovered C w realms w' \<longleftrightarrow> (\<exists>response v.
     fc_send C (http_request_to ''GET'' (fc_base_url C @ ''/api/discovery/agent-routing'') (fc_timeout C)) w = (Answered response, w')
     \<and> hr_status response = 200 \<and> hr_json response = Some (JObj v) \<and> map_of v ''memory_realms'' = Some (JList realms))"

lemma space_for_Inr:
  "space_for C owner_id w = (Inr url, w') \<longleftrightarrow> (\<exists>realms. discovered C w realms w' \<and> choose_space owner_id realms w' = (Inr url, w'))"
proof -
  have pure: "choose_space owner_id realms w = (r, w1) \<Longrightarrow> w1 = w" for realms r w w1
    by (auto simp: choose_space_def violated_def ret_def raise_def split: list.splits json.splits if_splits)
  show ?thesis
    by (auto simp: space_for_def discovered_def bindS_def send_request_def violated_def raise_def
        split: prod.splits sum.splits transport.splits if_splits option.splits json.splits dest: pure)
qed

text \<open>A client whose world also keeps the requests it sent.\<close>

definition logged :: "'w sender \<Rightarrow> ('w \<times> http_request list) sender" where
  "logged send q wl = (case send q (fst wl) of (t, w) \<Rightarrow> (t, (w, snd wl @ [q])))"

definition logged_client :: "'w fixed_client \<Rightarrow> ('w \<times> http_request list) fixed_client" where
  "logged_client C = \<lparr>fc_base_url = fc_base_url C, fc_send = logged (fc_send C), fc_timeout = fc_timeout C, fc_token = fc_token C\<rparr>"

definition discovery_request :: "'w fixed_client \<Rightarrow> http_request" where
  "discovery_request C = http_request_to ''GET'' (fc_base_url C @ ''/api/discovery/agent-routing'') (fc_timeout C)"

lemma logged_client_sel [simp]:
  "fc_base_url (logged_client C) = fc_base_url C" "fc_timeout (logged_client C) = fc_timeout C" "fc_token (logged_client C) = fc_token C"
  "fc_send (logged_client C) q (w, l) = (case fc_send C q w of (t, w1) \<Rightarrow> (t, (w1, l @ [q])))"
  "fixed_bearer (logged_client C) method url = fixed_bearer C method url"
  by (simp_all add: logged_client_def logged_def fixed_bearer_def)

lemma space_for_logged:
  assumes "space_for (logged_client C) owner_id (w, []) = (r, (w', sent))"
  shows "sent = [discovery_request C]"
    and "r = Inr url \<Longrightarrow> \<exists>realms. discovered C w realms w' \<and> choose_space owner_id realms w' = (Inr url, w')"
proof -
  have pure: "choose_space owner_id realms wl = (r, wl') \<Longrightarrow> wl' = wl" for realms r and wl wl' :: "'a \<times> http_request list"
    by (auto simp: choose_space_def violated_def ret_def raise_def split: list.splits json.splits if_splits)
  show "sent = [discovery_request C]" using assms
    by (auto simp: space_for_def discovery_request_def bindS_def send_request_def violated_def raise_def
        split: prod.splits sum.splits transport.splits if_splits option.splits json.splits dest: pure)
  show "\<exists>realms. discovered C w realms w' \<and> choose_space owner_id realms w' = (Inr url, w')" if found: "r = Inr url"
  proof -
    obtain realms where d: "discovered (logged_client C) (w, []) realms (w', sent)"
        and c: "choose_space owner_id realms (w', sent) = (Inr url, (w', sent))"
      using assms [unfolded found space_for_Inr] by blast
    from d have "discovered C w realms w'" by (auto simp: discovered_def split: prod.splits)
    moreover from c have "choose_space owner_id realms w' = (Inr url, w')" by (simp add: choose_space_Inr)
    ultimately show ?thesis by blast
  qed
qed

lemma realm_path_Inr:
  assumes "realm_path published leaf w = (Inr url, w')"
  obtains prefix rest where "w' = w" "published = prefix @ ''/api/memory/v1/'' @ rest" "url = prefix @ ''/api/memory/v1/'' @ leaf"
proof -
  let ?sep = "''/api/memory/v1/''"
  obtain i where i: "find (\<lambda>i. take (length ?sep) (drop i published) = ?sep) (rev [0..<Suc (length published)]) = Some i"
    using assms by (auto simp: realm_path_def rpartition_def violated_def raise_def split: option.splits)
  then have sep: "take (length ?sep) (drop i published) = ?sep" by (blast dest: find_SomeD)
  have "published = take i published @ take (length ?sep) (drop i published) @ drop (length ?sep) (drop i published)"
    by (simp only: append_take_drop_id)
  then have "published = take i published @ ?sep @ drop (length ?sep) (drop i published)" unfolding sep .
  moreover have "w' = w" "url = take i published @ ?sep @ leaf" using assms i
    by (auto simp: realm_path_def rpartition_def ret_def split: option.splits)
  ultimately show thesis by (intro that)
qed

text \<open>
  C30. A read or a write of an Owner's memory sends the Host's credential only to the space that discovery
  published for that Owner alone. Whatever fails, at most two requests are sent: the question to
  discovery, which carries no credential, and one under the published address of the only listed
  space of this Owner, which is enabled and not reported unreachable.
\<close>

theorem memory_credential_confined:
  assumes "realm_call (logged_client C) owner_id leaf params body method (w, []) = (r, (w', sent))"
  shows "sent = [] \<or> sent = [discovery_request C]
    \<or> (\<exists>realms w1 realm prefix rest. discovered C w realms w1 \<and> owned_by owner_id realms = [realm]
         \<and> jget ''recollections_url'' realm = JStr (prefix @ ''/api/memory/v1/'' @ rest)
         \<and> py_true (jget_default ''enabled'' (JBool True) realm) \<and> jget ''agent_reachable'' realm \<noteq> JBool False
         \<and> sent = [discovery_request C,
                   fixed_bearer C method (prefix @ ''/api/memory/v1/'' @ leaf)\<lparr>hq_params := params, hq_json := body\<rparr>])"
proof (cases "fc_token C = []")
  case True
  with assms show ?thesis by (simp add: realm_call_def raise_def)
next
  case False
  obtain r1 w1 sent1 where space: "space_for (logged_client C) owner_id (w, []) = (r1, (w1, sent1))" by (metis prod.exhaust)
  note sent1 = space_for_logged(1) [OF space]
  show ?thesis
  proof (cases "\<exists>published url wl. r1 = Inr published \<and> realm_path published leaf (w1, sent1) = (Inr url, wl)")
    case False
    have kept: "realm_path published leaf wl = (Inl e, wl') \<Longrightarrow> wl' = wl" for published e and wl wl' :: "'a \<times> http_request list"
      by (auto simp: realm_path_def violated_def raise_def ret_def split: prod.splits if_splits)
    from False assms space sent1 \<open>fc_token C \<noteq> []\<close> show ?thesis
      by (cases r1) (auto simp: realm_call_def bindS_def split: prod.splits sum.splits dest: kept)
  next
    case True
    then obtain published url wl where published: "r1 = Inr published" and path: "realm_path published leaf (w1, sent1) = (Inr url, wl)" by blast
    obtain prefix rest where url: "wl = (w1, sent1)" "published = prefix @ ''/api/memory/v1/'' @ rest" "url = prefix @ ''/api/memory/v1/'' @ leaf"
      using path by (rule realm_path_Inr)
    obtain realms where d: "discovered C w realms w1" and c: "choose_space owner_id realms w1 = (Inr published, w1)"
      using space_for_logged(2) [OF space published] by blast
    from c obtain realm where realm: "owned_by owner_id realms = [realm]" "jget ''recollections_url'' realm = JStr published"
      "py_true (jget_default ''enabled'' (JBool True) realm)" "jget ''agent_reachable'' realm \<noteq> JBool False"
      unfolding choose_space_Inr by blast
    have "sent = sent1 @ [fixed_bearer C method url\<lparr>hq_params := params, hq_json := body\<rparr>]"
      using assms space published path url(1) \<open>fc_token C \<noteq> []\<close>
      by (auto simp: realm_call_def bindS_def send_request_def split: prod.splits transport.splits)
    with d realm sent1 url(2,3) show ?thesis by auto
  qed
qed

text \<open>A Memory that lists one space, of the Owner \<open>o\<close>.\<close>

definition one_space :: "unit sender" where
  "one_space q w = (Answered \<lparr>hr_status = 200, hr_content = [], hr_json = Some (JObj [(''memory_realms'',
     JList [JObj [(''owner_id'', JStr ''o''), (''recollections_url'', JStr ''h/api/memory/v1/r'')]])])\<rparr>, w)"

definition one_space_client :: "unit fixed_client" where
  "one_space_client = \<lparr>fc_base_url = ''m'', fc_send = one_space, fc_timeout = 1, fc_token = ''t''\<rparr>"

lemma one_space_run:
  "length (snd (snd (realm_call (logged_client one_space_client) ''o'' ''browse'' None None ''GET'' ((), [])))) = 2"
proof -
  let ?realm = "[(''owner_id'', JStr ''o''), (''recollections_url'', JStr ''h/api/memory/v1/r'')]"
  have sel: "fc_send one_space_client = one_space" "fc_token one_space_client = ''t''" by (simp_all add: one_space_client_def)
  have "owned_by ''o'' [JObj ?realm] = [?realm]" by (simp add: owned_by_def jget_def)
  then have space: "space_for (logged_client one_space_client) ''o'' ((), []) = (Inr ''h/api/memory/v1/r'', ((), [discovery_request one_space_client]))"
    by (simp add: sel space_for_def choose_space_def one_space_def bindS_def send_request_def jget_def jget_default_def ret_def discovery_request_def)
  have "realm_path ''h/api/memory/v1/r'' ''browse'' wl = (Inr ''h/api/memory/v1/browse'', wl)" for wl :: "unit \<times> http_request list"
    by (simp add: realm_path_def rpartition_def ret_def upt_rec_numeral)
  with space show ?thesis by (simp add: sel realm_call_def bindS_def send_request_def one_space_def)
qed

theorem memory_credential_confined_witness:
  "\<exists>r w' sent. realm_call (logged_client one_space_client) ''o'' ''browse'' None None ''GET'' ((), []) = (r, (w', sent)) \<and> length sent = 2
     \<and> (\<exists>realms w1 realm prefix rest. discovered one_space_client () realms w1 \<and> owned_by ''o'' realms = [realm]
         \<and> jget ''recollections_url'' realm = JStr (prefix @ ''/api/memory/v1/'' @ rest))"
proof -
  obtain r w' sent where run: "realm_call (logged_client one_space_client) ''o'' ''browse'' None None ''GET'' ((), []) = (r, (w', sent))"
    by (metis surj_pair)
  then have "length sent = 2" using one_space_run by simp
  from memory_credential_confined [OF run] show ?thesis
  proof (elim disjE exE conjE)
    fix realms w1 realm prefix rest
    assume "discovered one_space_client () realms w1" "owned_by ''o'' realms = [realm]"
      "jget ''recollections_url'' realm = JStr (prefix @ ''/api/memory/v1/'' @ rest)"
    with run \<open>length sent = 2\<close> show ?thesis by blast
  qed (use \<open>length sent = 2\<close> in simp_all)
qed

end
