(* ===== verification/Controller_Commands.thy ===== *)
theory Controller_Commands
  imports Operator_Admission Runtime_Clients
begin

text \<open>
  The commands a Controller sends through \<open>ControlPlaneService\<close> (\<open>app/control_plane/service.py\<close>) besides decisions and
  removals, with what they rest on: the authority every command carries (\<open>contracts.py\<close>), the credential the
  Hub is shown (\<open>hub_credentials.py\<close>) and the vouchers a device joins with (\<open>commissioning_vouchers.py\<close>).
\<close>

section \<open>The authority of a command\<close>

record ControllerActorRef =
  act_principal_id :: string
  act_principal_type :: string
  act_owner_domain_id :: string
  act_granted_scopes :: "string list"
  act_authentication_strength :: string

text \<open>\<open>ControllerCommand._authority\<close>, for the class \<open>name\<close> with its target and scope.\<close>

definition command_authority :: "string \<Rightarrow> string \<Rightarrow> string \<Rightarrow> ControllerActorRef \<Rightarrow> call_error + unit" where
  "command_authority name target required_scope actor =
     (if act_owner_domain_id actor \<noteq> target then Inl (Raised (ValueErr (name @ '' actor and target Owner Domain do not match'')))
      else if required_scope \<notin> set (act_granted_scopes actor) then Inl (Raised (ValueErr (name @ '' actor lacks '' @ required_scope)))
      else Inr ())"

record 'ref AdmissionCredential =
  cr_subject :: string
  cr_actor :: ControllerActorRef
  cr_owner_domain_id :: string
  cr_business_owner_id :: string
  cr_scopes :: "string list"
  cr_intent_id :: "string option"
  cr_target_device_ref :: "'ref option"

definition SUBJECT :: string where
  "SUBJECT = ''eidolon-admin/admission-consumer''"

text \<open>An issuer is what the SDK makes of a credential: a token, or nothing for its own error.\<close>

type_synonym 'ref issuer = "'ref AdmissionCredential \<Rightarrow> string option"

definition issue_admission_context ::
  "'ref issuer \<Rightarrow> ControllerActorRef \<Rightarrow> string \<Rightarrow> string option \<Rightarrow> 'ref option \<Rightarrow> call_error + string" where
  "issue_admission_context issue actor business_owner_id intent_id target_device_ref =
     (case issue \<lparr>cr_subject = SUBJECT, cr_actor = actor, cr_owner_domain_id = act_owner_domain_id actor,
                  cr_business_owner_id = business_owner_id, cr_scopes = act_granted_scopes actor, cr_intent_id = intent_id,
                  cr_target_device_ref = target_device_ref\<rparr> of
        None \<Rightarrow> Inl (Failed (failure ''hub'' ''configuration'' ''Hub Owner credential issuer is not configured'' 503))
      | Some token \<Rightarrow> Inr token)"

definition issue_removal_intent ::
  "'ref issuer \<Rightarrow> ('ref, 'res) sdk \<Rightarrow> string \<Rightarrow> string \<Rightarrow> 'ref \<Rightarrow> string \<Rightarrow> call_error + string" where
  "issue_removal_intent issue S controller_id intent_id device_ref business_owner_id =
     issue_admission_context issue
       \<lparr>act_principal_id = controller_id, act_principal_type = ''controller'', act_owner_domain_id = ref_owner_domain_id S device_ref,
        act_granted_scopes = [''device.claim.revoke''], act_authentication_strength = ''software''\<rparr>
       business_owner_id (Some intent_id) (Some device_ref)"

section \<open>Vouchers\<close>

text \<open>
  \<open>secrets\<close> draws from the world; the claims of a voucher and their signature are the SDK's. The base
  identity is taken as the Hub answered it, whatever it is.
\<close>

record ('w, 'claims) voucher_issuer =
  vi_ttl :: int
  vi_token_hex :: "nat \<Rightarrow> 'w \<Rightarrow> string \<times> 'w"
  vi_now :: "'w \<Rightarrow> int"
  vi_claims :: "json \<Rightarrow> string \<Rightarrow> string \<Rightarrow> string \<Rightarrow> int \<Rightarrow> string \<Rightarrow> call_error + 'claims"
  vi_sign :: "'claims \<Rightarrow> string"

definition DEFAULT_TTL :: int where
  "DEFAULT_TTL = 24 * 3600 * 1000000"

record CommissioningVoucher =
  cv_voucher :: string
  cv_jti :: string
  cv_device_base_id :: json
  cv_expires_at :: int

definition new_jti :: "('w, 'claims) voucher_issuer \<Rightarrow> ('w, call_error, string) op" where
  "new_jti I w = (case vi_token_hex I 16 w of (t, w1) \<Rightarrow> (Inr (''jti-'' @ t), w1))"

definition issue_voucher ::
  "('w, 'claims) voucher_issuer \<Rightarrow> string \<Rightarrow> string \<Rightarrow> json \<Rightarrow> string \<Rightarrow> string option \<Rightarrow> ('w, call_error, CommissioningVoucher) op" where
  "issue_voucher I owner_domain_id operational_spki_sha256 device_base_id provenance jti w =
     (let expires_at = vi_now I w + vi_ttl I
      in case (if py_true device_base_id then (device_base_id, w)
               else case vi_token_hex I 32 w of (t, w1) \<Rightarrow> (JStr (''device-base-'' @ t), w1)) of
           (base_id, w1) \<Rightarrow>
             (case (case jti of Some (c # cs) \<Rightarrow> (Inr (c # cs), w1) | _ \<Rightarrow> new_jti I w1) of
                (Inl e, w2) \<Rightarrow> (Inl e, w2)
              | (Inr name, w2) \<Rightarrow>
                  (case vi_claims I base_id owner_domain_id operational_spki_sha256 name (expires_at div 1000000) provenance of
                     Inl e \<Rightarrow> (Inl e, w2)
                   | Inr claims \<Rightarrow>
                       (Inr \<lparr>cv_voucher = vi_sign I claims, cv_jti = name, cv_device_base_id = base_id, cv_expires_at = expires_at\<rparr>, w2))))"

section \<open>Commands\<close>

text \<open>The service: an issuer of credentials and one of vouchers, where they are configured, and the Hub's client.\<close>

record ('w, 'ref, 'claims) command_service =
  cs_hub :: "'w authority_client"
  cs_hub_credentials :: "'ref issuer option"
  cs_vouchers :: "('w, 'claims) voucher_issuer option"

definition admission_issuer :: "('w, 'ref, 'claims) command_service \<Rightarrow> call_error + 'ref issuer" where
  "admission_issuer V =
     (case cs_hub_credentials V of
        None \<Rightarrow> Inl (Failed (failure ''hub'' ''configuration'' ''Hub Admission credential issuer is unavailable'' 503))
      | Some issuer \<Rightarrow> Inr issuer)"

definition commissioning_vouchers :: "('w, 'ref, 'claims) command_service \<Rightarrow> call_error + ('w, 'claims) voucher_issuer" where
  "commissioning_vouchers V =
     (case cs_vouchers V of
        None \<Rightarrow> Inl (Failed (failure ''hub'' ''configuration'' ''commissioning voucher signing key is unavailable'' 503))
      | Some issuer \<Rightarrow> Inr issuer)"

definition lift_res :: "call_error + 'a \<Rightarrow> ('w, call_error, 'a) op" where
  "lift_res r = (case r of Inl e \<Rightarrow> raise e | Inr v \<Rightarrow> ret v)"

text \<open>The credential of a command: most are minted just before the call they are shown in.\<close>

definition command_credential ::
  "('w, 'ref, 'claims) command_service \<Rightarrow> ControllerActorRef \<Rightarrow> string \<Rightarrow> 'ref option \<Rightarrow> ('w, call_error, string) op" where
  "command_credential V actor business_owner_id target =
     bindS (lift_res (admission_issuer V)) (\<lambda>issuer. lift_res (issue_admission_context issuer actor business_owner_id None target))"

definition list_enrollment_recovery where
  "list_enrollment_recovery V pages actor business_owner_id query =
     bindS (command_credential V actor business_owner_id None) (\<lambda>authorization.
       hub_list_enrollment_recovery (cs_hub V) pages query authorization)"

definition list_claims where
  "list_claims V pages actor business_owner_id query =
     bindS (command_credential V actor business_owner_id None) (\<lambda>authorization. hub_list_claims (cs_hub V) pages query authorization)"

definition get_enrollment_recovery where
  "get_enrollment_recovery V recoveries actor business_owner_id owner_domain_id enrollment_id =
     bindS (command_credential V actor business_owner_id None) (\<lambda>authorization.
     bindS (hub_get_enrollment_recovery (cs_hub V) recoveries enrollment_id authorization) (\<lambda>projection.
       if pp_requested_owner_domain_id (rv_proposal projection) \<noteq> owner_domain_id
       then violated ''hub'' ''Hub Enrollment recovery crossed its requested Owner Domain'' else ret projection))"

text \<open>\<open>selection\<close> is the dumped selection of an opening, \<open>session_id\<close> names a session that is there.\<close>

definition session_command :: "string \<Rightarrow> jobject \<Rightarrow> string \<Rightarrow> jobject" where
  "session_command action selection session_id = (if action = ''open'' then selection else [(''session_id'', JStr session_id)])"

definition role_group where
  "role_group V status_model actor business_owner_id action selection session_id =
     bindS (command_credential V actor business_owner_id None) (\<lambda>authorization.
       hub_role_group (cs_hub V) status_model action (session_command action selection session_id) authorization)"

definition device_conversation where
  "device_conversation V status_model actor business_owner_id action selection session_id =
     bindS (command_credential V actor business_owner_id None) (\<lambda>authorization.
       hub_device_conversation (cs_hub V) status_model action (session_command action selection session_id) authorization)"

definition shared_session where
  "shared_session V actor business_owner_id action selection session_id =
     bindS (command_credential V actor business_owner_id None) (\<lambda>authorization.
       hub_shared_session (cs_hub V) action (session_command action selection session_id) authorization)"

definition read_device_output_configuration where
  "read_device_output_configuration V model ref_of query_of actor business_owner_id device_ref =
     bindS (command_credential V actor business_owner_id (Some device_ref)) (\<lambda>authorization.
       hub_read_device_output_configuration (cs_hub V) model ref_of (query_of device_ref) device_ref authorization)"

definition set_device_output_policy where
  "set_device_output_policy V model allowed_of actor business_owner_id device_ref policy allowed =
     bindS (command_credential V actor business_owner_id (Some device_ref)) (\<lambda>authorization.
       hub_set_device_output_policy (cs_hub V) model allowed_of policy allowed authorization)"

record CommissioningVoucherIssued =
  vo_voucher :: string
  vo_jti :: string
  vo_device_base_id :: string
  vo_expires_at :: int

text \<open>\<open>answered.get\<close> on what is no object is an \<open>AttributeError\<close>; an id that is no text is one the model rejects.\<close>

definition issue_commissioning_voucher ::
  "('w, 'ref, 'claims) command_service \<Rightarrow> ControllerActorRef \<Rightarrow> string \<Rightarrow> string \<Rightarrow> string \<Rightarrow> ('w, call_error, CommissioningVoucherIssued) op" where
  "issue_commissioning_voucher V actor business_owner_id owner_domain_id operational_spki_sha256 =
     bindS (lift_res (admission_issuer V)) (\<lambda>issuer.
     bindS (lift_res (commissioning_vouchers V)) (\<lambda>vouchers.
     bindS (new_jti vouchers) (\<lambda>jti.
     bindS (lift_res (issue_admission_context issuer actor business_owner_id None None)) (\<lambda>authorization.
     bindS (hub_record_commissioning_standing (cs_hub V) authorization jti operational_spki_sha256) (\<lambda>answered.
       case answered of
         JObj v \<Rightarrow>
           bindS (issue_voucher vouchers owner_domain_id operational_spki_sha256 (jget ''device_base_id'' v) ''minted'' (Some jti)) (\<lambda>voucher.
             case cv_device_base_id voucher of
               JStr base_id \<Rightarrow> ret \<lparr>vo_voucher = cv_voucher voucher, vo_jti = cv_jti voucher, vo_device_base_id = base_id,
                                    vo_expires_at = cv_expires_at voucher\<rparr>
             | _ \<Rightarrow> raise ValidationErr)
       | _ \<Rightarrow> raise AttributeErr)))))"

definition withdraw_controller where
  "withdraw_controller V withdrawn actor business_owner_id principal_id =
     bindS (command_credential V actor business_owner_id None) (\<lambda>authorization.
     bindS (hub_withdraw_controller (cs_hub V) authorization principal_id) (\<lambda>answered.
       case withdrawn answered of None \<Rightarrow> raise ValidationErr | Some result \<Rightarrow> ret result))"

text \<open>The Kernel is handed the decisions on bodies as they are.\<close>

definition set_device_companion where
  "set_device_companion replace owner_id device_id companion_id request_id expected_assignment_revision origin change_reason =
     replace owner_id device_id companion_id request_id expected_assignment_revision origin change_reason"

definition release_device where
  "release_device replace owner_id device_id request_id expected_assignment_revision change_reason =
     bindS (replace owner_id device_id None request_id expected_assignment_revision ''companion-lifecycle'' (Some change_reason)) (\<lambda>_. ret ())"

definition configured_authorities :: "'w fixed_client \<Rightarrow> 'w fixed_client \<Rightarrow> string list" where
  "configured_authorities memory activity =
     (if has_credential memory then [''memory''] else []) @ (if has_credential activity then [''agent''] else [])"

section \<open>Refusals\<close>

lemma speaks_lift_res [speaks_intros]: "(\<And>e. r = Inl e \<Longrightarrow> speakable e) \<Longrightarrow> speaks (lift_res r)"
  unfolding lift_res_def by (intro speaks_intros) simp_all

lemma speaks_credential [speaks_intros]: "speaks (command_credential V actor business_owner_id target)"
  unfolding command_credential_def by (intro speaks_intros) (auto simp: admission_issuer_def issue_admission_context_def split: option.splits)

text \<open>Every refusal of these commands can be put on the wire.\<close>

lemma commands_speak:
  "speaks (list_enrollment_recovery V pages actor business_owner_id query)" "speaks (list_claims V pages actor business_owner_id query)"
  "speaks (get_enrollment_recovery V recoveries actor business_owner_id owner_domain_id enrollment_id)"
  "speaks (role_group V m actor business_owner_id action selection session_id)"
  "speaks (device_conversation V m actor business_owner_id action selection session_id)"
  "speaks (shared_session V actor business_owner_id action selection session_id)"
  "speaks (read_device_output_configuration V any ref_of query_of actor business_owner_id device_ref)"
  "speaks (set_device_output_policy V any allowed_of actor business_owner_id device_ref policy allowed)"
  "speaks (withdraw_controller V withdrawn actor business_owner_id principal_id)"
  unfolding list_enrollment_recovery_def list_claims_def get_enrollment_recovery_def role_group_def device_conversation_def shared_session_def
    read_device_output_configuration_def set_device_output_policy_def withdraw_controller_def
  by (intro speaks_intros hub_speaks hub_sessions_speak; simp)+

text \<open>A Host that says it holds a credential is not refused for want of one.\<close>

lemma configured_not_refused:
  assumes "has_credential C" shows "fc_token C \<noteq> []"
  using assms by (auto simp: has_credential_def py_strip_def strip_chars_def)

section \<open>A voucher that nobody stands for\<close>

text \<open>The request that tells the Hub who admits a key.\<close>

definition standing_request :: "'w authority_client \<Rightarrow> string \<Rightarrow> string \<Rightarrow> string \<Rightarrow> http_request" where
  "standing_request C jti operational_key_id base = hub_to C ''POST'' (base @ ''/api/admission/v1/commissioning-standings'')
     \<lparr>hq_json := Some (JObj [(''contract_version'', JStr ''1''), (''jti'', JStr jti), (''operational_key_id'', JStr operational_key_id)])\<rparr>"

text \<open>
  C29. A voucher is signed whatever status the Hub answers with. When the Hub refuses to record the Controller's
  standing, and its answer is an object without a base identity, as every refusal is, a new base
  identity is drawn and the voucher is signed for it under the name that the Hub refused.
\<close>

theorem refused_standing_still_signed:
  assumes "cs_hub_credentials V = Some issuer" and "cs_vouchers V = Some I"
    and "issue_admission_context issuer actor business_owner_id None None = Inr authorization"
    and "vi_token_hex I 16 w = (t, w1)"
    and "hub_request (cs_hub V) authorization (standing_request (cs_hub V) (''jti-'' @ t) key) w1 = (Inr response, w2)"
    and "\<not> (200 \<le> hr_status response \<and> hr_status response < 300)"
    and "hr_json response = Some (JObj v)" and "jget ''device_base_id'' v = JNull"
    and "vi_token_hex I 32 w2 = (b, w3)"
    and "vi_claims I (JStr (''device-base-'' @ b)) owner_domain_id key (''jti-'' @ t) ((vi_now I w2 + vi_ttl I) div 1000000) ''minted'' = Inr claims"
  shows "issue_commissioning_voucher V actor business_owner_id owner_domain_id key w
    = (Inr \<lparr>vo_voucher = vi_sign I claims, vo_jti = ''jti-'' @ t, vo_device_base_id = ''device-base-'' @ b,
            vo_expires_at = vi_now I w2 + vi_ttl I\<rparr>, w3)"
proof -
  have told: "hub_record_commissioning_standing (cs_hub V) authorization (''jti-'' @ t) key w1 = (Inr (JObj v), w2)"
    using assms(5,7) by (simp add: hub_record_commissioning_standing_def standing_request_def [abs_def] bindS_def json_answer_def ret_def)
  have signed: "issue_voucher I owner_domain_id key JNull ''minted'' (Some (''jti-'' @ t)) w2
      = (Inr \<lparr>cv_voucher = vi_sign I claims, cv_jti = ''jti-'' @ t, cv_device_base_id = JStr (''device-base-'' @ b),
              cv_expires_at = vi_now I w2 + vi_ttl I\<rparr>, w3)"
    using assms(9,10) by (simp add: issue_voucher_def Let_def)
  show ?thesis using assms(1-4,8) told signed
    by (simp add: issue_commissioning_voucher_def admission_issuer_def commissioning_vouchers_def lift_res_def ret_def new_jti_def bindS_def)
qed

text \<open>A Hub that answers every request with one status and one document, reached through a directory that names it.\<close>

definition example_directory :: "unit sender" where
  "example_directory q w = (Answered \<lparr>hr_status = 200, hr_content = [], hr_json = Some (JObj
     [(''operation'', JStr ''system.service-endpoint''), (''service_id'', JStr ''hub''), (''endpoint_id'', JStr ''device-authority.http''),
      (''protocol'', JStr ''http''), (''address'', JStr ''http://h''), (''contract'', JStr HUB_CONTRACT)])\<rparr>, w)"

definition refusing_hub :: "unit authority_client" where
  "refusing_hub = \<lparr>ac_directory = \<lparr>sd_base_url = ''d'', sd_timeout = 1, sd_send = example_directory\<rparr>,
     ac_send = (\<lambda>q w. (Answered \<lparr>hr_status = 403, hr_content = [], hr_json = Some (JObj [(''detail'', JStr ''no'')])\<rparr>, w)),
     ac_token = [], ac_timeout = 1\<rparr>"

definition example_vouchers :: "(unit, string) voucher_issuer" where
  "example_vouchers = \<lparr>vi_ttl = DEFAULT_TTL, vi_token_hex = (\<lambda>n w. (''ab'', w)), vi_now = (\<lambda>_. 0),
     vi_claims = (\<lambda>base domain key jti expires provenance. Inr jti), vi_sign = (\<lambda>claims. claims)\<rparr>"

definition example_commands :: "(unit, unit, string) command_service" where
  "example_commands = \<lparr>cs_hub = refusing_hub, cs_hub_credentials = Some (\<lambda>_. Some ''t''), cs_vouchers = Some example_vouchers\<rparr>"

definition example_actor :: ControllerActorRef where
  "example_actor = \<lparr>act_principal_id = ''p'', act_principal_type = ''controller'', act_owner_domain_id = ''od'',
     act_granted_scopes = [''device.claim.approve''], act_authentication_strength = ''software''\<rparr>"

lemma example_resolves:
  "\<exists>e. resolve (ac_directory refusing_hub) ''hub'' ''device-authority.http'' HUB_CONTRACT w = (Inr e, w)"
proof -
  have "urlparse ''http://h'' = Some (''http'', ''h'')"
    by (simp add: urlparse_def url_scheme_def unreserved_def is_ascii_letter_def lower_def Let_def)
  then show ?thesis
    by (simp add: resolve_def refusing_hub_def example_directory_def http_request_to_def service_endpoint_def bounded_str_def HUB_CONTRACT_def
        check_endpoint_def ret_def Let_def)
qed

theorem refused_standing_still_signed_witness:
  "issue_commissioning_voucher example_commands example_actor ''o'' ''od'' ''sha256:k'' ()
    = (Inr \<lparr>vo_voucher = ''jti-ab'', vo_jti = ''jti-ab'', vo_device_base_id = ''device-base-ab'', vo_expires_at = DEFAULT_TTL\<rparr>, ())"
proof -
  have sel: "cs_hub example_commands = refusing_hub" "cs_hub_credentials example_commands = Some (\<lambda>_. Some ''t'')"
    "cs_vouchers example_commands = Some example_vouchers" by (simp_all add: example_commands_def)
  have "hub_headers ''t'' = Inr [(''Authorization'', ''t'')]" by (simp add: hub_headers_def py_strip_def strip_chars_def is_space_def)
  then have hub: "hub_request refusing_hub ''t'' q w
      = (Inr \<lparr>hr_status = 403, hr_content = [], hr_json = Some (JObj [(''detail'', JStr ''no'')])\<rparr>, w)" for q w
    using example_resolves [of w] by (auto simp: hub_request_def hub_base_url_def bindS_def ret_def send_request_def, simp add: refusing_hub_def)
  show ?thesis
    using refused_standing_still_signed [of example_commands "\<lambda>_. Some ''t''" example_vouchers example_actor "''o''" "''t''" "()" "''ab''" "()"
        "''sha256:k''" "\<lparr>hr_status = 403, hr_content = [], hr_json = Some (JObj [(''detail'', JStr ''no'')])\<rparr>" "()"
        "[(''detail'', JStr ''no'')]" "''ab''" "()" "''od''" "''jti-ab''"]
    by (simp add: sel hub issue_admission_context_def example_vouchers_def jget_def)
qed

end
