(* ===== verification/Owner_Management.thy ===== *)
theory Owner_Management
  imports Controller_Commands
begin

text \<open>
  What an Owner may do through \<open>app/management\<close>: the roster, the context, names, faces, personas, adding a
  Companion and putting one away. The functions are handed the authorities they call (the protocols of
  the modules) as operations; the routes of \<open>router.py\<close> hand them the clients of the control plane.
\<close>

section \<open>Answers\<close>

text \<open>What is read of the answers besides the identities the clients compare. \<open>'dt\<close> is a point in time.\<close>

record companion_facts =
  cf_display_name :: string
  cf_kind :: string
  cf_lifecycle_state :: string
  cf_revision :: int

record owner_facts =
  of_display_name :: string
  of_revision :: int

record lifecycle_facts =
  lf_revision :: int
  lf_default_companion_id :: "string option"

record 'dt CompanionSummary =
  cs_artwork_id :: "string option"
  cs_companion_id :: string
  cs_display_name :: string
  cs_kind :: string
  cs_lifecycle_state :: string
  cs_revision :: int
  cs_created_at :: 'dt
  cs_updated_at :: 'dt
  cs_current_genome_id :: "string option"
  cs_memory_realm_id :: "string option"

record 'dt roster_facts =
  rf_default_companion_id :: "string option"
  rf_companions :: "'dt CompanionSummary list"
  rf_next_cursor :: "string option"

record provision_facts =
  pf_companion :: "string \<times> companion_facts"
  pf_memory_realm_created :: bool
  pf_replayed :: bool

record CompanionFace =
  fa_companion_id :: string
  fa_has_face :: bool
  fa_sha256 :: "string option"
  fa_updated_at :: "string option"

record PersonaChapter =
  pc_genome_id :: string
  pc_lifecycle_state :: string
  pc_change_summary :: string
  pc_restored_from_version :: "int option"
  pc_is_current :: bool
  pc_created_at :: string

record PersonaTimeline =
  pt_companion_id :: string
  pt_chapters :: "PersonaChapter list"

text \<open>The bounds a response model sets on a text.\<close>

definition at_most :: "nat \<Rightarrow> string \<Rightarrow> bool" where
  "at_most n s \<longleftrightarrow> length s \<le> n"

definition named :: "nat \<Rightarrow> string \<Rightarrow> bool" where
  "named n s \<longleftrightarrow> s \<noteq> [] \<and> length s \<le> n"

definition maybe :: "('a \<Rightarrow> bool) \<Rightarrow> 'a option \<Rightarrow> bool" where
  "maybe P v = (case v of None \<Rightarrow> True | Some x \<Rightarrow> P x)"

text \<open>
  A route builds its response model from the view it was given, member by member: the answer is the
  view where the model's bounds hold, a \<open>ValidationError\<close> where they do not.
\<close>

definition respond :: "('v \<Rightarrow> bool) \<Rightarrow> 'v \<Rightarrow> ('w, call_error, 'v) op" where
  "respond fits view = (if fits view then ret view else raise ValidationErr)"

section \<open>The roster\<close>

record CompanionRow =
  cw_companion_id :: string
  cw_display_name :: string
  cw_kind :: string
  cw_lifecycle_state :: string
  cw_revision :: int
  cw_created_at :: string
  cw_updated_at :: string
  cw_artwork_id :: "string option"
  cw_genome_id :: "string option"
  cw_memory_realm_id :: "string option"
  cw_last_active_at :: string

record Roster =
  ro_owner_id :: string
  ro_default_companion_id :: "string option"
  ro_companions :: "CompanionRow list"
  ro_next_cursor :: "string option"
  ro_activity_unavailable :: string

definition int_or :: "int option \<Rightarrow> int option \<Rightarrow> int option" where
  "int_or a b = (case a of Some n \<Rightarrow> if n \<noteq> 0 then a else b | None \<Rightarrow> b)"

definition activity_unavailable :: "call_error \<Rightarrow> string" where
  "activity_unavailable error =
     (case (case error of Failed f \<Rightarrow> int_or (af_upstream_status f) (Some (af_status_code f)) | _ \<Rightarrow> None) of
        Some status \<Rightarrow> if status = 503 then ''runtime_starting'' else ''runtime_unreachable''
      | None \<Rightarrow> ''runtime_unreachable'')"

text \<open>A dictionary built from pairs keeps the last value of a key. \<open>isoformat\<close> is \<open>datetime.isoformat\<close>.\<close>

definition dict_of :: "('k \<times> 'v) list \<Rightarrow> 'k \<Rightarrow> 'v option" where
  "dict_of pairs = map_of (rev pairs)"

definition companion_row :: "('dt \<Rightarrow> string) \<Rightarrow> (string \<Rightarrow> string option) \<Rightarrow> 'dt CompanionSummary \<Rightarrow> CompanionRow" where
  "companion_row isoformat last_spoken row =
     \<lparr>cw_companion_id = cs_companion_id row, cw_display_name = cs_display_name row, cw_kind = cs_kind row,
      cw_lifecycle_state = cs_lifecycle_state row, cw_revision = cs_revision row, cw_created_at = isoformat (cs_created_at row),
      cw_updated_at = isoformat (cs_updated_at row), cw_artwork_id = cs_artwork_id row, cw_genome_id = cs_current_genome_id row,
      cw_memory_realm_id = cs_memory_realm_id row,
      cw_last_active_at = (case last_spoken (cs_companion_id row) of None \<Rightarrow> [] | Some t \<Rightarrow> t)\<rparr>"

definition last_spoken_to ::
  "(string \<Rightarrow> ('w, call_error, (string \<times> string) list) op) option \<Rightarrow> string \<Rightarrow> 'w \<Rightarrow> ((string \<Rightarrow> string option) \<times> string) \<times> 'w" where
  "last_spoken_to activity owner_id w =
     (case activity of
        None \<Rightarrow> ((Map.empty, ''runtime_not_configured''), w)
      | Some ask \<Rightarrow>
          (case ask owner_id w of
             (Inl exc, w1) \<Rightarrow> ((Map.empty, activity_unavailable exc), w1)
           | (Inr rows, w1) \<Rightarrow> ((dict_of rows, []), w1)))"

definition read_roster ::
  "('dt \<Rightarrow> string) \<Rightarrow> (string \<Rightarrow> string option \<Rightarrow> ('w, call_error, 'dt roster_facts CompanionRosterPage) op)
    \<Rightarrow> (string \<Rightarrow> ('w, call_error, (string \<times> string) list) op) option \<Rightarrow> string \<Rightarrow> string option \<Rightarrow> ('w, call_error, Roster) op" where
  "read_roster isoformat list_companions activity owner_id cursor =
     bindS (list_companions owner_id cursor) (\<lambda>page w.
       case last_spoken_to activity owner_id w of
         ((last_spoken, unavailable), w1) \<Rightarrow>
           (Inr \<lparr>ro_owner_id = rp_owner_id page, ro_default_companion_id = rf_default_companion_id (rp_rest page),
                 ro_companions = map (companion_row isoformat last_spoken) (rf_companions (rp_rest page)),
                 ro_next_cursor = rf_next_cursor (rp_rest page), ro_activity_unavailable = unavailable\<rparr>, w1))"

record CompanionDetail =
  cd_companion_id :: string
  cd_facts :: companion_facts
  cd_is_default :: bool

definition read_companion ::
  "(string \<Rightarrow> string \<Rightarrow> ('w, call_error, companion_facts CompanionIdentity) op) \<Rightarrow> (string \<Rightarrow> ('w, call_error, owner_facts OwnerIdentity) op)
    \<Rightarrow> string \<Rightarrow> string \<Rightarrow> ('w, call_error, CompanionDetail) op" where
  "read_companion get_owned get_owner_of owner_id companion_id =
     bindS (get_owned owner_id companion_id) (\<lambda>identity.
     bindS (get_owner_of owner_id) (\<lambda>owner.
       ret \<lparr>cd_companion_id = ci_companion_id identity, cd_facts = ci_rest identity,
            cd_is_default = (oi_default_companion_id owner = Some (ci_companion_id identity))\<rparr>))"

definition manage_set_default ::
  "(string \<Rightarrow> string \<Rightarrow> int \<Rightarrow> ('w, call_error, 'more OwnerIdentity) op) \<Rightarrow> string \<Rightarrow> string \<Rightarrow> int \<Rightarrow> ('w, call_error, string option) op" where
  "manage_set_default set_default owner_id companion_id expected_revision =
     bindS (set_default owner_id companion_id expected_revision) (\<lambda>identity. ret (oi_default_companion_id identity))"

section \<open>The context\<close>

definition CAPABILITIES :: "string list" where
  "CAPABILITIES =
     [''home.read'', ''companion.read'', ''companion.create'', ''companion.rename'', ''owner.rename'', ''companion.set_default'',
      ''companion.face'', ''companion.archive'', ''companion.restore'', ''persona.read'', ''persona.govern'', ''persona.author'',
      ''memory.read'', ''memory.govern'', ''memory.export'', ''device.read'', ''device.manage'', ''device.identify'', ''body.assign'',
      ''activity.read'', ''conversation.read'', ''task.read'', ''task.manage'', ''host.read'', ''host.operate'', ''controller.manage'',
      ''session.revoke'']"

definition ENABLED :: "string list" where
  "ENABLED =
     [''companion.read'', ''companion.create'', ''companion.set_default'', ''home.read'', ''memory.read'', ''memory.govern'',
      ''persona.read'', ''persona.govern'', ''persona.author'', ''memory.export'', ''companion.archive'', ''companion.restore'',
      ''companion.rename'', ''owner.rename'', ''companion.face'', ''controller.manage'', ''host.read'', ''host.operate'', ''device.read'',
      ''device.manage'', ''body.assign'', ''activity.read'', ''conversation.read'', ''task.read'', ''task.manage'', ''session.revoke'']"

definition CAPABILITY_AUTHORITIES :: "(string \<times> string list) list" where
  "CAPABILITY_AUTHORITIES =
     [(''memory.read'', [''memory'']), (''memory.govern'', [''memory'']), (''memory.export'', [''memory'']),
      (''conversation.read'', [''agent'']), (''task.read'', [''agent'']), (''task.manage'', [''agent'']), (''session.revoke'', [''agent''])]"

record ManagementContext =
  mc_owner_id :: string
  mc_owner_display_name :: string
  mc_owner_revision :: int
  mc_default_companion_id :: "string option"
  mc_capabilities :: "(string \<times> bool) list"
  mc_unavailable :: "(string \<times> string) list"
  mc_limits :: "(string \<times> int option) list"

definition withheld :: "string list \<Rightarrow> (string \<times> string) list" where
  "withheld held = concat (map (\<lambda>name.
     if name \<notin> set ENABLED then [(name, ''not_built'')]
     else if \<not> set (case map_of CAPABILITY_AUTHORITIES name of None \<Rightarrow> [] | Some needed \<Rightarrow> needed) \<subseteq> set held
     then [(name, ''host_not_configured'')] else []) CAPABILITIES)"

definition read_context :: "(string \<Rightarrow> ('w, call_error, owner_facts OwnerIdentity) op) \<Rightarrow> string list \<Rightarrow> string \<Rightarrow> ('w, call_error, ManagementContext) op" where
  "read_context get_owner_of held owner_id =
     bindS (get_owner_of owner_id) (\<lambda>owner.
       let unavailable = withheld held
       in ret \<lparr>mc_owner_id = oi_owner_id owner, mc_owner_display_name = of_display_name (oi_rest owner),
               mc_owner_revision = of_revision (oi_rest owner), mc_default_companion_id = oi_default_companion_id owner,
               mc_capabilities = map (\<lambda>name. (name, name \<notin> fst ` set unavailable)) CAPABILITIES,
               mc_unavailable = unavailable, mc_limits = [(''max_active_companions'', None)]\<rparr>)"

section \<open>Putting a Companion away\<close>

record CompanionLifecycleView =
  lv_companion_id :: string
  lv_lifecycle_state :: string
  lv_revision :: int
  lv_default_companion_id :: "string option"
  lv_released_devices :: "string list"

definition lifecycle_view :: "lifecycle_facts CompanionLifecycleResult \<Rightarrow> CompanionLifecycleView" where
  "lifecycle_view result =
     \<lparr>lv_companion_id = cl_companion_id result, lv_lifecycle_state = cl_lifecycle_state result, lv_revision = lf_revision (cl_rest result),
      lv_default_companion_id = lf_default_companion_id (cl_rest result), lv_released_devices = []\<rparr>"

text \<open>The authorities that a lifecycle change calls. \<open>lp_sha256\<close> is the digest in hexadecimal.\<close>

record 'w lifecycle_ports =
  lp_bodies :: "string \<Rightarrow> ('w, call_error, KernelBodyEndpoint list) op"
  lp_release :: "string \<Rightarrow> string \<Rightarrow> string \<Rightarrow> int \<Rightarrow> string \<Rightarrow> ('w, call_error, unit) op"
  lp_set_lifecycle :: "string \<Rightarrow> string \<Rightarrow> string \<Rightarrow> int option \<Rightarrow> string option \<Rightarrow> ('w, call_error, lifecycle_facts CompanionLifecycleResult) op"
  lp_sha256 :: "bytes \<Rightarrow> string"

definition release_request_id :: "(bytes \<Rightarrow> string) \<Rightarrow> string \<Rightarrow> string \<Rightarrow> string" where
  "release_request_id sha256 companion_id device_id =
     ''companion-archive-'' @ sha256 (utf8 (companion_id @ [CHR 0x00] @ device_id))"

definition answers_as :: "string \<Rightarrow> KernelBodyEndpoint \<Rightarrow> bool" where
  "answers_as companion_id endpoint =
     (case be_assignment endpoint of None \<Rightarrow> False | Some a \<Rightarrow> ba_companion_id a = Some companion_id)"

fun release_each :: "'w lifecycle_ports \<Rightarrow> string \<Rightarrow> string \<Rightarrow> KernelBodyEndpoint list \<Rightarrow> string list \<Rightarrow> ('w, call_error, string list) op" where
  "release_each L owner_id companion_id [] released = ret released"
| "release_each L owner_id companion_id (endpoint # rest) released =
     (case be_assignment endpoint of
        None \<Rightarrow> release_each L owner_id companion_id rest released
      | Some a \<Rightarrow>
          if ba_companion_id a \<noteq> Some companion_id then release_each L owner_id companion_id rest released
          else bindS (lp_release L owner_id (be_device_id endpoint) (release_request_id (lp_sha256 L) companion_id (be_device_id endpoint))
                       (ba_revision a) ''companion-archived'') (\<lambda>_.
                 release_each L owner_id companion_id rest (released @ [be_device_id endpoint])))"

definition release_bodies :: "'w lifecycle_ports \<Rightarrow> string \<Rightarrow> string \<Rightarrow> ('w, call_error, string list) op" where
  "release_bodies L owner_id companion_id =
     bindS (lp_bodies L owner_id) (\<lambda>page. release_each L owner_id companion_id page [])"

definition put_away :: "'w lifecycle_ports \<Rightarrow> string \<Rightarrow> string \<Rightarrow> string option \<Rightarrow> int option \<Rightarrow> ('w, call_error, CompanionLifecycleView) op" where
  "put_away L owner_id companion_id replacement_companion_id expected_revision =
     bindS (release_bodies L owner_id companion_id) (\<lambda>released.
     bindS (lp_set_lifecycle L owner_id companion_id ''archived'' expected_revision replacement_companion_id) (\<lambda>result.
       ret (lifecycle_view result\<lparr>lv_released_devices := released\<rparr>)))"

definition bring_back :: "'w lifecycle_ports \<Rightarrow> string \<Rightarrow> string \<Rightarrow> int option \<Rightarrow> ('w, call_error, CompanionLifecycleView) op" where
  "bring_back L owner_id companion_id expected_revision =
     bindS (lp_set_lifecycle L owner_id companion_id ''active'' expected_revision None) (\<lambda>result. ret (lifecycle_view result))"

text \<open>The ports as the service composes them: the Kernel holds the bodies, Data the state of a Companion.\<close>

definition service_lifecycle where
  "service_lifecycle C D assignment_model page_model result_model sha256 =
     \<lparr>lp_bodies = kernel_list_body_endpoints C page_model,
      lp_release = release_device (kernel_replace_assignment C assignment_model),
      lp_set_lifecycle = set_companion_lifecycle D result_model, lp_sha256 = sha256\<rparr>"

section \<open>Adding a Companion\<close>

record CreatedCompanion =
  cc_companion_id :: string
  cc_facts :: companion_facts
  cc_created :: bool
  cc_memory_ready :: bool

record provision_request =
  pq_operation_id :: string
  pq_display_name :: string
  pq_kind :: string
  pq_persona :: "json option"
  pq_preferences :: "json option"
  pq_source_preset_id :: "string option"
  pq_source_preset_revision :: "string option"

text \<open>
  The client is handed the preset's revision only along with a preset; the body it sends is the same
  either way.
\<close>

definition create_companion ::
  "(string \<Rightarrow> provision_request \<Rightarrow> ('w, call_error, provision_facts CompanionProvision) op) \<Rightarrow> ('w, call_error, bool) op option
    \<Rightarrow> string \<Rightarrow> provision_request \<Rightarrow> ('w, call_error, CreatedCompanion) op" where
  "create_companion provision reconcile owner_id request =
     bindS (provision owner_id (if pq_source_preset_id request = None then request\<lparr>pq_source_preset_revision := None\<rparr> else request)) (\<lambda>result.
     bindS (if pf_memory_realm_created (cp_rest result)
            then (case reconcile of None \<Rightarrow> ret False | Some ask \<Rightarrow> ask) else ret True) (\<lambda>memory_ready.
       ret \<lparr>cc_companion_id = fst (pf_companion (cp_rest result)), cc_facts = snd (pf_companion (cp_rest result)),
            cc_created = (\<not> pf_replayed (cp_rest result)), cc_memory_ready = memory_ready\<rparr>))"

section \<open>Faces\<close>

record FaceView =
  fv_companion_id :: string
  fv_has_face :: bool
  fv_sha256 :: "string option"
  fv_updated_at :: "string option"

record FaceBytes =
  fb_content :: "bytes option"
  fb_sha256 :: "string option"
  fb_unchanged :: bool

definition face_view :: "CompanionFace \<Rightarrow> FaceView" where
  "face_view face = \<lparr>fv_companion_id = fa_companion_id face, fv_has_face = fa_has_face face, fv_sha256 = fa_sha256 face, fv_updated_at = fa_updated_at face\<rparr>"

text \<open>\<open>get_owned\<close> is the Companion route that takes the Owner; what it answers is not read.\<close>

definition read_face ::
  "(bytes \<Rightarrow> string) \<Rightarrow> (string \<Rightarrow> string \<Rightarrow> ('w, call_error, 'identity) op) \<Rightarrow> (string \<Rightarrow> ('w, call_error, bytes option) op)
    \<Rightarrow> string \<Rightarrow> string \<Rightarrow> string option \<Rightarrow> ('w, call_error, FaceBytes) op" where
  "read_face sha256 get_owned get_face owner_id companion_id known_sha256 =
     bindS (get_owned owner_id companion_id) (\<lambda>_.
     bindS (get_face companion_id) (\<lambda>face.
       case face of
         None \<Rightarrow> ret \<lparr>fb_content = None, fb_sha256 = None, fb_unchanged = False\<rparr>
       | Some content \<Rightarrow>
           (let digest = sha256 content
            in if known_sha256 \<noteq> Some [] \<and> known_sha256 = Some digest
               then ret \<lparr>fb_content = None, fb_sha256 = Some digest, fb_unchanged = True\<rparr>
               else ret \<lparr>fb_content = Some content, fb_sha256 = Some digest, fb_unchanged = False\<rparr>)))"

definition read_face_state where
  "read_face_state get_owned get_state owner_id companion_id =
     bindS (get_owned owner_id companion_id) (\<lambda>_. bindS (get_state companion_id) (\<lambda>face. ret (face_view face)))"

definition set_face where
  "set_face get_owned set_face_of owner_id companion_id face =
     bindS (get_owned owner_id companion_id) (\<lambda>_. bindS (set_face_of companion_id face) (\<lambda>kept. ret (face_view kept)))"

definition clear_face where
  "clear_face get_owned clear_face_of owner_id companion_id =
     bindS (get_owned owner_id companion_id) (\<lambda>_. bindS (clear_face_of companion_id) (\<lambda>kept. ret (face_view kept)))"

section \<open>Names and sessions\<close>

definition manage_rename_companion where
  "manage_rename_companion get_owned rename owner_id companion_id display_name =
     bindS (get_owned owner_id companion_id) (\<lambda>_. rename companion_id display_name)"

definition manage_rename_owner where
  "manage_rename_owner rename owner_id display_name = rename owner_id display_name"

text \<open>\<open>revoke\<close> answers when the Agent revoked.\<close>

definition manage_revoke_sessions :: "(string \<Rightarrow> ('w, call_error, string) op) \<Rightarrow> string \<Rightarrow> ('w, call_error, string) op" where
  "manage_revoke_sessions revoke owner_id = bindS (revoke owner_id) (\<lambda>revoked_at. ret revoked_at)"

section \<open>Personas\<close>

record PersonaChapterView =
  pv_chapter_id :: string
  pv_changed_at :: string
  pv_what_changed :: string
  pv_restored_from :: "int option"
  pv_is_current :: bool

record PersonaHistory =
  ph_companion_id :: string
  ph_chapters :: "PersonaChapterView list"

definition current_chapter_id :: "PersonaHistory \<Rightarrow> string option" where
  "current_chapter_id history = map_option pv_chapter_id (find pv_is_current (ph_chapters history))"

definition persona_history :: "PersonaTimeline \<Rightarrow> PersonaHistory" where
  "persona_history timeline =
     \<lparr>ph_companion_id = pt_companion_id timeline,
      ph_chapters = map (\<lambda>chapter. \<lparr>pv_chapter_id = pc_genome_id chapter, pv_changed_at = pc_created_at chapter,
          pv_what_changed = pc_change_summary chapter, pv_restored_from = pc_restored_from_version chapter, pv_is_current = pc_is_current chapter\<rparr>)
        (filter (\<lambda>chapter. pc_lifecycle_state chapter = ''committed'') (pt_chapters timeline))\<rparr>"

definition read_history where
  "read_history get_owned get_timeline owner_id companion_id =
     bindS (get_owned owner_id companion_id) (\<lambda>_. bindS (get_timeline companion_id) (\<lambda>timeline. ret (persona_history timeline)))"

text \<open>The sentences \<open>OWNER_RESTORE_SUMMARY\<close> and \<open>OWNER_AUTHORED_SUMMARY\<close> are arguments: they are not in Latin script.\<close>

definition restore_chapter where
  "restore_chapter get_owned get_timeline restore summary owner_id companion_id chapter_id =
     bindS (get_owned owner_id companion_id) (\<lambda>_.
     bindS (get_timeline companion_id) (\<lambda>timeline.
       let before = persona_history timeline
       in if current_chapter_id before = Some chapter_id then ret before
          else bindS (restore companion_id chapter_id summary) (\<lambda>_.
               bindS (get_timeline companion_id) (\<lambda>after. ret (persona_history after)))))"

definition read_persona where
  "read_persona get_owned get_persona_of owner_id companion_id =
     bindS (get_owned owner_id companion_id) (\<lambda>_. get_persona_of companion_id)"

definition write_persona where
  "write_persona get_owned author summary owner_id companion_id authored =
     bindS (get_owned owner_id companion_id) (\<lambda>_. author companion_id authored summary)"

section \<open>The routes\<close>

definition fits_context :: "ManagementContext \<Rightarrow> bool" where
  "fits_context c \<longleftrightarrow> named 64 (mc_owner_id c) \<and> at_most 128 (mc_owner_display_name c) \<and> mc_owner_revision c \<ge> 1
     \<and> maybe (at_most 64) (mc_default_companion_id c)"

definition fits_summary :: "CompanionRow \<Rightarrow> bool" where
  "fits_summary r \<longleftrightarrow> maybe (at_most 128) (cw_artwork_id r) \<and> named 64 (cw_companion_id r) \<and> at_most 128 (cw_display_name r) \<and> named 32 (cw_kind r)
     \<and> named 32 (cw_lifecycle_state r) \<and> cw_revision r \<ge> 1 \<and> named 64 (cw_created_at r) \<and> named 64 (cw_updated_at r)
     \<and> maybe (at_most 64) (cw_genome_id r) \<and> maybe (at_most 64) (cw_memory_realm_id r) \<and> at_most 64 (cw_last_active_at r)"

definition fits_roster :: "Roster \<Rightarrow> bool" where
  "fits_roster r \<longleftrightarrow> named 64 (ro_owner_id r) \<and> maybe (at_most 64) (ro_default_companion_id r) \<and> list_all fits_summary (ro_companions r)
     \<and> at_most 64 (ro_activity_unavailable r) \<and> maybe (at_most 256) (ro_next_cursor r)"

definition fits_facts :: "string \<Rightarrow> companion_facts \<Rightarrow> bool" where
  "fits_facts companion_id f \<longleftrightarrow> named 64 companion_id \<and> at_most 128 (cf_display_name f) \<and> named 32 (cf_kind f) \<and> named 32 (cf_lifecycle_state f)
     \<and> cf_revision f \<ge> 1"

definition fits_lifecycle :: "CompanionLifecycleView \<Rightarrow> bool" where
  "fits_lifecycle v \<longleftrightarrow> named 64 (lv_companion_id v) \<and> named 32 (lv_lifecycle_state v) \<and> lv_revision v \<ge> 1
     \<and> maybe (at_most 64) (lv_default_companion_id v)"

definition fits_face :: "FaceView \<Rightarrow> bool" where
  "fits_face v \<longleftrightarrow> named 64 (fv_companion_id v) \<and> maybe (at_most 128) (fv_sha256 v) \<and> maybe (at_most 64) (fv_updated_at v)"

definition fits_chapter :: "PersonaChapterView \<Rightarrow> bool" where
  "fits_chapter v \<longleftrightarrow> named 64 (pv_chapter_id v) \<and> named 64 (pv_changed_at v) \<and> at_most 4096 (pv_what_changed v)"

definition fits_history :: "PersonaHistory \<Rightarrow> bool" where
  "fits_history h \<longleftrightarrow> named 64 (ph_companion_id h) \<and> list_all fits_chapter (ph_chapters h)"

text \<open>The clients the application holds, and the validation of what they answer.\<close>

record 'w management =
  mg_data :: "'w authority_client"
  mg_workspace :: "'w authority_client"
  mg_kernel :: "'w authority_client"
  mg_memory :: "'w fixed_client"
  mg_activity :: "'w fixed_client"
  mg_memory_supervisor :: "'w fixed_client option"

record 'dt answer_models =
  am_identity :: "bytes \<Rightarrow> companion_facts CompanionIdentity option"
  am_roster :: "bytes \<Rightarrow> 'dt roster_facts CompanionRosterPage option"
  am_owner :: "bytes \<Rightarrow> owner_facts OwnerIdentity option"
  am_provision :: "bytes \<Rightarrow> provision_facts CompanionProvision option"
  am_lifecycle :: "bytes \<Rightarrow> lifecycle_facts CompanionLifecycleResult option"
  am_face :: "bytes \<Rightarrow> CompanionFace option"
  am_timeline :: "bytes \<Rightarrow> PersonaTimeline option"
  am_chapter :: "bytes \<Rightarrow> PersonaChapter option"
  am_persona :: "bytes \<Rightarrow> json option"
  am_endpoint :: "bytes \<Rightarrow> KernelBodyEndpoint option"
  am_endpoints :: "bytes \<Rightarrow> KernelBodyEndpoint list option"
  am_activity :: "bytes \<Rightarrow> (string \<times> string) list option"
  am_revoked_at :: "bytes \<Rightarrow> string option"
  am_isoformat :: "'dt \<Rightarrow> string"
  am_sha256 :: "bytes \<Rightarrow> string"

abbreviation owned_companion where
  "owned_companion V M \<equiv> get_owner_companion (mg_data V) (am_identity M)"

abbreviation owner_of where
  "owner_of V M \<equiv> get_owner (mg_workspace V) (am_owner M)"

definition route_get_context where
  "route_get_context V M owner_id =
     bindS (read_context (owner_of V M) (configured_authorities (mg_memory V) (mg_activity V)) owner_id) (respond fits_context)"

definition route_list_companions where
  "route_list_companions V M owner_id cursor =
     bindS (read_roster (am_isoformat M) (\<lambda>ow cursor. list_owner_companions (mg_data V) (am_roster M) ow cursor None)
         (Some (companion_activity (mg_activity V) (am_activity M))) owner_id cursor) (respond fits_roster)"

definition route_get_companion where
  "route_get_companion V M owner_id companion_id =
     bindS (read_companion (owned_companion V M) (owner_of V M) owner_id companion_id)
       (respond (\<lambda>d. fits_facts (cd_companion_id d) (cd_facts d)))"

text \<open>A request outside its model is refused before the route runs.\<close>

definition requires :: "bool \<Rightarrow> ('w, call_error, 'a) op \<Rightarrow> ('w, call_error, 'a) op" where
  "requires ok route = (if ok then route else raise (OtherErr ''RequestValidationError''))"

definition route_put_default_companion where
  "route_put_default_companion V M owner_id companion_id expected_revision =
     requires (named 64 companion_id \<and> expected_revision \<ge> 1)
       (bindS (manage_set_default (set_default_companion (mg_workspace V) (am_owner M)) owner_id companion_id expected_revision)
         (respond (maybe (at_most 64))))"

definition fits_provision :: "provision_request \<Rightarrow> bool" where
  "fits_provision q \<longleftrightarrow> named 128 (pq_display_name q) \<and> named 32 (pq_kind q) \<and> maybe (named 64) (pq_source_preset_id q)
     \<and> maybe (named 32) (pq_source_preset_revision q)"

definition route_put_companion_provision where
  "route_put_companion_provision V M owner_id request =
     requires (fits_provision request)
       (bindS (create_companion (\<lambda>ow q. provision_companion (mg_workspace V) (am_provision M) ow (pq_operation_id q) (pq_display_name q) (pq_kind q)
            (pq_persona q) (pq_preferences q) (pq_source_preset_id q) (pq_source_preset_revision q))
          (map_option request_reconcile (mg_memory_supervisor V)) owner_id
          (if pq_source_preset_id request = None then request\<lparr>pq_source_preset_revision := None\<rparr> else request))
        (respond (\<lambda>c. fits_facts (cc_companion_id c) (cc_facts c))))"

definition route_patch_owner where
  "route_patch_owner V M owner_id display_name =
     requires (named 128 display_name)
       (bindS (manage_rename_owner (rename_owner (mg_workspace V) (am_owner M)) owner_id display_name)
         (respond (\<lambda>o1. named 64 (oi_owner_id o1) \<and> at_most 128 (of_display_name (oi_rest o1)) \<and> of_revision (oi_rest o1) \<ge> 1)))"

record lifecycle_request =
  lq_lifecycle_state :: string
  lq_replacement_companion_id :: "string option"
  lq_expected_revision :: "int option"

definition fits_lifecycle_request :: "lifecycle_request \<Rightarrow> bool" where
  "fits_lifecycle_request q \<longleftrightarrow> lq_lifecycle_state q \<in> {''archived'', ''active''} \<and> maybe (named 64) (lq_replacement_companion_id q)
     \<and> maybe (\<lambda>n. n \<ge> 1) (lq_expected_revision q)"

definition management_lifecycle where
  "management_lifecycle V M =
     service_lifecycle (mg_kernel V) (mg_workspace V) (am_endpoint M) (am_endpoints M) (am_lifecycle M) (am_sha256 M)"

definition route_put_companion_lifecycle where
  "route_put_companion_lifecycle V M owner_id companion_id payload =
     requires (fits_lifecycle_request payload)
       (bindS (if lq_lifecycle_state payload = ''archived''
               then put_away (management_lifecycle V M) owner_id companion_id (lq_replacement_companion_id payload) (lq_expected_revision payload)
               else bring_back (management_lifecycle V M) owner_id companion_id (lq_expected_revision payload))
         (respond fits_lifecycle))"

definition route_get_persona where
  "route_get_persona V M owner_id companion_id =
     read_persona (owned_companion V M) (get_persona (mg_data V) (am_persona M)) owner_id companion_id"

definition route_put_persona where
  "route_put_persona V M summary owner_id companion_id payload =
     write_persona (owned_companion V M) (author_persona (mg_data V) (am_persona M)) summary owner_id companion_id payload"

definition route_get_persona_history where
  "route_get_persona_history V M owner_id companion_id =
     bindS (read_history (owned_companion V M) (get_persona_timeline (mg_data V) (am_timeline M)) owner_id companion_id) (respond fits_history)"

definition route_post_runtime_session_revocation where
  "route_post_runtime_session_revocation V M owner_id =
     bindS (manage_revoke_sessions (revoke_runtime_sessions (mg_activity V) (am_revoked_at M)) owner_id) (respond (named 64))"

definition route_get_persona_authoring_template where
  "route_get_persona_authoring_template V model = persona_authoring_template (mg_data V) model"

definition route_get_persona_presets where
  "route_get_persona_presets V model = persona_presets (mg_data V) model"

definition route_preview_persona where
  "route_preview_persona V model owner_id payload = preview_persona (mg_activity V) model payload owner_id"

text \<open>The two routes that versioned writes replaced.\<close>

definition route_gone :: "string \<Rightarrow> ('w, call_error, 'a) op" where
  "route_gone detail = raise (OtherErr (''HTTPException 410 '' @ detail))"

definition route_patch_companion where
  "route_patch_companion display_name = requires (named 128 display_name) (route_gone ''Use versioned PUT /persona with action=rename'')"

definition route_put_persona_restoration where
  "route_put_persona_restoration chapter_id = requires (named 64 chapter_id) (route_gone ''Use versioned PUT /persona with action=restore'')"

subsection \<open>A face over HTTP\<close>

definition face_etag :: "string option \<Rightarrow> (string \<times> string) list" where
  "face_etag face_digest = (case face_digest of None \<Rightarrow> [] | Some d \<Rightarrow> if d = [] then [] else [(''ETag'', [CHR 0x22] @ ''sha256:'' @ d @ [CHR 0x22])])"

definition etag_digest :: "string option \<Rightarrow> string option" where
  "etag_digest header =
     (case header of
        None \<Rightarrow> None
      | Some h \<Rightarrow>
          if h = [] then None
          else (let value = strip_chars (\<lambda>c. c = CHR 0x22) (py_strip h)
                in if take 7 value = ''sha256:'' then Some (drop 7 value) else None))"

record face_response =
  fr_status :: int
  fr_content :: "bytes option"
  fr_media_type :: "string option"
  fr_headers :: "(string \<times> string) list"

definition face_answer :: "FaceBytes \<Rightarrow> face_response" where
  "face_answer face =
     (if fb_unchanged face then \<lparr>fr_status = 304, fr_content = None, fr_media_type = None, fr_headers = face_etag (fb_sha256 face)\<rparr>
      else if fb_content face = None then \<lparr>fr_status = 204, fr_content = None, fr_media_type = None, fr_headers = []\<rparr>
      else \<lparr>fr_status = 200, fr_content = fb_content face, fr_media_type = Some ''image/jpeg'', fr_headers = face_etag (fb_sha256 face)\<rparr>)"

definition route_get_companion_face where
  "route_get_companion_face V M owner_id companion_id if_none_match =
     bindS (read_face (am_sha256 M) (owned_companion V M) (get_companion_face (mg_data V)) owner_id companion_id (etag_digest if_none_match))
       (\<lambda>face. ret (face_answer face))"

definition route_get_companion_face_state where
  "route_get_companion_face_state V M owner_id companion_id =
     bindS (read_face_state (owned_companion V M) (get_companion_face_state (mg_data V) (am_face M)) owner_id companion_id) (respond fits_face)"

definition route_put_companion_face where
  "route_put_companion_face V M owner_id companion_id face =
     bindS (set_face (owned_companion V M) (set_companion_face (mg_data V) (am_face M)) owner_id companion_id face) (respond fits_face)"

definition route_delete_companion_face where
  "route_delete_companion_face V M owner_id companion_id =
     bindS (clear_face (owned_companion V M) (clear_companion_face (mg_data V) (am_face M)) owner_id companion_id) (respond fits_face)"

section \<open>What an archive calls\<close>

datatype archive_event =
    BodiesListed "KernelBodyEndpoint list option"
  | BodyReleased string string string int string bool
  | LifecycleSet string string string "int option" "string option" bool

definition watched_ports :: "'w lifecycle_ports \<Rightarrow> ('w \<times> archive_event list) lifecycle_ports" where
  "watched_ports L =
     \<lparr>lp_bodies = (\<lambda>ow. noting (lp_bodies L ow) (\<lambda>r. BodiesListed (answer r))),
      lp_release = (\<lambda>ow d q n c. noting (lp_release L ow d q n c) (\<lambda>r. BodyReleased ow d q n c (\<not> isl r))),
      lp_set_lifecycle = (\<lambda>ow c st n p. noting (lp_set_lifecycle L ow c st n p) (\<lambda>r. LifecycleSet ow c st n p (\<not> isl r))),
      lp_sha256 = lp_sha256 L\<rparr>"

definition releasing :: "'w lifecycle_ports \<Rightarrow> string \<Rightarrow> string \<Rightarrow> bool \<Rightarrow> KernelBodyEndpoint \<Rightarrow> archive_event" where
  "releasing L owner_id companion_id ok endpoint =
     BodyReleased owner_id (be_device_id endpoint) (release_request_id (lp_sha256 L) companion_id (be_device_id endpoint))
       (assignment_revision_of endpoint) ''companion-archived'' ok"

lemma watched_ports_sel [simp]:
  "lp_bodies (watched_ports L) ow = noting (lp_bodies L ow) (\<lambda>r. BodiesListed (answer r))"
  "lp_release (watched_ports L) ow d q n c = noting (lp_release L ow d q n c) (\<lambda>r. BodyReleased ow d q n c (\<not> isl r))"
  "lp_set_lifecycle (watched_ports L) ow c st x p = noting (lp_set_lifecycle L ow c st x p) (\<lambda>r. LifecycleSet ow c st x p (\<not> isl r))"
  "lp_sha256 (watched_ports L) = lp_sha256 L"
  by (simp_all add: watched_ports_def)

definition stopped_at :: "nat \<Rightarrow> (bool \<Rightarrow> 'b \<Rightarrow> 'l) \<Rightarrow> 'b list \<Rightarrow> 'l list" where
  "stopped_at n event xs = map (event True) (take n xs) @ [event False (xs ! n)]"

lemma stopped_at_Cons: "stopped_at (Suc n) event (x # xs) = event True x # stopped_at n event xs"
  by (simp add: stopped_at_def)

lemma release_each_calls:
  fixes L :: "'w lifecycle_ports"
  assumes "release_each (watched_ports L) owner_id companion_id page released (w, log) = (r, (w', log'))"
  defines "held \<equiv> filter (answers_as companion_id) page"
  shows "(r = Inr (released @ map be_device_id held) \<and> log' = log @ map (releasing L owner_id companion_id True) held)
    \<or> (isl r \<and> (\<exists>n. n < length held \<and> log' = log @ stopped_at n (releasing L owner_id companion_id) held))"
  using assms(1) unfolding held_def
proof (induction page arbitrary: released w log)
  case Nil
  then show ?case by (simp add: ret_def)
next
  case (Cons endpoint rest)
  show ?case
  proof (cases "answers_as companion_id endpoint")
    case False
    then show ?thesis using Cons.prems Cons.IH [of released w log] by (auto simp: answers_as_def split: option.splits if_splits)
  next
    case True
    then obtain a where a: "be_assignment endpoint = Some a" "ba_companion_id a = Some companion_id"
      by (auto simp: answers_as_def split: option.splits)
    let ?id = "release_request_id (lp_sha256 L) companion_id (be_device_id endpoint)"
    obtain r1 w1 where call: "lp_release L owner_id (be_device_id endpoint) ?id (ba_revision a) ''companion-archived'' w = (r1, w1)"
      by (metis prod.exhaust)
    have event: "BodyReleased owner_id (be_device_id endpoint) ?id (ba_revision a) ''companion-archived'' ok = releasing L owner_id companion_id ok endpoint" for ok
      by (simp add: releasing_def assignment_revision_of_def a)
    show ?thesis
    proof (cases r1)
      case (Inl e)
      with Cons.prems a call True event [of False] show ?thesis
        by (auto simp: bindS_def noting_run stopped_at_def intro!: exI [of _ 0])
    next
      case (Inr u)
      from Cons.prems a call Inr
      have "release_each (watched_ports L) owner_id companion_id rest (released @ [be_device_id endpoint]) (w1, log @ [releasing L owner_id companion_id True endpoint]) = (r, (w', log'))"
        by (simp add: bindS_def noting_run event)
      from Cons.IH [OF this] True show ?thesis
        by (auto simp: stopped_at_Cons [symmetric])
    qed
  qed
qed

text \<open>
  C32. An archive lists the Owner's bodies, releases each that answers as the Companion, in the order listed
  and at the revision listed, and only then asks for the state to change. Whatever fails ends it there and
  nothing is taken back: in particular a Companion that Data refuses to archive is left active with all its
  bodies released.
\<close>

theorem archive_releases_first:
  assumes "put_away (watched_ports L) owner_id companion_id replacement expected (w, []) = (r, (w', log))"
  shows "(log = [BodiesListed None] \<and> isl r)
    \<or> (\<exists>page held. held = filter (answers_as companion_id) page \<and>
        ((\<exists>n. n < length held \<and> isl r
            \<and> log = BodiesListed (Some page) # stopped_at n (releasing L owner_id companion_id) held)
         \<or> (\<exists>ok. log = BodiesListed (Some page) # map (releasing L owner_id companion_id True) held
                     @ [LifecycleSet owner_id companion_id ''archived'' expected replacement ok]
              \<and> (if ok then \<exists>view. r = Inr view \<and> lv_released_devices view = map be_device_id held else isl r))))"
proof -
  obtain r1 w1 where bodies: "lp_bodies L owner_id w = (r1, w1)" by (metis prod.exhaust)
  show ?thesis
  proof (cases r1)
    case (Inl e)
    with assms bodies show ?thesis by (auto simp: put_away_def release_bodies_def bindS_def noting_run)
  next
    case (Inr page)
    obtain r2 w2 log2 where each: "release_each (watched_ports L) owner_id companion_id page [] (w1, [BodiesListed (Some page)]) = (r2, (w2, log2))"
      by (metis prod.exhaust)
    let ?held = "filter (answers_as companion_id) page"
    from release_each_calls [OF each] consider
        "r2 = Inr (map be_device_id ?held)" "log2 = BodiesListed (Some page) # map (releasing L owner_id companion_id True) ?held"
      | n where "isl r2" "n < length ?held" "log2 = BodiesListed (Some page) # stopped_at n (releasing L owner_id companion_id) ?held"
      by auto
    then show ?thesis
    proof cases
      case 1
      obtain r3 w3 where set: "lp_set_lifecycle L owner_id companion_id ''archived'' expected replacement w2 = (r3, w3)" by (metis prod.exhaust)
      have "log = log2 @ [LifecycleSet owner_id companion_id ''archived'' expected replacement (\<not> isl r3)]
        \<and> (if \<not> isl r3 then \<exists>view. r = Inr view \<and> lv_released_devices view = map be_device_id ?held else isl r)"
        using assms bodies Inr each 1(1) set
        by (cases r3) (auto simp: put_away_def release_bodies_def bindS_def noting_run ret_def)
      with 1(2) show ?thesis by auto
    next
      case 2
      then have "r = map_sum id (\<lambda>_. undefined) r2 \<and> log = log2" using assms bodies Inr each
        by (cases r2) (auto simp: put_away_def release_bodies_def bindS_def noting_run)
      with 2 show ?thesis by (cases r2) auto
    qed
  qed
qed

text \<open>One body answers as the Companion; Data wants to know who answers instead.\<close>

definition example_body :: KernelBodyEndpoint where
  "example_body = \<lparr>be_device_id = ''d'', be_owner_id = ''o'', be_body_endpoint_id = ''d:body'',
     be_assignment = Some \<lparr>ba_companion_id = Some ''c'', ba_revision = 3\<rparr>\<rparr>"

definition example_ports :: "unit lifecycle_ports" where
  "example_ports = \<lparr>lp_bodies = (\<lambda>_. ret [example_body]), lp_release = (\<lambda>_ _ _ _ _. ret ()),
     lp_set_lifecycle = (\<lambda>_ _ _ _ _. raise (Failed (failure ''data'' ''conflict'' ''who answers'' 409\<lparr>af_code := Some ''default_replacement_required''\<rparr>))),
     lp_sha256 = (\<lambda>_. replicate 64 (CHR ''a''))\<rparr>"

theorem archive_releases_first_witness:
  "\<exists>r w' log. put_away (watched_ports example_ports) ''o'' ''c'' None None ((), []) = (r, (w', log)) \<and> isl r
     \<and> log = [BodiesListed (Some [example_body]), releasing example_ports ''o'' ''c'' True example_body, LifecycleSet ''o'' ''c'' ''archived'' None None False]"
proof -
  obtain r w' log where run: "put_away (watched_ports example_ports) ''o'' ''c'' None None ((), []) = (r, (w', log))" by (metis prod.exhaust)
  have "length log = 3" "hd log = BodiesListed (Some [example_body])" "isl r" using run
    by (auto simp: put_away_def release_bodies_def bindS_def noting_run example_ports_def example_body_def ret_def raise_def)
  moreover have "answers_as ''c'' example_body" by (simp add: answers_as_def example_body_def)
  ultimately show ?thesis using archive_releases_first [OF run] run by (auto simp: stopped_at_def split: if_splits)
qed

text \<open>The id of a release fits the bound of 96 on request ids, whatever the two names are.\<close>

lemma release_request_id_bound: "length (sha256 m) = 64 \<Longrightarrow> m = utf8 (c @ [CHR 0x00] @ d) \<Longrightarrow> length (release_request_id sha256 c d) = 82"
  by (simp add: release_request_id_def)

section \<open>Whose Companion it is\<close>

text \<open>
  What the functions on one Companion rely on: a route that takes the Owner and answers only for a
  Companion of that Owner. \<open>asked\<close> and \<open>belongs\<close> are what a refusal and an answer leave behind; \<open>later\<close> is
  what the calls on the Companion may do to the world.
\<close>

locale owner_scope =
  fixes get_owned :: "string \<Rightarrow> string \<Rightarrow> ('w, call_error, 'identity) op"
    and asked belongs :: "string \<Rightarrow> string \<Rightarrow> 'w \<Rightarrow> 'w \<Rightarrow> bool"
    and later :: "string \<Rightarrow> 'w \<Rightarrow> 'w \<Rightarrow> bool"
  assumes refused: "get_owned owner_id companion_id w = (Inl e, w1) \<Longrightarrow> asked owner_id companion_id w w1"
    and confirmed: "get_owned owner_id companion_id w = (Inr identity, w1) \<Longrightarrow> belongs owner_id companion_id w w1"
    and later_preorder: "reflp (later companion_id)" "transp (later companion_id)"
begin

lemma gated:
  assumes "bindS (get_owned owner_id companion_id) f w = (r, w')" and "\<And>identity. framed (later companion_id) (f identity)"
  shows "asked owner_id companion_id w w' \<or> (\<exists>w1. belongs owner_id companion_id w w1 \<and> later companion_id w1 w')"
  using assms by (auto simp: bindS_def split: prod.splits sum.splits dest: confirmed refused framedD)

lemmas later_rules = framed_if framed_option framed_bind [OF later_preorder(2)] framed_ret [OF later_preorder(1)]

text \<open>Every function on one Companion: nothing it may call runs unless the Companion is the Owner's.\<close>

lemma read_face_gated:
  assumes "read_face sha256 get_owned get_face owner_id companion_id known w = (r, w')" "framed (later companion_id) (get_face companion_id)"
  shows "asked owner_id companion_id w w' \<or> (\<exists>w1. belongs owner_id companion_id w w1 \<and> later companion_id w1 w')"
  using assms(1) unfolding read_face_def by (rule gated) (auto intro!: later_rules assms(2) simp: Let_def)

lemma restore_chapter_gated:
  assumes "restore_chapter get_owned get_timeline restore summary owner_id companion_id chapter_id w = (r, w')"
    "framed (later companion_id) (get_timeline companion_id)" "framed (later companion_id) (restore companion_id chapter_id summary)"
  shows "asked owner_id companion_id w w' \<or> (\<exists>w1. belongs owner_id companion_id w w1 \<and> later companion_id w1 w')"
  using assms(1) unfolding restore_chapter_def by (rule gated) (auto intro!: later_rules assms(2,3) simp: Let_def)

lemma one_call_gated:
  assumes "bindS (get_owned owner_id companion_id) (\<lambda>_. bindS m (\<lambda>v. ret (g v))) w = (r, w')" "framed (later companion_id) m"
  shows "asked owner_id companion_id w w' \<or> (\<exists>w1. belongs owner_id companion_id w w1 \<and> later companion_id w1 w')"
  using assms(1) by (rule gated) (intro later_rules assms(2))

end

text \<open>The Data client with a world that also keeps the requests sent to Data; those to the directory are not kept.\<close>

definition unlogged :: "'w sender \<Rightarrow> ('w \<times> http_request list) sender" where
  "unlogged send q wl = (case send q (fst wl) of (t, w) \<Rightarrow> (t, (w, snd wl)))"

definition logged_data :: "'w authority_client \<Rightarrow> ('w \<times> http_request list) authority_client" where
  "logged_data C =
     \<lparr>ac_directory = \<lparr>sd_base_url = sd_base_url (ac_directory C), sd_timeout = sd_timeout (ac_directory C), sd_send = unlogged (sd_send (ac_directory C))\<rparr>,
      ac_send = logged (ac_send C), ac_token = ac_token C, ac_timeout = ac_timeout C\<rparr>"

lemma logged_data_sel [simp]:
  "ac_send (logged_data C) = logged (ac_send C)" "ac_token (logged_data C) = ac_token C" "ac_timeout (logged_data C) = ac_timeout C"
  "bearer (logged_data C) method url = bearer C method url"
  by (simp_all add: logged_data_def bearer_def)

lemma resolve_logged:
  "resolve (ac_directory (logged_data C)) service endpoint contract (w, l)
     = (case resolve (ac_directory C) service endpoint contract w of (r, w1) \<Rightarrow> (r, (w1, l)))"
  by (simp add: resolve_def logged_data_def unlogged_def check_endpoint_def ret_def raise_def Let_def split: prod.split transport.split option.split)

lemma data_address_logged:
  "data_address (logged_data C) endpoint contract (w, l) = (case data_address C endpoint contract w of (r, w1) \<Rightarrow> (r, (w1, l)))"
  by (simp add: data_address_def bindS_def resolve_logged ret_def raise_def split: prod.split sum.split)

text \<open>A request of the Companion authority is sent to the address the directory names.\<close>

lemma companion_authority_logged:
  "companion_authority (logged_data C) request (w, l)
     = (case data_address C ''companion-authority.http'' DATA_CONTRACT w of
          (Inl e, w1) \<Rightarrow> (Inl e, (w1, l))
        | (Inr address, w1) \<Rightarrow>
            (case send_request ''data'' (ac_send C) (request (address @ ''/api/companion-authority/v1'')) w1 of
               (r, w2) \<Rightarrow> (r, (w2, l @ [request (address @ ''/api/companion-authority/v1'')]))))"
  by (simp add: companion_authority_def bindS_def data_address_logged send_request_def logged_def split: prod.split sum.split transport.split)

definition owner_read :: "'w authority_client \<Rightarrow> string \<Rightarrow> string \<Rightarrow> http_request \<Rightarrow> bool" where
  "owner_read C owner_id companion_id request \<longleftrightarrow> (\<exists>address. request = bearer C ''GET''
     (address @ ''/api/companion-authority/v1/owners/'' @ quote owner_id @ ''/companions/'' @ quote companion_id))"

definition beneath :: "string \<Rightarrow> http_request \<Rightarrow> bool" where
  "beneath companion_id request \<longleftrightarrow> (\<exists>address tail.
     hq_url request = address @ ''/api/companion-authority/v1/companions/'' @ quote companion_id @ tail \<and> (tail = [] \<or> hd tail = CHR ''/''))"

definition data_asked :: "'w authority_client \<Rightarrow> string \<Rightarrow> string \<Rightarrow> 'w \<times> http_request list \<Rightarrow> 'w \<times> http_request list \<Rightarrow> bool" where
  "data_asked C owner_id companion_id s s' \<longleftrightarrow> snd s' = snd s \<or> (\<exists>request. owner_read C owner_id companion_id request \<and> snd s' = snd s @ [request])"

definition data_confirmed ::
  "'w authority_client \<Rightarrow> (bytes \<Rightarrow> 'more CompanionIdentity option) \<Rightarrow> string \<Rightarrow> string \<Rightarrow> 'w \<times> http_request list \<Rightarrow> 'w \<times> http_request list \<Rightarrow> bool" where
  "data_confirmed C model owner_id companion_id s s' \<longleftrightarrow>
     (\<exists>request identity. owner_read C owner_id companion_id request \<and> snd s' = snd s @ [request]
        \<and> get_owner_companion C model owner_id companion_id (fst s) = (Inr identity, fst s')
        \<and> ci_owner_id identity = owner_id \<and> ci_companion_id identity = companion_id)"

definition data_later :: "string \<Rightarrow> 'w \<times> http_request list \<Rightarrow> 'w \<times> http_request list \<Rightarrow> bool" where
  "data_later companion_id s s' \<longleftrightarrow> (\<exists>sent. snd s' = snd s @ sent \<and> list_all (beneath companion_id) sent)"

lemma data_later_preorder: "reflp (data_later c)" "transp (data_later c)"
  by (auto simp: data_later_def reflp_def transp_def)

lemma later_companion_authority:
  assumes "\<And>address. beneath c (request (address @ ''/api/companion-authority/v1''))"
  shows "framed (data_later c) (companion_authority (logged_data C) request)"
  using assms by (auto simp: framed_def companion_authority_logged data_later_def split: prod.split sum.split)

lemma later_parse: "framed (data_later c) (parse_answer a response model)"
  by (auto simp: framed_def parse_answer_def ret_def raise_def data_later_def violated_def split: option.split)

text \<open>What follows a request of the Companion authority and leaves the world alone.\<close>

lemma asked_logged:
  fixes C :: "'w authority_client"
  assumes pure: "\<And>response w. after response w = (res response, w)" "\<And>response w. after' response w = (res response, w)"
    and run: "bindS (companion_authority (logged_data C) request) after' (w, l) = (r, (w1, l1))"
  shows "bindS (companion_authority C request) after w = (r, w1)"
    and "l1 = l \<and> isl r \<or> (\<exists>address. l1 = l @ [request (address @ ''/api/companion-authority/v1'')])"
  using run by (auto simp: bindS_def companion_authority_logged companion_authority_def [of C] pure split: prod.splits sum.splits)

definition identity_of :: "(bytes \<Rightarrow> 'more CompanionIdentity option) \<Rightarrow> string \<Rightarrow> string \<Rightarrow> http_response \<Rightarrow> call_error + 'more CompanionIdentity" where
  "identity_of model owner_id companion_id response =
     fst (bindS (parse_answer ''data'' response model) (\<lambda>identity.
       if ci_companion_id identity \<noteq> companion_id \<or> ci_owner_id identity \<noteq> owner_id
       then violated ''data'' ''Data returned a different Companion than was asked for'' else ret identity) ())"

lemma identity_run:
  "bindS (parse_answer ''data'' response model) (\<lambda>identity.
       if ci_companion_id identity \<noteq> companion_id \<or> ci_owner_id identity \<noteq> owner_id
       then violated ''data'' ''Data returned a different Companion than was asked for'' else ret identity) w
     = (identity_of model owner_id companion_id response, w)"
  by (simp add: identity_of_def bindS_def parse_answer_def violated_def ret_def raise_def split: option.split)

lemma owner_read_run:
  fixes C :: "'w authority_client" and model :: "bytes \<Rightarrow> 'more CompanionIdentity option"
  assumes "get_owner_companion (logged_data C) model owner_id companion_id (w, l) = (r, (w1, l1))"
  shows "get_owner_companion C model owner_id companion_id w = (r, w1)"
    and "l1 = l \<and> isl r \<or> (\<exists>request. owner_read C owner_id companion_id request \<and> l1 = l @ [request])"
proof -
  note run = assms [unfolded get_owner_companion_def logged_data_sel]
  show "get_owner_companion C model owner_id companion_id w = (r, w1)"
    unfolding get_owner_companion_def by (rule asked_logged(1) [OF _ _ run]) (rule identity_run)+
  have "l1 = l \<and> isl r \<or> (\<exists>address. l1 = l @ [bearer C ''GET'' ((address @ ''/api/companion-authority/v1'') @ ''/owners/'' @ quote owner_id @ ''/companions/'' @ quote companion_id)])"
    by (rule asked_logged(2) [OF _ _ run]) (rule identity_run)+
  then show "l1 = l \<and> isl r \<or> (\<exists>request. owner_read C owner_id companion_id request \<and> l1 = l @ [request])"
    by (auto simp: owner_read_def)
qed

lemma owner_read_identity:
  "get_owner_companion C model owner_id companion_id w = (Inr identity, w1) \<Longrightarrow> ci_owner_id identity = owner_id \<and> ci_companion_id identity = companion_id"
  by (auto simp: get_owner_companion_def violated_def raise_def ret_def split: if_splits)

interpretation data_scope: owner_scope "get_owner_companion (logged_data C) model" "data_asked C" "data_confirmed C model" data_later
  for C :: "'w authority_client" and model :: "bytes \<Rightarrow> 'more CompanionIdentity option"
proof unfold_locales
  fix owner_id companion_id e identity and w w1 :: "'w \<times> http_request list"
  show "data_asked C owner_id companion_id w w1" if "get_owner_companion (logged_data C) model owner_id companion_id w = (Inl e, w1)"
    using that owner_read_run(2) [of C model owner_id companion_id "fst w" "snd w" "Inl e" "fst w1" "snd w1"] by (auto simp: data_asked_def)
  show "data_confirmed C model owner_id companion_id w w1" if run: "get_owner_companion (logged_data C) model owner_id companion_id w = (Inr identity, w1)"
    using run owner_read_run [of C model owner_id companion_id "fst w" "snd w" "Inr identity" "fst w1" "snd w1"]
    by (auto simp: data_confirmed_def dest: owner_read_identity)
qed (fact data_later_preorder)+

text \<open>Every call on a Companion stays beneath its address. A name with a slash would be cut there.\<close>

lemma beneathI:
  assumes "hq_url request = (address @ ''/api/companion-authority/v1'') @ ''/companions/'' @ quote c @ tail" and "tail = [] \<or> hd tail = CHR ''/''"
  shows "beneath c request"
  unfolding beneath_def by (rule exI [of _ address], rule exI [of _ tail]) (simp add: assms)

lemma beneath_bearer:
  "beneath c (bearer C method ((address @ ''/api/companion-authority/v1'') @ ''/companions/'' @ quote c @ CHR ''/'' # tail)\<lparr>hq_json := body\<rparr>)"
  "beneath c (bearer C method ((address @ ''/api/companion-authority/v1'') @ ''/companions/'' @ quote c)\<lparr>hq_json := body\<rparr>)"
  "beneath c (bearer C method ((address @ ''/api/companion-authority/v1'') @ ''/companions/'' @ quote c @ ''/face'')\<lparr>hq_headers := h, hq_content := content\<rparr>)"
proof -
  have url: "hq_url (bearer C method url\<lparr>hq_json := body\<rparr>) = url" "hq_url (bearer C method url\<lparr>hq_headers := h, hq_content := content\<rparr>) = url" for url
    by (simp_all add: bearer_def http_request_to_def)
  show "beneath c (bearer C method ((address @ ''/api/companion-authority/v1'') @ ''/companions/'' @ quote c @ CHR ''/'' # tail)\<lparr>hq_json := body\<rparr>)"
    by (rule beneathI [OF url(1)]) simp
  show "beneath c (bearer C method ((address @ ''/api/companion-authority/v1'') @ ''/companions/'' @ quote c)\<lparr>hq_json := body\<rparr>)"
    by (rule beneathI [where tail = "[]"]) (simp_all add: url)
  show "beneath c (bearer C method ((address @ ''/api/companion-authority/v1'') @ ''/companions/'' @ quote c @ ''/face'')\<lparr>hq_headers := h, hq_content := content\<rparr>)"
    by (rule beneathI [OF url(2)]) simp
qed

lemma later_violated: "framed (data_later c) (violated a d)"
  by (simp add: framed_def violated_def raise_def data_later_def)

lemma later_raise: "framed (data_later c) (raise e)"
  by (simp add: framed_def raise_def data_later_def)

lemmas data_later_rules = data_scope.later_rules later_parse later_violated later_raise

lemma later_companion_call:
  assumes "CHR ''/'' \<notin> set c"
  shows "framed (data_later c) (companion_call (logged_data C) method (c @ CHR ''/'' # tail) c model body)"
proof -
  have cut: "takeWhile (\<lambda>x. x \<noteq> CHR ''/'') (c @ CHR ''/'' # tail) = c" "dropWhile (\<lambda>x. x \<noteq> CHR ''/'') (c @ CHR ''/'' # tail) = CHR ''/'' # tail"
    using assms by (induction c) auto
  show ?thesis unfolding companion_call_def Let_def cut
    by (rule framed_bind [OF data_later_preorder(2) later_companion_authority later_parse]) (use beneath_bearer(1) in simp)
qed

lemma later_faces:
  "framed (data_later c) (get_companion_face (logged_data C) c)"
  "framed (data_later c) (set_companion_face (logged_data C) model c face)"
  "framed (data_later c) (clear_companion_face (logged_data C) model c)"
  unfolding get_companion_face_def set_companion_face_def clear_companion_face_def face_request_def
  by (intro data_later_rules later_companion_authority; simp only: logged_data_sel beneath_bearer(3))+

lemma later_rename: "framed (data_later c) (rename_companion (logged_data C) model c name)"
  unfolding rename_companion_def by (intro data_later_rules later_companion_authority; simp only: logged_data_sel beneath_bearer(2))

lemma later_personas:
  assumes "CHR ''/'' \<notin> set c"
  shows "framed (data_later c) (get_companion_face_state (logged_data C) m1 c)" "framed (data_later c) (get_persona_timeline (logged_data C) m2 c)"
    "framed (data_later c) (restore_persona (logged_data C) m3 c chapter summary)" "framed (data_later c) (get_persona (logged_data C) m4 c)"
    "framed (data_later c) (author_persona (logged_data C) m5 c authored summary)"
  unfolding get_companion_face_state_def get_persona_timeline_def restore_persona_def get_persona_def author_persona_def
  by (simp_all add: later_companion_call [OF assms])

text \<open>The functions of \<open>faces.py\<close>, \<open>persona.py\<close> and \<open>naming.py\<close> on one Companion, with Data as the authority they are handed.\<close>

datatype companion_action =
    ReadFace "string option" | ReadFaceState | SetFace bytes | ClearFace
  | ReadHistory | RestoreChapter string | ReadPersona | WritePersona json | RenameCompanion string

definition void :: "('w, 'e, 'a) op \<Rightarrow> ('w, 'e, unit) op" where
  "void m = bindS m (\<lambda>_. ret ())"

lemma voidE:
  assumes "void m w = (r, w')"
  obtains r0 where "m w = (r0, w')"
  using assms by (auto simp: void_def bindS_def ret_def split: prod.splits sum.splits)

fun perform :: "'w authority_client \<Rightarrow> 'dt answer_models \<Rightarrow> string \<Rightarrow> string \<Rightarrow> string \<Rightarrow> companion_action \<Rightarrow> ('w, call_error, unit) op" where
  "perform D M summary ow c (ReadFace known) = void (read_face (am_sha256 M) (get_owner_companion D (am_identity M)) (get_companion_face D) ow c known)"
| "perform D M summary ow c ReadFaceState = void (read_face_state (get_owner_companion D (am_identity M)) (get_companion_face_state D (am_face M)) ow c)"
| "perform D M summary ow c (SetFace face) = void (set_face (get_owner_companion D (am_identity M)) (set_companion_face D (am_face M)) ow c face)"
| "perform D M summary ow c ClearFace = void (clear_face (get_owner_companion D (am_identity M)) (clear_companion_face D (am_face M)) ow c)"
| "perform D M summary ow c ReadHistory = void (read_history (get_owner_companion D (am_identity M)) (get_persona_timeline D (am_timeline M)) ow c)"
| "perform D M summary ow c (RestoreChapter chapter) =
     void (restore_chapter (get_owner_companion D (am_identity M)) (get_persona_timeline D (am_timeline M)) (restore_persona D (am_chapter M)) summary ow c chapter)"
| "perform D M summary ow c ReadPersona = void (read_persona (get_owner_companion D (am_identity M)) (get_persona D (am_persona M)) ow c)"
| "perform D M summary ow c (WritePersona authored) =
     void (write_persona (get_owner_companion D (am_identity M)) (author_persona D (am_persona M)) summary ow c authored)"
| "perform D M summary ow c (RenameCompanion name) =
     void (manage_rename_companion (get_owner_companion D (am_identity M)) (rename_companion D (am_identity M)) ow c name)"

lemma perform_gated:
  assumes c: "CHR ''/'' \<notin> set c" and run: "perform (logged_data D) M summary ow c action w = (r, w')"
  shows "data_asked D ow c w w' \<or> (\<exists>w1. data_confirmed D (am_identity M) ow c w w1 \<and> data_later c w1 w')"
proof (cases action)
  case (ReadFace known)
  show ?thesis by (rule voidE [OF run [unfolded ReadFace perform.simps]], erule data_scope.read_face_gated) (rule later_faces)+
next
  case ReadFaceState
  show ?thesis by (rule voidE [OF run [unfolded ReadFaceState perform.simps read_face_state_def]], erule data_scope.one_call_gated) (rule later_personas [OF c])+
next
  case (SetFace face)
  show ?thesis by (rule voidE [OF run [unfolded SetFace perform.simps set_face_def]], erule data_scope.one_call_gated) (rule later_faces)+
next
  case ClearFace
  show ?thesis by (rule voidE [OF run [unfolded ClearFace perform.simps clear_face_def]], erule data_scope.one_call_gated) (rule later_faces)+
next
  case ReadHistory
  show ?thesis by (rule voidE [OF run [unfolded ReadHistory perform.simps read_history_def]], erule data_scope.one_call_gated) (rule later_personas [OF c])+
next
  case (RestoreChapter earlier)
  show ?thesis by (rule voidE [OF run [unfolded RestoreChapter perform.simps]], erule data_scope.restore_chapter_gated) (rule later_personas [OF c])+
next
  case ReadPersona
  show ?thesis by (rule voidE [OF run [unfolded ReadPersona perform.simps read_persona_def]], erule data_scope.gated) (rule later_personas [OF c])+
next
  case (WritePersona authored)
  show ?thesis by (rule voidE [OF run [unfolded WritePersona perform.simps write_persona_def]], erule data_scope.gated) (rule later_personas [OF c])+
next
  case (RenameCompanion name)
  show ?thesis by (rule voidE [OF run [unfolded RenameCompanion perform.simps manage_rename_companion_def]], erule data_scope.gated) (rule later_rename)+
qed

text \<open>
  C15. A face, a persona or a name is touched only for a Companion of the Owner, for every Companion
  id that has no slash in it; an id with a slash is put into some addresses as it is and then names
  another address. Each of these functions first sends
  Data the read that names Owner and Companion; any further request stays beneath the address of
  that Companion and is sent only when Data answered that read with this Owner's Companion.
\<close>

theorem companion_calls_owned:
  assumes "CHR ''/'' \<notin> set companion_id"
    and "perform (logged_data D) M summary owner_id companion_id action (w, []) = (r, (w', sent))"
  shows "sent = [] \<or> (\<exists>request further. sent = request # further \<and> owner_read D owner_id companion_id request
     \<and> list_all (beneath companion_id) further
     \<and> (further = [] \<or> (\<exists>identity w1. get_owner_companion D (am_identity M) owner_id companion_id w = (Inr identity, w1)
          \<and> ci_owner_id identity = owner_id \<and> ci_companion_id identity = companion_id)))"
  using perform_gated [OF assms] by (auto simp: data_asked_def data_confirmed_def data_later_def)

text \<open>A Data that answers everything, with the Companion \<open>c\<close> of the Owner \<open>o\<close>.\<close>

definition answering_data :: "unit authority_client" where
  "answering_data = example_data\<lparr>ac_send := (\<lambda>q w. (Answered \<lparr>hr_status = 200, hr_content = [7], hr_json = None\<rparr>, w))\<rparr>"

definition example_facts :: companion_facts where
  "example_facts = \<lparr>cf_display_name = ''n'', cf_kind = ''conversational'', cf_lifecycle_state = ''active'', cf_revision = 1\<rparr>"

definition example_models :: "unit answer_models" where
  "example_models = \<lparr>am_identity = (\<lambda>_. Some \<lparr>ci_companion_id = ''c'', ci_owner_id = ''o'', ci_rest = example_facts\<rparr>),
     am_roster = Map.empty, am_owner = Map.empty, am_provision = Map.empty, am_lifecycle = Map.empty,
     am_face = (\<lambda>_. Some \<lparr>fa_companion_id = ''c'', fa_has_face = False, fa_sha256 = None, fa_updated_at = None\<rparr>), am_timeline = Map.empty,
     am_chapter = Map.empty, am_persona = Map.empty, am_endpoint = Map.empty, am_endpoints = Map.empty, am_activity = Map.empty,
     am_revoked_at = Map.empty, am_isoformat = (\<lambda>_. []), am_sha256 = (\<lambda>_. replicate 64 (CHR ''a''))\<rparr>"

lemma answering_data_sel:
  "ac_send answering_data q w = (Answered \<lparr>hr_status = 200, hr_content = [7], hr_json = None\<rparr>, w)" "ac_token answering_data = ''t''"
  "\<exists>address. data_address answering_data ''companion-authority.http'' DATA_CONTRACT w = (Inr address, w)"
proof -
  have "ac_directory answering_data = ac_directory example_data" by (simp add: answering_data_def)
  with example_data_resolves [of w] show "\<exists>address. data_address answering_data ''companion-authority.http'' DATA_CONTRACT w = (Inr address, w)"
    by (auto simp: data_address_def bindS_def ret_def answering_data_def example_data_def)
qed (simp_all add: answering_data_def example_data_def)

lemma answering_data_run:
  "\<exists>address. \<forall>request l. companion_authority (logged_data answering_data) request ((), l)
     = (Inr \<lparr>hr_status = 200, hr_content = [7], hr_json = None\<rparr>, ((), l @ [request (address @ ''/api/companion-authority/v1'')]))"
  using answering_data_sel(3) [of "()"] by (auto simp: companion_authority_logged send_request_def answering_data_sel(1))

theorem companion_calls_owned_witness:
  "\<exists>r w' request further. perform (logged_data answering_data) example_models [] ''o'' ''c'' ClearFace ((), []) = (r, (w', [request, further]))
     \<and> owner_read answering_data ''o'' ''c'' request \<and> beneath ''c'' further"
proof -
  obtain address where answer: "companion_authority (logged_data answering_data) request ((), l)
     = (Inr \<lparr>hr_status = 200, hr_content = [7], hr_json = None\<rparr>, ((), l @ [request (address @ ''/api/companion-authority/v1'')]))" for request l
    using answering_data_run by blast
  obtain r w' sent where run: "perform (logged_data answering_data) example_models [] ''o'' ''c'' ClearFace ((), []) = (r, (w', sent))"
    by (metis prod.exhaust)
  then have "length sent = 2"
    by (auto simp: void_def clear_face_def get_owner_companion_def clear_companion_face_def face_request_def bindS_def answer parse_answer_def
        example_models_def ret_def)
  then obtain a b where "sent = [a, b]" by (metis One_nat_def Suc_1 length_0_conv length_Suc_conv)
  with companion_calls_owned [OF _ run] run show ?thesis by auto
qed

section \<open>A face that was kept\<close>

definition hex_digest :: "string \<Rightarrow> bool" where
  "hex_digest s \<longleftrightarrow> s \<noteq> [] \<and> set s \<subseteq> set ''0123456789abcdef''"

lemma strip_quotes:
  assumes "CHR 0x22 \<notin> set s"
  shows "strip_chars (\<lambda>c. c = CHR 0x22) ([CHR 0x22] @ s @ [CHR 0x22]) = s"
proof -
  have keep: "dropWhile (\<lambda>c. c = CHR 0x22) t = t" if "CHR 0x22 \<notin> set t" for t using that by (cases t) auto
  have "dropWhile (\<lambda>c. c = CHR 0x22) (s @ [CHR 0x22]) = (if s = [] then [] else s @ [CHR 0x22])" using assms by (cases s) auto
  then show ?thesis using assms keep [of "rev s"] by (auto simp: strip_chars_def)
qed

text \<open>The tag of a face is read back as its digest.\<close>

lemma etag_roundtrip:
  assumes "hex_digest d"
  shows "etag_digest (map_of (face_etag (Some d)) ''ETag'') = Some d"
proof -
  have plain: "c \<noteq> CHR 0x22 \<and> \<not> is_space c" if "c \<in> set (''sha256:'' @ d)" for c
    using that assms by (auto simp: hex_digest_def is_space_def)
  then have "CHR 0x22 \<notin> set (''sha256:'' @ d)" by blast
  note strip = strip_quotes [OF this]
  have "py_strip ([CHR 0x22] @ (''sha256:'' @ d) @ [CHR 0x22]) = [CHR 0x22] @ (''sha256:'' @ d) @ [CHR 0x22]"
    unfolding py_strip_def by (rule strip_chars_clean) (use plain in \<open>auto simp: is_space_def\<close>)
  with strip assms show ?thesis by (simp add: etag_digest_def face_etag_def hex_digest_def Let_def del: append_Cons)
qed

lemma face_served:
  assumes "route_get_companion_face V M owner_id companion_id h w = (Inr a, w1)" and "fr_content a = Some content"
  obtains identity w0 where "owned_companion V M owner_id companion_id w = (Inr identity, w0)"
    "get_companion_face (mg_data V) companion_id w0 = (Inr (Some content), w1)"
    "a = \<lparr>fr_status = 200, fr_content = Some content, fr_media_type = Some ''image/jpeg'', fr_headers = face_etag (Some (am_sha256 M content))\<rparr>"
  using assms by (auto simp: route_get_companion_face_def read_face_def face_answer_def ret_def Let_def split: option.splits if_splits)

lemma face_asked:
  assumes "owned_companion V M owner_id companion_id w = (Inr identity, w0)" "get_companion_face (mg_data V) companion_id w0 = (Inr (Some content), w1)"
    and "d \<noteq> []" and "etag_digest h = Some d"
  shows "route_get_companion_face V M owner_id companion_id h w =
    (Inr (if d = am_sha256 M content
          then \<lparr>fr_status = 304, fr_content = None, fr_media_type = None, fr_headers = face_etag (Some d)\<rparr>
          else \<lparr>fr_status = 200, fr_content = Some content, fr_media_type = Some ''image/jpeg'', fr_headers = face_etag (Some (am_sha256 M content))\<rparr>), w1)"
  using assms by (simp add: route_get_companion_face_def read_face_def face_answer_def bindS_def ret_def Let_def)

text \<open>
  Whoever was served a face and sends its tag back is served the face again only when it changed: 304 without
  content and under the same tag while the digest is the same, and otherwise what a reader without
  a copy is served.
\<close>

theorem kept_face_revalidates:
  assumes "hex_digest (am_sha256 M content)"
    and "route_get_companion_face V M owner_id companion_id h w = (Inr a, w1)" "fr_content a = Some content"
    and "route_get_companion_face V M owner_id companion_id None w1 = (Inr b, w2)" "fr_content b = Some content'"
  shows "route_get_companion_face V M owner_id companion_id (map_of (fr_headers a) ''ETag'') w1
    = (Inr (if am_sha256 M content' = am_sha256 M content
            then \<lparr>fr_status = 304, fr_content = None, fr_media_type = None, fr_headers = fr_headers a\<rparr> else b), w2)"
proof -
  have a: "a = \<lparr>fr_status = 200, fr_content = Some content, fr_media_type = Some ''image/jpeg'', fr_headers = face_etag (Some (am_sha256 M content))\<rparr>"
    using face_served [OF assms(2,3)] by metis
  obtain identity w0 where again: "owned_companion V M owner_id companion_id w1 = (Inr identity, w0)" "get_companion_face (mg_data V) companion_id w0 = (Inr (Some content'), w2)"
    and b: "b = \<lparr>fr_status = 200, fr_content = Some content', fr_media_type = Some ''image/jpeg'', fr_headers = face_etag (Some (am_sha256 M content'))\<rparr>"
    using face_served [OF assms(4,5)] by metis
  have "am_sha256 M content \<noteq> []" using assms(1) by (simp add: hex_digest_def)
  from face_asked [OF again this, of "map_of (fr_headers a) ''ETag''"] etag_roundtrip [OF assms(1)]
  show ?thesis by (auto simp: a b)
qed

definition example_management :: "unit management" where
  "example_management = \<lparr>mg_data = answering_data, mg_workspace = answering_data, mg_kernel = answering_data,
     mg_memory = one_space_client, mg_activity = one_space_client, mg_memory_supervisor = None\<rparr>"

theorem kept_face_revalidates_witness:
  "\<exists>a. route_get_companion_face example_management example_models ''o'' ''c'' None () = (Inr a, ()) \<and> fr_status a = 200
     \<and> route_get_companion_face example_management example_models ''o'' ''c'' (map_of (fr_headers a) ''ETag'') ()
         = (Inr \<lparr>fr_status = 304, fr_content = None, fr_media_type = None, fr_headers = fr_headers a\<rparr>, ())"
proof -
  have answer: "companion_authority answering_data request () = (Inr \<lparr>hr_status = 200, hr_content = [7], hr_json = None\<rparr>, ())" for request
    using answering_data_sel(3) [of "()"] by (auto simp: companion_authority_def bindS_def send_request_def answering_data_sel(1))
  have "mg_data example_management = answering_data" by (simp add: example_management_def)
  then have served: "\<exists>a. route_get_companion_face example_management example_models ''o'' ''c'' None () = (Inr a, ()) \<and> fr_status a = 200 \<and> fr_content a = Some [7]"
    by (simp add: route_get_companion_face_def read_face_def get_owner_companion_def get_companion_face_def face_request_def bindS_def answer
        parse_answer_def example_models_def ret_def etag_digest_def face_answer_def Let_def)
  then obtain a where a: "route_get_companion_face example_management example_models ''o'' ''c'' None () = (Inr a, ())" "fr_status a = 200" "fr_content a = Some [7]" by blast
  have "hex_digest (am_sha256 example_models [7])" by (simp add: hex_digest_def example_models_def)
  from kept_face_revalidates [OF this a(1,3) a(1,3)] a show ?thesis by auto
qed

section \<open>What is advertised\<close>

lemma withheld_cases:
  "withheld ((if m then [''memory''] else []) @ (if g then [''agent''] else [])) =
     (if m then [] else map (\<lambda>n. (n, ''host_not_configured'')) [''memory.read'', ''memory.govern'', ''memory.export''])
     @ [(''device.identify'', ''not_built'')]
     @ (if g then [] else map (\<lambda>n. (n, ''host_not_configured'')) [''conversation.read'', ''task.read'', ''task.manage'', ''session.revoke''])"
  by (cases m; cases g; simp only: if_True if_False append.simps list.map; code_simp)

text \<open>
  The context offers a capability exactly when it is built and the Host holds the credential it needs, and says
  of every other why not. What it offers is not refused for want of a credential.
\<close>

lemma advertised_capabilities:
  assumes "route_get_context V M owner_id w = (Inr context, w')"
  shows "mc_capabilities context = map (\<lambda>name. (name, name \<notin> fst ` set (mc_unavailable context))) CAPABILITIES"
    and "(name, reason) \<in> set (mc_unavailable context) \<longleftrightarrow>
      name = ''device.identify'' \<and> reason = ''not_built''
      \<or> reason = ''host_not_configured'' \<and> \<not> has_credential (mg_memory V) \<and> name \<in> {''memory.read'', ''memory.govern'', ''memory.export''}
      \<or> reason = ''host_not_configured'' \<and> \<not> has_credential (mg_activity V) \<and> name \<in> {''conversation.read'', ''task.read'', ''task.manage'', ''session.revoke''}"
    and "map_of (mc_capabilities context) ''memory.read'' = Some True \<Longrightarrow> fc_token (mg_memory V) \<noteq> []"
    and "map_of (mc_capabilities context) ''task.read'' = Some True \<Longrightarrow> fc_token (mg_activity V) \<noteq> []"
proof -
  have given: "mc_capabilities context = map (\<lambda>name. (name, name \<notin> fst ` set (mc_unavailable context))) CAPABILITIES"
      "mc_unavailable context = withheld (configured_authorities (mg_memory V) (mg_activity V))"
    using assms by (auto simp: route_get_context_def read_context_def respond_def ret_def raise_def Let_def split: if_splits)
  show "mc_capabilities context = map (\<lambda>name. (name, name \<notin> fst ` set (mc_unavailable context))) CAPABILITIES" by (rule given)
  have un: "mc_unavailable context =
     (if has_credential (mg_memory V) then [] else map (\<lambda>n. (n, ''host_not_configured'')) [''memory.read'', ''memory.govern'', ''memory.export''])
     @ [(''device.identify'', ''not_built'')]
     @ (if has_credential (mg_activity V) then [] else map (\<lambda>n. (n, ''host_not_configured'')) [''conversation.read'', ''task.read'', ''task.manage'', ''session.revoke''])"
    unfolding given(2) configured_authorities_def by (rule withheld_cases)
  then show "(name, reason) \<in> set (mc_unavailable context) \<longleftrightarrow>
      name = ''device.identify'' \<and> reason = ''not_built''
      \<or> reason = ''host_not_configured'' \<and> \<not> has_credential (mg_memory V) \<and> name \<in> {''memory.read'', ''memory.govern'', ''memory.export''}
      \<or> reason = ''host_not_configured'' \<and> \<not> has_credential (mg_activity V) \<and> name \<in> {''conversation.read'', ''task.read'', ''task.manage'', ''session.revoke''}"
    by auto
  have offered: "name \<notin> fst ` set (mc_unavailable context)" if "map_of (mc_capabilities context) name = Some True" for name
    using map_of_SomeD [OF that [unfolded given(1)]] by (simp add: image_iff)
  have "has_credential (mg_memory V)" if "''memory.read'' \<notin> fst ` set (mc_unavailable context)"
    using that by (simp add: un split: if_splits)
  with offered show "map_of (mc_capabilities context) ''memory.read'' = Some True \<Longrightarrow> fc_token (mg_memory V) \<noteq> []"
    by (blast dest: configured_not_refused)
  have "has_credential (mg_activity V)" if "''task.read'' \<notin> fst ` set (mc_unavailable context)"
    using that by (simp add: un split: if_splits)
  with offered show "map_of (mc_capabilities context) ''task.read'' = Some True \<Longrightarrow> fc_token (mg_activity V) \<noteq> []"
    by (blast dest: configured_not_refused)
qed

text \<open>A roster does not depend on the Agent: it is answered whenever Data answers, with the rows in the order of Data.\<close>

lemma roster_without_agent:
  assumes "list_companions owner_id cursor w = (Inr page, w1)"
  obtains roster w2 where "read_roster isoformat list_companions activity owner_id cursor w = (Inr roster, w2)"
    "map cw_companion_id (ro_companions roster) = map cs_companion_id (rf_companions (rp_rest page))"
    "ro_activity_unavailable roster = snd (fst (last_spoken_to activity owner_id w1))"
  using assms by (cases "last_spoken_to activity owner_id w1")
    (auto simp: read_roster_def bindS_def companion_row_def comp_def split: prod.splits)

end
