(* ===== verification/Owner_Reading.thy ===== *)
theory Owner_Reading
  imports Owner_Management
begin

text \<open>
  What an Owner reads of other authorities through \<open>app/management\<close>: conversations, transcripts and tasks of the
  Agent, the history of governance, memories, and the two steps of forgetting one.
\<close>

definition or_empty :: "string option \<Rightarrow> string" where
  "or_empty v = (case v of None \<Rightarrow> [] | Some s \<Rightarrow> s)"

section \<open>Conversations and tasks\<close>

definition SPOKEN_ROLES :: "string list" where
  "SPOKEN_ROLES = [''user'', ''assistant'']"

definition DEFAULT_PAGE :: int where
  "DEFAULT_PAGE = 20"

definition MAXIMUM_PAGE :: int where
  "MAXIMUM_PAGE = 100"

definition page_size :: "int option \<Rightarrow> int" where
  "page_size lim = (case lim of None \<Rightarrow> DEFAULT_PAGE | Some n \<Rightarrow> max 1 (min n MAXIMUM_PAGE))"

record ConversationRow =
  cv_conversation_id :: string
  cv_owner_id :: string
  cv_companion_id :: string
  cv_started_at :: "string option"
  cv_updated_at :: "string option"
  cv_ended_at :: "string option"

record ConversationRows =
  cvs_conversations :: "ConversationRow list"
  cvs_next_before :: "string option"

record ConversationView =
  vw_conversation_id :: string
  vw_started_at :: string
  vw_updated_at :: string
  vw_ended_at :: "string option"

record ConversationPage =
  vp_conversations :: "ConversationView list"
  vp_next_cursor :: "string option"

definition read_conversations ::
  "(string \<Rightarrow> string \<Rightarrow> int \<Rightarrow> string option \<Rightarrow> ('w, call_error, ConversationRows) op) \<Rightarrow> string \<Rightarrow> string \<Rightarrow> int option \<Rightarrow> string option
    \<Rightarrow> ('w, call_error, ConversationPage) op" where
  "read_conversations list_of owner_id companion_id lim cursor =
     bindS (list_of owner_id companion_id (page_size lim) cursor) (\<lambda>page.
       if list_ex (\<lambda>row. cv_owner_id row \<noteq> owner_id \<or> cv_companion_id row \<noteq> companion_id) (cvs_conversations page)
       then violated ''agent'' ''agent returned a conversation outside the requested scope''
       else ret \<lparr>vp_conversations = map (\<lambda>row. \<lparr>vw_conversation_id = cv_conversation_id row, vw_started_at = or_empty (cv_started_at row),
                   vw_updated_at = or_empty (cv_updated_at row), vw_ended_at = cv_ended_at row\<rparr>) (cvs_conversations page),
                 vp_next_cursor = cvs_next_before page\<rparr>)"

record MessageRow =
  ms_role :: string
  ms_content :: string
  ms_tool_name :: "string option"

record TranscriptTurnRow =
  tt_turn_id :: string
  tt_started_at :: "string option"
  tt_finished_at :: "string option"
  tt_status :: string
  tt_messages :: "MessageRow list"

record TranscriptRows =
  ts_owner_id :: string
  ts_companion_id :: string
  ts_conversation_id :: string
  ts_turns :: "TranscriptTurnRow list"
  ts_next_before :: "string option"

record SpokenMessage =
  sm_role :: string
  sm_text :: string

record TranscriptTurn =
  tu_turn_id :: string
  tu_started_at :: string
  tu_finished_at :: "string option"
  tu_status :: string
  tu_messages :: "SpokenMessage list"

record Transcript =
  tc_conversation_id :: string
  tc_turns :: "TranscriptTurn list"
  tc_next_cursor :: "string option"

definition spoken :: "MessageRow \<Rightarrow> bool" where
  "spoken message \<longleftrightarrow> ms_role message \<in> set SPOKEN_ROLES \<and> ms_tool_name message = None"

definition transcript_turn :: "TranscriptTurnRow \<Rightarrow> TranscriptTurn" where
  "transcript_turn turn =
     \<lparr>tu_turn_id = tt_turn_id turn, tu_started_at = or_empty (tt_started_at turn), tu_finished_at = tt_finished_at turn, tu_status = tt_status turn,
      tu_messages = map (\<lambda>m. \<lparr>sm_role = ms_role m, sm_text = ms_content m\<rparr>) (filter spoken (tt_messages turn))\<rparr>"

definition read_transcript ::
  "(string \<Rightarrow> string \<Rightarrow> string \<Rightarrow> int \<Rightarrow> string option \<Rightarrow> ('w, call_error, TranscriptRows) op) \<Rightarrow> string \<Rightarrow> string \<Rightarrow> string \<Rightarrow> int option \<Rightarrow> string option
    \<Rightarrow> ('w, call_error, Transcript) op" where
  "read_transcript list_of owner_id companion_id conversation_id lim cursor =
     bindS (list_of owner_id companion_id conversation_id (page_size lim) cursor) (\<lambda>page.
       if ts_owner_id page \<noteq> owner_id \<or> ts_companion_id page \<noteq> companion_id \<or> ts_conversation_id page \<noteq> conversation_id
       then violated ''agent'' ''agent returned a transcript outside the requested scope''
       else ret \<lparr>tc_conversation_id = ts_conversation_id page, tc_turns = map transcript_turn (ts_turns page), tc_next_cursor = ts_next_before page\<rparr>)"

record task_facts =
  tf_task_id :: string
  tf_status :: string
  tf_task :: string
  tf_task_type :: string
  tf_urgency :: string
  tf_expected_output :: "string option"
  tf_progress_summary :: "string option"
  tf_result_text :: "string option"
  tf_error_code :: "string option"
  tf_error_message :: "string option"
  tf_created_at :: "string option"
  tf_updated_at :: "string option"
  tf_completed_at :: "string option"

record TaskView =
  tv_task_id :: string
  tv_status :: string
  tv_asked :: string
  tv_kind :: string
  tv_urgency :: string
  tv_expected_output :: string
  tv_progress :: string
  tv_result :: string
  tv_error_code :: string
  tv_error_message :: string
  tv_created_at :: string
  tv_updated_at :: string
  tv_completed_at :: "string option"

definition task_view :: "task_facts TaskRow \<Rightarrow> TaskView" where
  "task_view row = (let r = tr_rest row in
     \<lparr>tv_task_id = tf_task_id r, tv_status = tf_status r, tv_asked = tf_task r, tv_kind = tf_task_type r, tv_urgency = tf_urgency r,
      tv_expected_output = or_empty (tf_expected_output r), tv_progress = or_empty (tf_progress_summary r), tv_result = or_empty (tf_result_text r),
      tv_error_code = or_empty (tf_error_code r), tv_error_message = or_empty (tf_error_message r), tv_created_at = or_empty (tf_created_at r),
      tv_updated_at = or_empty (tf_updated_at r), tv_completed_at = tf_completed_at r\<rparr>)"

record TaskPage =
  tp_tasks :: "TaskView list"
  tp_next_cursor :: "string option"

text \<open>A page of tasks is its rows and the cursor.\<close>

definition read_tasks ::
  "(string \<Rightarrow> string \<Rightarrow> int \<Rightarrow> string option \<Rightarrow> string option \<Rightarrow> ('w, call_error, task_facts TaskRow list \<times> string option) op)
    \<Rightarrow> string \<Rightarrow> string \<Rightarrow> int option \<Rightarrow> string option \<Rightarrow> string option \<Rightarrow> ('w, call_error, TaskPage) op" where
  "read_tasks list_of owner_id companion_id lim status cursor =
     bindS (list_of owner_id companion_id (page_size lim) status cursor) (\<lambda>page.
       ret \<lparr>tp_tasks = map task_view (fst page), tp_next_cursor = snd page\<rparr>)"

definition read_task where
  "read_task get_of owner_id task_id = bindS (get_of owner_id task_id) (\<lambda>row. ret (task_view row))"

definition manage_cancel_task where
  "manage_cancel_task cancel owner_id task_id = bindS (cancel owner_id task_id) (\<lambda>row. ret (task_view row))"

definition manage_retry_task where
  "manage_retry_task retry owner_id task_id = bindS (retry owner_id task_id) (\<lambda>row. ret (task_view row))"

section \<open>The history\<close>

definition DETAIL_FIELDS :: "(string \<times> string list) list" where
  "DETAIL_FIELDS =
     [(''companion.retirement_begun'', [''replacement_companion_id'']),
      (''owner.default_companion_changed'', [''companion_id'', ''previous_companion_id'', ''reason''])]"

record GovernanceEvent =
  ge_event_id :: string
  ge_action :: string
  ge_subject_type :: string
  ge_subject_id :: string
  ge_outcome :: string
  ge_occurred_at :: string
  ge_payload :: jobject

record events_facts =
  ef_events :: "GovernanceEvent list"
  ef_next_cursor :: "int option"

record ActivityMoment =
  mo_event_id :: string
  mo_action :: string
  mo_subject_type :: string
  mo_subject_id :: string
  mo_subject_name :: string
  mo_occurred_at :: string
  mo_outcome :: string
  mo_detail :: "(string \<times> string) list"

record ActivityFeed =
  ad_moments :: "ActivityMoment list"
  ad_next_cursor :: "int option"

definition ends_with :: "string \<Rightarrow> string \<Rightarrow> bool" where
  "ends_with suffix s \<longleftrightarrow> drop (length s - length suffix) s = suffix"

definition detail_fields :: "string \<Rightarrow> string list" where
  "detail_fields action = (case map_of DETAIL_FIELDS action of None \<Rightarrow> [] | Some wanted \<Rightarrow> wanted)"

definition names_a_companion :: "GovernanceEvent \<Rightarrow> bool" where
  "names_a_companion event \<longleftrightarrow> ge_subject_type event = ''companion'' \<or> list_ex (ends_with ''companion_id'') (detail_fields (ge_action event))"

definition companion_names ::
  "(string \<Rightarrow> ('w, call_error, 'dt roster_facts CompanionRosterPage) op) \<Rightarrow> string \<Rightarrow> ('w, call_error, string \<Rightarrow> string option) op" where
  "companion_names list_companions owner_id =
     bindS (list_companions owner_id) (\<lambda>page.
       ret (dict_of (map (\<lambda>row. (cs_companion_id row, cs_display_name row)) (rf_companions (rp_rest page)))))"

fun detail_of :: "string list \<Rightarrow> jobject \<Rightarrow> (string \<Rightarrow> string option) \<Rightarrow> (string \<times> string) list \<Rightarrow> (string \<times> string) list" where
  "detail_of [] payload names built = built"
| "detail_of (field # wanted) payload names built =
     (case jget field payload of
        JNull \<Rightarrow> detail_of wanted payload names built
      | value \<Rightarrow>
          (let built1 = dict_set field (py_str value) built
           in detail_of wanted payload names
                (if ends_with ''companion_id'' field
                 then (case truthy (names (py_str value)) of None \<Rightarrow> built1 | Some name \<Rightarrow> dict_set (field @ ''_name'') name built1)
                 else built1)))"

definition activity_moment :: "(string \<Rightarrow> string option) \<Rightarrow> GovernanceEvent \<Rightarrow> ActivityMoment" where
  "activity_moment names event =
     \<lparr>mo_event_id = ge_event_id event, mo_action = ge_action event, mo_subject_type = ge_subject_type event, mo_subject_id = ge_subject_id event,
      mo_subject_name = or_empty (names (ge_subject_id event)), mo_occurred_at = ge_occurred_at event, mo_outcome = ge_outcome event,
      mo_detail = detail_of (detail_fields (ge_action event)) (ge_payload event) names []\<rparr>"

definition read_activity ::
  "(string \<Rightarrow> int option \<Rightarrow> int option \<Rightarrow> ('w, call_error, events_facts OwnerGovernanceEvents) op)
    \<Rightarrow> (string \<Rightarrow> ('w, call_error, 'dt roster_facts CompanionRosterPage) op) \<Rightarrow> string \<Rightarrow> int option \<Rightarrow> int option \<Rightarrow> ('w, call_error, ActivityFeed) op" where
  "read_activity list_events list_companions owner_id lim before =
     bindS (list_events owner_id lim before) (\<lambda>page.
     bindS (if list_ex names_a_companion (ef_events (og_rest page)) then companion_names list_companions owner_id else ret Map.empty) (\<lambda>names.
       ret \<lparr>ad_moments = map (activity_moment names) (ef_events (og_rest page)), ad_next_cursor = ef_next_cursor (og_rest page)\<rparr>))"

section \<open>Memories\<close>

text \<open>
  The answers of Memory are models of its own package: only the members that are read. \<open>'p\<close> is where a memory
  came from, \<open>'n\<close> and \<open>'e\<close> are the nodes and edges of its graph; all are passed on as they are.
\<close>

record memory_room =
  mr_room_id :: string
  mr_drawer_count :: int
  mr_drawers_preview :: "jobject list"
  mr_preview_truncated :: bool

record memory_wing =
  mw_wing_id :: string
  mw_display_name :: string
  mw_description :: string
  mw_drawer_count :: int
  mw_rooms :: "memory_room list"

record memory_browse =
  mb_audience_scope :: string
  mb_wings :: "memory_wing list"
  mb_entry_count :: int
  mb_withheld_count :: int
  mb_truncated :: bool

record MemoryRoomView =
  rv_room_id :: string
  rv_entry_count :: int
  rv_titles :: "string list"
  rv_more :: bool

record MemoryWingView =
  wv_wing_id :: string
  wv_display_name :: string
  wv_description :: string
  wv_entry_count :: int
  wv_rooms :: "MemoryRoomView list"

record MemoryLibrary =
  ml_audience_scope :: string
  ml_wings :: "MemoryWingView list"
  ml_entry_count :: int
  ml_withheld_count :: int
  ml_truncated :: bool

definition drawer_title :: "jobject \<Rightarrow> string" where
  "drawer_title drawer =
     (if py_true (jget ''preview'' drawer) then py_str (jget ''preview'' drawer)
      else if py_true (jget ''key'' drawer) then py_str (jget ''key'' drawer) else [])"

definition room_view :: "memory_room \<Rightarrow> MemoryRoomView" where
  "room_view room = \<lparr>rv_room_id = mr_room_id room, rv_entry_count = mr_drawer_count room, rv_titles = map drawer_title (mr_drawers_preview room),
     rv_more = mr_preview_truncated room\<rparr>"

definition wing_view :: "memory_wing \<Rightarrow> MemoryWingView" where
  "wing_view wing = \<lparr>wv_wing_id = mw_wing_id wing, wv_display_name = mw_display_name wing, wv_description = mw_description wing,
     wv_entry_count = mw_drawer_count wing, wv_rooms = map room_view (mw_rooms wing)\<rparr>"

definition read_library :: "(string \<Rightarrow> string option \<Rightarrow> ('w, call_error, memory_browse) op) \<Rightarrow> string \<Rightarrow> string option \<Rightarrow> ('w, call_error, MemoryLibrary) op" where
  "read_library browse_of owner_id companion_id =
     bindS (browse_of owner_id companion_id) (\<lambda>page.
       ret \<lparr>ml_audience_scope = mb_audience_scope page, ml_wings = map wing_view (mb_wings page), ml_entry_count = mb_entry_count page,
            ml_withheld_count = mb_withheld_count page, ml_truncated = mb_truncated page\<rparr>)"

record ('n, 'e) MemoryGraphView =
  mg_nodes :: "'n list"
  mg_edges :: "'e list"
  mg_truncated :: bool
  mg_next_cursor :: "string option"
  mg_history :: bool

definition read_graph ::
  "(string \<Rightarrow> string option \<Rightarrow> string option \<Rightarrow> bool \<Rightarrow> ('w, call_error, ('n, 'e) MemoryGraphView) op)
    \<Rightarrow> string \<Rightarrow> string option \<Rightarrow> string option \<Rightarrow> bool \<Rightarrow> ('w, call_error, ('n, 'e) MemoryGraphView) op" where
  "read_graph graph_of owner_id companion_id cursor history =
     bindS (graph_of owner_id companion_id cursor history) (\<lambda>g.
       ret \<lparr>mg_nodes = mg_nodes g, mg_edges = mg_edges g, mg_truncated = mg_truncated g, mg_next_cursor = mg_next_cursor g, mg_history = mg_history g\<rparr>)"

record 'p MemoryEntryView =
  ev_entry_id :: string
  ev_recorded_at :: string
  ev_recorded_at_source :: string
  ev_wing_id :: string
  ev_room_id :: string
  ev_preview :: string
  ev_provenance :: 'p
  ev_value :: string

record 'p MemoryDay =
  dy_since :: string
  dy_entries :: "'p MemoryEntryView list"
  dy_entry_count :: int
  dy_more_in_window :: bool
  dy_next_cursor :: "string option"
  dy_undated_count :: int
  dy_truncated :: bool

text \<open>The entries and records of Memory have the members of the views made of them.\<close>

definition read_day ::
  "(string \<Rightarrow> string \<Rightarrow> int option \<Rightarrow> string option \<Rightarrow> string option \<Rightarrow> ('w, call_error, 'p MemoryDay) op)
    \<Rightarrow> string \<Rightarrow> string \<Rightarrow> int option \<Rightarrow> string option \<Rightarrow> string option \<Rightarrow> ('w, call_error, 'p MemoryDay) op" where
  "read_day entries_of owner_id since lim companion_id cursor =
     bindS (entries_of owner_id since lim companion_id cursor) (\<lambda>page.
       ret \<lparr>dy_since = dy_since page,
            dy_entries = map (\<lambda>e. \<lparr>ev_entry_id = ev_entry_id e, ev_recorded_at = ev_recorded_at e, ev_recorded_at_source = ev_recorded_at_source e,
              ev_wing_id = ev_wing_id e, ev_room_id = ev_room_id e, ev_preview = ev_preview e, ev_provenance = ev_provenance e, ev_value = ev_value e\<rparr>) (dy_entries page),
            dy_entry_count = dy_entry_count page, dy_more_in_window = dy_more_in_window page, dy_next_cursor = dy_next_cursor page,
            dy_undated_count = dy_undated_count page, dy_truncated = dy_truncated page\<rparr>)"

record 'p MemoryExportRecordView =
  er_entry_id :: string
  er_recorded_at :: string
  er_recorded_at_source :: string
  er_wing_id :: string
  er_room_id :: string
  er_memory_type :: string
  er_value :: string
  er_provenance :: 'p

record 'p MemoryCopy =
  my_taken_at :: string
  my_records :: "'p MemoryExportRecordView list"
  my_record_count :: int
  my_undated_count :: int
  my_truncated :: bool

definition read_copy ::
  "(string \<Rightarrow> string option \<Rightarrow> string option \<Rightarrow> string option \<Rightarrow> ('w, call_error, 'p MemoryCopy) op)
    \<Rightarrow> string \<Rightarrow> string option \<Rightarrow> string option \<Rightarrow> string option \<Rightarrow> ('w, call_error, 'p MemoryCopy) op" where
  "read_copy export_of owner_id companion_id wing room =
     bindS (export_of owner_id companion_id wing room) (\<lambda>page.
       ret \<lparr>my_taken_at = my_taken_at page,
            my_records = map (\<lambda>r. \<lparr>er_entry_id = er_entry_id r, er_recorded_at = er_recorded_at r, er_recorded_at_source = er_recorded_at_source r,
              er_wing_id = er_wing_id r, er_room_id = er_room_id r, er_memory_type = er_memory_type r, er_value = er_value r, er_provenance = er_provenance r\<rparr>) (my_records page),
            my_record_count = my_record_count page, my_undated_count = my_undated_count page, my_truncated = my_truncated page\<rparr>)"

record 'p RecollectionView =
  rc_text :: string
  rc_remembered_at :: "string option"
  rc_provenance :: 'p

record 'p Recollections =
  rs_query :: string
  rs_recollections :: "'p RecollectionView list"

definition recall ::
  "(string \<Rightarrow> string \<Rightarrow> int \<Rightarrow> string option \<Rightarrow> ('w, call_error, 'p RecollectionView list) op)
    \<Rightarrow> string \<Rightarrow> string \<Rightarrow> int \<Rightarrow> string option \<Rightarrow> ('w, call_error, 'p Recollections) op" where
  "recall recollections_of owner_id query lim companion_id =
     bindS (recollections_of owner_id query lim companion_id) (\<lambda>found.
       ret \<lparr>rs_query = query,
            rs_recollections = map (\<lambda>r. \<lparr>rc_text = rc_text r, rc_remembered_at = truthy (rc_remembered_at r), rc_provenance = rc_provenance r\<rparr>) found\<rparr>)"

section \<open>Forgetting\<close>

record 's ForgetEntryView =
  fe_entry_id :: string
  fe_preview :: string
  fe_score :: 's

record 's ForgetProposal =
  fp_status :: string
  fp_target :: string
  fp_entries :: "'s ForgetEntryView list"
  fp_needs_confirmation :: bool
  fp_confirmation_token :: "string option"
  fp_expires_at :: "int option"
  fp_detail :: string

record ForgetResult =
  fo_request_id :: string
  fo_target :: string
  fo_entry_count :: int
  fo_status :: string

record ForgetProgress =
  fg_request_id :: string
  fg_status :: string

definition propose_forget :: "(string \<Rightarrow> string \<Rightarrow> ('w, call_error, 's ForgetProposal) op) \<Rightarrow> string \<Rightarrow> string \<Rightarrow> ('w, call_error, 's ForgetProposal) op" where
  "propose_forget preview_of owner_id target =
     bindS (preview_of owner_id target) (\<lambda>p.
       ret \<lparr>fp_status = fp_status p, fp_target = fp_target p,
            fp_entries = map (\<lambda>e. \<lparr>fe_entry_id = fe_entry_id e, fe_preview = fe_preview e, fe_score = fe_score e\<rparr>) (fp_entries p),
            fp_needs_confirmation = fp_needs_confirmation p, fp_confirmation_token = fp_confirmation_token p, fp_expires_at = fp_expires_at p,
            fp_detail = fp_detail p\<rparr>)"

definition apply_forget :: "(string \<Rightarrow> string \<Rightarrow> ('w, call_error, ForgetResult) op) \<Rightarrow> string \<Rightarrow> string \<Rightarrow> ('w, call_error, ForgetResult) op" where
  "apply_forget confirm_of owner_id confirmation_token =
     bindS (confirm_of owner_id confirmation_token) (\<lambda>o1.
       ret \<lparr>fo_request_id = fo_request_id o1, fo_target = fo_target o1, fo_entry_count = fo_entry_count o1, fo_status = fo_status o1\<rparr>)"

definition read_forget_progress :: "(string \<Rightarrow> string \<Rightarrow> ('w, call_error, ForgetProgress) op) \<Rightarrow> string \<Rightarrow> string \<Rightarrow> ('w, call_error, ForgetProgress) op" where
  "read_forget_progress status_of owner_id request_id =
     bindS (status_of owner_id request_id) (\<lambda>p. ret \<lparr>fg_request_id = fg_request_id p, fg_status = fg_status p\<rparr>)"

section \<open>The routes\<close>

definition CONVERSATION_ID_MAX_LENGTH :: nat where
  "CONVERSATION_ID_MAX_LENGTH = 512"

definition fits_conversation :: "ConversationView \<Rightarrow> bool" where
  "fits_conversation v \<longleftrightarrow> named CONVERSATION_ID_MAX_LENGTH (vw_conversation_id v) \<and> at_most 64 (vw_started_at v) \<and> at_most 64 (vw_updated_at v)
     \<and> maybe (at_most 64) (vw_ended_at v)"

definition fits_conversations :: "string \<Rightarrow> ConversationPage \<Rightarrow> bool" where
  "fits_conversations companion_id p \<longleftrightarrow> named 64 companion_id \<and> list_all fits_conversation (vp_conversations p) \<and> maybe (at_most 256) (vp_next_cursor p)"

definition fits_message :: "SpokenMessage \<Rightarrow> bool" where
  "fits_message m \<longleftrightarrow> named 32 (sm_role m) \<and> at_most 1048576 (sm_text m)"

definition fits_turn :: "TranscriptTurn \<Rightarrow> bool" where
  "fits_turn t \<longleftrightarrow> named 64 (tu_turn_id t) \<and> at_most 64 (tu_started_at t) \<and> maybe (at_most 64) (tu_finished_at t) \<and> at_most 32 (tu_status t)
     \<and> list_all fits_message (tu_messages t)"

definition fits_transcript :: "Transcript \<Rightarrow> bool" where
  "fits_transcript t \<longleftrightarrow> named CONVERSATION_ID_MAX_LENGTH (tc_conversation_id t) \<and> list_all fits_turn (tc_turns t) \<and> maybe (at_most 256) (tc_next_cursor t)"

definition fits_task :: "TaskView \<Rightarrow> bool" where
  "fits_task t \<longleftrightarrow> named 64 (tv_task_id t) \<and> named 32 (tv_status t) \<and> at_most 8192 (tv_asked t) \<and> at_most 64 (tv_kind t) \<and> at_most 32 (tv_urgency t)
     \<and> at_most 4096 (tv_expected_output t) \<and> at_most 8192 (tv_progress t) \<and> at_most 65536 (tv_result t) \<and> at_most 128 (tv_error_code t)
     \<and> at_most 4096 (tv_error_message t) \<and> at_most 64 (tv_created_at t) \<and> at_most 64 (tv_updated_at t) \<and> maybe (at_most 64) (tv_completed_at t)"

definition fits_tasks :: "string \<Rightarrow> TaskPage \<Rightarrow> bool" where
  "fits_tasks companion_id p \<longleftrightarrow> named 64 companion_id \<and> list_all fits_task (tp_tasks p) \<and> maybe (at_most 256) (tp_next_cursor p)"

definition fits_moment :: "ActivityMoment \<Rightarrow> bool" where
  "fits_moment m \<longleftrightarrow> named 64 (mo_event_id m) \<and> named 128 (mo_action m) \<and> named 64 (mo_subject_type m) \<and> named 128 (mo_subject_id m)
     \<and> at_most 128 (mo_subject_name m) \<and> named 64 (mo_occurred_at m) \<and> named 16 (mo_outcome m)"

definition fits_feed :: "ActivityFeed \<Rightarrow> bool" where
  "fits_feed f \<longleftrightarrow> list_all fits_moment (ad_moments f) \<and> maybe (\<lambda>n. n \<ge> 1) (ad_next_cursor f)"

definition fits_room :: "MemoryRoomView \<Rightarrow> bool" where
  "fits_room r \<longleftrightarrow> named 256 (rv_room_id r) \<and> rv_entry_count r \<ge> 0"

definition fits_wing :: "MemoryWingView \<Rightarrow> bool" where
  "fits_wing v \<longleftrightarrow> named 128 (wv_wing_id v) \<and> at_most 256 (wv_display_name v) \<and> at_most 2048 (wv_description v) \<and> wv_entry_count v \<ge> 0
     \<and> list_all fits_room (wv_rooms v)"

definition fits_library :: "MemoryLibrary \<Rightarrow> bool" where
  "fits_library l \<longleftrightarrow> named 128 (ml_audience_scope l) \<and> list_all fits_wing (ml_wings l) \<and> ml_entry_count l \<ge> 0 \<and> ml_withheld_count l \<ge> 0"

definition fits_entry :: "'p MemoryEntryView \<Rightarrow> bool" where
  "fits_entry e \<longleftrightarrow> named 128 (ev_entry_id e) \<and> named 64 (ev_recorded_at e) \<and> at_most 64 (ev_recorded_at_source e) \<and> at_most 128 (ev_wing_id e)
     \<and> at_most 256 (ev_room_id e) \<and> at_most 4096 (ev_preview e)"

definition fits_day :: "'p MemoryDay \<Rightarrow> bool" where
  "fits_day d \<longleftrightarrow> named 64 (dy_since d) \<and> list_all fits_entry (dy_entries d) \<and> dy_entry_count d \<ge> 0 \<and> maybe (at_most 1024) (dy_next_cursor d)
     \<and> dy_undated_count d \<ge> 0"

definition fits_export_record :: "'p MemoryExportRecordView \<Rightarrow> bool" where
  "fits_export_record r \<longleftrightarrow> named 128 (er_entry_id r) \<and> at_most 64 (er_recorded_at r) \<and> at_most 64 (er_recorded_at_source r) \<and> at_most 128 (er_wing_id r)
     \<and> at_most 256 (er_room_id r) \<and> at_most 64 (er_memory_type r)"

definition fits_copy :: "'p MemoryCopy \<Rightarrow> bool" where
  "fits_copy c \<longleftrightarrow> named 64 (my_taken_at c) \<and> list_all fits_export_record (my_records c) \<and> my_record_count c \<ge> 0 \<and> my_undated_count c \<ge> 0"

definition fits_recollection :: "'p RecollectionView \<Rightarrow> bool" where
  "fits_recollection r \<longleftrightarrow> at_most 8192 (rc_text r) \<and> maybe (at_most 64) (rc_remembered_at r)"

definition fits_recollections :: "'p Recollections \<Rightarrow> bool" where
  "fits_recollections r \<longleftrightarrow> named 256 (rs_query r) \<and> list_all fits_recollection (rs_recollections r)"

text \<open>\<open>unit_score\<close> is whether a score lies between 0 and 1.\<close>

definition fits_proposal :: "('s \<Rightarrow> bool) \<Rightarrow> 's ForgetProposal \<Rightarrow> bool" where
  "fits_proposal unit_score p \<longleftrightarrow> fp_status p \<in> {''preview'', ''not_found'', ''too_broad''} \<and> named 512 (fp_target p)
     \<and> list_all (\<lambda>e. named 128 (fe_entry_id e) \<and> at_most 4096 (fe_preview e) \<and> unit_score (fe_score e)) (fp_entries p)
     \<and> maybe (at_most 4096) (fp_confirmation_token p) \<and> at_most 1024 (fp_detail p)"

definition forget_states :: "string list" where
  "forget_states = [''accepted'', ''retrying'', ''applied'', ''failed'']"

definition fits_forgotten :: "ForgetResult \<Rightarrow> bool" where
  "fits_forgotten r \<longleftrightarrow> named 128 (fo_request_id r) \<and> named 512 (fo_target r) \<and> fo_entry_count r \<ge> 0 \<and> fo_status r \<in> set forget_states"

definition fits_progress :: "ForgetProgress \<Rightarrow> bool" where
  "fits_progress p \<longleftrightarrow> named 128 (fg_request_id p) \<and> fg_status p \<in> set forget_states"

definition route_get_companion_conversations where
  "route_get_companion_conversations V model owner_id companion_id lim cursor =
     bindS (read_conversations (list_conversations (mg_activity V) model) owner_id companion_id lim cursor) (respond (fits_conversations companion_id))"

definition route_get_conversation_transcript where
  "route_get_conversation_transcript V model owner_id companion_id conversation_id lim cursor =
     bindS (read_transcript (list_transcript (mg_activity V) model) owner_id companion_id conversation_id lim cursor) (respond fits_transcript)"

definition route_get_companion_tasks where
  "route_get_companion_tasks V model owner_id companion_id lim status cursor =
     bindS (read_tasks (list_tasks (mg_activity V) model) owner_id companion_id lim status cursor) (respond (fits_tasks companion_id))"

definition route_get_companion_task where
  "route_get_companion_task V model owner_id task_id =
     bindS (read_task (get_task (mg_activity V) model) owner_id task_id) (respond fits_task)"

definition route_post_task_cancel where
  "route_post_task_cancel V model owner_id task_id =
     bindS (manage_cancel_task (cancel_task (mg_activity V) model) owner_id task_id) (respond fits_task)"

definition route_post_task_retry where
  "route_post_task_retry V model owner_id task_id =
     bindS (manage_retry_task (retry_task (mg_activity V) model) owner_id task_id) (respond fits_task)"

definition route_get_activity where
  "route_get_activity V M model owner_id lim before =
     requires (maybe (\<lambda>n. 1 \<le> n \<and> n \<le> (100 :: int)) lim \<and> maybe (\<lambda>n. 1 \<le> n) before)
       (bindS (read_activity (list_governance_events (mg_workspace V) model) (\<lambda>ow. list_owner_companions (mg_data V) (am_roster M) ow None None) owner_id lim before)
         (respond fits_feed))"

definition route_get_memory_library where
  "route_get_memory_library V model owner_id companion_id =
     bindS (read_library (browse (mg_memory V) model) owner_id companion_id) (respond fits_library)"

definition route_get_memory_graph where
  "route_get_memory_graph V model owner_id companion_id cursor history =
     read_graph (graph (mg_memory V) model) owner_id companion_id cursor history"

definition route_get_memory_entries where
  "route_get_memory_entries V model owner_id since lim companion_id cursor =
     bindS (read_day (entries (mg_memory V) model) owner_id since lim companion_id cursor) (respond fits_day)"

definition route_get_memory_export where
  "route_get_memory_export V model owner_id companion_id wing room =
     bindS (read_copy (export_memory (mg_memory V) model) owner_id companion_id wing room) (respond fits_copy)"

definition route_get_memory_recollections where
  "route_get_memory_recollections V model owner_id q lim companion_id =
     requires (named 256 q \<and> 1 \<le> lim \<and> lim \<le> 50)
       (bindS (recall (recollections (mg_memory V) model) owner_id q lim companion_id) (respond fits_recollections))"

definition route_post_forget_preview where
  "route_post_forget_preview V model unit_score owner_id target =
     requires (named 512 target) (bindS (propose_forget (forget_preview (mg_memory V) model) owner_id target) (respond (fits_proposal unit_score)))"

definition route_post_forget_confirm where
  "route_post_forget_confirm V model owner_id confirmation_token =
     requires (named 4096 confirmation_token) (bindS (apply_forget (forget_confirm (mg_memory V) model) owner_id confirmation_token) (respond fits_forgotten))"

definition route_get_forget_status where
  "route_get_forget_status V model owner_id request_id =
     bindS (read_forget_progress (forget_status (mg_memory V) model) owner_id request_id) (respond fits_progress)"

section \<open>What is shown\<close>

lemma page_size_bounds: "1 \<le> page_size lim" "page_size lim \<le> 100"
  by (auto simp: page_size_def DEFAULT_PAGE_def MAXIMUM_PAGE_def split: option.split)

text \<open>
  A transcript that is shown was asked for a bounded page of exactly this Owner, Companion and conversation and is of
  them; turn by turn it has what was said by the person and the Companion, in order, and nothing of the tools.
\<close>

lemma transcript_confined:
  assumes "route_get_conversation_transcript V model owner_id companion_id conversation_id lim cursor w = (Inr shown, w')"
  obtains page where "list_transcript (mg_activity V) model owner_id companion_id conversation_id (page_size lim) cursor w = (Inr page, w')"
    "ts_owner_id page = owner_id" "ts_companion_id page = companion_id" "ts_conversation_id page = conversation_id"
    "map tu_turn_id (tc_turns shown) = map tt_turn_id (ts_turns page)"
    "map (map sm_text \<circ> tu_messages) (tc_turns shown) = map (map ms_content \<circ> filter spoken \<circ> tt_messages) (ts_turns page)"
    "\<And>turn m. turn \<in> set (tc_turns shown) \<Longrightarrow> m \<in> set (tu_messages turn) \<Longrightarrow> sm_role m \<in> {''user'', ''assistant''}"
proof -
  from assms obtain page where page: "list_transcript (mg_activity V) model owner_id companion_id conversation_id (page_size lim) cursor w = (Inr page, w')"
      "ts_owner_id page = owner_id" "ts_companion_id page = companion_id" "ts_conversation_id page = conversation_id"
      "tc_turns shown = map transcript_turn (ts_turns page)"
    by (auto simp: route_get_conversation_transcript_def read_transcript_def respond_def violated_def ret_def raise_def split: if_splits)
  show thesis
    by (rule that [OF page(1-4)]) (auto simp: page(5) transcript_turn_def comp_def spoken_def SPOKEN_ROLES_def)
qed

lemma conversations_confined:
  assumes "read_conversations list_of owner_id companion_id lim cursor w = (Inr shown, w')"
  obtains page where "list_of owner_id companion_id (page_size lim) cursor w = (Inr page, w')"
    "map vw_conversation_id (vp_conversations shown) = map cv_conversation_id (cvs_conversations page)"
    "list_all (\<lambda>row. cv_owner_id row = owner_id \<and> cv_companion_id row = companion_id) (cvs_conversations page)"
  using assms by (auto simp: read_conversations_def violated_def ret_def raise_def list_ex_iff list_all_iff comp_def split: if_splits)

text \<open>Of a payload nothing is shown but the listed fields of its action, and the names of the Companions they mention.\<close>

lemma dict_set_keys: "fst ` set (dict_set k v d) = insert k (fst ` set d)"
  by (induction d) auto

lemma detail_step:
  "\<exists>built'. detail_of (field # wanted) payload names built = detail_of wanted payload names built'
     \<and> fst ` set built' \<subseteq> fst ` set built \<union> {field, field @ ''_name''}"
proof (cases "jget field payload = JNull")
  case False
  let ?built1 = "dict_set field (py_str (jget field payload)) built"
  let ?built' = "if ends_with ''companion_id'' field
    then (case truthy (names (py_str (jget field payload))) of None \<Rightarrow> ?built1 | Some name \<Rightarrow> dict_set (field @ ''_name'') name ?built1) else ?built1"
  have "detail_of (field # wanted) payload names built = detail_of wanted payload names ?built'"
    using False by (cases "jget field payload") (simp_all only: detail_of.simps Let_def json.case json.distinct simp_thms)
  moreover have "fst ` set ?built' \<subseteq> fst ` set built \<union> {field, field @ ''_name''}"
    by (auto simp only: dict_set_keys split: option.splits if_splits)
  ultimately show ?thesis by blast
qed (auto intro!: exI [of _ built])

lemma detail_keys:
  "fst ` set (detail_of wanted payload names built) \<subseteq> fst ` set built \<union> set wanted \<union> (\<lambda>f. f @ ''_name'') ` set wanted"
proof (induction wanted arbitrary: built)
  case (Cons field wanted)
  obtain built' where step: "detail_of (field # wanted) payload names built = detail_of wanted payload names built'"
      "fst ` set built' \<subseteq> fst ` set built \<union> {field, field @ ''_name''}"
    using detail_step by blast
  with Cons.IH [of built'] show ?case unfolding step(1) by auto
qed simp

lemma moment_detail_listed:
  "fst ` set (mo_detail (activity_moment names event))
     \<subseteq> set (detail_fields (ge_action event)) \<union> (\<lambda>f. f @ ''_name'') ` set (detail_fields (ge_action event))"
  using detail_keys [of "detail_fields (ge_action event)" "ge_payload event" names "[]"] by (auto simp: activity_moment_def)

text \<open>The history is shown whole: every event of the page once, in order, known or not.\<close>

lemma activity_whole:
  assumes "read_activity list_events list_companions owner_id lim before w = (Inr feed, w')"
  obtains page w1 where "list_events owner_id lim before w = (Inr page, w1)"
    "map mo_event_id (ad_moments feed) = map ge_event_id (ef_events (og_rest page))"
    "map mo_action (ad_moments feed) = map ge_action (ef_events (og_rest page))"
  using assms by (auto simp: read_activity_def ret_def activity_moment_def comp_def)

end
