(* ===== verification/Removal_Intents.thy ===== *)
theory Removal_Intents
  imports Ledger
begin

text \<open>
  The ledger of device removals, \<open>app/control_plane/removal_intents.py\<close>, with the id of a removal
  from \<open>lifecycle_workflow/protocol.py\<close>: one intent per Owner Domain and request, frozen when it is
  first recorded, and completed once with the Hub's answer. There is an adapter in memory and one
  over SQLite.
\<close>

section \<open>Intents\<close>

record ('ref, 'res) RemovalIntent =
  ri_intent_id :: string
  ri_ingress_request_id :: string
  ri_owner_domain_id :: string
  ri_device_ref :: 'ref
  ri_actor_controller_id :: string
  ri_workload_principal_id :: string
  ri_controller_reset_epoch :: int
  ri_authorization_context_json :: string
  ri_authorization_context_sha256 :: string
  ri_reason :: string
  ri_hub_command_id :: string
  ri_state :: string
  ri_created_at :: int
  ri_updated_at :: int
  ri_hub_result :: "'res option"

text \<open>The keyword arguments of \<open>get_or_create\<close>.\<close>

record 'ref removal_request =
  rq_ingress_request_id :: string
  rq_owner_domain_id :: string
  rq_device_ref :: 'ref
  rq_actor_controller_id :: string
  rq_workload_principal_id :: string
  rq_controller_reset_epoch :: int
  rq_authorization_context_sha256 :: string
  rq_authorization_context_json :: string
  rq_reason :: string
  rq_now :: int

definition REMOVAL_NAMESPACE :: string where
  "REMOVAL_NAMESPACE = ''2c33cc48-d0ac-5f51-a685-b3d299aeb5cd''"

definition removal_intent_id :: "('ref, 'res) sdk \<Rightarrow> string \<Rightarrow> string \<Rightarrow> string" where
  "removal_intent_id S ingress_request_id owner_domain_id = ''removal-intent-'' @
     uuid5_hex S REMOVAL_NAMESPACE (''eidolon-removal-intent-v1:'' @ owner_domain_id @ '':'' @ ingress_request_id)"

definition hub_command_id :: "('ref, 'res) sdk \<Rightarrow> string \<Rightarrow> 'ref \<Rightarrow> string" where
  "hub_command_id S intent_id device_ref = ''revoke-claim-'' @
     uuid5_hex S REMOVAL_NAMESPACE (''eidolon-revoke-claim-v1:'' @ intent_id @ '':''
       @ ref_device_instance_id S device_ref @ '':'' @ dec_of_int (ref_owner_domain_generation S device_ref) @ '':''
       @ dec_of_int (ref_claim_generation S device_ref) @ '':'' @ dec_of_int (ref_trust_epoch S device_ref))"

definition request_id_of :: "('ref, 'res) sdk \<Rightarrow> 'ref removal_request \<Rightarrow> string" where
  "request_id_of S q = removal_intent_id S (rq_ingress_request_id q) (rq_owner_domain_id q)"

definition new_intent :: "('ref, 'res) sdk \<Rightarrow> 'ref removal_request \<Rightarrow> ('ref, 'res) RemovalIntent" where
  "new_intent S q =
     \<lparr>ri_intent_id = request_id_of S q, ri_ingress_request_id = rq_ingress_request_id q,
      ri_owner_domain_id = rq_owner_domain_id q, ri_device_ref = rq_device_ref q,
      ri_actor_controller_id = rq_actor_controller_id q, ri_workload_principal_id = rq_workload_principal_id q,
      ri_controller_reset_epoch = rq_controller_reset_epoch q,
      ri_authorization_context_json = rq_authorization_context_json q,
      ri_authorization_context_sha256 = rq_authorization_context_sha256 q, ri_reason = rq_reason q,
      ri_hub_command_id = hub_command_id S (request_id_of S q) (rq_device_ref q), ri_state = ''accepted'',
      ri_created_at = rq_now q, ri_updated_at = rq_now q, ri_hub_result = None\<rparr>"

text \<open>The comparison both adapters make with an intent that exists.\<close>

definition same_content :: "'ref removal_request \<Rightarrow> ('ref, 'res) RemovalIntent \<Rightarrow> bool" where
  "same_content q current \<longleftrightarrow> \<not> (ri_device_ref current \<noteq> rq_device_ref q \<or> ri_reason current \<noteq> rq_reason q
     \<or> ri_actor_controller_id current \<noteq> rq_actor_controller_id q
     \<or> ri_workload_principal_id current \<noteq> rq_workload_principal_id q
     \<or> ri_controller_reset_epoch current \<noteq> rq_controller_reset_epoch q
     \<or> ri_authorization_context_sha256 current \<noteq> rq_authorization_context_sha256 q
     \<or> ri_authorization_context_json current \<noteq> rq_authorization_context_json q)"

definition context_mismatch :: ledger_error where
  "context_mismatch = ValueErr ''authorization context bytes do not match their hash''"

definition request_reused :: ledger_error where
  "request_reused = ValueErr ''request_id was reused with different removal content''"

definition result_changed :: ledger_error where
  "result_changed = ValueErr ''Hub result changed for an existing RemovalIntent''"

definition hub_committed :: "'res \<Rightarrow> int \<Rightarrow> ('ref, 'res) RemovalIntent \<Rightarrow> ('ref, 'res) RemovalIntent" where
  "hub_committed res now current =
     current\<lparr>ri_state := ''hub-revoked'', ri_updated_at := now, ri_hub_result := Some res\<rparr>"

section \<open>In memory\<close>

type_synonym ('ref, 'res) removal_values = "(string \<times> ('ref, 'res) RemovalIntent) list"

definition rm_get_or_create ::
  "('ref, 'res) sdk \<Rightarrow> 'ref removal_request \<Rightarrow> (('ref, 'res) removal_values, ledger_error, ('ref, 'res) RemovalIntent) op" where
  "rm_get_or_create S q values =
     (if sha256_hex S (rq_authorization_context_json q) \<noteq> rq_authorization_context_sha256 q
      then (Inl context_mismatch, values)
      else (case map_of values (request_id_of S q) of
        Some current \<Rightarrow> (if \<not> same_content q current then (Inl request_reused, values) else (Inr current, values))
      | None \<Rightarrow>
          (let intent = new_intent S q in (Inr intent, dict_set (request_id_of S q) intent values))))"

definition rm_mark_hub_committed ::
  "string \<Rightarrow> 'res \<Rightarrow> int \<Rightarrow> (('ref, 'res) removal_values, ledger_error, ('ref, 'res) RemovalIntent) op" where
  "rm_mark_hub_committed intent_id res now values =
     (case map_of values intent_id of
        None \<Rightarrow> (Inl (KeyErr intent_id), values)
      | Some current \<Rightarrow>
          (if ri_hub_result current \<noteq> None \<and> ri_hub_result current \<noteq> Some res then (Inl result_changed, values)
           else (let updated = hub_committed res now current in (Inr updated, dict_set intent_id updated values))))"

section \<open>Over SQLite\<close>

record removal_row =
  rr_intent_id :: string
  rr_ingress_request_id :: string
  rr_owner_domain_id :: string
  rr_device_id :: string
  rr_owner_domain_generation :: int
  rr_claim_generation :: int
  rr_trust_epoch :: int
  rr_device_ref_json :: string
  rr_actor_controller_id :: string
  rr_workload_principal_id :: string
  rr_controller_reset_epoch :: int
  rr_authorization_context_json :: string
  rr_authorization_context_sha256 :: string
  rr_reason :: string
  rr_hub_command_id :: string
  rr_state :: string
  rr_hub_result_json :: "string option"
  rr_created_at :: string
  rr_updated_at :: string

definition bad_value :: ledger_error where
  "bad_value = ValueErr ''stored value is invalid''"

text \<open>\<open>_decode\<close>; a stored text that cannot be read raises a \<open>ValueError\<close>.\<close>

definition decode_removal :: "('ref, 'res) sdk \<Rightarrow> removal_row \<Rightarrow> ledger_error + ('ref, 'res) RemovalIntent" where
  "decode_removal S row =
     (case (ref_load_json S (rr_device_ref_json row), dt_parse S (rr_created_at row), dt_parse S (rr_updated_at row),
            case rr_hub_result_json row of None \<Rightarrow> Some None | Some text \<Rightarrow> map_option Some (res_load_json S text)) of
        (Some device_ref, Some created_at, Some updated_at, Some hub_result) \<Rightarrow>
          Inr \<lparr>ri_intent_id = rr_intent_id row, ri_ingress_request_id = rr_ingress_request_id row,
            ri_owner_domain_id = rr_owner_domain_id row, ri_device_ref = device_ref,
            ri_actor_controller_id = rr_actor_controller_id row, ri_workload_principal_id = rr_workload_principal_id row,
            ri_controller_reset_epoch = rr_controller_reset_epoch row,
            ri_authorization_context_json = rr_authorization_context_json row,
            ri_authorization_context_sha256 = rr_authorization_context_sha256 row, ri_reason = rr_reason row,
            ri_hub_command_id = rr_hub_command_id row, ri_state = rr_state row,
            ri_created_at = created_at, ri_updated_at = updated_at, ri_hub_result = hub_result\<rparr>
      | _ \<Rightarrow> Inl bad_value)"

text \<open>The \<open>INSERT\<close>: the primary key, the two unique keys and the check of the table.\<close>

definition removal_row_of :: "('ref, 'res) sdk \<Rightarrow> ('ref, 'res) RemovalIntent \<Rightarrow> removal_row" where
  "removal_row_of S i =
     \<lparr>rr_intent_id = ri_intent_id i, rr_ingress_request_id = ri_ingress_request_id i,
      rr_owner_domain_id = ri_owner_domain_id i, rr_device_id = ref_device_instance_id S (ri_device_ref i),
      rr_owner_domain_generation = ref_owner_domain_generation S (ri_device_ref i),
      rr_claim_generation = ref_claim_generation S (ri_device_ref i), rr_trust_epoch = ref_trust_epoch S (ri_device_ref i),
      rr_device_ref_json = ref_dump_json S (ri_device_ref i), rr_actor_controller_id = ri_actor_controller_id i,
      rr_workload_principal_id = ri_workload_principal_id i, rr_controller_reset_epoch = ri_controller_reset_epoch i,
      rr_authorization_context_json = ri_authorization_context_json i,
      rr_authorization_context_sha256 = ri_authorization_context_sha256 i, rr_reason = ri_reason i,
      rr_hub_command_id = ri_hub_command_id i, rr_state = ri_state i,
      rr_hub_result_json = map_option (res_dump_json S) (ri_hub_result i),
      rr_created_at = dt_text S (ri_created_at i), rr_updated_at = dt_text S (ri_updated_at i)\<rparr>"

definition stmt_insert_removal :: "removal_row \<Rightarrow> (removal_row list, ledger_error, unit) op" where
  "stmt_insert_removal row rows =
     (if rr_controller_reset_epoch row < 0
         \<or> list_ex (\<lambda>r. rr_intent_id r = rr_intent_id row \<or> rr_hub_command_id r = rr_hub_command_id row
             \<or> rr_owner_domain_id r = rr_owner_domain_id row \<and> rr_ingress_request_id r = rr_ingress_request_id row) rows
      then (Inl IntegrityError, rows) else (Inr (), rows @ [row]))"

definition rs_get_or_create ::
  "('ref, 'res) sdk \<Rightarrow> 'ref removal_request \<Rightarrow> (removal_row list, ledger_error, ('ref, 'res) RemovalIntent) op" where
  "rs_get_or_create S q rows =
     (if sha256_hex S (rq_authorization_context_json q) \<noteq> rq_authorization_context_sha256 q
      then (Inl context_mismatch, rows)
      else transact (\<lambda>rows.
        case find (\<lambda>r. rr_owner_domain_id r = rq_owner_domain_id q \<and> rr_ingress_request_id r = rq_ingress_request_id q) rows of
          Some row \<Rightarrow>
            (case decode_removal S row of
               Inl e \<Rightarrow> (Inl e, rows)
             | Inr current \<Rightarrow> (if \<not> same_content q current then (Inl request_reused, rows) else (Inr current, rows)))
        | None \<Rightarrow>
            bindS (stmt_insert_removal (removal_row_of S (new_intent S q))) (\<lambda>_. ret (new_intent S q)) rows) rows)"

definition rs_mark_hub_committed ::
  "('ref, 'res) sdk \<Rightarrow> string \<Rightarrow> 'res \<Rightarrow> int \<Rightarrow> (removal_row list, ledger_error, ('ref, 'res) RemovalIntent) op" where
  "rs_mark_hub_committed S intent_id res now = transact (\<lambda>rows.
     case find (\<lambda>r. rr_intent_id r = intent_id) rows of
       None \<Rightarrow> (Inl (KeyErr intent_id), rows)
     | Some row \<Rightarrow>
         (case decode_removal S row of
            Inl e \<Rightarrow> (Inl e, rows)
          | Inr current \<Rightarrow>
              (if ri_hub_result current \<noteq> None \<and> ri_hub_result current \<noteq> Some res then (Inl result_changed, rows)
               else (Inr (hub_committed res now current), map (\<lambda>r. if rr_intent_id r = intent_id
                 then r\<lparr>rr_state := ''hub-revoked'', rr_hub_result_json := Some (res_dump_json S res),
                        rr_updated_at := dt_text S now\<rparr> else r) rows))))"

section \<open>Names\<close>

lemma removal_intent_id_eq:
  assumes "sdk_ok S" and "CHR '':'' \<notin> set owner" and "CHR '':'' \<notin> set owner'"
  shows "removal_intent_id S req owner = removal_intent_id S req' owner' \<longleftrightarrow> req = req' \<and> owner = owner'"
  using split_at_colon [of owner req owner' req'] assms by (auto simp: removal_intent_id_def sdk_okD(4))

lemma removal_intent_id_plain: "sdk_ok S \<Longrightarrow> CHR '':'' \<notin> set (removal_intent_id S req owner)"
  by (simp add: removal_intent_id_def sdk_okD(5))

lemma hub_command_id_eq:
  assumes "sdk_ok S" and "CHR '':'' \<notin> set a" and "CHR '':'' \<notin> set b" and "hub_command_id S a r = hub_command_id S b r'"
  shows "a = b"
proof -
  have "a @ CHR '':'' # ref_device_instance_id S r @ '':'' @ dec_of_int (ref_owner_domain_generation S r) @ '':''
       @ dec_of_int (ref_claim_generation S r) @ '':'' @ dec_of_int (ref_trust_epoch S r)
    = b @ CHR '':'' # ref_device_instance_id S r' @ '':'' @ dec_of_int (ref_owner_domain_generation S r') @ '':''
       @ dec_of_int (ref_claim_generation S r') @ '':'' @ dec_of_int (ref_trust_epoch S r')"
    using assms(1,4) by (simp add: hub_command_id_def sdk_okD(4))
  from split_at_colon [OF this assms(2,3)] show ?thesis by simp
qed

section \<open>Both adapters keep the same journal\<close>

text \<open>
  The requests the boundary lets through: the contract bounds the epoch, and an Owner Domain id has
  no colon, which keeps apart the two parts of the text an intent is named after.
\<close>

definition request_typed :: "'ref removal_request \<Rightarrow> bool" where
  "request_typed q \<longleftrightarrow> 0 \<le> rq_controller_reset_epoch q \<and> CHR '':'' \<notin> set (rq_owner_domain_id q)"

definition context_bound :: "('ref, 'res) sdk \<Rightarrow> 'ref removal_request \<Rightarrow> bool" where
  "context_bound S q \<longleftrightarrow> sha256_hex S (rq_authorization_context_json q) = rq_authorization_context_sha256 q"

definition intent_ok :: "('ref, 'res) sdk \<Rightarrow> ('ref, 'res) RemovalIntent \<Rightarrow> bool" where
  "intent_ok S i \<longleftrightarrow> ri_intent_id i = removal_intent_id S (ri_ingress_request_id i) (ri_owner_domain_id i)
     \<and> ri_hub_command_id i = hub_command_id S (ri_intent_id i) (ri_device_ref i) \<and> CHR '':'' \<notin> set (ri_owner_domain_id i)"

definition removals_ok :: "('ref, 'res) sdk \<Rightarrow> ('ref, 'res) RemovalIntent list \<Rightarrow> bool" where
  "removals_ok S xs \<longleftrightarrow> distinct (map ri_intent_id xs) \<and> list_all (intent_ok S) xs"

abbreviation keyed :: "('ref, 'res) RemovalIntent list \<Rightarrow> ('ref, 'res) removal_values" where
  "keyed \<equiv> keyed_by ri_intent_id"

definition removal_create ::
  "('ref, 'res) sdk \<Rightarrow> 'ref removal_request \<Rightarrow> (('ref, 'res) RemovalIntent list, ledger_error, ('ref, 'res) RemovalIntent) op" where
  "removal_create S q xs = (if \<not> context_bound S q then (Inl context_mismatch, xs)
     else journal_create ri_intent_id (new_intent S q) (same_content q) request_reused xs)"

definition removal_commit ::
  "string \<Rightarrow> 'res \<Rightarrow> int \<Rightarrow> (('ref, 'res) RemovalIntent list, ledger_error, ('ref, 'res) RemovalIntent) op" where
  "removal_commit k x now = journal_commit ri_intent_id ri_hub_result (hub_committed x now) (KeyErr k) result_changed k x"

lemma hub_committed_fields [simp]:
  "ri_intent_id (hub_committed x now i) = ri_intent_id i" "ri_hub_result (hub_committed x now i) = Some x"
  "ri_ingress_request_id (hub_committed x now i) = ri_ingress_request_id i"
  "ri_owner_domain_id (hub_committed x now i) = ri_owner_domain_id i"
  "ri_device_ref (hub_committed x now i) = ri_device_ref i" "ri_hub_command_id (hub_committed x now i) = ri_hub_command_id i"
  by (simp_all add: hub_committed_def)

lemma new_intent_id [simp]: "ri_intent_id (new_intent S q) = request_id_of S q"
  by (simp add: new_intent_def)

lemma new_intent_ok: "request_typed q \<Longrightarrow> intent_ok S (new_intent S q)"
  by (simp add: intent_ok_def new_intent_def request_id_of_def request_typed_def)

lemma removal_create_ok: "removals_ok S xs \<Longrightarrow> request_typed q \<Longrightarrow> removals_ok S (snd (removal_create S q xs))"
  using journal_append_distinct [of ri_intent_id xs "new_intent S q"]
  by (auto simp: removals_ok_def removal_create_def journal_create_def new_intent_ok split: option.split)

lemma removal_commit_ok:
  assumes "removals_ok S xs"
  shows "removals_ok S (snd (removal_commit k x now xs))"
proof -
  have "list_all (intent_ok S) (map (\<lambda>i. if ri_intent_id i = k then hub_committed x now i else i) xs)"
    using assms by (auto simp: removals_ok_def list_all_iff intent_ok_def)
  with assms journal_upd_distinct [of ri_intent_id xs "hub_committed x now" k] show ?thesis
    by (auto simp: removals_ok_def removal_commit_def journal_commit_def simp del: map_map split: option.split)
qed

lemma memory_create: "rm_get_or_create S q (keyed xs) = apsnd keyed (removal_create S q xs)"
  using keyed_append [of ri_intent_id xs "new_intent S q"]
  by (auto simp: rm_get_or_create_def removal_create_def context_bound_def journal_create_def keyed_lookup Let_def
      split: option.split)

lemma memory_commit:
  "removals_ok S xs \<Longrightarrow> rm_mark_hub_committed k x now (keyed xs) = apsnd keyed (removal_commit k x now xs)"
  using keyed_upd [of ri_intent_id xs "hub_committed x now" k]
  by (auto simp: rm_mark_hub_committed_def removal_commit_def journal_commit_def keyed_lookup Let_def removals_ok_def
      simp del: map_map split: option.split)

lemma decode_removal_row [simp]: "sdk_ok S \<Longrightarrow> decode_removal S (removal_row_of S i) = Inr i"
  by (cases i; cases "ri_hub_result i") (simp_all add: decode_removal_def removal_row_of_def sdk_okD)

lemma sqlite_find_request:
  assumes "sdk_ok S" and "removals_ok S xs" and "request_typed q"
  shows "find (\<lambda>r. rr_owner_domain_id r = rq_owner_domain_id q \<and> rr_ingress_request_id r = rq_ingress_request_id q)
      (map (removal_row_of S) xs) = map_option (removal_row_of S) (journal_entry ri_intent_id xs (request_id_of S q))"
proof -
  have "find ((\<lambda>r. rr_owner_domain_id r = rq_owner_domain_id q \<and> rr_ingress_request_id r = rq_ingress_request_id q)
      \<circ> removal_row_of S) xs = find (\<lambda>i. ri_intent_id i = request_id_of S q) xs"
  proof (rule find_cong_set)
    fix i assume "i \<in> set xs"
    with assms(2) have "intent_ok S i" by (simp add: removals_ok_def list_all_iff)
    then show "((\<lambda>r. rr_owner_domain_id r = rq_owner_domain_id q \<and> rr_ingress_request_id r = rq_ingress_request_id q)
        \<circ> removal_row_of S) i \<longleftrightarrow> ri_intent_id i = request_id_of S q"
      using assms(1,3) by (auto simp: intent_ok_def request_id_of_def removal_intent_id_eq request_typed_def removal_row_of_def)
  qed
  then show ?thesis by (simp add: find_map journal_entry_def)
qed

lemma sqlite_create:
  assumes "sdk_ok S" and "removals_ok S xs" and "request_typed q"
  shows "rs_get_or_create S q (map (removal_row_of S) xs) = apsnd (map (removal_row_of S)) (removal_create S q xs)"
proof (cases "journal_entry ri_intent_id xs (request_id_of S q)")
  case None
  let ?row = "removal_row_of S (new_intent S q)"
  have epoch: "\<not> rr_controller_reset_epoch ?row < 0"
    using assms(3) by (simp add: removal_row_of_def new_intent_def request_typed_def)
  have "rr_intent_id r \<noteq> rr_intent_id ?row \<and> rr_hub_command_id r \<noteq> rr_hub_command_id ?row
      \<and> \<not> (rr_owner_domain_id r = rr_owner_domain_id ?row \<and> rr_ingress_request_id r = rr_ingress_request_id ?row)"
    if mem: "r \<in> set (map (removal_row_of S) xs)" for r
  proof -
    obtain i where i: "i \<in> set xs" "r = removal_row_of S i" using mem by auto
    then have other: "ri_intent_id i \<noteq> request_id_of S q" using None by (auto simp: journal_entry_def find_None)
    have ok: "intent_ok S i" using assms(2) i(1) by (simp add: removals_ok_def list_all_iff)
    have "CHR '':'' \<notin> set (ri_intent_id i)" using ok assms(1) by (simp add: intent_ok_def removal_intent_id_plain)
    then have "ri_hub_command_id i \<noteq> ri_hub_command_id (new_intent S q)"
      using ok other hub_command_id_eq [OF assms(1), of "ri_intent_id i" "request_id_of S q"]
      by (auto simp: intent_ok_def new_intent_def request_id_of_def removal_intent_id_plain [OF assms(1)])
    then show ?thesis using i(2) other ok by (auto simp: removal_row_of_def new_intent_def intent_ok_def request_id_of_def)
  qed
  then have "stmt_insert_removal ?row (map (removal_row_of S) xs) = (Inr (), map (removal_row_of S) xs @ [?row])"
    using epoch unfolding stmt_insert_removal_def list_ex_iff by (auto simp del: set_map)
  with None sqlite_find_request [OF assms] show ?thesis
    by (simp add: rs_get_or_create_def removal_create_def context_bound_def journal_create_def transact_def bindS_def ret_def)
next
  case (Some i)
  with sqlite_find_request [OF assms] assms(1) show ?thesis
    by (simp add: rs_get_or_create_def removal_create_def context_bound_def journal_create_def transact_def)
qed

lemma sqlite_commit:
  assumes "sdk_ok S" and "removals_ok S xs"
  shows "rs_mark_hub_committed S k x now (map (removal_row_of S) xs) = apsnd (map (removal_row_of S)) (removal_commit k x now xs)"
proof -
  have "find (\<lambda>r. rr_intent_id r = k) (map (removal_row_of S) xs) = map_option (removal_row_of S) (journal_entry ri_intent_id xs k)"
    by (simp add: find_map journal_entry_def comp_def removal_row_of_def)
  moreover have "map (\<lambda>r. if rr_intent_id r = k then r\<lparr>rr_state := ''hub-revoked'', rr_hub_result_json := Some (res_dump_json S x),
        rr_updated_at := dt_text S now\<rparr> else r) (map (removal_row_of S) xs)
      = map (removal_row_of S) (map (\<lambda>i. if ri_intent_id i = k then hub_committed x now i else i) xs)"
    by (simp add: removal_row_of_def hub_committed_def)
  ultimately show ?thesis using assms(1)
    by (auto simp: rs_mark_hub_committed_def removal_commit_def journal_commit_def transact_def
        simp del: map_map split: option.split)
qed

section \<open>Histories\<close>

datatype ('ref, 'res) removal_call = GetOrCreate "'ref removal_request" | MarkHubCommitted string 'res int

record ('s, 'ref, 'res) removal_store =
  rs_create :: "'ref removal_request \<Rightarrow> ('s, ledger_error, ('ref, 'res) RemovalIntent) op"
  rs_mark :: "string \<Rightarrow> 'res \<Rightarrow> int \<Rightarrow> ('s, ledger_error, ('ref, 'res) RemovalIntent) op"

definition removal_memory :: "('ref, 'res) sdk \<Rightarrow> (('ref, 'res) removal_values, 'ref, 'res) removal_store" where
  "removal_memory S = \<lparr>rs_create = rm_get_or_create S, rs_mark = rm_mark_hub_committed\<rparr>"

definition removal_sqlite :: "('ref, 'res) sdk \<Rightarrow> (removal_row list, 'ref, 'res) removal_store" where
  "removal_sqlite S = \<lparr>rs_create = rs_get_or_create S, rs_mark = rs_mark_hub_committed S\<rparr>"

lemma removal_store_sel [simp]:
  "rs_create (removal_memory S) = rm_get_or_create S" "rs_mark (removal_memory S) = rm_mark_hub_committed"
  "rs_create (removal_sqlite S) = rs_get_or_create S" "rs_mark (removal_sqlite S) = rs_mark_hub_committed S"
  by (simp_all add: removal_memory_def removal_sqlite_def)

fun removal_call_run ::
  "('s, 'ref, 'res) removal_store \<Rightarrow> ('ref, 'res) removal_call \<Rightarrow> ('s, ledger_error, ('ref, 'res) RemovalIntent) op" where
  "removal_call_run R (GetOrCreate q) = rs_create R q"
| "removal_call_run R (MarkHubCommitted k x now) = rs_mark R k x now"

fun removal_run ::
  "('s, 'ref, 'res) removal_store \<Rightarrow> ('ref, 'res) removal_call list \<Rightarrow> 's
    \<Rightarrow> (ledger_error + ('ref, 'res) RemovalIntent) list \<times> 's" where
  "removal_run R [] s = ([], s)"
| "removal_run R (c # cs) s = (case removal_call_run R c s of (r, s1) \<Rightarrow>
     (case removal_run R cs s1 of (rs, s2) \<Rightarrow> (r # rs, s2)))"

fun call_typed :: "('ref, 'res) removal_call \<Rightarrow> bool" where
  "call_typed (GetOrCreate q) = request_typed q"
| "call_typed (MarkHubCommitted _ _ _) = True"

lemma removal_call_agrees:
  assumes "sdk_ok S" and "removals_ok S xs" and "call_typed c"
  shows "\<exists>r ys. removals_ok S ys \<and> removal_call_run (removal_memory S) c (keyed xs) = (r, keyed ys)
    \<and> removal_call_run (removal_sqlite S) c (map (removal_row_of S) xs) = (r, map (removal_row_of S) ys)"
proof (cases c)
  case (GetOrCreate q)
  with assms memory_create [of S q xs] sqlite_create [OF assms(1,2), of q] removal_create_ok [OF assms(2), of q]
  show ?thesis by (intro exI [of _ "fst (removal_create S q xs)"] exI [of _ "snd (removal_create S q xs)"])
    (simp add: apsnd_def map_prod_def case_prod_beta)
next
  case (MarkHubCommitted k x now)
  with assms memory_commit [OF assms(2), of k x now] sqlite_commit [OF assms(1,2), of k x now] removal_commit_ok [OF assms(2), of k x now]
  show ?thesis by (intro exI [of _ "fst (removal_commit k x now xs)"] exI [of _ "snd (removal_commit k x now xs)"])
    (simp add: apsnd_def map_prod_def case_prod_beta)
qed

text \<open>
  Whatever requests and results reach the ledger, in whatever order, the adapter in memory and
  the one over SQLite give the same answers, errors included, and end with the same intents.
\<close>

theorem removal_ledgers_agree:
  assumes "sdk_ok S" and "list_all call_typed cs"
  shows "\<exists>rs xs. removal_run (removal_memory S) cs [] = (rs, keyed xs)
    \<and> removal_run (removal_sqlite S) cs [] = (rs, map (removal_row_of S) xs)"
proof -
  have "\<exists>rs ys. removal_run (removal_memory S) cs (keyed xs) = (rs, keyed ys)
      \<and> removal_run (removal_sqlite S) cs (map (removal_row_of S) xs) = (rs, map (removal_row_of S) ys)"
    if "removals_ok S xs" for xs
    using assms(2) that
  proof (induction cs arbitrary: xs)
    case (Cons c cs)
    then obtain r ys where step: "removals_ok S ys" "removal_call_run (removal_memory S) c (keyed xs) = (r, keyed ys)"
        "removal_call_run (removal_sqlite S) c (map (removal_row_of S) xs) = (r, map (removal_row_of S) ys)"
      using removal_call_agrees [OF assms(1) Cons.prems(2), of c] by auto
    from Cons.IH [OF _ step(1)] Cons.prems(1) step(2,3) show ?case by auto
  qed auto
  from this [of "[]"] show ?thesis by (simp add: removals_ok_def)
qed

section \<open>The contract of the ledger\<close>

text \<open>What of an intent its request fixed.\<close>

definition removal_frozen :: "('ref, 'res) RemovalIntent \<Rightarrow> ('ref, 'res) RemovalIntent" where
  "removal_frozen i = i\<lparr>ri_state := ''accepted'', ri_updated_at := 0, ri_hub_result := None\<rparr>"

definition memory_entry :: "('ref, 'res) removal_values \<Rightarrow> string \<Rightarrow> ('ref, 'res) RemovalIntent option" where
  "memory_entry values = map_of values"

definition sqlite_entry :: "('ref, 'res) sdk \<Rightarrow> removal_row list \<Rightarrow> string \<Rightarrow> ('ref, 'res) RemovalIntent option" where
  "sqlite_entry S rows k = (case find (\<lambda>r. rr_intent_id r = k) rows of None \<Rightarrow> None
     | Some row \<Rightarrow> (case decode_removal S row of Inl _ \<Rightarrow> None | Inr i \<Rightarrow> Some i))"

lemma removal_frozen_simps [simp]:
  "removal_frozen (hub_committed x now i) = removal_frozen i" "same_content q (removal_frozen i) = same_content q i"
  "same_content q (new_intent S q)" "ri_hub_result (new_intent S q) = None"
  by (simp_all add: removal_frozen_def hub_committed_def same_content_def new_intent_def)

lemma removal_frozen_eq_fields:
  assumes "removal_frozen i = removal_frozen j"
  shows "ri_intent_id i = ri_intent_id j" and "ri_device_ref i = ri_device_ref j" and "ri_reason i = ri_reason j"
    and "ri_hub_command_id i = ri_hub_command_id j" and "ri_authorization_context_json i = ri_authorization_context_json j"
  using assms by (cases i; cases j; simp add: removal_frozen_def)+

lemma sqlite_entry_rows:
  assumes "sdk_ok S"
  shows "sqlite_entry S (map (removal_row_of S) xs) = journal_entry ri_intent_id xs"
proof
  fix k
  have "(\<lambda>r. rr_intent_id r = k) \<circ> removal_row_of S = (\<lambda>i. ri_intent_id i = k)"
    by (simp add: fun_eq_iff removal_row_of_def)
  then show "sqlite_entry S (map (removal_row_of S) xs) k = journal_entry ri_intent_id xs k"
    using assms by (simp add: sqlite_entry_def journal_entry_def find_map split: option.split)
qed

lemma removal_create_bound:
  "context_bound S q \<Longrightarrow> removal_create S q xs = journal_create ri_intent_id (new_intent S q) (same_content q) request_reused xs"
  by (simp add: removal_create_def)

lemmas removal_journal = request_reused_def result_changed_def removal_commit_def

interpretation removal_mem: intent_ledger "rm_get_or_create S" rm_mark_hub_committed memory_entry
  "\<lambda>s. \<exists>xs. s = keyed xs \<and> removals_ok S xs" request_typed "context_bound S" "\<lambda>q. ri_intent_id (new_intent S q)"
  same_content removal_frozen ri_hub_result
  for S :: "('ref, 'res) sdk"
proof (rule journal_is_ledger)
  fix q :: "'ref removal_request" and xs :: "('ref, 'res) RemovalIntent list" and k now and x :: 'res
  assume ok: "removals_ok S xs"
  show "memory_entry (keyed xs) = journal_entry ri_intent_id xs" by (simp add: fun_eq_iff memory_entry_def keyed_lookup)
  show "distinct (map ri_intent_id xs)" using ok by (simp add: removals_ok_def)
  show "rm_mark_hub_committed k x now (keyed xs) = apsnd keyed (journal_commit ri_intent_id ri_hub_result (hub_committed x now)
      (KeyErr k) (ValueErr ''Hub result changed for an existing RemovalIntent'') k x xs)"
    using memory_commit [OF ok] by (simp add: removal_journal)
  show "removals_ok S (snd (journal_commit ri_intent_id ri_hub_result (hub_committed x now)
      (KeyErr k) (ValueErr ''Hub result changed for an existing RemovalIntent'') k x xs))"
    using removal_commit_ok [OF ok] by (simp add: removal_journal)
  assume q: "request_typed q"
  show "\<exists>e. rm_get_or_create S q (keyed xs) = (Inl e, keyed xs)" if "\<not> context_bound S q"
    using that by (simp add: memory_create removal_create_def)
  assume "context_bound S q"
  then show "rm_get_or_create S q (keyed xs) = apsnd keyed (journal_create ri_intent_id (new_intent S q) (same_content q)
      (ValueErr ''request_id was reused with different removal content'') xs)"
    and "removals_ok S (snd (journal_create ri_intent_id (new_intent S q) (same_content q)
      (ValueErr ''request_id was reused with different removal content'') xs))"
    using memory_create [of S q xs] removal_create_ok [OF ok q] by (simp_all add: removal_create_bound request_reused_def)
qed simp_all

interpretation removal_sql: intent_ledger "rs_get_or_create S" "rs_mark_hub_committed S" "sqlite_entry S"
  "\<lambda>s. \<exists>xs. s = map (removal_row_of S) xs \<and> (sdk_ok S \<and> removals_ok S xs)" request_typed "context_bound S"
  "\<lambda>q. ri_intent_id (new_intent S q)" same_content removal_frozen ri_hub_result
  for S :: "('ref, 'res) sdk"
proof (rule journal_is_ledger)
  fix q :: "'ref removal_request" and xs :: "('ref, 'res) RemovalIntent list" and k now and x :: 'res
  assume "sdk_ok S \<and> removals_ok S xs"
  then have S: "sdk_ok S" and ok: "removals_ok S xs" by blast+
  show "sqlite_entry S (map (removal_row_of S) xs) = journal_entry ri_intent_id xs" by (rule sqlite_entry_rows [OF S])
  show "distinct (map ri_intent_id xs)" using ok by (simp add: removals_ok_def)
  show "rs_mark_hub_committed S k x now (map (removal_row_of S) xs) = apsnd (map (removal_row_of S)) (journal_commit ri_intent_id ri_hub_result
      (hub_committed x now) (KeyErr k) (ValueErr ''Hub result changed for an existing RemovalIntent'') k x xs)"
    using sqlite_commit [OF S ok] by (simp add: removal_journal)
  show "sdk_ok S \<and> removals_ok S (snd (journal_commit ri_intent_id ri_hub_result (hub_committed x now)
      (KeyErr k) (ValueErr ''Hub result changed for an existing RemovalIntent'') k x xs))"
    using S removal_commit_ok [OF ok] by (simp add: removal_journal)
  assume q: "request_typed q"
  show "\<exists>e. rs_get_or_create S q (map (removal_row_of S) xs) = (Inl e, map (removal_row_of S) xs)" if "\<not> context_bound S q"
    using that by (simp add: sqlite_create [OF S ok q] removal_create_def)
  assume "context_bound S q"
  then show "rs_get_or_create S q (map (removal_row_of S) xs) = apsnd (map (removal_row_of S)) (journal_create ri_intent_id
      (new_intent S q) (same_content q) (ValueErr ''request_id was reused with different removal content'') xs)"
    and "sdk_ok S \<and> removals_ok S (snd (journal_create ri_intent_id (new_intent S q) (same_content q)
      (ValueErr ''request_id was reused with different removal content'') xs))"
    using S sqlite_create [OF S ok q] removal_create_ok [OF ok q] by (simp_all add: removal_create_bound request_reused_def)
qed simp_all

abbreviation sqlite_grows :: "('ref, 'res) sdk \<Rightarrow> removal_row list \<Rightarrow> removal_row list \<Rightarrow> bool" where
  "sqlite_grows S \<equiv> removal_sql.grows TYPE('ref) TYPE('res) S"

lemma sqlite_run_grows:
  "list_all call_typed cs \<Longrightarrow> sqlite_grows S s (snd (removal_run (removal_sqlite S) cs s))"
proof (induction cs arbitrary: s)
  case Nil
  then show ?case using removal_sql.grows_preorder(1) [where S = S] by (simp add: reflp_def)
next
  case (Cons c cs)
  let ?s1 = "snd (removal_call_run (removal_sqlite S) c s)"
  have "sqlite_grows S s ?s1"
  proof (cases c)
    case (GetOrCreate q)
    then have "request_typed q" using Cons.prems by simp
    then show ?thesis unfolding GetOrCreate removal_call_run.simps removal_store_sel
      by (rule removal_sql.create_grows [unfolded framed_def, rule_format])
  next
    case (MarkHubCommitted k x now)
    show ?thesis unfolding MarkHubCommitted removal_call_run.simps removal_store_sel
      by (rule removal_sql.commit_grows [unfolded framed_def, rule_format])
  qed
  moreover have "sqlite_grows S ?s1 (snd (removal_run (removal_sqlite S) cs ?s1))" using Cons by simp
  moreover have "snd (removal_run (removal_sqlite S) (c # cs) s) = snd (removal_run (removal_sqlite S) cs ?s1)"
    by (simp add: case_prod_beta)
  ultimately show ?case using transpD [OF removal_sql.grows_preorder(2) [where S = S], of s ?s1] by (simp only:)
qed

lemma sqlite_run_inv:
  assumes "sdk_ok S" and "list_all call_typed cs"
  shows "\<exists>xs. snd (removal_run (removal_sqlite S) cs []) = map (removal_row_of S) xs \<and> (sdk_ok S \<and> removals_ok S xs)"
proof -
  have "\<exists>xs. [] = map (removal_row_of S) xs \<and> (sdk_ok S \<and> removals_ok S xs)"
    using assms(1) by (intro exI [of _ "[]"]) (simp add: removals_ok_def)
  then show ?thesis using sqlite_run_grows [OF assms(2), of S "[]"] unfolding removal_sql.grows_def by blast
qed

text \<open>
  C34. A removal is frozen by the request that first named it. Once the ledger has accepted a
  request, then whatever other requests and results reach it, repeating the request gives back the
  same intent: the same device reference, reason and Hub command id, with the Hub's recorded answer
  if there was one, and the ledger is left as it was.
\<close>

theorem removal_intent_frozen:
  assumes "sdk_ok S" and "list_all call_typed before" and "list_all call_typed after" and "request_typed q"
    and "rs_get_or_create S q (snd (removal_run (removal_sqlite S) before [])) = (Inr i, rows)"
    and "later = snd (removal_run (removal_sqlite S) after rows)"
  shows "\<exists>i'. rs_get_or_create S q later = (Inr i', later) \<and> removal_frozen i' = removal_frozen i
    \<and> (\<forall>x. ri_hub_result i = Some x \<longrightarrow> ri_hub_result i' = Some x)"
proof -
  have "sqlite_grows S rows later" unfolding assms(6) by (rule sqlite_run_grows [OF assms(3)])
  from removal_sql.repeated_request [OF sqlite_run_inv [OF assms(1,2)] assms(4,5) this] show ?thesis by blast
qed

text \<open>An SDK whose texts are the values themselves and whose digest spells its argument in hexadecimal.\<close>

definition hex_spell :: "string \<Rightarrow> string" where
  "hex_spell a = concat (map (\<lambda>c. [hex_char (of_char c div 16), hex_char (of_char c mod 16)]) a)"

definition unary_text :: "int \<Rightarrow> string" where
  "unary_text t = (if t < 0 then CHR ''-'' # replicate (nat (- t)) (CHR ''i'') else replicate (nat t) (CHR ''i''))"

definition unary_parse :: "string \<Rightarrow> int option" where
  "unary_parse s = Some (case s of [] \<Rightarrow> 0 | c # cs \<Rightarrow> if c = CHR ''-'' then - int (length cs) else int (length s))"

definition sample_sdk :: "(string, string) sdk" where
  "sample_sdk = \<lparr>ref_owner_domain_id = (\<lambda>_. ''owner-1''), ref_device_instance_id = (\<lambda>r. r),
     ref_owner_domain_generation = (\<lambda>_. 1), ref_claim_generation = (\<lambda>_. 1), ref_trust_epoch = (\<lambda>_. 1),
     ref_dump_json = (\<lambda>r. r), ref_load_json = Some, res_event_id = Some, res_command_id = (\<lambda>r. r), res_outcome = (\<lambda>_. ''committed''),
     res_dump_json = (\<lambda>r. r), res_load_json = Some, dt_text = unary_text, dt_parse = unary_parse,
     sha256_hex = (\<lambda>s. s), uuid5_hex = (\<lambda>_. hex_spell)\<rparr>"

lemma hex_spell_inj: "hex_spell a = hex_spell b \<Longrightarrow> a = b"
proof (induction a arbitrary: b)
  case Nil
  then show ?case by (cases b) (auto simp: hex_spell_def)
next
  case (Cons c a)
  then obtain d b' where b: "b = d # b'" by (cases b) (auto simp: hex_spell_def)
  with Cons.prems have eq: "hex_char (of_char c div 16) = hex_char (of_char d div 16)" "hex_char (of_char c mod 16) = hex_char (of_char d mod 16)"
      "hex_spell a = hex_spell b'" by (auto simp: hex_spell_def)
  have range: "x div 16 < 16 \<and> x mod 16 < 16" if "x < 256" for x :: nat using that by (simp add: less_mult_imp_div_less)
  have char: "of_char e < (256 :: nat)" for e by (rule nat_of_char_less_256)
  have "hex_char m = hex_char n \<Longrightarrow> m = n" if "m < 16" "n < 16" for m n
    using that by (simp add: hex_char_def hex_alphabet_def nth_eq_iff_index_eq)
  then have "of_char c div 16 = (of_char d div 16 :: nat)" "of_char c mod 16 = (of_char d mod 16 :: nat)"
    using eq(1,2) range [OF char] by blast+
  then have "of_char c = (of_char d :: nat)" by (metis div_mult_mod_eq)
  then have "c = d" by simp
  with Cons.IH [OF eq(3)] b show ?case by simp
qed

lemma sample_sdk_ok: "sdk_ok sample_sdk"
proof -
  have "length hex_alphabet = 16" by (simp add: hex_alphabet_def)
  then have "hex_char v \<in> set hex_alphabet" if "v < 16" for v using that by (simp add: hex_char_def)
  moreover have "of_char c div 16 < (16 :: nat)" for c using nat_of_char_less_256 [of c] by (simp add: less_mult_imp_div_less)
  ultimately have "set (hex_spell a) \<subseteq> set hex_alphabet" for a by (auto simp: hex_spell_def)
  moreover have "unary_parse (unary_text t) = Some t" for t
    by (cases "t < 0"; cases "nat t") (auto simp: unary_parse_def unary_text_def)
  ultimately show ?thesis
    using hex_spell_inj by (auto simp: sdk_ok_def sample_sdk_def hex_alphabet_def)
qed

definition sample_removal :: "string removal_request" where
  "sample_removal = \<lparr>rq_ingress_request_id = ''r1'', rq_owner_domain_id = ''owner-1'', rq_device_ref = ''device'',
     rq_actor_controller_id = ''c1'', rq_workload_principal_id = ''eidolon-local-api'', rq_controller_reset_epoch = 2,
     rq_authorization_context_sha256 = ''ctx'', rq_authorization_context_json = ''ctx'', rq_reason = ''owner-removed'', rq_now = 5\<rparr>"

lemma removal_intent_frozen_witness:
  "\<exists>i'. rs_get_or_create sample_sdk sample_removal (map (removal_row_of sample_sdk) [hub_committed ''event'' 6 (new_intent sample_sdk sample_removal)])
      = (Inr i', map (removal_row_of sample_sdk) [hub_committed ''event'' 6 (new_intent sample_sdk sample_removal)])
    \<and> removal_frozen i' = removal_frozen (new_intent sample_sdk sample_removal)"
proof -
  let ?i = "new_intent sample_sdk sample_removal"
  have ok: "removals_ok sample_sdk []" "request_typed sample_removal" "context_bound sample_sdk sample_removal"
    by (simp_all add: removals_ok_def request_typed_def context_bound_def sample_removal_def sample_sdk_def)
  have made: "rs_get_or_create sample_sdk sample_removal [] = (Inr ?i, map (removal_row_of sample_sdk) [?i])"
    using sqlite_create [OF sample_sdk_ok ok(1,2)] ok(3)
    by (simp add: removal_create_bound journal_create_def journal_entry_def)
  have one: "removals_ok sample_sdk [?i]" using new_intent_ok [OF ok(2)] by (simp add: removals_ok_def)
  have "rs_mark_hub_committed sample_sdk (request_id_of sample_sdk sample_removal) ''event'' 6 (map (removal_row_of sample_sdk) [?i])
      = (Inr (hub_committed ''event'' 6 ?i), map (removal_row_of sample_sdk) [hub_committed ''event'' 6 ?i])"
    using sqlite_commit [OF sample_sdk_ok one] by (simp add: removal_commit_def journal_commit_def journal_entry_def)
  then have later: "map (removal_row_of sample_sdk) [hub_committed ''event'' 6 ?i]
      = snd (removal_run (removal_sqlite sample_sdk) [MarkHubCommitted (request_id_of sample_sdk sample_removal) ''event'' 6]
          (map (removal_row_of sample_sdk) [?i]))"
    by simp
  have "rs_get_or_create sample_sdk sample_removal (snd (removal_run (removal_sqlite sample_sdk) [] [])) = (Inr ?i, map (removal_row_of sample_sdk) [?i])"
    using made by simp
  from removal_intent_frozen [OF sample_sdk_ok _ _ ok(2) this later] show ?thesis by auto
qed

end
