(* ===== verification/Removal_Workflow.thy ===== *)
theory Removal_Workflow
  imports Removal_Intents Intent_Log Control_Contracts
begin

text \<open>
  The removal of a device, \<open>ControlPlaneService.remove_controller_device\<close> in
  \<open>app/control_plane/service.py\<close>, with the results of \<open>contracts.py\<close>.
  The workflow records an intent, asks the Hub to revoke the claim, records the answer, and observes
  the Kernel and the device.
\<close>

section \<open>Requests and results\<close>

record ControllerDeviceRemovalRequest =
  cd_request_id :: string
  cd_owner_id :: string
  cd_controller_id :: string
  cd_device_id :: string
  cd_reason :: string

text \<open>The SDK's delegation, with the fields the code writes and reads, and the Host's wrapper of it.\<close>

record 'ref OwnerAuthorizationContext =
  oa_workload_principal_id :: string
  oa_actor_principal_id :: string
  oa_actor_principal_type :: string
  oa_audience :: string
  oa_authorized_owner_domain_id :: string
  oa_scopes :: "string list"
  oa_intent_id :: string
  oa_target_device_ref :: 'ref
  oa_issued_at :: int
  oa_expires_at :: int

record 'ref RemovalOwnerAuthorizationContext =
  rc_issuer_workload_principal_id :: string
  rc_presenter_workload_principal_id :: string
  rc_controller_grant_generation :: int
  rc_reset_epoch :: int
  rc_owner_authorization_context :: "'ref OwnerAuthorizationContext"

record RemovalCondition =
  cn_name :: string
  cn_state :: string
  cn_authority :: string
  cn_authority_ref :: "string option"
  cn_observed_at :: int

record ('ref, 'res) DeviceRemovalResult =
  dr_request_id :: string
  dr_intent_id :: string
  dr_device_ref :: 'ref
  dr_outcome :: string
  dr_completed_stage :: string
  dr_recovery :: string
  dr_steps :: "WorkflowStep list"
  dr_hub :: "'res option"
  dr_conditions :: "RemovalCondition list"

record erase_operation =
  eo_operation_id :: string
  eo_state :: string
  eo_terminal_result :: "string option"

text \<open>The model checks the length of a reference.\<close>

definition mk_condition :: "string \<Rightarrow> string \<Rightarrow> string \<Rightarrow> string option \<Rightarrow> int \<Rightarrow> call_error + RemovalCondition" where
  "mk_condition name state authority reference observed_at =
     (if (case reference of None \<Rightarrow> False | Some r \<Rightarrow> 255 < length r) then Inl ValidationErr
      else Inr \<lparr>cn_name = name, cn_state = state, cn_authority = authority, cn_authority_ref = reference,
                cn_observed_at = observed_at\<rparr>)"

section \<open>The service\<close>

text \<open>
  The collaborators of the service. The Hub, the Kernel and the clocks live in a world \<open>'w\<close> of which
  nothing is assumed: each call may change it and may fail, and so may the issuing of a credential
  (\<open>issue_removal_intent\<close>). \<open>sv_sleep\<close> is \<open>asyncio.sleep(0.1)\<close>; times of the monotonic clock are
  microseconds.
\<close>

record ('s, 'w, 'ref, 'res) removal_service =
  sv_hub_credentials :: "(string \<Rightarrow> string \<Rightarrow> 'ref \<Rightarrow> string \<Rightarrow> call_error + string) option"
  sv_removal_intents :: "('s, 'ref, 'res) removal_store"
  sv_revoke :: "'ref \<Rightarrow> string \<Rightarrow> string \<Rightarrow> string \<Rightarrow> string \<Rightarrow> ('w, call_error, 'res) op"
  sv_get_device_control_operation :: "'ref \<Rightarrow> string \<Rightarrow> string \<Rightarrow> ('w, call_error, erase_operation) op"
  sv_list_mounts :: "string \<Rightarrow> ('w, call_error, KernelMount list) op"
  sv_now :: "'w \<Rightarrow> int"
  sv_monotonic :: "'w \<Rightarrow> int"
  sv_sleep :: "'w \<Rightarrow> 'w"
  sv_observation_timeout :: int

definition mount_gone :: "KernelMount option \<Rightarrow> bool" where
  "mount_gone mount \<longleftrightarrow> (case mount of None \<Rightarrow> True | Some m \<Rightarrow> \<not> km_active m)"

fun wait_until ::
  "nat \<Rightarrow> ('s, 'w, 'ref, 'res) removal_service \<Rightarrow> string \<Rightarrow> string \<Rightarrow> int \<Rightarrow> ('w, call_error, KernelMount option) op" where
  "wait_until 0 V owner_id device_id deadline w = (Inl OutOfFuel, w)"
| "wait_until (Suc n) V owner_id device_id deadline w =
     (case owner_mount (sv_list_mounts V) owner_id device_id False w of
        (Inl e, w1) \<Rightarrow> (Inl e, w1)
      | (Inr mount, w1) \<Rightarrow>
          (if mount_gone mount \<or> deadline \<le> sv_monotonic V w1 then (Inr mount, w1)
           else wait_until n V owner_id device_id deadline (sv_sleep V w1)))"

definition wait_for_mount_removal ::
  "nat \<Rightarrow> ('s, 'w, 'ref, 'res) removal_service \<Rightarrow> string \<Rightarrow> string \<Rightarrow> ('w, call_error, KernelMount option) op" where
  "wait_for_mount_removal n V owner_id device_id w =
     wait_until n V owner_id device_id (sv_monotonic V w + sv_observation_timeout V) w"

definition observe_device_erase ::
  "('ref, 'res) sdk \<Rightarrow> ('s, 'w, 'ref, 'res) removal_service \<Rightarrow> ('ref, 'res) RemovalIntent \<Rightarrow> string
    \<Rightarrow> ('w, call_error, string \<times> string option) op" where
  "observe_device_erase S V intent authorization w =
     (case ri_hub_result intent of
        None \<Rightarrow> (Inl AttributeErr, w)
      | Some res \<Rightarrow>
          (case res_event_id S res of
             None \<Rightarrow> (Inr (''unknown'', None), w)
           | Some event_id \<Rightarrow>
               (case sv_get_device_control_operation V (ri_device_ref intent) event_id authorization w of
                  (Inl (Failed _), w1) \<Rightarrow> (Inr (''unknown'', Some event_id), w1)
                | (Inl e, w1) \<Rightarrow> (Inl e, w1)
                | (Inr operation, w1) \<Rightarrow>
                    (Inr (if eo_state operation = ''acknowledged'' \<and> eo_terminal_result operation = Some ''erased''
                          then ''true'' else ''false'', Some (eo_operation_id operation)), w1))))"

definition removal_conditions ::
  "('ref, 'res) sdk \<Rightarrow> ('ref, 'res) RemovalIntent \<Rightarrow> string \<Rightarrow> string \<Rightarrow> string option \<Rightarrow> int
    \<Rightarrow> call_error + RemovalCondition list" where
  "removal_conditions S intent mount_state erase_state erase_ref observed_at =
     (case ri_hub_result intent of
        None \<Rightarrow> Inl AttributeErr
      | Some res \<Rightarrow>
          (case (mk_condition ''platform_access_revoked'' ''true'' ''hub''
                   (Some (case res_event_id S res of
                      None \<Rightarrow> res_command_id S res
                    | Some event_id \<Rightarrow> if event_id = [] then res_command_id S res else event_id)) observed_at,
                 mk_condition ''mount_removed'' mount_state ''kernel'' None observed_at,
                 mk_condition ''device_erase_acknowledged'' erase_state ''device-control'' erase_ref observed_at) of
             (Inr a, Inr b, Inr c) \<Rightarrow> Inr [a, b, c]
           | _ \<Rightarrow> Inl ValidationErr))"

text \<open>What is answered when the revocation was refused; the three conditions are stated directly.\<close>

definition revocation_refused ::
  "string \<Rightarrow> ('ref, 'res) RemovalIntent \<Rightarrow> AuthorityFailure \<Rightarrow> int \<Rightarrow> call_error + ('ref, 'res) DeviceRemovalResult" where
  "revocation_refused request_id intent f observed_at =
     (case to_wire f of
        Inl e \<Rightarrow> Inl e
      | Inr wire \<Rightarrow>
          (case (mk_step ''hub_revocation'' ''failed'' (Some (ri_hub_command_id intent)) (Some wire),
                 mk_condition ''platform_access_revoked'' ''false'' ''hub'' (Some (ri_hub_command_id intent)) observed_at,
                 mk_condition ''mount_removed'' ''unknown'' ''kernel'' None observed_at,
                 mk_condition ''device_erase_acknowledged'' ''unknown'' ''device-control'' None observed_at) of
             (Inr step, Inr a, Inr b, Inr c) \<Rightarrow>
               Inr \<lparr>dr_request_id = request_id, dr_intent_id = ri_intent_id intent, dr_device_ref = ri_device_ref intent,
                 dr_outcome = (if af_retryable f then ''accepted'' else ''blocked''), dr_completed_stage = ''received'',
                 dr_recovery = (if af_retryable f then ''retry-forward-same-request-id'' else ''operator-action-required''),
                 dr_steps = [step], dr_hub = None, dr_conditions = [a, b, c]\<rparr>
           | _ \<Rightarrow> Inl ValidationErr))"

definition claim_revoked ::
  "string \<Rightarrow> ('ref, 'res) RemovalIntent \<Rightarrow> 'res \<Rightarrow> WorkflowStep \<Rightarrow> bool \<Rightarrow> call_error + RemovalCondition list
    \<Rightarrow> call_error + ('ref, 'res) DeviceRemovalResult" where
  "claim_revoked request_id intent hub step converged conditions =
     (case conditions of
        Inl e \<Rightarrow> Inl e
      | Inr cs \<Rightarrow>
          Inr \<lparr>dr_request_id = request_id, dr_intent_id = ri_intent_id intent, dr_device_ref = ri_device_ref intent,
            dr_outcome = (if converged then ''completed'' else ''accepted''),
            dr_completed_stage = (if converged then ''converged'' else ''claim_revoked''),
            dr_recovery = (if converged then ''none'' else ''retry-forward-same-request-id''),
            dr_steps = [step], dr_hub = Some hub, dr_conditions = cs\<rparr>)"

text \<open>From the recorded revocation on: the Kernel is watched, then the device is asked after.\<close>

definition observe_removal ::
  "('ref, 'res) sdk \<Rightarrow> nat \<Rightarrow> ('s, 'w, 'ref, 'res) removal_service \<Rightarrow> ControllerDeviceRemovalRequest
    \<Rightarrow> ('ref, 'res) RemovalIntent \<Rightarrow> 'res \<Rightarrow> string \<Rightarrow> ('w, call_error, ('ref, 'res) DeviceRemovalResult) op" where
  "observe_removal S n V payload intent hub authorization w =
     (case mk_step ''hub_revocation'' (res_outcome S hub) (Some (ri_hub_command_id intent)) None of
        Inl e \<Rightarrow> (Inl e, w)
      | Inr step \<Rightarrow>
          (case wait_for_mount_removal n V (cd_owner_id payload) (cd_device_id payload) w of
             (Inl (Failed _), w1) \<Rightarrow>
               (claim_revoked (cd_request_id payload) intent hub step False
                  (removal_conditions S intent ''unknown'' ''unknown'' None (sv_now V w1)), w1)
           | (Inl e, w1) \<Rightarrow> (Inl e, w1)
           | (Inr mount, w1) \<Rightarrow>
               (case observe_device_erase S V intent authorization w1 of
                  (Inl e, w2) \<Rightarrow> (Inl e, w2)
                | (Inr (erase_state, erase_ref), w2) \<Rightarrow>
                    (claim_revoked (cd_request_id payload) intent hub step (mount_gone mount)
                       (removal_conditions S intent (if mount_gone mount then ''true'' else ''false'') erase_state erase_ref
                          (sv_now V w2)), w2))))"

definition context_text :: "('ref RemovalOwnerAuthorizationContext \<Rightarrow> json) \<Rightarrow> 'ref RemovalOwnerAuthorizationContext \<Rightarrow> string" where
  "context_text dump context = json_dumps False (dump context)"

definition removal_request_of ::
  "('ref, 'res) sdk \<Rightarrow> ('ref RemovalOwnerAuthorizationContext \<Rightarrow> json) \<Rightarrow> ControllerDeviceRemovalRequest \<Rightarrow> string
    \<Rightarrow> 'ref RemovalOwnerAuthorizationContext \<Rightarrow> int \<Rightarrow> 'ref removal_request" where
  "removal_request_of S dump payload workload_principal_id context now =
     (let target = oa_target_device_ref (rc_owner_authorization_context context)
      in \<lparr>rq_ingress_request_id = cd_request_id payload, rq_owner_domain_id = ref_owner_domain_id S target,
          rq_device_ref = target, rq_actor_controller_id = cd_controller_id payload,
          rq_workload_principal_id = workload_principal_id, rq_controller_reset_epoch = rc_reset_epoch context,
          rq_authorization_context_sha256 = sha256_hex S (context_text dump context),
          rq_authorization_context_json = context_text dump context, rq_reason = cd_reason payload, rq_now = now\<rparr>)"

text \<open>From the accepted intent on: the Hub is asked unless its answer is already recorded.\<close>

definition pursue_removal ::
  "('ref, 'res) sdk \<Rightarrow> nat \<Rightarrow> ('s, 'w, 'ref, 'res) removal_service \<Rightarrow> ControllerDeviceRemovalRequest
    \<Rightarrow> ('ref, 'res) RemovalIntent \<Rightarrow> string \<Rightarrow> ('s \<times> 'w, call_error, ('ref, 'res) DeviceRemovalResult) op" where
  "pursue_removal S n V payload intent authorization sw =
     (case sw of (s, w) \<Rightarrow>
      case ri_hub_result intent of
        Some hub \<Rightarrow> (case observe_removal S n V payload intent hub authorization w of (r, w1) \<Rightarrow> (r, (s, w1)))
      | None \<Rightarrow>
          (case sv_revoke V (ri_device_ref intent) (ri_reason intent) (ri_hub_command_id intent)
                  (ri_intent_id intent) authorization w of
             (Inl (Failed f), w1) \<Rightarrow> (revocation_refused (cd_request_id payload) intent f (sv_now V w1), (s, w1))
           | (Inl e, w1) \<Rightarrow> (Inl e, (s, w1))
           | (Inr hub, w1) \<Rightarrow>
               (case rs_mark (sv_removal_intents V) (ri_intent_id intent) hub (sv_now V w1) s of
                  (Inl e, s2) \<Rightarrow> (Inl (Raised e), (s2, w1))
                | (Inr intent', s2) \<Rightarrow>
                    (case observe_removal S n V payload intent' hub authorization w1 of (r, w2) \<Rightarrow> (r, (s2, w2))))))"

definition remove_controller_device ::
  "('ref, 'res) sdk \<Rightarrow> ('ref RemovalOwnerAuthorizationContext \<Rightarrow> json) \<Rightarrow> nat \<Rightarrow> ('s, 'w, 'ref, 'res) removal_service
    \<Rightarrow> ControllerDeviceRemovalRequest \<Rightarrow> string \<Rightarrow> 'ref RemovalOwnerAuthorizationContext
    \<Rightarrow> ('s \<times> 'w, call_error, ('ref, 'res) DeviceRemovalResult) op" where
  "remove_controller_device S dump n V payload workload_principal_id context sw =
     (case sw of (s, w) \<Rightarrow>
      case sv_hub_credentials V of
        None \<Rightarrow> (Inl (Failed (failure ''hub'' ''configuration'' ''Hub Owner credential issuer is unavailable'' 503)), (s, w))
      | Some issue \<Rightarrow>
          (case rs_create (sv_removal_intents V)
                  (removal_request_of S dump payload workload_principal_id context (sv_now V w)) s of
             (Inl (ValueErr detail), s1) \<Rightarrow> (Inl (Failed (failure ''hub'' ''conflict'' detail 409)), (s1, w))
           | (Inl e, s1) \<Rightarrow> (Inl (Raised e), (s1, w))
           | (Inr intent, s1) \<Rightarrow>
               (if ri_intent_id intent \<noteq> oa_intent_id (rc_owner_authorization_context context)
                then (Inl (Failed (failure ''hub'' ''conflict'' ''Removal intent identity changed'' 409)), (s1, w))
                else (case issue (cd_controller_id payload) (ri_intent_id intent) (ri_device_ref intent) (cd_owner_id payload) of
                        Inl e \<Rightarrow> (Inl e, (s1, w))
                      | Inr authorization \<Rightarrow> pursue_removal S n V payload intent authorization (s1, w)))))"

section \<open>Histories of removals\<close>

text \<open>A service whose world also keeps the revocations that were sent, each with whether it was answered.\<close>

record 'ref sent =
  sn_device_ref :: 'ref
  sn_reason :: string
  sn_command_id :: string
  sn_correlation_id :: string

definition sent_for :: "('ref, 'res) RemovalIntent \<Rightarrow> 'ref sent" where
  "sent_for i = \<lparr>sn_device_ref = ri_device_ref i, sn_reason = ri_reason i, sn_command_id = ri_hub_command_id i,
     sn_correlation_id = ri_intent_id i\<rparr>"

definition beside :: "('w, 'e, 'a) op \<Rightarrow> ('w \<times> 'l, 'e, 'a) op" where
  "beside m wl = (case m (fst wl) of (r, w) \<Rightarrow> (r, (w, snd wl)))"

definition recording ::
  "('s, 'w, 'ref, 'res) removal_service \<Rightarrow> ('s, 'w \<times> ('ref sent \<times> bool) list, 'ref, 'res) removal_service" where
  "recording V =
     \<lparr>sv_hub_credentials = sv_hub_credentials V, sv_removal_intents = sv_removal_intents V,
      sv_revoke = (\<lambda>ref reason command_id correlation_id authorization wl.
        case sv_revoke V ref reason command_id correlation_id authorization (fst wl) of
          (r, w) \<Rightarrow> (r, (w, snd wl @ [(\<lparr>sn_device_ref = ref, sn_reason = reason, sn_command_id = command_id,
                                     sn_correlation_id = correlation_id\<rparr>, \<not> isl r)]))),
      sv_get_device_control_operation = (\<lambda>ref event authorization. beside (sv_get_device_control_operation V ref event authorization)),
      sv_list_mounts = (\<lambda>owner. beside (sv_list_mounts V owner)),
      sv_now = (\<lambda>wl. sv_now V (fst wl)), sv_monotonic = (\<lambda>wl. sv_monotonic V (fst wl)),
      sv_sleep = apfst (sv_sleep V), sv_observation_timeout = sv_observation_timeout V\<rparr>"

type_synonym 'ref visit = "ControllerDeviceRemovalRequest \<times> string \<times> 'ref RemovalOwnerAuthorizationContext"

fun removal_visits ::
  "('ref, 'res) sdk \<Rightarrow> ('ref RemovalOwnerAuthorizationContext \<Rightarrow> json) \<Rightarrow> nat \<Rightarrow> ('s, 'w, 'ref, 'res) removal_service
    \<Rightarrow> 'ref visit list \<Rightarrow> 's \<times> 'w \<Rightarrow> 's \<times> 'w" where
  "removal_visits S dump n V [] sw = sw"
| "removal_visits S dump n V ((payload, workload, context) # vs) sw =
     removal_visits S dump n V vs (snd (remove_controller_device S dump n V payload workload context sw))"

text \<open>The bounds the contract puts on a visit: the epoch is not negative and a domain id has no colon.\<close>

definition visit_typed :: "('ref, 'res) sdk \<Rightarrow> 'ref visit \<Rightarrow> bool" where
  "visit_typed S v \<longleftrightarrow> (case v of (payload, workload, context) \<Rightarrow> 0 \<le> rc_reset_epoch context
     \<and> CHR '':'' \<notin> set (ref_owner_domain_id S (oa_target_device_ref (rc_owner_authorization_context context))))"

lemma recording_sel [simp]:
  "sv_hub_credentials (recording V) = sv_hub_credentials V" "sv_removal_intents (recording V) = sv_removal_intents V"
  "sv_now (recording V) (w, l) = sv_now V w" "sv_monotonic (recording V) (w, l) = sv_monotonic V w"
  "sv_sleep (recording V) (w, l) = (sv_sleep V w, l)" "sv_observation_timeout (recording V) = sv_observation_timeout V"
  "sv_list_mounts (recording V) owner (w, l) = beside (sv_list_mounts V owner) (w, l)"
  "sv_get_device_control_operation (recording V) ref event authorization (w, l)
     = beside (sv_get_device_control_operation V ref event authorization) (w, l)"
  by (simp_all add: recording_def)

lemma wait_until_recording:
  "wait_until n (recording V) owner device deadline (w, l) = beside (wait_until n V owner device deadline) (w, l)"
proof (induction n arbitrary: w)
  case (Suc n)
  then show ?case
    by (simp add: owner_mount_def beside_def split: prod.split sum.split)
qed (simp add: beside_def)

lemma observe_removal_recording:
  "observe_removal S n (recording V) payload intent hub authorization (w, l)
    = beside (observe_removal S n V payload intent hub authorization) (w, l)"
proof -
  have erase: "observe_device_erase S (recording V) intent authorization (w, l)
      = beside (observe_device_erase S V intent authorization) (w, l)" for w
    by (auto simp: observe_device_erase_def beside_def split: option.split prod.split sum.split call_error.split)
  show ?thesis
    unfolding observe_removal_def wait_for_mount_removal_def
    by (auto simp: wait_until_recording erase beside_def split: prod.split sum.split call_error.split)
qed

lemma removal_request_typed: "visit_typed S (payload, workload, context) \<Longrightarrow> request_typed (removal_request_of S dump payload workload context now)"
  by (simp add: visit_typed_def request_typed_def removal_request_of_def Let_def)

lemma removal_request_bound: "context_bound S (removal_request_of S dump payload workload context now)"
  by (simp add: context_bound_def removal_request_of_def Let_def)

section \<open>One command per intent\<close>

abbreviation sqlite_ledger :: "('ref, 'res) sdk \<Rightarrow> removal_row list \<Rightarrow> bool" where
  "sqlite_ledger S s \<equiv> \<exists>xs. s = map (removal_row_of S) xs \<and> (sdk_ok S \<and> removals_ok S xs)"

lemma sqlite_entry_id: "sqlite_ledger S s \<Longrightarrow> sqlite_entry S s k = Some i \<Longrightarrow> ri_intent_id i = k"
  by (auto simp: sqlite_entry_rows journal_entry_def dest: find_SomeD)

interpretation removal_log: intent_log "rs_get_or_create S" "rs_mark_hub_committed S" "sqlite_entry S"
  "\<lambda>s. \<exists>xs. s = map (removal_row_of S) xs \<and> (sdk_ok S \<and> removals_ok S xs)" request_typed "context_bound S"
  "\<lambda>q. ri_intent_id (new_intent S q)" same_content removal_frozen ri_hub_result ri_intent_id sent_for sn_correlation_id
  for S :: "('ref, 'res) sdk"
proof
  show "ri_intent_id i = k" if "sqlite_ledger S s" "sqlite_entry S s k = Some i" for s k i using that by (rule sqlite_entry_id)
  show "sent_for i = sent_for j" if "removal_frozen i = removal_frozen j" for i j :: "('ref, 'res) RemovalIntent"
    using removal_frozen_eq_fields [OF that] by (simp add: sent_for_def)
  show "sn_correlation_id (sent_for i) = ri_intent_id i" for i :: "('ref, 'res) RemovalIntent" by (simp add: sent_for_def)
qed

abbreviation revocations_recorded :: "('ref, 'res) sdk \<Rightarrow> removal_row list \<Rightarrow> ('ref sent \<times> bool) list \<Rightarrow> bool" where
  "revocations_recorded S s \<equiv> log_recorded sn_correlation_id sent_for ri_hub_result (sqlite_entry S s)"

lemma remove_effects:
  assumes V: "sv_removal_intents V = removal_sqlite S"
    and create: "rs_get_or_create S (removal_request_of S dump payload workload context (sv_now V w)) s = (r1, s1)"
    and run: "remove_controller_device S dump n (recording V) payload workload context (s, (w, l)) = (r, (s', (w', l')))"
  shows "s' \<in> {s, s1} \<and> l' = l
    \<or> (\<exists>intent. r1 = Inr intent \<and> ri_hub_result intent = None \<and> s' = s1 \<and> l' = l @ [(sent_for intent, False)])
    \<or> (\<exists>intent hub now. r1 = Inr intent \<and> ri_hub_result intent = None
        \<and> s' = snd (rs_mark_hub_committed S (ri_intent_id intent) hub now s1) \<and> l' = l @ [(sent_for intent, True)])"
proof (cases "sv_hub_credentials V")
  case None
  with run show ?thesis by (auto simp: remove_controller_device_def)
next
  case (Some issue)
  show ?thesis
  proof (cases r1)
    case (Inl e)
    with Some run create show ?thesis by (cases e) (auto simp: remove_controller_device_def pursue_removal_def V)
  next
    case (Inr intent)
    show ?thesis
    proof (cases "ri_intent_id intent = oa_intent_id (rc_owner_authorization_context context) \<and> ri_hub_result intent = None
        \<and> (\<exists>auth. issue (cd_controller_id payload) (ri_intent_id intent) (ri_device_ref intent) (cd_owner_id payload) = Inr auth)")
      case False
      with Some Inr run create show ?thesis
        by (auto simp: remove_controller_device_def pursue_removal_def V observe_removal_recording beside_def Let_def
            split: if_splits prod.splits option.splits sum.splits)
    next
      case True
      then obtain auth where auth: "issue (cd_controller_id payload) (ri_intent_id intent) (ri_device_ref intent) (cd_owner_id payload) = Inr auth"
        by blast
      obtain h w1 where hub: "sv_revoke V (ri_device_ref intent) (ri_reason intent) (ri_hub_command_id intent) (ri_intent_id intent) auth w
          = (h, w1)" by fastforce
      then have sent: "sv_revoke (recording V) (ri_device_ref intent) (ri_reason intent) (ri_hub_command_id intent) (ri_intent_id intent) auth (w, l)
          = (h, (w1, l @ [(sent_for intent, \<not> isl h)]))"
        by (simp add: recording_def sent_for_def)
      show ?thesis
      proof (cases h)
        case (Inl e)
        with Some Inr(1) True auth run create sent \<open>r1 = Inr intent\<close> show ?thesis
          by (cases e) (auto simp: remove_controller_device_def pursue_removal_def V Let_def)
      next
        case (Inr hub)
        obtain m s2 where mark: "rs_mark_hub_committed S (ri_intent_id intent) hub (sv_now V w1) s1 = (m, s2)" by fastforce
        with Some Inr True auth run create sent \<open>r1 = Inr intent\<close> have "s' = s2 \<and> l' = l @ [(sent_for intent, True)]"
          by (cases m) (auto simp: remove_controller_device_def pursue_removal_def V Let_def observe_removal_recording beside_def split: prod.splits)
        moreover have "s2 = snd (rs_mark_hub_committed S (ri_intent_id intent) hub (sv_now V w1) s1)" using mark by simp
        ultimately show ?thesis using \<open>r1 = Inr intent\<close> True by blast
      qed
    qed
  qed
qed

lemma remove_keeps_log:
  fixes S :: "('ref, 'res) sdk" and V :: "(removal_row list, 'w, 'ref, 'res) removal_service"
  assumes "visit_typed S (payload, workload, context)" and s: "sqlite_ledger S s"
    and log: "sent_once sn_correlation_id l" "revocations_recorded S s l" and V: "sv_removal_intents V = removal_sqlite S"
    and run: "remove_controller_device S dump n (recording V) payload workload context (s, (w, l)) = (r, (s', (w', l')))"
  shows "sqlite_ledger S s' \<and> sent_once sn_correlation_id l' \<and> revocations_recorded S s' l'"
proof -
  let ?q = "removal_request_of S dump payload workload context (sv_now V w)"
  obtain r1 s1 where create: "rs_get_or_create S ?q s = (r1, s1)" by fastforce
  show ?thesis
    by (rule removal_log.visit_keeps_log [OF s removal_request_typed [OF assms(1)] log create remove_effects [OF V create run]])
qed

text \<open>
  C35. The removal workflow goes forward only. Over any sequence of removal requests, against a Hub
  and a Kernel that may fail at any call, all revocations sent for one intent are the same command
  with the same id for the same device, and none is sent again once one has been answered.
\<close>

theorem revocation_sent_once:
  fixes S :: "('ref, 'res) sdk" and V :: "(removal_row list, 'w, 'ref, 'res) removal_service"
  assumes "sdk_ok S" and "sv_removal_intents V = removal_sqlite S" and "list_all (visit_typed S) visits"
    and "removal_visits S dump n (recording V) visits ([], (w, [])) = (rows, (w', sent))"
    and "i < j" and "j < length sent" and "sn_correlation_id (fst (sent ! i)) = sn_correlation_id (fst (sent ! j))"
  shows "fst (sent ! i) = fst (sent ! j) \<and> \<not> snd (sent ! i)"
proof -
  have "sent_once sn_correlation_id (snd (snd (removal_visits S dump n (recording V) vs (s, (w, l)))))"
    if "list_all (visit_typed S) vs" "sqlite_ledger S s" "sent_once sn_correlation_id l" "revocations_recorded S s l" for vs s w l
    using that
  proof (induction vs arbitrary: s w l)
    case (Cons v vs)
    obtain payload workload "context" where v: "v = (payload, workload, context)" by (cases v)
    obtain r s1 w1 l1 where run: "remove_controller_device S dump n (recording V) payload workload context (s, (w, l)) = (r, (s1, (w1, l1)))"
      by (metis prod.exhaust)
    have typed: "visit_typed S (payload, workload, context)" "list_all (visit_typed S) vs" using Cons.prems(1) v by auto
    from remove_keeps_log [OF typed(1) Cons.prems(2-4) assms(2) run] Cons.IH [OF typed(2), of s1 l1 w1] run v show ?case
      by simp
  qed simp
  moreover have "sqlite_ledger S []" using assms(1) by (simp add: removals_ok_def)
  ultimately have "sent_once sn_correlation_id (snd (snd (removal_visits S dump n (recording V) visits ([], (w, [])))))"
    using assms(3) sent_nothing by blast
  then have "sent_once sn_correlation_id sent" by (simp add: assms(4))
  then show ?thesis using assms(5-7) unfolding sent_once_def by blast
qed

text \<open>A delegation whose text tells when it was issued.\<close>

definition sample_dump :: "'ref RemovalOwnerAuthorizationContext \<Rightarrow> json" where
  "sample_dump c = JStr (unary_text (oa_issued_at (rc_owner_authorization_context c)))"

text \<open>A Hub that is down at the first call and answers the second, and a Kernel without mounts; the world counts calls.\<close>

definition sample_service :: "(removal_row list, nat, string, string) removal_service" where
  "sample_service =
     \<lparr>sv_hub_credentials = Some (\<lambda>_ _ _ _. Inr ''token''), sv_removal_intents = removal_sqlite sample_sdk,
      sv_revoke = (\<lambda>_ _ _ _ _ w. (if w = 0 then Inl (Failed ((failure ''hub'' ''unavailable'' ''down'' 503)\<lparr>af_retryable := True\<rparr>))
        else Inr ''event'', Suc w)),
      sv_get_device_control_operation = (\<lambda>_ _ _ w. (Inl (Failed (failure ''hub'' ''unavailable'' ''down'' 503)), Suc w)),
      sv_list_mounts = (\<lambda>_ w. (Inr [], Suc w)), sv_now = int, sv_monotonic = (\<lambda>w. 100000 * int w), sv_sleep = Suc,
      sv_observation_timeout = 500000\<rparr>"

definition sample_payload :: ControllerDeviceRemovalRequest where
  "sample_payload = \<lparr>cd_request_id = ''r1'', cd_owner_id = ''owner'', cd_controller_id = ''c1'', cd_device_id = ''d1'', cd_reason = ''owner-removed''\<rparr>"

definition sample_context :: "string RemovalOwnerAuthorizationContext" where
  "sample_context =
     \<lparr>rc_issuer_workload_principal_id = ''eidolon-local-api'', rc_presenter_workload_principal_id = ''eidolon-lifecycle-workflow'',
      rc_controller_grant_generation = 2, rc_reset_epoch = 2,
      rc_owner_authorization_context =
        \<lparr>oa_workload_principal_id = ''eidolon-lifecycle-workflow'', oa_actor_principal_id = ''c1'', oa_actor_principal_type = ''controller'',
         oa_audience = ''eidolon-admission'', oa_authorized_owner_domain_id = ''owner-1'', oa_scopes = [''device.read'', ''device.claim.revoke''],
         oa_intent_id = removal_intent_id sample_sdk ''r1'' ''owner-1'', oa_target_device_ref = ''d1'', oa_issued_at = 5, oa_expires_at = 50\<rparr>\<rparr>"

definition sample_visits :: "string visit list" where
  "sample_visits = [(sample_payload, ''eidolon-local-api'', sample_context), (sample_payload, ''eidolon-local-api'', sample_context)]"

definition sample_request :: "int \<Rightarrow> string removal_request" where
  "sample_request now = removal_request_of sample_sdk sample_dump sample_payload ''eidolon-local-api'' sample_context now"

abbreviation sample_intent :: "(string, string) RemovalIntent" where
  "sample_intent \<equiv> new_intent sample_sdk (sample_request 0)"

lemma sample_request_facts:
  "request_typed (sample_request now)" "context_bound sample_sdk (sample_request now)"
  "request_id_of sample_sdk (sample_request now) = oa_intent_id (rc_owner_authorization_context sample_context)"
  "same_content (sample_request now) sample_intent"
proof -
  have domain: "ref_owner_domain_id sample_sdk r = ''owner-1''" for r by (simp add: sample_sdk_def)
  show "request_typed (sample_request now)"
    by (simp add: sample_request_def request_typed_def removal_request_of_def Let_def domain sample_context_def)
  show "context_bound sample_sdk (sample_request now)" unfolding sample_request_def by (rule removal_request_bound)
  show "request_id_of sample_sdk (sample_request now) = oa_intent_id (rc_owner_authorization_context sample_context)"
    by (simp add: sample_request_def request_id_of_def removal_request_of_def Let_def domain sample_context_def sample_payload_def)
  show "same_content (sample_request now) sample_intent"
    by (simp add: sample_request_def same_content_def new_intent_def removal_request_of_def Let_def)
qed

lemma sample_create:
  "rs_get_or_create sample_sdk (sample_request 0) [] = (Inr sample_intent, map (removal_row_of sample_sdk) [sample_intent])"
  "rs_get_or_create sample_sdk (sample_request now) (map (removal_row_of sample_sdk) [sample_intent])
    = (Inr sample_intent, map (removal_row_of sample_sdk) [sample_intent])"
proof -
  have none: "removals_ok sample_sdk []" and one: "removals_ok sample_sdk [sample_intent]"
    using new_intent_ok [OF sample_request_facts(1)] by (simp_all add: removals_ok_def)
  show "rs_get_or_create sample_sdk (sample_request 0) [] = (Inr sample_intent, map (removal_row_of sample_sdk) [sample_intent])"
    using sqlite_create [OF sample_sdk_ok none sample_request_facts(1)]
    by (simp add: removal_create_bound sample_request_facts(2) journal_create_def journal_entry_def)
  show "rs_get_or_create sample_sdk (sample_request now) (map (removal_row_of sample_sdk) [sample_intent])
      = (Inr sample_intent, map (removal_row_of sample_sdk) [sample_intent])"
    using sqlite_create [OF sample_sdk_ok one sample_request_facts(1)]
    by (simp add: removal_create_bound sample_request_facts journal_create_def journal_entry_def)
qed


lemma sample_service_sel:
  "sv_removal_intents sample_service = removal_sqlite sample_sdk" "sv_hub_credentials sample_service = Some (\<lambda>_ _ _ _. Inr ''token'')"
  "sv_now sample_service = int"
  by (simp_all add: sample_service_def)

lemma sample_revoke:
  "sv_revoke (recording sample_service) (ri_device_ref i) (ri_reason i) (ri_hub_command_id i) (ri_intent_id i) authorization (w, l)
    = (if w = 0 then Inl (Failed ((failure ''hub'' ''unavailable'' ''down'' 503)\<lparr>af_retryable := True\<rparr>)) else Inr ''event'',
       (Suc w, l @ [(sent_for i, w \<noteq> 0)]))"
  by (simp add: recording_def sample_service_def sent_for_def)

lemma sample_sent:
  "snd (snd (removal_visits sample_sdk sample_dump 9 (recording sample_service) sample_visits ([], (0, []))))
    = [(sent_for sample_intent, False), (sent_for sample_intent, True)]"
proof -
  let ?remove = "remove_controller_device sample_sdk sample_dump 9 (recording sample_service) sample_payload ''eidolon-local-api'' sample_context"
  let ?one = "map (removal_row_of sample_sdk) [sample_intent]"
  have first: "snd (?remove ([], (0, []))) = (?one, (1, [(sent_for sample_intent, False)]))"
    using sample_create(1) sample_request_facts(3) [of 0] sample_revoke [of sample_intent "''token''" 0 "[]"]
    by (simp add: remove_controller_device_def pursue_removal_def sample_service_sel sample_request_def Let_def)
  obtain r rows w l where second: "?remove (?one, (1, [(sent_for sample_intent, False)])) = (r, (rows, (w, l)))" by (metis prod.exhaust)
  have q: "rs_get_or_create sample_sdk (removal_request_of sample_sdk sample_dump sample_payload ''eidolon-local-api'' sample_context
      (sv_now sample_service 1)) ?one = (Inr sample_intent, ?one)"
    using sample_create(2) [of 1] by (simp add: sample_request_def sample_service_sel)
  have "l = [(sent_for sample_intent, False), (sent_for sample_intent, True)]"
    using second q sample_request_facts(3) [of 0] sample_revoke [of sample_intent "''token''" 1 "[(sent_for sample_intent, False)]"]
    by (auto simp: remove_controller_device_def pursue_removal_def sample_service_sel Let_def observe_removal_recording beside_def
        split: prod.splits sum.splits)
  with first second show ?thesis by (simp add: sample_visits_def)
qed

lemma revocation_sent_once_witness:
  "fst ([(sent_for sample_intent, False), (sent_for sample_intent, True)] ! 0)
      = fst ([(sent_for sample_intent, False), (sent_for sample_intent, True)] ! 1)
    \<and> \<not> snd ([(sent_for sample_intent, False), (sent_for sample_intent, True)] ! 0)"
proof -
  obtain rows w sent where run: "removal_visits sample_sdk sample_dump 9 (recording sample_service) sample_visits ([], (0, []))
      = (rows, (w, sent))" by (metis prod.exhaust)
  with sample_sent have sent: "sent = [(sent_for sample_intent, False), (sent_for sample_intent, True)]" by simp
  have "list_all (visit_typed sample_sdk) sample_visits"
    by (simp add: sample_visits_def visit_typed_def sample_context_def sample_sdk_def)
  from revocation_sent_once [OF sample_sdk_ok sample_service_sel(1) this run, of 0 1] show ?thesis
    unfolding sent by simp
qed

section \<open>What a removal answers\<close>




text \<open>A service whose world also keeps every look at the Kernel: for which Owner, and the mounts it answered, if it did.\<close>

type_synonym look = "string \<times> KernelMount list option"

definition looking :: "('s, 'w, 'ref, 'res) removal_service \<Rightarrow> ('s, 'w \<times> look list, 'ref, 'res) removal_service" where
  "looking V =
     \<lparr>sv_hub_credentials = sv_hub_credentials V, sv_removal_intents = sv_removal_intents V,
      sv_revoke = (\<lambda>ref reason command_id correlation_id authorization. beside (sv_revoke V ref reason command_id correlation_id authorization)),
      sv_get_device_control_operation = (\<lambda>ref event authorization. beside (sv_get_device_control_operation V ref event authorization)),
      sv_list_mounts = (\<lambda>owner wl. case sv_list_mounts V owner (fst wl) of
        (r, w) \<Rightarrow> (r, (w, snd wl @ [(owner, case r of Inl _ \<Rightarrow> None | Inr mounts \<Rightarrow> Some mounts)]))),
      sv_now = (\<lambda>wl. sv_now V (fst wl)), sv_monotonic = (\<lambda>wl. sv_monotonic V (fst wl)),
      sv_sleep = apfst (sv_sleep V), sv_observation_timeout = sv_observation_timeout V\<rparr>"

lemma looking_sel [simp]:
  "sv_hub_credentials (looking V) = sv_hub_credentials V" "sv_removal_intents (looking V) = sv_removal_intents V"
  "sv_now (looking V) (w, l) = sv_now V w" "sv_monotonic (looking V) (w, l) = sv_monotonic V w"
  "sv_sleep (looking V) (w, l) = (sv_sleep V w, l)" "sv_observation_timeout (looking V) = sv_observation_timeout V"
  "sv_revoke (looking V) ref reason command correlation authorization (w, l) = beside (sv_revoke V ref reason command correlation authorization) (w, l)"
  "sv_get_device_control_operation (looking V) ref event authorization (w, l)
     = beside (sv_get_device_control_operation V ref event authorization) (w, l)"
  "sv_list_mounts (looking V) owner (w, l) = (case sv_list_mounts V owner w of
     (r, w1) \<Rightarrow> (r, (w1, l @ [(owner, case r of Inl _ \<Rightarrow> None | Inr mounts \<Rightarrow> Some mounts)])))"
  by (simp_all add: looking_def)











lemma pursue_grows:
  assumes "sv_removal_intents V = removal_sqlite S" and "pursue_removal S n V payload i authorization (s, w) = (r, (rows, w'))"
  shows "sqlite_grows S s rows"
proof -
  have same: "sqlite_grows S s s" using removal_sql.grows_preorder(1) [where S = S] by (simp add: reflp_def)
  have marked: "sqlite_grows S s (snd (rs_mark_hub_committed S k hub now s))" for k hub now
    by (rule removal_log.commit_grows_to)
  show ?thesis
  proof (cases "ri_hub_result i")
    case (Some hub)
    with assms(2) same show ?thesis by (simp add: pursue_removal_def split: prod.splits)
  next
    case None
    obtain h w1 where h: "sv_revoke V (ri_device_ref i) (ri_reason i) (ri_hub_command_id i) (ri_intent_id i) authorization w = (h, w1)"
      by fastforce
    show ?thesis
    proof (cases h)
      case (Inl e)
      with None h assms(2) same show ?thesis by (cases e) (simp_all add: pursue_removal_def)
    next
      case (Inr hub)
      obtain m s2 where mark: "rs_mark_hub_committed S (ri_intent_id i) hub (sv_now V w1) s = (m, s2)" by fastforce
      with None h Inr assms have "rows = s2" by (cases m) (simp_all add: pursue_removal_def split: prod.splits)
      with marked [of "ri_intent_id i" hub "sv_now V w1"] mark show ?thesis by simp
    qed
  qed
qed

lemma remove_answered:
  assumes "sv_removal_intents V = removal_sqlite S"
    and "remove_controller_device S dump n V payload workload context (s, w) = (Inr d, (rows, w'))"
  shows "\<exists>i s1 authorization. rs_get_or_create S (removal_request_of S dump payload workload context (sv_now V w)) s = (Inr i, s1)
    \<and> ri_intent_id i = oa_intent_id (rc_owner_authorization_context context)
    \<and> pursue_removal S n V payload i authorization (s1, w) = (Inr d, (rows, w'))"
  using assms by (auto simp: remove_controller_device_def split: option.splits prod.splits sum.splits ledger_error.splits if_splits)






end
