(* ===== verification/Lifecycle.thy ===== *)
theory Lifecycle
  imports Removal_Workflow "HOL-Library.Word"
begin

text \<open>
  The way a removal takes from the Local API to the service: \<open>local_api/device_admissions.py\<close> issues a
  delegation and sends it over a Unix socket (\<open>lifecycle_workflow/protocol.py\<close>); the daemon
  (\<open>daemon.py\<close>) takes the identity of its peer from the kernel (\<open>peercred.py\<close>), checks the delegation and
  calls the service.
\<close>

section \<open>The peer\<close>

record UnixPeerCredential =
  pc_pid :: int
  pc_uid :: int
  pc_gid :: int

record AuthenticatedWorkload =
  aw_principal_id :: string
  aw_credential :: UnixPeerCredential

datatype peer_error = OsErr | RuntimeErr string | PermissionErr string

text \<open>\<open>struct.Struct("3i")\<close> on the bytes of the socket option, in the little-endian order of the platform.\<close>

definition le_int :: "8 word list \<Rightarrow> int" where
  "le_int bs = (let n = foldr (\<lambda>b acc. acc * 256 + uint b) bs 0 in if n < 2 ^ 31 then n else n - 2 ^ 32)"

definition linux_read :: "8 word list option \<Rightarrow> peer_error + UnixPeerCredential" where
  "linux_read raw =
     (case raw of
        None \<Rightarrow> Inl (RuntimeErr ''Linux SO_PEERCRED is unavailable'')
      | Some bs \<Rightarrow>
          (if length bs \<noteq> 12 then Inl (RuntimeErr ''Linux SO_PEERCRED returned an invalid value'')
           else (let pid = le_int (take 4 bs); uid = le_int (take 4 (drop 4 bs)); gid = le_int (drop 8 bs)
                 in if pid \<le> 0 \<or> uid < 0 \<or> gid < 0
                    then Inl (RuntimeErr ''Linux SO_PEERCRED returned invalid credentials'')
                    else Inr \<lparr>pc_pid = pid, pc_uid = uid, pc_gid = gid\<rparr>)))"

definition authorize :: "int \<Rightarrow> string \<Rightarrow> UnixPeerCredential \<Rightarrow> peer_error + AuthenticatedWorkload" where
  "authorize expected_uid principal_id credential =
     (if pc_uid credential \<noteq> expected_uid then Inl (PermissionErr ''Unix peer UID is not authorized'')
      else Inr \<lparr>aw_principal_id = principal_id, aw_credential = credential\<rparr>)"

section \<open>Frames\<close>

text \<open>A frame is the length of its body in four bytes, the greatest first, and the body.\<close>

datatype frame_error = IncompleteRead | FrameValueErr string

definition MAX_FRAME_BYTES :: nat where
  "MAX_FRAME_BYTES = 256 * 1024"

definition be32 :: "nat \<Rightarrow> 8 word list" where
  "be32 n = [of_nat (n div 2 ^ 24), of_nat (n div 2 ^ 16), of_nat (n div 2 ^ 8), of_nat n]"

definition from_be32 :: "8 word list \<Rightarrow> nat" where
  "from_be32 bs = foldl (\<lambda>acc b. acc * 256 + unat b) 0 bs"

definition encode_frame :: "8 word list \<Rightarrow> frame_error + 8 word list" where
  "encode_frame body =
     (if body = [] \<or> MAX_FRAME_BYTES < length body then Inl (FrameValueErr ''workflow frame size is invalid'')
      else Inr (be32 (length body) @ body))"

text \<open>\<open>loads\<close> reads a JSON object from bytes; a text that is no JSON and a value that is no object are told apart.\<close>

datatype 'doc loaded = NotJson | NotObject | Document 'doc

definition read_frame :: "(8 word list \<Rightarrow> 'doc loaded) \<Rightarrow> 8 word list \<Rightarrow> frame_error + 'doc" where
  "read_frame loads stream =
     (if length stream < 4 then Inl IncompleteRead
      else (let size = from_be32 (take 4 stream)
            in if \<not> (0 < size \<and> size \<le> MAX_FRAME_BYTES) then Inl (FrameValueErr ''workflow frame size is invalid'')
               else if length (drop 4 stream) < size then Inl IncompleteRead
               else (case loads (take size (drop 4 stream)) of
                       NotJson \<Rightarrow> Inl (FrameValueErr ''workflow frame is not valid JSON'')
                     | NotObject \<Rightarrow> Inl (FrameValueErr ''workflow frame must contain an object'')
                     | Document d \<Rightarrow> Inr d)))"

lemma be32_inverse:
  assumes "n < 2 ^ 32"
  shows "from_be32 (be32 n) = n"
proof -
  have n: "n div 2 ^ 16 = n div 256 div 256" "n div 2 ^ 24 = n div 256 div 256 div 256"
    by (simp_all add: div_mult2_eq [symmetric])
  have top: "n div 256 div 256 div 256 mod 256 = n div 256 div 256 div 256" using assms by simp
  have horner: "m div 256 * 256 + m mod 256 = m" for m :: nat by simp
  have "from_be32 (be32 n) = ((n div 2 ^ 24 mod 256 * 256 + n div 2 ^ 16 mod 256) * 256 + n div 2 ^ 8 mod 256) * 256 + n mod 256"
    by (simp add: from_be32_def be32_def unat_of_nat take_bit_eq_mod)
  also have "\<dots> = n" unfolding n top horner by (simp add: horner)
  finally show ?thesis .
qed

lemma read_encoded_frame:
  assumes "encode_frame body = Inr bytes"
  shows "read_frame loads (bytes @ rest) = (case loads body of
      NotJson \<Rightarrow> Inl (FrameValueErr ''workflow frame is not valid JSON'')
    | NotObject \<Rightarrow> Inl (FrameValueErr ''workflow frame must contain an object'') | Document d \<Rightarrow> Inr d)"
proof -
  have body: "body \<noteq> []" "length body \<le> MAX_FRAME_BYTES" "bytes = be32 (length body) @ body"
    using assms by (auto simp: encode_frame_def split: if_splits)
  then have "from_be32 (be32 (length body)) = length body" by (intro be32_inverse) (simp add: MAX_FRAME_BYTES_def)
  moreover have "length (be32 (length body)) = 4" by (simp add: be32_def)
  ultimately show ?thesis using body by (simp add: read_frame_def)
qed

section \<open>The daemon\<close>

record 'ref LifecycleRemovalCall =
  lc_payload :: ControllerDeviceRemovalRequest
  lc_authorization_context :: "'ref RemovalOwnerAuthorizationContext"

record LifecycleWorkflowProblem =
  lp_code :: string
  lp_detail :: string
  lp_status_code :: int

text \<open>A reply has exactly one of a result and a problem.\<close>

datatype ('ref, 'res) LifecycleWorkflowReply = Result "('ref, 'res) DeviceRemovalResult" | Problem LifecycleWorkflowProblem

text \<open>
  \<open>_reply_problem\<close>: the model of a problem bounds its detail and its status, and what it rejects is
  suppressed, so that the connection closes without an answer.
\<close>

definition reply_problem :: "string \<Rightarrow> string \<Rightarrow> int \<Rightarrow> ('ref, 'res) LifecycleWorkflowReply option" where
  "reply_problem code detail status_code =
     (if detail = [] \<or> 512 < length detail \<or> status_code < 400 \<or> 599 < status_code then None
      else Some (Problem \<lparr>lp_code = code, lp_detail = detail, lp_status_code = status_code\<rparr>))"

text \<open>The comparison of a delegation with its request and with the workload that presents it.\<close>

definition delegation_mismatch :: "('ref, 'res) sdk \<Rightarrow> string \<Rightarrow> 'ref LifecycleRemovalCall \<Rightarrow> bool" where
  "delegation_mismatch S principal_id call =
     (let context = lc_authorization_context call; owner = rc_owner_authorization_context context; payload = lc_payload call
      in rc_issuer_workload_principal_id context \<noteq> principal_id
         \<or> rc_presenter_workload_principal_id context \<noteq> ''eidolon-lifecycle-workflow''
         \<or> oa_workload_principal_id owner \<noteq> rc_presenter_workload_principal_id context
         \<or> oa_audience owner \<noteq> ''eidolon-admission''
         \<or> set (oa_scopes owner) \<noteq> {''device.read'', ''device.claim.revoke''}
         \<or> oa_actor_principal_id owner \<noteq> cd_controller_id payload
         \<or> oa_actor_principal_type owner \<noteq> ''controller''
         \<or> ref_device_instance_id S (oa_target_device_ref owner) \<noteq> cd_device_id payload
         \<or> oa_intent_id owner \<noteq> removal_intent_id S (cd_request_id payload) (oa_authorized_owner_domain_id owner)
         \<or> rc_controller_grant_generation context \<noteq> rc_reset_epoch context)"

text \<open>
  What an \<open>except\<close> clause for \<open>OSError\<close>, \<open>RuntimeError\<close> or \<open>ValueError\<close> catches, by the name of the
  exception: the class and those the standard library derives from it. In the Python the code
  requires, \<open>asyncio.TimeoutError\<close> is \<open>TimeoutError\<close>, an \<open>OSError\<close>.
\<close>

definition os_errors :: "string list" where
  "os_errors = [''OSError'', ''PermissionError'', ''TimeoutError'', ''BlockingIOError'', ''ChildProcessError'', ''ConnectionError'',
     ''BrokenPipeError'', ''ConnectionAbortedError'', ''ConnectionRefusedError'', ''ConnectionResetError'', ''FileExistsError'',
     ''FileNotFoundError'', ''InterruptedError'', ''IsADirectoryError'', ''NotADirectoryError'', ''ProcessLookupError'', ''SSLError'']"

definition runtime_errors :: "string list" where
  "runtime_errors = [''RuntimeError'', ''NotImplementedError'', ''RecursionError'']"

definition value_errors :: "string list" where
  "value_errors = [''ValueError'', ''UnicodeError'', ''UnicodeDecodeError'', ''UnicodeEncodeError'', ''JSONDecodeError'']"

text \<open>What the handlers at the end of \<open>_handle_connection\<close> make of an error of the service.\<close>

definition problem_of :: "call_error \<Rightarrow> ('ref, 'res) LifecycleWorkflowReply option" where
  "problem_of e =
     (case e of
        Failed f \<Rightarrow> reply_problem ''WORKFLOW_FAILURE'' (af_detail f) (af_status_code f)
      | Raised (ValueErr _) \<Rightarrow> reply_problem ''INVALID_REQUEST'' ''Lifecycle Workflow request is invalid'' 422
      | ValidationErr \<Rightarrow> reply_problem ''INVALID_REQUEST'' ''Lifecycle Workflow request is invalid'' 422
      | OtherErr name \<Rightarrow>
          (if name = ''PermissionError'' then reply_problem ''AUTHZ_DENIED'' ''Removal delegation is not authorized'' 403
           else if name \<in> set value_errors \<or> name = ''IncompleteReadError'' \<or> name = ''TimeoutError''
           then reply_problem ''INVALID_REQUEST'' ''Lifecycle Workflow request is invalid'' 422
           else reply_problem ''WORKFLOW_UNAVAILABLE'' ''Lifecycle Workflow is unavailable'' 503)
      | _ \<Rightarrow> reply_problem ''WORKFLOW_UNAVAILABLE'' ''Lifecycle Workflow is unavailable'' 503)"

lemma problem_not_result:
  "reply_problem code detail status \<noteq> Some (Result d)" "problem_of e \<noteq> Some (Result d)"
proof -
  show problem: "reply_problem code detail status \<noteq> Some (Result d)" for code detail status by (simp add: reply_problem_def)
  show "problem_of e \<noteq> Some (Result d)" by (cases e) (simp_all add: problem_of_def problem split: ledger_error.split)
qed

text \<open>
  \<open>loads\<close>, \<open>validate\<close> and \<open>reply_bytes\<close> are JSON and the models of the wire; \<open>stream\<close> is what the peer
  sent within the time allowed, \<open>None\<close> when it did not finish a frame in time.
\<close>

record ('doc, 'ref, 'res) wire =
  wr_loads :: "8 word list \<Rightarrow> 'doc loaded"
  wr_validate_call :: "'doc \<Rightarrow> 'ref LifecycleRemovalCall option"
  wr_call_bytes :: "'ref LifecycleRemovalCall \<Rightarrow> 8 word list"
  wr_validate_reply :: "'doc \<Rightarrow> ('ref, 'res) LifecycleWorkflowReply option"
  wr_reply_bytes :: "('ref, 'res) LifecycleWorkflowReply \<Rightarrow> 8 word list"

definition handle_call ::
  "('ref, 'res) sdk \<Rightarrow> ('doc, 'ref, 'res) wire \<Rightarrow> (ControllerDeviceRemovalRequest \<Rightarrow> string \<Rightarrow> 'ref RemovalOwnerAuthorizationContext
      \<Rightarrow> ('s, call_error, ('ref, 'res) DeviceRemovalResult) op)
    \<Rightarrow> AuthenticatedWorkload \<Rightarrow> int \<Rightarrow> 'ref LifecycleRemovalCall \<Rightarrow> 's \<Rightarrow> ('ref, 'res) LifecycleWorkflowReply option \<times> 's" where
  "handle_call S W remove workload now call s =
     (if oa_expires_at (rc_owner_authorization_context (lc_authorization_context call)) \<le> now
         \<or> aw_principal_id workload \<noteq> ''eidolon-local-api'' \<or> delegation_mismatch S (aw_principal_id workload) call
      then (reply_problem ''AUTHZ_DENIED'' ''Removal delegation is not authorized'' 403, s)
      else (case remove (lc_payload call) (aw_principal_id workload) (lc_authorization_context call) s of
              (Inl e, s1) \<Rightarrow> (problem_of e, s1)
            | (Inr d, s1) \<Rightarrow>
                (case encode_frame (wr_reply_bytes W (Result d)) of
                   Inl _ \<Rightarrow> (reply_problem ''INVALID_REQUEST'' ''Lifecycle Workflow request is invalid'' 422, s1)
                 | Inr _ \<Rightarrow> (Some (Result d), s1))))"

definition handle_connection ::
  "('ref, 'res) sdk \<Rightarrow> ('doc, 'ref, 'res) wire \<Rightarrow> (ControllerDeviceRemovalRequest \<Rightarrow> string \<Rightarrow> 'ref RemovalOwnerAuthorizationContext
      \<Rightarrow> ('s, call_error, ('ref, 'res) DeviceRemovalResult) op)
    \<Rightarrow> int \<Rightarrow> peer_error + UnixPeerCredential \<Rightarrow> 8 word list option \<Rightarrow> int \<Rightarrow> 's
    \<Rightarrow> ('ref, 'res) LifecycleWorkflowReply option \<times> 's" where
  "handle_connection S W remove allowed_local_api_uid peer stream now s =
     (case peer of
        Inl _ \<Rightarrow> (reply_problem ''AUTHN_INVALID'' ''Local workload authentication failed'' 401, s)
      | Inr credential \<Rightarrow>
          (case authorize allowed_local_api_uid ''eidolon-local-api'' credential of
             Inl _ \<Rightarrow> (reply_problem ''AUTHN_INVALID'' ''Local workload authentication failed'' 401, s)
           | Inr workload \<Rightarrow>
               (case stream of
                  None \<Rightarrow> (reply_problem ''INVALID_REQUEST'' ''Lifecycle Workflow request is invalid'' 422, s)
                | Some bytes \<Rightarrow>
                    (case read_frame (wr_loads W) bytes of
                       Inl _ \<Rightarrow> (reply_problem ''INVALID_REQUEST'' ''Lifecycle Workflow request is invalid'' 422, s)
                     | Inr document \<Rightarrow>
                         (case wr_validate_call W document of
                            None \<Rightarrow> (reply_problem ''INVALID_REQUEST'' ''Lifecycle Workflow request is invalid'' 422, s)
                          | Some call \<Rightarrow> handle_call S W remove workload now call s)))))"

text \<open>
  C37. The daemon calls the service only for a delegation it may act on: if anything changes or a
  result is answered, the kernel named the allowed uid, the peer sent a call whose delegation has not
  expired, names the Controller and the device of the request, carries the id that the request and
  the Owner Domain determine, and has just the scopes of a removal; and the change is the service's
  own on that call.
\<close>

theorem service_called_only_when_delegated:
  fixes S :: "('ref, 'res) sdk" and W :: "('doc, 'ref, 'res) wire"
  assumes "handle_connection S W remove uid peer stream now s = (reply, s')" and "s' \<noteq> s \<or> (\<exists>d. reply = Some (Result d))"
  shows "\<exists>credential bytes document call. peer = Inr credential \<and> pc_uid credential = uid \<and> stream = Some bytes
    \<and> read_frame (wr_loads W) bytes = Inr document \<and> wr_validate_call W document = Some call
    \<and> now < oa_expires_at (rc_owner_authorization_context (lc_authorization_context call))
    \<and> oa_actor_principal_id (rc_owner_authorization_context (lc_authorization_context call)) = cd_controller_id (lc_payload call)
    \<and> ref_device_instance_id S (oa_target_device_ref (rc_owner_authorization_context (lc_authorization_context call))) = cd_device_id (lc_payload call)
    \<and> oa_intent_id (rc_owner_authorization_context (lc_authorization_context call))
      = removal_intent_id S (cd_request_id (lc_payload call)) (oa_authorized_owner_domain_id (rc_owner_authorization_context (lc_authorization_context call)))
    \<and> set (oa_scopes (rc_owner_authorization_context (lc_authorization_context call))) = {''device.read'', ''device.claim.revoke''}
    \<and> s' = snd (remove (lc_payload call) ''eidolon-local-api'' (lc_authorization_context call) s)
    \<and> (\<forall>d. reply = Some (Result d) \<longrightarrow> fst (remove (lc_payload call) ''eidolon-local-api'' (lc_authorization_context call) s) = Inr d)"
proof -
  have no_result: "reply_problem code detail status \<noteq> Some (Result d)" "problem_of e \<noteq> Some (Result d)"
    for code detail status e and d :: "('ref, 'res) DeviceRemovalResult"
    by (rule problem_not_result)+
  obtain credential where peer: "peer = Inr credential" using assms no_result(1)
    by (cases peer) (auto simp: handle_connection_def)
  obtain workload where w: "authorize uid ''eidolon-local-api'' credential = Inr workload" using assms no_result(1)
    by (cases "authorize uid ''eidolon-local-api'' credential") (auto simp: handle_connection_def peer)
  obtain bytes where b: "stream = Some bytes" using assms no_result(1) by (cases stream) (auto simp: handle_connection_def peer w)
  obtain document where d: "read_frame (wr_loads W) bytes = Inr document" using assms no_result(1)
    by (cases "read_frame (wr_loads W) bytes") (auto simp: handle_connection_def peer w b)
  obtain call where c: "wr_validate_call W document = Some call" using assms no_result(1)
    by (cases "wr_validate_call W document") (auto simp: handle_connection_def peer w b d)
  have run: "handle_call S W remove workload now call s = (reply, s')" using assms(1) by (simp add: handle_connection_def peer w b d c)
  have uid: "pc_uid credential = uid" "aw_principal_id workload = ''eidolon-local-api''" using w by (auto simp: authorize_def split: if_splits)
  have ok: "now < oa_expires_at (rc_owner_authorization_context (lc_authorization_context call))" "\<not> delegation_mismatch S ''eidolon-local-api'' call"
    using run assms(2) no_result(1) uid(2) by (auto simp: handle_call_def split: if_splits)
  then have "s' = snd (remove (lc_payload call) ''eidolon-local-api'' (lc_authorization_context call) s)
      \<and> (\<forall>d. reply = Some (Result d) \<longrightarrow> fst (remove (lc_payload call) ''eidolon-local-api'' (lc_authorization_context call) s) = Inr d)"
    using run uid(2) no_result by (auto simp: handle_call_def split: prod.splits sum.splits)
  with peer uid(1) b d c ok show ?thesis
    by (intro exI [of _ credential] exI [of _ bytes] exI [of _ document] exI [of _ call]) (auto simp: delegation_mismatch_def Let_def)
qed

text \<open>A wire whose single document is its call.\<close>

definition sample_wire :: "'ref LifecycleRemovalCall \<Rightarrow> (unit, 'ref, 'res) wire" where
  "sample_wire call =
     \<lparr>wr_loads = (\<lambda>_. Document ()), wr_validate_call = (\<lambda>_. Some call), wr_call_bytes = (\<lambda>_. [1]),
      wr_validate_reply = (\<lambda>_. None), wr_reply_bytes = (\<lambda>_. [1])\<rparr>"

definition sample_call :: "string LifecycleRemovalCall" where
  "sample_call = \<lparr>lc_payload = sample_payload, lc_authorization_context = sample_context\<rparr>"

definition sample_result :: "(string, string) DeviceRemovalResult" where
  "sample_result = \<lparr>dr_request_id = ''r1'', dr_intent_id = ''i'', dr_device_ref = ''d1'', dr_outcome = ''accepted'',
     dr_completed_stage = ''claim_revoked'', dr_recovery = ''retry-forward-same-request-id'', dr_steps = [], dr_hub = Some ''event'', dr_conditions = []\<rparr>"

definition sample_remove ::
  "ControllerDeviceRemovalRequest \<Rightarrow> string \<Rightarrow> string RemovalOwnerAuthorizationContext
    \<Rightarrow> (nat, call_error, (string, string) DeviceRemovalResult) op" where
  "sample_remove payload workload context n = (Inr sample_result, n + 1)"

lemma service_called_only_when_delegated_witness:
  "\<exists>call. wr_validate_call (sample_wire sample_call :: (unit, string, string) wire) () = Some call
    \<and> 20 < oa_expires_at (rc_owner_authorization_context (lc_authorization_context call))
    \<and> 1 = snd (sample_remove (lc_payload call) ''eidolon-local-api'' (lc_authorization_context call) 0)"
proof -
  let ?W = "sample_wire sample_call :: (unit, string, string) wire"
  have frame: "read_frame (wr_loads ?W) (be32 1 @ [1]) = Inr ()"
    using read_encoded_frame [of "[1]" "be32 1 @ [1]" "wr_loads ?W" "[]"] by (simp add: encode_frame_def MAX_FRAME_BYTES_def sample_wire_def)
  have match: "\<not> delegation_mismatch sample_sdk ''eidolon-local-api'' sample_call"
    by (simp add: delegation_mismatch_def Let_def sample_call_def sample_context_def sample_payload_def) (simp add: sample_sdk_def)
  have live: "\<not> oa_expires_at (rc_owner_authorization_context (lc_authorization_context sample_call)) \<le> 20"
    by (simp add: sample_call_def sample_context_def)
  have call: "wr_validate_call ?W () = Some sample_call" "encode_frame (wr_reply_bytes ?W (Result sample_result)) = Inr (be32 1 @ [1])"
    by (simp_all add: sample_wire_def encode_frame_def MAX_FRAME_BYTES_def)
  have "handle_connection sample_sdk ?W sample_remove 990 (Inr \<lparr>pc_pid = 7, pc_uid = 990, pc_gid = 990\<rparr>) (Some (be32 1 @ [1])) 20 0
      = (Some (Result sample_result), 1)"
    using live by (simp add: handle_connection_def authorize_def frame call handle_call_def match sample_remove_def del: One_nat_def)
  from service_called_only_when_delegated [OF this] show ?thesis by auto
qed

end
