(* ===== verification/Local_Removal.thy ===== *)
theory Local_Removal
  imports Lifecycle
begin

text \<open>
  The Local API's side of a removal, from \<open>local_api/device_admissions.py\<close>: it issues the delegation,
  exchanges one frame with the daemon and tells the phone what came of it. The last section runs it
  against the daemon, the service and the ledger.
\<close>

section \<open>Refusals a person reads\<close>

text \<open>The sentences of \<open>_REFUSAL_REASONS\<close>, by what they say.\<close>

datatype sentence = DeviceStateRefused | DeviceGone | PhoneNotAuthorized | ContentRefused | AuthorityDown
  | AuthorityUnconfigured | AuthoritySilent | AuthorityBrokeContract

definition REFUSAL_REASONS :: "(string \<times> sentence) list" where
  "REFUSAL_REASONS =
     [(''conflict'', DeviceStateRefused), (''not_found'', DeviceGone), (''unauthorized'', PhoneNotAuthorized),
      (''forbidden'', PhoneNotAuthorized), (''invalid_request'', ContentRefused), (''unavailable'', AuthorityDown),
      (''configuration'', AuthorityUnconfigured), (''upstream_failure'', AuthoritySilent),
      (''contract_violation'', AuthorityBrokeContract)]"

definition WORKFLOW_PROBLEM_KINDS :: "(string \<times> string) list" where
  "WORKFLOW_PROBLEM_KINDS =
     [(''AUTHN_INVALID'', ''unauthorized''), (''AUTHZ_DENIED'', ''forbidden''), (''INVALID_REQUEST'', ''invalid_request''),
      (''WORKFLOW_UNAVAILABLE'', ''unavailable''), (''WORKFLOW_FAILURE'', ''upstream_failure'')]"

definition workflow_problem_reason :: "string \<Rightarrow> sentence option" where
  "workflow_problem_reason code =
     map_of REFUSAL_REASONS (case map_of WORKFLOW_PROBLEM_KINDS code of None \<Rightarrow> '''' | Some kind \<Rightarrow> kind)"

record DeviceAdmissionError =
  de_message :: string
  de_status_code :: int
  de_reason :: "sentence option"

definition admission_error :: "string \<Rightarrow> int \<Rightarrow> sentence option \<Rightarrow> DeviceAdmissionError" where
  "admission_error message status_code reason = \<lparr>de_message = message, de_status_code = status_code, de_reason = reason\<rparr>"

section \<open>One removal\<close>

text \<open>The delegation; \<open>audience\<close> is the SDK's default for the field the code leaves out.\<close>

definition removal_call ::
  "('ref, 'res) sdk \<Rightarrow> string \<Rightarrow> ControllerDeviceRemovalRequest \<Rightarrow> int \<Rightarrow> int \<Rightarrow> 'ref \<Rightarrow> int \<Rightarrow> 'ref LifecycleRemovalCall" where
  "removal_call S audience payload controller_reset_epoch authorization_expires_at target_device_ref now =
     (let owner_domain_id = ref_owner_domain_id S target_device_ref
      in \<lparr>lc_payload = payload,
          lc_authorization_context =
            \<lparr>rc_issuer_workload_principal_id = ''eidolon-local-api'',
             rc_presenter_workload_principal_id = ''eidolon-lifecycle-workflow'',
             rc_controller_grant_generation = controller_reset_epoch, rc_reset_epoch = controller_reset_epoch,
             rc_owner_authorization_context =
               \<lparr>oa_workload_principal_id = ''eidolon-lifecycle-workflow'',
                oa_actor_principal_id = cd_controller_id payload, oa_actor_principal_type = ''controller'',
                oa_audience = audience, oa_authorized_owner_domain_id = owner_domain_id,
                oa_scopes = [''device.read'', ''device.claim.revoke''],
                oa_intent_id = removal_intent_id S (cd_request_id payload) owner_domain_id,
                oa_target_device_ref = target_device_ref, oa_issued_at = now, oa_expires_at = authorization_expires_at\<rparr>\<rparr>\<rparr>)"

text \<open>\<open>exchange\<close> is the socket: the bytes that came back in time, if any did.\<close>

definition local_remove ::
  "('ref, 'res) sdk \<Rightarrow> ('doc, 'ref, 'res) wire \<Rightarrow> (8 word list \<Rightarrow> 's \<Rightarrow> 8 word list option \<times> 's) \<Rightarrow> string
    \<Rightarrow> ControllerDeviceRemovalRequest \<Rightarrow> int \<Rightarrow> int \<Rightarrow> 'ref \<Rightarrow> int
    \<Rightarrow> ('s, DeviceAdmissionError, ('ref, 'res) DeviceRemovalResult) op" where
  "local_remove S W exchange audience payload controller_reset_epoch authorization_expires_at target_device_ref now s =
     (let unavailable = admission_error ''Lifecycle Workflow is unavailable'' 503 None
      in case encode_frame (wr_call_bytes W
                (removal_call S audience payload controller_reset_epoch authorization_expires_at target_device_ref now)) of
           Inl _ \<Rightarrow> (Inl unavailable, s)
         | Inr bytes \<Rightarrow>
             (case exchange bytes s of
                (None, s1) \<Rightarrow> (Inl unavailable, s1)
              | (Some answer, s1) \<Rightarrow>
                  (case read_frame (wr_loads W) answer of
                     Inl _ \<Rightarrow> (Inl unavailable, s1)
                   | Inr document \<Rightarrow>
                       (case wr_validate_reply W document of
                          None \<Rightarrow> (Inl unavailable, s1)
                        | Some (Problem p) \<Rightarrow>
                            (Inl (admission_error (lp_detail p) (lp_status_code p) (workflow_problem_reason (lp_code p))), s1)
                        | Some (Result d) \<Rightarrow>
                            (if dr_request_id d \<noteq> cd_request_id payload
                             then (Inl (admission_error ''Lifecycle Workflow returned another request'' 409 None), s1)
                             else (Inr d, s1))))))"

text \<open>What the phone is told of an answer.\<close>

record LocalDeviceRemovalProgress =
  pg_request_id :: string
  pg_device_id :: string
  pg_owner_id :: string
  pg_intent_id :: string
  pg_outcome :: string
  pg_conditions :: "RemovalCondition list"

definition device_removal_progress ::
  "('ref, 'res) sdk \<Rightarrow> ('res \<Rightarrow> 'ref) \<Rightarrow> ('res \<Rightarrow> string) \<Rightarrow> string \<Rightarrow> string \<Rightarrow> ('ref, 'res) DeviceRemovalResult
    \<Rightarrow> DeviceAdmissionError + LocalDeviceRemovalProgress" where
  "device_removal_progress S res_device_ref res_lifecycle_state owner_id device_id d =
     (if (case dr_hub d of None \<Rightarrow> False
          | Some hub \<Rightarrow> ref_device_instance_id S (res_device_ref hub) \<noteq> device_id \<or> res_device_ref hub \<noteq> dr_device_ref d
              \<or> res_lifecycle_state hub \<noteq> ''revoked'')
      then Inl (admission_error ''Admin Device removal did not confirm the requested device'' 502 None)
      else if cn_name ` set (dr_conditions d) \<noteq> {''platform_access_revoked'', ''mount_removed'', ''device_erase_acknowledged''}
      then Inl (admission_error ''Admin Device removal returned an incomplete condition projection'' 502 None)
      else Inr \<lparr>pg_request_id = dr_request_id d, pg_device_id = device_id, pg_owner_id = owner_id, pg_intent_id = dr_intent_id d,
             pg_outcome = (if dr_outcome d = ''completed'' then ''done'' else if dr_outcome d = ''accepted'' then ''unfinished'' else ''refused''),
             pg_conditions = dr_conditions d\<rparr>)"

section \<open>Against the daemon\<close>

text \<open>The socket of a running daemon: what it writes before it closes the connection.\<close>

definition daemon_socket ::
  "('ref, 'res) sdk \<Rightarrow> ('doc, 'ref, 'res) wire \<Rightarrow> (ControllerDeviceRemovalRequest \<Rightarrow> string \<Rightarrow> 'ref RemovalOwnerAuthorizationContext
      \<Rightarrow> ('s, call_error, ('ref, 'res) DeviceRemovalResult) op)
    \<Rightarrow> int \<Rightarrow> UnixPeerCredential \<Rightarrow> int \<Rightarrow> 8 word list \<Rightarrow> 's \<Rightarrow> 8 word list option \<times> 's" where
  "daemon_socket S W remove uid credential now bytes s =
     (case handle_connection S W remove uid (Inr credential) (Some bytes) now s of
        (None, s1) \<Rightarrow> (Some [], s1)
      | (Some reply, s1) \<Rightarrow> (case encode_frame (wr_reply_bytes W reply) of Inl _ \<Rightarrow> (Some [], s1) | Inr frame \<Rightarrow> (Some frame, s1)))"

text \<open>A call or a reply that fits into a frame is read back as itself.\<close>

definition wire_ok :: "('doc, 'ref, 'res) wire \<Rightarrow> bool" where
  "wire_ok W \<longleftrightarrow>
     (\<forall>call frame. encode_frame (wr_call_bytes W call) = Inr frame \<longrightarrow>
        (\<exists>d. wr_loads W (wr_call_bytes W call) = Document d \<and> wr_validate_call W d = Some call))
     \<and> (\<forall>reply frame. encode_frame (wr_reply_bytes W reply) = Inr frame \<longrightarrow>
        (\<exists>d. wr_loads W (wr_reply_bytes W reply) = Document d \<and> wr_validate_reply W d = Some reply))"

text \<open>The Local API and the daemon together, as one call of the service.\<close>

lemma local_remove_direct:
  assumes W: "wire_ok W" and uid: "pc_uid credential = uid"
    and fits: "encode_frame (wr_call_bytes W (removal_call S audience payload epoch expires target issued)) = Inr bytes"
  shows "local_remove S W (daemon_socket S W remove uid credential now) audience payload epoch expires target issued s
    = (case handle_call S W remove \<lparr>aw_principal_id = ''eidolon-local-api'', aw_credential = credential\<rparr> now
          (removal_call S audience payload epoch expires target issued) s of
        (reply, s1) \<Rightarrow>
          (case reply of
             None \<Rightarrow> (Inl (admission_error ''Lifecycle Workflow is unavailable'' 503 None), s1)
           | Some r \<Rightarrow>
               (case encode_frame (wr_reply_bytes W r) of
                  Inl _ \<Rightarrow> (Inl (admission_error ''Lifecycle Workflow is unavailable'' 503 None), s1)
                | Inr _ \<Rightarrow>
                    (case r of
                       Problem p \<Rightarrow> (Inl (admission_error (lp_detail p) (lp_status_code p) (workflow_problem_reason (lp_code p))), s1)
                     | Result d \<Rightarrow>
                         (if dr_request_id d \<noteq> cd_request_id payload
                          then (Inl (admission_error ''Lifecycle Workflow returned another request'' 409 None), s1)
                          else (Inr d, s1))))))"
proof -
  let ?call = "removal_call S audience payload epoch expires target issued"
  obtain doc where doc: "wr_loads W (wr_call_bytes W ?call) = Document doc" "wr_validate_call W doc = Some ?call"
    using W fits unfolding wire_ok_def by blast
  have received: "read_frame (wr_loads W) bytes = Inr doc" using read_encoded_frame [OF fits, of "wr_loads W" "[]"] doc(1) by simp
  have conn: "handle_connection S W remove uid (Inr credential) (Some bytes) now s
      = handle_call S W remove \<lparr>aw_principal_id = ''eidolon-local-api'', aw_credential = credential\<rparr> now ?call s"
    using uid by (simp add: handle_connection_def authorize_def received doc(2))
  have returned: "\<exists>d. read_frame (wr_loads W) frame = Inr d \<and> wr_validate_reply W d = Some r"
    if fit: "encode_frame (wr_reply_bytes W r) = Inr frame" for r frame
  proof -
    obtain d where "wr_loads W (wr_reply_bytes W r) = Document d" "wr_validate_reply W d = Some r"
      using W fit unfolding wire_ok_def by blast
    then show ?thesis using read_encoded_frame [OF fit, of "wr_loads W" "[]"] by simp
  qed
  have closed: "read_frame (wr_loads W) [] = Inl IncompleteRead" by (simp add: read_frame_def)
  obtain reply s1 where reply: "handle_call S W remove \<lparr>aw_principal_id = ''eidolon-local-api'', aw_credential = credential\<rparr> now ?call s
      = (reply, s1)" by fastforce
  show ?thesis
  proof (cases reply)
    case None
    then show ?thesis by (simp add: local_remove_def Let_def fits daemon_socket_def conn reply closed)
  next
    case (Some r)
    show ?thesis
    proof (cases "encode_frame (wr_reply_bytes W r)")
      case (Inl e)
      with Some show ?thesis by (simp add: local_remove_def Let_def fits daemon_socket_def conn reply closed)
    next
      case (Inr frame)
      from returned [OF Inr] obtain d where "read_frame (wr_loads W) frame = Inr d" "wr_validate_reply W d = Some r" by blast
      with Some Inr show ?thesis by (simp add: local_remove_def Let_def fits daemon_socket_def conn reply)
    qed
  qed
qed

section \<open>A removal that is repeated\<close>

text \<open>The intent that a removal with a result leaves in the ledger holds the text of its delegation.\<close>

lemma removal_leaves_context:
  assumes "sdk_ok S" and "removals_ok S xs" and V: "sv_removal_intents V = removal_sqlite S" and "visit_typed S (payload, workload, context)"
    and run: "remove_controller_device S dump n V payload workload context (map (removal_row_of S) xs, w) = (Inr d, (rows, w'))"
  shows "\<exists>ys j. rows = map (removal_row_of S) ys \<and> removals_ok S ys
    \<and> journal_entry ri_intent_id ys (oa_intent_id (rc_owner_authorization_context context)) = Some j
    \<and> ri_authorization_context_json j = context_text dump context"
proof -
  let ?q = "removal_request_of S dump payload workload context (sv_now V w)"
  have s: "sqlite_ledger S (map (removal_row_of S) xs)" using assms(1,2) by blast
  have q: "request_typed ?q" by (rule removal_request_typed [OF assms(4)])
  obtain i s1 authorization where i: "rs_get_or_create S ?q (map (removal_row_of S) xs) = (Inr i, s1)"
      "ri_intent_id i = oa_intent_id (rc_owner_authorization_context context)"
      "pursue_removal S n V payload i authorization (s1, w) = (Inr d, (rows, w'))"
    using remove_answered [OF V run] by blast
  note s1 = removal_log.growsD(1) [OF removal_log.create_grows_to [OF q i(1)] s]
  note grow = pursue_grows [OF V i(3)]
  obtain j where j: "sqlite_entry S rows (ri_intent_id i) = Some j" "removal_frozen j = removal_frozen i"
    using removal_log.growsD(2) [OF grow s1 removal_log.created_entry [OF s q i(1)]] by blast
  have "ri_authorization_context_json i = context_text dump context"
    using sqlite_create [OF assms(1,2) q] i(1)
    by (auto simp: removal_create_def journal_create_def same_content_def new_intent_def removal_request_of_def Let_def
        split: if_splits option.splits)
  with removal_frozen_eq_fields(5) [OF j(2)] have json: "ri_authorization_context_json j = context_text dump context" by simp
  obtain ys where ys: "rows = map (removal_row_of S) ys" "removals_ok S ys" using removal_log.growsD(1) [OF grow s1] by blast
  with j(1) i(2) json assms(1) show ?thesis by (intro exI [of _ ys] exI [of _ j]) (simp add: sqlite_entry_rows)
qed

lemma other_context_refused:
  assumes "sdk_ok S" and "removals_ok S ys" and "request_typed q" and "context_bound S q"
    and "journal_entry ri_intent_id ys (request_id_of S q) = Some j"
    and "ri_authorization_context_json j \<noteq> rq_authorization_context_json q"
  shows "rs_get_or_create S q (map (removal_row_of S) ys) = (Inl request_reused, map (removal_row_of S) ys)"
  using sqlite_create [OF assms(1-3)] assms(4-6) by (simp add: removal_create_bound journal_create_def same_content_def)

text \<open>
  C38. A removal cannot be resumed through the Local API. When a removal has been answered with a
  result, also one that asks for the same request id to be retried, then sending the same request
  again at another instant is refused with 409 and changes nothing: the delegation carries the
  instant it was issued at, and the ledger compares the whole text of the delegation.
\<close>

theorem repeated_removal_refused:
  fixes V :: "(removal_row list, 'w, 'ref, 'res) removal_service" and S :: "('ref, 'res) sdk"
  defines "remove \<equiv> \<lambda>dump n. remove_controller_device S dump n V"
  assumes "sdk_ok S" and "removals_ok S xs" and "sv_removal_intents V = removal_sqlite S"
    and "wire_ok W" and "pc_uid credential = uid"
    and "\<And>c. issued_of (context_text dump c) = oa_issued_at (rc_owner_authorization_context c)"
    and "0 \<le> epoch" and "CHR '':'' \<notin> set (ref_owner_domain_id S target)"
    and first: "local_remove S W (daemon_socket S W (remove dump n) uid credential now) audience payload epoch expires target issued
      (map (removal_row_of S) xs, w) = (Inr d, (rows, w1))"
    and "issued' \<noteq> issued" and "now' < expires'"
    and fits': "encode_frame (wr_call_bytes W (removal_call S audience payload epoch expires' target issued')) = Inr bytes"
    and problem: "encode_frame (wr_reply_bytes W (Problem \<lparr>lp_code = ''WORKFLOW_FAILURE'',
        lp_detail = ''request_id was reused with different removal content'', lp_status_code = 409\<rparr>)) = Inr frame"
  shows "local_remove S W (daemon_socket S W (remove dump n) uid credential now') audience payload epoch expires' target issued' (rows, w2)
    = (Inl (admission_error ''request_id was reused with different removal content'' 409 (Some AuthoritySilent)), (rows, w2))"
proof -
  let ?call = "removal_call S audience payload epoch expires target issued"
  let ?call' = "removal_call S audience payload epoch expires' target issued'"
  let ?workload = "\<lparr>aw_principal_id = ''eidolon-local-api'', aw_credential = credential\<rparr>"
  let ?ctx = "lc_authorization_context ?call" and ?ctx' = "lc_authorization_context ?call'"
  obtain b where fits: "encode_frame (wr_call_bytes W ?call) = Inr b"
    using first by (cases "encode_frame (wr_call_bytes W ?call)") (auto simp: local_remove_def Let_def)
  have "handle_call S W (remove dump n) ?workload now ?call (map (removal_row_of S) xs, w) = (Some (Result d), (rows, w1))"
    using first unfolding local_remove_direct [OF assms(5,6) fits]
    by (auto split: prod.splits option.splits sum.splits LifecycleWorkflowReply.splits if_splits)
  moreover have "reply_problem code detail status \<noteq> Some (Result d)" "problem_of e \<noteq> Some (Result d)" for code detail status e
    by (rule problem_not_result)+
  ultimately have match: "\<not> delegation_mismatch S ''eidolon-local-api'' ?call"
    and run: "remove_controller_device S dump n V payload ''eidolon-local-api'' ?ctx (map (removal_row_of S) xs, w) = (Inr d, (rows, w1))"
    by (auto simp: handle_call_def remove_def removal_call_def Let_def split: if_splits prod.splits sum.splits)
  have typed: "visit_typed S (payload, ''eidolon-local-api'', ?ctx)" "visit_typed S (payload, ''eidolon-local-api'', ?ctx')"
    using assms(8,9) by (simp_all add: visit_typed_def removal_call_def Let_def)
  obtain ys j where ys: "rows = map (removal_row_of S) ys" "removals_ok S ys"
      "journal_entry ri_intent_id ys (oa_intent_id (rc_owner_authorization_context ?ctx)) = Some j"
      "ri_authorization_context_json j = context_text dump ?ctx"
    using removal_leaves_context [OF assms(2,3,4) typed(1) run] by blast
  let ?q = "removal_request_of S dump payload ''eidolon-local-api'' ?ctx' (sv_now V w2)"
  have key: "request_id_of S ?q = oa_intent_id (rc_owner_authorization_context ?ctx)"
    by (simp add: request_id_of_def removal_request_of_def removal_call_def Let_def)
  have "oa_issued_at (rc_owner_authorization_context ?ctx) \<noteq> oa_issued_at (rc_owner_authorization_context ?ctx')"
    using assms(11) by (simp add: removal_call_def Let_def)
  then have "context_text dump ?ctx \<noteq> context_text dump ?ctx'" using assms(7) by metis
  then have other: "ri_authorization_context_json j \<noteq> rq_authorization_context_json ?q"
    using ys(4) by (simp add: removal_request_of_def Let_def)
  have "rs_get_or_create S ?q rows = (Inl request_reused, rows)" unfolding ys(1)
    by (rule other_context_refused [OF assms(2) ys(2) removal_request_typed [OF typed(2)] removal_request_bound ys(3) [folded key] other])
  moreover have "sv_hub_credentials V \<noteq> None" using run by (cases "sv_hub_credentials V") (auto simp: remove_controller_device_def)
  ultimately have refused: "remove_controller_device S dump n V payload ''eidolon-local-api'' ?ctx' (rows, w2)
      = (Inl (Failed (failure ''hub'' ''conflict'' ''request_id was reused with different removal content'' 409)), (rows, w2))"
    by (auto simp: remove_controller_device_def assms(4) request_reused_def)
  have match': "\<not> delegation_mismatch S ''eidolon-local-api'' ?call'" using match by (simp add: delegation_mismatch_def removal_call_def Let_def)
  have "oa_expires_at (rc_owner_authorization_context ?ctx') = expires'" "lc_payload ?call' = payload" by (simp_all add: removal_call_def Let_def)
  with match' refused assms(12) have "handle_call S W (remove dump n) ?workload now' ?call' (rows, w2)
      = (Some (Problem \<lparr>lp_code = ''WORKFLOW_FAILURE'', lp_detail = ''request_id was reused with different removal content'',
          lp_status_code = 409\<rparr>), (rows, w2))"
    by (simp add: handle_call_def remove_def problem_of_def failure_def reply_problem_def)
  then show ?thesis
    using problem unfolding local_remove_direct [OF assms(5,6) fits']
    by (simp add: workflow_problem_reason_def WORKFLOW_PROBLEM_KINDS_def REFUSAL_REASONS_def)
qed

text \<open>A reading of the instant from the text of a delegation, and a wire for two calls and their replies.\<close>

definition sample_issued_of :: "string \<Rightarrow> int" where
  "sample_issued_of t = the (unary_parse (butlast (tl t)))"

lemma sample_issued: "sample_issued_of (context_text sample_dump c) = oa_issued_at (rc_owner_authorization_context c)"
proof -
  have plain: "concat (map (json_char False) (replicate n (CHR ''i''))) = replicate n (CHR ''i'')" for n
    by (induction n) (simp_all add: json_char_def)
  have spelled: "concat (map (json_char False) (unary_text t)) = unary_text t" for t
    by (simp add: unary_text_def plain json_char_def)
  have "unary_parse (unary_text t) = Some t" for t using sdk_okD(3) [OF sample_sdk_ok, of t] by (simp add: sample_sdk_def)
  then show ?thesis by (simp add: sample_issued_of_def context_text_def sample_dump_def json_string_def spelled butlast_append)
qed

abbreviation sample_removal_call :: "int \<Rightarrow> string LifecycleRemovalCall" where
  "sample_removal_call issued \<equiv> removal_call sample_sdk ''eidolon-admission'' sample_payload 2 50 ''d1'' issued"

lemma sample_removal_call: "sample_removal_call 5 = \<lparr>lc_payload = sample_payload, lc_authorization_context = sample_context\<rparr>"
proof -
  have "ref_owner_domain_id sample_sdk ''d1'' = ''owner-1''" by (simp add: sample_sdk_def)
  then show ?thesis by (simp add: removal_call_def Let_def sample_context_def sample_payload_def)
qed

lemma sample_removed:
  "\<exists>d rows w. remove_controller_device sample_sdk sample_dump 6 sample_service sample_payload ''eidolon-local-api'' sample_context ([], 1)
      = (Inr d, (rows, w)) \<and> dr_request_id d = ''r1''"
proof -
  have req: "removal_request_of sample_sdk sample_dump sample_payload ''eidolon-local-api'' sample_context now = sample_request now" for now
    by (simp add: sample_request_def)
  let ?i = "new_intent sample_sdk (sample_request 1)"
  have none: "removals_ok sample_sdk []" and one: "removals_ok sample_sdk [?i]"
    using new_intent_ok [OF sample_request_facts(1)] by (simp_all add: removals_ok_def)
  have made: "rs_get_or_create sample_sdk (sample_request 1) [] = (Inr ?i, map (removal_row_of sample_sdk) [?i])"
    using sqlite_create [OF sample_sdk_ok none sample_request_facts(1)]
    by (simp add: removal_create_bound sample_request_facts(2) journal_create_def journal_entry_def)
  have marked: "rs_mark_hub_committed sample_sdk (ri_intent_id ?i) ''event'' now (map (removal_row_of sample_sdk) [?i])
      = (Inr (hub_committed ''event'' now ?i), map (removal_row_of sample_sdk) [hub_committed ''event'' now ?i])" for now
    using sqlite_commit [OF sample_sdk_ok one] by (simp add: removal_commit_def journal_commit_def journal_entry_def)
  have sdk: "res_outcome sample_sdk r = ''committed''" "res_event_id sample_sdk r = Some r" for r by (simp_all add: sample_sdk_def)
  have wait: "wait_for_mount_removal 6 sample_service owner device w = (Inr None, Suc w)" for owner device w
    by (simp add: wait_for_mount_removal_def owner_mount_def numeral_eq_Suc sample_service_def mount_gone_def)
  have erase: "observe_device_erase sample_sdk sample_service (hub_committed ''event'' now ?i) authorization w = (Inr (''unknown'', Some ''event''), Suc w)"
    for now authorization w by (simp add: observe_device_erase_def sdk sample_service_def)
  have "\<exists>d. observe_removal sample_sdk 6 sample_service sample_payload (hub_committed ''event'' now ?i) ''event'' authorization w = (Inr d, Suc (Suc w))
      \<and> dr_request_id d = ''r1''" for now authorization w
    by (simp add: observe_removal_def mk_step_def workflow_step_def step_states_def sdk wait erase claim_revoked_def removal_conditions_def mk_condition_def
        mount_gone_def sample_payload_def)
  moreover have "sv_revoke sample_service ref reason command correlation authorization 1 = (Inr ''event'', 2)" for ref reason command correlation authorization
    by (simp add: sample_service_def)
  ultimately show ?thesis
    using made marked sample_request_facts(3) [of 1]
    by (simp add: remove_controller_device_def pursue_removal_def sample_service_sel req split: prod.splits) (metis Pair_inject)
qed

definition sample_problem :: LifecycleWorkflowProblem where
  "sample_problem = \<lparr>lp_code = ''WORKFLOW_FAILURE'', lp_detail = ''request_id was reused with different removal content'', lp_status_code = 409\<rparr>"

definition removal_wire :: "(string, string) DeviceRemovalResult \<Rightarrow> (8 word list, string, string) wire" where
  "removal_wire d =
     \<lparr>wr_loads = Document,
      wr_validate_call = (\<lambda>b. if b = [5] then Some (sample_removal_call 5) else if b = [6] then Some (sample_removal_call 6) else None),
      wr_call_bytes = (\<lambda>c. if c = sample_removal_call 5 then [5] else if c = sample_removal_call 6 then [6] else []),
      wr_validate_reply = (\<lambda>b. if b = [1] then Some (Result d) else if b = [2] then Some (Problem sample_problem) else None),
      wr_reply_bytes = (\<lambda>r. if r = Result d then [1] else if r = Problem sample_problem then [2] else [])\<rparr>"

lemma removal_wire_ok: "wire_ok (removal_wire d)"
  by (auto simp: wire_ok_def removal_wire_def encode_frame_def MAX_FRAME_BYTES_def split: if_splits)

lemma repeated_removal_refused_witness:
  "\<exists>d rows. local_remove sample_sdk (removal_wire d)
      (daemon_socket sample_sdk (removal_wire d) (remove_controller_device sample_sdk sample_dump 6 sample_service) 990
        \<lparr>pc_pid = 7, pc_uid = 990, pc_gid = 990\<rparr> 21) ''eidolon-admission'' sample_payload 2 50 ''d1'' 6 (rows, 9)
    = (Inl (admission_error ''request_id was reused with different removal content'' 409 (Some AuthoritySilent)), (rows, 9))"
proof -
  let ?cred = "\<lparr>pc_pid = 7, pc_uid = 990, pc_gid = 990\<rparr>"
  obtain d rows w where run: "remove_controller_device sample_sdk sample_dump 6 sample_service sample_payload ''eidolon-local-api'' sample_context ([], 1)
      = (Inr d, (rows, w))" "dr_request_id d = ''r1''" using sample_removed by blast
  let ?W = "removal_wire d"
  have fits: "encode_frame (wr_call_bytes ?W (sample_removal_call 5)) = Inr (be32 1 @ [5])"
    "encode_frame (wr_call_bytes ?W (sample_removal_call 6)) = Inr (be32 1 @ [6])"
    "encode_frame (wr_reply_bytes ?W (Result d)) = Inr (be32 1 @ [1])"
    "encode_frame (wr_reply_bytes ?W (Problem sample_problem)) = Inr (be32 1 @ [2])"
    by (auto simp: removal_wire_def encode_frame_def MAX_FRAME_BYTES_def removal_call_def Let_def)
  have match: "\<not> delegation_mismatch sample_sdk ''eidolon-local-api'' (sample_removal_call 5)"
    unfolding sample_removal_call
    by (simp add: delegation_mismatch_def Let_def sample_context_def sample_payload_def) (simp add: sample_sdk_def)
  have request: "cd_request_id sample_payload = ''r1''" by (simp add: sample_payload_def)
  have live: "\<not> oa_expires_at (rc_owner_authorization_context sample_context) \<le> 20" by (simp add: sample_context_def)
  have "handle_call sample_sdk ?W (remove_controller_device sample_sdk sample_dump 6 sample_service)
      \<lparr>aw_principal_id = ''eidolon-local-api'', aw_credential = ?cred\<rparr> 20 (sample_removal_call 5) ([], 1) = (Some (Result d), (rows, w))"
    using match live run(1) fits(3) by (simp add: handle_call_def sample_removal_call)
  then have first: "local_remove sample_sdk ?W (daemon_socket sample_sdk ?W (remove_controller_device sample_sdk sample_dump 6 sample_service) 990 ?cred 20)
      ''eidolon-admission'' sample_payload 2 50 ''d1'' 5 (map (removal_row_of sample_sdk) [], 1) = (Inr d, (rows, w))"
    using fits(3) run(2) request by (simp add: local_remove_direct [OF removal_wire_ok _ fits(1)])
  have "removals_ok sample_sdk []" by (simp add: removals_ok_def)
  moreover have "CHR '':'' \<notin> set (ref_owner_domain_id sample_sdk ''d1'')" by (simp add: sample_sdk_def)
  ultimately have "local_remove sample_sdk ?W (daemon_socket sample_sdk ?W (remove_controller_device sample_sdk sample_dump 6 sample_service) 990 ?cred 21)
      ''eidolon-admission'' sample_payload 2 50 ''d1'' 6 (rows, 9)
    = (Inl (admission_error ''request_id was reused with different removal content'' 409 (Some AuthoritySilent)), (rows, 9))"
    using repeated_removal_refused [OF sample_sdk_ok _ sample_service_sel(1) removal_wire_ok _ sample_issued _ _ first _ _ fits(2)
        fits(4) [unfolded sample_problem_def]] by simp
  then show ?thesis by blast
qed

end
