(* ===== verification/Local_Api.thy ===== *)
theory Local_Api
  imports Host_Claims Runtime_Clients Local_Removal
begin

text \<open>
  The Local API, the process a phone speaks to: its sessions (\<open>local_api/auth.py\<close>), how it asks the bootstrap
  daemon (\<open>BootstrapControlClient\<close> of \<open>bootstrap/control.py\<close>, \<open>request_bootstrap\<close> of \<open>local_api/app.py\<close>), how a request is
  authenticated and how it learns whose Host this is (\<open>local_api/app.py\<close>, \<open>local_api/workspace.py\<close>).
\<close>

section \<open>Sessions\<close>

text \<open>
  Points in time are microseconds. An epoch is kept as it came: Python takes a boolean for an integer.
\<close>

record LocalControllerSession =
  ls_token_hash :: string
  ls_controller_id :: string
  ls_reset_epoch :: json
  ls_principal :: jobject
  ls_expires_at :: int
  ls_owner_id :: "string option"
  ls_owner_resolved :: bool

definition remember_owner :: "string option \<Rightarrow> LocalControllerSession \<Rightarrow> LocalControllerSession" where
  "remember_owner owner_id session = session\<lparr>ls_owner_id := owner_id, ls_owner_resolved := True\<rparr>"

definition forget_owner :: "LocalControllerSession \<Rightarrow> LocalControllerSession" where
  "forget_owner session = session\<lparr>ls_owner_id := None, ls_owner_resolved := False\<rparr>"

type_synonym sessions = "(string \<times> LocalControllerSession) list"

text \<open>\<open>min(..., key=...)\<close>: the first session that expires soonest.\<close>

fun soonest :: "string \<times> LocalControllerSession \<Rightarrow> sessions \<Rightarrow> string \<times> LocalControllerSession" where
  "soonest m [] = m"
| "soonest m (x # xs) = soonest (if ls_expires_at (snd x) < ls_expires_at (snd m) then x else m) xs"

definition pop_session :: "string \<Rightarrow> sessions \<Rightarrow> sessions" where
  "pop_session token_hash ss = filter (\<lambda>(k, _). k \<noteq> token_hash) ss"

definition live_sessions :: "int \<Rightarrow> sessions \<Rightarrow> sessions" where
  "live_sessions now ss = filter (\<lambda>(_, session). ls_expires_at session > now) ss"

definition bounded_sessions :: "sessions \<Rightarrow> sessions" where
  "bounded_sessions ss = (if length ss \<ge> 1024 then (case ss of [] \<Rightarrow> [] | x # xs \<Rightarrow> pop_session (fst (soonest x xs)) ss) else ss)"

text \<open>What the process reads: its clock, random bytes and SHA-256 in hexadecimal.\<close>

record local_env =
  le_clock :: "nat \<Rightarrow> int"
  le_token_bytes :: "nat \<Rightarrow> bytes"
  le_sha256 :: "bytes \<Rightarrow> string"
  le_ttl :: int

record WorkspaceSetupError =
  we_message :: string
  we_status_code :: int
  we_reason :: "string option"

datatype local_error =
    ControlFailed string string
  | SocketFailed
  | SetupFailed WorkspaceSetupError
  | AdmissionFailed DeviceAdmissionError
  | InventoryFailed string int
  | BackendFailed int Refusal
  | HttpFailed int json
  | OtherFailed string

definition hash_token :: "local_env \<Rightarrow> string \<Rightarrow> local_error + string" where
  "hash_token E token =
     (if list_all (\<lambda>c. (of_char c :: nat) < 128) token then Inr (le_sha256 E (map of_char token)) else Inl (OtherFailed ''UnicodeEncodeError''))"

definition is_int_like :: "json \<Rightarrow> bool" where
  "is_int_like j = (case j of JInt _ \<Rightarrow> True | JBool _ \<Rightarrow> True | _ \<Rightarrow> False)"

text \<open>A store of sessions with the number of readings so far.\<close>

record session_store =
  ss_sessions :: sessions
  ss_tick :: nat

definition new_session :: "local_env \<Rightarrow> jobject \<Rightarrow> string \<Rightarrow> string \<Rightarrow> int \<Rightarrow> LocalControllerSession" where
  "new_session E principal_doc controller_id token_hash now =
     \<lparr>ls_token_hash = token_hash, ls_controller_id = controller_id, ls_reset_epoch = jget ''reset_epoch'' principal_doc,
      ls_principal = principal_doc, ls_expires_at = now + le_ttl E, ls_owner_id = None, ls_owner_resolved = False\<rparr>"

definition issue :: "local_env \<Rightarrow> jobject \<Rightarrow> (session_store, local_error, string \<times> LocalControllerSession) op" where
  "issue E principal_doc s =
     (case jget ''controller_id'' principal_doc of
        JStr controller_id \<Rightarrow>
          (if \<not> is_int_like (jget ''reset_epoch'' principal_doc) then (Inl (OtherFailed ''ValueError''), s)
           else
             (let now = le_clock E (ss_tick s);
                  kept = bounded_sessions (live_sessions now (ss_sessions s));
                  token = b64encode (le_token_bytes E (Suc (ss_tick s)))
              in case hash_token E token of
                   Inl e \<Rightarrow> (Inl e, s\<lparr>ss_sessions := kept, ss_tick := ss_tick s + 2\<rparr>)
                 | Inr token_hash \<Rightarrow>
                     (let session = new_session E principal_doc controller_id token_hash now
                      in (Inr (token, session), s\<lparr>ss_sessions := dict_set token_hash session kept, ss_tick := ss_tick s + 2\<rparr>))))
      | _ \<Rightarrow> (Inl (OtherFailed ''ValueError''), s))"

definition get_session :: "local_env \<Rightarrow> string \<Rightarrow> (session_store, local_error, LocalControllerSession option) op" where
  "get_session E token s =
     (if length token \<noteq> 43 then (Inr None, s)
      else case hash_token E token of
             Inl e \<Rightarrow> (Inl e, s)
           | Inr token_hash \<Rightarrow>
               (case map_of (ss_sessions s) token_hash of
                  None \<Rightarrow> (Inr None, s)
                | Some session \<Rightarrow>
                    if ls_expires_at session \<le> le_clock E (ss_tick s)
                    then (Inr None, s\<lparr>ss_sessions := pop_session token_hash (ss_sessions s), ss_tick := Suc (ss_tick s)\<rparr>)
                    else (Inr (Some session), s\<lparr>ss_tick := Suc (ss_tick s)\<rparr>)))"

definition revoke_session :: "LocalControllerSession \<Rightarrow> session_store \<Rightarrow> session_store" where
  "revoke_session session s = s\<lparr>ss_sessions := pop_session (ls_token_hash session) (ss_sessions s)\<rparr>"

section \<open>Asking the daemon\<close>

text \<open>What the client makes of a line that was read; the daemon is an operation on its own state.\<close>

definition control_result :: "json option \<Rightarrow> local_error + jobject" where
  "control_result response =
     (case response of
        None \<Rightarrow> Inl (ControlFailed ''BootstrapControlError'' ''bootstrap control response is not valid JSON'')
      | Some (JObj r) \<Rightarrow>
          (if jget ''ok'' r = JBool True
           then (case jget ''result'' r of JObj result \<Rightarrow> Inr result
                 | _ \<Rightarrow> Inl (ControlFailed ''BootstrapControlError'' ''bootstrap control response is malformed''))
           else (case jget_default ''error'' (JObj []) r of
                   JObj e \<Rightarrow> Inl (ControlFailed (py_str (jget_default ''code'' (JStr ''BootstrapControlError'') e))
                               (py_str (jget_default ''message'' (JStr ''bootstrap control request failed'') e)))
                 | _ \<Rightarrow> Inl (OtherFailed ''AttributeError'')))
      | Some _ \<Rightarrow> Inl (ControlFailed ''BootstrapControlError'' ''bootstrap control request failed''))"

type_synonym 'b control_link = "json \<Rightarrow> ('b, local_error, json option) op"

definition control_request :: "'b control_link \<Rightarrow> string \<Rightarrow> jobject \<Rightarrow> ('b, local_error, jobject) op" where
  "control_request link operation parameters =
     bindS (link (JObj ((''op'', JStr operation) # parameters))) (\<lambda>response b. (control_result response, b))"

text \<open>A daemon that runs and answers at once, with its store.\<close>

definition daemon_link :: "'s store_port \<Rightarrow> 'n net_port option \<Rightarrow> host \<Rightarrow> ('s, 'n) service control_link" where
  "daemon_link P network H request v = (case ct_handle P network H request v of (response, v1) \<Rightarrow> (Inr (Some (JObj response)), v1))"

definition lan_status :: "string \<Rightarrow> int" where
  "lan_status code =
     (case map_of [(''commissioning_denied'', 401), (''operation_conflict'', 409), (''invalid_controller_key'', 422), (''invalid_request'', 422),
                   (''BootstrapOperationRejected'', 404)] code of None \<Rightarrow> 503 | Some n \<Rightarrow> n)"

definition bootstrap_unavailable :: local_error where
  "bootstrap_unavailable = HttpFailed 503 (JStr ''bootstrap control plane unavailable'')"

definition bootstrap_refusal :: "bool \<Rightarrow> bool \<Rightarrow> local_error \<Rightarrow> local_error" where
  "bootstrap_refusal authentication lan_commissioning exc =
     (case exc of
        ControlFailed code message \<Rightarrow>
          (if authentication \<and> code = ''ControllerAuthenticationRejected'' then HttpFailed 401 (JStr ''Controller authentication failed'')
           else if lan_commissioning then HttpFailed (lan_status code) (JStr message)
           else bootstrap_unavailable)
      | SocketFailed \<Rightarrow> bootstrap_unavailable
      | e \<Rightarrow> e)"

definition request_bootstrap :: "'b control_link \<Rightarrow> bool \<Rightarrow> bool \<Rightarrow> string \<Rightarrow> jobject \<Rightarrow> ('b, local_error, jobject) op" where
  "request_bootstrap link authentication lan_commissioning operation parameters =
     mapE (bootstrap_refusal authentication lan_commissioning) (control_request link operation parameters)"

section \<open>The workspace of the Host\<close>

text \<open>The sentences a person reads are not in Latin script; they are parameters.\<close>

record phrases =
  ph_changed_input :: "string option \<Rightarrow> string"
  ph_rejected_input :: string
  ph_bootstrap_silent :: string
  ph_data_silent :: string
  ph_no_target :: string
  ph_syncing :: string
  ph_sentence :: "sentence \<Rightarrow> string"

record workspace_facts =
  ws_owner_id :: string
  ws_owner_display_name :: string
  ws_owner :: json
  ws_workspace :: json

definition setup_failed :: "string \<Rightarrow> int \<Rightarrow> string option \<Rightarrow> local_error" where
  "setup_failed message status_code reason = SetupFailed \<lparr>we_message = message, we_status_code = status_code, we_reason = reason\<rparr>"

definition workspace_setup_detail :: "WorkspaceSetupError \<Rightarrow> json" where
  "workspace_setup_detail exc = (case we_reason exc of None \<Rightarrow> JStr (we_message exc) | Some reason \<Rightarrow> JObj [(''reason'', JStr reason)])"

definition admin_workspace_url :: "'w fixed_client \<Rightarrow> string \<Rightarrow> string" where
  "admin_workspace_url C operation_id = fc_base_url C @ ''/api/control-plane/v1/workspace-onboarding/operations/'' @ operation_id"

definition admin_workspace_client :: "string \<Rightarrow> 'w sender \<Rightarrow> int \<Rightarrow> string \<Rightarrow> 'w fixed_client" where
  "admin_workspace_client base_url send timeout service_token =
     \<lparr>fc_base_url = rstrip_slash base_url, fc_send = send, fc_timeout = timeout, fc_token = py_strip service_token\<rparr>"

definition admin_workspace_answer ::
  "phrases \<Rightarrow> (json \<Rightarrow> workspace_facts WorkspaceOperation option) \<Rightarrow> string \<Rightarrow> http_response \<Rightarrow> local_error + workspace_facts WorkspaceOperation" where
  "admin_workspace_answer ph model operation_id response =
     (if hr_status response = 409
      then Inl (setup_failed ''This Host workspace was initialized with different setup input'' 409 (Some (ph_changed_input ph None)))
      else if hr_status response = 422 then Inl (setup_failed ''Workspace setup input was rejected'' 422 (Some (ph_rejected_input ph)))
      else if hr_status response = 404 then Inl (setup_failed ''Workspace operation does not exist'' 404 None)
      else if hr_status response \<noteq> 200 then Inl (setup_failed ''Admin workspace control plane is unavailable'' 503 None)
      else case Option.bind (hr_json response) model of
             None \<Rightarrow> Inl (setup_failed ''Admin workspace response violated its contract'' 503 None)
           | Some result \<Rightarrow>
               (if wo_operation_id result \<noteq> operation_id then Inl (setup_failed ''Admin workspace response returned another operation'' 503 None)
                else Inr result))"

definition admin_workspace_request ::
  "'w fixed_client \<Rightarrow> phrases \<Rightarrow> (json \<Rightarrow> workspace_facts WorkspaceOperation option) \<Rightarrow> string \<Rightarrow> string \<Rightarrow> json option
    \<Rightarrow> ('w, local_error, workspace_facts WorkspaceOperation) op" where
  "admin_workspace_request C ph model method operation_id body w =
     (if fc_token C = [] then (Inl (setup_failed ''Local API Admin service credential is not configured'' 503 None), w)
      else case fc_send C (fixed_bearer C method (admin_workspace_url C operation_id)\<lparr>hq_json := body\<rparr>) w of
             (Lost _, w1) \<Rightarrow> (Inl (setup_failed ''Admin workspace control plane is unavailable'' 503 None), w1)
           | (Broke name, w1) \<Rightarrow> (Inl (OtherFailed name), w1)
           | (Answered response, w1) \<Rightarrow> (admin_workspace_answer ph model operation_id response, w1))"

record ('b, 'w) local_app =
  ap_env :: local_env
  ap_link :: "'b control_link"
  ap_get_workspace :: "string \<Rightarrow> ('w, local_error, workspace_facts WorkspaceOperation) op"
  ap_initialize :: "string \<Rightarrow> WorkspaceInitializeRequest \<Rightarrow> ('w, local_error, workspace_facts WorkspaceOperation) op"
  ap_fingerprint :: "WorkspaceInitializeRequest \<Rightarrow> string"
  ap_uuid5 :: "string \<Rightarrow> string"
  ap_phrases :: phrases
  ap_iso :: "int \<Rightarrow> string"

text \<open>\<open>prune\<close> is what \<open>exclude_none\<close> leaves of a document.\<close>

definition admin_initialize where
  "admin_initialize C ph model prune operation_id payload =
     admin_workspace_request C ph model ''PUT'' operation_id (Some (prune (JObj (initialize_document payload))))"

definition admin_get_workspace where
  "admin_get_workspace C ph model operation_id = admin_workspace_request C ph model ''GET'' operation_id None"

definition existing_workspace :: "('b, 'w) local_app \<Rightarrow> string \<Rightarrow> ('w, local_error, workspace_facts WorkspaceOperation option) op" where
  "existing_workspace A operation_id =
     catchS (bindS (ap_get_workspace A operation_id) (\<lambda>result. ret (Some result))) (\<lambda>exc.
       case exc of SetupFailed e \<Rightarrow> (if we_status_code e \<noteq> 404 then raise exc else ret None) | _ \<Rightarrow> raise exc)"

definition resolve_workspace_setup ::
  "('b, 'w) local_app \<Rightarrow> string \<Rightarrow> WorkspaceInitializeRequest \<Rightarrow> ('w, local_error, workspace_facts WorkspaceOperation) op" where
  "resolve_workspace_setup A operation_id payload =
     bindS (existing_workspace A operation_id) (\<lambda>existing.
       case existing of
         None \<Rightarrow> ap_initialize A operation_id payload
       | Some result \<Rightarrow>
           if wo_request_fingerprint result \<noteq> ap_fingerprint A payload
           then raise (setup_failed ''This Host workspace was initialized with different setup input'' 409
                  (Some (ph_changed_input (ap_phrases A) (Some (ws_owner_display_name (wo_rest result))))))
           else ret result)"

definition host_workspace_operation_id :: "('b, 'w) local_app \<Rightarrow> json \<Rightarrow> string option" where
  "host_workspace_operation_id A host_id =
     (case host_id of
        JStr h \<Rightarrow> (if take 6 h = ''ehost-'' then Some (ap_uuid5 A (''eidolon-host-workspace-v1:'' @ h)) else None)
      | _ \<Rightarrow> None)"

definition workspace_status :: "string \<Rightarrow> workspace_facts WorkspaceOperation option \<Rightarrow> jobject" where
  "workspace_status operation_id result =
     (case result of
        None \<Rightarrow> [(''contract_version'', JStr ''1''), (''operation_id'', JStr operation_id), (''state'', JStr ''absent''), (''owner'', JNull), (''workspace'', JNull)]
      | Some r \<Rightarrow> [(''contract_version'', JStr ''1''), (''operation_id'', JStr operation_id), (''state'', JStr ''ready''),
                   (''owner'', ws_owner (wo_rest r)), (''workspace'', ws_workspace (wo_rest r))])"

section \<open>Requests\<close>

record ('b, 'w) local_state =
  lo_boot :: 'b
  lo_store :: session_store
  lo_world :: 'w

definition on_boot :: "('b, local_error, 'a) op \<Rightarrow> (('b, 'w) local_state, local_error, 'a) op" where
  "on_boot m s = (case m (lo_boot s) of (r, b) \<Rightarrow> (r, s\<lparr>lo_boot := b\<rparr>))"

definition on_sessions :: "(session_store, local_error, 'a) op \<Rightarrow> (('b, 'w) local_state, local_error, 'a) op" where
  "on_sessions m s = (case m (lo_store s) of (r, t) \<Rightarrow> (r, s\<lparr>lo_store := t\<rparr>))"

definition on_world :: "('w, local_error, 'a) op \<Rightarrow> (('b, 'w) local_state, local_error, 'a) op" where
  "on_world m s = (case m (lo_world s) of (r, w) \<Rightarrow> (r, s\<lparr>lo_world := w\<rparr>))"

definition bearer_token :: "string option \<Rightarrow> string" where
  "bearer_token header =
     (case header of
        None \<Rightarrow> []
      | Some v \<Rightarrow>
          (let scheme = takeWhile (\<lambda>c. c \<noteq> CHR '' '') v; rest = dropWhile (\<lambda>c. c \<noteq> CHR '' '') v
           in if rest = [] \<or> map lower scheme \<noteq> ''bearer'' then [] else drop 1 rest))"

definition session_missing :: local_error where
  "session_missing = HttpFailed 401 (JStr ''Controller session is missing or expired'')"

definition authenticated_controller ::
  "('b, 'w) local_app \<Rightarrow> string option \<Rightarrow> (('b, 'w) local_state, local_error, jobject \<times> LocalControllerSession) op" where
  "authenticated_controller A authorization =
     bindS (on_sessions (get_session (ap_env A) (bearer_token authorization))) (\<lambda>found.
       case found of
         None \<Rightarrow> raise session_missing
       | Some session \<Rightarrow> (\<lambda>s.
           case on_boot (request_bootstrap (ap_link A) True False ''controller.validate''
                  [(''controller_id'', JStr (ls_controller_id session)), (''reset_epoch'', ls_reset_epoch session)]) s of
             (Inr who, s1) \<Rightarrow> (Inr (who, session), s1)
           | (Inl exc, s1) \<Rightarrow>
               (Inl exc, case exc of HttpFailed status _ \<Rightarrow> (if status = 401 then s1\<lparr>lo_store := revoke_session session (lo_store s1)\<rparr> else s1) | _ \<Rightarrow> s1)))"

text \<open>\<open>isoformat().replace("+00:00", "Z")\<close> is \<open>ap_iso\<close>. The proof is the dumped request.\<close>

definition controller_session :: "('b, 'w) local_app \<Rightarrow> jobject \<Rightarrow> (('b, 'w) local_state, local_error, jobject) op" where
  "controller_session A proof_doc =
     bindS (on_boot (request_bootstrap (ap_link A) True False ''controller.authenticate'' [(''proof'', JObj proof_doc)])) (\<lambda>who.
     bindS (on_sessions (issue (ap_env A) who)) (\<lambda>(token, session).
       ret [(''contract_version'', JStr ''1''), (''token_type'', JStr ''Bearer''), (''access_token'', JStr token),
            (''expires_at'', JStr (ap_iso A (ls_expires_at session))), (''controller'', JObj who)]))"

definition current_controller_session where
  "current_controller_session A authorization =
     bindS (authenticated_controller A authorization) (\<lambda>(who, session).
       ret [(''contract_version'', JStr ''1''), (''expires_at'', JStr (ap_iso A (ls_expires_at session))), (''controller'', JObj who)])"

section \<open>Routes that need no session\<close>

definition ask :: "('b, 'w) local_app \<Rightarrow> bool \<Rightarrow> bool \<Rightarrow> string \<Rightarrow> jobject \<Rightarrow> (('b, 'w) local_state, local_error, jobject) op" where
  "ask A authentication lan_commissioning operation parameters =
     on_boot (request_bootstrap (ap_link A) authentication lan_commissioning operation parameters)"

text \<open>\<open>result[name]\<close> for each name.\<close>

definition members_of :: "string list \<Rightarrow> jobject \<Rightarrow> local_error + jobject" where
  "members_of names result =
     (if list_all (\<lambda>name. map_of result name \<noteq> None) names then Inr (map (\<lambda>name. (name, jget name result)) names)
      else Inl (OtherFailed ''KeyError''))"

definition of_answer :: "local_error + 'a \<Rightarrow> ('s, local_error, 'a) op" where
  "of_answer r = (case r of Inl e \<Rightarrow> raise e | Inr v \<Rightarrow> ret v)"

definition local_health :: "('b, 'w) local_app \<Rightarrow> (('b, 'w) local_state, local_error, jobject) op" where
  "local_health A =
     bindS (ask A False False ''health'' []) (\<lambda>result.
     bindS (of_answer (members_of [''status''] result)) (\<lambda>m.
       ret [(''status'', JStr ''ok''), (''bootstrap'', jget ''status'' m)]))"

definition local_descriptor :: "('b, 'w) local_app \<Rightarrow> (('b, 'w) local_state, local_error, jobject) op" where
  "local_descriptor A = ask A False False ''descriptor'' []"

definition host_overview :: "('b, 'w) local_app \<Rightarrow> (('b, 'w) local_state, local_error, jobject) op" where
  "host_overview A =
     bindS (ask A False False ''health'' []) (\<lambda>result.
     bindS (of_answer (members_of [''status'', ''mode'', ''descriptor'', ''state''] result)) (\<lambda>m.
       ret ((''contract_version'', JStr ''1'') # m)))"

definition system_state :: "('b, 'w) local_app \<Rightarrow> (('b, 'w) local_state, local_error, jobject) op" where
  "system_state A =
     bindS (ask A False False ''health'' []) (\<lambda>result. of_answer (members_of [''status'', ''mode'', ''state''] result))"

definition host_proof :: "('b, 'w) local_app \<Rightarrow> string \<Rightarrow> (('b, 'w) local_state, local_error, jobject) op" where
  "host_proof A challenge = ask A False False ''host.prove'' [(''challenge'', JStr challenge)]"

definition lan_commissioning_endpoint :: "('b, 'w) local_app \<Rightarrow> (('b, 'w) local_state, local_error, jobject) op" where
  "lan_commissioning_endpoint A = ask A False True ''commissioning.lan.endpoint'' []"

definition lan_commissioning_claim ::
  "('b, 'w) local_app \<Rightarrow> string \<Rightarrow> string \<Rightarrow> jobject \<Rightarrow> (('b, 'w) local_state, local_error, jobject) op" where
  "lan_commissioning_claim A commissioning_id setup_code controller =
     ask A False True ''commissioning.lan.claim''
       [(''commissioning_id'', JStr commissioning_id), (''setup_code'', JStr setup_code), (''controller'', JObj controller)]"

definition controller_challenge :: "('b, 'w) local_app \<Rightarrow> string \<Rightarrow> (('b, 'w) local_state, local_error, jobject) op" where
  "controller_challenge A controller_id = ask A True False ''controller.challenge'' [(''controller_id'', JStr controller_id)]"

section \<open>Whose Host this is\<close>

definition operation_id_for_host :: "('b, 'w) local_app \<Rightarrow> (('b, 'w) local_state, local_error, string) op" where
  "operation_id_for_host A =
     bindS (ask A False False ''descriptor'' []) (\<lambda>host.
       case host_workspace_operation_id A (jget ''host_id'' host) of
         None \<Rightarrow> raise (HttpFailed 503 (JStr ''bootstrap Host identity is unavailable''))
       | Some operation_id \<Rightarrow> ret operation_id)"

definition reason_body :: "string \<Rightarrow> json" where
  "reason_body reason = JObj [(''reason'', JStr reason)]"

definition host_owner_id :: "('b, 'w) local_app \<Rightarrow> (('b, 'w) local_state, local_error, string option) op" where
  "host_owner_id A =
     bindS (catchS (operation_id_for_host A) (\<lambda>exc.
       case exc of HttpFailed status _ \<Rightarrow> raise (HttpFailed status (reason_body (ph_bootstrap_silent (ap_phrases A)))) | _ \<Rightarrow> raise exc)) (\<lambda>operation_id.
     bindS (catchS (on_world (existing_workspace A operation_id)) (\<lambda>exc.
       case exc of
         SetupFailed e \<Rightarrow>
           raise (HttpFailed (we_status_code e)
             (case workspace_setup_detail e of JObj d \<Rightarrow> JObj d | _ \<Rightarrow> reason_body (ph_data_silent (ap_phrases A))))
       | _ \<Rightarrow> raise exc)) (\<lambda>existing.
       ret (map_option (\<lambda>r. ws_owner_id (wo_rest r)) existing)))"

text \<open>A session is one object, in the table and in the hands of the request; \<open>remember\<close> updates it in the table.\<close>

definition remember :: "LocalControllerSession \<Rightarrow> string option \<Rightarrow> (('b, 'w) local_state, local_error, unit) op" where
  "remember session owner_id s =
     (Inr (), s\<lparr>lo_store := (lo_store s)\<lparr>ss_sessions :=
        map (\<lambda>(k, x). if k = ls_token_hash session then (k, remember_owner owner_id x) else (k, x)) (ss_sessions (lo_store s))\<rparr>\<rparr>)"

definition owner_scope_of :: "('b, 'w) local_app \<Rightarrow> LocalControllerSession \<Rightarrow> (('b, 'w) local_state, local_error, string option) op" where
  "owner_scope_of A session =
     (if ls_owner_resolved session then ret (ls_owner_id session)
      else bindS (host_owner_id A) (\<lambda>owner_id. bindS (remember session owner_id) (\<lambda>_. ret owner_id)))"

definition owner_and_controller ::
  "('b, 'w) local_app \<Rightarrow> jobject \<Rightarrow> LocalControllerSession \<Rightarrow> (('b, 'w) local_state, local_error, string \<times> string) op" where
  "owner_and_controller A who session =
     (case jget ''controller_id'' who of
        JStr (c # cs) \<Rightarrow>
          bindS (owner_scope_of A session) (\<lambda>owner_id.
            case owner_id of
              Some (o1 # os) \<Rightarrow> ret (o1 # os, c # cs)
            | _ \<Rightarrow> raise (HttpFailed 409 (JStr ''Host Workspace is not initialized'')))
      | _ \<Rightarrow> raise (HttpFailed 401 (JStr ''Controller identity is unavailable'')))"

definition setup_readiness :: "('b, 'w) local_app \<Rightarrow> (('b, 'w) local_state, local_error, jobject) op" where
  "setup_readiness A =
     bindS (operation_id_for_host A) (\<lambda>operation_id.
       let reply = (\<lambda>state. [(''contract_version'', JStr ''1''), (''operation_id'', JStr operation_id), (''state'', JStr state)])
       in catchS (bindS (on_world (existing_workspace A operation_id)) (\<lambda>existing.
            ret (reply (if existing \<noteq> None then ''ready'' else ''absent'')))) (\<lambda>exc.
            case exc of SetupFailed _ \<Rightarrow> ret (reply ''unknown'') | _ \<Rightarrow> raise exc))"

definition setup_http :: "('s, local_error, 'a) op \<Rightarrow> ('s, local_error, 'a) op" where
  "setup_http m = catchS m (\<lambda>exc. case exc of SetupFailed e \<Rightarrow> raise (HttpFailed (we_status_code e) (workspace_setup_detail e)) | _ \<Rightarrow> raise exc)"

definition get_workspace :: "('b, 'w) local_app \<Rightarrow> string option \<Rightarrow> (('b, 'w) local_state, local_error, jobject) op" where
  "get_workspace A authorization =
     bindS (authenticated_controller A authorization) (\<lambda>(_, session).
     bindS (operation_id_for_host A) (\<lambda>operation_id.
     bindS (setup_http (on_world (existing_workspace A operation_id))) (\<lambda>result.
     bindS (remember session (map_option (\<lambda>r. ws_owner_id (wo_rest r)) result)) (\<lambda>_.
       ret (workspace_status operation_id result)))))"

definition initialize_workspace ::
  "('b, 'w) local_app \<Rightarrow> WorkspaceInitializeRequest \<Rightarrow> string option \<Rightarrow> (('b, 'w) local_state, local_error, jobject) op" where
  "initialize_workspace A payload authorization =
     bindS (authenticated_controller A authorization) (\<lambda>(_, session).
     bindS (operation_id_for_host A) (\<lambda>operation_id.
     bindS (setup_http (on_world (resolve_workspace_setup A operation_id payload))) (\<lambda>result.
     bindS (remember session (Some (ws_owner_id (wo_rest result)))) (\<lambda>_.
       ret (workspace_status operation_id (Some result))))))"

section \<open>Who asks, on the management surface\<close>

definition KIND_BY_STATUS :: "(int \<times> string) list" where
  "KIND_BY_STATUS =
     [(400, ''invalid''), (401, ''denied''), (403, ''denied''), (404, ''not_found''), (409, ''conflict''), (412, ''conflict''),
      (415, ''invalid''), (422, ''invalid'')]"

definition refusal_for_status :: "int \<Rightarrow> string \<Rightarrow> string option \<Rightarrow> Refusal" where
  "refusal_for_status status_code reason code =
     \<lparr>rf_kind = (case map_of KIND_BY_STATUS status_code of Some kind \<Rightarrow> kind | None \<Rightarrow> (if status_code \<ge> 500 then ''upstream'' else ''invalid'')),
      rf_reason = take 512 reason, rf_code = code, rf_retryable = (status_code \<ge> 500)\<rparr>"

definition enveloped :: "int \<Rightarrow> Refusal \<Rightarrow> local_error" where
  "enveloped status_code refusal =
     HttpFailed status_code (JObj [(''kind'', JStr (rf_kind refusal)), (''reason'', JStr (rf_reason refusal)),
       (''code'', case rf_code refusal of None \<Rightarrow> JNull | Some c \<Rightarrow> JStr c), (''retryable'', JBool (rf_retryable refusal))])"

definition refuse :: "int \<Rightarrow> string \<Rightarrow> string option \<Rightarrow> string option \<Rightarrow> local_error" where
  "refuse status_code reason code kind =
     (let refusal = refusal_for_status status_code reason code
      in enveloped status_code (case kind of None \<Rightarrow> refusal | Some k \<Rightarrow> refusal\<lparr>rf_kind := k\<rparr>))"

definition refusal_sentence :: "json \<Rightarrow> string" where
  "refusal_sentence detail =
     (case detail of
        JObj d \<Rightarrow> (case jget ''reason'' d of JStr (c # cs) \<Rightarrow> c # cs | _ \<Rightarrow> py_str detail)
      | _ \<Rightarrow> py_str detail)"

definition management_owner :: "('b, 'w) local_app \<Rightarrow> string option \<Rightarrow> (('b, 'w) local_state, local_error, string) op" where
  "management_owner A authorization =
     bindS (mapE (\<lambda>exc.
         case exc of
           HttpFailed status detail \<Rightarrow>
             refuse status (refusal_sentence detail) (if status = 401 then Some ''controller_session_invalid'' else None) None
         | _ \<Rightarrow> exc)
       (bindS (authenticated_controller A authorization) (\<lambda>(_, session). owner_scope_of A session))) (\<lambda>owner_id.
       case owner_id of
         Some (o1 # os) \<Rightarrow> ret (o1 # os)
       | _ \<Rightarrow> raise (refuse 409 ''Host Workspace is not initialized'' (Some ''host_not_provisioned'') (Some ''not_configured'')))"

record device_session =
  ds_owner_id :: string
  ds_controller_id :: string
  ds_controller_session :: LocalControllerSession

definition management_device_session :: "('b, 'w) local_app \<Rightarrow> string option \<Rightarrow> (('b, 'w) local_state, local_error, device_session) op" where
  "management_device_session A authorization =
     bindS (authenticated_controller A authorization) (\<lambda>(who, session).
     bindS (owner_and_controller A who session) (\<lambda>(owner_id, controller_id).
       ret \<lparr>ds_owner_id = owner_id, ds_controller_id = controller_id, ds_controller_session = session\<rparr>))"

definition management_controller :: "('b, 'w) local_app \<Rightarrow> string option \<Rightarrow> (('b, 'w) local_state, local_error, json) op" where
  "management_controller A authorization =
     bindS (authenticated_controller A authorization) (\<lambda>(who, _).
       case map_of who ''controller_id'' of None \<Rightarrow> raise (OtherFailed ''KeyError'') | Some v \<Rightarrow> ret v)"

section \<open>What holds of the table\<close>

text \<open>
  What is true of every session in the table, when the daemon has answered the documents \<open>proved\<close> to proofs so far:
  its table is bounded, and each session stands under its own hash, is for the Controller and the epoch of one of
  those documents, and expires its lifetime after a reading of the clock.
\<close>

definition session_ok :: "local_env \<Rightarrow> jobject list \<Rightarrow> nat \<Rightarrow> string \<times> LocalControllerSession \<Rightarrow> bool" where
  "session_ok E proved tick = (\<lambda>(k, x).
     ls_token_hash x = k \<and> ls_principal x \<in> set proved \<and> jget ''controller_id'' (ls_principal x) = JStr (ls_controller_id x)
     \<and> jget ''reset_epoch'' (ls_principal x) = ls_reset_epoch x \<and> (\<exists>n < tick. ls_expires_at x = le_clock E n + le_ttl E))"

definition table_ok :: "local_env \<Rightarrow> jobject list \<Rightarrow> session_store \<Rightarrow> bool" where
  "table_ok E proved t \<longleftrightarrow> length (ss_sessions t) \<le> 1024 \<and> distinct (map fst (ss_sessions t))
     \<and> (\<forall>x \<in> set (ss_sessions t). session_ok E proved (ss_tick t) x)"

lemma session_ok_mono: "session_ok E proved n x \<Longrightarrow> set proved \<subseteq> set proved' \<Longrightarrow> n \<le> m \<Longrightarrow> session_ok E proved' m x"
  unfolding session_ok_def by (force intro: less_le_trans)

lemma distinct_keys_filter: "distinct (map fst xs) \<Longrightarrow> distinct (map fst (filter P xs))"
  by (induction xs) auto

lemma table_ok_filter: "table_ok E proved t \<Longrightarrow> table_ok E proved (t\<lparr>ss_sessions := filter P (ss_sessions t)\<rparr>)"
  by (auto simp: table_ok_def distinct_keys_filter intro: le_trans [OF length_filter_le])

lemma table_ok_tick: "table_ok E proved t \<Longrightarrow> ss_tick t \<le> n \<Longrightarrow> table_ok E proved (t\<lparr>ss_tick := n\<rparr>)"
  by (auto simp: table_ok_def intro: session_ok_mono)

lemma table_ok_revoke: "table_ok E proved t \<Longrightarrow> table_ok E proved (revoke_session session t)"
  by (simp add: revoke_session_def pop_session_def table_ok_filter)

lemma table_ok_get: "table_ok E proved t \<Longrightarrow> table_ok E proved (snd (get_session E token t))"
  by (auto simp: get_session_def pop_session_def intro!: table_ok_filter table_ok_tick split: sum.split option.split)

lemma soonest_member: "soonest m xs \<in> set (m # xs)"
  by (induction xs arbitrary: m) auto

lemma soonest_least: "x \<in> set (m # xs) \<Longrightarrow> ls_expires_at (snd (soonest m xs)) \<le> ls_expires_at (snd x)"
proof (induction xs arbitrary: m x)
  case Nil then show ?case by simp
next
  case (Cons y ys)
  let ?m = "if ls_expires_at (snd y) < ls_expires_at (snd m) then y else m"
  have "ls_expires_at (snd (soonest ?m ys)) \<le> ls_expires_at (snd ?m)" by (rule Cons.IH) simp
  moreover have "ls_expires_at (snd ?m) \<le> ls_expires_at (snd m)" "ls_expires_at (snd ?m) \<le> ls_expires_at (snd y)" by simp_all
  moreover have "ls_expires_at (snd (soonest ?m ys)) \<le> ls_expires_at (snd x)" if "x \<in> set ys" by (rule Cons.IH) (simp add: that)
  ultimately show ?case using Cons.prems by (auto simp del: if_split)
qed

text \<open>A full table loses the sessions of one hash, and none that expires before it is kept.\<close>

lemma full_table_loses_soonest:
  assumes "length xs \<ge> 1024"
  shows "\<exists>y. y \<in> set xs \<and> bounded_sessions xs = pop_session (fst y) xs \<and> (\<forall>x \<in> set xs. ls_expires_at (snd y) \<le> ls_expires_at (snd x))"
proof -
  obtain m ys where xs: "xs = m # ys" using assms by (cases xs) auto
  with assms soonest_member [of m ys] soonest_least [of _ m ys] show ?thesis
    by (intro exI [of _ "soonest m ys"]) (auto simp: bounded_sessions_def)
qed

lemma bounded_sessions_subset:
  obtains P where "bounded_sessions xs = filter P xs"
proof (cases "length xs \<ge> 1024")
  case True
  then show ?thesis using that by (cases xs) (auto simp: bounded_sessions_def pop_session_def)
next
  case False
  then show ?thesis using that [of "\<lambda>_. True"] by (simp add: bounded_sessions_def)
qed

lemma bounded_sessions_length:
  assumes "length xs \<le> 1024"
  shows "length (bounded_sessions xs) < 1024"
proof (cases "1024 \<le> length xs")
  case True
  then obtain y ys where xs: "xs = y # ys" by (cases xs) auto
  have "length (pop_session (fst (soonest y ys)) xs) < length xs"
    unfolding pop_session_def using soonest_member [of y ys]
    by (intro length_filter_less [of "soonest y ys"]) (auto simp: xs split_beta)
  with True assms show ?thesis by (simp add: bounded_sessions_def xs)
qed (simp add: bounded_sessions_def)

lemma dict_set_length: "length (dict_set k v d) \<le> Suc (length d)"
  by (induction d) auto

lemma dict_set_members: "x \<in> set (dict_set k v d) \<Longrightarrow> x = (k, v) \<or> x \<in> set d"
  by (induction d) (auto split: if_splits)

lemma table_ok_issue:
  assumes "table_ok E proved t" and "who \<in> set proved"
  shows "table_ok E proved (snd (issue E who t))"
proof -
  define kept where "kept = bounded_sessions (live_sessions (le_clock E (ss_tick t)) (ss_sessions t))"
  obtain P where kept: "kept = filter P (ss_sessions t)"
    by (rule bounded_sessions_subset [of "live_sessions (le_clock E (ss_tick t)) (ss_sessions t)"])
      (simp add: kept_def live_sessions_def filter_filter)
  have "length (live_sessions (le_clock E (ss_tick t)) (ss_sessions t)) \<le> 1024"
    using assms(1) by (auto simp: live_sessions_def table_ok_def intro: le_trans [OF length_filter_le])
  then have small: "length kept < 1024" unfolding kept_def by (rule bounded_sessions_length)
  have ok: "table_ok E proved (t\<lparr>ss_sessions := kept, ss_tick := ss_tick t + 2\<rparr>)"
    unfolding kept using table_ok_tick [OF table_ok_filter [OF assms(1), of P], of "ss_tick t + 2"] by simp
  have "table_ok E proved (t\<lparr>ss_sessions := dict_set h (new_session E who c h (le_clock E (ss_tick t))) kept, ss_tick := ss_tick t + 2\<rparr>)"
    if "jget ''controller_id'' who = JStr c" for c h
  proof -
    have new: "session_ok E proved (ss_tick t + 2) (h, new_session E who c h (le_clock E (ss_tick t)))"
      using that assms(2) by (auto simp: session_ok_def new_session_def intro!: exI [of _ "ss_tick t"])
    then show ?thesis
      using ok small dict_set_length [of h "new_session E who c h (le_clock E (ss_tick t))" kept]
      by (auto simp: table_ok_def distinct_update dest!: dict_set_members)
  qed
  with ok assms(1) show ?thesis
    by (auto simp: issue_def Let_def kept_def [symmetric] split: json.split sum.split)
qed

text \<open>Operations keep the table in order, whatever they answer.\<close>

definition keeps_table :: "local_env \<Rightarrow> jobject list \<Rightarrow> ('b, 'w) local_state \<Rightarrow> ('b, 'w) local_state \<Rightarrow> bool" where
  "keeps_table E proved s s' \<longleftrightarrow> (table_ok E proved (lo_store s) \<longrightarrow> table_ok E proved (lo_store s'))"

lemma keeps_table_preorder: "reflp (keeps_table E proved)" "transp (keeps_table E proved)"
  by (auto simp: keeps_table_def reflp_def transp_def)

lemma keeps_on_boot: "framed (keeps_table E proved) (on_boot m)" and keeps_on_world: "framed (keeps_table E proved) (on_world m)"
  by (simp_all add: framed_def keeps_table_def on_boot_def on_world_def split: prod.split)

lemma keeps_remember: "framed (keeps_table E proved) (remember session owner_id)"
proof -
  have "session_ok E proved n (if k = h then (k, remember_owner owner_id x) else (k, x)) = session_ok E proved n (k, x)" for n k h x
    by (simp add: session_ok_def remember_owner_def)
  moreover have "map fst (map (\<lambda>(k, x). if k = h then (k, remember_owner owner_id x) else (k, x)) xs) = map fst xs" for h :: string and xs
    by (induction xs) auto
  ultimately show ?thesis by (auto simp: framed_def keeps_table_def remember_def table_ok_def simp del: map_map)
qed

lemma keeps_of_answer: "framed (keeps_table E proved) (of_answer r)"
  by (cases r) (simp_all add: of_answer_def framed_ret framed_raise keeps_table_preorder)

lemmas keeps_rules = framed_rules framed_catch keeps_table_preorder keeps_on_boot keeps_on_world keeps_remember keeps_of_answer

lemma keeps_authenticated: "ap_env A = E \<Longrightarrow> framed (keeps_table E proved) (authenticated_controller A authorization)"
proof -
  assume E: "ap_env A = E"
  have got: "framed (keeps_table E proved) (on_sessions (get_session E token))" for token
    using table_ok_get [of E proved _ token] by (auto simp: framed_def keeps_table_def on_sessions_def split_beta)
  show ?thesis unfolding authenticated_controller_def E
  proof (intro framed_bind keeps_table_preorder got framed_option framed_raise)
    fix found session
    show "framed (keeps_table E proved) (\<lambda>s. case on_boot m s of (Inr who, s1) \<Rightarrow> (Inr (who, session), s1)
       | (Inl exc, s1) \<Rightarrow> (Inl exc, case exc of HttpFailed status _ \<Rightarrow> (if status = 401 then s1\<lparr>lo_store := revoke_session session (lo_store s1)\<rparr> else s1) | _ \<Rightarrow> s1))" for m
      by (auto simp: framed_def keeps_table_def on_boot_def table_ok_revoke split: prod.splits sum.splits local_error.splits)
  qed
qed

lemma keeps_operation_id: "framed (keeps_table E proved) (operation_id_for_host A)"
  unfolding operation_id_for_host_def ask_def by (intro keeps_rules)

lemma keeps_host_owner_id: "framed (keeps_table E proved) (host_owner_id A)"
  unfolding host_owner_id_def
  by (intro keeps_rules keeps_operation_id) (auto split: local_error.split json.split intro!: framed_raise keeps_table_preorder)

lemma keeps_mapE: "framed (keeps_table E proved) m \<Longrightarrow> framed (keeps_table E proved) (mapE f m)"
  unfolding mapE_def by (intro keeps_rules)

lemma keeps_owner_scope: "framed (keeps_table E proved) (owner_scope_of A session)"
  unfolding owner_scope_of_def by (intro keeps_rules keeps_host_owner_id)

lemma keeps_owner_and_controller: "framed (keeps_table E proved) (owner_and_controller A who session)"
  unfolding owner_and_controller_def
  by (auto split: json.split list.split option.split intro!: keeps_rules keeps_owner_scope)

lemma keeps_management:
  "framed (keeps_table (ap_env A) proved) (management_owner A authorization)"
  "framed (keeps_table (ap_env A) proved) (management_device_session A authorization)"
  unfolding management_owner_def management_device_session_def split_def
  by (intro framed_bind keeps_mapE keeps_table_preorder keeps_authenticated keeps_owner_scope keeps_owner_and_controller refl framed_ret;
      auto split: option.split list.split intro!: keeps_rules)+

section \<open>Histories\<close>

text \<open>The requests that reach the table, and those that only ask the daemon.\<close>

datatype local_request =
    OpenSession jobject
  | CurrentSession "string option"
  | ReadWorkspace "string option"
  | SetupWorkspace WorkspaceInitializeRequest "string option"
  | SetupReadiness
  | AskDaemon bool bool string jobject

definition serve :: "('b, 'w) local_app \<Rightarrow> local_request \<Rightarrow> (('b, 'w) local_state, local_error, jobject) op" where
  "serve A q =
     (case q of
        OpenSession proof_doc \<Rightarrow> controller_session A proof_doc
      | CurrentSession authorization \<Rightarrow> current_controller_session A authorization
      | ReadWorkspace authorization \<Rightarrow> get_workspace A authorization
      | SetupWorkspace payload authorization \<Rightarrow> initialize_workspace A payload authorization
      | SetupReadiness \<Rightarrow> setup_readiness A
      | AskDaemon authentication lan operation parameters \<Rightarrow> ask A authentication lan operation parameters)"

text \<open>What the daemon answers to the proof in a request, if it accepts it.\<close>

definition proved_by :: "('b, 'w) local_app \<Rightarrow> local_request \<Rightarrow> ('b, 'w) local_state \<Rightarrow> jobject list" where
  "proved_by A q s =
     (case q of
        OpenSession proof_doc \<Rightarrow>
          (case fst (ask A True False ''controller.authenticate'' [(''proof'', JObj proof_doc)] s) of Inr who \<Rightarrow> [who] | Inl _ \<Rightarrow> [])
      | _ \<Rightarrow> [])"

text \<open>Between two requests the daemon and the rest of the Host may do anything.\<close>

inductive local_history :: "('b, 'w) local_app \<Rightarrow> jobject list \<Rightarrow> ('b, 'w) local_state \<Rightarrow> bool" for A where
  started: "ss_sessions (lo_store s) = [] \<Longrightarrow> local_history A [] s"
| served: "local_history A proved s \<Longrightarrow> serve A q s = (r, s') \<Longrightarrow> local_history A (proved @ proved_by A q s) s'"
| owner_asked: "local_history A proved s \<Longrightarrow> management_owner A authorization s = (r, s') \<Longrightarrow> local_history A proved s'"
| device_asked: "local_history A proved s \<Longrightarrow> management_device_session A authorization s = (r', s') \<Longrightarrow> local_history A proved s'"
| meanwhile: "local_history A proved s \<Longrightarrow> local_history A proved (s\<lparr>lo_boot := b, lo_world := w\<rparr>)"

lemma table_ok_proved: "table_ok E proved t \<Longrightarrow> set proved \<subseteq> set proved' \<Longrightarrow> table_ok E proved' t"
  by (auto simp: table_ok_def intro: session_ok_mono)

lemma controller_session_table:
  assumes "table_ok (ap_env A) proved (lo_store s)" and "controller_session A proof_doc s = (r, s')"
  shows "table_ok (ap_env A) (proved @ proved_by A (OpenSession proof_doc) s) (lo_store s')"
proof -
  let ?m = "ask A True False ''controller.authenticate'' [(''proof'', JObj proof_doc)]"
  let ?proved = "proved @ proved_by A (OpenSession proof_doc) s"
  obtain x s1 where m: "?m s = (x, s1)" by fastforce
  have "framed (keeps_table (ap_env A) ?proved) ?m" unfolding ask_def by (rule keeps_on_boot)
  from framedD [OF this m] table_ok_proved [OF assms(1), of ?proved]
  have ok: "table_ok (ap_env A) ?proved (lo_store s1)" by (simp add: keeps_table_def)
  show ?thesis
  proof (cases x)
    case (Inl e)
    then show ?thesis using assms(2) m ok by (simp add: controller_session_def ask_def bindS_def)
  next
    case (Inr who)
    have "table_ok (ap_env A) ?proved (snd (issue (ap_env A) who (lo_store s1)))"
      using ok by (rule table_ok_issue) (simp add: proved_by_def m Inr)
    then show ?thesis using assms(2) m
      by (auto simp: controller_session_def ask_def [symmetric] bindS_def Inr on_sessions_def ret_def split: prod.splits sum.splits)
  qed
qed

lemma served_table:
  assumes "table_ok (ap_env A) proved (lo_store s)" and "serve A q s = (r, s')"
  shows "table_ok (ap_env A) (proved @ proved_by A q s) (lo_store s')"
proof (cases "\<exists>proof_doc. q = OpenSession proof_doc")
  case True
  then show ?thesis using assms controller_session_table by (fastforce simp: serve_def)
next
  case False
  have "framed (keeps_table (ap_env A) proved) (current_controller_session A a)"
    "framed (keeps_table (ap_env A) proved) (get_workspace A a)" "framed (keeps_table (ap_env A) proved) (initialize_workspace A p a)"
    "framed (keeps_table (ap_env A) proved) (setup_readiness A)" "framed (keeps_table (ap_env A) proved) (ask A au lan op ps)" for a p au lan op ps
    unfolding current_controller_session_def get_workspace_def initialize_workspace_def setup_readiness_def ask_def setup_http_def Let_def split_def
    by (intro keeps_rules keeps_authenticated keeps_operation_id refl;
        auto split: local_error.split intro!: keeps_rules)+
  then have "framed (keeps_table (ap_env A) proved) (serve A q)"
    using False by (cases q) (simp_all add: serve_def)
  from framedD [OF this assms(2)] assms(1) False show ?thesis
    by (cases q) (simp_all add: keeps_table_def proved_by_def)
qed

lemma history_table: "local_history A proved s \<Longrightarrow> table_ok (ap_env A) proved (lo_store s)"
proof (induction rule: local_history.induct)
  case (started s)
  then show ?case by (simp add: table_ok_def)
next
  case (served proved s q r s')
  then show ?case by (blast intro: served_table)
next
  case (owner_asked proved s authorization r s')
  then show ?case using framedD [OF keeps_management(1) owner_asked.hyps(2)] by (auto simp: keeps_table_def)
next
  case (device_asked proved s authorization r' s')
  then show ?case using framedD [OF keeps_management(2) device_asked.hyps(2)] by (auto simp: keeps_table_def)
next
  case (meanwhile proved s b w)
  then show ?case by simp
qed

section \<open>Who is let in\<close>

text \<open>What reaches a request of what the daemon answered.\<close>

definition daemon_outcome :: "host \<Rightarrow> bool \<Rightarrow> bool \<Rightarrow> exn + jobject \<Rightarrow> local_error + jobject" where
  "daemon_outcome H authentication lan outcome =
     (case control_result (Some (JObj (control_response H outcome))) of
        Inl e \<Rightarrow> Inl (bootstrap_refusal authentication lan e) | Inr result \<Rightarrow> Inr result)"

lemma daemon_answers:
  "request_bootstrap (daemon_link P network H) authentication lan operation parameters v =
     (case ct_dispatch P network H ((''op'', JStr operation) # parameters) v of (r, v1) \<Rightarrow> (daemon_outcome H authentication lan r, v1))"
  by (simp add: request_bootstrap_def mapE_def catchS_def raise_def control_request_def daemon_link_def ct_handle_def daemon_outcome_def bindS_def
      split: prod.split sum.split)

lemma daemon_outcome_simps [simp]:
  "daemon_outcome H authentication lan (Inr result) = Inr result"
  "daemon_outcome H authentication lan r = Inr result \<longleftrightarrow> r = Inr result"
  by (auto simp: daemon_outcome_def control_result_def control_response_def error_answer_def jget_def jget_default_def
      split: sum.splits exn.splits)

lemma validated_controller:
  assumes "sq_inv (key_names_of (h_env H)) (w_store (sv_world v))"
    and "request_bootstrap (daemon_link sqlite_store network H) True False ''controller.validate''
      [(''controller_id'', JStr cid), (''reset_epoch'', e)] v = (Inr who, v')"
  shows "v' = v" and "\<exists>g. authorized sqlite_store (w_store (sv_world v)) (cg_controller_id g) = Some g \<and> cid = cg_controller_id g
    \<and> json_is_int e (cg_reset_epoch g) \<and> who = controller_principal g"
proof -
  obtain g w where g: "hs_active_controller sqlite_store (JStr cid) (sv_world v) = (Inr g, w)"
      "v' = v\<lparr>sv_world := w\<rparr>" "json_is_int e (cg_reset_epoch g)" "who = controller_principal g"
    using assms(2)
    by (auto simp: daemon_answers ct_dispatch_def jget_def on_sv_def hs_validate_controller_def bindS_def raise_def ret_def
        split: prod.splits sum.splits if_splits)
  note active = sq_daemon.active_ok [OF assms(1) g(1)]
  show "v' = v" using g(2) active(1) by simp
  show "\<exists>g. authorized sqlite_store (w_store (sv_world v)) (cg_controller_id g) = Some g \<and> cid = cg_controller_id g
    \<and> json_is_int e (cg_reset_epoch g) \<and> who = controller_principal g" using g(3,4) active(2,3) by auto
qed

text \<open>A token that a store does not know is not known to it the next time either.\<close>

lemma unknown_token_stays:
  assumes "get_session E token t = (Inr None, t')"
  shows "fst (get_session E token t') = Inr None"
proof (cases "length token = 43")
  case True
  then obtain h where h: "hash_token E token = Inr h" using assms by (auto simp: get_session_def split: sum.splits)
  have "map_of (filter (\<lambda>(k, _). k \<noteq> h) xs) h = None" for xs :: sessions
    by (auto simp: map_of_eq_None_iff)
  then show ?thesis using assms True h by (auto simp: get_session_def pop_session_def split: option.splits if_splits)
qed (use assms in \<open>simp add: get_session_def\<close>)

lemma revoked_token_gone:
  assumes "get_session E token t = (Inr (Some session), t')" and "ls_token_hash session = h" and "hash_token E token = Inr h"
  shows "fst (get_session E token (revoke_session session t')) = Inr None"
proof -
  have "map_of (filter (\<lambda>(k, _). k \<noteq> h) xs) h = None" for xs :: sessions
    by (auto simp: map_of_eq_None_iff)
  then show ?thesis using assms by (simp add: get_session_def revoke_session_def pop_session_def)
qed

lemma found_session:
  assumes "table_ok E proved t" and "get_session E token t = (Inr (Some session), t')"
  shows "length token = 43" "hash_token E token = Inr (ls_token_hash session)" "session_ok E proved (ss_tick t) (ls_token_hash session, session)"
    "le_clock E (ss_tick t) < ls_expires_at session" "t' = t\<lparr>ss_tick := Suc (ss_tick t)\<rparr>"
proof -
  obtain h where h: "length token = 43" "hash_token E token = Inr h" "map_of (ss_sessions t) h = Some session"
      "le_clock E (ss_tick t) < ls_expires_at session" "t' = t\<lparr>ss_tick := Suc (ss_tick t)\<rparr>"
    using assms(2) by (auto simp: get_session_def split: if_splits sum.splits option.splits)
  have "session_ok E proved (ss_tick t) (h, session)"
    using assms(1) map_of_SomeD [OF h(3)] by (auto simp: table_ok_def)
  moreover from this have "h = ls_token_hash session" by (simp add: session_ok_def)
  ultimately show "length token = 43" "hash_token E token = Inr (ls_token_hash session)"
      "session_ok E proved (ss_tick t) (ls_token_hash session, session)"
      "le_clock E (ss_tick t) < ls_expires_at session" "t' = t\<lparr>ss_tick := Suc (ss_tick t)\<rparr>"
    using h by simp_all
qed

text \<open>
  C9. A request is let in only with a live session of a phone that proved itself and that the Host still authorizes. In
  every history of the Local API, over a daemon with the durable store in its invariant, an authenticated request carried
  a token of 43 characters whose hash names a session; the session has not expired, the daemon accepted a proof for its
  Controller and epoch, and at this moment the store authorizes that Controller in that epoch, which is who the request
  is for. A request that is answered 401 stays refused: the same header is then refused as missing or expired.
\<close>

theorem session_request_authorized:
  assumes "local_history A proved s" and "ap_link A = daemon_link sqlite_store network H"
    and "sq_inv (key_names_of (h_env H)) (w_store (sv_world (lo_boot s)))"
    and "authenticated_controller A authorization s = (r, s')"
  shows "(\<forall>who session. r = Inr (who, session) \<longrightarrow>
        length (bearer_token authorization) = 43 \<and> hash_token (ap_env A) (bearer_token authorization) = Inr (ls_token_hash session)
        \<and> le_clock (ap_env A) (ss_tick (lo_store s)) < ls_expires_at session \<and> ls_principal session \<in> set proved
        \<and> (\<exists>g. authorized sqlite_store (w_store (sv_world (lo_boot s))) (cg_controller_id g) = Some g
             \<and> jget ''controller_id'' (ls_principal session) = JStr (cg_controller_id g)
             \<and> json_is_int (jget ''reset_epoch'' (ls_principal session)) (cg_reset_epoch g) \<and> who = controller_principal g)
        \<and> lo_boot s' = lo_boot s)
    \<and> (\<forall>body. r = Inl (HttpFailed 401 body) \<longrightarrow> fst (authenticated_controller A authorization s') = Inl session_missing)"
proof -
  let ?E = "ap_env A" and ?token = "bearer_token authorization"
  obtain x t where x: "get_session ?E ?token (lo_store s) = (x, t)" by fastforce
  note table = history_table [OF assms(1)]
  have missing: "fst (authenticated_controller A authorization s1) = Inl session_missing"
    if "fst (get_session ?E ?token (lo_store s1)) = Inr None" for s1
    using that by (auto simp: authenticated_controller_def on_sessions_def bindS_def raise_def split: prod.splits)
  consider (error) e where "x = Inl e" | (none) "x = Inr None" | (found) session where "x = Inr (Some session)"
    by (cases x) auto
  then show ?thesis
  proof cases
    case error
    then have "\<not> (\<exists>body. e = HttpFailed 401 body)" using x by (auto simp: get_session_def hash_token_def split: if_splits sum.splits option.splits)
    with error assms(4) x show ?thesis by (auto simp: authenticated_controller_def on_sessions_def bindS_def)
  next
    case none
    then have "r = Inl session_missing" "lo_store s' = t" using x assms(4)
      by (auto simp: authenticated_controller_def on_sessions_def bindS_def raise_def)
    with none missing [of s'] unknown_token_stays x show ?thesis by auto
  next
    case found
    note f = found_session [OF table x [unfolded found]]
    have ok: "jget ''controller_id'' (ls_principal session) = JStr (ls_controller_id session)"
        "jget ''reset_epoch'' (ls_principal session) = ls_reset_epoch session" "ls_principal session \<in> set proved"
      using f(3) by (simp_all add: session_ok_def)
    obtain y b where y: "request_bootstrap (ap_link A) True False ''controller.validate''
        [(''controller_id'', JStr (ls_controller_id session)), (''reset_epoch'', ls_reset_epoch session)] (lo_boot s) = (y, b)" by fastforce
    let ?s1 = "s\<lparr>lo_store := t, lo_boot := b\<rparr>"
    have run: "(r, s') = (case y of Inr who \<Rightarrow> (Inr (who, session), ?s1)
        | Inl exc \<Rightarrow> (Inl exc, case exc of HttpFailed status _ \<Rightarrow> (if status = 401 then ?s1\<lparr>lo_store := revoke_session session t\<rparr> else ?s1) | _ \<Rightarrow> ?s1))"
      using assms(4) x y by (cases y) (auto simp: authenticated_controller_def found on_sessions_def on_boot_def bindS_def split: local_error.split)
    show ?thesis
    proof (cases y)
      case (Inl exc)
      have "fst (get_session ?E ?token (revoke_session session t)) = Inr None"
        by (rule revoked_token_gone [OF x [unfolded found] refl f(2)])
      moreover have "lo_store s' = revoke_session session t" if "exc = HttpFailed 401 body" for body
        using run Inl that by simp
      ultimately have "fst (authenticated_controller A authorization s') = Inl session_missing" if "exc = HttpFailed 401 body" for body
        using missing [of s'] that by simp
      moreover have "r = Inl exc" using run Inl by simp
      ultimately show ?thesis by simp
    next
      case (Inr who)
      note v = validated_controller [OF assms(3) y [unfolded Inr assms(2)]]
      then obtain g where "authorized sqlite_store (w_store (sv_world (lo_boot s))) (cg_controller_id g) = Some g"
          "jget ''controller_id'' (ls_principal session) = JStr (cg_controller_id g)"
          "json_is_int (jget ''reset_epoch'' (ls_principal session)) (cg_reset_epoch g)" "who = controller_principal g"
        unfolding ok(1,2) by blast
      moreover have "r = Inr (who, session)" "lo_boot s' = lo_boot s" using run Inr v(1) by simp_all
      ultimately show ?thesis using f(1,2,4) ok(3) by blast
    qed
  qed
qed

definition phone_env :: local_env where
  "phone_env = \<lparr>le_clock = int, le_token_bytes = (\<lambda>_. replicate 32 0), le_sha256 = map char_of, le_ttl = 100\<rparr>"

definition phone_app :: "((sql_db, mem_net) service, unit) local_app" where
  "phone_app = \<lparr>ap_env = phone_env, ap_link = daemon_link sqlite_store None sample_host,
     ap_get_workspace = (\<lambda>_. raise (setup_failed [] 404 None)), ap_initialize = (\<lambda>_ _. raise (setup_failed [] 503 None)),
     ap_fingerprint = (\<lambda>_. []), ap_uuid5 = id,
     ap_phrases = \<lparr>ph_changed_input = (\<lambda>_. []), ph_rejected_input = [], ph_bootstrap_silent = [], ph_data_silent = [],
       ph_no_target = [], ph_syncing = [], ph_sentence = (\<lambda>_. [])\<rparr>, ap_iso = dec_of_int\<rparr>"

definition phone_state :: "((sql_db, mem_net) service, unit) local_state" where
  "phone_state = \<lparr>lo_boot = proof_service, lo_store = \<lparr>ss_sessions = [], ss_tick = 0\<rparr>, lo_world = ()\<rparr>"

definition phone_header :: "string option" where
  "phone_header = Some (''Bearer '' @ replicate 43 (CHR ''A''))"

definition phone_logged_in :: "((sql_db, mem_net) service, unit) local_state" where
  "phone_logged_in = snd (serve phone_app (OpenSession sample_proof) phone_state)"

lemma phone_logged_in_facts:
  "w_store (sv_world (lo_boot phone_logged_in)) = w_store (sv_world proof_service)"
  "\<not> isl (fst (authenticated_controller phone_app phone_header phone_logged_in))"
  by code_simp+

lemma phone_history: "local_history phone_app ([] @ proved_by phone_app (OpenSession sample_proof) phone_state) phone_logged_in"
proof -
  have "local_history phone_app [] phone_state" by (rule started) (simp add: phone_state_def)
  then show ?thesis unfolding phone_logged_in_def by (rule served) (rule prod.collapse [symmetric])
qed

lemma session_request_authorized_witness:
  "\<exists>who session s2 g. authenticated_controller phone_app phone_header phone_logged_in = (Inr (who, session), s2)
     \<and> authorized sqlite_store (w_store (sv_world (lo_boot phone_logged_in))) (cg_controller_id g) = Some g \<and> who = controller_principal g"
proof -
  obtain y s2 where y: "authenticated_controller phone_app phone_header phone_logged_in = (y, s2)" by (cases "authenticated_controller phone_app phone_header phone_logged_in")
  with phone_logged_in_facts(2) have "\<not> isl y" by simp
  then obtain who session where run: "authenticated_controller phone_app phone_header phone_logged_in = (Inr (who, session), s2)"
    using y by (cases y) auto
  have link: "ap_link phone_app = daemon_link sqlite_store None sample_host" by (simp add: phone_app_def)
  have "sq_inv (key_names_of (h_env sample_host)) (w_store (sv_world (lo_boot phone_logged_in)))"
    using sample_world_facts(1) by (simp add: phone_logged_in_facts(1) proof_service_def service_new_def)
  from session_request_authorized [OF phone_history link this run] run show ?thesis by blast
qed

text \<open>
  C20. In every history of the Local API there are at most 1024 sessions, one to a hash, and each was issued after the
  daemon accepted a proof: it is for the Controller and the epoch that the daemon named, and expires exactly its lifetime
  after the reading of the clock it was issued at.
\<close>

theorem local_sessions_bounded:
  assumes "local_history A proved s"
  shows "length (ss_sessions (lo_store s)) \<le> 1024 \<and> distinct (map fst (ss_sessions (lo_store s)))
    \<and> (\<forall>k x. (k, x) \<in> set (ss_sessions (lo_store s)) \<longrightarrow> ls_token_hash x = k
         \<and> (\<exists>who \<in> set proved. jget ''controller_id'' who = JStr (ls_controller_id x) \<and> jget ''reset_epoch'' who = ls_reset_epoch x)
         \<and> (\<exists>n < ss_tick (lo_store s). ls_expires_at x = le_clock (ap_env A) n + le_ttl (ap_env A)))"
  using history_table [OF assms] by (auto simp: table_ok_def session_ok_def)

lemma local_sessions_bounded_witness: "length (ss_sessions (lo_store phone_logged_in)) \<le> 1024"
  using local_sessions_bounded [OF phone_history] by blast

text \<open>
  The hash is taken of the token's ASCII form, so a token of the right length with a character outside ASCII is not refused: it
  raises an exception that no handler catches.
\<close>

lemma non_ascii_token_raises:
  assumes "length (bearer_token authorization) = 43" and "\<exists>c \<in> set (bearer_token authorization). (of_char c :: nat) \<ge> 128"
  shows "authenticated_controller A authorization s = (Inl (OtherFailed ''UnicodeEncodeError''), s)"
proof -
  have "\<not> list_all (\<lambda>c. (of_char c :: nat) < 128) (bearer_token authorization)"
    using assms(2) by (auto simp: list_all_iff not_less)
  with assms(1) show ?thesis
    by (simp add: authenticated_controller_def on_sessions_def bindS_def get_session_def hash_token_def)
qed

text \<open>
  The Owner of a session: an answer of Data is asked for once and kept with the session, also when it is that there is no
  Workspace; a failure to ask is never kept.
\<close>

definition same_table :: "('b, 'w) local_state \<Rightarrow> ('b, 'w) local_state \<Rightarrow> bool" where
  "same_table s s' \<longleftrightarrow> lo_store s' = lo_store s"

lemma same_table_preorder: "reflp same_table" "transp same_table"
  by (auto simp: same_table_def reflp_def transp_def)

lemma same_on_boot: "framed same_table (on_boot m)" and same_on_world: "framed same_table (on_world m)"
  by (simp_all add: framed_def same_table_def on_boot_def on_world_def split: prod.split)

lemma host_owner_id_store: "framed same_table (host_owner_id A)"
  unfolding host_owner_id_def operation_id_for_host_def ask_def
  by (intro framed_rules framed_catch same_table_preorder same_on_boot same_on_world)
    (auto split: local_error.split json.split intro!: framed_raise same_table_preorder)

lemma remembered_found:
  fixes h :: string
  assumes "map_of (map (\<lambda>(k, x). if k = h then (k, remember_owner owner x) else (k, x)) xs) h = Some x"
  shows "ls_owner_resolved x \<and> ls_owner_id x = owner"
proof -
  from map_of_SomeD [OF assms] have "(h, x) \<in> set (map (\<lambda>(k, x). if k = h then (k, remember_owner owner x) else (k, x)) xs)" .
  then obtain y where "x = remember_owner owner y" by (auto split: if_splits)
  then show ?thesis by (simp add: remember_owner_def)
qed

lemma owner_scope_remembered:
  assumes "owner_scope_of A session s = (r, s')" and "\<not> ls_owner_resolved session"
  shows "(\<forall>e. r = Inl e \<longrightarrow> lo_store s' = lo_store s)
    \<and> (\<forall>owner x. r = Inr owner \<longrightarrow> map_of (ss_sessions (lo_store s')) (ls_token_hash session) = Some x
        \<longrightarrow> owner_scope_of A x later = (Inr owner, later))"
proof -
  obtain y s1 where y: "host_owner_id A s = (y, s1)" by fastforce
  have store: "lo_store s1 = lo_store s" using framedD [OF host_owner_id_store y] by (simp add: same_table_def)
  show ?thesis
  proof (cases y)
    case (Inl e)
    with assms y store show ?thesis by (auto simp: owner_scope_of_def bindS_def)
  next
    case (Inr owner)
    with assms y have "r = Inr owner" "ss_sessions (lo_store s')
        = map (\<lambda>(k, x). if k = ls_token_hash session then (k, remember_owner owner x) else (k, x)) (ss_sessions (lo_store s1))"
      by (auto simp: owner_scope_of_def bindS_def remember_def ret_def)
    then show ?thesis using remembered_found by (fastforce simp: owner_scope_of_def ret_def)
  qed
qed

end
