(* ===== verification/Local_Devices.thy ===== *)
theory Local_Devices
  imports Local_Api Controller_Commands
begin

text \<open>
  The devices and the phones of an Owner, as the Local API manages them: its clients of Admin's control plane
  (\<open>local_api/device_admissions.py\<close>, \<open>local_api/devices.py\<close>) and what \<open>local_api/app.py\<close> composes of them: the
  inventory, the changes to one device, and the revocation of a phone.
\<close>

section \<open>The admission client\<close>

definition device_admission_detail :: "phrases \<Rightarrow> DeviceAdmissionError \<Rightarrow> json" where
  "device_admission_detail ph exc =
     (case de_reason exc of Some reason \<Rightarrow> reason_body (ph_sentence ph reason) | None \<Rightarrow> JStr (de_message exc))"

definition device_admission_reason :: "phrases \<Rightarrow> DeviceAdmissionError \<Rightarrow> string" where
  "device_admission_reason ph exc = (case de_reason exc of Some reason \<Rightarrow> ph_sentence ph reason | None \<Rightarrow> de_message exc)"

text \<open>A dictionary cannot be asked for a list or for an object: that is a \<open>TypeError\<close>.\<close>

definition admission_refusal :: "http_response \<Rightarrow> string \<Rightarrow> local_error" where
  "admission_refusal response operation =
     (let kind = (case hr_json response of
                    Some (JObj document) \<Rightarrow> (case jget ''detail'' document of JObj detail \<Rightarrow> jget ''kind'' detail | _ \<Rightarrow> JNull)
                  | _ \<Rightarrow> JNull);
          refused = (\<lambda>reason. AdmissionFailed (admission_error (''Admin Device '' @ operation @ '' did not complete'')
            (if hr_status response \<in> {401, 403, 404, 409, 422, 502, 503} then hr_status response else 503) reason))
      in case kind of
           JStr k \<Rightarrow> refused (map_of REFUSAL_REASONS k)
         | JList (_ # _) \<Rightarrow> OtherFailed ''TypeError''
         | JObj (_ # _) \<Rightarrow> OtherFailed ''TypeError''
         | _ \<Rightarrow> refused None)"

definition admission_unavailable :: local_error where
  "admission_unavailable = AdmissionFailed (admission_error ''Admin Device admission control plane is unavailable'' 503 None)"

definition admission_send :: "'w fixed_client \<Rightarrow> http_request \<Rightarrow> ('w, local_error, http_response) op" where
  "admission_send C request w =
     (if fc_token C = [] then (Inl (AdmissionFailed (admission_error ''Local API Admin service credential is not configured'' 503 None)), w)
      else case fc_send C request w of
             (Lost _, w1) \<Rightarrow> (Inl admission_unavailable, w1)
           | (Broke name, w1) \<Rightarrow> (Inl (OtherFailed name), w1)
           | (Answered response, w1) \<Rightarrow> (Inr response, w1))"

definition admission_post ::
  "'w fixed_client \<Rightarrow> (bytes \<Rightarrow> 'm option) \<Rightarrow> bool \<Rightarrow> string \<Rightarrow> json \<Rightarrow> ('w, local_error, 'm) op" where
  "admission_post C model replay_safe path body =
     bindS (admission_send C (fixed_bearer C ''POST'' (fc_base_url C @ ''/api/control-plane/v1/'' @ path)
       \<lparr>hq_json := Some body, hq_replay_safe := replay_safe\<rparr>)) (\<lambda>response.
       if hr_status response \<noteq> 200 then raise (admission_refusal response ''admission query'')
       else case model (hr_content response) of
              None \<Rightarrow> raise (AdmissionFailed (admission_error ''Admin Device admission response violated its contract'' 503 None))
            | Some m \<Rightarrow> ret m)"

definition admission_actor :: "string \<Rightarrow> string \<Rightarrow> ControllerActorRef" where
  "admission_actor controller_id owner_domain_id =
     \<lparr>act_principal_id = controller_id, act_principal_type = ''controller'', act_owner_domain_id = owner_domain_id,
      act_granted_scopes = [''device.read'', ''device.claim.approve'', ''device.output-policy.write'', ''device.shared-session.control'',
        ''device.conversation.control''],
      act_authentication_strength = ''software''\<rparr>"

text \<open>
  The commands: the authority of a Controller, the Owner and what the command is about. \<open>'q\<close> is a query of the SDK. A
  command that the models refuse is an error of the constructor; these are built from what the session holds.
\<close>

record 'q controller_command =
  cc_actor :: ControllerActorRef
  cc_business_owner_id :: string
  cc_subject :: 'q

definition command_of :: "string \<Rightarrow> string \<Rightarrow> string \<Rightarrow> 'q \<Rightarrow> 'q controller_command" where
  "command_of controller_id owner_domain_id business_owner_id subject =
     \<lparr>cc_actor = admission_actor controller_id owner_domain_id, cc_business_owner_id = business_owner_id, cc_subject = subject\<rparr>"

definition query_claims ::
  "'w fixed_client \<Rightarrow> (bytes \<Rightarrow> 'claim owner_page option) \<Rightarrow> (page_query controller_command \<Rightarrow> json) \<Rightarrow> page_query controller_command
    \<Rightarrow> ('w, local_error, 'claim owner_page) op" where
  "query_claims C model dump payload =
     bindS (admission_post C model True ''admission/claim-queries'' (dump payload)) (\<lambda>page.
       if pg_owner_domain_id page \<noteq> pq_owner_domain_id (cc_subject payload)
       then raise (AdmissionFailed (admission_error ''Admin Claim query returned another Owner Domain'' 502 None)) else ret page)"

definition query_enrollments ::
  "'w fixed_client \<Rightarrow> (bytes \<Rightarrow> 'proposal owner_page option) \<Rightarrow> (page_query controller_command \<Rightarrow> json) \<Rightarrow> page_query controller_command
    \<Rightarrow> ('w, local_error, 'proposal owner_page) op" where
  "query_enrollments C model dump payload =
     bindS (admission_post C model False ''admission/enrollment-queries'' (dump payload)) (\<lambda>page.
       if pg_owner_domain_id page \<noteq> pq_owner_domain_id (cc_subject payload)
       then raise (AdmissionFailed (admission_error ''Admin enrollment query returned another Owner Domain'' 502 None)) else ret page)"

definition issue_voucher_command ::
  "'w fixed_client \<Rightarrow> (bytes \<Rightarrow> CommissioningVoucherIssued option) \<Rightarrow> ((string \<times> string) controller_command \<Rightarrow> json)
    \<Rightarrow> (string \<times> string) controller_command \<Rightarrow> ('w, local_error, CommissioningVoucherIssued) op" where
  "issue_voucher_command C model dump payload = admission_post C model False ''admission/commissioning-vouchers'' (dump payload)"

text \<open>\<open>ControllerWithdrawn\<close>, by the Owner Domain and the Controller it names; the subject of the request names the same two.\<close>

definition withdraw_controller_command ::
  "'w fixed_client \<Rightarrow> (bytes \<Rightarrow> (string \<times> string) option) \<Rightarrow> ((string \<times> string) controller_command \<Rightarrow> json)
    \<Rightarrow> (string \<times> string) controller_command \<Rightarrow> ('w, local_error, string \<times> string) op" where
  "withdraw_controller_command C model dump payload =
     bindS (admission_post C model False ''admission/controller-withdrawals'' (dump payload)) (\<lambda>withdrawn.
       if snd withdrawn \<noteq> snd (cc_subject payload) \<or> fst withdrawn \<noteq> fst (cc_subject payload)
       then raise (AdmissionFailed (admission_error ''Admin Controller withdrawal answered about another Controller'' 502 None)) else ret withdrawn)"

definition recover_enrollment ::
  "'w fixed_client \<Rightarrow> (bytes \<Rightarrow> ('man, 'act) recovery option) \<Rightarrow> ((string \<times> string) controller_command \<Rightarrow> json)
    \<Rightarrow> (string \<times> string) controller_command \<Rightarrow> ('w, local_error, ('man, 'act) recovery) op" where
  "recover_enrollment C model dump payload =
     bindS (admission_post C model False ''admission/enrollment-recoveries'' (dump payload)) (\<lambda>projection.
       if pp_requested_owner_domain_id (rv_proposal projection) \<noteq> fst (cc_subject payload) \<or> pp_enrollment_id (rv_proposal projection) \<noteq> snd (cc_subject payload)
       then raise (AdmissionFailed (admission_error ''Admin Enrollment recovery answered about another Enrollment'' 502 None)) else ret projection)"

definition admission_decide ::
  "'w fixed_client \<Rightarrow> (bytes \<Rightarrow> ('man, 'act) AdmissionDecisionWorkflowResult option)
    \<Rightarrow> (('man, 'more, ControllerActorRef) ControllerEnrollmentDecisionIntent \<Rightarrow> json) \<Rightarrow> ('man, 'more, ControllerActorRef) ControllerEnrollmentDecisionIntent
    \<Rightarrow> ('w, local_error, ('man, 'act) AdmissionDecisionWorkflowResult) op" where
  "admission_decide C model dump payload =
     bindS (admission_send C (fixed_bearer C ''PUT''
       (fc_base_url C @ ''/api/control-plane/v1/admission/decision-intents/'' @ quote (dc_enrollment_id (ci_decision payload)))
         \<lparr>hq_json := Some (dump payload)\<rparr>)) (\<lambda>response.
       if hr_status response \<noteq> 200 then raise (admission_refusal response ''Decision'')
       else case model (hr_content response) of
              None \<Rightarrow> raise (AdmissionFailed (admission_error ''Admin Device Decision response violated its contract'' 503 None))
            | Some result \<Rightarrow>
                if wr_request_id result \<noteq> ci_request_id payload
                then raise (AdmissionFailed (admission_error ''Admin Device Decision returned another request'' 409 None)) else ret result)"

section \<open>The device client\<close>

text \<open>
  The Kernel's account of a Body as this client reads it: whether its device is present and by which reference, and what is
  in force when it has an assignment.
\<close>

record in_force =
  if_companion_id :: "string option"
  if_provenance :: "string option"
  if_updated_at :: string

record 'ref body_endpoint = KernelBodyEndpoint +
  be_present :: bool
  be_device_ref :: 'ref
  be_mount_revision :: int
  be_in_force :: in_force

definition endpoint_core :: "'ref body_endpoint \<Rightarrow> KernelBodyEndpoint" where
  "endpoint_core e = \<lparr>be_device_id = be_device_id e, be_owner_id = be_owner_id e, be_body_endpoint_id = be_body_endpoint_id e,
     be_assignment = be_assignment e\<rparr>"

definition inventory_unconfigured :: local_error where
  "inventory_unconfigured = InventoryFailed ''Local API Admin service credential is not configured'' 503"

definition devices_send :: "'w fixed_client \<Rightarrow> string \<Rightarrow> http_request \<Rightarrow> ('w, local_error, http_response) op" where
  "devices_send C unavailable request w =
     (if fc_token C = [] then (Inl inventory_unconfigured, w)
      else case fc_send C request w of
             (Lost _, w1) \<Rightarrow> (Inl (InventoryFailed unavailable 503), w1)
           | (Broke name, w1) \<Rightarrow> (Inl (OtherFailed name), w1)
           | (Answered response, w1) \<Rightarrow> (Inr response, w1))"

definition kept_status :: "int list \<Rightarrow> int \<Rightarrow> int" where
  "kept_status kept status = (if status \<in> set kept then status else 503)"

definition owners_url :: "'w fixed_client \<Rightarrow> string \<Rightarrow> string \<Rightarrow> string" where
  "owners_url C owner_id rest = fc_base_url C @ ''/api/control-plane/v1/owners/'' @ quote owner_id @ rest"

definition local_list_body_endpoints ::
  "'w fixed_client \<Rightarrow> (json \<Rightarrow> 'ref body_endpoint list option) \<Rightarrow> string \<Rightarrow> ('w, local_error, 'ref body_endpoint list) op" where
  "local_list_body_endpoints C model owner_id =
     bindS (devices_send C ''Admin Device membership control plane is unavailable''
       (fixed_bearer C ''GET'' (owners_url C owner_id ''/body-endpoints''))) (\<lambda>response.
       if hr_status response \<noteq> 200
       then raise (InventoryFailed ''Admin Device membership control plane is unavailable'' (kept_status [401, 403, 409] (hr_status response)))
       else case Option.bind (hr_json response) model of
              None \<Rightarrow> raise (InventoryFailed ''Admin Device membership response violated its contract'' 503)
            | Some page \<Rightarrow>
                if list_ex (\<lambda>e. be_owner_id e \<noteq> owner_id) page
                then raise (InventoryFailed ''Admin Device membership response returned another Owner'' 409) else ret page)"

record ControllerBodyAssignment =
  as_request_id :: string
  as_owner_id :: string
  as_device_id :: string
  as_companion_id :: "string option"
  as_expected_assignment_revision :: int
  as_origin :: string

definition local_set_companion ::
  "'w fixed_client \<Rightarrow> (json \<Rightarrow> 'ref body_endpoint option) \<Rightarrow> (ControllerBodyAssignment \<Rightarrow> json) \<Rightarrow> ControllerBodyAssignment
    \<Rightarrow> ('w, local_error, 'ref body_endpoint) op" where
  "local_set_companion C model dump payload =
     bindS (devices_send C ''Admin Device membership control plane is unavailable''
       (fixed_bearer C ''PUT'' (owners_url C (as_owner_id payload) (''/body-endpoints/'' @ quote (as_device_id payload) @ ''/assignment''))
         \<lparr>hq_json := Some (dump payload)\<rparr>)) (\<lambda>response.
       if hr_status response \<noteq> 200
       then raise (InventoryFailed ''Admin Device Companion assignment did not complete'' (kept_status [401, 403, 404, 409] (hr_status response)))
       else case Option.bind (hr_json response) model of
              None \<Rightarrow> raise (InventoryFailed ''Admin Device Companion assignment response violated its contract'' 503)
            | Some e \<Rightarrow>
                if be_device_id e \<noteq> as_device_id payload \<or> be_owner_id e \<noteq> as_owner_id payload
                then raise (InventoryFailed ''Admin Device Companion assignment answered about another device'' 502) else ret e)"

text \<open>
  The two calls about the outputs of one device. \<open>'alw\<close> and \<open>'inp\<close> are the SDK's selections of outputs and inputs, a
  configuration is what the Hub answers about a device.
\<close>

definition device_scoped ::
  "'w fixed_client \<Rightarrow> (json \<Rightarrow> 'm option) \<Rightarrow> string \<Rightarrow> string \<Rightarrow> string \<Rightarrow> string \<Rightarrow> json \<Rightarrow> string \<Rightarrow> ('w, local_error, 'm) op" where
  "device_scoped C model verb suffix owner_id device_id body operation =
     bindS (devices_send C (''Admin Device '' @ operation @ '' is unavailable'')
       (fixed_bearer C verb (owners_url C owner_id (''/devices/'' @ quote device_id @ ''/'' @ suffix))
         \<lparr>hq_json := Some body, hq_replay_safe := (verb = ''POST'' \<and> suffix = ''output-policy-queries'')\<rparr>)) (\<lambda>response.
       if hr_status response \<notin> {200, 202}
       then raise (InventoryFailed (''Admin Device '' @ operation @ '' did not complete'') (kept_status [401, 403, 404, 409] (hr_status response)))
       else case Option.bind (hr_json response) model of
              None \<Rightarrow> raise (InventoryFailed (''Admin Device '' @ operation @ '' response violated its contract'') 503)
            | Some m \<Rightarrow> ret m)"

record ('ref, 'alw, 'inp) SetDeviceOutputPolicy =
  so_device_ref :: 'ref
  so_expected_revision :: int
  so_allowed :: 'alw
  so_inputs :: "'inp option"

definition read_output_configuration ::
  "'w fixed_client \<Rightarrow> (json \<Rightarrow> 'out option) \<Rightarrow> ('out \<Rightarrow> 'ref) \<Rightarrow> ('ref \<Rightarrow> string) \<Rightarrow> ('ref controller_command \<Rightarrow> json)
    \<Rightarrow> 'ref controller_command \<Rightarrow> ('w, local_error, 'out) op" where
  "read_output_configuration C model ref_of instance dump payload =
     bindS (device_scoped C model ''POST'' ''output-policy-queries'' (cc_business_owner_id payload) (instance (cc_subject payload)) (dump payload)
       ''output configuration'') (\<lambda>configuration.
       if ref_of configuration \<noteq> cc_subject payload
       then raise (InventoryFailed ''Admin Device output configuration answered about another device'' 502) else ret configuration)"

definition set_output_policy ::
  "'w fixed_client \<Rightarrow> (json \<Rightarrow> 'pol option) \<Rightarrow> ('pol \<Rightarrow> 'alw) \<Rightarrow> ('ref \<Rightarrow> string) \<Rightarrow> (('ref, 'alw, 'inp) SetDeviceOutputPolicy controller_command \<Rightarrow> json)
    \<Rightarrow> ('ref, 'alw, 'inp) SetDeviceOutputPolicy controller_command \<Rightarrow> ('w, local_error, 'pol) op" where
  "set_output_policy C model allowed_of instance dump payload =
     bindS (device_scoped C model ''PUT'' ''output-policy'' (cc_business_owner_id payload) (instance (so_device_ref (cc_subject payload))) (dump payload)
       ''output policy decision'') (\<lambda>policy.
       if allowed_of policy \<noteq> so_allowed (cc_subject payload)
       then raise (InventoryFailed ''Admin Device output policy stored another decision'' 502) else ret policy)"

text \<open>
  Conversations and shared sessions of devices wait forty seconds and catch every \<open>httpx.HTTPError\<close>: beside the three kinds
  the other calls catch, these five.
\<close>

definition other_http_errors :: "string list" where
  "other_http_errors = [''LocalProtocolError'', ''ProxyError'', ''UnsupportedProtocol'', ''DecodingError'', ''TooManyRedirects'']"

definition conversation_send :: "'w fixed_client \<Rightarrow> string \<Rightarrow> string \<Rightarrow> string \<Rightarrow> json \<Rightarrow> ('w, local_error, http_response) op" where
  "conversation_send C unavailable owner_id rest body w =
     (if fc_token C = [] then (Inl inventory_unconfigured, w)
      else case fc_send C (fixed_bearer C ''POST'' (owners_url C owner_id rest)\<lparr>hq_json := Some body, hq_timeout := 40000\<rparr>) w of
             (Lost _, w1) \<Rightarrow> (Inl (InventoryFailed unavailable 503), w1)
           | (Broke name, w1) \<Rightarrow> (Inl (if name \<in> set other_http_errors then InventoryFailed unavailable 503 else OtherFailed name), w1)
           | (Answered response, w1) \<Rightarrow> (Inr response, w1))"

definition succeeded :: "http_response \<Rightarrow> bool" where
  "succeeded response \<longleftrightarrow> 200 \<le> hr_status response \<and> hr_status response < 300"

definition local_conversation ::
  "'w fixed_client \<Rightarrow> (json \<Rightarrow> jobject option) \<Rightarrow> string \<Rightarrow> string \<Rightarrow> string \<Rightarrow> string \<Rightarrow> json \<Rightarrow> ('w, local_error, jobject) op" where
  "local_conversation C model resource action owner_id session_id body =
     (if action \<notin> {''open'', ''status'', ''close''} then raise (OtherFailed ''ValueError'')
      else bindS (conversation_send C ''Device conversation unavailable'' owner_id (''/'' @ resource @ ''/'' @ action) body) (\<lambda>response.
        if \<not> succeeded response then raise (InventoryFailed ''Device conversation refused'' (hr_status response))
        else case Option.bind (hr_json response) model of
               None \<Rightarrow> raise (InventoryFailed ''Invalid device conversation response'' 503)
             | Some result \<Rightarrow>
                 if jget ''session_id'' result \<noteq> JStr session_id
                 then raise (InventoryFailed ''Invalid device conversation response'' 503) else ret result))"

definition local_shared_session ::
  "'w fixed_client \<Rightarrow> string \<Rightarrow> string \<Rightarrow> string \<Rightarrow> json \<Rightarrow> ('w, local_error, jobject) op" where
  "local_shared_session C action owner_id session_id body =
     (if action \<notin> {''open'', ''close''} then raise (OtherFailed ''ValueError'')
      else bindS (conversation_send C ''Shared device transport unavailable'' owner_id (''/shared-sessions/'' @ action) body) (\<lambda>response.
        if \<not> succeeded response then raise (InventoryFailed ''Shared device transport refused'' (hr_status response))
        else case hr_json response of
               Some (JObj result) \<Rightarrow>
                 if jget ''session_id'' result \<noteq> JStr session_id
                    \<or> jget ''state'' result \<noteq> JStr (if action = ''open'' then ''transport_ready'' else ''closed'')
                 then raise (InventoryFailed ''Invalid shared device transport response'' 503) else ret result
             | _ \<Rightarrow> raise (InventoryFailed ''Invalid shared device transport response'' 503)))"

section \<open>The inventory\<close>

record 'ref ClaimRecord =
  cl_device_ref :: 'ref
  cl_updated_at :: string

record LocalDeviceBodyView =
  bv_body_endpoint_id :: string
  bv_mount_revision :: int
  bv_assignment_revision :: int
  bv_answering_companion_id :: "string option"
  bv_selection_provenance :: "string option"
  bv_updated_at :: string

record ('ref, 'out) LocalDeviceView =
  dv_claim :: "'ref ClaimRecord"
  dv_body :: LocalDeviceBodyView
  dv_outputs :: 'out

text \<open>\<open>{item.device_ref.device_instance_id: item for item in claims.items}\<close>: the last item of an id stands.\<close>

definition claimed_of :: "('ref \<Rightarrow> string) \<Rightarrow> 'ref ClaimRecord list \<Rightarrow> string \<Rightarrow> 'ref ClaimRecord option" where
  "claimed_of instance items device_id = find (\<lambda>c. instance (cl_device_ref c) = device_id) (rev items)"

definition present_of :: "'ref body_endpoint list \<Rightarrow> 'ref body_endpoint list" where
  "present_of endpoints = filter be_present endpoints"

definition validate_inventory_membership ::
  "phrases \<Rightarrow> ('ref \<Rightarrow> string) \<Rightarrow> 'ref body_endpoint list \<Rightarrow> string \<Rightarrow> 'ref ClaimRecord list \<Rightarrow> local_error + unit" where
  "validate_inventory_membership ph instance endpoints bound_owner_id claims =
     (if list_ex (\<lambda>e. be_owner_id e \<noteq> bound_owner_id) endpoints
      then Inl (InventoryFailed ''Host Owner scope does not match Kernel Device membership'' 409)
      else if list_ex (\<lambda>e. case claimed_of instance claims (be_device_id e) of None \<Rightarrow> True | Some c \<Rightarrow> cl_device_ref c \<noteq> be_device_ref e)
                (present_of endpoints)
      then Inl (InventoryFailed (ph_syncing ph) 503)
      else Inr ())"

definition device_view :: "'ref body_endpoint \<Rightarrow> 'ref ClaimRecord \<Rightarrow> 'out \<Rightarrow> ('ref, 'out) LocalDeviceView" where
  "device_view e claim outputs =
     (let force = (case be_assignment e of None \<Rightarrow> None | Some _ \<Rightarrow> Some (be_in_force e))
      in \<lparr>dv_claim = claim,
          dv_body = \<lparr>bv_body_endpoint_id = be_body_endpoint_id e, bv_mount_revision = be_mount_revision e,
            bv_assignment_revision = assignment_revision_of (endpoint_core e),
            bv_answering_companion_id = (case force of None \<Rightarrow> None | Some f \<Rightarrow> if_companion_id f),
            bv_selection_provenance = (case force of None \<Rightarrow> None | Some f \<Rightarrow> if_provenance f),
            bv_updated_at = (case force of None \<Rightarrow> cl_updated_at claim | Some f \<Rightarrow> if_updated_at f)\<rparr>,
          dv_outputs = outputs\<rparr>)"

text \<open>The models of the views: lengths, and revisions that do not go below their least value.\<close>

definition fits_device_view :: "('ref, 'out) LocalDeviceView \<Rightarrow> bool" where
  "fits_device_view v \<longleftrightarrow>
     (let b = dv_body v
      in 1 \<le> length (bv_body_endpoint_id b) \<and> length (bv_body_endpoint_id b) \<le> 128 \<and> 1 \<le> bv_mount_revision b \<and> 0 \<le> bv_assignment_revision b
         \<and> (case bv_answering_companion_id b of None \<Rightarrow> True | Some c \<Rightarrow> 1 \<le> length c \<and> length c \<le> 64)
         \<and> (case bv_selection_provenance b of None \<Rightarrow> True | Some p \<Rightarrow> length p \<le> 32))"

definition owner_device_inventory_view ::
  "phrases \<Rightarrow> ('ref \<Rightarrow> string) \<Rightarrow> 'ref body_endpoint list \<Rightarrow> string \<Rightarrow> 'ref ClaimRecord list \<Rightarrow> (string \<times> 'out) list
    \<Rightarrow> local_error + ('ref, 'out) LocalDeviceView list" where
  "owner_device_inventory_view ph instance endpoints bound_owner_id claims outputs =
     (case validate_inventory_membership ph instance endpoints bound_owner_id claims of
        Inl e \<Rightarrow> Inl e
      | Inr _ \<Rightarrow>
          (if list_ex (\<lambda>e. map_of outputs (be_device_id e) = None) (present_of endpoints)
           then Inl (InventoryFailed ''Device output configuration is missing for a claimed device'' 502)
           else (let devices = map (\<lambda>e. device_view e (the (claimed_of instance claims (be_device_id e))) (the (map_of outputs (be_device_id e))))
                       (present_of endpoints)
                 in if list_all fits_device_view devices \<and> length devices \<le> 100 then Inr devices else Inl (OtherFailed ''ValidationError''))))"

text \<open>
  What the composition is given: the onboarding target, by its Owner Domain, the SDK with its check of the two identities,
  and the clients. \<open>asyncio.gather\<close> asks one after the other here, and a state of a Claim goes by its name.
\<close>

record ('w, 'ref, 'rem, 'out, 'alw, 'inp) device_ports =
  dp_target :: "string option"
  dp_identities_ok :: "string \<Rightarrow> string \<Rightarrow> bool"
  dp_sdk :: "('ref, 'rem) sdk"
  dp_removed_ref :: "'rem \<Rightarrow> 'ref"
  dp_removed_state :: "'rem \<Rightarrow> string"
  dp_endpoints :: "string \<Rightarrow> ('w, local_error, 'ref body_endpoint list) op"
  dp_claims :: "page_query controller_command \<Rightarrow> ('w, local_error, 'ref ClaimRecord owner_page) op"
  dp_outputs :: "'ref controller_command \<Rightarrow> ('w, local_error, 'out) op"
  dp_set_outputs :: "('ref, 'alw, 'inp) SetDeviceOutputPolicy controller_command \<Rightarrow> ('w, local_error, unit) op"
  dp_set_companion :: "ControllerBodyAssignment \<Rightarrow> ('w, local_error, unit) op"
  dp_remove :: "ControllerDeviceRemovalRequest \<Rightarrow> json \<Rightarrow> int \<Rightarrow> 'ref \<Rightarrow> ('w, local_error, ('ref, 'rem) DeviceRemovalResult) op"
  dp_shared :: "string \<Rightarrow> (string \<times> ('ref list \<times> string) option) controller_command \<Rightarrow> ('w, local_error, jobject) op"
  dp_withdraw :: "(string \<times> string) controller_command \<Rightarrow> ('w, local_error, string \<times> string) op"

definition admission_scope ::
  "phrases \<Rightarrow> ('w, 'ref, 'rem, 'out, 'alw, 'inp) device_ports \<Rightarrow> string \<Rightarrow> local_error + (string \<times> string)" where
  "admission_scope ph D owner_id =
     (case dp_target D of
        None \<Rightarrow> Inl (HttpFailed 503 (reason_body (ph_no_target ph)))
      | Some owner_domain_id \<Rightarrow>
          (if dp_identities_ok D owner_domain_id owner_id then Inr (owner_domain_id, owner_id)
           else Inl (HttpFailed 503 (JStr ''Host Owner Domain or business Owner identity is invalid''))))"

definition all_claims :: "string \<Rightarrow> page_query" where
  "all_claims owner_domain_id =
     \<lparr>pq_owner_domain_id = owner_domain_id, pq_states = [''active'', ''suspended'', ''revoked''], pq_limit = 200, pq_cursor = None\<rparr>"

fun gather :: "('a \<Rightarrow> ('s, 'e, 'b) op) \<Rightarrow> 'a list \<Rightarrow> ('s, 'e, 'b list) op" where
  "gather f [] = ret []"
| "gather f (x # xs) = bindS (f x) (\<lambda>y. bindS (gather f xs) (\<lambda>ys. ret (y # ys)))"

definition composed_device_inventory ::
  "phrases \<Rightarrow> ('w, 'ref, 'rem, 'out, 'alw, 'inp) device_ports \<Rightarrow> string \<Rightarrow> string \<Rightarrow> ('w, local_error, ('ref, 'out) LocalDeviceView list) op" where
  "composed_device_inventory ph D owner_id controller_id =
     bindS (of_answer (admission_scope ph D owner_id)) (\<lambda>(owner_domain_id, business_owner_id).
     bindS (dp_endpoints D owner_id) (\<lambda>endpoints.
     bindS (dp_claims D (command_of controller_id owner_domain_id business_owner_id (all_claims owner_domain_id))) (\<lambda>claims.
     bindS (of_answer (validate_inventory_membership ph (ref_device_instance_id (dp_sdk D)) endpoints owner_id (pg_items claims))) (\<lambda>_.
     bindS (gather (\<lambda>e. dp_outputs D (command_of controller_id owner_domain_id business_owner_id (be_device_ref e))) (present_of endpoints)) (\<lambda>configurations.
       of_answer (owner_device_inventory_view ph (ref_device_instance_id (dp_sdk D)) endpoints owner_id (pg_items claims)
         (rev (zip (map be_device_id (present_of endpoints)) configurations))))))))"

section \<open>Changing a device\<close>

definition backend_error :: "int \<Rightarrow> string \<Rightarrow> local_error" where
  "backend_error status_code reason = BackendFailed status_code (refusal_for_status status_code reason None)"

definition as_backend :: "local_error \<Rightarrow> local_error" where
  "as_backend exc =
     (case exc of
        InventoryFailed message status_code \<Rightarrow> backend_error status_code message
      | AdmissionFailed e \<Rightarrow> backend_error (de_status_code e) (de_message e)
      | _ \<Rightarrow> exc)"

definition list_devices ::
  "phrases \<Rightarrow> ('w, 'ref, 'rem, 'out, 'alw, 'inp) device_ports \<Rightarrow> device_session \<Rightarrow> ('w, local_error, ('ref, 'out) LocalDeviceView list) op" where
  "list_devices ph D session = mapE as_backend (composed_device_inventory ph D (ds_owner_id session) (ds_controller_id session))"

definition view_id :: "('w, 'ref, 'rem, 'out, 'alw, 'inp) device_ports \<Rightarrow> ('ref, 'out) LocalDeviceView \<Rightarrow> string" where
  "view_id D v = ref_device_instance_id (dp_sdk D) (cl_device_ref (dv_claim v))"

definition reread ::
  "phrases \<Rightarrow> ('w, 'ref, 'rem, 'out, 'alw, 'inp) device_ports \<Rightarrow> device_session \<Rightarrow> string \<Rightarrow> ('w, local_error, ('ref, 'out) LocalDeviceView) op" where
  "reread ph D session device_id =
     bindS (list_devices ph D session) (\<lambda>refreshed.
       case find (\<lambda>v. view_id D v = device_id) refreshed of
         Some v \<Rightarrow> ret v
       | None \<Rightarrow> raise (backend_error 409 ''Device stopped being mounted''))"

definition set_device_outputs ::
  "phrases \<Rightarrow> ('w, 'ref, 'rem, 'out, 'alw, 'inp) device_ports \<Rightarrow> device_session \<Rightarrow> string \<Rightarrow> 'alw \<Rightarrow> int \<Rightarrow> 'inp option
    \<Rightarrow> ('w, local_error, ('ref, 'out) LocalDeviceView) op" where
  "set_device_outputs ph D session device_id allowed expected_revision inputs =
     bindS (of_answer (admission_scope ph D (ds_owner_id session))) (\<lambda>(owner_domain_id, business_owner_id).
     bindS (list_devices ph D session) (\<lambda>inventory.
       case find (\<lambda>v. view_id D v = device_id) inventory of
         None \<Rightarrow> raise (backend_error 404 ''Device is not mounted'')
       | Some held \<Rightarrow>
           bindS (mapE (\<lambda>exc. case exc of InventoryFailed message status_code \<Rightarrow> backend_error status_code message | _ \<Rightarrow> exc)
             (dp_set_outputs D (command_of (ds_controller_id session) owner_domain_id business_owner_id
               \<lparr>so_device_ref = cl_device_ref (dv_claim held), so_expected_revision = expected_revision, so_allowed = allowed, so_inputs = inputs\<rparr>))) (\<lambda>_.
             reread ph D session device_id)))"

definition local_set_device_companion ::
  "phrases \<Rightarrow> ('w, 'ref, 'rem, 'out, 'alw, 'inp) device_ports \<Rightarrow> device_session \<Rightarrow> string \<Rightarrow> string option \<Rightarrow> int \<Rightarrow> string
    \<Rightarrow> ('w, local_error, ('ref, 'out) LocalDeviceView) op" where
  "local_set_device_companion ph D session device_id companion_id expected_assignment_revision request_id =
     bindS (list_devices ph D session) (\<lambda>inventory.
       if list_all (\<lambda>v. view_id D v \<noteq> device_id) inventory then raise (backend_error 404 ''Device is not mounted'')
       else bindS (mapE (\<lambda>exc. case exc of InventoryFailed message status_code \<Rightarrow> backend_error status_code message | _ \<Rightarrow> exc)
             (dp_set_companion D \<lparr>as_request_id = request_id, as_owner_id = ds_owner_id session, as_device_id = device_id,
               as_companion_id = companion_id, as_expected_assignment_revision = expected_assignment_revision, as_origin = ''owner''\<rparr>)) (\<lambda>_.
             reread ph D session device_id))"

definition owned_device_ref ::
  "phrases \<Rightarrow> ('w, 'ref, 'rem, 'out, 'alw, 'inp) device_ports \<Rightarrow> string \<Rightarrow> string \<Rightarrow> string \<Rightarrow> ('w, local_error, 'ref) op" where
  "owned_device_ref ph D owner_id controller_id device_id =
     bindS (of_answer (admission_scope ph D owner_id)) (\<lambda>(owner_domain_id, business_owner_id).
     bindS (mapE (\<lambda>exc. case exc of AdmissionFailed e \<Rightarrow> backend_error (de_status_code e) (de_message e) | _ \<Rightarrow> exc)
       (dp_claims D (command_of controller_id owner_domain_id business_owner_id (all_claims owner_domain_id)))) (\<lambda>page.
       case find (\<lambda>c. ref_device_instance_id (dp_sdk D) (cl_device_ref c) = device_id) (pg_items page) of
         Some c \<Rightarrow> ret (cl_device_ref c)
       | None \<Rightarrow> raise (backend_error 404 ''Device does not exist'')))"

text \<open>The last step is outside the \<open>try\<close>: what it raises is a \<open>DeviceAdmissionError\<close>.\<close>

definition local_remove_device ::
  "phrases \<Rightarrow> ('w, 'ref, 'rem, 'out, 'alw, 'inp) device_ports \<Rightarrow> device_session \<Rightarrow> string \<Rightarrow> string
    \<Rightarrow> ('w, local_error, LocalDeviceRemovalProgress) op" where
  "local_remove_device ph D session device_id request_id =
     bindS (owned_device_ref ph D (ds_owner_id session) (ds_controller_id session) device_id) (\<lambda>device_ref.
     bindS (mapE (\<lambda>exc. case exc of
           AdmissionFailed e \<Rightarrow> BackendFailed (de_status_code e) (refusal_for_status (de_status_code e) (device_admission_reason ph e) None)
         | _ \<Rightarrow> exc)
       (dp_remove D \<lparr>cd_request_id = request_id, cd_owner_id = ds_owner_id session, cd_controller_id = ds_controller_id session,
            cd_device_id = device_id, cd_reason = ''owner-removed''\<rparr>
          (ls_reset_epoch (ds_controller_session session)) (ls_expires_at (ds_controller_session session)) device_ref)) (\<lambda>result.
       case device_removal_progress (dp_sdk D) (dp_removed_ref D) (dp_removed_state D) (ds_owner_id session) device_id result of
         Inl e \<Rightarrow> raise (AdmissionFailed e)
       | Inr progress \<Rightarrow> ret progress))"

text \<open>A shared session: opened for devices that are all held, closed by its id. A selection is one that the SDK's model takes.\<close>

definition shared_command ::
  "phrases \<Rightarrow> ('w, 'ref, 'rem, 'out, 'alw, 'inp) device_ports \<Rightarrow> device_session \<Rightarrow> string \<Rightarrow> string \<Rightarrow> ('ref list \<times> string) option
    \<Rightarrow> ('w, local_error, jobject) op" where
  "shared_command ph D session action session_id selection =
     bindS (of_answer (admission_scope ph D (ds_owner_id session))) (\<lambda>(owner_domain_id, business_owner_id).
       mapE (\<lambda>exc. case exc of InventoryFailed message status_code \<Rightarrow> backend_error status_code message | _ \<Rightarrow> exc)
         (dp_shared D action (command_of (ds_controller_id session) owner_domain_id business_owner_id (session_id, selection))))"

text \<open>\<open>held[d]\<close> is the last row of the id.\<close>

definition held_ref :: "('w, 'ref, 'rem, 'out, 'alw, 'inp) device_ports \<Rightarrow> ('ref, 'out) LocalDeviceView list \<Rightarrow> string \<Rightarrow> 'ref option" where
  "held_ref D inventory device_id = map_option (\<lambda>v. cl_device_ref (dv_claim v)) (find (\<lambda>v. view_id D v = device_id) (rev inventory))"

definition open_shared_session ::
  "phrases \<Rightarrow> ('w, 'ref, 'rem, 'out, 'alw, 'inp) device_ports \<Rightarrow> device_session \<Rightarrow> string \<Rightarrow> string list \<Rightarrow> string
    \<Rightarrow> ('w, local_error, jobject) op" where
  "open_shared_session ph D session session_id device_ids input_device_id =
     bindS (list_devices ph D session) (\<lambda>inventory.
       if list_ex (\<lambda>d. held_ref D inventory d = None) device_ids
       then raise (backend_error 403 ''Selected device is not owned and mounted'')
       else shared_command ph D session ''open'' session_id (Some (map (\<lambda>d. the (held_ref D inventory d)) device_ids, input_device_id)))"

definition close_shared_session ::
  "phrases \<Rightarrow> ('w, 'ref, 'rem, 'out, 'alw, 'inp) device_ports \<Rightarrow> device_session \<Rightarrow> string \<Rightarrow> ('w, local_error, jobject) op" where
  "close_shared_session ph D session session_id = shared_command ph D session ''close'' session_id None"

text \<open>A request of the management surface about devices: who asks first, then the change; a refusal leaves in its envelope.\<close>

definition refused :: "local_error \<Rightarrow> local_error" where
  "refused exc = (case exc of BackendFailed status_code refusal \<Rightarrow> enveloped status_code refusal | _ \<Rightarrow> exc)"

definition device_request ::
  "('b, 'w) local_app \<Rightarrow> (device_session \<Rightarrow> ('w, local_error, 'a) op) \<Rightarrow> string option \<Rightarrow> (('b, 'w) local_state, local_error, 'a) op" where
  "device_request A act authorization =
     bindS (management_device_session A authorization) (\<lambda>session. on_world (mapE refused (act session)))"

section \<open>Phones\<close>

record ControllerView =
  cw_controller_id :: string
  cw_display_name :: string
  cw_platform :: string
  cw_role :: string
  cw_fingerprint :: string
  cw_claimed_at :: string
  cw_is_you :: bool

text \<open>\<open>str(row.get(k) or default)\<close>.\<close>

definition text_or :: "string \<Rightarrow> string \<Rightarrow> jobject \<Rightarrow> string" where
  "text_or otherwise k row = (if py_true (jget k row) then py_str (jget k row) else otherwise)"

definition fits_controller :: "ControllerView \<Rightarrow> bool" where
  "fits_controller c \<longleftrightarrow> length (cw_controller_id c) \<le> 64 \<and> length (cw_display_name c) \<le> 128 \<and> length (cw_platform c) \<le> 64
     \<and> length (cw_role c) \<le> 32 \<and> length (cw_fingerprint c) \<le> 128 \<and> 1 \<le> length (cw_claimed_at c) \<and> length (cw_claimed_at c) \<le> 64"

definition controller_view :: "jobject \<Rightarrow> json \<Rightarrow> local_error + ControllerView" where
  "controller_view row asking =
     (let controller_id = text_or [] ''controller_id'' row
      in if controller_id = [] then Inl (refuse 502 ''Host answered with a controller that has no identifier'' None None)
         else (let view = \<lparr>cw_controller_id = controller_id, cw_display_name = text_or [] ''display_name'' row,
                 cw_platform = text_or [] ''platform'' row, cw_role = text_or ''unknown'' ''role'' row,
                 cw_fingerprint = text_or [] ''public_key_fingerprint'' row, cw_claimed_at = text_or [] ''created_at'' row,
                 cw_is_you = (JStr controller_id = asking)\<rparr>
               in if fits_controller view then Inr view else Inl (OtherFailed ''ValidationError'')))"

text \<open>
  What the phone vouched for ends before its grant does. The two ids are what the routes have: who asks, as the daemon named
  it, and the id in the path.
\<close>

definition withdraw_standing_of ::
  "('b, 'w) local_app \<Rightarrow> ('w, 'ref, 'rem, 'out, 'alw, 'inp) device_ports \<Rightarrow> json \<Rightarrow> string
    \<Rightarrow> (('b, 'w) local_state, local_error, unit) op" where
  "withdraw_standing_of A D controller_id target_id =
     (if dp_target D = None then ret ()
      else bindS (host_owner_id A) (\<lambda>owner_id.
        case owner_id of
          None \<Rightarrow> ret ()
        | Some owner \<Rightarrow>
            bindS (of_answer (admission_scope (ap_phrases A) D owner)) (\<lambda>(owner_domain_id, business_owner_id).
              case controller_id of
                JStr c \<Rightarrow>
                  bindS (mapE (\<lambda>exc. case exc of
                      AdmissionFailed e \<Rightarrow> HttpFailed (de_status_code e) (device_admission_detail (ap_phrases A) e) | _ \<Rightarrow> exc)
                    (on_world (dp_withdraw D (command_of c owner_domain_id business_owner_id (owner_domain_id, target_id))))) (\<lambda>_. ret ())
              | _ \<Rightarrow> raise (OtherFailed ''ValidationError''))))"

definition local_revoke_controller ::
  "('b, 'w) local_app \<Rightarrow> ('w, 'ref, 'rem, 'out, 'alw, 'inp) device_ports \<Rightarrow> json \<Rightarrow> string
    \<Rightarrow> (('b, 'w) local_state, local_error, jobject) op" where
  "local_revoke_controller A D controller_id target_id =
     bindS (withdraw_standing_of A D controller_id target_id) (\<lambda>_.
       ask A True False ''controller.revoke'' [(''controller_id'', controller_id), (''target_id'', JStr target_id)])"

definition local_list_controllers :: "('b, 'w) local_app \<Rightarrow> json \<Rightarrow> (('b, 'w) local_state, local_error, jobject) op" where
  "local_list_controllers A controller_id = ask A True False ''controller.list'' [(''controller_id'', controller_id)]"

definition route_revoke_controller ::
  "('b, 'w) local_app \<Rightarrow> ('w, 'ref, 'rem, 'out, 'alw, 'inp) device_ports \<Rightarrow> string \<Rightarrow> string option
    \<Rightarrow> (('b, 'w) local_state, local_error, ControllerView) op" where
  "route_revoke_controller A D target_id authorization =
     bindS (management_controller A authorization) (\<lambda>asking.
     bindS (local_revoke_controller A D asking target_id) (\<lambda>reply.
       case jget_default ''controller'' (JObj []) reply of
         JObj row \<Rightarrow> of_answer (controller_view row asking)
       | _ \<Rightarrow> raise (OtherFailed ''AttributeError'')))"

definition route_list_controllers ::
  "('b, 'w) local_app \<Rightarrow> string option \<Rightarrow> (('b, 'w) local_state, local_error, ControllerView list) op" where
  "route_list_controllers A authorization =
     bindS (management_controller A authorization) (\<lambda>asking.
     bindS (local_list_controllers A asking) (\<lambda>reply.
       case jget_default ''controllers'' (JList []) reply of
         JList rows \<Rightarrow> gather (\<lambda>row. case row of JObj r \<Rightarrow> of_answer (controller_view r asking) | _ \<Rightarrow> raise (OtherFailed ''AttributeError'')) rows
       | _ \<Rightarrow> raise (OtherFailed ''TypeError'')))"

section \<open>The authorities agree about a device that is listed\<close>

lemma gather_results:
  assumes "gather f xs s = (Inr ys, s')"
  shows "length ys = length xs \<and> (\<forall>x y. (x, y) \<in> set (zip xs ys) \<longrightarrow> (\<exists>t t'. f x t = (Inr y, t')))"
  using assms
proof (induction xs arbitrary: s ys)
  case (Cons x xs)
  then obtain y t zs where "f x s = (Inr y, t)" "gather f xs t = (Inr zs, s')" "ys = y # zs"
    by (auto simp: bindS_def ret_def split: prod.splits sum.splits)
  with Cons.IH [of t zs] show ?case by auto
qed (simp add: ret_def)

lemma claimed_of_some:
  assumes "claimed_of instance items device_id = Some c"
  shows "c \<in> set items" "instance (cl_device_ref c) = device_id"
  using assms by (auto simp: claimed_of_def find_Some_iff in_set_conv_nth rev_nth) (metis diff_Suc_less gr_implies_not0 length_greater_0_conv nat_neq_iff)

lemma membership_ok:
  assumes "validate_inventory_membership ph instance endpoints owner claims = Inr u" and "e \<in> set (present_of endpoints)"
  obtains c where "claimed_of instance claims (be_device_id e) = Some c" "cl_device_ref c = be_device_ref e" "be_owner_id e = owner"
proof -
  from assms have "be_owner_id e = owner" "\<not> (case claimed_of instance claims (be_device_id e) of None \<Rightarrow> True | Some c \<Rightarrow> cl_device_ref c \<noteq> be_device_ref e)"
    by (auto simp: validate_inventory_membership_def present_of_def list_ex_iff split: if_splits)
  with that show thesis by (cases "claimed_of instance claims (be_device_id e)") auto
qed

lemma of_answer_run: "of_answer r s = (r, s)"
  by (cases r) (simp_all add: of_answer_def raise_def ret_def)

lemma inventory_run:
  assumes "composed_device_inventory ph D owner controller w = (Inr views, w')"
  obtains od endpoints w1 claims w2 confs where "admission_scope ph D owner = Inr (od, owner)"
    "dp_endpoints D owner w = (Inr endpoints, w1)" "dp_claims D (command_of controller od owner (all_claims od)) w1 = (Inr claims, w2)"
    "validate_inventory_membership ph (ref_device_instance_id (dp_sdk D)) endpoints owner (pg_items claims) = Inr ()"
    "gather (\<lambda>e. dp_outputs D (command_of controller od owner (be_device_ref e))) (present_of endpoints) w2 = (Inr confs, w')"
    "owner_device_inventory_view ph (ref_device_instance_id (dp_sdk D)) endpoints owner (pg_items claims)
       (rev (zip (map be_device_id (present_of endpoints)) confs)) = Inr views"
proof -
  obtain od where scope: "admission_scope ph D owner = Inr (od, owner)"
    using assms by (cases "admission_scope ph D owner")
      (auto simp: composed_device_inventory_def of_answer_def raise_def bindS_def admission_scope_def split: option.splits if_splits)
  with assms that show thesis
    by (auto simp: composed_device_inventory_def of_answer_run bindS_def split: prod.splits sum.splits)
qed

text \<open>The configuration that is shown beside a device was answered about the reference of that device.\<close>

lemma configuration_of_device:
  assumes confs: "gather (\<lambda>e. dp_outputs D (command_of controller od owner (be_device_ref e))) es w = (Inr confs, w')"
    and about: "\<And>q t out t'. dp_outputs D q t = (Inr out, t') \<Longrightarrow> ref_of out = cc_subject q"
    and found: "map_of (rev (zip (map be_device_id es) confs)) d = Some out"
  shows "\<exists>e \<in> set es. be_device_id e = d \<and> ref_of out = be_device_ref e"
proof -
  note g = gather_results [OF confs]
  from map_of_SomeD [OF found] have "(d, out) \<in> set (zip (map be_device_id es) confs)" by simp
  then obtain e where e: "(e, out) \<in> set (zip es confs)" "be_device_id e = d"
    by (auto simp: zip_map1)
  then obtain t t' where "dp_outputs D (command_of controller od owner (be_device_ref e)) t = (Inr out, t')" using g by blast
  from about [OF this] e show ?thesis by (auto simp: command_of_def dest: set_zip_leftD)
qed

text \<open>
  C17. The inventory of an Owner lists each device that the Kernel reports present, in its order, and the three
  authorities agree about it: the Body belongs to the Owner of the session, its Claim is one that the Hub listed for the Host's Owner
  Domain, for the very reference the Kernel holds, and the configuration shown beside it was answered about that
  reference.
\<close>

theorem inventory_agrees:
  assumes "composed_device_inventory ph D owner controller w = (Inr views, w')"
    and "dp_claims D = query_claims C claim_model claim_dump"
    and "dp_outputs D = read_output_configuration C' out_model ref_of instance out_dump"
  shows "\<exists>od endpoints w1 claims w2. dp_target D = Some od \<and> dp_endpoints D owner w = (Inr endpoints, w1)
    \<and> dp_claims D (command_of controller od owner (all_claims od)) w1 = (Inr claims, w2) \<and> pg_owner_domain_id claims = od
    \<and> length views = length (filter be_present endpoints)
    \<and> (\<forall>i < length views. be_owner_id (filter be_present endpoints ! i) = owner
         \<and> view_id D (views ! i) = be_device_id (filter be_present endpoints ! i)
         \<and> dv_claim (views ! i) \<in> set (pg_items claims)
         \<and> cl_device_ref (dv_claim (views ! i)) = be_device_ref (filter be_present endpoints ! i)
         \<and> ref_of (dv_outputs (views ! i)) = be_device_ref (filter be_present endpoints ! i))"
proof -
  let ?inst = "ref_device_instance_id (dp_sdk D)"
  from assms(1) obtain od endpoints w1 claims w2 confs where run: "admission_scope ph D owner = Inr (od, owner)"
    "dp_endpoints D owner w = (Inr endpoints, w1)" "dp_claims D (command_of controller od owner (all_claims od)) w1 = (Inr claims, w2)"
    "validate_inventory_membership ph ?inst endpoints owner (pg_items claims) = Inr ()"
    "gather (\<lambda>e. dp_outputs D (command_of controller od owner (be_device_ref e))) (present_of endpoints) w2 = (Inr confs, w')"
    and view: "owner_device_inventory_view ph ?inst endpoints owner (pg_items claims)
       (rev (zip (map be_device_id (present_of endpoints)) confs)) = Inr views"
    by (rule inventory_run)
  have target: "dp_target D = Some od" using run(1) by (auto simp: admission_scope_def split: option.splits if_splits)
  have domain: "pg_owner_domain_id claims = od"
    using run(3) unfolding assms(2)
    by (auto simp: query_claims_def bindS_def raise_def ret_def command_of_def all_claims_def split: prod.splits sum.splits if_splits)
  have about: "ref_of out = cc_subject q" if "dp_outputs D q t = (Inr out, t')" for q t out t'
    using that unfolding assms(3)
    by (auto simp: read_output_configuration_def bindS_def raise_def ret_def split: prod.splits sum.splits if_splits)
  let ?outs = "rev (zip (map be_device_id (present_of endpoints)) confs)"
  have views: "views = map (\<lambda>e. device_view e (the (claimed_of ?inst (pg_items claims) (be_device_id e))) (the (map_of ?outs (be_device_id e))))
      (present_of endpoints)" and outs: "\<And>e. e \<in> set (present_of endpoints) \<Longrightarrow> map_of ?outs (be_device_id e) \<noteq> None"
    using view run(4) by (auto simp: owner_device_inventory_view_def Let_def list_ex_iff simp del: map_of_eq_None_iff split: if_splits)
  have "be_owner_id e = owner \<and> view_id D v = be_device_id e \<and> dv_claim v \<in> set (pg_items claims)
      \<and> cl_device_ref (dv_claim v) = be_device_ref e \<and> ref_of (dv_outputs v) = be_device_ref e"
    if e: "e \<in> set (present_of endpoints)" and v: "v = device_view e (the (claimed_of ?inst (pg_items claims) (be_device_id e))) (the (map_of ?outs (be_device_id e)))" for e v
  proof -
    obtain c where c: "claimed_of ?inst (pg_items claims) (be_device_id e) = Some c" "cl_device_ref c = be_device_ref e" "be_owner_id e = owner"
      using membership_ok [OF run(4) e] by blast
    obtain out where out: "map_of ?outs (be_device_id e) = Some out" using outs [OF e] by blast
    have "\<exists>e' \<in> set (present_of endpoints). be_device_id e' = be_device_id e \<and> ref_of out = be_device_ref e'"
      by (rule configuration_of_device [OF run(5) _ out]) (rule about)
    then obtain e' where e': "e' \<in> set (present_of endpoints)" "be_device_id e' = be_device_id e" "ref_of out = be_device_ref e'" by blast
    obtain c' where "claimed_of ?inst (pg_items claims) (be_device_id e') = Some c'" "cl_device_ref c' = be_device_ref e'"
      using membership_ok [OF run(4) e'(1)] by blast
    with e'(2) c have "be_device_ref e' = be_device_ref e" by simp
    with c claimed_of_some [OF c(1)] out e'(3) v show ?thesis
      by (simp add: view_id_def device_view_def Let_def)
  qed
  then have "\<forall>i < length views. be_owner_id (filter be_present endpoints ! i) = owner
         \<and> view_id D (views ! i) = be_device_id (filter be_present endpoints ! i)
         \<and> dv_claim (views ! i) \<in> set (pg_items claims)
         \<and> cl_device_ref (dv_claim (views ! i)) = be_device_ref (filter be_present endpoints ! i)
         \<and> ref_of (dv_outputs (views ! i)) = be_device_ref (filter be_present endpoints ! i)"
    by (simp add: views present_of_def [symmetric])
  then show ?thesis using target run(2,3) domain views by (auto simp: present_of_def)
qed

text \<open>
  One Claim that the page does not hold takes the whole inventory away. The page is the first two hundred Claims, those that
  were revoked among them, and no second page is asked for.
\<close>

lemma missing_claim_blinds_inventory:
  assumes "admission_scope ph D owner = Inr (od, owner)" and "dp_endpoints D owner w = (Inr endpoints, w1)"
    and "dp_claims D (command_of controller od owner (all_claims od)) w1 = (Inr claims, w2)"
    and "\<forall>e \<in> set endpoints. be_owner_id e = owner"
    and "e \<in> set endpoints" and "be_present e" and "\<forall>c \<in> set (pg_items claims). cl_device_ref c \<noteq> be_device_ref e"
  shows "composed_device_inventory ph D owner controller w = (Inl (InventoryFailed (ph_syncing ph) 503), w2)"
proof -
  have "case claimed_of (ref_device_instance_id (dp_sdk D)) (pg_items claims) (be_device_id e) of None \<Rightarrow> True | Some c \<Rightarrow> cl_device_ref c \<noteq> be_device_ref e"
    using assms(7) by (auto split: option.split dest: claimed_of_some(1))
  then have "validate_inventory_membership ph (ref_device_instance_id (dp_sdk D)) endpoints owner (pg_items claims) = Inl (InventoryFailed (ph_syncing ph) 503)"
    using assms(4,5,6) by (auto simp: validate_inventory_membership_def list_ex_iff present_of_def)
  with assms(1-3) show ?thesis by (simp add: composed_device_inventory_def bindS_def of_answer_run)
qed

text \<open>A device that the Owner does not hold is not touched: nothing is asked beyond the inventory.\<close>

lemma unheld_device_untouched:
  assumes "list_devices ph D session w = (Inr views, w1)" and "\<forall>v \<in> set views. view_id D v \<noteq> device_id"
  shows "local_set_device_companion ph D session device_id companion revision request_id w = (Inl (backend_error 404 ''Device is not mounted''), w1)"
    and "admission_scope ph D (ds_owner_id session) = Inr scope \<Longrightarrow>
      set_device_outputs ph D session device_id allowed expected inputs w = (Inl (backend_error 404 ''Device is not mounted''), w1)"
    and "device_id \<in> set device_ids \<Longrightarrow>
      open_shared_session ph D session session_id device_ids input_id w = (Inl (backend_error 403 ''Selected device is not owned and mounted''), w1)"
proof -
  have none: "find (\<lambda>v. view_id D v = device_id) views = None" "find (\<lambda>v. view_id D v = device_id) (rev views) = None"
    using assms(2) by (auto simp: find_None_iff)
  then have unheld: "held_ref D views device_id = None" by (simp add: held_ref_def)
  show "local_set_device_companion ph D session device_id companion revision request_id w = (Inl (backend_error 404 ''Device is not mounted''), w1)"
    using assms by (simp add: local_set_device_companion_def bindS_def raise_def list_all_iff)
  show "set_device_outputs ph D session device_id allowed expected inputs w = (Inl (backend_error 404 ''Device is not mounted''), w1)"
    if "admission_scope ph D (ds_owner_id session) = Inr scope"
    using that assms(1) none(1) by (simp add: set_device_outputs_def bindS_def raise_def of_answer_run split_def)
  show "open_shared_session ph D session session_id device_ids input_id w = (Inl (backend_error 403 ''Selected device is not owned and mounted''), w1)"
    if "device_id \<in> set device_ids"
    using that assms(1) unheld by (auto simp: open_shared_session_def bindS_def raise_def list_ex_iff)
qed

text \<open>
  What a removal answers is checked after the last handler: an answer that does not confirm the device leaves the surface as
  an exception, not as a refusal.
\<close>

lemma unconfirmed_removal_uncaught:
  assumes "owned_device_ref ph D (ds_owner_id session) (ds_controller_id session) device_id w = (Inr ref, w1)"
    and "dp_remove D \<lparr>cd_request_id = request_id, cd_owner_id = ds_owner_id session, cd_controller_id = ds_controller_id session,
        cd_device_id = device_id, cd_reason = ''owner-removed''\<rparr> (ls_reset_epoch (ds_controller_session session))
      (ls_expires_at (ds_controller_session session)) ref w1 = (Inr result, w2)"
    and "device_removal_progress (dp_sdk D) (dp_removed_ref D) (dp_removed_state D) (ds_owner_id session) device_id result = Inl e"
  shows "mapE refused (local_remove_device ph D session device_id request_id) w = (Inl (AdmissionFailed e), w2)"
  using assms by (simp add: local_remove_device_def bindS_def mapE_def catchS_def raise_def refused_def)

section \<open>A phone is revoked\<close>

text \<open>Over a daemon, asking whose Host this is changes nothing of the daemon.\<close>

lemma descriptor_asked:
  assumes "ap_link A = daemon_link P network H"
  shows "operation_id_for_host A s = (fst (operation_id_for_host A s), s)"
  by (simp add: operation_id_for_host_def ask_def assms on_boot_def daemon_answers ct_dispatch_def jget_def ret_def bindS_def raise_def
      split: option.split)

lemma host_owner_boot:
  assumes "ap_link A = daemon_link P network H" and "host_owner_id A s = (r, s1)"
  shows "lo_boot s1 = lo_boot s"
proof -
  obtain x where x: "operation_id_for_host A s = (x, s)" using descriptor_asked [OF assms(1)] by metis
  have world: "lo_boot (snd (on_world m s)) = lo_boot s" for m by (simp add: on_world_def split: prod.split)
  show ?thesis
  proof (cases x)
    case (Inl e)
    with assms(2) x show ?thesis by (cases e) (auto simp: host_owner_id_def catchS_def bindS_def raise_def)
  next
    case (Inr operation_id)
    obtain y t where y: "on_world (existing_workspace A operation_id) s = (y, t)" by fastforce
    then have "lo_boot t = lo_boot s" using world [of "existing_workspace A operation_id"] by simp
    with assms(2) x Inr y show ?thesis
      by (cases y) (auto simp: host_owner_id_def catchS_def bindS_def raise_def ret_def split: local_error.splits)
  qed
qed

text \<open>The daemon refuses to give up the last Controller, and says so in a way that the phone reads as an outage.\<close>

lemma last_controller_kept:
  assumes inv: "sq_inv (key_names_of (h_env H)) (w_store (sv_world v))"
    and active: "fst (hs_active_controller sqlite_store (JStr cid) (sv_world v)) = Inr g"
    and only: "\<And>c. authorized sqlite_store (w_store (sv_world v)) c \<noteq> None \<Longrightarrow> c = cid"
    and run: "request_bootstrap (daemon_link sqlite_store network H) True False ''controller.revoke''
      [(''controller_id'', JStr cid), (''target_id'', JStr cid)] v = (r, v')"
  shows "r = Inl bootstrap_unavailable" and "authorized sqlite_store (w_store (sv_world v')) cid = Some g"
proof -
  obtain w1 where "hs_active_controller sqlite_store (JStr cid) (sv_world v) = (Inr g, w1)"
    using active by (cases "hs_active_controller sqlite_store (JStr cid) (sv_world v)") auto
  then have act: "hs_active_controller sqlite_store (JStr cid) (sv_world v) = (Inr g, sv_world v)"
      and auth: "authorized sqlite_store (w_store (sv_world v)) cid = Some g"
    using sq_daemon.active_ok [OF inv] by blast+
  obtain now w2 where now: "now_ts (h_env H) (sv_world v) = (Inr now, w2)" "w_store w2 = w_store (sv_world v)"
    by (simp add: reading_def)
  obtain x db where x: "sq_revoke_controller cid now (w_store (sv_world v)) = (x, db)" by fastforce
  have port: "sp_revoke_controller sqlite_store cid now (w_store (sv_world v)) = (x, db)" using x by simp
  note law = sq.revoke_law [OF inv port]
  have "x \<noteq> Inr g'" for g'
  proof
    assume g': "x = Inr g'"
    from law [unfolded g' sum.case] obtain c where "authorized sqlite_store db c \<noteq> None"
        "authorized sqlite_store db = (authorized sqlite_store (w_store (sv_world v)))(cid := None)" by blast
    then have "c \<noteq> cid" "authorized sqlite_store (w_store (sv_world v)) c \<noteq> None" by (metis fun_upd_same, metis fun_upd_other fun_upd_same)
    with only show False by blast
  qed
  then obtain e where e: "x = Inl e" by (cases x) auto
  then have same: "authorized sqlite_store db cid = Some g" using law auth by simp
  show "r = Inl bootstrap_unavailable" "authorized sqlite_store (w_store (sv_world v')) cid = Some g"
    using run act now x e same
    by (auto simp: daemon_answers ct_dispatch_def jget_def on_sv_def hs_revoke_controller_def bindS_def catch_conflict_def catchS_def
        on_store_def raise_def ret_def daemon_outcome_def control_result_def control_response_def error_answer_def jget_default_def
        bootstrap_refusal_def op_rejected_def py_str_def split: store_error.splits)
qed

text \<open>What the withdrawal does, when the Host has a target and an Owner.\<close>

lemma withdraw_run:
  assumes "dp_target D = Some od" and "host_owner_id A s = (Inr (Some owner), s1)"
    and "dp_withdraw D (command_of asking od owner (od, target)) (lo_world s1) = (x, w)"
  shows "withdraw_standing_of A D (JStr asking) target s =
    (if dp_identities_ok D od owner
     then (case x of Inr _ \<Rightarrow> Inr ()
           | Inl exc \<Rightarrow> Inl (case exc of AdmissionFailed e \<Rightarrow> HttpFailed (de_status_code e) (device_admission_detail (ap_phrases A) e) | _ \<Rightarrow> exc),
           s1\<lparr>lo_world := w\<rparr>)
     else (Inl (HttpFailed 503 (JStr ''Host Owner Domain or business Owner identity is invalid'')), s1))"
  using assms by (simp add: withdraw_standing_of_def bindS_def of_answer_def admission_scope_def raise_def ret_def mapE_def catchS_def on_world_def
      split: sum.split)

definition same_boot :: "('b, 'w) local_state \<Rightarrow> ('b, 'w) local_state \<Rightarrow> bool" where
  "same_boot s s' \<longleftrightarrow> lo_boot s' = lo_boot s"

lemma same_boot_preorder: "reflp same_boot" "transp same_boot"
  by (auto simp: same_boot_def reflp_def transp_def)

lemma withdraw_keeps_boot:
  assumes "ap_link A = daemon_link P network H"
  shows "framed same_boot (withdraw_standing_of A D controller_id target)"
proof -
  have "framed same_boot (host_owner_id A)"
    using host_owner_boot [OF assms] by (intro framedI) (metis same_boot_def surj_pair snd_conv)
  moreover have "framed same_boot (of_answer r)" for r :: "local_error + string \<times> string"
    by (simp add: framed_def of_answer_run same_boot_def)
  moreover have "framed same_boot (mapE f (on_world m))" for f :: "local_error \<Rightarrow> local_error" and m :: "('w, local_error, string \<times> string) op"
    by (simp add: framed_def same_boot_def mapE_def catchS_def on_world_def raise_def split: prod.split sum.split)
  ultimately show ?thesis
    unfolding withdraw_standing_of_def split_def
    by (intro framed_rules same_boot_preorder) (auto split: json.split intro!: framed_rules same_boot_preorder)
qed

text \<open>
  C22. A phone is revoked only after what it vouched for has ended. Over a daemon with the durable store in its
  invariant, the store changes only when the Host has never been able to sign a voucher (it has no onboarding target, or no
  Workspace), or when the Hub has confirmed the withdrawal of exactly this phone, asked for by the phone that asks. The
  withdrawal comes before the daemon has agreed, though: when the only Controller of a Host revokes itself, the daemon
  refuses, the phone is told of an outage and keeps its grant, and its standing at the Hub is gone.
\<close>

theorem phone_revocation_order:
  assumes "ap_link A = daemon_link sqlite_store network H" and "sq_inv (key_names_of (h_env H)) (w_store (sv_world (lo_boot s)))"
    and "local_revoke_controller A D (JStr asking) target s = (r, s')"
  shows "(w_store (sv_world (lo_boot s')) = w_store (sv_world (lo_boot s)) \<or> dp_target D = None \<or> fst (host_owner_id A s) = Inr None
      \<or> (\<exists>owner od answer. fst (host_owner_id A s) = Inr (Some owner) \<and> dp_target D = Some od
           \<and> fst (dp_withdraw D (command_of asking od owner (od, target)) (lo_world (snd (host_owner_id A s)))) = Inr answer))
    \<and> (\<forall>g owner od answer w. target = asking \<longrightarrow> fst (hs_active_controller sqlite_store (JStr asking) (sv_world (lo_boot s))) = Inr g
        \<longrightarrow> (\<forall>c. authorized sqlite_store (w_store (sv_world (lo_boot s))) c \<noteq> None \<longrightarrow> c = asking)
        \<longrightarrow> fst (host_owner_id A s) = Inr (Some owner) \<longrightarrow> dp_target D = Some od \<longrightarrow> dp_identities_ok D od owner
        \<longrightarrow> dp_withdraw D (command_of asking od owner (od, target)) (lo_world (snd (host_owner_id A s))) = (Inr answer, w)
        \<longrightarrow> r = Inl bootstrap_unavailable \<and> lo_world s' = w
          \<and> authorized sqlite_store (w_store (sv_world (lo_boot s'))) asking = Some g)"
proof -
  obtain o1 s1 where o1: "host_owner_id A s = (o1, s1)" by fastforce
  obtain x s2 where x: "withdraw_standing_of A D (JStr asking) target s = (x, s2)" by fastforce
  have boot: "lo_boot s2 = lo_boot s" using framedD [OF withdraw_keeps_boot [OF assms(1)] x] by (simp add: same_boot_def)
  have run: "(r, s') = (case x of Inl e \<Rightarrow> (Inl e, s2) | Inr _ \<Rightarrow>
      ask A True False ''controller.revoke'' [(''controller_id'', JStr asking), (''target_id'', JStr target)] s2)"
    using assms(3) x by (cases x) (simp_all add: local_revoke_controller_def bindS_def)
  have sent: "\<exists>owner od answer. o1 = Inr (Some owner) \<and> dp_target D = Some od
      \<and> fst (dp_withdraw D (command_of asking od owner (od, target)) (lo_world s1)) = Inr answer"
    if ok: "x = Inr ()" and target: "dp_target D \<noteq> None" and owner: "o1 \<noteq> Inr None"
  proof -
    obtain od where od: "dp_target D = Some od" using target by blast
    have "\<not> isl o1" using x ok o1 od by (cases o1) (simp_all add: withdraw_standing_of_def bindS_def)
    with owner obtain who where who: "o1 = Inr (Some who)" by (cases o1) auto
    obtain y w where y: "dp_withdraw D (command_of asking od who (od, target)) (lo_world s1) = (y, w)" by fastforce
    from withdraw_run [OF od o1 [unfolded who] y] x ok have "\<exists>answer. y = Inr answer" by (auto split: if_splits sum.splits)
    with who od y show ?thesis by auto
  qed
  have first: "w_store (sv_world (lo_boot s')) = w_store (sv_world (lo_boot s)) \<or> x = Inr ()"
    using run boot by (cases x) auto
  have "r = Inl bootstrap_unavailable \<and> lo_world s' = w \<and> authorized sqlite_store (w_store (sv_world (lo_boot s'))) asking = Some g"
    if last: "target = asking" "fst (hs_active_controller sqlite_store (JStr asking) (sv_world (lo_boot s))) = Inr g"
        "\<And>c. authorized sqlite_store (w_store (sv_world (lo_boot s))) c \<noteq> None \<Longrightarrow> c = asking"
      and host: "o1 = Inr (Some owner)" "dp_target D = Some od" "dp_identities_ok D od owner"
        "dp_withdraw D (command_of asking od owner (od, target)) (lo_world s1) = (Inr answer, w)" for g owner od answer w
  proof -
    from withdraw_run [OF host(2) o1 [unfolded host(1)] host(4)] host(3) x have s2: "x = Inr ()" "s2 = s1\<lparr>lo_world := w\<rparr>" by simp_all
    obtain y b where y: "request_bootstrap (daemon_link sqlite_store network H) True False ''controller.revoke''
        [(''controller_id'', JStr asking), (''target_id'', JStr asking)] (lo_boot s) = (y, b)" by fastforce
    from last_controller_kept [OF assms(2) last(2,3) y] run s2 boot y last(1) show ?thesis
      by (simp add: ask_def on_boot_def assms(1))
  qed
  moreover have "w_store (sv_world (lo_boot s')) = w_store (sv_world (lo_boot s)) \<or> dp_target D = None \<or> o1 = Inr None
      \<or> (\<exists>owner od answer. o1 = Inr (Some owner) \<and> dp_target D = Some od
           \<and> fst (dp_withdraw D (command_of asking od owner (od, target)) (lo_world s1)) = Inr answer)"
    using first sent by blast
  ultimately show ?thesis unfolding o1 fst_conv snd_conv by metis
qed

text \<open>A home: a Host with a Workspace, one phone and one lamp; the world is the Controllers that were withdrawn.\<close>

definition home_app :: "((sql_db, mem_net) service, string list) local_app" where
  "home_app = \<lparr>ap_env = phone_env, ap_link = daemon_link sqlite_store None sample_host,
     ap_get_workspace = (\<lambda>operation_id. ret \<lparr>wo_operation_id = operation_id, wo_request_fingerprint = [],
       wo_rest = \<lparr>ws_owner_id = ''owner'', ws_owner_display_name = ''Ann'', ws_owner = JNull, ws_workspace = JNull\<rparr>\<rparr>),
     ap_initialize = (\<lambda>_ _. raise (setup_failed [] 503 None)), ap_fingerprint = (\<lambda>_. []), ap_uuid5 = id,
     ap_phrases = ap_phrases phone_app, ap_iso = dec_of_int\<rparr>"

definition home_client :: "string list fixed_client" where
  "home_client = \<lparr>fc_base_url = [], fc_send = (\<lambda>_ w. (Answered \<lparr>hr_status = 200, hr_content = [], hr_json = Some JNull\<rparr>, w)),
     fc_timeout = 1, fc_token = ''t''\<rparr>"

definition home_ports :: "(string list, string, string, string, unit, unit) device_ports" where
  "home_ports = \<lparr>dp_target = Some ''domain'', dp_identities_ok = (\<lambda>_ _. True), dp_sdk = sample_sdk, dp_removed_ref = id, dp_removed_state = id,
     dp_endpoints = (\<lambda>owner. ret [\<lparr>be_device_id = ''lamp'', be_owner_id = owner, be_body_endpoint_id = ''lamp:body'', be_assignment = None,
       be_present = True, be_device_ref = ''lamp'', be_mount_revision = 1, be_in_force = \<lparr>if_companion_id = None, if_provenance = None, if_updated_at = []\<rparr>\<rparr>]),
     dp_claims = query_claims home_client (\<lambda>_. Some \<lparr>pg_owner_domain_id = ''domain'', pg_items = [\<lparr>cl_device_ref = ''lamp'', cl_updated_at = ''t''\<rparr>]\<rparr>) (\<lambda>_. JNull),
     dp_outputs = read_output_configuration home_client (\<lambda>_. Some ''lamp'') id id (\<lambda>_. JNull),
     dp_set_outputs = (\<lambda>_. ret ()), dp_set_companion = (\<lambda>_. ret ()), dp_remove = (\<lambda>_ _ _ _. raise (OtherFailed [])),
     dp_shared = (\<lambda>_ _. ret []), dp_withdraw = (\<lambda>q w. (Inr (cc_subject q), w @ [snd (cc_subject q)]))\<rparr>"

definition home_state :: "((sql_db, mem_net) service, string list) local_state" where
  "home_state = \<lparr>lo_boot = proof_service, lo_store = \<lparr>ss_sessions = [], ss_tick = 0\<rparr>, lo_world = []\<rparr>"

lemma home_inventory: "\<not> isl (fst (composed_device_inventory (ap_phrases phone_app) home_ports ''owner'' ''c'' []))"
  by code_simp

lemma inventory_agrees_witness:
  "\<exists>views w. composed_device_inventory (ap_phrases phone_app) home_ports ''owner'' ''c'' [] = (Inr views, w)
     \<and> (\<forall>i < length views. dv_outputs (views ! i) = cl_device_ref (dv_claim (views ! i)))"
proof -
  obtain r w where r: "composed_device_inventory (ap_phrases phone_app) home_ports ''owner'' ''c'' [] = (r, w)"
    by (cases "composed_device_inventory (ap_phrases phone_app) home_ports ''owner'' ''c'' []")
  then have "\<not> isl r" using home_inventory by simp
  with r obtain views where run: "composed_device_inventory (ap_phrases phone_app) home_ports ''owner'' ''c'' [] = (Inr views, w)"
    by (cases r) auto
  have "dp_claims home_ports = query_claims home_client (\<lambda>_. Some \<lparr>pg_owner_domain_id = ''domain'', pg_items = [\<lparr>cl_device_ref = ''lamp'', cl_updated_at = ''t''\<rparr>]\<rparr>) (\<lambda>_. JNull)"
      "dp_outputs home_ports = read_output_configuration home_client (\<lambda>_. Some ''lamp'') id id (\<lambda>_. JNull)"
    by (simp_all add: home_ports_def)
  from inventory_agrees [OF run this] have "\<forall>i < length views. dv_outputs (views ! i) = cl_device_ref (dv_claim (views ! i))"
    by (elim exE conjE) simp
  with run show ?thesis by (intro exI [of _ views] exI [of _ w] conjI)
qed

lemma sample_sole_admin:
  assumes "authorized sqlite_store sample_host_db c \<noteq> None"
  shows "c = ''ectrl-66666666666666666666''"
proof -
  have ids: "map gr_controller_id (db_grants sample_host_db) = [''ectrl-66666666666666666666'']" unfolding sample_host_db_def by code_simp
  have "c \<in> set (map gr_controller_id (db_grants sample_host_db))"
    using assms by (auto simp: authorized_def sq_get_controller_def sq_get_state_def sq_connection_def bindS_def find_Some_iff raise_def ret_def split: option.splits sum.splits prod.splits if_splits)
  then show ?thesis unfolding ids by simp
qed

definition sample_phone :: string where
  "sample_phone = ''ectrl-66666666666666666666''"

lemma home_facts:
  "fst (host_owner_id home_app home_state) = Inr (Some ''owner'')" "lo_world (snd (host_owner_id home_app home_state)) = []"
  "\<not> isl (fst (hs_active_controller sqlite_store (JStr sample_phone) (sv_world (lo_boot home_state))))"
  by code_simp+

lemma phone_revocation_order_witness:
  "\<exists>s' g. local_revoke_controller home_app home_ports (JStr sample_phone) sample_phone home_state = (Inl bootstrap_unavailable, s')
     \<and> lo_world s' = [sample_phone] \<and> authorized sqlite_store (w_store (sv_world (lo_boot s'))) sample_phone = Some g"
proof -
  obtain r s' where run: "local_revoke_controller home_app home_ports (JStr sample_phone) sample_phone home_state = (r, s')"
    by (cases "local_revoke_controller home_app home_ports (JStr sample_phone) sample_phone home_state")
  obtain g where g: "fst (hs_active_controller sqlite_store (JStr sample_phone) (sv_world (lo_boot home_state))) = Inr g"
    using home_facts(3) by (cases "fst (hs_active_controller sqlite_store (JStr sample_phone) (sv_world (lo_boot home_state)))") auto
  have link: "ap_link home_app = daemon_link sqlite_store None sample_host" by (simp add: home_app_def)
  have store: "w_store (sv_world (lo_boot home_state)) = sample_host_db"
    by (simp add: home_state_def proof_service_def service_new_def sample_world_def)
  have inv: "sq_inv (key_names_of (h_env sample_host)) (w_store (sv_world (lo_boot home_state)))"
    using sample_world_facts(1) by (simp add: home_state_def proof_service_def service_new_def)
  have only: "\<forall>c. authorized sqlite_store (w_store (sv_world (lo_boot home_state))) c \<noteq> None \<longrightarrow> c = sample_phone"
    unfolding store sample_phone_def using sample_sole_admin by blast
  have "dp_withdraw home_ports (command_of sample_phone ''domain'' ''owner'' (''domain'', sample_phone)) (lo_world (snd (host_owner_id home_app home_state)))
      = (Inr (''domain'', sample_phone), [sample_phone])" "dp_target home_ports = Some ''domain''" "dp_identities_ok home_ports ''domain'' ''owner''"
    by (simp_all add: home_facts(2) home_ports_def command_of_def)
  with phone_revocation_order [OF link inv run, THEN conjunct2, rule_format, OF refl g _ home_facts(1)] only run
  show ?thesis by blast
qed

end
