(* ===== verification/Local_Admission.thy ===== *)
theory Local_Admission
  imports Local_Devices
begin

text \<open>
  How a phone admits devices through the Local API: the routes of \<open>local_api/app.py\<close> about vouchers, enrollments, Claims and
  decisions, the decision request of \<open>local_api/device_admissions.py\<close>, and the conversations of devices.
\<close>

section \<open>What every route does first\<close>

text \<open>
  The rest of the admission client, and the SDK's models: whether a cursor, a selection of devices for a group and a command are
  ones they take. \<open>'role\<close> is a role in a scene.
\<close>

record ('ref, 'role) coordination_selection =
  co_session_id :: string
  co_input_device :: 'ref
  co_members :: "(string option \<times> 'ref \<times> 'role option) list"
  co_goal :: string
  co_reply_budget :: int

record 'ref conversation_selection =
  cv_session_id :: string
  cv_input_device :: 'ref
  cv_output_device :: 'ref
  cv_target_companion_id :: string

record ('w, 'ref, 'man, 'more, 'act, 'prop, 'role) admission_ports =
  lp_voucher :: "(string \<times> string) controller_command \<Rightarrow> ('w, local_error, CommissioningVoucherIssued) op"
  lp_enrollments :: "page_query controller_command \<Rightarrow> ('w, local_error, 'prop owner_page) op"
  lp_recover :: "(string \<times> string) controller_command \<Rightarrow> ('w, local_error, ('man, 'act) recovery) op"
  lp_decide :: "('man, 'more, ControllerActorRef) ControllerEnrollmentDecisionIntent \<Rightarrow> ('w, local_error, ('man, 'act) AdmissionDecisionWorkflowResult) op"
  lp_cursor_ok :: "string \<Rightarrow> string \<times> string \<Rightarrow> bool"
  lp_group_ok :: "('ref, 'role) coordination_selection \<Rightarrow> bool"
  lp_role_group :: "string \<Rightarrow> (string + ('ref, 'role) coordination_selection) controller_command \<Rightarrow> ('w, local_error, jobject) op"
  lp_conversation :: "string \<Rightarrow> (string + 'ref conversation_selection) controller_command \<Rightarrow> ('w, local_error, jobject) op"

definition admission_http :: "phrases \<Rightarrow> local_error \<Rightarrow> local_error" where
  "admission_http ph exc = (case exc of AdmissionFailed e \<Rightarrow> HttpFailed (de_status_code e) (device_admission_detail ph e) | _ \<Rightarrow> exc)"

definition scoped ::
  "('b, 'w) local_app \<Rightarrow> ('w, 'ref, 'rem, 'out, 'alw, 'inp) device_ports \<Rightarrow> string option
    \<Rightarrow> (string \<Rightarrow> string \<Rightarrow> string \<Rightarrow> (('b, 'w) local_state, local_error, 'a) op) \<Rightarrow> (('b, 'w) local_state, local_error, 'a) op" where
  "scoped A D authorization act =
     bindS (management_device_session A authorization) (\<lambda>session.
     bindS (of_answer (admission_scope (ap_phrases A) D (ds_owner_id session))) (\<lambda>(owner_domain_id, business_owner_id).
       act (ds_controller_id session) owner_domain_id business_owner_id))"

definition admission_cursor ::
  "('w, 'ref, 'man, 'more, 'act, 'prop, 'role) admission_ports \<Rightarrow> string \<Rightarrow> string option \<Rightarrow> string option
    \<Rightarrow> local_error + (string \<times> string) option" where
  "admission_cursor L owner_domain_id after_sort_key after_resource_id =
     (case (after_sort_key, after_resource_id) of
        (None, None) \<Rightarrow> Inr None
      | (Some k, Some i) \<Rightarrow>
          (if lp_cursor_ok L owner_domain_id (k, i) then Inr (Some (k, i)) else Inl (HttpFailed 422 (JStr ''Page cursor is invalid'')))
      | _ \<Rightarrow> Inl (HttpFailed 422 (JStr ''A page cursor needs both its sort key and its resource ID'')))"

section \<open>Routes\<close>

text \<open>\<open>payload.operational_spki_sha256.split(":", 1)[1]\<close>: what stands after the first colon.\<close>

definition after_colon :: "string \<Rightarrow> string" where
  "after_colon s = tl (dropWhile (\<lambda>c. c \<noteq> CHR '':'') s)"

definition route_issue_voucher where
  "route_issue_voucher A D L operational_spki_sha256 authorization =
     scoped A D authorization (\<lambda>controller_id owner_domain_id business_owner_id.
       mapE (admission_http (ap_phrases A)) (on_world (lp_voucher L
         (command_of controller_id owner_domain_id business_owner_id (owner_domain_id, ''sha256:'' @ after_colon operational_spki_sha256)))))"

definition route_list_enrollments where
  "route_list_enrollments A D L states limit after_sort_key after_resource_id authorization =
     scoped A D authorization (\<lambda>controller_id owner_domain_id business_owner_id.
     bindS (of_answer (admission_cursor L owner_domain_id after_sort_key after_resource_id)) (\<lambda>cursor.
       mapE (admission_http (ap_phrases A)) (on_world (lp_enrollments L (command_of controller_id owner_domain_id business_owner_id
         \<lparr>pq_owner_domain_id = owner_domain_id, pq_states = states, pq_limit = limit, pq_cursor = cursor\<rparr>)))))"

definition route_read_enrollment where
  "route_read_enrollment A D L enrollment_id authorization =
     scoped A D authorization (\<lambda>controller_id owner_domain_id business_owner_id.
       mapE (admission_http (ap_phrases A)) (on_world (lp_recover L
         (command_of controller_id owner_domain_id business_owner_id (owner_domain_id, enrollment_id)))))"

definition route_list_claims where
  "route_list_claims A D L states limit after_sort_key after_resource_id authorization =
     scoped A D authorization (\<lambda>controller_id owner_domain_id business_owner_id.
     bindS (of_answer (admission_cursor L owner_domain_id after_sort_key after_resource_id)) (\<lambda>cursor.
       mapE (admission_http (ap_phrases A)) (on_world (dp_claims D (command_of controller_id owner_domain_id business_owner_id
         \<lparr>pq_owner_domain_id = owner_domain_id, pq_states = states, pq_limit = limit, pq_cursor = cursor\<rparr>)))))"

record ('man, 'more) LocalEnrollmentDecisionRequest =
  ld_request_id :: string
  ld_expected_proposal_revision :: int
  ld_decision :: string
  ld_reviewed_manifest_ref :: 'man
  ld_expected_owner_domain_id :: string
  ld_expected_business_owner_id :: string
  ld_more :: 'more

definition decision_to_admin ::
  "('man, 'more) LocalEnrollmentDecisionRequest \<Rightarrow> string \<Rightarrow> string \<Rightarrow> string \<Rightarrow> string
    \<Rightarrow> local_error + ('man, 'more, ControllerActorRef) ControllerEnrollmentDecisionIntent" where
  "decision_to_admin q enrollment_id owner_domain_id business_owner_id controller_id =
     (if (ld_expected_owner_domain_id q, ld_expected_business_owner_id q) \<noteq> (owner_domain_id, business_owner_id)
      then Inl (AdmissionFailed (admission_error ''Decision named an Owner this session does not hold'' 409 (Some DeviceStateRefused)))
      else Inr \<lparr>ci_request_id = ld_request_id q, ci_actor = admission_actor controller_id owner_domain_id,
             ci_decision = \<lparr>dc_enrollment_id = enrollment_id, dc_expected_proposal_revision = ld_expected_proposal_revision q,
               dc_decision = ld_decision q, dc_target_owner_domain_id = owner_domain_id, dc_target_business_owner_id = business_owner_id,
               dc_reviewed_manifest_ref = ld_reviewed_manifest_ref q, dc_more = ld_more q\<rparr>\<rparr>)"

definition route_decide_enrollment where
  "route_decide_enrollment A D L enrollment_id payload authorization =
     scoped A D authorization (\<lambda>controller_id owner_domain_id business_owner_id.
       mapE (admission_http (ap_phrases A))
         (bindS (of_answer (decision_to_admin payload enrollment_id owner_domain_id business_owner_id controller_id)) (\<lambda>intent.
           on_world (lp_decide L intent))))"

definition route_onboarding_target where
  "route_onboarding_target A target describe authorization =
     bindS (authenticated_controller A authorization) (\<lambda>(who, session).
     bindS (owner_and_controller A who session) (\<lambda>_.
       case target of
         None \<Rightarrow> raise (HttpFailed 503 (JStr ''Hub Device onboarding target is not configured''))
       | Some t \<Rightarrow> ret (describe t)))"

definition owned_device ::
  "('b, 'w) local_app \<Rightarrow> ('w, 'ref, 'rem, 'out, 'alw, 'inp) device_ports \<Rightarrow> string \<Rightarrow> string option
    \<Rightarrow> (('b, 'w) local_state, local_error, device_session \<times> 'ref) op" where
  "owned_device A D device_id authorization =
     bindS (management_device_session A authorization) (\<lambda>session.
     bindS (of_answer (admission_scope (ap_phrases A) D (ds_owner_id session))) (\<lambda>(owner_domain_id, business_owner_id).
     bindS (mapE (\<lambda>exc. case exc of AdmissionFailed e \<Rightarrow> HttpFailed (de_status_code e) (JStr (de_message e)) | _ \<Rightarrow> exc)
         (on_world (dp_claims D (command_of (ds_controller_id session) owner_domain_id business_owner_id (all_claims owner_domain_id))))) (\<lambda>page.
       case find (\<lambda>c. ref_device_instance_id (dp_sdk D) (cl_device_ref c) = device_id) (pg_items page) of
         None \<Rightarrow> raise (HttpFailed 404 (JStr ''Device does not exist''))
       | Some claim \<Rightarrow> ret (session, cl_device_ref claim))))"

definition owner_device_inventory where
  "owner_device_inventory A D authorization =
     bindS (authenticated_controller A authorization) (\<lambda>(who, session).
     bindS (owner_and_controller A who session) (\<lambda>(owner_id, controller_id).
       mapE (\<lambda>exc. case exc of InventoryFailed message status \<Rightarrow> HttpFailed status (JStr message)
           | AdmissionFailed e \<Rightarrow> HttpFailed (de_status_code e) (JStr (de_message e)) | _ \<Rightarrow> exc)
         (on_world (composed_device_inventory (ap_phrases A) D owner_id controller_id))))"

section \<open>Groups and conversations of devices\<close>

definition inventory_backend :: "local_error \<Rightarrow> local_error" where
  "inventory_backend exc = (case exc of InventoryFailed message status_code \<Rightarrow> backend_error status_code message | _ \<Rightarrow> exc)"

definition held_view :: "('w, 'ref, 'rem, 'out, 'alw, 'inp) device_ports \<Rightarrow> ('ref, 'out) LocalDeviceView list \<Rightarrow> string \<Rightarrow> ('ref, 'out) LocalDeviceView option" where
  "held_view D inventory device_id = find (\<lambda>v. view_id D v = device_id) (rev inventory)"

record 'role RoleGroupStart =
  rg_session_id :: string
  rg_input_device_id :: string
  rg_output_device_ids :: "string list"
  rg_goal :: string
  rg_reply_budget :: int
  rg_roles :: "(string \<times> 'role) list"

text \<open>The validator of the request: every device once, and roles for selected outputs only.\<close>

definition role_group_distinct :: "'role RoleGroupStart \<Rightarrow> bool" where
  "role_group_distinct q \<longleftrightarrow> distinct (rg_input_device_id q # rg_output_device_ids q) \<and> distinct (map fst (rg_roles q))
     \<and> fst ` set (rg_roles q) \<subseteq> set (rg_output_device_ids q)"

definition group_selection ::
  "'role RoleGroupStart \<Rightarrow> (string \<Rightarrow> ('ref, 'out) LocalDeviceView) \<Rightarrow> ('ref, 'role) coordination_selection" where
  "group_selection q held =
     \<lparr>co_session_id = rg_session_id q, co_input_device = cl_device_ref (dv_claim (held (rg_input_device_id q))),
      co_members = map (\<lambda>d. (bv_answering_companion_id (dv_body (held d)), cl_device_ref (dv_claim (held d)), map_of (rev (rg_roles q)) d))
        (rg_output_device_ids q),
      co_goal = rg_goal q, co_reply_budget = rg_reply_budget q\<rparr>"

definition local_role_group ::
  "phrases \<Rightarrow> ('w, 'ref, 'rem, 'out, 'alw, 'inp) device_ports \<Rightarrow> ('w, 'ref, 'man, 'more, 'act, 'prop, 'role) admission_ports
    \<Rightarrow> device_session \<Rightarrow> string \<Rightarrow> string + 'role RoleGroupStart \<Rightarrow> ('w, local_error, jobject) op" where
  "local_role_group ph D L session action payload =
     bindS (of_answer (admission_scope ph D (ds_owner_id session))) (\<lambda>(owner_domain_id, business_owner_id).
     bindS (case payload of
         Inl session_id \<Rightarrow> ret (Inl session_id)
       | Inr q \<Rightarrow>
           bindS (list_devices ph D session) (\<lambda>inventory.
             if list_ex (\<lambda>d. held_view D inventory d = None) (rg_input_device_id q # rg_output_device_ids q)
             then raise (backend_error 403 ''Selected device is not owned and mounted'')
             else (let selection = group_selection q (\<lambda>d. the (held_view D inventory d))
                   in if lp_group_ok L selection \<and> list_all (\<lambda>(c, _, _). c \<noteq> None) (co_members selection) then ret (Inr selection)
                      else raise (backend_error 409 ''Selected outputs require distinct attached Companions'')))) (\<lambda>subject.
       mapE inventory_backend (lp_role_group L action (command_of (ds_controller_id session) owner_domain_id business_owner_id subject))))"

definition local_device_conversation ::
  "phrases \<Rightarrow> ('w, 'ref, 'rem, 'out, 'alw, 'inp) device_ports \<Rightarrow> ('w, 'ref, 'man, 'more, 'act, 'prop, 'role) admission_ports
    \<Rightarrow> device_session \<Rightarrow> string \<Rightarrow> string + (string \<times> string \<times> string \<times> string) \<Rightarrow> ('w, local_error, jobject) op" where
  "local_device_conversation ph D L session action payload =
     bindS (of_answer (admission_scope ph D (ds_owner_id session))) (\<lambda>(owner_domain_id, business_owner_id).
     bindS (case payload of
         Inl session_id \<Rightarrow> ret (Inl session_id)
       | Inr (session_id, input_device_id, output_device_id, target_companion_id) \<Rightarrow>
           bindS (list_devices ph D session) (\<lambda>inventory.
             case (held_ref D inventory input_device_id, held_ref D inventory output_device_id) of
               (Some i, Some out) \<Rightarrow> ret (Inr \<lparr>cv_session_id = session_id, cv_input_device = i, cv_output_device = out, cv_target_companion_id = target_companion_id\<rparr>)
             | _ \<Rightarrow> raise (backend_error 403 ''Selected device is not owned and mounted''))) (\<lambda>subject.
       mapE inventory_backend (lp_conversation L action (command_of (ds_controller_id session) owner_domain_id business_owner_id subject))))"

text \<open>The id of the domain that presence is read for.\<close>

definition presence_domain :: "phrases \<Rightarrow> ('w, 'ref, 'rem, 'out, 'alw, 'inp) device_ports \<Rightarrow> device_session \<Rightarrow> local_error + string" where
  "presence_domain ph D session = map_sum id fst (admission_scope ph D (ds_owner_id session))"

section \<open>What a phone is held to\<close>

text \<open>
  A decision that names another Owner than the one of the session is refused before the control plane hears of it, and so is
  a cursor of which one half is missing.
\<close>

lemma decision_for_shown_owner:
  assumes "management_device_session A authorization s = (Inr session, s1)" and "admission_scope (ap_phrases A) D (ds_owner_id session) = Inr (od, owner)"
  shows "(ld_expected_owner_domain_id q, ld_expected_business_owner_id q) \<noteq> (od, owner) \<Longrightarrow>
      route_decide_enrollment A D L enrollment_id q authorization s
        = (Inl (HttpFailed 409 (reason_body (ph_sentence (ap_phrases A) DeviceStateRefused))), s1)"
    and "(ld_expected_owner_domain_id q, ld_expected_business_owner_id q) = (od, owner) \<Longrightarrow>
      \<exists>intent. ci_request_id intent = ld_request_id q \<and> dc_target_owner_domain_id (ci_decision intent) = od
        \<and> dc_target_business_owner_id (ci_decision intent) = owner \<and> act_principal_id (ci_actor intent) = ds_controller_id session
        \<and> act_owner_domain_id (ci_actor intent) = od \<and> dc_enrollment_id (ci_decision intent) = enrollment_id
        \<and> route_decide_enrollment A D L enrollment_id q authorization s = mapE (admission_http (ap_phrases A)) (on_world (lp_decide L intent)) s1"
  using assms
  by (auto simp: route_decide_enrollment_def scoped_def bindS_def of_answer_run decision_to_admin_def mapE_def catchS_def raise_def admission_http_def
      admission_error_def device_admission_detail_def admission_actor_def intro!: exI)

lemma half_cursor_refused:
  assumes "(after_sort_key = None) \<noteq> (after_resource_id = None)" and "management_device_session A authorization s = (Inr session, s1)"
    and "admission_scope (ap_phrases A) D (ds_owner_id session) = Inr (od, owner)"
  shows "route_list_claims A D L states limit after_sort_key after_resource_id authorization s
      = (Inl (HttpFailed 422 (JStr ''A page cursor needs both its sort key and its resource ID'')), s1)"
  using assms by (auto simp: route_list_claims_def scoped_def bindS_def of_answer_run admission_cursor_def)

text \<open>The two ways in which a device is shown to be the Owner's find the same reference.\<close>

lemma owned_device_same_ref:
  assumes "management_device_session A authorization s = (Inr session, s1)"
  shows "(\<exists>s2. owned_device A D device_id authorization s = (Inr (session, ref), s2))
    \<longleftrightarrow> (\<exists>w. owned_device_ref (ap_phrases A) D (ds_owner_id session) (ds_controller_id session) device_id (lo_world s1) = (Inr ref, w))"
  using assms
  by (auto simp: owned_device_def owned_device_ref_def bindS_def of_answer_run mapE_def catchS_def raise_def ret_def on_world_def
      split: prod.splits sum.splits option.splits)

end
