(* ===== verification/Removal_Broker.thy ===== *)
theory Removal_Broker
  imports Local_Removal
begin

text \<open>
  \<open>lifecycle_workflow/capability.py\<close>: the workflow holds no key of the Hub. Its Hub is a client that
  asks a broker over a second Unix socket; the broker has the key and serves three calls. What the
  client needs besides the arguments it is given travels in a marker where a credential would be.
\<close>

section \<open>Calls and replies\<close>

datatype 'ref removal_capability_call =
    RemovalCapabilityReady
  | RevokeRemovalTarget string string 'ref string string string
  | ObserveRemovalDelivery string string 'ref string

text \<open>
  The attributes that \<open>_dispatch\<close> reads of a call that is not \<open>RemovalCapabilityReady\<close>: the Controller,
  the intent, the device and, of a revocation only, the business Owner.
\<close>

fun call_controller_id :: "'ref removal_capability_call \<Rightarrow> string option" where
  "call_controller_id (RevokeRemovalTarget controller_id intent_id device_ref business_owner_id reason command_id) = Some controller_id"
| "call_controller_id (ObserveRemovalDelivery controller_id intent_id device_ref source_claim_event_id) = Some controller_id"
| "call_controller_id RemovalCapabilityReady = None"

fun call_business_owner_id :: "'ref removal_capability_call \<Rightarrow> string option" where
  "call_business_owner_id (RevokeRemovalTarget controller_id intent_id device_ref business_owner_id reason command_id) = Some business_owner_id"
| "call_business_owner_id (ObserveRemovalDelivery controller_id intent_id device_ref source_claim_event_id) = None"
| "call_business_owner_id RemovalCapabilityReady = None"

fun call_intent_id :: "'ref removal_capability_call \<Rightarrow> string option" where
  "call_intent_id (RevokeRemovalTarget controller_id intent_id device_ref business_owner_id reason command_id) = Some intent_id"
| "call_intent_id (ObserveRemovalDelivery controller_id intent_id device_ref source_claim_event_id) = Some intent_id"
| "call_intent_id RemovalCapabilityReady = None"

fun call_device_ref :: "'ref removal_capability_call \<Rightarrow> 'ref option" where
  "call_device_ref (RevokeRemovalTarget controller_id intent_id device_ref business_owner_id reason command_id) = Some device_ref"
| "call_device_ref (ObserveRemovalDelivery controller_id intent_id device_ref source_claim_event_id) = Some device_ref"
| "call_device_ref RemovalCapabilityReady = None"

text \<open>The constraints of the models.\<close>

definition hex_after :: "string \<Rightarrow> nat \<Rightarrow> string \<Rightarrow> bool" where
  "hex_after prefix n s \<longleftrightarrow> take (length prefix) s = prefix \<and> length (drop (length prefix) s) = n
     \<and> set (drop (length prefix) s) \<subseteq> set hex_alphabet"

fun capability_call_ok :: "'ref removal_capability_call \<Rightarrow> bool" where
  "capability_call_ok RemovalCapabilityReady = True"
| "capability_call_ok (RevokeRemovalTarget controller_id intent_id device_ref business_owner_id reason command_id) =
     (hex_after ''ectrl-'' 20 controller_id \<and> hex_after ''removal-intent-'' 32 intent_id
      \<and> 1 \<le> length business_owner_id \<and> length business_owner_id \<le> 64 \<and> 1 \<le> length reason \<and> length reason \<le> 128
      \<and> 1 \<le> length command_id \<and> length command_id \<le> 128)"
| "capability_call_ok (ObserveRemovalDelivery controller_id intent_id device_ref source_claim_event_id) =
     (hex_after ''ectrl-'' 20 controller_id \<and> hex_after ''removal-intent-'' 32 intent_id
      \<and> 1 \<le> length source_claim_event_id \<and> length source_claim_event_id \<le> 255)"

record RemovalCapabilityProblem =
  cp_kind :: string
  cp_detail :: string
  cp_status_code :: int

text \<open>A reply holds exactly one of the four.\<close>

datatype 'res removal_capability_reply =
    Ready
  | Revocation 'res
  | Delivery erase_operation
  | CapabilityProblem RemovalCapabilityProblem

section \<open>The broker\<close>

text \<open>
  What the broker holds: the issuer of credentials, if it is configured, and the Hub. The issuer takes
  the business Owner as the call spells it, so that its error is also that of \<open>BusinessOwnerId(...)\<close>.
\<close>

record ('w, 'ref, 'res) capability_service =
  cs_hub_credentials :: "(string \<Rightarrow> string \<Rightarrow> 'ref \<Rightarrow> string \<Rightarrow> call_error + string) option"
  cs_revoke :: "'ref \<Rightarrow> string \<Rightarrow> string \<Rightarrow> string \<Rightarrow> string \<Rightarrow> ('w, call_error, 'res) op"
  cs_get_device_control_operation :: "'ref \<Rightarrow> string \<Rightarrow> string \<Rightarrow> ('w, call_error, erase_operation) op"

definition broker_dispatch ::
  "('w, 'ref, 'res) capability_service \<Rightarrow> 'ref removal_capability_call \<Rightarrow> ('w, call_error, 'res removal_capability_reply) op" where
  "broker_dispatch B call w =
     (if call = RemovalCapabilityReady then (Inr Ready, w)
      else case cs_hub_credentials B of
             None \<Rightarrow> (Inl (Failed (failure ''hub'' ''configuration'' ''Hub issuer unavailable'' 503)), w)
           | Some issue \<Rightarrow>
               (case (call_controller_id call, call_intent_id call, call_device_ref call, call_business_owner_id call) of
                  (Some controller_id, Some intent_id, Some device_ref, Some business_owner_id) \<Rightarrow>
                    (case issue controller_id intent_id device_ref business_owner_id of
                       Inl e \<Rightarrow> (Inl e, w)
                     | Inr authorization \<Rightarrow>
                       (case call of
                          RevokeRemovalTarget _ _ _ _ reason command_id \<Rightarrow>
                            (case cs_revoke B device_ref reason command_id intent_id authorization w of
                               (Inl e, w1) \<Rightarrow> (Inl e, w1) | (Inr res, w1) \<Rightarrow> (Inr (Revocation res), w1))
                        | ObserveRemovalDelivery _ _ _ source_claim_event_id \<Rightarrow>
                            (case cs_get_device_control_operation B device_ref source_claim_event_id authorization w of
                               (Inl e, w1) \<Rightarrow> (Inl e, w1) | (Inr operation, w1) \<Rightarrow> (Inr (Delivery operation), w1))
                        | RemovalCapabilityReady \<Rightarrow> (Inl AttributeErr, w)))
                | _ \<Rightarrow> (Inl AttributeErr, w)))"

definition capability_problem :: "string \<Rightarrow> string \<Rightarrow> int \<Rightarrow> 'res removal_capability_reply" where
  "capability_problem kind detail status_code =
     CapabilityProblem \<lparr>cp_kind = kind, cp_detail = detail, cp_status_code = status_code\<rparr>"

text \<open>
  \<open>_handle\<close>: the peer must be the workflow's uid; \<open>call\<close> is what its frame validates to. A frame that is
  late or lost with the connection is an \<open>OSError\<close>, a frame that is cut short or malformed is not. An
  answer to a refusal whose words a problem cannot hold is an error in the handler, and nothing is
  answered.
\<close>

datatype frame_failure = FrameLost | FrameInvalid

definition broker_handle ::
  "('w, 'ref, 'res) capability_service \<Rightarrow> int \<Rightarrow> peer_error + UnixPeerCredential \<Rightarrow> frame_failure + 'ref removal_capability_call \<Rightarrow> 'w
    \<Rightarrow> 'res removal_capability_reply option \<times> 'w" where
  "broker_handle B allowed_workflow_uid peer call w =
     (case (case peer of Inl e \<Rightarrow> Inl e | Inr credential \<Rightarrow> authorize allowed_workflow_uid ''eidolon-lifecycle-workflow'' credential) of
        Inl _ \<Rightarrow> (Some (capability_problem ''unauthorized'' ''Lifecycle Workflow authentication failed'' 401), w)
      | Inr workload \<Rightarrow>
          (case call of
             Inl FrameLost \<Rightarrow> (Some (capability_problem ''unauthorized'' ''Lifecycle Workflow authentication failed'' 401), w)
           | Inl FrameInvalid \<Rightarrow> (Some (capability_problem ''invalid_request'' ''Removal capability request is invalid'' 422), w)
           | Inr c \<Rightarrow>
               (case broker_dispatch B c w of
                  (Inr reply, w1) \<Rightarrow> (Some reply, w1)
                | (Inl (Raised (RuntimeError _)), w1) \<Rightarrow> (Some (capability_problem ''unauthorized'' ''Lifecycle Workflow authentication failed'' 401), w1)
                | (Inl (Raised (ValueErr _)), w1) \<Rightarrow> (Some (capability_problem ''invalid_request'' ''Removal capability request is invalid'' 422), w1)
                | (Inl ValidationErr, w1) \<Rightarrow> (Some (capability_problem ''invalid_request'' ''Removal capability request is invalid'' 422), w1)
                | (Inl (Failed f), w1) \<Rightarrow>
                    (if af_kind f = [] \<or> 64 < length (af_kind f) \<or> af_detail f = [] \<or> 512 < length (af_detail f)
                        \<or> af_status_code f < 400 \<or> 599 < af_status_code f
                     then (None, w1) else (Some (capability_problem (af_kind f) (af_detail f) (af_status_code f)), w1))
                | (Inl (OtherErr name), w1) \<Rightarrow>
                    (if name \<in> set os_errors \<or> name \<in> set runtime_errors
                     then (Some (capability_problem ''unauthorized'' ''Lifecycle Workflow authentication failed'' 401), w1)
                     else if name \<in> set value_errors \<or> name = ''IncompleteReadError''
                     then (Some (capability_problem ''invalid_request'' ''Removal capability request is invalid'' 422), w1)
                     else (Some (capability_problem ''unavailable'' ''Removal capability broker is unavailable'' 503), w1))
                | (Inl _, w1) \<Rightarrow> (Some (capability_problem ''unavailable'' ''Removal capability broker is unavailable'' 503), w1))))"

section \<open>The client\<close>

definition issue_marker :: "string \<Rightarrow> string \<Rightarrow> 'ref \<Rightarrow> string \<Rightarrow> string" where
  "issue_marker controller_id intent_id device_ref business_owner_id =
     ''broker:'' @ controller_id @ '':'' @ intent_id @ '':'' @ business_owner_id"

fun split_colon :: "string \<Rightarrow> string list" where
  "split_colon [] = [[]]"
| "split_colon (c # cs) = (if c = CHR '':'' then [] # split_colon cs
     else case split_colon cs of [] \<Rightarrow> [[c]] | p # ps \<Rightarrow> (c # p) # ps)"

definition broker_marker :: "string \<Rightarrow> call_error + string \<times> string \<times> string" where
  "broker_marker marker =
     (case split_colon marker of
        [a, b, c, d] \<Rightarrow> if a \<noteq> ''broker'' then Inl (Failed (failure ''hub'' ''configuration'' ''Broker marker is invalid'' 503)) else Inr (b, c, d)
      | _ \<Rightarrow> Inl (Failed (failure ''hub'' ''configuration'' ''Broker marker is invalid'' 503)))"

text \<open>\<open>_exchange\<close>: \<open>send\<close> is the socket, \<open>None\<close> when it fails, times out or
  closes without an answer. The call is built before the exchange, so that what its model rejects is no refusal.\<close>

definition broker_exchange ::
  "('ref removal_capability_call \<Rightarrow> 'w \<Rightarrow> 'res removal_capability_reply option \<times> 'w) \<Rightarrow> 'ref removal_capability_call
    \<Rightarrow> ('w, call_error, 'res removal_capability_reply) op" where
  "broker_exchange send call w =
     (if \<not> capability_call_ok call then (Inl ValidationErr, w)
      else case send call w of
        (None, w1) \<Rightarrow> (Inl (Failed (failure ''hub'' ''unavailable'' ''Removal capability broker is unavailable'' 503)), w1)
      | (Some (CapabilityProblem p), w1) \<Rightarrow> (Inl (Failed (failure ''hub'' (cp_kind p) (cp_detail p) (cp_status_code p))), w1)
      | (Some reply, w1) \<Rightarrow> (Inr reply, w1))"

definition brokered_ready ::
  "('ref removal_capability_call \<Rightarrow> 'w \<Rightarrow> 'res removal_capability_reply option \<times> 'w) \<Rightarrow> ('w, call_error, unit) op" where
  "brokered_ready send w =
     (case broker_exchange send RemovalCapabilityReady w of
        (Inl e, w1) \<Rightarrow> (Inl e, w1)
      | (Inr Ready, w1) \<Rightarrow> (Inr (), w1)
      | (Inr _, w1) \<Rightarrow> (Inl (Failed (failure ''hub'' ''unavailable'' ''Removal capability broker is not ready'' 503)), w1))"

definition brokered_revoke ::
  "('ref removal_capability_call \<Rightarrow> 'w \<Rightarrow> 'res removal_capability_reply option \<times> 'w)
    \<Rightarrow> 'ref \<Rightarrow> string \<Rightarrow> string \<Rightarrow> string \<Rightarrow> string \<Rightarrow> ('w, call_error, 'res) op" where
  "brokered_revoke send device_ref reason command_id correlation_id authorization w =
     (case broker_marker authorization of
        Inl e \<Rightarrow> (Inl e, w)
      | Inr (controller_id, intent, business_owner_id) \<Rightarrow>
          (case broker_exchange send (RevokeRemovalTarget controller_id correlation_id device_ref business_owner_id reason command_id) w of
             (Inl e, w1) \<Rightarrow> (Inl e, w1)
           | (Inr (Revocation res), w1) \<Rightarrow> (Inr res, w1)
           | (Inr _, w1) \<Rightarrow> (Inl AssertionErr, w1)))"

definition brokered_get_device_control_operation ::
  "('ref removal_capability_call \<Rightarrow> 'w \<Rightarrow> 'res removal_capability_reply option \<times> 'w)
    \<Rightarrow> 'ref \<Rightarrow> string \<Rightarrow> string \<Rightarrow> ('w, call_error, erase_operation) op" where
  "brokered_get_device_control_operation send device_ref source_claim_event_id authorization w =
     (case broker_marker authorization of
        Inl e \<Rightarrow> (Inl e, w)
      | Inr (controller_id, intent_id, owner) \<Rightarrow>
          (case broker_exchange send (ObserveRemovalDelivery controller_id intent_id device_ref source_claim_event_id) w of
             (Inl e, w1) \<Rightarrow> (Inl e, w1)
           | (Inr (Delivery operation), w1) \<Rightarrow> (Inr operation, w1)
           | (Inr _, w1) \<Rightarrow> (Inl AssertionErr, w1)))"

section \<open>The removal daemon's service\<close>

text \<open>
  \<open>_build_service\<close> in \<open>daemon.py\<close>: the Hub is the brokered client, the issuer gives markers, the ledger is
  the one over SQLite. The broker runs in the Admin process with the peer \<open>credential\<close>; the Kernel and
  the clocks are those of \<open>V\<close>.
\<close>

definition broker_socket ::
  "('w, 'ref, 'res) capability_service \<Rightarrow> int \<Rightarrow> UnixPeerCredential \<Rightarrow> 'ref removal_capability_call \<Rightarrow> 'w
    \<Rightarrow> 'res removal_capability_reply option \<times> 'w" where
  "broker_socket B uid credential call = broker_handle B uid (Inr credential) (Inr call)"

definition build_service ::
  "('ref, 'res) sdk \<Rightarrow> ('ref removal_capability_call \<Rightarrow> 'w \<Rightarrow> 'res removal_capability_reply option \<times> 'w)
    \<Rightarrow> ('s, 'w, 'ref, 'res) removal_service \<Rightarrow> (removal_row list, 'w, 'ref, 'res) removal_service" where
  "build_service S send V =
     \<lparr>sv_hub_credentials = Some (\<lambda>controller_id intent_id device_ref business_owner_id.
        Inr (issue_marker controller_id intent_id device_ref business_owner_id)), sv_removal_intents = removal_sqlite S, sv_revoke = brokered_revoke send,
      sv_get_device_control_operation = brokered_get_device_control_operation send,
      sv_list_mounts = sv_list_mounts V, sv_now = sv_now V, sv_monotonic = sv_monotonic V, sv_sleep = sv_sleep V,
      sv_observation_timeout = sv_observation_timeout V\<rparr>"

lemma split_colon_plain: "CHR '':'' \<notin> set s \<Longrightarrow> split_colon s = [s]"
  by (induction s) auto

lemma split_colon_append: "CHR '':'' \<notin> set s \<Longrightarrow> split_colon (s @ CHR '':'' # t) = s # split_colon t"
  by (induction s) auto

text \<open>The marker is read back, unless an id has a colon in it.\<close>

lemma broker_marker_roundtrip:
  assumes "CHR '':'' \<notin> set controller" and "CHR '':'' \<notin> set intent" and "CHR '':'' \<notin> set owner"
  shows "broker_marker (issue_marker controller intent ref owner) = Inr (controller, intent, owner)"
proof -
  have "split_colon (issue_marker controller intent ref owner) = [''broker'', controller, intent, owner]"
    using split_colon_append [of "''broker''"] split_colon_append [OF assms(1)] split_colon_append [OF assms(2)] split_colon_plain [OF assms(3)]
    by (simp add: issue_marker_def)
  then show ?thesis by (simp add: broker_marker_def)
qed

lemma split_colon_not_nil: "split_colon s \<noteq> []"
  by (cases s) (auto split: list.split)

lemma split_colon_length: "length (split_colon s) = Suc (count_list s (CHR '':''))"
proof (induction s)
  case (Cons c s)
  then show ?case by (auto split: list.split)
qed simp

lemma marker_with_colon:
  assumes "CHR '':'' \<in> set owner"
  shows "broker_marker (issue_marker controller intent ref owner) = Inl (Failed (failure ''hub'' ''configuration'' ''Broker marker is invalid'' 503))"
proof -
  have "count_list owner (CHR '':'') \<noteq> 0" using assms by (simp add: count_list_0_iff)
  then have "length (split_colon (issue_marker controller intent ref owner)) > 4"
    by (simp add: split_colon_length issue_marker_def count_list_append)
  then show ?thesis by (auto simp: broker_marker_def split: list.split)
qed

text \<open>No refusal that comes through the broker can be retried.\<close>

lemma brokered_failures_final:
  assumes "fst (brokered_revoke send ref reason command correlation authorization w) = Inl (Failed f)"
  shows "\<not> af_retryable f"
  using assms
  by (auto simp: brokered_revoke_def broker_exchange_def broker_marker_def failure_def
      split: sum.splits prod.splits option.splits removal_capability_reply.splits list.splits if_splits)

text \<open>Through the broker the delivery of an erasure is never observed.\<close>

lemma broker_never_observes:
  "broker_handle B uid peer (Inr (ObserveRemovalDelivery controller intent ref event)) w \<noteq> (Some (Delivery operation), w')"
  by (simp add: broker_handle_def broker_dispatch_def capability_problem_def split: sum.split option.split)

lemma brokered_observation_fails:
  "brokered_get_device_control_operation (broker_socket B uid credential) ref event authorization w \<noteq> (Inr operation, w')"
  by (auto simp: brokered_get_device_control_operation_def broker_exchange_def broker_socket_def broker_never_observes
      split: sum.splits prod.splits option.splits removal_capability_reply.splits if_splits)

lemma brokered_erase_unknown:
  assumes "observe_device_erase S (build_service S (broker_socket B uid credential) V) i authorization w = (Inr (state, reference), w')"
  shows "state = ''unknown''"
  using assms
  by (auto simp: observe_device_erase_def build_service_def brokered_observation_fails
      split: option.splits prod.splits sum.splits call_error.splits)

lemma conditions_erase_state:
  assumes "removal_conditions S i mount erase reference t = Inr cs" and "c \<in> set cs" and "cn_name c = ''device_erase_acknowledged''"
  shows "cn_state c = erase"
  using assms by (auto simp: removal_conditions_def mk_condition_def split: option.splits if_splits)

lemma claim_revoked_erase_state:
  assumes "claim_revoked r i hub step converged (removal_conditions S i' mount ''unknown'' reference t) = Inr d"
  shows "dr_completed_stage d \<noteq> ''received'' \<and> (\<forall>c\<in>set (dr_conditions d). cn_name c = ''device_erase_acknowledged'' \<longrightarrow> cn_state c = ''unknown'')"
  using assms conditions_erase_state
  by (cases converged) (auto simp: claim_revoked_def split: sum.splits)

lemma brokered_observe_removal:
  assumes "observe_removal S n (build_service S (broker_socket B uid credential) V) payload i hub authorization w = (Inr d, w')"
  shows "dr_completed_stage d \<noteq> ''received'' \<and> (\<forall>c\<in>set (dr_conditions d). cn_name c = ''device_erase_acknowledged'' \<longrightarrow> cn_state c = ''unknown'')"
proof -
  let ?D = "build_service S (broker_socket B uid credential) V"
  obtain m w1 where wait: "wait_for_mount_removal n ?D (cd_owner_id payload) (cd_device_id payload) w = (m, w1)" by fastforce
  obtain step where step: "mk_step ''hub_revocation'' (res_outcome S hub) (Some (ri_hub_command_id i)) None = Inr step"
    using assms by (auto simp: observe_removal_def split: sum.splits)
  show ?thesis
  proof (cases m)
    case (Inl e)
    with assms step wait show ?thesis
      by (cases e) (auto simp: observe_removal_def dest: claim_revoked_erase_state)
  next
    case (Inr mount)
    obtain r w2 where erase: "observe_device_erase S ?D i authorization w1 = (r, w2)" by fastforce
    with assms step wait Inr obtain state reference where r: "r = Inr (state, reference)"
      by (cases r) (auto simp: observe_removal_def)
    with erase brokered_erase_unknown have "state = ''unknown''" by metis
    with assms step wait Inr erase r show ?thesis by (auto simp: observe_removal_def dest: claim_revoked_erase_state)
  qed
qed

lemma refused_revocation_final:
  assumes "revocation_refused r i f t = Inr d" and "\<not> af_retryable f"
  shows "dr_outcome d = ''blocked'' \<and> dr_recovery d = ''operator-action-required''
    \<and> (\<forall>c\<in>set (dr_conditions d). cn_name c = ''device_erase_acknowledged'' \<longrightarrow> cn_state c = ''unknown'')"
  using assms by (auto simp: revocation_refused_def mk_condition_def split: sum.splits if_splits)

text \<open>
  C39. What a removal answers in the daemon as it is composed, with the broker between it and the Hub.
  A revocation that did not come through is always reported as blocked and for an operator, never as
  one to retry; and the erasure on the device is always reported as unknown, also after the device
  has acknowledged it.
\<close>

theorem brokered_removal_answers:
  assumes "remove_controller_device S dump n (build_service S (broker_socket B uid credential) V) payload workload context (s, w)
    = (Inr d, (rows, w'))"
  shows "(dr_completed_stage d = ''received'' \<longrightarrow> dr_outcome d = ''blocked'' \<and> dr_recovery d = ''operator-action-required'')
    \<and> (\<forall>c\<in>set (dr_conditions d). cn_name c = ''device_erase_acknowledged'' \<longrightarrow> cn_state c = ''unknown'')"
proof -
  let ?D = "build_service S (broker_socket B uid credential) V"
  have store: "sv_removal_intents ?D = removal_sqlite S" and revoke: "sv_revoke ?D = brokered_revoke (broker_socket B uid credential)"
    by (simp_all add: build_service_def)
  obtain i s1 authorization where run: "pursue_removal S n ?D payload i authorization (s1, w) = (Inr d, (rows, w'))"
    using remove_answered [OF store assms] by blast
  show ?thesis
  proof (cases "ri_hub_result i")
    case (Some hub)
    with run brokered_observe_removal show ?thesis by (fastforce simp: pursue_removal_def split: prod.splits)
  next
    case None
    obtain h w1 where h: "sv_revoke ?D (ri_device_ref i) (ri_reason i) (ri_hub_command_id i) (ri_intent_id i) authorization w = (h, w1)"
      by fastforce
    show ?thesis
    proof (cases h)
      case (Inl e)
      with None h run obtain f where f: "e = Failed f" "revocation_refused (cd_request_id payload) i f (sv_now ?D w1) = Inr d"
        by (cases e) (auto simp: pursue_removal_def)
      with brokered_failures_final h Inl have "\<not> af_retryable f" by (metis fst_conv revoke)
      from refused_revocation_final [OF f(2) this] show ?thesis by blast
    next
      case (Inr hub)
      obtain m s2 where mark: "rs_mark_hub_committed S (ri_intent_id i) hub (sv_now ?D w1) s1 = (m, s2)" by fastforce
      with None h Inr run store brokered_observe_removal show ?thesis
        by (cases m) (fastforce simp: pursue_removal_def split: prod.splits)+
    qed
  qed
qed

text \<open>A broker without a key, ids of the shape the models ask for, and a Kernel without mounts.\<close>

definition plain_sdk :: "(string, string) sdk" where
  "plain_sdk = sample_sdk\<lparr>uuid5_hex := \<lambda>_ _. ''00000000000000000000000000000000''\<rparr>"

definition unconfigured_broker :: "(nat, string, string) capability_service" where
  "unconfigured_broker = \<lparr>cs_hub_credentials = None, cs_revoke = (\<lambda>_ _ _ _ _ w. (Inr ''event'', w)),
     cs_get_device_control_operation = (\<lambda>_ _ _ w. (Inl AttributeErr, w))\<rparr>"

definition plain_payload :: ControllerDeviceRemovalRequest where
  "plain_payload = sample_payload\<lparr>cd_controller_id := ''ectrl-00000000000000000000''\<rparr>"

definition plain_context :: "string RemovalOwnerAuthorizationContext" where
  "plain_context = lc_authorization_context (removal_call plain_sdk ''eidolon-admission'' plain_payload 2 50 ''d1'' 5)"

definition plain_cred :: UnixPeerCredential where
  "plain_cred = \<lparr>pc_pid = 8, pc_uid = 991, pc_gid = 991\<rparr>"

lemma plain_removal:
  "\<exists>d rows w. remove_controller_device plain_sdk sample_dump 6 (build_service plain_sdk (broker_socket unconfigured_broker 991 plain_cred) sample_service)
     plain_payload ''eidolon-local-api'' plain_context ([], 1) = (Inr d, (rows, w)) \<and> dr_completed_stage d = ''received''"
proof -
  let ?D = "build_service plain_sdk (broker_socket unconfigured_broker 991 plain_cred) sample_service"
  let ?q = "removal_request_of plain_sdk sample_dump plain_payload ''eidolon-local-api'' plain_context 1"
  let ?i = "new_intent plain_sdk ?q"
  have id: "ri_intent_id ?i = ''removal-intent-00000000000000000000000000000000''"
    by (simp add: request_id_of_def removal_intent_id_def plain_sdk_def)
  have i: "ri_hub_result ?i = None" "ri_hub_command_id ?i = ''revoke-claim-00000000000000000000000000000000''" "ri_reason ?i = ''owner-removed''"
    by (simp_all add: new_intent_def hub_command_id_def plain_sdk_def removal_request_of_def Let_def plain_payload_def sample_payload_def)
  have q: "context_bound plain_sdk ?q" "0 \<le> rq_controller_reset_epoch ?q"
    by (rule removal_request_bound, simp add: removal_request_of_def Let_def plain_context_def removal_call_def)
  then have create: "rs_get_or_create plain_sdk ?q [] = (Inr ?i, [removal_row_of plain_sdk ?i])"
    by (simp add: rs_get_or_create_def context_bound_def transact_def bindS_def ret_def stmt_insert_removal_def removal_row_of_def new_intent_def)
  have ctx: "oa_intent_id (rc_owner_authorization_context plain_context) = ri_intent_id ?i"
    by (simp add: plain_context_def removal_call_def Let_def request_id_of_def removal_request_of_def)
  have ids: "cd_controller_id plain_payload = ''ectrl-00000000000000000000''" "cd_owner_id plain_payload = ''owner''"
    by (simp_all add: plain_payload_def sample_payload_def)
  have marker: "broker_marker (issue_marker (cd_controller_id plain_payload) (ri_intent_id ?i) ref (cd_owner_id plain_payload))
      = Inr (''ectrl-00000000000000000000'', ''removal-intent-00000000000000000000000000000000'', ''owner'')" for ref :: string
    unfolding ids id by (rule broker_marker_roundtrip) simp_all
  have "capability_call_ok (RevokeRemovalTarget ''ectrl-00000000000000000000'' (ri_intent_id ?i) ref ''owner'' (ri_reason ?i) (ri_hub_command_id ?i))"
    for ref :: string unfolding id i by (simp add: hex_after_def hex_alphabet_def)
  then have revoke: "sv_revoke ?D (ri_device_ref ?i) (ri_reason ?i) (ri_hub_command_id ?i) (ri_intent_id ?i)
      (issue_marker (cd_controller_id plain_payload) (ri_intent_id ?i) (ri_device_ref ?i) (cd_owner_id plain_payload)) 1
      = (Inl (Failed (failure ''hub'' ''configuration'' ''Hub issuer unavailable'' 503)), 1)"
    using marker
    by (simp add: build_service_def brokered_revoke_def broker_exchange_def broker_socket_def broker_handle_def authorize_def plain_cred_def
        broker_dispatch_def unconfigured_broker_def capability_problem_def failure_def del: capability_call_ok.simps)
  have refused: "\<exists>d. revocation_refused r ?i (failure ''hub'' ''configuration'' ''Hub issuer unavailable'' 503) t = Inr d \<and> dr_completed_stage d = ''received''"
    for r t
    by (simp add: revocation_refused_def to_wire_def to_refusal_def failure_def PUBLIC_REFUSAL_KIND_def authorities_def mk_step_def workflow_step_def mk_condition_def
        step_states_def i)
  have D: "sv_hub_credentials ?D = Some (\<lambda>c i r b. Inr (issue_marker c i r b))" "sv_removal_intents ?D = removal_sqlite plain_sdk" "sv_now ?D = int"
    by (simp_all add: build_service_def sample_service_sel)
  show ?thesis using create ctx revoke refused i(1) by (simp add: remove_controller_device_def pursue_removal_def D)
qed

lemma brokered_removal_answers_witness:
  "\<exists>d rows w. remove_controller_device plain_sdk sample_dump 6 (build_service plain_sdk (broker_socket unconfigured_broker 991 plain_cred) sample_service)
     plain_payload ''eidolon-local-api'' plain_context ([], 1) = (Inr d, (rows, w))
   \<and> dr_outcome d = ''blocked'' \<and> dr_recovery d = ''operator-action-required''"
  using plain_removal brokered_removal_answers by metis

end
