(* ===== verification/Audit_Index.thy ===== *)
theory Audit_Index
  imports Prelude
begin

text \<open>
  \<open>audit/index.py\<close>: the Host's own copy of the audit stream, a table of events in the order they
  arrived, that is filled by \<open>ingest\<close>, bounded by \<open>prune\<close> and read by the Owner's screens.
\<close>

section \<open>Events and rows\<close>

record AuditEnvelope =
  ae_event_id :: string
  ae_producer :: string
  ae_producer_seq :: int
  ae_category :: string
  ae_owner_id :: "string option"
  ae_subject_type :: string
  ae_subject_id :: string
  ae_action :: string
  ae_outcome :: string
  ae_severity :: string
  ae_reason :: "string option"
  ae_trace_id :: "string option"
  ae_data_classification :: string
  ae_schema_version :: int
  ae_payload :: jobject
  ae_occurred_at :: int

text \<open>The table without the indexes and the column \<open>ingested_at\<close>, which nothing reads. Instants are microseconds in UTC.\<close>

record audit_row =
  ax_ingest_seq :: int
  ax_event_id :: string
  ax_producer :: string
  ax_producer_seq :: int
  ax_category :: string
  ax_owner_id :: "string option"
  ax_subject_type :: string
  ax_subject_id :: string
  ax_action :: string
  ax_outcome :: string
  ax_severity :: string
  ax_reason :: "string option"
  ax_trace_id :: "string option"
  ax_data_classification :: string
  ax_schema_version :: int
  ax_payload_json :: jobject
  ax_occurred_at :: int

datatype audit_error = ReadOnly string

definition audit_row_of :: "int \<Rightarrow> AuditEnvelope \<Rightarrow> audit_row" where
  "audit_row_of seq item =
     \<lparr>ax_ingest_seq = seq, ax_event_id = ae_event_id item, ax_producer = ae_producer item,
      ax_producer_seq = ae_producer_seq item, ax_category = ae_category item, ax_owner_id = ae_owner_id item,
      ax_subject_type = ae_subject_type item, ax_subject_id = ae_subject_id item, ax_action = ae_action item,
      ax_outcome = ae_outcome item, ax_severity = ae_severity item, ax_reason = ae_reason item,
      ax_trace_id = ae_trace_id item, ax_data_classification = ae_data_classification item,
      ax_schema_version = ae_schema_version item, ax_payload_json = ae_payload item, ax_occurred_at = ae_occurred_at item\<rparr>"

definition index_envelope :: "audit_row \<Rightarrow> AuditEnvelope" where
  "index_envelope row =
     \<lparr>ae_event_id = ax_event_id row, ae_producer = ax_producer row, ae_producer_seq = ax_producer_seq row,
      ae_category = ax_category row, ae_owner_id = ax_owner_id row, ae_subject_type = ax_subject_type row,
      ae_subject_id = ax_subject_id row, ae_action = ax_action row, ae_outcome = ax_outcome row,
      ae_severity = ax_severity row, ae_reason = ax_reason row, ae_trace_id = ax_trace_id row,
      ae_data_classification = ax_data_classification row, ae_schema_version = ax_schema_version row,
      ae_payload = ax_payload_json row, ae_occurred_at = ax_occurred_at row\<rparr>"

text \<open>The table is kept in the order of its primary key. A key that is left out is one more than the greatest there is.\<close>

definition next_seq :: "audit_row list \<Rightarrow> int" where
  "next_seq rows = (if rows = [] then 1 else Max (ax_ingest_seq ` set rows) + 1)"

section \<open>Operations\<close>

definition insert_event :: "AuditEnvelope \<Rightarrow> audit_row list \<Rightarrow> audit_row list" where
  "insert_event item rows =
     (if list_ex (\<lambda>r. ax_event_id r = ae_event_id item) rows then rows else rows @ [audit_row_of (next_seq rows) item])"

definition ingest :: "bool \<Rightarrow> AuditEnvelope list \<Rightarrow> (audit_row list, audit_error, nat) op" where
  "ingest read_only events rows =
     (if read_only then (Inl (ReadOnly ''read-only audit index clients cannot ingest''), rows)
      else if events = [] then (Inr 0, rows)
      else (let rows1 = fold insert_event events rows in (Inr (length rows1 - length rows), rows1)))"

text \<open>\<open>LIMIT\<close> and \<open>OFFSET\<close> of SQLite: a negative limit is none, a negative offset is zero.\<close>

definition limited :: "int \<Rightarrow> 'a list \<Rightarrow> 'a list" where
  "limited limit xs = (if limit < 0 then xs else take (nat limit) xs)"

definition prune_floor :: "int \<Rightarrow> audit_row list \<Rightarrow> int option" where
  "prune_floor max_rows rows =
     (case drop (nat (max_rows - 1)) (rev (sort_key ax_ingest_seq rows)) of [] \<Rightarrow> None | r # _ \<Rightarrow> Some (ax_ingest_seq r))"

definition prune :: "bool \<Rightarrow> int \<Rightarrow> int \<Rightarrow> (audit_row list, audit_error, nat) op" where
  "prune read_only before max_rows rows =
     (if read_only then (Inl (ReadOnly ''read-only audit index clients cannot prune''), rows)
      else (let rows1 = filter (\<lambda>r. \<not> ax_occurred_at r < before) rows;
                rows2 = (case prune_floor max_rows rows1 of None \<Rightarrow> rows1 | Some floor \<Rightarrow> filter (\<lambda>r. \<not> ax_ingest_seq r < floor) rows1)
            in (Inr (length rows - length rows1 + (length rows1 - length rows2)), rows2)))"

definition tail_for_owner :: "string \<Rightarrow> int option \<Rightarrow> int \<Rightarrow> audit_row list \<Rightarrow> (int \<times> AuditEnvelope) list" where
  "tail_for_owner owner_id after_seq limit rows =
     (let own = filter (\<lambda>r. ax_owner_id r = Some owner_id) rows;
          page = (case after_seq of
                    Some seq \<Rightarrow> limited limit (sort_key ax_ingest_seq (filter (\<lambda>r. seq < ax_ingest_seq r) own))
                  | None \<Rightarrow> rev (limited limit (rev (sort_key ax_ingest_seq own))))
      in map (\<lambda>r. (ax_ingest_seq r, index_envelope r)) page)"

definition list_for_owner :: "string \<Rightarrow> int \<Rightarrow> audit_row list \<Rightarrow> AuditEnvelope list" where
  "list_for_owner owner_id limit rows =
     map index_envelope (limited limit (rev (sort_key ax_occurred_at (sort_key ax_ingest_seq
       (filter (\<lambda>r. ax_owner_id r = Some owner_id) rows)))))"

definition list_for_owner_since :: "string \<Rightarrow> int \<Rightarrow> int \<Rightarrow> audit_row list \<Rightarrow> AuditEnvelope list" where
  "list_for_owner_since owner_id after limit rows =
     map index_envelope (limited limit (sort_key ax_occurred_at (sort_key ax_ingest_seq
       (filter (\<lambda>r. ax_owner_id r = Some owner_id \<and> after \<le> ax_occurred_at r) rows))))"

section \<open>The order of arrival\<close>

definition audit_ok :: "audit_row list \<Rightarrow> bool" where
  "audit_ok rows \<longleftrightarrow> sorted_wrt (<) (map ax_ingest_seq rows) \<and> distinct (map ax_event_id rows) \<and> (\<forall>r\<in>set rows. 1 \<le> ax_ingest_seq r)"

lemma next_seq_above: "r \<in> set rows \<Longrightarrow> ax_ingest_seq r < next_seq rows"
  by (auto simp: next_seq_def intro!: zle_add1_eq_le [THEN iffD2] Max_ge)

lemma next_seq_append: "1 \<le> next_seq rows \<Longrightarrow> ax_ingest_seq r = next_seq rows \<Longrightarrow> next_seq (rows @ [r]) = next_seq rows + 1"
proof -
  assume r: "ax_ingest_seq r = next_seq rows"
  have "Max (ax_ingest_seq ` set (rows @ [r])) = next_seq rows"
  proof (rule Max_eqI)
    fix y assume "y \<in> ax_ingest_seq ` set (rows @ [r])"
    then show "y \<le> next_seq rows" using next_seq_above [of _ rows] r by (auto intro: less_imp_le)
  qed (use r in auto)
  then show ?thesis by (simp add: next_seq_def)
qed

lemma next_seq_last:
  assumes "audit_ok rows" and "rows \<noteq> []"
  shows "next_seq rows = ax_ingest_seq (last rows) + 1"
proof -
  have "Max (ax_ingest_seq ` set rows) = ax_ingest_seq (last rows)"
  proof (rule Max_eqI)
    fix y assume "y \<in> ax_ingest_seq ` set rows"
    then obtain r where r: "r \<in> set (butlast rows @ [last rows])" "y = ax_ingest_seq r" using assms(2) by auto
    have "sorted_wrt (<) (map ax_ingest_seq (butlast rows @ [last rows]))" using assms by (simp add: audit_ok_def)
    with r show "y \<le> ax_ingest_seq (last rows)" by (auto simp: sorted_wrt_append)
  qed (use assms(2) in auto)
  with assms(2) show ?thesis by (simp add: next_seq_def)
qed

lemma next_seq_pos:
  assumes "audit_ok rows"
  shows "1 \<le> next_seq rows"
proof (cases rows)
  case (Cons r rs)
  then have "r \<in> set rows" by simp
  with assms next_seq_above [of r rows] show ?thesis by (fastforce simp: audit_ok_def)
qed (simp add: next_seq_def)

lemma audit_sort_id: "audit_ok rows \<Longrightarrow> sort_key ax_ingest_seq (filter P rows) = filter P rows"
proof -
  assume "audit_ok rows"
  then have "sorted_wrt (<) (map ax_ingest_seq (filter P rows))" by (simp add: audit_ok_def sorted_wrt_map sorted_wrt_filter)
  then have "sorted (map ax_ingest_seq (filter P rows))" using strict_sorted_iff by blast
  then show ?thesis by (rule sort_key_id_if_sorted)
qed

lemma audit_filter_ok: "audit_ok rows \<Longrightarrow> audit_ok (filter P rows)"
  by (auto simp: audit_ok_def sorted_wrt_map sorted_wrt_filter distinct_map_filter)

lemma insert_event_ok:
  assumes "audit_ok rows"
  shows "audit_ok (insert_event item rows)"
  using assms next_seq_above [of _ rows] next_seq_pos [OF assms]
  by (auto simp: insert_event_def audit_ok_def sorted_wrt_append audit_row_of_def list_ex_iff)

text \<open>Later rows: what was there is kept as it is, and what is new has a greater key.\<close>

definition extends :: "audit_row list \<Rightarrow> audit_row list \<Rightarrow> bool" where
  "extends rows rows' \<longleftrightarrow> audit_ok rows' \<and> next_seq rows \<le> next_seq rows' \<and> (\<forall>r\<in>set rows'. r \<in> set rows \<or> next_seq rows \<le> ax_ingest_seq r)"

lemma fold_insert_extends: "audit_ok rows \<Longrightarrow> extends rows (fold insert_event events rows)"
proof (induction events arbitrary: rows)
  case Nil
  then show ?case by (auto simp: extends_def)
next
  case (Cons e events)
  let ?rows1 = "insert_event e rows"
  have "next_seq rows \<le> next_seq ?rows1 \<and> (\<forall>r\<in>set ?rows1. r \<in> set rows \<or> next_seq rows \<le> ax_ingest_seq r)"
    using next_seq_append [OF next_seq_pos [OF Cons.prems], of "audit_row_of (next_seq rows) e"]
    by (auto simp: insert_event_def audit_row_of_def)
  with Cons.IH [OF insert_event_ok [OF Cons.prems, of e]] show ?case
    unfolding extends_def by (simp, meson order_trans)
qed

lemma ingest_extends: "audit_ok rows \<Longrightarrow> extends rows (snd (ingest False events rows))"
  using fold_insert_extends [of rows events] by (auto simp: ingest_def Let_def extends_def)

lemma prune_floor_bound: "prune_floor m rows = Some floor \<Longrightarrow> \<exists>r\<in>set rows. ax_ingest_seq r = floor"
proof -
  assume "prune_floor m rows = Some floor"
  then obtain r rest where "drop (nat (m - 1)) (rev (sort_key ax_ingest_seq rows)) = r # rest" "ax_ingest_seq r = floor"
    by (auto simp: prune_floor_def split: list.splits)
  moreover from this have "r \<in> set (rev (sort_key ax_ingest_seq rows))" by (metis in_set_dropD list.set_intros(1))
  ultimately show ?thesis by auto
qed

text \<open>Pruning that spares the newest row.\<close>

lemma prune_extends:
  assumes ok: "audit_ok rows" and "rows \<noteq> []" and "\<not> ax_occurred_at (last rows) < before"
  shows "extends rows (snd (prune False before m rows))"
proof -
  let ?rows1 = "filter (\<lambda>r. \<not> ax_occurred_at r < before) rows"
  let ?rows2 = "snd (prune False before m rows)"
  have last: "last rows \<in> set rows" "last rows \<in> set ?rows1" using assms(2,3) by auto
  have top: "ax_ingest_seq r \<le> ax_ingest_seq (last rows)" if mem: "r \<in> set rows" for r
    using next_seq_last [OF ok assms(2)] next_seq_above [OF mem] by simp
  have rows2: "?rows2 = (case prune_floor m ?rows1 of None \<Rightarrow> ?rows1 | Some floor \<Rightarrow> filter (\<lambda>r. \<not> ax_ingest_seq r < floor) ?rows1)"
    by (simp add: prune_def Let_def)
  have "audit_ok ?rows2" unfolding rows2 using audit_filter_ok [OF ok] by (auto simp: audit_filter_ok split: option.split)
  moreover have "last rows \<in> set ?rows2"
  proof (cases "prune_floor m ?rows1")
    case None
    then show ?thesis using last unfolding rows2 by simp
  next
    case (Some floor)
    then obtain r where "r \<in> set ?rows1" "ax_ingest_seq r = floor" using prune_floor_bound by blast
    then have "floor \<le> ax_ingest_seq (last rows)" using top by auto
    with Some last show ?thesis unfolding rows2 by simp
  qed
  moreover have "set ?rows2 \<subseteq> set rows" unfolding rows2 by (auto split: option.split)
  ultimately show ?thesis
    using next_seq_above [of "last rows" ?rows2] next_seq_last [OF ok assms(2)] unfolding extends_def by auto
qed

section \<open>A reader that resumes from its cursor\<close>

datatype audit_step = Ingest "AuditEnvelope list" | Prune int int | ReadTail int

text \<open>One Owner's reader: its cursor is the last sequence it was given; what it was given is kept in order.\<close>

type_synonym reader = "audit_row list \<times> int \<times> (int \<times> AuditEnvelope) list"

fun reader_step :: "string \<Rightarrow> audit_step \<Rightarrow> reader \<Rightarrow> reader" where
  "reader_step owner (Ingest events) (rows, cursor, given) = (snd (ingest False events rows), cursor, given)"
| "reader_step owner (Prune before max_rows) (rows, cursor, given) = (snd (prune False before max_rows rows), cursor, given)"
| "reader_step owner (ReadTail limit) (rows, cursor, given) =
     (let page = tail_for_owner owner (Some cursor) limit rows
      in (rows, if page = [] then cursor else fst (last page), given @ page))"

text \<open>No pruning takes away the newest row.\<close>

fun newest_kept :: "string \<Rightarrow> audit_step list \<Rightarrow> reader \<Rightarrow> bool" where
  "newest_kept owner [] state = True"
| "newest_kept owner (step # steps) state =
     ((case step of Prune before max_rows \<Rightarrow> fst state = [] \<or> \<not> ax_occurred_at (last (fst state)) < before | _ \<Rightarrow> True)
      \<and> newest_kept owner steps (reader_step owner step state))"

definition given_row :: "audit_row \<Rightarrow> int \<times> AuditEnvelope" where
  "given_row r = (ax_ingest_seq r, index_envelope r)"

definition reader_ok :: "string \<Rightarrow> int \<Rightarrow> reader \<Rightarrow> bool" where
  "reader_ok owner start state \<longleftrightarrow> (case state of (rows, cursor, given) \<Rightarrow>
     audit_ok rows \<and> cursor < next_seq rows \<and> start \<le> cursor \<and> sorted_wrt (<) (map fst given)
     \<and> (\<forall>g\<in>set given. start < fst g \<and> fst g \<le> cursor)
     \<and> (\<forall>r\<in>set rows. ax_owner_id r = Some owner \<longrightarrow> start < ax_ingest_seq r \<longrightarrow> ax_ingest_seq r \<le> cursor \<longrightarrow> given_row r \<in> set given))"

lemma tail_is_filter:
  "audit_ok rows \<Longrightarrow> tail_for_owner owner (Some cursor) limit rows
    = limited limit (map given_row (filter (\<lambda>r. ax_owner_id r = Some owner \<and> cursor < ax_ingest_seq r) rows))"
proof -
  assume ok: "audit_ok rows"
  have "filter (\<lambda>r. cursor < ax_ingest_seq r) (filter (\<lambda>r. ax_owner_id r = Some owner) rows)
      = filter (\<lambda>r. ax_owner_id r = Some owner \<and> cursor < ax_ingest_seq r) rows" by (simp add: conj_commute)
  with audit_sort_id [OF ok] show ?thesis
    by (simp add: tail_for_owner_def Let_def limited_def given_row_def take_map comp_def)
qed

lemma reader_extends:
  assumes "reader_ok owner start (rows, cursor, given)" and "extends rows rows'"
  shows "reader_ok owner start (rows', cursor, given)"
  using assms by (fastforce simp: reader_ok_def extends_def)

text \<open>A page is the beginning of what the Owner has beyond the cursor.\<close>

lemma page_split:
  assumes "audit_ok rows"
  obtains xs ys where "filter (\<lambda>r. ax_owner_id r = Some owner \<and> cursor < ax_ingest_seq r) rows = xs @ ys"
    and "tail_for_owner owner (Some cursor) limit rows = map given_row xs"
    and "sorted_wrt (<) (map ax_ingest_seq (xs @ ys))"
proof -
  let ?own = "filter (\<lambda>r. ax_owner_id r = Some owner \<and> cursor < ax_ingest_seq r) rows"
  have sorted: "sorted_wrt (<) (map ax_ingest_seq ?own)" using assms by (simp add: audit_ok_def sorted_wrt_map sorted_wrt_filter)
  show thesis
  proof (cases "limit < 0")
    case True
    with sorted that [of ?own "[]"] show ?thesis by (simp add: tail_is_filter [OF assms] limited_def)
  next
    case False
    with sorted that [of "take (nat limit) ?own" "drop (nat limit) ?own"] show ?thesis
      by (simp add: tail_is_filter [OF assms] limited_def take_map)
  qed
qed

lemma reader_reads:
  assumes ok: "reader_ok owner start (rows, cursor, given)"
  shows "reader_ok owner start (reader_step owner (ReadTail limit) (rows, cursor, given))"
proof -
  have rows: "audit_ok rows" using ok by (simp add: reader_ok_def)
  obtain xs ys where own: "filter (\<lambda>r. ax_owner_id r = Some owner \<and> cursor < ax_ingest_seq r) rows = xs @ ys"
      and page: "tail_for_owner owner (Some cursor) limit rows = map given_row xs" and sorted: "sorted_wrt (<) (map ax_ingest_seq (xs @ ys))"
    by (rule page_split [OF rows])
  show ?thesis
  proof (cases "xs = []")
    case True
    with ok page show ?thesis by (simp add: Let_def)
  next
    case False
    let ?cursor = "ax_ingest_seq (last xs)"
    have mem: "x \<in> set rows \<and> ax_owner_id x = Some owner \<and> cursor < ax_ingest_seq x" if "x \<in> set (xs @ ys)" for x
    proof -
      have "x \<in> set (filter (\<lambda>r. ax_owner_id r = Some owner \<and> cursor < ax_ingest_seq r) rows)" unfolding own by (rule that)
      then show ?thesis by simp
    qed
    have up: "ax_ingest_seq x \<le> ?cursor" if x: "x \<in> set xs" for x
    proof -
      have "sorted_wrt (<) (map ax_ingest_seq (butlast xs @ [last xs]))" using sorted False by (simp add: sorted_wrt_append)
      moreover have "x \<in> set (butlast xs @ [last xs])" using x False by simp
      ultimately show ?thesis by (auto simp: sorted_wrt_append)
    qed
    have beyond: "?cursor < ax_ingest_seq y" if "y \<in> set ys" for y using sorted False that by (auto simp: sorted_wrt_append)
    have next_cursor: "reader_step owner (ReadTail limit) (rows, cursor, given) = (rows, ?cursor, given @ map given_row xs)"
      using False page by (simp add: Let_def last_map given_row_def)
    have moved: "cursor < ?cursor" "?cursor < next_seq rows" using mem [of "last xs"] False next_seq_above [of "last xs" rows] by auto
    have "given_row r \<in> set given \<union> given_row ` set xs"
      if r: "r \<in> set rows" "ax_owner_id r = Some owner" "start < ax_ingest_seq r" "ax_ingest_seq r \<le> ?cursor" for r
    proof (cases "ax_ingest_seq r \<le> cursor")
      case True
      with ok r show ?thesis by (simp add: reader_ok_def)
    next
      case False
      then have "r \<in> set (filter (\<lambda>r. ax_owner_id r = Some owner \<and> cursor < ax_ingest_seq r) rows)" using r by simp
      then have "r \<in> set (xs @ ys)" unfolding own .
      with r(4) show ?thesis by (auto dest: beyond)
    qed
    moreover have "sorted_wrt (<) (map fst (given @ map given_row xs))"
    proof -
      have "fst g < ax_ingest_seq x" if "g \<in> set given" "x \<in> set xs" for g x
        using ok that mem [of x] by (fastforce simp: reader_ok_def)
      with ok sorted show ?thesis by (simp add: reader_ok_def sorted_wrt_append given_row_def comp_def)
    qed
    moreover have "start < fst g \<and> fst g \<le> ?cursor" if "g \<in> set (given @ map given_row xs)" for g
    proof -
      have "start \<le> cursor" "g \<in> set given \<Longrightarrow> start < fst g \<and> fst g \<le> cursor" using ok by (auto simp: reader_ok_def)
      then show ?thesis using that mem up moved(1) by (fastforce simp: given_row_def)
    qed
    ultimately show ?thesis using ok rows moved unfolding next_cursor by (simp add: reader_ok_def)
  qed
qed

fun reader_run :: "string \<Rightarrow> audit_step list \<Rightarrow> reader \<Rightarrow> reader" where
  "reader_run owner [] state = state"
| "reader_run owner (step # steps) state = reader_run owner steps (reader_step owner step state)"

lemma prune_empty: "snd (prune False before max_rows []) = []"
  by (simp add: prune_def prune_floor_def Let_def)

lemma reader_step_ok:
  assumes ok: "reader_ok owner start state" and kept: "newest_kept owner [step] state"
  shows "reader_ok owner start (reader_step owner step state)"
proof -
  obtain rows cursor given where state: "state = (rows, cursor, given)" by (cases state)
  have rows: "audit_ok rows" using ok by (simp add: state reader_ok_def)
  show ?thesis
  proof (cases step)
    case (Ingest events)
    with reader_extends [OF ok [unfolded state] ingest_extends [OF rows]] show ?thesis by (simp add: state)
  next
    case (Prune before max_rows)
    show ?thesis
    proof (cases "rows = []")
      case True
      with ok show ?thesis by (simp add: state Prune prune_empty)
    next
      case False
      with kept have "\<not> ax_occurred_at (last rows) < before" by (simp add: state Prune)
      from reader_extends [OF ok [unfolded state] prune_extends [OF rows False this]] show ?thesis by (simp add: state Prune)
    qed
  next
    case (ReadTail limit)
    with reader_reads [OF ok [unfolded state]] show ?thesis by (simp add: state)
  qed
qed

lemma reader_run_ok:
  "reader_ok owner start state \<Longrightarrow> newest_kept owner steps state \<Longrightarrow> reader_ok owner start (reader_run owner steps state)"
proof (induction steps arbitrary: state)
  case (Cons step steps)
  then have "reader_ok owner start (reader_step owner step state)" by (intro reader_step_ok) (auto simp del: reader_step.simps)
  with Cons show ?case by simp
qed simp

text \<open>Every row that ever stood in the index, and the Owner's rows that pruning took away before they were read.\<close>

fun arrived :: "string \<Rightarrow> audit_step list \<Rightarrow> reader \<Rightarrow> audit_row list" where
  "arrived owner [] state = fst state"
| "arrived owner (step # steps) state = fst state @ arrived owner steps (reader_step owner step state)"

fun pruned_unread :: "string \<Rightarrow> audit_step list \<Rightarrow> reader \<Rightarrow> audit_row list" where
  "pruned_unread owner [] state = []"
| "pruned_unread owner (step # steps) state =
     filter (\<lambda>r. ax_owner_id r = Some owner \<and> fst (snd state) < ax_ingest_seq r \<and> r \<notin> set (fst (reader_step owner step state))) (fst state)
     @ pruned_unread owner steps (reader_step owner step state)"

lemma arrived_first: "r \<in> set (fst state) \<Longrightarrow> r \<in> set (arrived owner steps state)"
  by (cases steps) simp_all

lemma given_grows: "g \<in> set (snd (snd state)) \<Longrightarrow> g \<in> set (snd (snd (reader_run owner steps state)))"
proof (induction steps arbitrary: state)
  case (Cons step steps)
  have "g \<in> set (snd (snd (reader_step owner step state)))" using Cons.prems by (cases state; cases step) (auto simp: Let_def)
  from Cons.IH [OF this] show ?case by simp
qed simp

text \<open>A page holds rows of the Owner alone, each as it stands in the index.\<close>

lemma page_owned:
  "g \<in> set (tail_for_owner owner (Some cursor) limit rows) \<Longrightarrow> \<exists>r\<in>set rows. ax_owner_id r = Some owner \<and> g = given_row r"
  by (auto simp: tail_for_owner_def limited_def given_row_def Let_def split: if_splits dest!: in_set_takeD)

lemma given_owned:
  "g \<in> set (snd (snd (reader_run owner steps state))) \<Longrightarrow> g \<notin> set (snd (snd state)) \<Longrightarrow>
    \<exists>r\<in>set (arrived owner steps state). ax_owner_id r = Some owner \<and> g = given_row r"
proof (induction steps arbitrary: state)
  case (Cons step steps)
  show ?case
  proof (cases "g \<in> set (snd (snd (reader_step owner step state)))")
    case True
    with Cons.prems(2) have "\<exists>r\<in>set (fst state). ax_owner_id r = Some owner \<and> g = given_row r"
      by (cases state; cases step) (auto simp: Let_def dest: page_owned)
    then show ?thesis by auto
  next
    case False
    from Cons.IH [OF _ this] Cons.prems(1) show ?thesis by auto
  qed
qed simp

text \<open>What stands in the index beyond the cursor is read, pruned unread, or still there.\<close>

lemma arrived_accounted:
  "reader_ok owner start state \<Longrightarrow> newest_kept owner steps state \<Longrightarrow> reader_run owner steps state = (rows', cursor, given) \<Longrightarrow>
    r \<in> set (arrived owner steps state) \<Longrightarrow> ax_owner_id r = Some owner \<Longrightarrow> start < ax_ingest_seq r \<Longrightarrow>
    given_row r \<in> set given \<or> r \<in> set (pruned_unread owner steps state) \<or> (r \<in> set rows' \<and> cursor < ax_ingest_seq r)"
proof (induction steps arbitrary: state)
  case Nil
  then show ?case by (auto simp: reader_ok_def)
next
  case (Cons step steps)
  let ?next = "reader_step owner step state"
  have ok: "reader_ok owner start ?next" "newest_kept owner steps ?next" "reader_run owner steps ?next = (rows', cursor, given)"
    using Cons.prems(1-3) by (auto intro!: reader_step_ok simp del: reader_step.simps)
  note IH = Cons.IH [OF ok _ Cons.prems(5,6)]
  show ?case
  proof (cases "r \<in> set (arrived owner steps ?next)")
    case True
    with IH show ?thesis by auto
  next
    case False
    then have r: "r \<in> set (fst state)" "r \<notin> set (fst ?next)" using Cons.prems(4) arrived_first [of r ?next owner steps] by auto
    show ?thesis
    proof (cases "fst (snd state) < ax_ingest_seq r")
      case True
      with r Cons.prems(5) show ?thesis by simp
    next
      case False
      with Cons.prems(1,5,6) r(1) have "given_row r \<in> set (snd (snd state))" by (auto simp: reader_ok_def split: prod.splits)
      with given_grows [of _ state owner "step # steps"] Cons.prems(3) show ?thesis by simp
    qed
  qed
qed

text \<open>A sequence that no row has any more is not given later: the keys only grow.\<close>

definition retired :: "int \<Rightarrow> reader \<Rightarrow> bool" where
  "retired seq state \<longleftrightarrow> seq < next_seq (fst state) \<and> seq \<notin> ax_ingest_seq ` set (fst state) \<and> seq \<notin> fst ` set (snd (snd state))"

lemma step_extends:
  assumes "audit_ok (fst state)" and "newest_kept owner [step] state"
  shows "extends (fst state) (fst (reader_step owner step state))"
proof -
  obtain rows cursor given where state: "state = (rows, cursor, given)" by (cases state)
  have same: "extends rows rows" using assms(1) by (simp add: state extends_def)
  show ?thesis
  proof (cases step)
    case (Prune before max_rows)
    then show ?thesis
      using assms same prune_extends [of rows before max_rows] by (cases "rows = []") (auto simp: state prune_empty)
  qed (use assms(1) same ingest_extends [of rows] in \<open>auto simp: state Let_def\<close>)
qed

lemma retired_step:
  assumes "audit_ok (fst state)" and "newest_kept owner [step] state" and "retired seq state"
  shows "retired seq (reader_step owner step state)"
proof -
  have "seq < next_seq (fst (reader_step owner step state)) \<and> seq \<notin> ax_ingest_seq ` set (fst (reader_step owner step state))"
    using step_extends [OF assms(1,2)] assms(3) by (force simp: extends_def retired_def)
  moreover have "seq \<notin> fst ` set (snd (snd (reader_step owner step state)))"
    using assms(3) by (cases state; cases step) (force simp: retired_def Let_def given_row_def dest: page_owned)+
  ultimately show ?thesis by (simp add: retired_def)
qed

lemma retired_run:
  "reader_ok owner start state \<Longrightarrow> newest_kept owner steps state \<Longrightarrow> retired seq state \<Longrightarrow> retired seq (reader_run owner steps state)"
proof (induction steps arbitrary: state)
  case (Cons step steps)
  have "audit_ok (fst state)" using Cons.prems(1) by (auto simp: reader_ok_def split: prod.splits)
  moreover have kept: "newest_kept owner [step] state" using Cons.prems(2) by (simp del: reader_step.simps)
  ultimately have "retired seq (reader_step owner step state)" using Cons.prems(3) by (rule retired_step)
  from Cons.IH [OF reader_step_ok [OF Cons.prems(1) kept] _ this] Cons.prems(2) show ?case by simp
qed simp

lemma seq_unique: "audit_ok rows \<Longrightarrow> r \<in> set rows \<Longrightarrow> r' \<in> set rows \<Longrightarrow> ax_ingest_seq r = ax_ingest_seq r' \<Longrightarrow> r = r'"
  using strict_sorted_iff [of "map ax_ingest_seq rows"] by (auto simp: audit_ok_def distinct_map inj_on_def)

lemma pruned_unread_retired:
  "reader_ok owner start state \<Longrightarrow> newest_kept owner steps state \<Longrightarrow> r \<in> set (pruned_unread owner steps state) \<Longrightarrow>
    retired (ax_ingest_seq r) (reader_run owner steps state)"
proof (induction steps arbitrary: state)
  case (Cons step steps)
  let ?next = "reader_step owner step state"
  have kept: "newest_kept owner [step] state" "newest_kept owner steps ?next" using Cons.prems(2) by (simp_all del: reader_step.simps)
  have ok: "reader_ok owner start ?next" by (rule reader_step_ok [OF Cons.prems(1) kept(1)])
  obtain rows cursor given where state: "state = (rows, cursor, given)" by (cases state)
  have rows: "audit_ok rows" using Cons.prems(1) by (simp add: state reader_ok_def)
  show ?case
  proof (cases "r \<in> set (pruned_unread owner steps ?next)")
    case True
    from Cons.IH [OF ok kept(2) this] show ?thesis by simp
  next
    case False
    then have r: "r \<in> set rows" "cursor < ax_ingest_seq r" "r \<notin> set (fst ?next)" using Cons.prems(3) by (simp_all add: state)
    have ext: "extends rows (fst ?next)" using step_extends [OF _ kept(1)] rows by (simp add: state)
    have "ax_ingest_seq r \<notin> ax_ingest_seq ` set (fst ?next)"
    proof
      assume "ax_ingest_seq r \<in> ax_ingest_seq ` set (fst ?next)"
      then obtain q where q: "q \<in> set (fst ?next)" "ax_ingest_seq q = ax_ingest_seq r" by auto
      with ext next_seq_above [OF r(1)] have "q \<in> set rows" by (force simp: extends_def)
      with seq_unique [OF rows r(1), of q] q r(3) show False by simp
    qed
    moreover have "ax_ingest_seq r < next_seq (fst ?next)" using ext next_seq_above [OF r(1)] by (simp add: extends_def)
    moreover have "snd (snd ?next) = given"
      using r(1,3) by (cases step) (simp_all add: state Let_def)
    moreover have "ax_ingest_seq r \<notin> fst ` set given" using Cons.prems(1) r(2) by (force simp: state reader_ok_def)
    ultimately have "retired (ax_ingest_seq r) ?next" by (simp add: retired_def)
    from retired_run [OF ok kept(2) this] show ?thesis by simp
  qed
qed simp

text \<open>
  C40. A reader that resumes from the last sequence it was given gets the rows of its Owner once, in
  the order of arrival. This holds however its reads are interleaved with arrivals and with pruning,
  as long as no pruning takes away the newest row. What it is given are rows of its own Owner that
  stood in the index, each as it stood there and none twice. Of all the Owner's rows beyond its start
  that ever stood in the index, each one is in exactly one of three places: given; pruned before it was
  read, and then never given; or still in the index beyond the cursor. A read that gives nothing means
  that nothing is left in the third.
\<close>

theorem audit_tail_exactly_once:
  assumes "audit_ok rows" and "start < next_seq rows" and "newest_kept owner steps (rows, start, [])"
    and "reader_run owner steps (rows, start, []) = (rows', cursor, given)"
  shows "sorted_wrt (<) (map fst given)
    \<and> (\<forall>g\<in>set given. \<exists>r\<in>set (arrived owner steps (rows, start, [])).
        ax_owner_id r = Some owner \<and> start < ax_ingest_seq r \<and> g = (ax_ingest_seq r, index_envelope r))
    \<and> (\<forall>r\<in>set (arrived owner steps (rows, start, [])). ax_owner_id r = Some owner \<longrightarrow> start < ax_ingest_seq r \<longrightarrow>
        (let read = (ax_ingest_seq r, index_envelope r) \<in> set given;
             lost = r \<in> set (pruned_unread owner steps (rows, start, []));
             waiting = r \<in> set rows' \<and> cursor < ax_ingest_seq r
         in (read \<and> \<not> lost \<and> \<not> waiting) \<or> (\<not> read \<and> lost \<and> r \<notin> set rows') \<or> (\<not> read \<and> \<not> lost \<and> waiting)))
    \<and> (limit \<noteq> 0 \<longrightarrow> tail_for_owner owner (Some cursor) limit rows' = [] \<longrightarrow>
        (\<forall>r\<in>set rows'. ax_owner_id r = Some owner \<longrightarrow> start < ax_ingest_seq r \<longrightarrow> (ax_ingest_seq r, index_envelope r) \<in> set given))"
    (is "?sorted \<and> ?owned \<and> ?placed \<and> ?emptied")
proof -
  have start: "reader_ok owner start (rows, start, [])" using assms(1,2) by (simp add: reader_ok_def)
  from reader_run_ok [OF this assms(3)] have ok: "reader_ok owner start (rows', cursor, given)" by (simp add: assms(4))
  have beyond: "start < fst g \<and> fst g \<le> cursor" if "g \<in> set given" for g using ok that by (simp add: reader_ok_def)
  have ?owned using given_owned [of _ owner steps "(rows, start, [])"] beyond by (fastforce simp: assms(4) given_row_def)
  moreover have ?placed
  proof (intro ballI impI)
    fix r assume r: "r \<in> set (arrived owner steps (rows, start, []))" "ax_owner_id r = Some owner" "start < ax_ingest_seq r"
    have lost: "given_row r \<notin> set given \<and> r \<notin> set rows'" if "r \<in> set (pruned_unread owner steps (rows, start, []))"
      using pruned_unread_retired [OF start assms(3) that] by (force simp: assms(4) retired_def given_row_def)
    have read: "\<not> cursor < ax_ingest_seq r" if "given_row r \<in> set given" using beyond [OF that] by (simp add: given_row_def)
    from arrived_accounted [OF start assms(3,4) r] lost read
    show "let read = (ax_ingest_seq r, index_envelope r) \<in> set given; lost = r \<in> set (pruned_unread owner steps (rows, start, []));
             waiting = r \<in> set rows' \<and> cursor < ax_ingest_seq r
         in (read \<and> \<not> lost \<and> \<not> waiting) \<or> (\<not> read \<and> lost \<and> r \<notin> set rows') \<or> (\<not> read \<and> \<not> lost \<and> waiting)"
      unfolding given_row_def Let_def by blast
  qed
  moreover have ?emptied
  proof (intro impI ballI)
    fix r assume r: "limit \<noteq> 0" "tail_for_owner owner (Some cursor) limit rows' = []" "r \<in> set rows'" "ax_owner_id r = Some owner"
      "start < ax_ingest_seq r"
    have "filter (\<lambda>r. ax_owner_id r = Some owner \<and> cursor < ax_ingest_seq r) rows' = []"
      using r(1,2) ok by (auto simp: tail_is_filter reader_ok_def limited_def split: if_splits)
    with ok r show "(ax_ingest_seq r, index_envelope r) \<in> set given" by (auto simp: reader_ok_def given_row_def filter_empty_conv)
  qed
  ultimately show ?thesis using ok by (simp add: reader_ok_def)
qed

definition sample_event :: "string \<Rightarrow> int \<Rightarrow> AuditEnvelope" where
  "sample_event ident at = \<lparr>ae_event_id = ident, ae_producer = ''hub'', ae_producer_seq = 1, ae_category = ''device'', ae_owner_id = Some ''o'',
     ae_subject_type = ''device'', ae_subject_id = ''d1'', ae_action = ''claim'', ae_outcome = ''ok'', ae_severity = ''info'', ae_reason = None,
     ae_trace_id = None, ae_data_classification = ''internal'', ae_schema_version = 1, ae_payload = [], ae_occurred_at = at\<rparr>"

lemma sample_steps:
  "ingest False [sample_event ''a'' 10] [] = (Inr 1, [audit_row_of 1 (sample_event ''a'' 10)])"
  "tail_for_owner ''o'' (Some 0) 5 [audit_row_of 1 (sample_event ''a'' 10)] = [(1, sample_event ''a'' 10)]"
  by (simp_all add: ingest_def insert_event_def next_seq_def audit_row_of_def tail_for_owner_def limited_def index_envelope_def sample_event_def)

text \<open>Two events arrive, the older is pruned before anybody reads, and the reader is given the other alone.\<close>

lemma audit_tail_exactly_once_witness:
  "\<exists>rows cursor. reader_run ''o'' [Ingest [sample_event ''a'' 10, sample_event ''b'' 20], Prune 15 100, ReadTail 5] ([], 0, [])
       = (rows, cursor, [(2, sample_event ''b'' 20)])
     \<and> pruned_unread ''o'' [Ingest [sample_event ''a'' 10, sample_event ''b'' 20], Prune 15 100, ReadTail 5] ([], 0, [])
       = [audit_row_of 1 (sample_event ''a'' 10)]
     \<and> tail_for_owner ''o'' (Some cursor) 5 rows = []
     \<and> (\<forall>r\<in>set rows. ax_owner_id r = Some ''o'' \<longrightarrow> 0 < ax_ingest_seq r
          \<longrightarrow> (ax_ingest_seq r, index_envelope r) \<in> set [(2, sample_event ''b'' 20)])"
proof -
  let ?a = "audit_row_of 1 (sample_event ''a'' 10)" and ?b = "audit_row_of 2 (sample_event ''b'' 20)"
  let ?steps = "[Ingest [sample_event ''a'' 10, sample_event ''b'' 20], Prune 15 100, ReadTail 5]"
  have ingest: "ingest False [sample_event ''a'' 10, sample_event ''b'' 20] [] = (Inr 2, [?a, ?b])"
    by (simp add: ingest_def insert_event_def next_seq_def audit_row_of_def sample_event_def)
  have prune: "snd (prune False 15 100 [?a, ?b]) = [?b]"
    by (simp add: prune_def prune_floor_def audit_row_of_def sample_event_def)
  have tail: "tail_for_owner ''o'' (Some 0) 5 [?b] = [(2, sample_event ''b'' 20)]" "tail_for_owner ''o'' (Some 2) 5 [?b] = []"
    by (simp_all add: tail_for_owner_def limited_def audit_row_of_def sample_event_def index_envelope_def)
  have run: "reader_run ''o'' ?steps ([], 0, []) = ([?b], 2, [(2, sample_event ''b'' 20)])" by (simp add: ingest prune tail)
  have "?a \<noteq> ?b" "ax_owner_id ?a = Some ''o''" "ax_ingest_seq ?a = 1" by (simp_all add: audit_row_of_def sample_event_def)
  then have lost: "pruned_unread ''o'' ?steps ([], 0, []) = [?a]" by (simp add: ingest prune tail)
  have "ax_occurred_at ?b = 20" by (simp add: audit_row_of_def sample_event_def)
  then have "audit_ok []" "0 < next_seq []" "newest_kept ''o'' ?steps ([], 0, [])"
    by (simp_all add: audit_ok_def next_seq_def ingest prune tail)
  from audit_tail_exactly_once [OF this run, of 5] tail(2) run lost show ?thesis by auto
qed

text \<open>
  When pruning takes away the newest row its sequence is given again, to another event, and a reader
  whose cursor stands there is never given that event.
\<close>

lemma pruned_sequence_reused:
  "reader_run ''o'' [Ingest [sample_event ''a'' 10], ReadTail 5, Prune 11 100, Ingest [sample_event ''b'' 20], ReadTail 5] ([], 0, [])
    = ([audit_row_of 1 (sample_event ''b'' 20)], 1, [(1, sample_event ''a'' 10)])"
proof -
  have "snd (prune False 11 100 [audit_row_of 1 (sample_event ''a'' 10)]) = []"
    by (simp add: prune_def prune_floor_def audit_row_of_def sample_event_def)
  moreover have "ingest False [sample_event ''b'' 20] [] = (Inr 1, [audit_row_of 1 (sample_event ''b'' 20)])"
    by (simp add: ingest_def insert_event_def next_seq_def)
  moreover have "tail_for_owner ''o'' (Some 1) 5 [audit_row_of 1 (sample_event ''b'' 20)] = []"
    by (simp add: tail_for_owner_def limited_def audit_row_of_def)
  ultimately show ?thesis by (simp add: sample_steps)
qed

text \<open>Pruning leaves nothing older than its bound and at most \<open>max_rows\<close> rows, where a bound below one counts as one.\<close>

lemma filter_from_sorted:
  assumes "sorted_wrt (<) (map ax_ingest_seq rows)" and "j < length rows"
  shows "filter (\<lambda>r. \<not> ax_ingest_seq r < ax_ingest_seq (rows ! j)) rows = drop j rows"
proof -
  have split: "rows = take j rows @ rows ! j # drop (Suc j) rows" using id_take_nth_drop [OF assms(2)] .
  have sorted: "sorted_wrt (<) (map ax_ingest_seq (take j rows @ rows ! j # drop (Suc j) rows))" using assms(1) split by metis
  have "filter (\<lambda>r. \<not> ax_ingest_seq r < ax_ingest_seq (rows ! j)) (take j rows @ rows ! j # drop (Suc j) rows) = rows ! j # drop (Suc j) rows"
    using sorted by (auto simp: sorted_wrt_append filter_empty_conv filter_id_conv)
  then show ?thesis using split assms(2) by (simp add: Cons_nth_drop_Suc)
qed

lemma prune_bounds:
  assumes "audit_ok rows" and "prune False before max_rows rows = (Inr n, rows')"
  shows "length rows' \<le> nat (max 1 max_rows) \<and> (\<forall>r\<in>set rows'. before \<le> ax_occurred_at r) \<and> n = length rows - length rows'"
proof -
  let ?rows1 = "filter (\<lambda>r. \<not> ax_occurred_at r < before) rows"
  let ?k = "nat (max_rows - 1)"
  have rows': "rows' = (case prune_floor max_rows ?rows1 of None \<Rightarrow> ?rows1 | Some floor \<Rightarrow> filter (\<lambda>r. \<not> ax_ingest_seq r < floor) ?rows1)"
    and n: "n = length rows - length ?rows1 + (length ?rows1 - length rows')"
    using assms(2) by (auto simp: prune_def Let_def)
  have id: "sort_key ax_ingest_seq ?rows1 = ?rows1" by (rule audit_sort_id [OF assms(1)])
  have sorted: "sorted_wrt (<) (map ax_ingest_seq ?rows1)" using audit_filter_ok [OF assms(1)] by (simp add: audit_ok_def)
  have "length rows' \<le> Suc ?k"
  proof (cases "?k < length ?rows1")
    case False
    then show ?thesis unfolding rows' by (simp add: prune_floor_def id)
  next
    case True
    let ?j = "length ?rows1 - Suc ?k"
    have "drop ?k (rev ?rows1) = rev ?rows1 ! ?k # drop (Suc ?k) (rev ?rows1)" using True by (simp add: Cons_nth_drop_Suc)
    then have "prune_floor max_rows ?rows1 = Some (ax_ingest_seq (?rows1 ! ?j))" using True by (simp add: prune_floor_def id rev_nth)
    then have "rows' = drop ?j ?rows1" unfolding rows' using filter_from_sorted [OF sorted, of ?j] True by simp
    then show ?thesis using True by simp
  qed
  moreover have "length rows' \<le> length ?rows1"
    unfolding rows' by (cases "prune_floor max_rows ?rows1") (simp_all del: filter_filter)
  moreover have "length ?rows1 \<le> length rows" "\<forall>r\<in>set rows'. before \<le> ax_occurred_at r"
    unfolding rows' by (auto split: option.split)
  ultimately show ?thesis using n by auto
qed

end
