(* ===== verification/Spec2Isabelle.thy ===== *)
theory Spec2Isabelle
  imports Windows Link_Auth Startup Schema Wire_Contracts Owner_Reading Local_Admission Removal_Broker Audit_Index
begin

text \<open>
  \<^bold>\<open>The authority of an Eidolon Host: bootstrap, device removal and audit.\<close>

  The repository is the administration server of a small always-on Host. Its core is the bootstrap
  daemon (\<open>src/server/eidolon_admin_server/bootstrap\<close>): it decides who may control the Host, by
  which proof, and how a phone gets in for the first time. This development models that daemon from
  the database file up to the requests on its sockets, and two programs beside it: the workflow that
  removes a device, from the Local API's call through its daemon and its ledger to the Hub, and the
  index of the audit stream. It also models the service that those programs share with the operator's page
  and the phone, \<open>app/control_plane/service.py\<close>, with the clients it reaches every other service by, and
  the plane through which an Owner manages their Companions, \<open>app/management\<close>.

  \<^bold>\<open>Parts and how they interact.\<close>
  A store (SQLite, or memory in tests) holds the authority: the reset epoch, the Grants of Controllers,
  the claim windows opened by Setup codes, and the operation journal of network changes. Use cases
  (\<open>commissioning_service.py\<close>) act on the store and on a network adapter. A commissioning link
  (\<open>commissioning_protocol.py\<close>) authenticates a phone by Setup code or by signed challenge and
  dispatches to the use cases. The service (\<open>service.py\<close>) opens windows, mints codes, recovers and
  resets the Host, authenticates Controllers over the LAN and publishes a signed endpoint. The control
  socket (\<open>control.py\<close>) dispatches local requests to the service; the daemon (\<open>daemon.py\<close>) starts
  everything and shares one service between the control socket and the links.

  A device is removed in four processes. The Local API (\<open>local_api/device_admissions.py\<close>) issues a
  delegation and sends it in a frame over a Unix socket. The lifecycle daemon
  (\<open>lifecycle_workflow/daemon.py\<close>) takes the peer's identity from the kernel, compares the delegation
  with the request and calls \<open>ControlPlaneService.remove_controller_device\<close>, which records an intent in a
  ledger (\<open>removal_intents.py\<close>) before it asks the Hub to revoke the claim. It holds no key of the Hub:
  its Hub is a client of a broker (\<open>capability.py\<close>) in the Admin process. The Kernel is watched until
  the mount is gone. The ledger of enrollment decisions (\<open>admission_intents.py\<close>) follows the same
  contract. The control plane speaks to Data, Memory, the Agent, the Hub and the Kernel through clients
  (\<open>clients.py\<close>) that find an address in a directory (\<open>directory.py\<close>), send one request and check what came
  back; what a client refuses is turned into a response in one place (\<open>failure_handler.py\<close>). The audit index (\<open>audit/index.py\<close>) is filled from a stream, pruned hourly and read by screens.

  \<^bold>\<open>Theories.\<close>
  \<^item> \<open>Prelude\<close>: operations that may raise and mutate (\<open>op\<close>, \<open>bindS\<close>, \<open>catchS\<close>, \<open>transact\<close>), what an
    operation may change (\<open>framed\<close>), JSON, dictionaries.
  \<^item> \<open>Domain\<close> (\<open>domain/model.py\<close>), \<open>Store_Port\<close> (\<open>ports/state_store.py\<close>), \<open>Store_Memory\<close> and
    \<open>Store_SQLite\<close> (\<open>adapters/persistence\<close>): one definition per method, a record per table row, the
    statements with their constraints. \<open>Store_Refinement\<close> and \<open>Store_Calls\<close> relate the two adapters.
  \<^item> \<open>Schema\<close>: the database file, the SQL statements of \<open>initialize\<close> and the ladder of migrations.
  \<^item> \<open>Authority\<close>: the contract \<open>authority_store\<close> every adapter is shown to meet (who is authorized
    after each call); \<open>Windows\<close>: what follows of any run of calls.
  \<^item> \<open>Encoding\<close>, \<open>Json_Text\<close>, \<open>Settings\<close>, \<open>Addresses\<close>: base64url, UUIDs, JSON text, \<open>config.py\<close>,
    \<open>host_addresses.py\<close>, \<open>endpoint_encoding.py\<close>.
  \<^item> \<open>Network\<close> (\<open>ports/network_provisioning.py\<close> and the memory adapter), \<open>Runtime\<close> (the world an
    operation acts on; the contract \<open>host_env\<close>), \<open>Operations\<close> (the journal contract),
    \<open>Commissioning\<close> (\<open>commissioning_service.py\<close>, \<open>controller_auth.py\<close>), \<open>Commissioning_Protocol\<close>,
    \<open>Network_Change\<close> (what a Wi-Fi change leaves behind on every branch).
  \<^item> \<open>Host_Service\<close> (\<open>service.py\<close>), \<open>Control_Socket\<close> (\<open>control.py\<close>), \<open>Host_Steps\<close> and \<open>Daemon\<close>: the
    running daemon as a step relation over links, control requests and a radio that changes by itself;
    \<open>Startup\<close>: how it comes up.
  \<^item> \<open>Host_Claims\<close>, \<open>Host_Windows\<close>, \<open>Link_Auth\<close>, \<open>Endpoint\<close>, \<open>Wire_Contracts\<close>: the properties of the
    daemon and of what crosses the wire.
  \<^item> \<open>Ledger\<close>: the SDK as parameters and the contract \<open>intent_ledger\<close> of a journal of intents;
    \<open>Removal_Intents\<close> and \<open>Admission_Intents\<close>: the two ledgers, each with an adapter in memory and one
    over SQLite, all four shown to meet the contract.
  \<^item> \<open>Intent_Log\<close>: what a workflow over a ledger may send, proved once for both workflows;
    \<open>Control_Contracts\<close>: the refusals (\<open>errors.py\<close>) and the steps and mounts (\<open>contracts.py\<close>) they share.
    \<open>Decision_Workflow\<close>: \<open>decide_controller_enrollment\<close> of \<open>service.py\<close> over the ledger of decisions.
  \<^item> \<open>Authority_Http\<close>: requests, answers, quoting, the directory and the handler; \<open>Data_Clients\<close>,
    \<open>Runtime_Clients\<close> (Memory and the Agent) and \<open>Hub_Clients\<close> (the Hub and the Kernel): one operation per
    method of \<open>clients.py\<close>. \<open>Operator_Admission\<close>: \<open>admit_operator_device\<close> and the inventory;
    \<open>Controller_Commands\<close>: the other commands of \<open>service.py\<close>, with \<open>hub_credentials.py\<close> and
    \<open>commissioning_vouchers.py\<close>.
  \<^item> \<open>Owner_Management\<close>: what an Owner does through \<open>app/management\<close> (\<open>roster.py\<close>, \<open>context.py\<close>, \<open>lifecycle.py\<close>,
    \<open>creation.py\<close>, \<open>naming.py\<close>, \<open>faces.py\<close>, \<open>persona.py\<close>, \<open>sessions.py\<close>) with the routes of \<open>router.py\<close> that hand these
    functions the clients, and the contract \<open>owner_scope\<close> of the read that proves ownership;
    \<open>Owner_Reading\<close>: what an Owner reads (\<open>activity.py\<close>, \<open>activity_feed.py\<close>, \<open>memory.py\<close>, \<open>recollecting.py\<close>,
    \<open>forgetting.py\<close>) with its routes.
  \<^item> \<open>Local_Api\<close>: the process a phone speaks to, with its sessions (\<open>local_api/auth.py\<close>), its client of the daemon
    (\<open>BootstrapControlClient\<close>), the workspace of the Host (\<open>local_api/workspace.py\<close>) and the part of
    \<open>local_api/app.py\<close> that authenticates a request and learns whose Host this is. Its histories interleave
    requests with anything the daemon and the other services may do. \<open>Local_Devices\<close>: its clients of the control plane
    (\<open>local_api/device_admissions.py\<close>, \<open>local_api/devices.py\<close>), the inventory that \<open>app.py\<close> composes of them, the changes to one
    device and the revocation of a phone; \<open>Local_Admission\<close>: the routes about vouchers, enrollments, Claims and
    decisions, groups and conversations of devices (\<open>role_groups.py\<close>).
  \<^item> \<open>Removal_Workflow\<close> (\<open>remove_controller_device\<close> of \<open>service.py\<close>), \<open>Lifecycle\<close> (\<open>peercred.py\<close>,
    \<open>protocol.py\<close>, \<open>daemon.py\<close>), \<open>Local_Removal\<close> (\<open>device_admissions.py\<close>), \<open>Removal_Broker\<close>
    (\<open>capability.py\<close>): a removal along its way. The ledger is concrete; the Hub, the Kernel and the
    clocks live in a world of which nothing is assumed. \<open>Audit_Index\<close>: \<open>audit/index.py\<close>.

  \<^bold>\<open>What is shown.\<close>
  The adapters answer every run of calls of the port alike, up to the order of rows in two reads (C1). Claimed means somebody is authorized, every
  authority goes back to a claim, a reset leaves nobody, a revocation never removes the last
  Controller, a claim needs the code of an open window, a window is used once (C2 to C8); the same
  invariant in every history of the daemon (C16). A Wi-Fi change is staged, refused, repeated or
  failed without leaving the Host half way, save the one branch of C13. Only authorized
  Controllers move the radio (C18), a LAN proof is good once (C19), a link earns its authorization
  by what the request itself carries (C23), every request is answered (C33). Minting, claiming and recovery leave the window that policy
  asks for (C21); a startup comes up with what was interrupted settled and the windows policy asks
  for, or ends with the error of the keys or of an unreadable factory file (C24). A database file of
  any version reads the same after its upgrade (C25, C26); an upgrade that stops after its first
  migration can be resumed from versions 1, 6, 8 and 9 and never from the others (C27).
  Settings, addresses, the endpoint and the encodings meet their bounds and have one spelling (C14,
  C28, C31).
  The Local API lets a request in only with a live session of a phone that proved itself and that the
  daemon's store still authorizes (C9), and holds at most 1024 sessions, each with the lifetime it was issued
  for (C20). In the inventory of an Owner the Kernel, the Hub and the configuration of a device speak of the same
  reference (C17); one Claim that the first page lacks takes the whole inventory away, and a device that is not in
  it is not touched. A phone is revoked only after its standing at the Hub has ended, which also ends when the
  revocation is then refused (C22). A decision is passed on only for the Owner that the phone showed. What Data answered about the Owner is asked for once in a session; a failure to ask is not kept.
  A removal is fixed by the request that first named it (C34), sends one command to the Hub and none
  after an answer (C35), and is always answered, in agreement with the ledger and with what the Kernel
  showed in the run (C36). The daemon acts
  only on a live delegation that matches the request and comes from the allowed uid (C37). Repeating
  a removal through the Local API is refused, though its answers ask for it (C38), and through the
  broker a refusal is never one to retry and an erasure is never seen (C39). A reader of the audit
  index is given the rows of its Owner once and in order; what was pruned before it was read is not
  given (C40).
  An operator's admission touches the Kernel only for a device the Hub has shown to be approved (C10), for the Owner and the device of the request, and its
  answer tells how far it came (C12). A voucher is signed although the Hub refused to stand for it
  (C29). Every refusal of every client has a form on the wire, save that of a face (C11) and that of
  the memory supervisor. The memory credential goes only where discovery points for the one Owner
  (C30). A face, a persona or a name is read or changed only after Data has confirmed whose Companion it is,
  for ids without a slash (C15). Archiving a Companion lets go of its bodies before it asks, and a refusal does not give them
  back (C32). A face that was kept is fetched again only when it changed, a context offers what the Host
  holds a credential for, a transcript has only what was said. A decision on an enrollment is submitted once, like a removal (\<open>Decision_Workflow\<close>).

  \<^bold>\<open>Parameters and idealisations.\<close>
  Code outside the repository is a parameter: SHA-256, DER keys, ECDSA and Ed25519, clocks, random
  draws, UUIDs, interface reports and the factory file are fields of \<open>env\<close> and \<open>host\<close>. The good
  worlds of the daemon assume that UUIDs still to be drawn are new. Text is code points below 256,
  JSON numbers are integers, the monotonic clock counts microseconds. A request runs to its end before
  the next: the store calls of a request do not suspend the event loop, the network calls of a change
  do, and the journal (one active operation) is what keeps changes apart. The one loop that draws
  until it succeeds takes a bound, \<open>h_draws\<close>; C31 shows that thirteen different draws suffice. The
  schema of version 1 is the one the repository's migration test builds.
  The HTTP client is a parameter, an answer carries what reading it as JSON gives, and what pydantic
  makes of a body is the \<open>model\<close> each client is given; the fields that code compares are records.
  Timeouts are milliseconds. The sentences that a phone shows are not in Latin script and are fields of
  \<open>phrases\<close>; the clock, the random bytes and SHA-256 of the Local API are fields of \<open>local_env\<close>. The two reads of the inventory run one after the other here.
  The SDK's device references, results, actors and decisions are type parameters with the functions
  the code applies to them (\<open>sdk\<close>, \<open>admission_sdk\<close>); \<open>sdk_ok\<close> says that what was written as JSON is read
  back and that the digest that names intents does not collide. The wire of the lifecycle socket is
  bytes; JSON and the models over it are \<open>wire\<close>, of which \<open>wire_ok\<close> asks that what fits a frame is read
  back. An Owner Domain id has no colon. The wait for the Kernel takes fuel: one look more than tenths
  of a second fit into the time allowed is enough (C36). Each removal runs to its end before the next;
  the keys of the ledger keep concurrent ones apart.

  \<^bold>\<open>Not modelled.\<close>
  The D-Bus adapters of NetworkManager and BlueZ, TLS, key files, systemd and the command line are
  input and output around this core.
  The management routes of \<open>local_api\<close> and the routes of the control plane hand payloads to the services; what two requests of the Local API do at the same time is not modelled. The dashboards,
  health probes and developer tools around them read other programs. Older
  files of the removal ledger, the binding of sockets, the JetStream consumer and the Darwin reading of
  a peer are left out.
\<close>

section \<open>The store that a startup opens\<close>

text \<open>
  \<open>sq_boot\<close> opens a store that is at the current schema. What stands behind it is a file: after
  \<open>initialize\<close> has brought a file of any version up to date, opening what is read from it gives the
  store that the file held before, with the one renaming of the ladder.
\<close>

lemma boot_opens_upgraded_file:
  assumes "at_version v f" and "fl_user_version f = v" and "1 \<le> v" and "v \<le> 10"
  shows "\<exists>g. sq_initialize now f = (Inr (), g) \<and> at_version 10 g
    \<and> sq_boot now ((read_store g)\<lparr>db_open := False\<rparr>) = (Inr (), renamed_if (v \<le> 9) (read_store f))"
proof -
  obtain g where g: "exec_script (concat (slice_from (v - 1) ladder)) f = (Inr (), g)"
      "at_version 10 g" "read_store g = renamed_if (v \<le> 9) (read_store f)"
    using ladder_climbs [OF assms(1,3,4)] by blast
  let ?g = "g\<lparr>fl_user_version := 10\<rparr>"
  have "sq_initialize now f = (Inr (), ?g)" using assms(2-4) g(1) by (simp add: sq_initialize_def SCHEMA_VERSION_def bindS_def)
  moreover have "at_version 10 ?g" "read_store ?g = read_store g"
    using g(2) by (simp_all add: at_version_def at_schema_def read_store_def rows_of_def)
  moreover have "db_open (read_store g)" by (simp add: read_store_def)
  ultimately show ?thesis using g(3) by (intro exI [of _ ?g]) (simp add: sq_boot_def)
qed

end
